(* ===== verification/Prov_Prelude.thy ===== *)
theory Prov_Prelude
  imports
    Main
    "HOL-Library.List_Lexorder"
    "HOL-Library.Char_ord"
    "HOL-Library.Sublist"
    "HOL-Library.Multiset"
begin

text \<open>
  What every component shares: Python strings (a HOL string, so code points below 256),
  the string methods the source calls, dictionaries in insertion order, the exceptions the
  source raises or lets through, and the generic lemmas about them.

  The string methods follow Python on the code points a \<open>char\<close> holds: the white space
  of \<open>str.strip\<close> and \<open>str.split\<close>, the line boundaries of \<open>str.splitlines\<close>, the
  decimal digits of \<open>\d\<close> and the case pairs of \<open>str.lower\<close> below 256.
\<close>

section \<open>Collections\<close>

named_theorems dict_simps \<open>what a lookup returns after a dictionary operation\<close>
named_theorems py_simps \<open>evaluation rules of the Python string helpers\<close>

section \<open>Exceptions\<close>

text \<open>
  An exception is its class name, which is what the source's handlers and log lines use.
\<close>

datatype pyexc =
    AttributeError | TypeError | ValueError | KeyError | IndexError
  | OSError | TimeoutError | ConnectionError | EOFError | RuntimeError
  | JSONDecodeError | SystemExit string
  | SubprocessTimeout | CalledProcessError
  | UserError string string  \<comment> \<open>an exception class of the repository, with its message\<close>

type_synonym 'a res = "pyexc + 'a"

fun exc_name :: "pyexc \<Rightarrow> string" where
  "exc_name AttributeError = ''AttributeError''"
| "exc_name TypeError = ''TypeError''"
| "exc_name ValueError = ''ValueError''"
| "exc_name KeyError = ''KeyError''"
| "exc_name IndexError = ''IndexError''"
| "exc_name OSError = ''OSError''"
| "exc_name TimeoutError = ''TimeoutError''"
| "exc_name ConnectionError = ''ConnectionError''"
| "exc_name EOFError = ''EOFError''"
| "exc_name RuntimeError = ''RuntimeError''"
| "exc_name JSONDecodeError = ''JSONDecodeError''"
| "exc_name (SystemExit m) = ''SystemExit''"
| "exc_name SubprocessTimeout = ''TimeoutExpired''"
| "exc_name CalledProcessError = ''CalledProcessError''"
| "exc_name (UserError c m) = c"

text \<open>\<open>str(e)\<close>, and \<open>except OSError\<close>: a timeout and a dropped connection are ones.\<close>

definition exc_msg :: "pyexc \<Rightarrow> string" where
  "exc_msg e = (case e of UserError c m \<Rightarrow> m | _ \<Rightarrow> [])"

definition is_os_error :: "pyexc \<Rightarrow> bool" where
  "is_os_error e \<longleftrightarrow> e = OSError \<or> e = TimeoutError \<or> e = ConnectionError"

definition bind_res :: "'a res \<Rightarrow> ('a \<Rightarrow> 'b res) \<Rightarrow> 'b res" where
  "bind_res m f = (case m of Inl e \<Rightarrow> Inl e | Inr a \<Rightarrow> f a)"

lemma bind_res_simps [simp]:
  "bind_res (Inl e) f = Inl e" "bind_res (Inr a) f = f a"
  by (simp_all add: bind_res_def)

lemma bind_res_Inr_iff: "bind_res m f = Inr b \<longleftrightarrow> (\<exists>a. m = Inr a \<and> f a = Inr b)"
  by (cases m) auto

fun map_res :: "('a \<Rightarrow> 'b res) \<Rightarrow> 'a list \<Rightarrow> 'b list res" where
  "map_res f [] = Inr []"
| "map_res f (x # xs) = bind_res (f x) (\<lambda>y. bind_res (map_res f xs) (\<lambda>ys. Inr (y # ys)))"

lemma map_res_Inr_iff:
  "map_res f xs = Inr ys \<longleftrightarrow> list_all2 (\<lambda>x y. f x = Inr y) xs ys"
  by (induction xs arbitrary: ys) (auto simp: bind_res_Inr_iff list_all2_Cons1)

lemma map_res_mem: "map_res f xs = Inr ys \<Longrightarrow> y \<in> set ys \<Longrightarrow> \<exists>x\<in>set xs. f x = Inr y"
  by (fastforce simp: map_res_Inr_iff list_all2_conv_all_nth in_set_conv_nth)

lemma map_res_Inr [simp]: "map_res (\<lambda>x. Inr (f x)) xs = Inr (map f xs)"
  by (induction xs) auto

section \<open>Dictionaries in insertion order\<close>

text \<open>\<open>d[k] = v\<close> on a Python dict: an existing key keeps its position.\<close>

type_synonym ('k, 'v) dict = "('k \<times> 'v) list"

fun dict_set :: "'k \<Rightarrow> 'v \<Rightarrow> ('k, 'v) dict \<Rightarrow> ('k, 'v) dict" where
  "dict_set k v [] = [(k, v)]"
| "dict_set k v ((k', v') # d) = (if k' = k then (k, v) # d else (k', v') # dict_set k v d)"

fun dict_of_pairs :: "('k \<times> 'v) list \<Rightarrow> ('k, 'v) dict \<Rightarrow> ('k, 'v) dict" where
  "dict_of_pairs [] d = d"
| "dict_of_pairs ((k, v) # ps) d = dict_of_pairs ps (dict_set k v d)"

definition keys :: "('k, 'v) dict \<Rightarrow> 'k list" where
  "keys d = map fst d"

lemma map_of_dict_set [dict_simps, simp]: "map_of (dict_set k v d) = (map_of d)(k \<mapsto> v)"
  by (induction k v d rule: dict_set.induct) (auto simp: fun_eq_iff)

lemma set_keys_dict_set [dict_simps, simp]: "set (keys (dict_set k v d)) = insert k (set (keys d))"
  by (induction k v d rule: dict_set.induct) (auto simp: keys_def)

lemma distinct_keys_dict_set [intro, simp]:
  "distinct (keys d) \<Longrightarrow> distinct (keys (dict_set k v d))"
proof (induction k v d rule: dict_set.induct)
  case (2 k v k' v' d)
  then show ?case
    using set_keys_dict_set [of k v d] by (auto simp: keys_def)
qed (simp add: keys_def)

lemma dict_set_fresh: "k \<notin> set (keys d) \<Longrightarrow> dict_set k v d = d @ [(k, v)]"
  by (induction k v d rule: dict_set.induct) (auto simp: keys_def)

lemma map_of_dict_of_pairs:
  "map_of (dict_of_pairs ps d) k = (case map_of (rev ps) k of None \<Rightarrow> map_of d k | Some v \<Rightarrow> Some v)"
  by (induction ps d rule: dict_of_pairs.induct) (auto simp: map_add_def split: option.splits)

lemma set_keys_dict_of_pairs:
  "set (keys (dict_of_pairs ps d)) = set (map fst ps) \<union> set (keys d)"
  by (induction ps d rule: dict_of_pairs.induct) auto

lemma distinct_keys_dict_of_pairs [intro, simp]:
  "distinct (keys d) \<Longrightarrow> distinct (keys (dict_of_pairs ps d))"
  by (induction ps d rule: dict_of_pairs.induct) auto

lemma map_of_eq_None_keys: "map_of d k = None \<longleftrightarrow> k \<notin> set (keys d)"
  by (simp add: keys_def map_of_eq_None_iff)

section \<open>Characters and strings\<close>

definition code :: "char \<Rightarrow> nat" where
  "code c = of_char c"

definition is_digit :: "char \<Rightarrow> bool" where
  "is_digit c \<longleftrightarrow> 48 \<le> code c \<and> code c \<le> 57"

definition is_space :: "char \<Rightarrow> bool" where
  "is_space c \<longleftrightarrow> (9 \<le> code c \<and> code c \<le> 13) \<or> (28 \<le> code c \<and> code c \<le> 32)
     \<or> code c = 133 \<or> code c = 160"

definition lower_char :: "char \<Rightarrow> char" where
  "lower_char c =
     (if (65 \<le> code c \<and> code c \<le> 90) \<or> (192 \<le> code c \<and> code c \<le> 222 \<and> code c \<noteq> 215)
      then char_of (code c + 32) else c)"

definition lower :: "string \<Rightarrow> string" where
  "lower s = map lower_char s"

definition lstrip :: "string \<Rightarrow> string" where
  "lstrip s = dropWhile is_space s"

definition rstrip :: "string \<Rightarrow> string" where
  "rstrip s = rev (dropWhile is_space (rev s))"

definition strip :: "string \<Rightarrow> string" where
  "strip s = rstrip (lstrip s)"

definition startswith :: "string \<Rightarrow> string \<Rightarrow> bool" where
  "startswith p s \<longleftrightarrow> take (length p) s = p"

lemma startswith_iff: "startswith p s \<longleftrightarrow> (\<exists>t. s = p @ t)"
  unfolding startswith_def by (metis append_eq_conv_conj append_take_drop_id)

fun contains :: "string \<Rightarrow> string \<Rightarrow> bool" where
  "contains p [] \<longleftrightarrow> p = []"
| "contains p (c # s) \<longleftrightarrow> startswith p (c # s) \<or> contains p s"

lemma contains_iff: "contains p s \<longleftrightarrow> (\<exists>u v. s = u @ p @ v)"
proof (induction s)
  case Nil
  then show ?case by auto
next
  case (Cons c s)
  note IH = Cons.IH
  show ?case
  proof
    assume "contains p (c # s)"
    then show "\<exists>u v. c # s = u @ p @ v"
    proof (simp, elim disjE)
      assume "startswith p (c # s)"
      then show ?thesis by (metis startswith_iff append_Nil)
    next
      assume "contains p s"
      with IH show ?thesis by (metis append_Cons)
    qed
  next
    assume "\<exists>u v. c # s = u @ p @ v"
    then obtain u v where eq: "c # s = u @ p @ v" by blast
    show "contains p (c # s)"
    proof (cases u)
      case Nil
      with eq have "startswith p (c # s)" by (simp add: startswith_iff)
      then show ?thesis by simp
    next
      case (Cons d w)
      with eq IH show ?thesis by auto
    qed
  qed
qed

text \<open>\<open>str.split(sep)\<close> with a one-character separator: never the empty list.\<close>

fun split_on :: "char \<Rightarrow> string \<Rightarrow> string list" where
  "split_on sep [] = [[]]"
| "split_on sep (c # s) =
     (if c = sep then [] # split_on sep s
      else (case split_on sep s of [] \<Rightarrow> [[c]] | w # ws \<Rightarrow> (c # w) # ws))"

fun join :: "string \<Rightarrow> string list \<Rightarrow> string" where
  "join sep [] = []"
| "join sep [w] = w"
| "join sep (w # v # ws) = w @ sep @ join sep (v # ws)"

lemma split_on_nonempty [simp]: "split_on sep s \<noteq> []"
  by (induction s) (auto split: list.splits)

lemma join_split_on: "join [sep] (split_on sep s) = s"
proof (induction s)
  case (Cons c s)
  then show ?case
    by (cases "split_on sep s"; cases "tl (split_on sep s)") (auto split: list.splits)
qed simp

lemma split_on_no_sep: "sep \<notin> set s \<Longrightarrow> split_on sep s = [s]"
  by (induction s) auto

lemma split_on_append_sep:
  "sep \<notin> set w \<Longrightarrow> split_on sep (w @ sep # s) = w # split_on sep s"
  by (induction w) auto

lemma split_on_join:
  "ws \<noteq> [] \<Longrightarrow> (\<forall>w \<in> set ws. sep \<notin> set w) \<Longrightarrow> split_on sep (join [sep] ws) = ws"
  by (induction "[sep]" ws rule: join.induct) (auto simp: split_on_no_sep split_on_append_sep)

lemma split_on_parts: "w \<in> set (split_on sep s) \<Longrightarrow> sep \<notin> set w"
  by (induction s arbitrary: w) (auto split: if_splits list.splits)

text \<open>\<open>str.split()\<close>: the maximal runs of characters that are not white space.\<close>

fun words_acc :: "string \<Rightarrow> string \<Rightarrow> string list" where
  "words_acc [] w = (if w = [] then [] else [rev w])"
| "words_acc (c # s) w =
     (if is_space c then (if w = [] then words_acc s [] else rev w # words_acc s [])
      else words_acc s (c # w))"

definition split_ws :: "string \<Rightarrow> string list" where
  "split_ws s = words_acc s []"

definition is_linebreak :: "char \<Rightarrow> bool" where
  "is_linebreak c \<longleftrightarrow> (10 \<le> code c \<and> code c \<le> 13) \<or> (28 \<le> code c \<and> code c \<le> 30) \<or> code c = 133"

text \<open>\<open>str.splitlines()\<close>: a carriage return and line feed pair is one boundary, and a
  boundary at the end of the text starts no further line.\<close>

fun lines_acc :: "string \<Rightarrow> string \<Rightarrow> string list" where
  "lines_acc [] w = (if w = [] then [] else [rev w])"
| "lines_acc (c # s) w =
     (if is_linebreak c
      then rev w # lines_acc (if c = CHR 13 \<and> s \<noteq> [] \<and> hd s = CHR 10 then tl s else s) []
      else lines_acc s (c # w))"

definition splitlines :: "string \<Rightarrow> string list" where
  "splitlines s = lines_acc s []"

fun replace_char :: "char \<Rightarrow> string \<Rightarrow> string \<Rightarrow> string" where
  "replace_char c r [] = []"
| "replace_char c r (x # s) = (if x = c then r else [x]) @ replace_char c r s"

text \<open>\<open>str.partition(sep)\<close>: the text before the first occurrence, the separator when
  there is one, and the rest.\<close>

fun partition_str :: "string \<Rightarrow> string \<Rightarrow> string \<times> string \<times> string" where
  "partition_str sep [] = (if sep = [] then ([], [], []) else ([], [], []))"
| "partition_str sep (c # s) =
     (if startswith sep (c # s) then ([], sep, drop (length sep) (c # s))
      else (case partition_str sep s of (a, m, b) \<Rightarrow> (c # a, m, b)))"

section \<open>Integers as text\<close>

definition digit_char :: "nat \<Rightarrow> char" where
  "digit_char n = char_of (48 + n)"

fun nat_str :: "nat \<Rightarrow> string" where
  "nat_str n = (if n < 10 then [digit_char n] else nat_str (n div 10) @ [digit_char (n mod 10)])"

declare nat_str.simps [simp del]

definition int_str :: "int \<Rightarrow> string" where
  "int_str i = (if i < 0 then CHR 45 # nat_str (nat (- i)) else nat_str (nat i))"

definition digit_val :: "char \<Rightarrow> nat" where
  "digit_val c = code c - 48"

definition digits_val :: "string \<Rightarrow> nat" where
  "digits_val s = fold (\<lambda>c n. n * 10 + digit_val c) s 0"

definition all_digits :: "string \<Rightarrow> bool" where
  "all_digits s \<longleftrightarrow> s \<noteq> [] \<and> list_all is_digit s"

lemma code_digit_char: "n < 10 \<Longrightarrow> code (digit_char n) = 48 + n"
  by (simp add: code_def digit_char_def)

lemma digit_char_props [simp]:
  "n < 10 \<Longrightarrow> is_digit (digit_char n)" "n < 10 \<Longrightarrow> digit_val (digit_char n) = n"
  by (simp_all add: is_digit_def digit_val_def code_digit_char)

lemma digits_val_snoc: "digits_val (s @ [c]) = digits_val s * 10 + digit_val c"
  by (simp add: digits_val_def)

lemma nat_str_digits: "all_digits (nat_str n)"
proof (induction n rule: nat_str.induct)
  case (1 n)
  then show ?case by (subst nat_str.simps) (auto simp: all_digits_def)
qed

lemma digits_val_nat_str [simp]: "digits_val (nat_str n) = n"
proof (induction n rule: nat_str.induct)
  case (1 n)
  show ?case
  proof (cases "n < 10")
    case True
    then show ?thesis by (subst nat_str.simps) (simp add: digits_val_def)
  next
    case False
    with 1 show ?thesis by (subst nat_str.simps) (simp add: digits_val_snoc)
  qed
qed

text \<open>\<open>int(text)\<close>: surrounding white space, a sign, and single underscores between digits
  are accepted; anything else is a \<open>ValueError\<close>.\<close>

fun underscores_ok :: "bool \<Rightarrow> string \<Rightarrow> bool" where
  "underscores_ok after_digit [] \<longleftrightarrow> after_digit"
| "underscores_ok after_digit (c # s) \<longleftrightarrow>
     (if is_digit c then underscores_ok True s
      else c = CHR 95 \<and> after_digit \<and> underscores_ok False s)"

definition unsigned_int :: "string \<Rightarrow> int res" where
  "unsigned_int s =
     (if s \<noteq> [] \<and> underscores_ok False s
      then Inr (int (digits_val (filter is_digit s))) else Inl ValueError)"

definition py_int :: "string \<Rightarrow> int res" where
  "py_int text =
     (case strip text of
        [] \<Rightarrow> Inl ValueError
      | c # s \<Rightarrow>
          (if c = CHR 45 then bind_res (unsigned_int s) (\<lambda>n. Inr (- n))
           else if c = CHR 43 then unsigned_int s
           else unsigned_int (c # s)))"

lemma underscores_ok_digits: "list_all is_digit s \<Longrightarrow> s \<noteq> [] \<or> b \<Longrightarrow> underscores_ok b s"
  by (induction s arbitrary: b) auto

lemma digit_not_space: "is_digit c \<Longrightarrow> \<not> is_space c"
  by (auto simp: is_digit_def is_space_def)

lemma strip_no_space:
  assumes "s \<noteq> []" "\<not> is_space (hd s)" "\<not> is_space (last s)"
  shows "strip s = s"
proof -
  have "lstrip s = s" using assms by (cases s) (auto simp: lstrip_def)
  moreover have "rstrip s = s"
    using assms by (cases s rule: rev_cases) (auto simp: rstrip_def)
  ultimately show ?thesis by (simp add: strip_def)
qed

lemma strip_digits: "all_digits s \<Longrightarrow> strip s = s"
  by (rule strip_no_space) (auto simp: all_digits_def list_all_iff digit_not_space)

lemma py_int_digits:
  assumes "all_digits s"
  shows "py_int s = Inr (int (digits_val s))"
proof -
  obtain c t where s: "s = c # t" using assms by (auto simp: all_digits_def neq_Nil_conv)
  with assms have "is_digit c" "list_all is_digit s" by (auto simp: all_digits_def)
  then have "c \<noteq> CHR 45" "c \<noteq> CHR 43" by (auto simp: is_digit_def code_def)
  moreover have "filter is_digit s = s" using assms by (auto simp: all_digits_def list_all_iff)
  moreover have "unsigned_int s = Inr (int (digits_val (filter is_digit s)))"
    using assms underscores_ok_digits [of s False] by (auto simp: unsigned_int_def all_digits_def)
  ultimately show ?thesis
    using strip_digits [OF assms] s by (auto simp: py_int_def)
qed

lemma py_int_nat_str [simp]: "py_int (nat_str n) = Inr (int n)"
  by (simp add: py_int_digits nat_str_digits)

section \<open>Sorting\<close>

text \<open>
  \<open>sorted(xs, key=f, reverse=True)\<close>: the reverse order of the key, equal keys in the order
  they came.
\<close>

definition sorted_desc_by :: "('a \<Rightarrow> 'b::linorder) \<Rightarrow> 'a list \<Rightarrow> 'a list" where
  "sorted_desc_by f xs = rev (sort_key f (rev xs))"

lemma mset_sorted_desc_by [simp]: "mset (sorted_desc_by f xs) = mset xs"
  by (simp add: sorted_desc_by_def)

lemma set_sorted_desc_by [simp]: "set (sorted_desc_by f xs) = set xs"
  by (simp add: sorted_desc_by_def)

lemma length_sorted_desc_by [simp]: "length (sorted_desc_by f xs) = length xs"
  by (simp add: sorted_desc_by_def)

lemma sorted_desc_by_sorted: "sorted_wrt (\<lambda>x y. f y \<le> f x) (sorted_desc_by f xs)"
proof -
  have "sorted (map f (sort_key f (rev xs)))" by simp
  then have "sorted_wrt (\<lambda>x y. f x \<le> f y) (sort_key f (rev xs))"
    by (simp add: sorted_map)
  then show ?thesis by (simp add: sorted_desc_by_def sorted_wrt_rev)
qed

lemma sorted_wrt_take_drop:
  "sorted_wrt P xs \<Longrightarrow> x \<in> set (take n xs) \<Longrightarrow> y \<in> set (drop n xs) \<Longrightarrow> P x y"
  by (metis append_take_drop_id sorted_wrt_append)

text \<open>The distinct elements of a list in order, \<open>sorted(set(xs))\<close>.\<close>

definition sorted_set :: "'a::linorder list \<Rightarrow> 'a list" where
  "sorted_set xs = sort (remdups xs)"

lemma set_sorted_set [simp]: "set (sorted_set xs) = set xs"
  by (simp add: sorted_set_def)

lemma distinct_sorted_set [simp]: "distinct (sorted_set xs)"
  by (simp add: sorted_set_def)

lemma sorted_sorted_set [simp]: "sorted (sorted_set xs)"
  by (simp add: sorted_set_def)

end
