(* ===== verification/Git_Output.thy ===== *)
theory Git_Output
  imports Prov_Prelude
begin

text \<open>
  What \<open>prov/tree_integrity.py\<close> and \<open>prov/asset_manifest.py\<close> share: running git, which is a
  parameter from its arguments and standard input to its output, and reading the answers of
  \<open>ls-tree -z\<close> and \<open>cat-file --batch\<close> by position, as Python slices and searches do. The
  module \<open>prov/hashing.py\<close> is here too: a hash fed one chunk at a time.
\<close>

section \<open>Slices and searches by position\<close>

text \<open>A bound of \<open>xs[i:j]\<close> and of \<open>index(c, i)\<close>: counted from the end when negative, cut at both ends.\<close>

definition slice_bound :: "'a list \<Rightarrow> int \<Rightarrow> nat" where
  "slice_bound xs i = (if i < 0 then nat (i + int (length xs)) else min (nat i) (length xs))"

definition py_slice :: "'a list \<Rightarrow> int \<Rightarrow> int \<Rightarrow> 'a list" where
  "py_slice xs i j = take (slice_bound xs j - slice_bound xs i) (drop (slice_bound xs i) xs)"

definition py_index_from :: "'a list \<Rightarrow> 'a \<Rightarrow> int \<Rightarrow> int res" where
  "py_index_from xs c i =
     (let from_i = drop (slice_bound xs i) xs
      in if c \<in> set from_i
         then Inr (int (slice_bound xs i + length (takeWhile (\<lambda>x. x \<noteq> c) from_i)))
         else Inl ValueError)"

text \<open>\<open>bytes.split()\<close>, whose white space is the ASCII one, and \<open>int\<close> of bytes.\<close>

definition is_byte_space :: "char \<Rightarrow> bool" where
  "is_byte_space c \<longleftrightarrow> (9 \<le> code c \<and> code c \<le> 13) \<or> code c = 32"

fun byte_words :: "string \<Rightarrow> string \<Rightarrow> string list" where
  "byte_words [] w = (if w = [] then [] else [rev w])"
| "byte_words (c # s) w =
     (if is_byte_space c then (if w = [] then byte_words s [] else rev w # byte_words s [])
      else byte_words s (c # w))"

definition split_bytes :: "string \<Rightarrow> string list" where
  "split_bytes s = byte_words s []"

definition int_of_bytes :: "string \<Rightarrow> int res" where
  "int_of_bytes s =
     (if list_ex (\<lambda>c. (28 \<le> code c \<and> code c \<le> 31) \<or> 128 \<le> code c) s then Inl ValueError else py_int s)"

text \<open>\<open>s.split(sep, 1)\<close> unpacked into two, an error when the separator is not there.\<close>

fun split_once :: "char \<Rightarrow> string \<Rightarrow> (string \<times> string) res" where
  "split_once sep [] = Inl ValueError"
| "split_once sep (c # s) =
     (if c = sep then Inr ([], s) else bind_res (split_once sep s) (\<lambda>(a, b). Inr (c # a, b)))"

lemma split_once_append: "sep \<notin> set a \<Longrightarrow> split_once sep (a @ sep # b) = Inr (a, b)"
  by (induction a) auto

lemma slice_at_prefix:
  "py_slice (p @ xs @ s) (int (length p)) (int (length p) + int (length xs)) = xs"
  by (simp add: py_slice_def slice_bound_def nat_add_distrib)

lemma index_after_prefix:
  "c \<notin> set xs \<Longrightarrow> py_index_from (p @ xs @ c # s) c (int (length p)) = Inr (int (length p) + int (length xs))"
proof -
  assume "c \<notin> set xs"
  then have "takeWhile (\<lambda>x. x \<noteq> c) (xs @ c # s) = xs @ takeWhile (\<lambda>x. x \<noteq> c) (c # s)"
    by (intro takeWhile_append2) auto
  then show ?thesis by (simp add: py_index_from_def slice_bound_def Let_def)
qed

lemma byte_words_word:
  "\<forall>c\<in>set w. \<not> is_byte_space c \<Longrightarrow> byte_words (w @ s) v = byte_words s (rev w @ v)"
  by (induction w arbitrary: v) auto

lemma split_bytes_three:
  assumes "\<forall>w\<in>{a, b, c}. w \<noteq> [] \<and> (\<forall>x\<in>set w. \<not> is_byte_space x)"
  shows "split_bytes (a @ '' '' @ b @ '' '' @ c) = [a, b, c]"
  using assms byte_words_word [of c "[]"]
  by (simp add: split_bytes_def byte_words_word is_byte_space_def code_def)

lemma nat_str_no_byte_space: "c \<in> set (nat_str n) \<Longrightarrow> \<not> is_byte_space c"
  using nat_str_digits [of n] by (auto simp: all_digits_def list_all_iff is_digit_def is_byte_space_def)

lemma int_of_bytes_nat_str [simp]: "int_of_bytes (nat_str n) = Inr (int n)"
proof -
  have "\<not> list_ex (\<lambda>c. (28 \<le> code c \<and> code c \<le> 31) \<or> 128 \<le> code c) (nat_str n)"
    using nat_str_digits [of n] by (auto simp: all_digits_def list_all_iff list_ex_iff is_digit_def)
  then show ?thesis by (simp add: int_of_bytes_def)
qed

section \<open>Running git\<close>

text \<open>Arguments and standard input to the output; a nonzero exit is a \<open>CalledProcessError\<close>.\<close>

type_synonym git = "string list \<Rightarrow> string option \<Rightarrow> string res"

definition newline :: string where "newline = [CHR 10]"

definition batch_request :: "string list \<Rightarrow> string" where
  "batch_request paths = concat (map (\<lambda>p. ''HEAD:'' @ p @ newline) paths)"

text \<open>The loop of \<open>_pointers\<close>: \<open>out\<close> read from \<open>pos\<close>, one header for each path.\<close>

fun read_batch :: "string \<Rightarrow> int \<Rightarrow> string list \<Rightarrow> (string, string) dict \<Rightarrow> (string, string) dict res" where
  "read_batch out pos [] blobs = Inr blobs"
| "read_batch out pos (path # paths) blobs =
     bind_res (py_index_from out (CHR 10) pos) (\<lambda>nl.
       let header = split_bytes (py_slice out pos nl) in
       if length header < 3 then read_batch out (nl + 1) paths blobs
       else bind_res (int_of_bytes (header ! 2)) (\<lambda>size.
         let start = nl + 1 in
         read_batch out (start + size + 1) paths (dict_set path (py_slice out start (start + size)) blobs)))"

text \<open>What \<open>cat-file --batch\<close> is documented to print for one object, and for one it does not have.\<close>

definition batch_entry :: "(string \<Rightarrow> (string \<times> string) option) \<Rightarrow> string \<Rightarrow> string" where
  "batch_entry objects p =
     (case objects p of
        Some (oid, content) \<Rightarrow> oid @ '' blob '' @ nat_str (length content) @ newline @ content @ newline
      | None \<Rightarrow> ''HEAD:'' @ p @ '' missing'' @ newline)"

definition plain_name :: "string \<Rightarrow> bool" where
  "plain_name p \<longleftrightarrow> p \<noteq> [] \<and> (\<forall>c\<in>set p. \<not> is_byte_space c)"

lemma newline_space: "is_byte_space (CHR 10)"
  by (simp add: is_byte_space_def code_def)

lemma plain_no_newline: "plain_name p \<Longrightarrow> CHR 10 \<notin> set p"
  using newline_space by (auto simp: plain_name_def)

lemma plain_nat_str: "plain_name (nat_str n)"
  using nat_str_digits [of n] nat_str_no_byte_space [of _ n] by (auto simp: plain_name_def all_digits_def)

lemma split_missing:
  assumes "plain_name p"
  shows "length (split_bytes (''HEAD:'' @ p @ '' missing'')) < 3"
proof -
  have "\<forall>c\<in>set (''HEAD:'' @ p). \<not> is_byte_space c" "\<forall>c\<in>set ''missing''. \<not> is_byte_space c"
    using assms by (auto simp: plain_name_def is_byte_space_def code_def)
  from byte_words_word [OF this(1), of "'' missing''"] byte_words_word [OF this(2), of "[]"] show ?thesis
    by (simp add: split_bytes_def is_byte_space_def code_def)
qed

text \<open>Reading what git printed gives back every object, whatever bytes its content holds.\<close>

lemma read_batch_entries:
  assumes "\<forall>p\<in>set paths. case objects p of Some (oid, content) \<Rightarrow> plain_name oid | None \<Rightarrow> plain_name p"
  shows "read_batch (before @ concat (map (batch_entry objects) paths)) (int (length before)) paths blobs
     = Inr (fold (\<lambda>p d. case objects p of Some (oid, content) \<Rightarrow> dict_set p content d | None \<Rightarrow> d) paths blobs)"
  using assms
proof (induction paths arbitrary: before blobs)
  case (Cons p paths)
  let ?rest = "concat (map (batch_entry objects) paths)"
  show ?case
  proof (cases "objects p")
    case None
    let ?h = "''HEAD:'' @ p @ '' missing''"
    let ?out = "before @ ?h @ CHR 10 # ?rest"
    from Cons.prems None have p: "plain_name p" by simp
    have eq: "before @ concat (map (batch_entry objects) (p # paths)) = ?out"
      by (simp add: batch_entry_def None newline_def)
    have "CHR 10 \<notin> set ?h" using plain_no_newline [OF p] by simp
    then have nl: "py_index_from ?out (CHR 10) (int (length before)) = Inr (int (length before) + int (length ?h))"
      by (rule index_after_prefix)
    have sl: "py_slice ?out (int (length before)) (int (length before) + int (length ?h)) = ?h"
      by (rule slice_at_prefix)
    have "int (length before) + int (length ?h) + 1 = int (length (before @ ?h @ newline))"
      by (simp add: newline_def)
    moreover have "?out = (before @ ?h @ newline) @ ?rest" by (simp add: newline_def)
    ultimately have step: "read_batch ?out (int (length before) + int (length ?h) + 1) paths blobs
        = Inr (fold (\<lambda>p d. case objects p of Some (oid, content) \<Rightarrow> dict_set p content d | None \<Rightarrow> d) paths blobs)"
      using Cons.IH [of "before @ ?h @ newline" blobs] Cons.prems by (simp only:) simp
    show ?thesis
      unfolding eq read_batch.simps nl bind_res_simps Let_def sl
      using split_missing [OF p] step by (simp add: None)
  next
    case (Some oc)
    obtain oid content where oc: "objects p = Some (oid, content)" using Some by (cases oc) auto
    let ?n = "nat_str (length content)"
    let ?h = "oid @ '' '' @ ''blob'' @ '' '' @ ?n"
    let ?pre = "before @ ?h @ newline"
    let ?out = "before @ ?h @ CHR 10 # content @ newline @ ?rest"
    from Cons.prems oc have oid: "plain_name oid" by simp
    have eq: "before @ concat (map (batch_entry objects) (p # paths)) = ?out"
      by (simp add: batch_entry_def oc newline_def)
    have "CHR 10 \<notin> set ?h" using plain_no_newline [OF oid] plain_no_newline [OF plain_nat_str] by simp
    then have nl: "py_index_from ?out (CHR 10) (int (length before)) = Inr (int (length before) + int (length ?h))"
      by (rule index_after_prefix)
    have sl: "py_slice ?out (int (length before)) (int (length before) + int (length ?h)) = ?h"
      by (rule slice_at_prefix)
    have hd: "split_bytes ?h = [oid, ''blob'', ?n]"
      using oid plain_nat_str [of "length content"]
      by (intro split_bytes_three) (auto simp: plain_name_def is_byte_space_def code_def)
    have pre: "int (length before) + int (length ?h) + 1 = int (length ?pre)" by (simp add: newline_def)
    have out: "?out = ?pre @ content @ (newline @ ?rest)" by (simp add: newline_def)
    have sl2: "py_slice ?out (int (length ?pre)) (int (length ?pre) + int (length content)) = content"
      unfolding out by (rule slice_at_prefix)
    have "int (length ?pre) + int (length content) + 1 = int (length (?pre @ content @ newline))"
      by (simp add: newline_def)
    moreover have "?out = (?pre @ content @ newline) @ ?rest" by (simp add: newline_def)
    ultimately have step: "read_batch ?out (int (length ?pre) + int (length content) + 1) paths (dict_set p content blobs)
        = Inr (fold (\<lambda>p d. case objects p of Some (oid, content) \<Rightarrow> dict_set p content d | None \<Rightarrow> d) paths
            (dict_set p content blobs))"
      using Cons.IH [of "?pre @ content @ newline" "dict_set p content blobs"] Cons.prems by (simp only:) simp
    show ?thesis
      unfolding eq read_batch.simps nl bind_res_simps Let_def sl hd pre
      using step sl2 by (simp add: oc)
  qed
qed simp

section \<open>Hashing a file\<close>

definition READ_CHUNK :: nat where "READ_CHUNK = 1048576"

text \<open>\<open>while chunk := fh.read(READ_CHUNK): h.update(chunk)\<close>.\<close>

function feed_chunks :: "('h \<Rightarrow> string \<Rightarrow> 'h) \<Rightarrow> 'h \<Rightarrow> string \<Rightarrow> 'h" where
  "feed_chunks update h bytes =
     (let chunk = take READ_CHUNK bytes
      in if chunk = [] then h else feed_chunks update (update h chunk) (drop READ_CHUNK bytes))"
  by pat_completeness auto
termination
  by (relation "measure (\<lambda>(u, h, bytes). length bytes)") (auto simp: READ_CHUNK_def)

declare feed_chunks.simps [simp del]

definition sha256_of :: "('h \<Rightarrow> string \<Rightarrow> 'h) \<Rightarrow> 'h \<Rightarrow> ('h \<Rightarrow> string) \<Rightarrow> string \<Rightarrow> string" where
  "sha256_of update h0 hexdigest bytes = hexdigest (feed_chunks update h0 bytes)"

text \<open>The digest does not depend on the chunks when updating twice is updating with both.\<close>

lemma sha256_of_whole:
  assumes "\<And>h a b. update (update h a) b = update h (a @ b)" and "\<And>h. update h [] = h"
  shows "sha256_of update h0 hexdigest bytes = hexdigest (update h0 bytes)"
proof -
  have "feed_chunks update h bytes = update h bytes" for h
  proof (induction bytes arbitrary: h rule: length_induct)
    case (1 bytes)
    then have "feed_chunks update (update h (take READ_CHUNK bytes)) (drop READ_CHUNK bytes) = update h bytes" if "bytes \<noteq> []"
      using that by (simp add: assms(1) READ_CHUNK_def)
    then show ?case by (subst feed_chunks.simps) (auto simp: Let_def assms(2) READ_CHUNK_def)
  qed
  then show ?thesis by (simp add: sha256_of_def)
qed

end
