(* ===== verification/Effects.thy ===== *)
theory Effects
  imports Prov_Prelude
begin

text \<open>
  Python statements that read and write a state and may raise: a function from the state to the
  value or the exception and the state left behind (what was done before a \<open>raise\<close>
  stays done), the control structures of the source over it, and two ways of reasoning about
  it: Hoare triples with an exceptional post-condition, and preservation of an invariant.
\<close>

section \<open>Statements\<close>

type_synonym ('s, 'a) eff = "'s \<Rightarrow> 'a res \<times> 's"

definition ret :: "'a \<Rightarrow> ('s, 'a) eff" where
  "ret a = (\<lambda>s. (Inr a, s))"

definition raise :: "pyexc \<Rightarrow> ('s, 'a) eff" where
  "raise e = (\<lambda>s. (Inl e, s))"

definition bindM :: "('s, 'a) eff \<Rightarrow> ('a \<Rightarrow> ('s, 'b) eff) \<Rightarrow> ('s, 'b) eff" where
  "bindM m f = (\<lambda>s. case m s of (Inr a, s') \<Rightarrow> f a s' | (Inl e, s') \<Rightarrow> (Inl e, s'))"

definition seqM :: "('s, 'a) eff \<Rightarrow> ('s, 'b) eff \<Rightarrow> ('s, 'b) eff" where
  "seqM m n = bindM m (\<lambda>_. n)"

definition gets :: "('s \<Rightarrow> 'a) \<Rightarrow> ('s, 'a) eff" where
  "gets f = (\<lambda>s. (Inr (f s), s))"

definition modifyM :: "('s \<Rightarrow> 's) \<Rightarrow> ('s, unit) eff" where
  "modifyM f = (\<lambda>s. (Inr (), f s))"

definition whenM :: "bool \<Rightarrow> ('s, unit) eff \<Rightarrow> ('s, unit) eff" where
  "whenM c m = (if c then m else ret ())"

definition liftR :: "'a res \<Rightarrow> ('s, 'a) eff" where
  "liftR r = (\<lambda>s. (r, s))"

text \<open>\<open>try: m except ...: h\<close>; the handler raises again what it does not catch.\<close>

definition catchM :: "('s, 'a) eff \<Rightarrow> (pyexc \<Rightarrow> ('s, 'a) eff) \<Rightarrow> ('s, 'a) eff" where
  "catchM m h = (\<lambda>s. case m s of (Inr a, s') \<Rightarrow> (Inr a, s') | (Inl e, s') \<Rightarrow> h e s')"

text \<open>\<open>try: m finally: fin\<close>.\<close>

definition finallyM :: "('s, 'a) eff \<Rightarrow> ('s, unit) eff \<Rightarrow> ('s, 'a) eff" where
  "finallyM m fin = (\<lambda>s. case m s of (r, s') \<Rightarrow>
     (case fin s' of (Inr _, s'') \<Rightarrow> (r, s'') | (Inl e, s'') \<Rightarrow> (Inl e, s'')))"

fun forM :: "'x list \<Rightarrow> ('x \<Rightarrow> ('s, unit) eff) \<Rightarrow> ('s, unit) eff" where
  "forM [] f = ret ()"
| "forM (x # xs) f = seqM (f x) (forM xs f)"

text \<open>A loop that carries a value, such as a counter.\<close>

fun foldM :: "'x list \<Rightarrow> 'a \<Rightarrow> ('x \<Rightarrow> 'a \<Rightarrow> ('s, 'a) eff) \<Rightarrow> ('s, 'a) eff" where
  "foldM [] a f = ret a"
| "foldM (x # xs) a f = bindM (f x a) (\<lambda>a'. foldM xs a' f)"

lemma eff_app [simp]:
  "ret a s = (Inr a, s)"
  "raise e s = (Inl e, s)"
  "gets f s = (Inr (f s), s)"
  "modifyM g s = (Inr (), g s)"
  "liftR q s = (q, s)"
  by (simp_all add: ret_def raise_def gets_def modifyM_def liftR_def)

lemmas eff_defs = ret_def raise_def bindM_def seqM_def gets_def modifyM_def whenM_def liftR_def
  catchM_def finallyM_def

section \<open>Hoare triples\<close>

definition triple ::
  "('s \<Rightarrow> bool) \<Rightarrow> ('s, 'a) eff \<Rightarrow> ('a \<Rightarrow> 's \<Rightarrow> bool) \<Rightarrow> (pyexc \<Rightarrow> 's \<Rightarrow> bool) \<Rightarrow> bool" where
  "triple P m Q E \<longleftrightarrow> (\<forall>s. P s \<longrightarrow> (case m s of (Inr a, s') \<Rightarrow> Q a s' | (Inl e, s') \<Rightarrow> E e s'))"

named_theorems triples \<open>triples of the control structures and of the primitive operations\<close>

lemma tripleD_Inr: "triple P m Q E \<Longrightarrow> P s \<Longrightarrow> m s = (Inr a, s') \<Longrightarrow> Q a s'"
  by (auto simp: triple_def dest!: spec [where x = s])

lemma tripleD_Inl: "triple P m Q E \<Longrightarrow> P s \<Longrightarrow> m s = (Inl e, s') \<Longrightarrow> E e s'"
  by (auto simp: triple_def dest!: spec [where x = s])

lemma tripleI:
  assumes "\<And>s a s'. P s \<Longrightarrow> m s = (Inr a, s') \<Longrightarrow> Q a s'"
    and "\<And>s e s'. P s \<Longrightarrow> m s = (Inl e, s') \<Longrightarrow> E e s'"
  shows "triple P m Q E"
  using assms by (auto simp: triple_def split: prod.splits sum.splits)

lemma triple_conseq:
  assumes "triple P m Q E" and "\<And>s. P' s \<Longrightarrow> P s"
    and "\<And>a s. Q a s \<Longrightarrow> Q' a s" and "\<And>e s. E e s \<Longrightarrow> E' e s"
  shows "triple P' m Q' E'"
proof (rule tripleI)
  fix s a s' assume "P' s" "m s = (Inr a, s')"
  then show "Q' a s'" using tripleD_Inr [OF assms(1) assms(2)] assms(3) by simp
next
  fix s e s' assume "P' s" "m s = (Inl e, s')"
  then show "E' e s'" using tripleD_Inl [OF assms(1) assms(2)] assms(4) by simp
qed

lemma triple_ret [triples]: "triple (Q a) (ret a) Q E"
  by (simp add: triple_def ret_def)

lemma triple_raise [triples]: "triple (E e) (raise e) Q E"
  by (simp add: triple_def raise_def)

lemma triple_bindM:
  assumes "triple P m R E" and "\<And>a. triple (R a) (f a) Q E"
  shows "triple P (bindM m f) Q E"
  using assms by (fastforce simp: triple_def bindM_def split: prod.splits sum.splits)

lemma triple_seqM:
  assumes "triple P m (\<lambda>_. R) E" and "triple R n Q E"
  shows "triple P (seqM m n) Q E"
  unfolding seqM_def by (rule triple_bindM [OF assms(1)]) (rule assms(2))

lemma triple_gets [triples]: "triple (\<lambda>s. Q (f s) s) (gets f) Q E"
  by (simp add: triple_def gets_def)

lemma triple_modifyM [triples]: "triple (\<lambda>s. Q () (f s)) (modifyM f) Q E"
  by (simp add: triple_def modifyM_def)

lemma triple_forM:
  assumes "\<And>ys x zs. xs = ys @ x # zs \<Longrightarrow> triple (I ys) (f x) (\<lambda>_. I (ys @ [x])) E"
  shows "triple (I []) (forM xs f) (\<lambda>_. I xs) E"
proof -
  have "triple (I ys) (forM zs f) (\<lambda>_. I xs) E" if "xs = ys @ zs" for ys zs
    using that
  proof (induction zs arbitrary: ys)
    case Nil
    then show ?case by (simp add: triple_def ret_def)
  next
    case (Cons z zs)
    have "triple (I (ys @ [z])) (forM zs f) (\<lambda>_. I xs) E"
      by (rule Cons.IH) (simp add: Cons.prems)
    with assms [OF Cons.prems] show ?case
      by (auto intro: triple_seqM)
  qed
  from this [of "[]" xs] show ?thesis by simp
qed

lemma triple_foldM:
  assumes "\<And>ys x zs a. xs = ys @ x # zs \<Longrightarrow> triple (I ys a) (f x a) (I (ys @ [x])) E"
  shows "triple (I [] a) (foldM xs a f) (I xs) E"
proof -
  have "triple (I ys a) (foldM zs a f) (I xs) E" if "xs = ys @ zs" for ys zs a
    using that
  proof (induction zs arbitrary: ys a)
    case Nil
    then show ?case by (simp add: triple_def ret_def)
  next
    case (Cons z zs)
    have "triple (I (ys @ [z]) a') (foldM zs a' f) (I xs) E" for a'
      by (rule Cons.IH) (simp add: Cons.prems)
    with assms [OF Cons.prems] show ?case
      by (auto intro: triple_bindM)
  qed
  from this [of "[]" xs] show ?thesis by simp
qed

text \<open>A loop none of whose steps raises.\<close>

lemma foldM_total:
  assumes "\<And>ys x zs a s. xs = ys @ x # zs \<Longrightarrow> P ys a s \<Longrightarrow> \<exists>a' s'. f x a s = (Inr a', s') \<and> P (ys @ [x]) a' s'"
    and "P [] a s"
  shows "\<exists>a' s'. foldM xs a f s = (Inr a', s') \<and> P xs a' s'"
proof -
  have "\<exists>a' s'. foldM zs a f s = (Inr a', s') \<and> P xs a' s'" if "xs = ys @ zs" "P ys a s" for ys zs a s
    using that
  proof (induction zs arbitrary: ys a s)
    case Nil
    then show ?case by simp
  next
    case (Cons z zs)
    from assms(1) [OF Cons.prems] obtain a1 s1 where
      st: "f z a s = (Inr a1, s1)" "P (ys @ [z]) a1 s1" by blast
    with Cons.IH [of "ys @ [z]" a1 s1] Cons.prems(1) show ?case by (simp add: bindM_def)
  qed
  from this [of "[]" xs a s] assms(2) show ?thesis by simp
qed

section \<open>Invariants\<close>

definition keeps :: "('s \<Rightarrow> bool) \<Rightarrow> ('s, 'a) eff \<Rightarrow> bool" where
  "keeps I m \<longleftrightarrow> (\<forall>s. I s \<longrightarrow> I (snd (m s)))"

named_theorems keep \<open>what preserves an invariant\<close>

lemma keepsD: "keeps I m \<Longrightarrow> I s \<Longrightarrow> m s = (r, s') \<Longrightarrow> I s'"
  by (auto simp: keeps_def dest!: spec [where x = s])

lemma keepsI: "(\<And>s r s'. I s \<Longrightarrow> m s = (r, s') \<Longrightarrow> I s') \<Longrightarrow> keeps I m"
  by (auto simp: keeps_def) (metis prod.collapse)

lemma keeps_triple: "keeps I m \<longleftrightarrow> triple I m (\<lambda>_. I) (\<lambda>_. I)"
proof -
  have "(case r of (Inr a, s') \<Rightarrow> I s' | (Inl e, s') \<Rightarrow> I s') \<longleftrightarrow> I (snd r)" for r :: "'b res \<times> 'a"
    by (cases r; cases "fst r") auto
  then show ?thesis by (simp add: keeps_def triple_def)
qed

lemma keeps_ret [keep, simp]: "keeps I (ret a)"
  by (simp add: keeps_def ret_def)

lemma keeps_raise [keep, simp]: "keeps I (raise e)"
  by (simp add: keeps_def raise_def)

lemma keeps_gets [keep, simp]: "keeps I (gets f)"
  by (simp add: keeps_def gets_def)

lemma keeps_liftR [keep, simp]: "keeps I (liftR r)"
  by (simp add: keeps_def liftR_def)

lemma keeps_modifyM [keep]: "(\<And>s. I s \<Longrightarrow> I (f s)) \<Longrightarrow> keeps I (modifyM f)"
  by (simp add: keeps_def modifyM_def)

lemma keeps_bindM [keep]: "keeps I m \<Longrightarrow> (\<And>a. keeps I (f a)) \<Longrightarrow> keeps I (bindM m f)"
  unfolding keeps_triple by (rule triple_bindM)

lemma keeps_bind_gets: "(\<And>s. I s \<Longrightarrow> keeps I (f (g s))) \<Longrightarrow> keeps I (bindM (gets g) f)"
  by (rule keepsI) (auto simp: bindM_def gets_def dest: keepsD)

lemma keeps_bind_gets_at: "(\<And>s. I s \<Longrightarrow> I (snd (f (g s) s))) \<Longrightarrow> keeps I (bindM (gets g) f)"
  by (auto simp: keeps_def bindM_def gets_def)

lemma bindM_gets [simp]: "bindM (gets g) f s = f (g s) s"
  by (simp add: bindM_def gets_def)

lemma bindM_liftR [simp]: "bindM (liftR r) f s = (case r of Inr a \<Rightarrow> f a s | Inl e \<Rightarrow> (Inl e, s))"
  by (cases r) (simp_all add: bindM_def liftR_def)

lemma keeps_seqM [keep]: "keeps I m \<Longrightarrow> keeps I n \<Longrightarrow> keeps I (seqM m n)"
  unfolding keeps_triple by (rule triple_seqM)

lemma keeps_whenM [keep]: "(c \<Longrightarrow> keeps I m) \<Longrightarrow> keeps I (whenM c m)"
  by (simp add: whenM_def)

lemma keeps_catchM [keep]: "keeps I m \<Longrightarrow> (\<And>e. keeps I (h e)) \<Longrightarrow> keeps I (catchM m h)"
  by (rule keepsI) (fastforce simp: catchM_def dest: keepsD split: prod.splits sum.splits)

lemma keeps_finallyM [keep]: "keeps I m \<Longrightarrow> keeps I fin \<Longrightarrow> keeps I (finallyM m fin)"
  by (rule keepsI) (fastforce simp: finallyM_def dest: keepsD split: prod.splits sum.splits)

lemma keeps_forM [keep]: "(\<And>x. x \<in> set xs \<Longrightarrow> keeps I (f x)) \<Longrightarrow> keeps I (forM xs f)"
  by (induction xs) (auto intro: keeps_seqM)

lemma keeps_foldM [keep]: "(\<And>x a. x \<in> set xs \<Longrightarrow> keeps I (f x a)) \<Longrightarrow> keeps I (foldM xs a f)"
  by (induction xs arbitrary: a) (auto intro: keeps_bindM)

lemma keeps_if [keep]: "(c \<Longrightarrow> keeps I m) \<Longrightarrow> (\<not> c \<Longrightarrow> keeps I n) \<Longrightarrow> keeps I (if c then m else n)"
  by simp

section \<open>Results of a composed statement\<close>

lemma bindM_Inr_iff:
  "bindM m f s = (Inr b, s') \<longleftrightarrow> (\<exists>a s1. m s = (Inr a, s1) \<and> f a s1 = (Inr b, s'))"
  by (auto simp: bindM_def split: prod.splits sum.splits)

lemma bindM_Inl_iff:
  "bindM m f s = (Inl e, s') \<longleftrightarrow>
     m s = (Inl e, s') \<or> (\<exists>a s1. m s = (Inr a, s1) \<and> f a s1 = (Inl e, s'))"
  by (auto simp: bindM_def split: prod.splits sum.splits)

lemma seqM_Inr_iff:
  "seqM m n s = (Inr b, s') \<longleftrightarrow> (\<exists>a s1. m s = (Inr a, s1) \<and> n s1 = (Inr b, s'))"
  by (simp add: seqM_def bindM_Inr_iff)

lemma seqM_Inl_iff:
  "seqM m n s = (Inl e, s') \<longleftrightarrow>
     m s = (Inl e, s') \<or> (\<exists>a s1. m s = (Inr a, s1) \<and> n s1 = (Inl e, s'))"
  by (simp add: seqM_def bindM_Inl_iff)

lemmas eff_iffs = bindM_Inr_iff bindM_Inl_iff seqM_Inr_iff seqM_Inl_iff

end
