(* ===== verification/Py_Json.thy ===== *)
theory Py_Json
  imports Prov_Prelude
begin

text \<open>
  The JSON documents the program reads and writes: \<open>json.loads\<close> as a parser over strings
  (a JSON text that names a code point above 255 is outside the model and does not parse),
  the Python values it yields, their truth value, \<open>str\<close> and \<open>dict.get\<close>, and
  \<open>json.dumps\<close> for the flat objects the driver sends. A float is kept as its
  text; \<open>str\<close> of a float is that text, which is what Python prints when the document
  wrote the number in its shortest form, as \<open>json.dumps\<close> does.
\<close>

datatype json =
    JNull
  | JBool bool
  | JInt int
  | JFloat string
  | JStr string
  | JList "json list"
  | JObj "(string \<times> json) list"

section \<open>Python's view of a JSON value\<close>

fun truthy :: "json \<Rightarrow> bool" where
  "truthy JNull = False"
| "truthy (JBool b) = b"
| "truthy (JInt i) = (i \<noteq> 0)"
| "truthy (JFloat t) = (t \<noteq> ''0.0'' \<and> t \<noteq> ''-0.0'')"
| "truthy (JStr s) = (s \<noteq> [])"
| "truthy (JList xs) = (xs \<noteq> [])"
| "truthy (JObj d) = (d \<noteq> [])"

fun is_dict :: "json \<Rightarrow> bool" where
  "is_dict (JObj d) = True"
| "is_dict _ = False"

fun type_name :: "json \<Rightarrow> string" where
  "type_name JNull = ''NoneType''"
| "type_name (JBool b) = ''bool''"
| "type_name (JInt i) = ''int''"
| "type_name (JFloat t) = ''float''"
| "type_name (JStr s) = ''str''"
| "type_name (JList xs) = ''list''"
| "type_name (JObj d) = ''dict''"

text \<open>\<open>isinstance(v, int)\<close>, which a bool passes.\<close>

fun is_int :: "json \<Rightarrow> bool" where
  "is_int (JInt i) = True"
| "is_int (JBool b) = True"
| "is_int _ = False"

fun int_of :: "json \<Rightarrow> int" where
  "int_of (JInt i) = i"
| "int_of (JBool b) = (if b then 1 else 0)"
| "int_of _ = 0"

text \<open>\<open>d.get(k)\<close>: on anything but a dict an \<open>AttributeError\<close>, as the attribute lookup is.\<close>

fun jget :: "json \<Rightarrow> string \<Rightarrow> json res" where
  "jget (JObj d) k = Inr (case map_of d k of None \<Rightarrow> JNull | Some v \<Rightarrow> v)"
| "jget _ k = Inl AttributeError"

fun jget_default :: "json \<Rightarrow> string \<Rightarrow> json \<Rightarrow> json res" where
  "jget_default (JObj d) k v0 = Inr (case map_of d k of None \<Rightarrow> v0 | Some v \<Rightarrow> v)"
| "jget_default _ k v0 = Inl AttributeError"

text \<open>\<open>d[k]\<close>.\<close>

fun jindex :: "json \<Rightarrow> string \<Rightarrow> json res" where
  "jindex (JObj d) k = (case map_of d k of None \<Rightarrow> Inl KeyError | Some v \<Rightarrow> Inr v)"
| "jindex _ k = Inl TypeError"

text \<open>\<open>e[k]\<close> where a string is needed.\<close>

definition entry_str :: "json \<Rightarrow> string \<Rightarrow> string res" where
  "entry_str e k = bind_res (jindex e k) (\<lambda>v. case v of JStr t \<Rightarrow> Inr t | _ \<Rightarrow> Inl TypeError)"

text \<open>\<open>x or y\<close>.\<close>

definition jor :: "json \<Rightarrow> json \<Rightarrow> json" where
  "jor x y = (if truthy x then x else y)"

text \<open>Iteration: the elements of a list, the keys of a dict, the characters of a string.\<close>

fun jiter :: "json \<Rightarrow> json list res" where
  "jiter (JList xs) = Inr xs"
| "jiter (JObj d) = Inr (map (JStr \<circ> fst) d)"
| "jiter (JStr s) = Inr (map (\<lambda>c. JStr [c]) s)"
| "jiter _ = Inl TypeError"

lemma jget_Inr_dict: "jget v k = Inr x \<Longrightarrow> is_dict v"
  by (cases v) auto

text \<open>The value under a key, \<open>None\<close> when there is none.\<close>

definition field :: "(string, json) dict \<Rightarrow> string \<Rightarrow> json" where
  "field d k = (case map_of d k of None \<Rightarrow> JNull | Some v \<Rightarrow> v)"

lemma jget_field [simp]: "jget (JObj d) k = Inr (field d k)"
  by (simp add: field_def)

section \<open>\<open>str\<close> and \<open>repr\<close>\<close>

definition hex_digit :: "nat \<Rightarrow> char" where
  "hex_digit n = (if n < 10 then char_of (48 + n) else char_of (87 + n))"

definition repr_char :: "char \<Rightarrow> char \<Rightarrow> string" where
  "repr_char quote c =
     (if c = quote \<or> c = CHR 92 then [CHR 92, c]
      else if c = CHR 9 then [CHR 92, CHR ''t'']
      else if c = CHR 10 then [CHR 92, CHR ''n'']
      else if c = CHR 13 then [CHR 92, CHR ''r'']
      else if code c < 32 \<or> (127 \<le> code c \<and> code c \<le> 160) \<or> code c = 173
      then [CHR 92, CHR ''x'', hex_digit (code c div 16), hex_digit (code c mod 16)]
      else [c])"

definition repr_str :: "string \<Rightarrow> string" where
  "repr_str s =
     (let quote = (if CHR 39 \<in> set s \<and> CHR 34 \<notin> set s then CHR 34 else CHR 39)
      in quote # concat (map (repr_char quote) s) @ [quote])"

fun py_repr :: "json \<Rightarrow> string" where
  "py_repr JNull = ''None''"
| "py_repr (JBool b) = (if b then ''True'' else ''False'')"
| "py_repr (JInt i) = int_str i"
| "py_repr (JFloat t) = t"
| "py_repr (JStr s) = repr_str s"
| "py_repr (JList xs) = ''['' @ join '', '' (map py_repr xs) @ '']''"
| "py_repr (JObj d) =
     ''{'' @ join '', '' (map (\<lambda>(k, v). repr_str k @ '': '' @ py_repr v) d) @ ''}''"

fun py_str :: "json \<Rightarrow> string" where
  "py_str (JStr s) = s"
| "py_str v = py_repr v"

section \<open>\<open>json.dumps\<close> of a flat object\<close>

definition dumps_char :: "char \<Rightarrow> string" where
  "dumps_char c =
     (if c = CHR 34 \<or> c = CHR 92 then [CHR 92, c]
      else if c = CHR 10 then [CHR 92, CHR ''n'']
      else if c = CHR 13 then [CHR 92, CHR ''r'']
      else if c = CHR 9 then [CHR 92, CHR ''t'']
      else if c = CHR 8 then [CHR 92, CHR ''b'']
      else if c = CHR 12 then [CHR 92, CHR ''f'']
      else if code c < 32 \<or> 126 < code c
      then [CHR 92, CHR ''u'', CHR ''0'', CHR ''0'', hex_digit (code c div 16), hex_digit (code c mod 16)]
      else [c])"

definition dumps_str :: "string \<Rightarrow> string" where
  "dumps_str s = CHR 34 # concat (map dumps_char s) @ [CHR 34]"

fun json_dumps :: "json \<Rightarrow> string" where
  "json_dumps JNull = ''null''"
| "json_dumps (JBool b) = (if b then ''true'' else ''false'')"
| "json_dumps (JInt i) = int_str i"
| "json_dumps (JFloat t) =
     (if t = ''nan'' then ''NaN'' else if t = ''inf'' then ''Infinity'' else if t = ''-inf'' then ''-Infinity'' else t)"
| "json_dumps (JStr s) = dumps_str s"
| "json_dumps (JList xs) = ''['' @ join '', '' (map json_dumps xs) @ '']''"
| "json_dumps (JObj d) =
     ''{'' @ join '', '' (map (\<lambda>(k, v). dumps_str k @ '': '' @ json_dumps v) d) @ ''}''"

text \<open>\<open>json.dumps(v, indent=2)\<close> at a nesting depth.\<close>

fun dumps_indent :: "nat \<Rightarrow> json \<Rightarrow> string" where
  "dumps_indent n (JList (v # vs)) =
     ''['' @ [CHR 10] @ join ('','' @ [CHR 10])
        (map (\<lambda>x. replicate (2 * (n + 1)) CHR 32 @ dumps_indent (n + 1) x) (v # vs))
      @ [CHR 10] @ replicate (2 * n) CHR 32 @ '']''"
| "dumps_indent n (JObj (f # fs)) =
     ''{'' @ [CHR 10] @ join ('','' @ [CHR 10])
        (map (\<lambda>(k, x). replicate (2 * (n + 1)) CHR 32 @ dumps_str k @ '': '' @ dumps_indent (n + 1) x) (f # fs))
      @ [CHR 10] @ replicate (2 * n) CHR 32 @ ''}''"
| "dumps_indent n v = json_dumps v"

section \<open>\<open>json.loads\<close>\<close>

definition is_json_ws :: "char \<Rightarrow> bool" where
  "is_json_ws c \<longleftrightarrow> c = CHR 32 \<or> c = CHR 9 \<or> c = CHR 10 \<or> c = CHR 13"

definition skip_ws :: "string \<Rightarrow> string" where
  "skip_ws s = dropWhile is_json_ws s"

definition hex_val :: "char \<Rightarrow> nat option" where
  "hex_val c =
     (if is_digit c then Some (code c - 48)
      else if 97 \<le> code c \<and> code c \<le> 102 then Some (code c - 87)
      else if 65 \<le> code c \<and> code c \<le> 70 then Some (code c - 55)
      else None)"

definition simple_escape :: "char \<Rightarrow> char option" where
  "simple_escape c =
     (if c = CHR 34 \<or> c = CHR 92 \<or> c = CHR 47 then Some c
      else if c = CHR ''b'' then Some (CHR 8)
      else if c = CHR ''f'' then Some (CHR 12)
      else if c = CHR ''n'' then Some (CHR 10)
      else if c = CHR ''r'' then Some (CHR 13)
      else if c = CHR ''t'' then Some (CHR 9)
      else None)"

text \<open>The rest of a string literal after its opening quote.\<close>

fun parse_string :: "string \<Rightarrow> (string \<times> string) option" where
  "parse_string [] = None"
| "parse_string (c # s) =
     (if c = CHR 34 then Some ([], s)
      else if c = CHR 92 then
        (case s of
           [] \<Rightarrow> None
         | e # s' \<Rightarrow>
             (if e = CHR ''u'' then
                (case s' of
                   a # b # x # y # rest \<Rightarrow>
                     (case (hex_val a, hex_val b, hex_val x, hex_val y) of
                        (Some 0, Some 0, Some hi, Some lo) \<Rightarrow>
                          map_option (\<lambda>(t, r). (char_of (16 * hi + lo) # t, r)) (parse_string rest)
                      | _ \<Rightarrow> None)
                 | _ \<Rightarrow> None)
              else
                (case simple_escape e of
                   None \<Rightarrow> None
                 | Some d \<Rightarrow> map_option (\<lambda>(t, r). (d # t, r)) (parse_string s'))))
      else if code c < 32 then None
      else map_option (\<lambda>(t, r). (c # t, r)) (parse_string s))"

text \<open>A number: an integer without fraction or exponent, otherwise a float.\<close>

definition parse_number :: "string \<Rightarrow> (json \<times> string) option" where
  "parse_number s =
     (let (neg, s1) = (if startswith ''-'' s then (''-'', tl s) else ([], s));
          ip = (if startswith ''0'' s1 then ''0'' else takeWhile is_digit s1);
          s2 = drop (length ip) s1;
          fp = (if startswith ''.'' s2 \<and> takeWhile is_digit (tl s2) \<noteq> []
                then CHR 46 # takeWhile is_digit (tl s2) else []);
          s3 = drop (length fp) s2;
          e = (if s3 \<noteq> [] \<and> (hd s3 = CHR ''e'' \<or> hd s3 = CHR ''E'') then [hd s3] else []);
          s4 = drop 1 s3;
          sign = (if s4 \<noteq> [] \<and> (hd s4 = CHR 43 \<or> hd s4 = CHR 45) then [hd s4] else []);
          ds = takeWhile is_digit (drop (length sign) s4);
          ex = (if e \<noteq> [] \<and> ds \<noteq> [] then e @ sign @ ds else [])
      in if ip = [] then None
         else if fp = [] \<and> ex = []
         then Some (JInt (if neg = [] then int (digits_val ip) else - int (digits_val ip)), s2)
         else Some (JFloat (neg @ ip @ fp @ ex), drop (length ex) s3))"

text \<open>
  Values by recursive descent. Fuel bounds the number of calls; a text of \<open>n\<close> characters
  needs at most \<open>2 * n + 2\<close>, since every second call consumes a character.
\<close>

fun parse_value :: "nat \<Rightarrow> string \<Rightarrow> (json \<times> string) option"
and parse_items :: "nat \<Rightarrow> string \<Rightarrow> (json list \<times> string) option"
and parse_members :: "nat \<Rightarrow> string \<Rightarrow> ((string \<times> json) list \<times> string) option" where
  "parse_value 0 s = None"
| "parse_value (Suc n) s =
     (if startswith ''null'' s then Some (JNull, drop 4 s)
      else if startswith ''true'' s then Some (JBool True, drop 4 s)
      else if startswith ''false'' s then Some (JBool False, drop 5 s)
      else if startswith ''NaN'' s then Some (JFloat ''nan'', drop 3 s)
      else if startswith ''Infinity'' s then Some (JFloat ''inf'', drop 8 s)
      else if startswith ''-Infinity'' s then Some (JFloat ''-inf'', drop 9 s)
      else
        (case s of
           [] \<Rightarrow> None
         | c # t \<Rightarrow>
             (if c = CHR 34 then map_option (\<lambda>(x, r). (JStr x, r)) (parse_string t)
              else if c = CHR ''['' then
                (let u = skip_ws t in
                   if startswith '']'' u then Some (JList [], tl u)
                   else map_option (\<lambda>(xs, r). (JList xs, r)) (parse_items n u))
              else if c = CHR ''{'' then
                (let u = skip_ws t in
                   if startswith ''}'' u then Some (JObj [], tl u)
                   else map_option (\<lambda>(ms, r). (JObj (dict_of_pairs ms []), r)) (parse_members n u))
              else parse_number s)))"
| "parse_items 0 s = None"
| "parse_items (Suc n) s =
     (case parse_value n s of
        None \<Rightarrow> None
      | Some (v, r) \<Rightarrow>
          (let u = skip_ws r in
             if startswith '','' u then map_option (\<lambda>(vs, r'). (v # vs, r')) (parse_items n (skip_ws (tl u)))
             else if startswith '']'' u then Some ([v], tl u)
             else None))"
| "parse_members 0 s = None"
| "parse_members (Suc n) s =
     (case s of
        [] \<Rightarrow> None
      | q # t \<Rightarrow>
          (if q \<noteq> CHR 34 then None
           else (case parse_string t of
                   None \<Rightarrow> None
                 | Some (k, r) \<Rightarrow>
                     (let u = skip_ws r in
                        if \<not> startswith '':'' u then None
                        else (case parse_value n (skip_ws (tl u)) of
                                None \<Rightarrow> None
                              | Some (v, r') \<Rightarrow>
                                  (let w = skip_ws r' in
                                     if startswith '','' w
                                     then map_option (\<lambda>(ms, z). ((k, v) # ms, z))
                                            (parse_members n (skip_ws (tl w)))
                                     else if startswith ''}'' w then Some ([(k, v)], tl w)
                                     else None))))))"

definition json_loads :: "string \<Rightarrow> json res" where
  "json_loads s =
     (case parse_value (2 * length s + 2) (skip_ws s) of
        None \<Rightarrow> Inl JSONDecodeError
      | Some (v, r) \<Rightarrow> (if skip_ws r = [] then Inr v else Inl JSONDecodeError))"

section \<open>The string literals round trip\<close>

lemma code_less_256 [simp]: "code c < 256"
  using nat_of_char_less_256 [of c] by (simp add: code_def)

lemma char_of_code [simp]: "char_of (code c) = c"
  by (simp add: code_def)

lemma hex_val_hex_digit: "n < 16 \<Longrightarrow> hex_val (hex_digit n) = Some n"
  by (auto simp: hex_val_def hex_digit_def is_digit_def code_def)

lemma parse_string_dumps_char:
  "parse_string (dumps_char c @ s) = map_option (\<lambda>(t, r). (c # t, r)) (parse_string s)"
proof -
  have hi: "code c div 16 < 16" using code_less_256 [of c] by presburger
  have "char_of (16 * (code c div 16) + code c mod 16) = c" by simp
  moreover have "hex_val (CHR ''0'') = Some 0" by (simp add: hex_val_def is_digit_def code_def)
  ultimately show ?thesis
    using hi by (auto simp: dumps_char_def simple_escape_def hex_val_hex_digit)
qed

theorem parse_string_dumps_str:
  "parse_string (concat (map dumps_char s) @ CHR 34 # rest) = Some (s, rest)"
  by (induction s) (simp_all add: parse_string_dumps_char)

end
