(* ===== verification/Json_Round_Trip.thy ===== *)
theory Json_Round_Trip
  imports Py_Json
begin

text \<open>
  What \<open>json.dumps\<close> writes, \<open>json.loads\<close> reads back, for the documents the driver
  and the relay exchange.
\<close>


section \<open>Documents round trip\<close>

text \<open>The text of a float: digits with a fraction or an exponent, or one of the three others.\<close>

definition digits :: "string \<Rightarrow> bool" where
  "digits s \<longleftrightarrow> s \<noteq> [] \<and> list_all is_digit s"

definition whole_part :: "string \<Rightarrow> bool" where
  "whole_part ip \<longleftrightarrow> digits ip \<and> (ip = ''0'' \<or> hd ip \<noteq> CHR ''0'')"

definition fraction_part :: "string \<Rightarrow> bool" where
  "fraction_part fp \<longleftrightarrow> fp = [] \<or> hd fp = CHR 46 \<and> digits (tl fp)"

definition exponent_part :: "string \<Rightarrow> bool" where
  "exponent_part ex \<longleftrightarrow> ex = [] \<or> (\<exists>e sign ds. ex = e # sign @ ds \<and> (e = CHR ''e'' \<or> e = CHR ''E'')
     \<and> sign \<in> {[], [CHR 43], [CHR 45]} \<and> digits ds)"

definition number_text :: "string \<Rightarrow> bool" where
  "number_text t \<longleftrightarrow> (\<exists>neg ip fp ex. t = neg @ ip @ fp @ ex \<and> neg \<in> {[], ''-''} \<and> whole_part ip \<and> fraction_part fp
     \<and> exponent_part ex \<and> (fp \<noteq> [] \<or> ex \<noteq> []))"

definition float_text :: "string \<Rightarrow> bool" where
  "float_text t \<longleftrightarrow> t \<in> {''nan'', ''inf'', ''-inf''} \<or> number_text t"

text \<open>Documents whose objects have distinct keys, as a Python dict has.\<close>

fun wf_json :: "json \<Rightarrow> bool" where
  "wf_json (JFloat t) = float_text t"
| "wf_json (JList xs) = list_all wf_json xs"
| "wf_json (JObj d) = (distinct (map fst d) \<and> list_all (\<lambda>(k, v). wf_json v) d)"
| "wf_json _ = True"

text \<open>What may follow a value inside a document.\<close>

definition stops :: "string \<Rightarrow> bool" where
  "stops rest \<longleftrightarrow> rest = [] \<or> hd rest = CHR '','' \<or> hd rest = CHR '']'' \<or> hd rest = CHR ''}'' \<or> hd rest = CHR 10"

lemma startswith_simps [simp]:
  "startswith [] s"
  "startswith (c # p) (d # s) \<longleftrightarrow> c = d \<and> startswith p s"
  "\<not> startswith (c # p) []"
  by (auto simp: startswith_def)

lemma nat_str_nonzero: "n \<noteq> 0 \<Longrightarrow> \<exists>c s. nat_str n = c # s \<and> is_digit c \<and> c \<noteq> CHR ''0''"
proof (induction n rule: nat_str.induct)
  case (1 n)
  show ?case
  proof (cases "n < 10")
    case True
    have "code (digit_char n) \<noteq> code CHR ''0''"
      using True "1.prems" by (simp add: code_digit_char) (simp add: code_def)
    then have "digit_char n \<noteq> CHR ''0''" by metis
    with True show ?thesis by (simp add: nat_str.simps)
  next
    case False
    then have "n div 10 \<noteq> 0" by simp
    with "1.IH" [OF False this] show ?thesis
      using False by (auto simp: nat_str.simps [of n])
  qed
qed

lemma takeWhile_digits:
  "list_all is_digit s \<Longrightarrow> rest = [] \<or> \<not> is_digit (hd rest) \<Longrightarrow> takeWhile is_digit (s @ rest) = s"
  by (induction s) (cases rest; auto)+

lemma stops_no_number: "stops rest \<Longrightarrow> \<not> startswith ''.'' rest
   \<and> (rest = [] \<or> \<not> is_digit (hd rest)) \<and> (rest = [] \<or> hd rest \<noteq> CHR ''e'' \<and> hd rest \<noteq> CHR ''E'')"
  by (cases rest) (auto simp: stops_def is_digit_def code_def)

lemma parse_number_nat:
  assumes "stops rest"
  shows "parse_number (nat_str n @ rest) = Some (JInt (int n), rest)"
    and "n \<noteq> 0 \<Longrightarrow> parse_number (CHR ''-'' # nat_str n @ rest) = Some (JInt (- int n), rest)"
proof -
  note st = stops_no_number [OF assms]
  have dg: "list_all is_digit (nat_str n)" "nat_str n \<noteq> []"
    using nat_str_digits [of n] by (simp_all add: all_digits_def)
  have tw: "takeWhile is_digit (nat_str n @ rest) = nat_str n"
    using takeWhile_digits [OF dg(1)] st by blast
  have zero: "nat_str n = ''0''" if z: "startswith ''0'' (nat_str n @ rest)"
  proof (rule ccontr)
    assume "nat_str n \<noteq> ''0''"
    moreover have "nat_str 0 = ''0''" by code_simp
    ultimately have "n \<noteq> 0" by (intro notI) simp
    from nat_str_nonzero [OF this] obtain c s where "nat_str n = c # s" "c \<noteq> CHR ''0''"
      by (elim exE conjE) (rule that)
    with z show False by simp
  qed
  have ip: "(if startswith ''0'' (nat_str n @ rest) then ''0'' else takeWhile is_digit (nat_str n @ rest)) = nat_str n"
    using zero tw by (simp split: if_split) metis
  have nm: "\<not> startswith ''-'' (nat_str n @ rest)"
    using dg by (cases "nat_str n") (auto simp: is_digit_def code_def)
  show "parse_number (nat_str n @ rest) = Some (JInt (int n), rest)"
    using st dg(2) by (simp add: parse_number_def Let_def nm ip)
  show "parse_number (CHR ''-'' # nat_str n @ rest) = Some (JInt (- int n), rest)"
    using st dg(2) by (simp add: parse_number_def Let_def ip)
qed

lemma parse_number_int: "stops rest \<Longrightarrow> parse_number (int_str i @ rest) = Some (JInt i, rest)"
  using parse_number_nat(1) [of rest "nat i"] parse_number_nat(2) [of rest "nat (- i)"]
  by (simp add: int_str_def)

lemma takeWhile_stop: "list_all is_digit xs \<Longrightarrow> ys = [] \<or> \<not> is_digit (hd ys) \<Longrightarrow> takeWhile is_digit (xs @ ys) = xs"
  by (induction xs) (cases ys; auto)+

lemma parse_number_float:
  assumes "number_text t" and "stops rest"
  shows "parse_number (t @ rest) = Some (JFloat t, rest)"
proof -
  from assms(1) obtain neg ip fp ex where t: "t = neg @ ip @ fp @ ex" and neg: "neg \<in> {[], ''-''}"
    and ip: "whole_part ip" and fp: "fraction_part fp" and ex: "exponent_part ex" and some: "fp \<noteq> [] \<or> ex \<noteq> []"
    unfolding number_text_def by blast
  note st = stops_no_number [OF assms(2)]
  have exr: "ex @ rest = [] \<or> \<not> is_digit (hd (ex @ rest)) \<and> hd (ex @ rest) \<noteq> CHR 46"
    using ex st by (cases rest) (auto simp: exponent_part_def is_digit_def code_def)
  have fpr: "fp @ ex @ rest = [] \<or> \<not> is_digit (hd (fp @ ex @ rest))"
    using fp exr by (auto simp: fraction_part_def is_digit_def code_def hd_append)
  have sm: "\<not> startswith ''-'' (ip @ x)" for x
    using ip by (cases ip) (auto simp: whole_part_def digits_def is_digit_def code_def)
  have sign: "(if startswith ''-'' (neg @ ip @ fp @ ex @ rest) then (''-'', tl (neg @ ip @ fp @ ex @ rest))
      else ([], neg @ ip @ fp @ ex @ rest)) = (neg, ip @ fp @ ex @ rest)"
    using neg sm by auto
  have "(if startswith ''0'' (ip @ fp @ ex @ rest) then ''0'' else takeWhile is_digit (ip @ fp @ ex @ rest)) = ip"
  proof (cases "ip = ''0''")
    case False
    then have "\<not> startswith ''0'' (ip @ fp @ ex @ rest)" using ip by (cases ip) (auto simp: whole_part_def digits_def)
    then show ?thesis using takeWhile_stop [OF _ fpr] ip by (simp add: whole_part_def digits_def)
  qed simp
  note ipt = this
  have fpt: "(if startswith ''.'' (fp @ ex @ rest) \<and> takeWhile is_digit (tl (fp @ ex @ rest)) \<noteq> []
      then CHR 46 # takeWhile is_digit (tl (fp @ ex @ rest)) else []) = fp"
  proof (cases fp)
    case Nil
    then show ?thesis using exr by (cases "ex @ rest") auto
  next
    case (Cons c ds)
    then have "takeWhile is_digit (ds @ ex @ rest) = ds"
      using takeWhile_stop [of ds "ex @ rest"] fp exr by (auto simp: fraction_part_def digits_def)
    then show ?thesis using Cons fp by (auto simp: fraction_part_def digits_def)
  qed
  have dropl: "drop (length xs) (xs @ ys) = ys" for xs ys :: string by simp
  define s3 where "s3 = ex @ rest"
  define e where "e = (if s3 \<noteq> [] \<and> (hd s3 = CHR ''e'' \<or> hd s3 = CHR ''E'') then [hd s3] else [])"
  define s4 where "s4 = drop 1 s3"
  define sg where "sg = (if s4 \<noteq> [] \<and> (hd s4 = CHR 43 \<or> hd s4 = CHR 45) then [hd s4] else [])"
  define ds where "ds = takeWhile is_digit (drop (length sg) s4)"
  have ext: "(if e \<noteq> [] \<and> ds \<noteq> [] then e @ sg @ ds else []) = ex"
  proof (cases "ex = []")
    case True
    then show ?thesis using st by (simp add: e_def s3_def)
  next
    case False
    with ex obtain e' sign ds' where x: "ex = e' # sign @ ds'" "e' = CHR ''e'' \<or> e' = CHR ''E''"
      "sign \<in> {[], [CHR 43], [CHR 45]}" "digits ds'" by (auto simp: exponent_part_def)
    have tw: "takeWhile is_digit (ds' @ rest) = ds'"
      using takeWhile_stop [of ds' rest] x(4) st by (auto simp: digits_def)
    obtain d0 d1 where d: "ds' = d0 # d1" "is_digit d0" using x(4) by (cases ds') (auto simp: digits_def)
    then have "d0 \<noteq> CHR 43" "d0 \<noteq> CHR 45" by (auto simp: is_digit_def code_def)
    then have "sg = sign" using x d by (auto simp: sg_def s4_def s3_def)
    then show ?thesis using x tw d by (auto simp: e_def ds_def s4_def s3_def)
  qed
  have "parse_number (neg @ ip @ fp @ ex @ rest) = Some (JFloat (neg @ ip @ fp @ ex), rest)"
    unfolding parse_number_def sign Let_def prod.case ipt dropl fpt ext [unfolded e_def ds_def sg_def s4_def s3_def]
    using ip some by (simp only: whole_part_def digits_def if_False if_True simp_thms dropl) (simp only: de_Morgan_conj [symmetric] if_False)
  then show ?thesis by (simp add: t)
qed

lemma skip_ws_simps [simp]:
  "skip_ws (CHR '' '' # s) = skip_ws s"
  "skip_ws (CHR '','' # s) = CHR '','' # s"
  "skip_ws (CHR '']'' # s) = CHR '']'' # s"
  "skip_ws (CHR ''}'' # s) = CHR ''}'' # s"
  "skip_ws (CHR '':'' # s) = CHR '':'' # s"
  "skip_ws [] = []"
  by (simp_all add: skip_ws_def is_json_ws_def)

text \<open>The first character of a dumped value.\<close>

lemma int_str_head: "\<exists>c s. int_str i = c # s \<and> (c = CHR ''-'' \<and> (\<exists>d s'. s = d # s' \<and> is_digit d) \<or> is_digit c)"
proof -
  have "\<exists>d s'. nat_str n = d # s' \<and> is_digit d" for n
    using nat_str_digits [of n] by (cases "nat_str n") (auto simp: all_digits_def)
  then show ?thesis by (fastforce simp: int_str_def)
qed

definition number_head :: "string \<Rightarrow> bool" where
  "number_head t \<longleftrightarrow> (\<exists>c s. t = c # s \<and> (c = CHR ''-'' \<and> (\<exists>d s'. s = d # s' \<and> is_digit d) \<or> is_digit c))"

lemma parse_value_number:
  assumes "number_head t" and v: "parse_number (t @ rest) = Some (v, rest)"
  shows "parse_value (Suc n) (t @ rest) = Some (v, rest)"
proof -
  from assms(1) obtain c s where cs: "t = c # s"
    and c: "c = CHR ''-'' \<and> (\<exists>d s'. s = d # s' \<and> is_digit d) \<or> is_digit c"
    unfolding number_head_def by (elim exE conjE) (rule that)
  have "c \<noteq> CHR ''n''" "c \<noteq> CHR ''t''" "c \<noteq> CHR ''f''" "c \<noteq> CHR ''N''" "c \<noteq> CHR ''I''"
    "c \<noteq> CHR 34" "c \<noteq> CHR ''[''" "c \<noteq> CHR ''{''"
    using c by (auto simp: is_digit_def code_def)
  moreover have "\<not> startswith ''-Infinity'' (c # s @ rest)"
    using c by (auto simp: is_digit_def code_def)
  moreover have "parse_number (c # s @ rest) = Some (v, rest)"
    using v unfolding cs by simp
  ultimately show ?thesis unfolding cs append_Cons by (simp only: parse_value.simps(2)) simp
qed

lemma number_heads: "number_head (int_str i)" "number_text t \<Longrightarrow> number_head t"
proof -
  show "number_head (int_str i)" using int_str_head [of i] by (simp add: number_head_def)
  assume "number_text t"
  then obtain neg ip r where "t = neg @ ip @ r" "neg \<in> {[], ''-''}" "digits ip"
    by (auto simp: number_text_def whole_part_def)
  then show "number_head t" by (cases ip) (auto simp: number_head_def digits_def)
qed

lemma parse_value_str: "parse_value (Suc n) (dumps_str s @ rest) = Some (JStr s, rest)"
  by (simp add: dumps_str_def parse_string_dumps_str)

lemma dict_of_pairs_distinct: "distinct (map fst ps) \<Longrightarrow> (\<forall>k\<in>set (map fst ps). k \<notin> set (keys d)) \<Longrightarrow>
  dict_of_pairs ps d = d @ ps"
proof (induction ps d rule: dict_of_pairs.induct)
  case (2 k v ps d)
  have "dict_set k v d = d @ [(k, v)]" using "2.prems"(2) by (intro dict_set_fresh) simp
  moreover have "\<forall>ka\<in>set (map fst ps). ka \<notin> set (keys (d @ [(k, v)]))"
    using "2.prems" by (fastforce simp: keys_def)
  ultimately show ?case using 2 by simp
qed simp

lemma stops_punct [simp]: "stops (CHR '','' # s)" "stops (CHR '']'' # s)" "stops (CHR ''}'' # s)" "stops []" "stops (CHR 10 # s)"
  by (simp_all add: stops_def)

lemma join_Cons: "xs \<noteq> [] \<Longrightarrow> join sep (x # xs) = x @ sep @ join sep xs"
  by (cases xs) simp_all

text \<open>A text begins like a value: no white space, and no bracket that would close an empty one.\<close>

definition opens :: "string \<Rightarrow> bool" where
  "opens t \<longleftrightarrow> (\<exists>c s. t = c # s \<and> \<not> is_json_ws c \<and> c \<noteq> CHR '']'' \<and> c \<noteq> CHR ''}'')"

lemma opens_append [simp]: "opens t \<Longrightarrow> opens (t @ s)"
  by (auto simp: opens_def)

lemma opensD: "opens t \<Longrightarrow> skip_ws t = t \<and> \<not> startswith '']'' t \<and> \<not> startswith ''}'' t"
  by (auto simp: opens_def skip_ws_def)

lemma opens_join: "xs \<noteq> [] \<Longrightarrow> \<forall>x\<in>set xs. opens x \<Longrightarrow> opens (join sep xs)"
  by (cases xs; cases "tl xs") auto

definition blank :: "string \<Rightarrow> bool" where
  "blank w \<longleftrightarrow> (\<forall>c\<in>set w. is_json_ws c)"

lemma blank_simps [simp]: "blank []" "blank (c # w) \<longleftrightarrow> is_json_ws c \<and> blank w" "blank (replicate n (CHR '' ''))"
    "is_json_ws (CHR '' '')" "is_json_ws (CHR 10)"
  by (auto simp: blank_def is_json_ws_def)

lemma skip_ws_blank: "blank w \<Longrightarrow> skip_ws (w @ s) = skip_ws s"
  by (simp add: blank_def skip_ws_def)

text \<open>What a printer writes for a value is read back, whatever follows.\<close>

definition round_trips :: "(json \<Rightarrow> string) \<Rightarrow> json \<Rightarrow> bool" where
  "round_trips f v \<longleftrightarrow> opens (f v) \<and> (\<forall>n rest. stops rest \<longrightarrow> 2 * length (f v) \<le> n \<longrightarrow>
     parse_value n (f v @ rest) = Some (v, rest))"

lemma number_head_opens: "number_head t \<Longrightarrow> opens t"
  by (auto simp: number_head_def opens_def is_json_ws_def is_digit_def code_def)

lemma round_trips_number:
  assumes "number_head (f v)" and "\<And>rest. stops rest \<Longrightarrow> parse_number (f v @ rest) = Some (v, rest)"
  shows "round_trips f v"
proof -
  have "parse_value n (f v @ rest) = Some (v, rest)" if "stops rest" "2 * length (f v) \<le> n" for n rest
  proof -
    have "f v \<noteq> []" using assms(1) by (auto simp: number_head_def)
    with that obtain m where "n = Suc m" by (cases n) auto
    then show ?thesis using parse_value_number [OF assms(1) assms(2) [OF that(1)]] by simp
  qed
  then show ?thesis using number_head_opens [OF assms(1)] by (simp add: round_trips_def)
qed

definition member_text :: "(json \<Rightarrow> string) \<Rightarrow> string \<times> json \<Rightarrow> string" where
  "member_text f = (\<lambda>(k, v). dumps_str k @ '': '' @ f v)"

lemma opens_member [simp]: "opens (member_text f e)"
  by (cases e) (simp add: member_text_def opens_def dumps_str_def is_json_ws_def)

lemma parse_items_text:
  assumes "xs \<noteq> []" and "\<forall>v\<in>set xs. round_trips f v" and "blank w" and "blank z" and "z = [] \<or> hd z = CHR 10"
    and "2 * length (join (CHR '','' # w) (map f xs)) + 1 \<le> n"
  shows "parse_items n (join (CHR '','' # w) (map f xs) @ z @ CHR '']'' # rest) = Some (xs, rest)"
  using assms
proof (induction xs arbitrary: n)
  case (Cons v vs)
  from Cons.prems(6) obtain m where n: "n = Suc m" by (cases n) auto
  have v: "round_trips f v" using Cons.prems(2) by simp
  show ?case
  proof (cases "vs = []")
    case True
    have "stops (z @ CHR '']'' # rest)" using Cons.prems(5) by (cases z) auto
    then have "parse_value m (f v @ z @ CHR '']'' # rest) = Some (v, z @ CHR '']'' # rest)"
      using v Cons.prems(6) by (simp add: round_trips_def True n)
    then show ?thesis using skip_ws_blank [OF Cons.prems(4)] by (simp add: True n Let_def)
  next
    case False
    let ?tail = "join (CHR '','' # w) (map f vs)"
    have j: "join (CHR '','' # w) (map f (v # vs)) = f v @ (CHR '','' # w) @ ?tail"
      using False by (simp add: join_Cons)
    have len: "2 * (length (f v) + 1 + length ?tail) \<le> m"
      using Cons.prems(6) unfolding j n by simp
    have "parse_value m (f v @ CHR '','' # w @ ?tail @ z @ CHR '']'' # rest)
        = Some (v, CHR '','' # w @ ?tail @ z @ CHR '']'' # rest)"
      using v len by (simp add: round_trips_def)
    moreover have "opens ?tail" using False Cons.prems(2) by (intro opens_join) (auto simp: round_trips_def)
    then have "skip_ws (w @ ?tail @ z @ CHR '']'' # rest) = ?tail @ z @ CHR '']'' # rest"
      using skip_ws_blank [OF Cons.prems(3)] opensD [of "?tail @ z @ CHR '']'' # rest"] by simp
    moreover have "parse_items m (?tail @ z @ CHR '']'' # rest) = Some (vs, rest)"
      using Cons.prems len by (intro Cons.IH False) simp_all
    ultimately show ?thesis unfolding j n by (simp add: Let_def)
  qed
qed simp

lemma parse_members_text:
  assumes "ms \<noteq> []" and "\<forall>(k, v)\<in>set ms. round_trips f v" and "blank w" and "blank z" and "z = [] \<or> hd z = CHR 10"
    and "2 * length (join (CHR '','' # w) (map (member_text f) ms)) + 1 \<le> n"
  shows "parse_members n (join (CHR '','' # w) (map (member_text f) ms) @ z @ CHR ''}'' # rest) = Some (ms, rest)"
  using assms
proof (induction ms arbitrary: n)
  case (Cons e ms)
  obtain k v where e: "e = (k, v)" by fastforce
  from Cons.prems(6) obtain m where n: "n = Suc m" by (cases n) auto
  have v: "round_trips f v" using Cons.prems(2) by (simp add: e)
  then have op: "skip_ws (f v @ r) = f v @ r" for r by (simp add: round_trips_def opensD)
  have key: "parse_string (concat (map dumps_char k) @ CHR 34 # r) = Some (k, r)" for r
    by (rule parse_string_dumps_str)
  show ?case
  proof (cases "ms = []")
    case True
    have "stops (z @ CHR ''}'' # rest)" using Cons.prems(5) by (cases z) auto
    then have "parse_value m (f v @ z @ CHR ''}'' # rest) = Some (v, z @ CHR ''}'' # rest)"
      using v Cons.prems(6) by (simp add: round_trips_def True n e member_text_def)
    with key op skip_ws_blank [OF Cons.prems(4)] show ?thesis
      by (simp add: True n e dumps_str_def member_text_def Let_def)
  next
    case False
    let ?tail = "join (CHR '','' # w) (map (member_text f) ms)"
    have j: "join (CHR '','' # w) (map (member_text f) (e # ms)) = dumps_str k @ '': '' @ f v @ (CHR '','' # w) @ ?tail"
      using False by (simp add: join_Cons e member_text_def)
    have len: "2 * (length (f v) + 5 + length ?tail) \<le> m"
      using Cons.prems(6) unfolding j n by (simp add: dumps_str_def)
    have "parse_value m (f v @ CHR '','' # w @ ?tail @ z @ CHR ''}'' # rest)
        = Some (v, CHR '','' # w @ ?tail @ z @ CHR ''}'' # rest)"
      using v len by (simp add: round_trips_def)
    moreover have "opens ?tail" using False by (intro opens_join) auto
    then have "skip_ws (w @ ?tail @ z @ CHR ''}'' # rest) = ?tail @ z @ CHR ''}'' # rest"
      using skip_ws_blank [OF Cons.prems(3)] opensD [of "?tail @ z @ CHR ''}'' # rest"] by simp
    moreover have "parse_members m (?tail @ z @ CHR ''}'' # rest) = Some (ms, rest)"
      using Cons.prems len by (intro Cons.IH False) simp_all
    ultimately show ?thesis
      unfolding j n using key op by (simp add: Let_def dumps_str_def e)
  qed
qed simp

lemma round_trips_list:
  assumes "xs \<noteq> []" and "\<forall>v\<in>set xs. round_trips f v" and "blank p" and "blank w" and "blank z" and "z = [] \<or> hd z = CHR 10"
    and "g (JList xs) = CHR ''['' # p @ join (CHR '','' # w) (map f xs) @ z @ '']''"
  shows "round_trips g (JList xs)"
proof -
  let ?body = "join (CHR '','' # w) (map f xs)"
  have op: "opens ?body" using assms(1,2) by (intro opens_join) (auto simp: round_trips_def)
  have "parse_value n (CHR ''['' # p @ ?body @ z @ CHR '']'' # rest) = Some (JList xs, rest)"
    if "2 * length (CHR ''['' # p @ ?body @ z @ '']'') \<le> n" for n rest
  proof -
    from that obtain m where n: "n = Suc m" by (cases n) auto
    have "parse_items m (?body @ z @ CHR '']'' # rest) = Some (xs, rest)"
      using that assms by (intro parse_items_text) (auto simp: n)
    then show ?thesis
      using skip_ws_blank [OF assms(3)] opensD [of "?body @ z @ CHR '']'' # rest"] op by (simp add: n Let_def)
  qed
  then show ?thesis by (simp add: round_trips_def assms(7) opens_def is_json_ws_def)
qed

lemma round_trips_obj:
  assumes "d \<noteq> []" and "distinct (map fst d)" and "\<forall>(k, v)\<in>set d. round_trips f v" and "blank p" and "blank w" and "blank z"
    and "z = [] \<or> hd z = CHR 10"
    and "g (JObj d) = CHR ''{'' # p @ join (CHR '','' # w) (map (member_text f) d) @ z @ ''}''"
  shows "round_trips g (JObj d)"
proof -
  let ?body = "join (CHR '','' # w) (map (member_text f) d)"
  have op: "opens ?body" using assms(1) by (intro opens_join) auto
  have "parse_value n (CHR ''{'' # p @ ?body @ z @ CHR ''}'' # rest) = Some (JObj d, rest)"
    if "2 * length (CHR ''{'' # p @ ?body @ z @ ''}'') \<le> n" for n rest
  proof -
    from that obtain m where n: "n = Suc m" by (cases n) auto
    have "parse_members m (?body @ z @ CHR ''}'' # rest) = Some (d, rest)"
      using that assms by (intro parse_members_text) (auto simp: n)
    moreover have "dict_of_pairs d [] = d"
      using dict_of_pairs_distinct [OF assms(2), of "[]"] by (simp add: keys_def)
    ultimately show ?thesis
      using skip_ws_blank [OF assms(4)] opensD [of "?body @ z @ CHR ''}'' # rest"] op by (simp add: n Let_def)
  qed
  then show ?thesis by (simp add: round_trips_def assms(8) opens_def is_json_ws_def)
qed

lemma round_trips_text: "round_trips f v \<Longrightarrow> g v = f v \<Longrightarrow> round_trips g v"
  by (simp add: round_trips_def)

lemma round_trips_simple:
  "round_trips json_dumps JNull" "round_trips json_dumps (JBool b)"
  "round_trips json_dumps (JInt i)" "round_trips json_dumps (JStr s)"
  "round_trips json_dumps (JList [])" "round_trips json_dumps (JObj [])"
proof -
  have "parse_value n (json_dumps JNull @ rest) = Some (JNull, rest)" if "2 * length (json_dumps JNull) \<le> n" for n rest
    using that by (cases n) simp_all
  then show "round_trips json_dumps JNull" by (simp add: round_trips_def opens_def is_json_ws_def)
  have "parse_value n (json_dumps (JBool b) @ rest) = Some (JBool b, rest)" if "2 * length (json_dumps (JBool b)) \<le> n" for n rest
    using that by (cases n; cases b) simp_all
  then show "round_trips json_dumps (JBool b)" by (simp add: round_trips_def opens_def is_json_ws_def)
  have "parse_value n (json_dumps (JList []) @ rest) = Some (JList [], rest)" if "2 * length (json_dumps (JList [])) \<le> n" for n rest
    using that by (cases n) simp_all
  then show "round_trips json_dumps (JList [])" by (simp add: round_trips_def opens_def is_json_ws_def)
  have "parse_value n (json_dumps (JObj []) @ rest) = Some (JObj [], rest)" if "2 * length (json_dumps (JObj [])) \<le> n" for n rest
    using that by (cases n) simp_all
  then show "round_trips json_dumps (JObj [])" by (simp add: round_trips_def opens_def is_json_ws_def)
  show "round_trips json_dumps (JInt i)"
    by (rule round_trips_number) (simp_all add: number_heads parse_number_int)
  have "parse_value n (json_dumps (JStr s) @ rest) = Some (JStr s, rest)" if "2 * length (json_dumps (JStr s)) \<le> n" for n rest
  proof -
    from that obtain m where "n = Suc m" by (cases n) (auto simp: dumps_str_def)
    then show ?thesis using parse_value_str by simp
  qed
  then show "round_trips json_dumps (JStr s)"
    by (simp add: round_trips_def opens_def dumps_str_def is_json_ws_def)
qed

lemma round_trips_float:
  assumes "float_text t"
  shows "round_trips json_dumps (JFloat t)"
proof (cases "t \<in> {''nan'', ''inf'', ''-inf''}")
  case True
  then have "parse_value n (json_dumps (JFloat t) @ rest) = Some (JFloat t, rest)"
    if "2 * length (json_dumps (JFloat t)) \<le> n" for n rest
    using that by (cases n) auto
  then show ?thesis using True by (auto simp: round_trips_def opens_def is_json_ws_def)
next
  case False
  then show ?thesis
    using assms by (intro round_trips_number) (auto simp: float_text_def number_heads parse_number_float)
qed

lemma round_trips_all: "wf_json v \<Longrightarrow> round_trips json_dumps v"
proof (induction v)
  case (JList xs)
  show ?case
  proof (cases "xs = []")
    case False
    show ?thesis
      by (rule round_trips_list [of xs json_dumps "[]" "'' ''" "[]"])
         (use JList False in \<open>auto simp: list_all_iff blank_def\<close>)
  qed (simp only: round_trips_simple)
next
  case (JObj d)
  show ?case
  proof (cases "d = []")
    case False
    show ?thesis
      by (rule round_trips_obj [of d json_dumps "[]" "'' ''" "[]"])
         (use JObj False in \<open>fastforce simp: list_all_iff member_text_def\<close>)+
  qed (simp only: round_trips_simple)
qed (simp_all only: round_trips_simple round_trips_float wf_json.simps)

text \<open>The same for \<open>json.dumps(v, indent=2)\<close>.\<close>

lemma round_trips_indent: "wf_json v \<Longrightarrow> round_trips (dumps_indent n) v"
proof (induction v arbitrary: n)
  case (JList xs)
  show ?case
  proof (cases xs)
    case Nil
    then show ?thesis by (auto intro!: round_trips_text [OF round_trips_simple(5)])
  next
    case (Cons u us)
    let ?ind = "CHR 10 # replicate (2 * (n + 1)) CHR '' ''"
    have j: "join ('','' @ [CHR 10]) (map (\<lambda>x. replicate (2 * (n + 1)) CHR 32 @ f x) (y # ys))
        = replicate (2 * (n + 1)) CHR '' '' @ join (CHR '','' # ?ind) (map f (y # ys))" for f :: "json \<Rightarrow> string" and y ys
      by (induction ys arbitrary: y) simp_all
    show ?thesis
      by (rule round_trips_list [of xs "dumps_indent (n + 1)" ?ind ?ind "CHR 10 # replicate (2 * n) CHR '' ''"])
         (use JList Cons in \<open>auto simp: list_all_iff j [simplified]\<close>)
  qed
next
  case (JObj d)
  show ?case
  proof (cases d)
    case Nil
    then show ?thesis by (auto intro!: round_trips_text [OF round_trips_simple(6)])
  next
    case (Cons u us)
    let ?ind = "CHR 10 # replicate (2 * (n + 1)) CHR '' ''"
    have j: "join ('','' @ [CHR 10]) (map (\<lambda>(k, x). replicate (2 * (n + 1)) CHR 32 @ dumps_str k @ '': '' @ f x) (y # ys))
        = replicate (2 * (n + 1)) CHR '' '' @ join (CHR '','' # ?ind) (map (member_text f) (y # ys))"
        for f :: "json \<Rightarrow> string" and y ys
      by (induction ys arbitrary: y) (simp_all add: member_text_def split: prod.splits)
    show ?thesis
      by (rule round_trips_obj [of d "dumps_indent (n + 1)" ?ind ?ind "CHR 10 # replicate (2 * n) CHR '' ''"])
         (use JObj Cons in \<open>fastforce simp: list_all_iff j [simplified]\<close>)+
  qed
qed (auto intro!: round_trips_text [OF round_trips_simple(1)] round_trips_text [OF round_trips_simple(2)]
       round_trips_text [OF round_trips_simple(3)] round_trips_text [OF round_trips_simple(4)]
       round_trips_text [OF round_trips_float])

lemma loads_text:
  assumes "round_trips f v" and "blank z" and "z = [] \<or> hd z = CHR 10"
  shows "json_loads (f v @ z) = Inr v"
proof -
  have "stops z" using assms(3) by (cases z) auto
  then have "parse_value (2 * length (f v @ z) + 2) (f v @ z) = Some (v, z)"
    using assms(1) by (simp add: round_trips_def del: parse_value.simps)
  moreover have "skip_ws (f v @ z) = f v @ z" using assms(1) by (simp add: round_trips_def opensD)
  moreover have "skip_ws z = []" using skip_ws_blank [OF assms(2), of "[]"] by simp
  ultimately show ?thesis by (simp add: json_loads_def del: parse_value.simps)
qed

lemma json_round_trip: "wf_json v \<Longrightarrow> json_loads (json_dumps v) = Inr v"
  using loads_text [OF round_trips_all, of v "[]"] by (simp add: blank_def)

lemma json_indent_round_trip: "wf_json v \<Longrightarrow> json_loads (dumps_indent 0 v @ [CHR 10]) = Inr v"
  by (rule loads_text [OF round_trips_indent]) (simp_all add: blank_def is_json_ws_def)

lemma json_indent_round_trip_bare: "wf_json v \<Longrightarrow> json_loads (dumps_indent 0 v) = Inr v"
  using loads_text [OF round_trips_indent, of v "[]" 0] by (simp add: blank_def)

section \<open>What is read is well formed\<close>

lemma digits_taken: "takeWhile is_digit s \<noteq> [] \<Longrightarrow> digits (takeWhile is_digit s)"
  by (simp add: digits_def list_all_iff) (metis set_takeWhileD)

lemma parse_number_wf:
  assumes "parse_number s = Some (v, r)"
  shows "wf_json v"
proof -
  define s1 where "s1 = (if startswith ''-'' s then tl s else s)"
  define neg where "neg = (if startswith ''-'' s then ''-'' else [])"
  define ip where "ip = (if startswith ''0'' s1 then ''0'' else takeWhile is_digit s1)"
  define s2 where "s2 = drop (length ip) s1"
  define fp where "fp = (if startswith ''.'' s2 \<and> takeWhile is_digit (tl s2) \<noteq> [] then CHR 46 # takeWhile is_digit (tl s2) else [])"
  define s3 where "s3 = drop (length fp) s2"
  define e where "e = (if s3 \<noteq> [] \<and> (hd s3 = CHR ''e'' \<or> hd s3 = CHR ''E'') then [hd s3] else [])"
  define s4 where "s4 = drop 1 s3"
  define sign where "sign = (if s4 \<noteq> [] \<and> (hd s4 = CHR 43 \<or> hd s4 = CHR 45) then [hd s4] else [])"
  define ds where "ds = takeWhile is_digit (drop (length sign) s4)"
  define ex where "ex = (if e \<noteq> [] \<and> ds \<noteq> [] then e @ sign @ ds else [])"
  have pair: "(if startswith ''-'' s then (''-'', tl s) else ([], s)) = (neg, s1)" by (simp add: neg_def s1_def)
  have v: "ip \<noteq> [] \<and> v = (if fp = [] \<and> ex = [] then JInt (if neg = [] then int (digits_val ip) else - int (digits_val ip))
      else JFloat (neg @ ip @ fp @ ex))"
    using assms
    unfolding parse_number_def pair Let_def prod.case ip_def [symmetric] s2_def [symmetric] fp_def [symmetric] s3_def [symmetric]
      e_def [symmetric] s4_def [symmetric] sign_def [symmetric] ds_def [symmetric] ex_def [symmetric]
    by (cases "ip = []"; cases "fp = [] \<and> ex = []") (simp_all only: if_True if_False simp_thms option.simps prod.inject option.inject)
  have "whole_part ip"
  proof (cases "startswith ''0'' s1")
    case False
    moreover have "takeWhile is_digit s1 \<noteq> []" using v False by (simp add: ip_def)
    ultimately show ?thesis using digits_taken [of s1]
      by (cases s1) (auto simp: ip_def whole_part_def split: if_splits)
  qed (simp add: ip_def whole_part_def digits_def is_digit_def code_def)
  moreover have "fraction_part fp" using digits_taken by (simp add: fp_def fraction_part_def)
  moreover have "exponent_part ex"
  proof (cases "e \<noteq> [] \<and> ds \<noteq> []")
    case True
    then have "e = [CHR ''e''] \<or> e = [CHR ''E'']" by (auto simp: e_def split: if_splits)
    moreover have "sign \<in> {[], [CHR 43], [CHR 45]}" by (simp add: sign_def)
    moreover have "digits ds" using True digits_taken by (simp add: ds_def)
    ultimately show ?thesis using True unfolding exponent_part_def ex_def
      by (intro disjI2 exI [of _ "hd e"] exI [of _ sign] exI [of _ ds]) auto
  next
    case False
    then have "ex = []" by (auto simp: ex_def)
    then show ?thesis by (simp add: exponent_part_def)
  qed
  moreover have "neg \<in> {[], ''-''}" by (simp add: neg_def)
  ultimately have "number_text (neg @ ip @ fp @ ex)" if "fp \<noteq> [] \<or> ex \<noteq> []"
    using that unfolding number_text_def by blast
  then show ?thesis using v by (auto simp: float_text_def)
qed

lemma wf_json_dict_set: "list_all (\<lambda>(k, v). wf_json v) d \<Longrightarrow> wf_json v \<Longrightarrow> list_all (\<lambda>(k, v). wf_json v) (dict_set k v d)"
  by (induction k v d rule: dict_set.induct) auto

lemma wf_json_pairs:
  "list_all (\<lambda>(k, v). wf_json v) ms \<Longrightarrow> list_all (\<lambda>(k, v). wf_json v) d \<Longrightarrow> list_all (\<lambda>(k, v). wf_json v) (dict_of_pairs ms d)"
  by (induction ms d rule: dict_of_pairs.induct) (auto simp: wf_json_dict_set)

lemma wf_json_obj: "list_all (\<lambda>(k, v). wf_json v) ms \<Longrightarrow> list_all (\<lambda>(k, v). wf_json v) (dict_of_pairs ms [])"
  by (simp add: wf_json_pairs)

lemma parsed_wf:
  "parse_value n s = Some (v, r) \<Longrightarrow> wf_json v"
  "parse_items n s = Some (vs, r') \<Longrightarrow> list_all wf_json vs"
  "parse_members n s = Some (ms, r'') \<Longrightarrow> list_all (\<lambda>(k, v). wf_json v) ms"
proof (induction n s and n s and n s arbitrary: v r and vs r' and ms r'' rule: parse_value_parse_items_parse_members.induct)
  case (2 n s)
  have d: "distinct (map fst (dict_of_pairs ms []))" for ms :: "(string \<times> json) list"
    using distinct_keys_dict_of_pairs [of "[]" ms] by (simp add: keys_def)
  show ?case using 2
    by (auto simp: float_text_def Let_def d intro: parse_number_wf intro!: wf_json_obj split: if_splits list.splits)
next
  case (4 n s)
  then show ?case by (auto simp: Let_def split: option.splits if_splits)
next
  case (6 n s)
  then show ?case by (fastforce simp: Let_def split: option.splits if_splits list.splits)
qed simp_all

lemma json_loads_wf: "json_loads s = Inr v \<Longrightarrow> wf_json v"
  by (auto simp: json_loads_def simp del: parse_value.simps dest: parsed_wf split: option.splits if_splits)

end
