(* ===== verification/Asset_Manifest.thy ===== *)
theory Asset_Manifest
  imports Git_Output Effects Json_Round_Trip
begin

text \<open>
  \<open>server/prov/asset_manifest.py\<close>: the index of every file a payload needs that the build does not
  author, made from the declarations in \<open>vendor-inputs.json\<close>. The files of the repository are a
  dictionary from a path to its text; the text is as written with line feeds.
\<close>

section \<open>Which module owns an asset\<close>

definition PROVIDERS :: string where "PROVIDERS = ''server/providers/''"
definition VENDOR_INPUTS :: string where "VENDOR_INPUTS = ''server/data/vendor-inputs.json''"

text \<open>\<open>^server/providers/([^/]+)/assets/\<close> and \<open>^client/assets/\<close>.\<close>

definition module_of :: "string \<Rightarrow> string option" where
  "module_of path =
     (let rest = drop (length PROVIDERS) path;
          name = takeWhile (\<lambda>c. c \<noteq> CHR ''/'') rest
      in if startswith PROVIDERS path \<and> name \<noteq> [] \<and> startswith ''/assets/'' (drop (length name) rest) then Some name
         else if startswith ''client/assets/'' path then Some ''client'' else None)"

text \<open>The blobs at HEAD of the paths, the batch reader again.\<close>

definition frozen_pointers :: "git \<Rightarrow> string list \<Rightarrow> (string, string) dict res" where
  "frozen_pointers git paths =
     (if paths = [] then Inr []
      else bind_res (git [''cat-file'', ''--batch''] (Some (batch_request paths))) (\<lambda>out. read_batch out 0 paths []))"

section \<open>The rows\<close>

abbreviation ManifestError :: "string \<Rightarrow> pyexc" where
  "ManifestError m \<equiv> UserError ''ManifestError'' m"

definition declared_inputs :: "string option \<Rightarrow> json res" where
  "declared_inputs text =
     (case text of
        None \<Rightarrow> Inl (ManifestError (VENDOR_INPUTS @ '' is missing; the build-host inputs cannot be derived''))
      | Some t \<Rightarrow> json_loads t)"

definition source_keys :: "string list" where
  "source_keys = [''name'', ''cached'', ''used_by'', ''why_not_in_repo'', ''origin'', ''reacquire'', ''prefix'']"

text \<open>\<open>k in entry\<close>: a key of a dict, an element of a list, a part of a string.\<close>

fun jin :: "string \<Rightarrow> json \<Rightarrow> bool res" where
  "jin k (JObj d) = Inr (k \<in> set (keys d))"
| "jin k (JList xs) = Inr (JStr k \<in> set xs)"
| "jin k (JStr s) = Inr (contains k s)"
| "jin k _ = Inl TypeError"

fun source_fields :: "json \<Rightarrow> string list \<Rightarrow> (string, json) dict res" where
  "source_fields entry [] = Inr []"
| "source_fields entry (k # ks) =
     bind_res (jin k entry) (\<lambda>there.
       if there then bind_res (jindex entry k) (\<lambda>v. bind_res (source_fields entry ks) (\<lambda>d. Inr ((k, v) # d)))
       else source_fields entry ks)"

text \<open>\<open>{**f, "module": module_of(f["path"]), "source": entry["name"]}\<close>.\<close>

definition asset_row :: "json \<Rightarrow> json \<Rightarrow> (string, json) dict res" where
  "asset_row entry f =
     (case f of
        JObj d \<Rightarrow>
          bind_res (entry_str f ''path'') (\<lambda>p.
          bind_res (jindex entry ''name'') (\<lambda>name.
            Inr (dict_set ''source'' name
                  (dict_set ''module'' (case module_of p of None \<Rightarrow> JNull | Some m \<Rightarrow> JStr m) d))))
      | _ \<Rightarrow> Inl TypeError)"

definition entry_rows :: "json \<Rightarrow> ((string, json) dict \<times> (string, json) dict list) res" where
  "entry_rows entry =
     bind_res (source_fields entry source_keys) (\<lambda>source.
     bind_res (jget_default entry ''files'' (JList [])) (\<lambda>files.
     bind_res (jiter files) (\<lambda>fs.
     bind_res (map_res (asset_row entry) fs) (\<lambda>rows. Inr (source, rows)))))"

definition sources_and_rows :: "json \<Rightarrow> ((string, json) dict list \<times> (string, json) dict list) res" where
  "sources_and_rows declared =
     bind_res (jget_default declared ''inputs'' (JList [])) (\<lambda>inputs.
     bind_res (jiter inputs) (\<lambda>entries.
     bind_res (map_res entry_rows entries) (\<lambda>out. Inr (map fst out, concat (map snd out)))))"

section \<open>The manifest\<close>

definition row_path :: "(string, json) dict \<Rightarrow> string" where
  "row_path row = (case field row ''path'' of JStr p \<Rightarrow> p | _ \<Rightarrow> [])"

definition claimed_twice :: "string \<Rightarrow> json \<Rightarrow> json \<Rightarrow> pyexc" where
  "claimed_twice p other source = ManifestError (p @ '' is claimed by both '' @ [CHR 39] @ py_str other @ [CHR 39]
     @ '' and '' @ [CHR 39] @ py_str source @ [CHR 39]
     @ ''. One path is one file; the cache cannot hold two.'')"

text \<open>The loop over \<open>rows\<close>; a source recorded as \<open>None\<close> is taken for an unseen path.\<close>

fun check_claims :: "(string, json) dict list \<Rightarrow> (string, json) dict \<Rightarrow> unit res" where
  "check_claims [] seen = Inr ()"
| "check_claims (row # rows) seen =
     (let other = field seen (row_path row) in
      if other \<noteq> JNull then Inl (claimed_twice (row_path row) other (field row ''source''))
      else check_claims rows (dict_set (row_path row) (field row ''source'') seen))"

definition manifest_comment :: string where
  "manifest_comment = ''Generated by prov.asset_manifest -- do not hand-edit. One row per file a payload ''
     @ ''needs that the build does not author, keyed by the repo-relative path it would ''
     @ ''have if it were tracked. Every row is declared in vendor-inputs.json. ''
     @ ''See MAST_provisioning#48.''"

definition build_manifest :: "string option \<Rightarrow> (string, json) dict res" where
  "build_manifest text =
     bind_res (declared_inputs text) (\<lambda>declared.
     bind_res (sources_and_rows declared) (\<lambda>(sources, rows).
     bind_res (check_claims rows []) (\<lambda>_.
     bind_res (jget_default declared ''not_vendor_inputs'' (JList [])) (\<lambda>not_cached.
       Inr [(''_comment'', JStr manifest_comment), (''sources'', JList (map JObj sources)), (''not_cached'', not_cached),
            (''files'', JList (map JObj (sort_key row_path rows)))]))))"

text \<open>\<open>sum(f["size"] for f in ...)\<close> over numbers; a bool counts as one, a float is left to its text.\<close>

definition row_size :: "json \<Rightarrow> int res" where
  "row_size row = bind_res (jindex row ''size'') (\<lambda>v. if is_int v then Inr (int_of v) else Inl TypeError)"

definition manifest_main :: "string \<Rightarrow> string \<Rightarrow> ((string, string) dict, int) eff" where
  "manifest_main repo out =
     bindM (gets (\<lambda>fs. build_manifest (map_of fs (repo @ ''/'' @ VENDOR_INPUTS)))) (\<lambda>r.
     bindM (liftR r) (\<lambda>manifest.
     seqM (modifyM (dict_set out (dumps_indent 0 (JObj manifest) @ newline)))
          (bindM (liftR (bind_res (jiter (field manifest ''files'')) (map_res row_size))) (\<lambda>sizes. ret 0))))"

section \<open>Properties\<close>

lemma entry_str_key:
  assumes "entry_str (JObj d) k = Inr t"
  shows "map_of d k = Some (JStr t)"
proof (cases "map_of d k")
  case (Some v)
  with assms show ?thesis by (cases v) (auto simp: entry_str_def)
qed (use assms in \<open>simp add: entry_str_def\<close>)

lemma asset_row_Inr:
  assumes "asset_row entry f = Inr row"
  shows "\<exists>d p name. f = JObj d \<and> map_of d ''path'' = Some (JStr p) \<and> jindex entry ''name'' = Inr name
     \<and> row_path row = p \<and> field row ''source'' = name
     \<and> field row ''module'' = (case module_of p of None \<Rightarrow> JNull | Some m \<Rightarrow> JStr m)
     \<and> (\<forall>k. k \<notin> {''module'', ''source''} \<longrightarrow> map_of row k = map_of d k)"
proof -
  from assms obtain d p name where d: "f = JObj d" "entry_str f ''path'' = Inr p" "jindex entry ''name'' = Inr name"
    and row: "row = dict_set ''source'' name (dict_set ''module'' (case module_of p of None \<Rightarrow> JNull | Some m \<Rightarrow> JStr m) d)"
    by (auto simp: asset_row_def bind_res_Inr_iff split: json.splits)
  moreover from d(1,2) have "map_of d ''path'' = Some (JStr p)"
    by (simp add: entry_str_key)
  ultimately show ?thesis
    by (intro exI [of _ d] exI [of _ p] exI [of _ name]) (simp add: row_path_def field_def)
qed

lemma field_dict_set: "field (dict_set k v d) k' = (if k' = k then v else field d k')"
  by (simp add: field_def)

lemma check_claims_distinct:
  assumes "\<forall>row\<in>set rows. field row ''source'' \<noteq> JNull"
  shows "check_claims rows seen = Inr () \<longleftrightarrow>
     distinct (map row_path rows) \<and> (\<forall>row\<in>set rows. field seen (row_path row) = JNull)"
  using assms
proof (induction rows seen rule: check_claims.induct)
  case (2 row rows seen)
  show ?case
  proof (cases "field seen (row_path row) = JNull")
    case True
    have "field row ''source'' \<noteq> JNull" using 2 by simp
    then have "(\<forall>r\<in>set rows. field (dict_set (row_path row) (field row ''source'') seen) (row_path r) = JNull)
        \<longleftrightarrow> row_path row \<notin> set (map row_path rows) \<and> (\<forall>r\<in>set rows. field seen (row_path r) = JNull)"
      unfolding field_dict_set by (auto simp: image_iff)
    moreover have "check_claims (row # rows) seen
        = check_claims rows (dict_set (row_path row) (field row ''source'') seen)"
      by (simp add: True)
    ultimately show ?thesis using "2.IH" [OF refl] "2.prems" True by (simp add: conj_ac)
  qed (simp add: Let_def)
qed simp

lemma sorted_distinct_strict:
  fixes f :: "'a \<Rightarrow> 'b::linorder"
  assumes "distinct (map f xs)"
  shows "sorted_wrt (\<lambda>x y. f x < f y) (sort_key f xs)"
proof -
  have "distinct (map f (sort_key f xs))"
    using assms by (metis distinct_map distinct_sort inj_on_def set_sort)
  moreover have "sorted (map f (sort_key f xs))" by simp
  ultimately have "sorted_wrt (<) (map f (sort_key f xs))" by (simp add: strict_sorted_iff)
  then show ?thesis by (simp add: sorted_wrt_map)
qed

text \<open>C24: The manifest is well formed: when every declared source is named, a manifest is built exactly when
  no path is declared twice, and then its rows are the declared ones, strictly sorted by their paths,
  each with its declared fields, the module its path belongs to and the name of its source.
\<close>

theorem manifest_one_row_per_path:
  assumes parsed: "json_loads text = Inr declared" and rows: "sources_and_rows declared = Inr (sources, rows)"
    and named: "\<forall>row\<in>set rows. field row ''source'' \<noteq> JNull"
  shows "case build_manifest (Some text) of
     Inl e \<Rightarrow> \<not> distinct (map row_path rows)
   | Inr m \<Rightarrow> distinct (map row_path rows) \<and> (\<exists>files. field m ''files'' = JList (map JObj files)
        \<and> sorted_wrt (\<lambda>a b. row_path a < row_path b) files \<and> mset files = mset rows
        \<and> (\<forall>row\<in>set files. \<exists>entry f. asset_row entry f = Inr row
             \<and> field row ''module'' = (case module_of (row_path row) of None \<Rightarrow> JNull | Some m \<Rightarrow> JStr m)))"
proof -
  have dict: "is_dict declared"
    using rows by (cases declared) (auto simp: sources_and_rows_def)
  then obtain nc where nc: "jget_default declared ''not_vendor_inputs'' (JList []) = Inr nc"
    by (cases declared) auto
  have made: "\<exists>entry f. asset_row entry f = Inr row" if "row \<in> set rows" for row
  proof -
    from rows obtain entries out where "map_res entry_rows entries = Inr out" "rows = concat (map snd out)"
      by (auto simp: sources_and_rows_def bind_res_Inr_iff)
    with that obtain entry sr where "entry_rows entry = Inr sr" "row \<in> set (snd sr)"
      by (auto dest: map_res_mem)
    then obtain fs rs where "map_res (asset_row entry) fs = Inr rs" "row \<in> set rs"
      by (auto simp: entry_rows_def bind_res_Inr_iff)
    from map_res_mem [OF this] show ?thesis by blast
  qed
  show ?thesis
  proof (cases "distinct (map row_path rows)")
    case False
    then obtain e where "check_claims rows [] = Inl e"
      using check_claims_distinct [OF named, of "[]"] by (cases "check_claims rows []") auto
    then show ?thesis using False by (simp add: build_manifest_def declared_inputs_def parsed rows)
  next
    case True
    then have "check_claims rows [] = Inr ()"
      using check_claims_distinct [OF named, of "[]"] by (simp add: field_def)
    then have m: "build_manifest (Some text) = Inr [(''_comment'', JStr manifest_comment),
        (''sources'', JList (map JObj sources)), (''not_cached'', nc), (''files'', JList (map JObj (sort_key row_path rows)))]"
      by (simp add: build_manifest_def declared_inputs_def parsed rows nc)
    have "\<exists>entry f. asset_row entry f = Inr row
        \<and> field row ''module'' = (case module_of (row_path row) of None \<Rightarrow> JNull | Some m \<Rightarrow> JStr m)" if "row \<in> set rows" for row
      using made [OF that] asset_row_Inr by metis
    then show ?thesis
      unfolding m using True sorted_distinct_strict [OF True]
      by (simp only: sum.case) (intro conjI exI [of _ "sort_key row_path rows"], auto simp: field_def)
  qed
qed

definition ex_declared :: json where
  "ex_declared = JObj [(''inputs'', JList [JObj [(''name'', JStr ''npcap''),
     (''files'', JList [JObj [(''path'', JStr ''client/assets/n.exe''), (''size'', JInt 3)]])]])]"

lemma manifest_one_row_per_path_witness:
  "case build_manifest (Some (json_dumps ex_declared)) of Inl e \<Rightarrow> False | Inr m \<Rightarrow> True"
proof -
  have "wf_json ex_declared" by (simp add: ex_declared_def)
  note parsed = json_round_trip [OF this]
  have rows: "sources_and_rows ex_declared = Inr ([[(''name'', JStr ''npcap'')]],
      [[(''path'', JStr ''client/assets/n.exe''), (''size'', JInt 3), (''module'', JStr ''client''), (''source'', JStr ''npcap'')]])"
    by (simp add: ex_declared_def sources_and_rows_def entry_rows_def source_keys_def keys_def asset_row_def
        entry_str_def module_of_def PROVIDERS_def startswith_def)
  show ?thesis
    using manifest_one_row_per_path [OF parsed rows] by (simp add: field_def split: sum.splits)
qed

end
