(* ===== verification/Blobstore.thy ===== *)
theory Blobstore
  imports Effects Py_Json
begin

text \<open>
  \<open>tools/blobstore.py\<close>, the content-addressed store on the staging relay: every
  command, over an explicit file system whose regular files are names for inodes. SHA-256 is the
  parameter \<open>sha\<close>, any function of the bytes. A path is its list of components; paths in a
  manifest are relative and free of \<open>..\<close>, as the build writes them.
\<close>

section \<open>The file system of the relay\<close>

type_synonym path = "string list"

record fs =
  names :: "(path \<times> nat) list"       \<comment> \<open>regular files and the inode each names\<close>
  contents :: "nat \<Rightarrow> string"
  dirs :: "path list"
  next_inode :: nat
  device :: "path \<Rightarrow> nat"

definition ino :: "fs \<Rightarrow> path \<Rightarrow> nat option" where
  "ino s p = map_of (names s) p"

definition is_file :: "fs \<Rightarrow> path \<Rightarrow> bool" where
  "is_file s p \<longleftrightarrow> ino s p \<noteq> None"

definition is_dir :: "fs \<Rightarrow> path \<Rightarrow> bool" where
  "is_dir s p \<longleftrightarrow> p = [] \<or> p \<in> set (dirs s)"

definition path_exists :: "fs \<Rightarrow> path \<Rightarrow> bool" where
  "path_exists s p \<longleftrightarrow> is_file s p \<or> is_dir s p"

definition nlink :: "fs \<Rightarrow> nat \<Rightarrow> nat" where
  "nlink s i = length (filter (\<lambda>e. snd e = i) (names s))"

definition under :: "path \<Rightarrow> path \<Rightarrow> bool" where
  "under d p \<longleftrightarrow> take (length d) p = d \<and> length d < length p"

text \<open>The names in a directory, sorted.\<close>

definition child_names :: "fs \<Rightarrow> path \<Rightarrow> string list" where
  "child_names s d = sorted_set (map last
     (filter (\<lambda>p. p \<noteq> [] \<and> butlast p = d) (map fst (names s) @ dirs s)))"

text \<open>The regular files \<open>os.walk\<close> meets below a directory.\<close>

definition files_under :: "fs \<Rightarrow> path \<Rightarrow> path list" where
  "files_under s d = filter (under d) (map fst (names s))"

definition parents :: "path \<Rightarrow> path list" where
  "parents p = filter (\<lambda>q. q \<noteq> []) (prefixes p)"

definition mkdir_p :: "path \<Rightarrow> (fs, unit) eff" where
  "mkdir_p p = bindM (gets (\<lambda>s. list_ex (is_file s) (parents p))) (\<lambda>blocked.
     if blocked then raise OSError
     else modifyM (\<lambda>s. s\<lparr>dirs := dirs s @ filter (\<lambda>q. q \<notin> set (dirs s)) (parents p)\<rparr>))"

definition os_link :: "path \<Rightarrow> path \<Rightarrow> (fs, unit) eff" where
  "os_link src dest = bindM (gets id) (\<lambda>s.
     case ino s src of
       None \<Rightarrow> raise OSError
     | Some i \<Rightarrow>
         (if path_exists s dest \<or> \<not> is_dir s (butlast dest) \<or> device s src \<noteq> device s dest
          then raise OSError
          else modifyM (\<lambda>s. s\<lparr>names := names s @ [(dest, i)]\<rparr>)))"

definition unlink :: "path \<Rightarrow> (fs, unit) eff" where
  "unlink p = bindM (gets (\<lambda>s. is_file s p)) (\<lambda>f.
     if f then modifyM (\<lambda>s. s\<lparr>names := filter (\<lambda>e. fst e \<noteq> p) (names s)\<rparr>) else raise OSError)"

definition rmdir :: "path \<Rightarrow> (fs, unit) eff" where
  "rmdir p = modifyM (\<lambda>s. s\<lparr>dirs := filter (\<lambda>q. q \<noteq> p) (dirs s)\<rparr>)"

definition remove_tree :: "path \<Rightarrow> fs \<Rightarrow> fs" where
  "remove_tree p s = s\<lparr>names := filter (\<lambda>e. \<not> under p (fst e)) (names s),
                       dirs := filter (\<lambda>q. q \<noteq> p \<and> \<not> under p q) (dirs s)\<rparr>"

definition rmtree :: "path \<Rightarrow> (fs, unit) eff" where
  "rmtree p = bindM (gets (\<lambda>s. is_dir s p)) (\<lambda>d. if d then modifyM (remove_tree p) else raise OSError)"

text \<open>\<open>write_text\<close> opens an existing file in place: its inode, so every other name of it, gets the text.\<close>

definition write_text :: "path \<Rightarrow> string \<Rightarrow> (fs, unit) eff" where
  "write_text p t = bindM (gets id) (\<lambda>s.
     case ino s p of
       Some i \<Rightarrow> modifyM (\<lambda>s. s\<lparr>contents := (contents s)(i := t)\<rparr>)
     | None \<Rightarrow>
         (if is_dir s p \<or> \<not> is_dir s (butlast p) then raise OSError
          else modifyM (\<lambda>s. s\<lparr>names := names s @ [(p, next_inode s)],
                              contents := (contents s)(next_inode s := t),
                              next_inode := Suc (next_inode s)\<rparr>)))"

definition reroot :: "path \<Rightarrow> path \<Rightarrow> path \<Rightarrow> path" where
  "reroot src dest p = (if p = src \<or> under src p then dest @ drop (length src) p else p)"

text \<open>\<open>Path.rename\<close> of a directory to a name that is free.\<close>

definition rename_dir :: "path \<Rightarrow> path \<Rightarrow> (fs, unit) eff" where
  "rename_dir src dest = bindM (gets (\<lambda>s. is_dir s src)) (\<lambda>d.
     if d then modifyM (\<lambda>s. s\<lparr>names := map (\<lambda>(p, i). (reroot src dest p, i)) (names s),
                              dirs := map (reroot src dest) (dirs s)\<rparr>)
     else raise OSError)"

section \<open>Names and manifests\<close>

definition path_parts :: "string \<Rightarrow> path" where
  "path_parts t = filter (\<lambda>c. c \<noteq> [] \<and> c \<noteq> ''.'') (split_on (CHR 47) t)"

definition BLOBSTORE_DIR :: string where "BLOBSTORE_DIR = ''blobstore''"
definition LEGACY_STORE_DIR :: string where "LEGACY_STORE_DIR = ''store''"
definition BUILD_MANIFEST :: string where "BUILD_MANIFEST = ''build-manifest.json''"

datatype snapshot_kind = PROVISIONING_PAYLOAD | BOOTSTRAP_PAYLOAD | WINDOWS_OS_BASELINE

fun kind_value :: "snapshot_kind \<Rightarrow> string" where
  "kind_value PROVISIONING_PAYLOAD = ''provisioning-payload''"
| "kind_value BOOTSTRAP_PAYLOAD = ''bootstrap-payload''"
| "kind_value WINDOWS_OS_BASELINE = ''windows-os-baseline''"

definition blob_path :: "path \<Rightarrow> string \<Rightarrow> path" where
  "blob_path root digest = root @ [BLOBSTORE_DIR, take 2 digest, digest]"

definition sha256_of :: "(string \<Rightarrow> string) \<Rightarrow> fs \<Rightarrow> path \<Rightarrow> string res" where
  "sha256_of sha s p = (case ino s p of None \<Rightarrow> Inl OSError | Some i \<Rightarrow> Inr (sha (contents s i)))"

definition read_manifest :: "string \<Rightarrow> (string, json) dict res" where
  "read_manifest text =
     bind_res (json_loads text) (\<lambda>data.
     bind_res (jget data ''files'') (\<lambda>files.
       case (data, files) of
         (JObj d, JList _) \<Rightarrow> Inr d
       | _ \<Rightarrow> Inl (SystemExit ''manifest has no 'files' list'')))"

definition entry_size :: "json \<Rightarrow> int res" where
  "entry_size e = bind_res (jindex e ''size'') (\<lambda>v. if is_int v then Inr (int_of v) else Inl TypeError)"

definition manifest_files :: "(string, json) dict \<Rightarrow> json list" where
  "manifest_files m = (case field m ''files'' of JList es \<Rightarrow> es | _ \<Rightarrow> [])"

text \<open>The exit code of a command and what it prints on stdout and stderr.\<close>

record cmd_out =
  rc :: int
  stdout :: "string list"
  stderr :: "string list"

section \<open>The commands\<close>

definition seed_file :: "(string \<Rightarrow> string) \<Rightarrow> path \<Rightarrow> path \<Rightarrow> nat \<times> nat \<times> nat \<Rightarrow> (fs, nat \<times> nat \<times> nat) eff" where
  "seed_file sha root f = (\<lambda>(added, linked, failed).
     bindM (gets (\<lambda>s. sha256_of sha s f)) (\<lambda>r. bindM (liftR r) (\<lambda>digest.
     let dest = blob_path root digest in
     bindM (gets (\<lambda>s. path_exists s dest)) (\<lambda>present.
     if present then ret (added, linked + 1, failed)
     else seqM (mkdir_p (butlast dest))
       (catchM (seqM (os_link f dest) (ret (added + 1, linked, failed)))
         (\<lambda>e. if e = OSError then ret (added, linked, failed + 1) else raise e))))))"

definition cmd_seed :: "(string \<Rightarrow> string) \<Rightarrow> path \<Rightarrow> path list \<Rightarrow> (fs, cmd_out) eff" where
  "cmd_seed sha root src_dirs =
     bindM (foldM src_dirs (0, 0, 0) (\<lambda>d counts.
       bindM (gets (\<lambda>s. files_under s d)) (\<lambda>fs. foldM fs counts (seed_file sha root))))
     (\<lambda>(added, linked, failed).
       ret \<lparr>rc = (if 0 < failed then 1 else 0),
            stdout = [''SEEDED added='' @ nat_str added @ '' already_present='' @ nat_str linked
                      @ '' failed='' @ nat_str failed], stderr = []\<rparr>)"

definition missing_digests :: "fs \<Rightarrow> path \<Rightarrow> string list \<Rightarrow> string list" where
  "missing_digests s root digests = sorted_set (filter (\<lambda>d. \<not> path_exists s (blob_path root d)) digests)"

definition cmd_want :: "path \<Rightarrow> string \<Rightarrow> (fs, cmd_out) eff" where
  "cmd_want root stdin =
     bindM (liftR (read_manifest stdin)) (\<lambda>m.
     bindM (liftR (map_res (\<lambda>e. entry_str e ''sha256'') (manifest_files m))) (\<lambda>digests.
     bindM (gets (\<lambda>s. missing_digests s root digests)) (\<lambda>missing.
     ret \<lparr>rc = 0, stdout = missing, stderr = []\<rparr>)))"

definition target_dir :: "path \<Rightarrow> string \<Rightarrow> path" where
  "target_dir root host = root @ [''hosts'', host, ''01-provisioning'']"

definition same_inode :: "fs \<Rightarrow> path \<Rightarrow> path \<Rightarrow> bool" where
  "same_inode s p q \<longleftrightarrow> ino s p \<noteq> None \<and> ino s p = ino s q"

text \<open>One entry of the assemble loop: the path added to \<open>wanted\<close>, and the link put in place.\<close>

definition assemble_entry :: "path \<Rightarrow> path \<Rightarrow> json \<Rightarrow> path set \<Rightarrow> (fs, path set) eff" where
  "assemble_entry root target entry wanted =
     bindM (liftR (entry_str entry ''sha256'')) (\<lambda>digest.
     let blob = blob_path root digest in
     bindM (gets (\<lambda>s. path_exists s blob)) (\<lambda>held.
     if \<not> held then
       bindM (liftR (jindex entry ''path'')) (\<lambda>p.
       raise (SystemExit (''assemble: blobstore is missing '' @ digest @ '' for '' @ py_str p)))
     else
       bindM (liftR (entry_str entry ''path'')) (\<lambda>p.
       let dest = target @ path_parts p in
       seqM (mkdir_p (butlast dest))
       (bindM (gets id) (\<lambda>s.
        if path_exists s dest
        then (if same_inode s dest blob then ret (insert dest wanted)
              else seqM (unlink dest) (seqM (os_link blob dest) (ret (insert dest wanted))))
        else seqM (os_link blob dest) (ret (insert dest wanted)))))))"

definition prune_files :: "path \<Rightarrow> path set \<Rightarrow> fs \<Rightarrow> fs" where
  "prune_files target wanted s =
     s\<lparr>names := filter (\<lambda>e. under target (fst e) \<longrightarrow> fst e \<in> wanted) (names s)\<rparr>"

fun prune_dirs :: "path list \<Rightarrow> fs \<Rightarrow> fs" where
  "prune_dirs [] s = s"
| "prune_dirs (d # ds) s =
     prune_dirs ds (if child_names s d = [] then s\<lparr>dirs := filter (\<lambda>q. q \<noteq> d) (dirs s)\<rparr> else s)"

text \<open>The walk is bottom-up: deeper directories are looked at first.\<close>

definition prune_to :: "path \<Rightarrow> path set \<Rightarrow> (fs, nat) eff" where
  "prune_to target wanted =
     bindM (gets (\<lambda>s. length (filter (\<lambda>p. p \<notin> wanted) (files_under s target)))) (\<lambda>removed.
     seqM (modifyM (prune_files target wanted))
     (seqM (modifyM (\<lambda>s. prune_dirs (sorted_desc_by length (filter (under target) (dirs s))) s))
     (ret removed)))"

definition tree_matches :: "fs \<Rightarrow> path \<Rightarrow> path \<Rightarrow> (string, string) dict \<Rightarrow> bool" where
  "tree_matches s root tree wanted \<longleftrightarrow>
     (let present = map (\<lambda>p. join ''/'' (drop (length tree) p)) (files_under s tree)
      in set present = set (keys wanted)
         \<and> list_all (\<lambda>(p, digest). path_exists s (blob_path root digest)
                \<and> same_inode s (tree @ path_parts p) (blob_path root digest)) wanted)"

definition snapshot_link :: "path \<Rightarrow> path \<Rightarrow> string \<times> string \<Rightarrow> (fs, unit) eff" where
  "snapshot_link root building = (\<lambda>(p, digest).
     bindM (gets (\<lambda>s. path_exists s (blob_path root digest))) (\<lambda>held.
     if \<not> held then raise (SystemExit (''snapshot: blobstore is missing '' @ digest @ '' for '' @ p))
     else seqM (mkdir_p (butlast (building @ path_parts p)))
               (os_link (blob_path root digest) (building @ path_parts p))))"

definition wanted_map :: "json list \<Rightarrow> (string, string) dict res" where
  "wanted_map es = bind_res (map_res (\<lambda>e. bind_res (entry_str e ''path'') (\<lambda>p.
       bind_res (entry_str e ''sha256'') (\<lambda>d. Inr (p, d)))) es) (\<lambda>ps. Inr (dict_of_pairs ps []))"

definition snap_final :: "path \<Rightarrow> string \<Rightarrow> string \<Rightarrow> path" where
  "snap_final root kind snapshot_id = root @ [kind] @ path_parts snapshot_id"

definition snap_record :: "path \<Rightarrow> string \<Rightarrow> string \<Rightarrow> path" where
  "snap_record root kind snapshot_id = root @ [kind] @ path_parts (snapshot_id @ ''.json'')"

definition snap_building :: "path \<Rightarrow> string \<Rightarrow> string \<Rightarrow> path" where
  "snap_building root kind snapshot_id = root @ [kind] @ path_parts (''.'' @ snapshot_id @ ''.building'')"

text \<open>The \<open>try\<close> that links every blob, and undoes the half-tree on any exception.\<close>

definition snapshot_fill :: "path \<Rightarrow> path \<Rightarrow> (string, string) dict \<Rightarrow> (fs, unit) eff" where
  "snapshot_fill root building wanted =
     catchM (forM wanted (snapshot_link root building))
       (\<lambda>e. seqM (modifyM (remove_tree building)) (raise e))"

definition snapshot :: "path \<Rightarrow> string \<Rightarrow> string \<Rightarrow> (string, json) dict \<Rightarrow> (fs, string) eff" where
  "snapshot root kind snapshot_id manifest =
     (let final = snap_final root kind snapshot_id;
          building = snap_building root kind snapshot_id
      in
      bindM (liftR (wanted_map (manifest_files manifest))) (\<lambda>wanted.
      bindM (gets id) (\<lambda>s.
      if path_exists s final then
        (if tree_matches s root final wanted then ret ''existing''
         else raise (SystemExit (''snapshot '' @ kind @ ''/'' @ snapshot_id
                                 @ '' exists and differs from this manifest'')))
      else
        seqM (whenM (path_exists s building) (rmtree building))
        (seqM (snapshot_fill root building wanted)
        (seqM (write_text (snap_record root kind snapshot_id) (dumps_indent 0 (JObj manifest)))
        (seqM (rename_dir building final)
        (ret ''created'')))))))"

text \<open>The snapshot of what was assembled, without the build manifest, and the report.\<close>

definition assemble_finish :: "path \<Rightarrow> string \<Rightarrow> (string, json) dict \<Rightarrow> nat \<Rightarrow> (fs, cmd_out) eff" where
  "assemble_finish root host m removed =
     (let payload = dict_set ''files''
            (JList (filter (\<lambda>e. jindex e ''path'' \<noteq> Inr (JStr BUILD_MANIFEST)) (manifest_files m))) m in
      bindM (liftR (entry_str (JObj m) ''payload_hash'')) (\<lambda>payload_hash.
      bindM (snapshot root (kind_value PROVISIONING_PAYLOAD) payload_hash payload) (\<lambda>state.
      bindM (liftR (map_res entry_size (manifest_files m))) (\<lambda>sizes.
      ret \<lparr>rc = 0,
           stdout = [''ASSEMBLED host='' @ host @ '' files='' @ nat_str (length (manifest_files m))
                     @ '' bytes='' @ int_str (sum_list sizes) @ '' pruned='' @ nat_str removed
                     @ '' snapshot='' @ state],
           stderr = []\<rparr>))))"

definition cmd_assemble :: "path \<Rightarrow> string \<Rightarrow> string \<Rightarrow> (fs, cmd_out) eff" where
  "cmd_assemble root host stdin =
     (let target = target_dir root host in
      bindM (liftR (read_manifest stdin)) (\<lambda>m.
      seqM (mkdir_p target)
      (bindM (gets (\<lambda>s. device s (root @ [BLOBSTORE_DIR]) = device s target)) (\<lambda>one.
      if \<not> one then raise (SystemExit ''blobstore/ and hosts/ are on different filesystems; hardlinks cannot span them'')
      else
      bindM (foldM (manifest_files m) {} (assemble_entry root target)) (\<lambda>wanted.
      bindM (prune_to target wanted) (\<lambda>removed.
      seqM (write_text (root @ [''hosts'', host, ''payload-manifest.json'']) (dumps_indent 0 (JObj m)))
      (assemble_finish root host m removed)))))))"

definition cmd_snapshot :: "path \<Rightarrow> snapshot_kind \<Rightarrow> string \<Rightarrow> string \<Rightarrow> (fs, cmd_out) eff" where
  "cmd_snapshot root kind snapshot_id stdin =
     bindM (liftR (read_manifest stdin)) (\<lambda>m.
     bindM (snapshot root (kind_value kind) snapshot_id m) (\<lambda>state.
     ret \<lparr>rc = 0,
          stdout = [''SNAPSHOT kind='' @ kind_value kind @ '' id='' @ snapshot_id @ '' files=''
                    @ nat_str (length (manifest_files m)) @ '' state='' @ state],
          stderr = []\<rparr>))"

text \<open>The counters of a command that walks the shards: blobs, bytes, and what it printed.\<close>

record tally =
  t_bad :: nat
  t_all :: nat
  t_bytes :: nat
  t_out :: "string list"
  t_err :: "string list"

definition empty_tally :: tally where
  "empty_tally = \<lparr>t_bad = 0, t_all = 0, t_bytes = 0, t_out = [], t_err = []\<rparr>"

definition store_dir :: "path \<Rightarrow> path" where
  "store_dir root = root @ [BLOBSTORE_DIR]"

definition shard_names :: "path \<Rightarrow> fs \<Rightarrow> string list" where
  "shard_names root s =
     (if path_exists s (store_dir root)
      then filter (\<lambda>n. is_dir s (store_dir root @ [n])) (child_names s (store_dir root)) else [])"

definition fsck_blob :: "(string \<Rightarrow> string) \<Rightarrow> bool \<Rightarrow> path \<Rightarrow> tally \<Rightarrow> (fs, tally) eff" where
  "fsck_blob sha print_names blob t =
     bindM (gets id) (\<lambda>s.
     if \<not> is_file s blob then ret t
     else
       bindM (liftR (sha256_of sha s blob)) (\<lambda>actual.
       let t = t\<lparr>t_all := t_all t + 1\<rparr> in
       if actual = last blob then ret t
       else ret (t\<lparr>t_bad := t_bad t + 1,
                   t_bytes := t_bytes t + length (contents s (the (ino s blob))),
                   t_err := t_err t @ [''CORRUPT '' @ last blob @ '' hashes to '' @ actual],
                   t_out := t_out t @ (if print_names then [last blob] else [])\<rparr>)))"

definition cmd_fsck :: "(string \<Rightarrow> string) \<Rightarrow> path \<Rightarrow> bool \<Rightarrow> (fs, cmd_out) eff" where
  "cmd_fsck sha root print_names =
     bindM (gets (shard_names root)) (\<lambda>shards.
     bindM (foldM shards empty_tally (\<lambda>shard t.
        bindM (gets (\<lambda>s. child_names s (store_dir root @ [shard]))) (\<lambda>blobs.
        foldM blobs t (\<lambda>b. fsck_blob sha print_names (store_dir root @ [shard, b]))))) (\<lambda>t.
     ret \<lparr>rc = (if 0 < t_bad t then 1 else 0), stdout = t_out t,
          stderr = t_err t @ [''FSCK checked='' @ nat_str (t_all t) @ '' corrupt='' @ nat_str (t_bad t)
                              @ '' corrupt_bytes='' @ nat_str (t_bytes t)]\<rparr>))"

definition cmd_repair :: "(string \<Rightarrow> string) \<Rightarrow> path \<Rightarrow> string \<Rightarrow> path \<Rightarrow> (fs, cmd_out) eff" where
  "cmd_repair sha root digest good =
     (let blob = blob_path root digest in
      bindM (gets (\<lambda>s. ino s blob)) (\<lambda>bi.
      case bi of
        None \<Rightarrow> raise (SystemExit (''repair: the blobstore holds no '' @ digest @ ''; seed it instead''))
      | Some i \<Rightarrow>
          bindM (gets (\<lambda>s. sha256_of sha s good)) (\<lambda>r. bindM (liftR r) (\<lambda>actual.
          if actual \<noteq> digest
          then raise (SystemExit (''repair: the source hashes to '' @ actual @ '', not '' @ digest))
          else
            seqM (modifyM (\<lambda>s. s\<lparr>contents := (contents s)(i := contents s (the (ino s good)))\<rparr>))
            (bindM (gets id) (\<lambda>s.
             if sha (contents s i) \<noteq> digest
             then raise (SystemExit ''repair: the blob still does not hash to its name after the rewrite'')
             else ret \<lparr>rc = 0, stdout = [''REPAIRED '' @ digest @ '' links='' @ nat_str (nlink s i)],
                       stderr = []\<rparr>))))))"

text \<open>A directory inside a shard has at least two links, so only files are dropped.\<close>

definition gc_blob :: "bool \<Rightarrow> path \<Rightarrow> tally \<Rightarrow> (fs, tally) eff" where
  "gc_blob dry_run blob t =
     bindM (gets id) (\<lambda>s.
     case ino s blob of
       None \<Rightarrow> ret (t\<lparr>t_all := t_all t + 1\<rparr>)
     | Some i \<Rightarrow>
         if nlink s i = 1 then
           (let size = length (contents s i);
                t' = t\<lparr>t_bytes := t_bytes t + size, t_bad := t_bad t + 1\<rparr>
            in if dry_run
               then ret (t'\<lparr>t_out := t_out t @ [''WOULD_FREE '' @ last blob @ '' '' @ nat_str size]\<rparr>)
               else seqM (unlink blob) (ret t'))
         else ret (t\<lparr>t_all := t_all t + 1\<rparr>))"

definition gc_shard :: "bool \<Rightarrow> path \<Rightarrow> tally \<Rightarrow> (fs, tally) eff" where
  "gc_shard dry_run shard t =
     bindM (gets (\<lambda>s. child_names s shard)) (\<lambda>blobs.
     bindM (foldM blobs t (\<lambda>b. gc_blob dry_run (shard @ [b]))) (\<lambda>t.
     bindM (gets (\<lambda>s. \<not> dry_run \<and> child_names s shard = [])) (\<lambda>empty.
     seqM (whenM empty (rmdir shard)) (ret t))))"

definition cmd_gc :: "path \<Rightarrow> bool \<Rightarrow> (fs, cmd_out) eff" where
  "cmd_gc root dry_run =
     bindM (gets (shard_names root)) (\<lambda>shards.
     bindM (foldM shards empty_tally (\<lambda>shard. gc_shard dry_run (store_dir root @ [shard]))) (\<lambda>t.
     ret \<lparr>rc = 0,
          stdout = t_out t @ [''GC'' @ (if dry_run then '' DRY_RUN'' else []) @ '' freed='' @ nat_str (t_bad t)
                              @ '' bytes_freed='' @ nat_str (t_bytes t) @ '' kept='' @ nat_str (t_all t)],
          stderr = []\<rparr>))"

text \<open>The sub-command \<open>argparse\<close> hands over, with its arguments and its standard input.\<close>

datatype command =
    Seed "path list"
  | Want string
  | Assemble string string
  | Snapshot snapshot_kind string string
  | Repair string path
  | Gc bool
  | Fsck bool

definition dispatch :: "(string \<Rightarrow> string) \<Rightarrow> path \<Rightarrow> command \<Rightarrow> (fs, cmd_out) eff" where
  "dispatch sha root c =
     (case c of
        Seed ds \<Rightarrow> cmd_seed sha root ds
      | Want t \<Rightarrow> cmd_want root t
      | Assemble h t \<Rightarrow> cmd_assemble root h t
      | Snapshot k i t \<Rightarrow> cmd_snapshot root k i t
      | Repair d g \<Rightarrow> cmd_repair sha root d g
      | Gc dry \<Rightarrow> cmd_gc root dry
      | Fsck n \<Rightarrow> cmd_fsck sha root n)"

definition blobstore_main :: "(string \<Rightarrow> string) \<Rightarrow> path \<Rightarrow> command \<Rightarrow> (fs, cmd_out) eff" where
  "blobstore_main sha root c =
     bindM (gets (\<lambda>s. is_dir s (root @ [LEGACY_STORE_DIR]) \<and> \<not> path_exists s (store_dir root))) (\<lambda>legacy.
     if legacy then raise (SystemExit ''the blobstore is under its old name'')
     else seqM (mkdir_p (store_dir root)) (dispatch sha root c))"

end
