(* ===== verification/Blobstore_Inv.thy ===== *)
theory Blobstore_Inv
  imports Blobstore
begin

text \<open>
  The invariants of the relay's store and that every command keeps them: a well-formed
  directory tree, content addressing (a blob hashes to its name), and records (the JSON files the
  commands write in place) that share their inode with nothing.
\<close>

section \<open>The invariants\<close>

definition fs_ok :: "fs \<Rightarrow> bool" where
  "fs_ok s \<longleftrightarrow> distinct (map fst (names s))
     \<and> (\<forall>p i. (p, i) \<in> set (names s) \<longrightarrow>
           p \<noteq> [] \<and> is_dir s (butlast p) \<and> \<not> is_dir s p \<and> i < next_inode s)
     \<and> (\<forall>d. d \<in> set (dirs s) \<longrightarrow> d \<noteq> [] \<and> is_dir s (butlast d))"

definition content_addressed :: "(string \<Rightarrow> string) \<Rightarrow> path \<Rightarrow> fs \<Rightarrow> bool" where
  "content_addressed sha root s \<longleftrightarrow>
     (\<forall>(p, i)\<in>set (names s). under (store_dir root) p \<longrightarrow> sha (contents s i) = last p)"

text \<open>The files the commands write in place: \<open>hosts/<host>/payload-manifest.json\<close> and \<open><kind>/<id>.json\<close>.\<close>

definition is_record :: "path \<Rightarrow> path \<Rightarrow> bool" where
  "is_record root p \<longleftrightarrow>
     (\<exists>host. p = root @ [''hosts'', host, ''payload-manifest.json''])
     \<or> (\<exists>kind n. kind \<noteq> BLOBSTORE_DIR \<and> kind \<noteq> ''hosts'' \<and> p = root @ [kind, n @ ''.json''])"

definition records_private :: "path \<Rightarrow> fs \<Rightarrow> bool" where
  "records_private root s \<longleftrightarrow>
     (\<forall>(p, i)\<in>set (names s). \<forall>(q, j)\<in>set (names s). is_record root p \<and> i = j \<longrightarrow> q = p)"

definition blob_inv :: "(string \<Rightarrow> string) \<Rightarrow> path \<Rightarrow> fs \<Rightarrow> bool" where
  "blob_inv sha root s \<longleftrightarrow> fs_ok s \<and> content_addressed sha root s \<and> records_private root s"

section \<open>Paths\<close>

lemma under_append [simp]: "under d (d @ p) \<longleftrightarrow> p \<noteq> []"
  by (simp add: under_def)

lemma under_iff: "under d p \<longleftrightarrow> (\<exists>q. q \<noteq> [] \<and> p = d @ q)"
proof
  assume u: "under d p"
  then have t: "take (length d) p = d" and l: "length d < length p"
    unfolding under_def by blast+
  have "p = take (length d) p @ drop (length d) p" by (rule append_take_drop_id [symmetric])
  then have "p = d @ drop (length d) p" unfolding t .
  moreover have "drop (length d) p \<noteq> []" using l by simp
  ultimately show "\<exists>q. q \<noteq> [] \<and> p = d @ q" by blast
qed (auto simp: under_def)

lemma under_trans:
  assumes "under a b" and "under b c"
  shows "under a c"
proof -
  from assms obtain q r where "q \<noteq> []" "b = a @ q" "c = b @ r" by (auto simp: under_iff)
  then have "c = a @ (q @ r)" "q @ r \<noteq> []" by simp_all
  then show ?thesis unfolding under_iff by blast
qed

lemma not_under_store [simp]:
  "k \<noteq> BLOBSTORE_DIR \<Longrightarrow> \<not> under (store_dir root) (root @ k # p)"
  by (simp add: under_def store_dir_def)

lemma under_blob [simp]: "under (store_dir root) (blob_path root d)"
  by (simp add: under_def store_dir_def blob_path_def)

lemma last_blob_path [simp]: "last (blob_path root d) = d"
  by (simp add: blob_path_def)

lemma blob_path_inject [simp]: "blob_path root d = blob_path root d' \<longleftrightarrow> d = d'"
  by (auto simp: blob_path_def)

lemma dir_names_distinct [simp]:
  "''hosts'' \<noteq> BLOBSTORE_DIR" "BLOBSTORE_DIR \<noteq> ''hosts''" "kind_value k \<noteq> BLOBSTORE_DIR"
  "kind_value k \<noteq> ''hosts''"
  by (cases k; simp add: BLOBSTORE_DIR_def)+

lemma parents_mem: "q \<in> set (parents p) \<longleftrightarrow> q \<noteq> [] \<and> prefix q p"
  by (auto simp: parents_def)

lemma parents_butlast:
  assumes "q \<in> set (parents p)"
  shows "butlast q = [] \<or> butlast q \<in> set (parents p)"
proof -
  have "prefix (butlast q) q" by (rule prefixeq_butlast)
  with assms show ?thesis by (auto simp: parents_mem intro: prefix_order.trans)
qed

section \<open>What the primitive operations do\<close>

lemma mkdir_p_cases:
  "mkdir_p p s = (r, s') \<Longrightarrow>
     (r = Inl OSError \<and> s' = s) \<or>
     (r = Inr () \<and> (\<forall>q\<in>set (parents p). \<not> is_file s q)
       \<and> s' = s\<lparr>dirs := dirs s @ filter (\<lambda>q. q \<notin> set (dirs s)) (parents p)\<rparr>)"
  by (auto simp: mkdir_p_def eff_defs list_ex_iff split: if_splits)

lemma os_link_cases:
  "os_link src dest s = (r, s') \<Longrightarrow>
     (r = Inl OSError \<and> s' = s) \<or>
     (\<exists>i. r = Inr () \<and> ino s src = Some i \<and> \<not> path_exists s dest \<and> is_dir s (butlast dest)
        \<and> device s src = device s dest \<and> s' = s\<lparr>names := names s @ [(dest, i)]\<rparr>)"
  by (auto simp: os_link_def eff_defs split: option.splits if_splits)

lemma unlink_cases:
  "unlink p s = (r, s') \<Longrightarrow>
     (r = Inl OSError \<and> s' = s) \<or>
     (r = Inr () \<and> is_file s p \<and> s' = s\<lparr>names := filter (\<lambda>e. fst e \<noteq> p) (names s)\<rparr>)"
  by (auto simp: unlink_def eff_defs split: if_splits)

lemma write_text_cases:
  "write_text p t s = (r, s') \<Longrightarrow>
     (r = Inl OSError \<and> s' = s) \<or>
     (\<exists>i. r = Inr () \<and> ino s p = Some i \<and> s' = s\<lparr>contents := (contents s)(i := t)\<rparr>) \<or>
     (r = Inr () \<and> ino s p = None \<and> \<not> is_dir s p \<and> is_dir s (butlast p)
       \<and> s' = s\<lparr>names := names s @ [(p, next_inode s)],
              contents := (contents s)(next_inode s := t), next_inode := Suc (next_inode s)\<rparr>)"
  by (auto simp: write_text_def eff_defs split: option.splits if_splits)

lemma rename_dir_cases:
  "rename_dir src dest s = (r, s') \<Longrightarrow>
     (r = Inl OSError \<and> s' = s) \<or>
     (r = Inr () \<and> is_dir s src
       \<and> s' = s\<lparr>names := map (\<lambda>(p, i). (reroot src dest p, i)) (names s),
                dirs := map (reroot src dest) (dirs s)\<rparr>)"
  by (auto simp: rename_dir_def eff_defs split: if_splits)

lemma is_dir_simps [simp]:
  "is_dir (s\<lparr>names := ns\<rparr>) p = is_dir s p"
  "is_dir (s\<lparr>contents := c\<rparr>) p = is_dir s p"
  "is_dir (s\<lparr>next_inode := k\<rparr>) p = is_dir s p"
  by (simp_all add: is_dir_def)

lemma ino_mem: "ino s p = Some i \<Longrightarrow> (p, i) \<in> set (names s)"
  by (simp add: ino_def map_of_SomeD)

lemma is_file_mem: "is_file s p \<longleftrightarrow> p \<in> fst ` set (names s)"
  by (simp add: is_file_def ino_def map_of_eq_None_iff)

lemma ino_Some_iff: "fs_ok s \<Longrightarrow> ino s p = Some i \<longleftrightarrow> (p, i) \<in> set (names s)"
  by (simp add: ino_def fs_ok_def)

section \<open>The tree stays well formed\<close>

lemma fs_ok_name:
  assumes "fs_ok s" and "(p, i) \<in> set (names s)"
  shows "p \<noteq> []" "is_dir s (butlast p)" "\<not> is_dir s p" "i < next_inode s"
  using assms by (auto simp: fs_ok_def)

lemma fs_ok_dir:
  assumes "fs_ok s" and "d \<in> set (dirs s)"
  shows "d \<noteq> []" "is_dir s (butlast d)"
  using assms by (auto simp: fs_ok_def)

lemma fs_ok_distinct: "fs_ok s \<Longrightarrow> distinct (map fst (names s))"
  by (simp add: fs_ok_def)

lemma keeps_fs_ok_mkdir_p [keep]: "keeps fs_ok (mkdir_p p)"
proof (rule keepsI)
  fix s r s' assume ok: "fs_ok s" and m: "mkdir_p p s = (r, s')"
  from mkdir_p_cases [OF m] show "fs_ok s'"
  proof (elim disjE conjE)
    assume nf: "\<forall>q\<in>set (parents p). \<not> is_file s q"
      and s': "s' = s\<lparr>dirs := dirs s @ filter (\<lambda>q. q \<notin> set (dirs s)) (parents p)\<rparr>"
    have d: "is_dir s' q \<longleftrightarrow> is_dir s q \<or> q \<in> set (parents p)" for q
      by (auto simp: is_dir_def s')
    show ?thesis
      unfolding fs_ok_def
    proof (intro conjI allI impI)
      fix q i assume q: "(q, i) \<in> set (names s')"
      then have q: "(q, i) \<in> set (names s)" by (simp add: s')
      then have "q \<notin> set (parents p)" using nf by (auto simp: is_file_mem image_iff)
      with fs_ok_name [OF ok q] show "q \<noteq> []" "is_dir s' (butlast q)" "\<not> is_dir s' q" "i < next_inode s'"
        by (simp_all add: d) (simp add: s')
    next
      fix q assume "q \<in> set (dirs s')"
      then have "q \<in> set (dirs s) \<or> q \<in> set (parents p)" by (auto simp: s')
      then show "q \<noteq> []" "is_dir s' (butlast q)"
        using fs_ok_dir [OF ok] parents_butlast [of q p] unfolding d
        by (auto simp: parents_mem is_dir_def)
    qed (use fs_ok_distinct [OF ok] in \<open>simp add: s'\<close>)
  qed (use ok in simp)
qed

lemma fs_ok_add_name:
  assumes "fs_ok s" and "\<not> path_exists s p" and "is_dir s (butlast p)" and "i < k" and "next_inode s \<le> k"
  shows "fs_ok (s\<lparr>names := names s @ [(p, i)], contents := c, next_inode := k\<rparr>)"
proof -
  have new: "p \<notin> fst ` set (names s)" "p \<noteq> []" "\<not> is_dir s p"
    using assms(2) by (auto simp: path_exists_def is_file_mem is_dir_def)
  have "\<And>q j. (q, j) \<in> set (names s) \<Longrightarrow> j < k"
    using fs_ok_name(4) [OF assms(1)] assms(5) by (meson less_le_trans)
  then show ?thesis
    using assms new fs_ok_name [OF assms(1)] fs_ok_dir [OF assms(1)] fs_ok_distinct [OF assms(1)]
    by (auto simp: fs_ok_def is_dir_def)
qed

lemma keeps_fs_ok_os_link [keep]: "keeps fs_ok (os_link src dest)"
proof (rule keepsI)
  fix s r s' assume ok: "fs_ok s" and m: "os_link src dest s = (r, s')"
  from os_link_cases [OF m] show "fs_ok s'"
  proof (elim disjE exE conjE)
    fix i assume i: "ino s src = Some i" and new: "\<not> path_exists s dest" "is_dir s (butlast dest)"
      and s': "s' = s\<lparr>names := names s @ [(dest, i)]\<rparr>"
    have "i < next_inode s" by (rule fs_ok_name(4) [OF ok ino_mem [OF i]])
    from fs_ok_add_name [OF ok new this order_refl, of "contents s"] show ?thesis
      by (simp add: s')
  qed (use ok in simp)
qed

lemma fs_ok_filter_names: "fs_ok s \<Longrightarrow> fs_ok (s\<lparr>names := filter P (names s)\<rparr>)"
  unfolding fs_ok_def by (simp add: distinct_map_filter) blast

lemma keeps_fs_ok_unlink [keep]: "keeps fs_ok (unlink p)"
  by (rule keepsI) (auto dest!: unlink_cases intro: fs_ok_filter_names)

lemma keeps_fs_ok_write_text [keep]: "keeps fs_ok (write_text p t)"
proof (rule keepsI)
  fix s r s' assume ok: "fs_ok s" and m: "write_text p t s = (r, s')"
  from write_text_cases [OF m] show "fs_ok s'"
  proof (elim disjE exE conjE)
    assume new: "ino s p = None" "\<not> is_dir s p" "is_dir s (butlast p)"
      and s': "s' = s\<lparr>names := names s @ [(p, next_inode s)],
              contents := (contents s)(next_inode s := t), next_inode := Suc (next_inode s)\<rparr>"
    have "\<not> path_exists s p" using new by (simp add: path_exists_def is_file_def)
    from fs_ok_add_name [OF ok this new(3), of "next_inode s" "Suc (next_inode s)"] show ?thesis
      by (simp add: s')
  next
    fix i assume "s' = s\<lparr>contents := (contents s)(i := t)\<rparr>"
    then show ?thesis using ok by (simp add: fs_ok_def)
  qed (use ok in simp)
qed

lemma under_butlast: "butlast q = p \<or> under p (butlast q) \<Longrightarrow> q \<noteq> [] \<Longrightarrow> under p q"
  by (metis append_butlast_last_id list.distinct(1) under_append under_trans)

lemma fs_ok_remove_tree:
  assumes ok: "fs_ok s"
  shows "fs_ok (remove_tree p s)"
proof -
  have d: "is_dir (remove_tree p s) q \<longleftrightarrow> q = [] \<or> (q \<in> set (dirs s) \<and> q \<noteq> p \<and> \<not> under p q)" for q
    by (auto simp: is_dir_def remove_tree_def)
  show ?thesis
    unfolding fs_ok_def d
  proof (intro conjI allI impI)
    fix q i assume "(q, i) \<in> set (names (remove_tree p s))"
    then have q: "(q, i) \<in> set (names s)" "\<not> under p q" by (auto simp: remove_tree_def)
    from fs_ok_name [OF ok q(1)] under_butlast [of q p] q(2)
    show "q \<noteq> []" "butlast q = [] \<or> butlast q \<in> set (dirs s) \<and> butlast q \<noteq> p \<and> \<not> under p (butlast q)"
      "\<not> (q = [] \<or> q \<in> set (dirs s) \<and> q \<noteq> p \<and> \<not> under p q)" "i < next_inode (remove_tree p s)"
      by (auto simp: is_dir_def remove_tree_def)
  next
    fix q assume "q \<in> set (dirs (remove_tree p s))"
    then have q: "q \<in> set (dirs s)" "q \<noteq> p" "\<not> under p q" by (auto simp: remove_tree_def)
    from fs_ok_dir [OF ok q(1)] under_butlast [of q p] q(3)
    show "q \<noteq> []" "butlast q = [] \<or> butlast q \<in> set (dirs s) \<and> butlast q \<noteq> p \<and> \<not> under p (butlast q)"
      by (auto simp: is_dir_def)
  qed (use fs_ok_distinct [OF ok] in \<open>simp add: remove_tree_def distinct_map_filter\<close>)
qed

lemma keeps_fs_ok_rmtree [keep]: "keeps fs_ok (rmtree p)"
  unfolding rmtree_def by (intro keep) (auto intro: fs_ok_remove_tree)

lemma last_child: "(p \<noteq> [] \<and> butlast p = d \<and> n = last p) = (p = d @ [n])"
  by (metis append_butlast_last_id butlast_snoc last_snoc snoc_eq_iff_butlast)

lemma ex_child: "(\<exists>p\<in>A. p \<noteq> [] \<and> butlast p = d \<and> n = last p) \<longleftrightarrow> d @ [n] \<in> A"
  by (simp only: last_child) auto

lemma child_names_mem:
  "n \<in> set (child_names s d) \<longleftrightarrow> d @ [n] \<in> fst ` set (names s) \<or> d @ [n] \<in> set (dirs s)"
proof -
  have "n \<in> set (child_names s d)
      \<longleftrightarrow> (\<exists>p\<in>fst ` set (names s) \<union> set (dirs s). p \<noteq> [] \<and> butlast p = d \<and> n = last p)"
    unfolding child_names_def set_sorted_set set_map set_filter set_append by blast
  then show ?thesis by (simp only: ex_child Un_iff)
qed

lemma fs_ok_drop_empty_dir:
  assumes ok: "fs_ok s" and empty: "child_names s d = []"
  shows "fs_ok (s\<lparr>dirs := filter (\<lambda>q. q \<noteq> d) (dirs s)\<rparr>)"
proof -
  let ?s = "s\<lparr>dirs := filter (\<lambda>q. q \<noteq> d) (dirs s)\<rparr>"
  have dir: "is_dir ?s q \<longleftrightarrow> q = [] \<or> (q \<in> set (dirs s) \<and> q \<noteq> d)" for q
    by (auto simp: is_dir_def)
  have nochild: "butlast q \<noteq> d" if "q \<noteq> []" "q \<in> fst ` set (names s) \<union> set (dirs s)" for q
  proof
    assume "butlast q = d"
    then have "d @ [last q] = q" using that(1) by (metis append_butlast_last_id)
    with child_names_mem [of "last q" s d] that(2) empty show False by simp
  qed
  show ?thesis
    unfolding fs_ok_def dir
  proof (intro conjI allI impI)
    fix q i assume "(q, i) \<in> set (names ?s)"
    then have q: "(q, i) \<in> set (names s)" by simp
    then have "q \<in> fst ` set (names s) \<union> set (dirs s)" by force
    with fs_ok_name [OF ok q] nochild [of q]
    show "q \<noteq> []" "butlast q = [] \<or> butlast q \<in> set (dirs s) \<and> butlast q \<noteq> d"
      "\<not> (q = [] \<or> q \<in> set (dirs s) \<and> q \<noteq> d)" "i < next_inode ?s"
      by (auto simp: is_dir_def)
  next
    fix q assume "q \<in> set (dirs ?s)"
    then have q: "q \<in> set (dirs s)" by simp
    with fs_ok_dir [OF ok q] nochild [of q]
    show "q \<noteq> []" "butlast q = [] \<or> butlast q \<in> set (dirs s) \<and> butlast q \<noteq> d"
      by (auto simp: is_dir_def)
  qed (use fs_ok_distinct [OF ok] in simp)
qed

lemma prune_dirs_inv:
  assumes "\<And>s d. I s \<Longrightarrow> child_names s d = [] \<Longrightarrow> I (s\<lparr>dirs := filter (\<lambda>q. q \<noteq> d) (dirs s)\<rparr>)"
  shows "I s \<Longrightarrow> I (prune_dirs ds s)"
  by (induction ds s rule: prune_dirs.induct) (simp_all add: assms)

section \<open>Renaming a directory into place\<close>

lemma under_snoc: "under d (q @ [x]) \<longleftrightarrow> d = q \<or> under d q"
proof
  assume "under d (q @ [x])"
  then obtain r where r: "r \<noteq> []" "q @ [x] = d @ r" by (auto simp: under_iff)
  then obtain r' where "q = d @ r'" by (cases r rule: rev_cases) auto
  then show "d = q \<or> under d q" by (cases r') auto
next
  have q: "under q (q @ [x])" by simp
  assume "d = q \<or> under d q"
  then show "under d (q @ [x])" using q under_trans [OF _ q, of d] by blast
qed

lemma is_file_obtain:
  assumes "is_file s p" obtains i where "(p, i) \<in> set (names s)"
  using assms unfolding is_file_mem by fastforce

lemma mem_is_file: "(p, i) \<in> set (names s) \<Longrightarrow> is_file s p"
  unfolding is_file_mem by force

lemma is_dir_above: "fs_ok s \<Longrightarrow> is_dir s q \<Longrightarrow> under d q \<Longrightarrow> is_dir s d"
proof (induction q rule: rev_induct)
  case Nil
  then show ?case by (simp add: under_def)
next
  case (snoc x q)
  have "is_dir s q" using fs_ok_dir(2) [OF snoc.prems(1), of "q @ [x]"] snoc.prems(2) by (simp add: is_dir_def)
  moreover have "d = q \<or> under d q" using snoc.prems(3) by (simp only: under_snoc)
  ultimately show ?case using snoc by blast
qed

lemma exists_above:
  assumes ok: "fs_ok s" and e: "path_exists s q" and u: "under d q"
  shows "is_dir s d"
  proof (cases "is_dir s q")
    case True
    then show ?thesis by (rule is_dir_above [OF ok _ u])
  next
    case False
    with e have "is_file s q" by (simp add: path_exists_def)
    then obtain i where i: "(q, i) \<in> set (names s)" by (rule is_file_obtain)
    have "is_dir s (butlast q)" "q \<noteq> []" by (rule fs_ok_name [OF ok i])+
    moreover have "d = butlast q \<or> under d (butlast q)"
      using u under_snoc [of d "butlast q" "last q"] append_butlast_last_id [OF \<open>q \<noteq> []\<close>] by metis
    ultimately show ?thesis using is_dir_above [OF ok, of "butlast q" d] by blast
qed

lemma reroot_simps [simp]:
  "reroot src dest src = dest"
  "reroot src dest (src @ r) = dest @ r"
  by (cases r; simp add: reroot_def)+

lemma reroot_other: "q \<noteq> src \<Longrightarrow> \<not> under src q \<Longrightarrow> reroot src dest q = q"
  by (simp add: reroot_def)

lemma reroot_butlast:
  assumes "q \<noteq> []" and "src \<noteq> []" and "butlast src = butlast dest"
  shows "butlast (reroot src dest q) = reroot src dest (butlast q)"
proof (cases "under src q")
  case True
  then obtain r where "r \<noteq> []" "q = src @ r" by (auto simp: under_iff)
  then show ?thesis by (simp add: butlast_append)
next
  case False
  then have "\<not> under src (butlast q)" "butlast q \<noteq> src"
    using under_butlast [of q src] assms(1) by auto
  moreover have len: "length (butlast src) < length src"
    using assms(2) by (cases src rule: rev_cases) auto
  then have "butlast src \<noteq> src" by (metis less_irrefl)
  moreover from len have "\<not> under src (butlast src)" by (simp add: under_def)
  ultimately show ?thesis
    using False assms by (cases "q = src") (simp_all add: reroot_other)
qed

lemma reroot_inj:
  assumes ok: "fs_ok s" and free: "\<not> path_exists s dest"
    and "path_exists s p" "path_exists s q" "reroot src dest p = reroot src dest q"
  shows "p = q"
proof -
  have out: "x \<noteq> dest @ r" if "path_exists s x" for x r
  proof
    assume x: "x = dest @ r"
    show False
    proof (cases r)
      case Nil
      with x that free show False by simp
    next
      case Cons
      with x have "under dest x" by simp
      with exists_above [OF ok that] free show False by (auto simp: path_exists_def)
    qed
  qed
  have "(\<exists>r. x = src @ r) \<or> reroot src dest x = x" for x
    by (cases "x = src \<or> under src x") (auto simp: under_iff reroot_other)
  then show ?thesis using assms(3-5) out by (metis append_same_eq reroot_simps(2) same_append_eq)
qed

lemma keeps_rename:
  assumes sib: "butlast src = butlast dest" and ne: "src \<noteq> []" "dest \<noteq> []"
    and ok: "fs_ok s" and free: "\<not> path_exists s dest" and m: "rename_dir src dest s = (r, s')"
  shows "fs_ok s'"
  using rename_dir_cases [OF m]
proof (elim disjE conjE)
  assume src: "is_dir s src"
    and s': "s' = s\<lparr>names := map (\<lambda>(p, i). (reroot src dest p, i)) (names s),
                    dirs := map (reroot src dest) (dirs s)\<rparr>"
  let ?f = "reroot src dest"
  have nil: "?f [] = []" using ne by (simp add: reroot_def under_def)
  have isd: "is_dir s' x \<longleftrightarrow> x = [] \<or> x \<in> ?f ` set (dirs s)" for x
    by (simp add: is_dir_def s')
  have dir: "is_dir s' (?f x)" if "is_dir s x" for x
  proof -
    from that have "x = [] \<or> x \<in> set (dirs s)" by (simp only: is_dir_def)
    then show ?thesis unfolding isd using nil by blast
  qed
  have nonnil: "?f x \<noteq> []" if "x \<noteq> []" for x
    using that ne by (auto simp: reroot_def)
  show ?thesis
    unfolding fs_ok_def
  proof (intro conjI allI impI)
    have "inj_on ?f (fst ` set (names s))"
      by (rule inj_onI, rule reroot_inj [OF ok free, where src = src])
         (simp_all add: path_exists_def is_file_mem)
    then have "distinct (map ?f (map fst (names s)))"
      using fs_ok_distinct [OF ok] by (subst distinct_map) simp
    then show "distinct (map fst (names s'))" by (simp add: s' case_prod_beta comp_def)
  next
    fix p i assume "(p, i) \<in> set (names s')"
    then obtain q where q: "(q, i) \<in> set (names s)" "p = ?f q" by (auto simp: s')
    note qs = fs_ok_name [OF ok q(1)]
    show "p \<noteq> []" using nonnil qs(1) q(2) by simp
    show "is_dir s' (butlast p)" using dir [OF qs(2)] reroot_butlast [OF qs(1) ne(1) sib] q(2) by simp
    show "i < next_inode s'" using qs(4) by (simp add: s')
    show "\<not> is_dir s' p"
    proof
      assume "is_dir s' p"
      then obtain d where d: "d \<in> set (dirs s)" "p = ?f d" using \<open>p \<noteq> []\<close> by (auto simp: isd)
      have "path_exists s q" "path_exists s d" using mem_is_file [OF q(1)] d(1) by (simp_all add: path_exists_def is_dir_def)
      then have "q = d" using reroot_inj [OF ok free, of q d src] q(2) d(2) by simp
      with d qs(3) show False by (simp add: is_dir_def)
    qed
  next
    fix d assume "d \<in> set (dirs s')"
    then obtain q where q: "q \<in> set (dirs s)" "d = ?f q" by (auto simp: s')
    note qs = fs_ok_dir [OF ok q(1)]
    show "d \<noteq> []" using nonnil qs(1) q(2) by simp
    show "is_dir s' (butlast d)" using dir [OF qs(2)] reroot_butlast [OF qs(1) ne(1) sib] q(2) by simp
  qed
qed (use ok in simp)

section \<open>Content addressing and private records\<close>

definition content_inv :: "(string \<Rightarrow> string) \<Rightarrow> path \<Rightarrow> fs \<Rightarrow> bool" where
  "content_inv sha root s \<longleftrightarrow> content_addressed sha root s \<and> records_private root s"

lemma blob_inv_split: "blob_inv sha root s \<longleftrightarrow> fs_ok s \<and> content_inv sha root s"
  by (auto simp: blob_inv_def content_inv_def)

lemma content_addressedD:
  "content_addressed sha root s \<Longrightarrow> (p, i) \<in> set (names s) \<Longrightarrow> under (store_dir root) p \<Longrightarrow>
   sha (contents s i) = last p"
  by (auto simp: content_addressed_def)

lemma records_privateD:
  "records_private root s \<Longrightarrow> (p, i) \<in> set (names s) \<Longrightarrow> (q, i) \<in> set (names s) \<Longrightarrow>
   is_record root p \<Longrightarrow> q = p"
  by (auto simp: records_private_def)

lemma content_invI:
  assumes "\<And>p i. (p, i) \<in> set (names s) \<Longrightarrow> under (store_dir root) p \<Longrightarrow> sha (contents s i) = last p"
    and "\<And>p q i. (p, i) \<in> set (names s) \<Longrightarrow> (q, i) \<in> set (names s) \<Longrightarrow> is_record root p \<Longrightarrow> q = p"
  shows "content_inv sha root s"
  using assms by (auto simp: content_inv_def content_addressed_def records_private_def)

lemma content_inv_mono:
  assumes "content_inv sha root s" and "set (names s') \<subseteq> set (names s)" and "contents s' = contents s"
  shows "content_inv sha root s'"
proof (rule content_invI)
  show "sha (contents s' i) = last p" if "(p, i) \<in> set (names s')" "under (store_dir root) p" for p i
    using that assms content_addressedD [of sha root s p i] by (auto simp: content_inv_def)
  show "q = p" if "(p, i) \<in> set (names s')" "(q, i) \<in> set (names s')" "is_record root p" for p q i
    using that assms records_privateD [of root s p i q] by (auto simp: content_inv_def)
qed

lemma record_not_store: "is_record root p \<Longrightarrow> \<not> under (store_dir root) p"
  by (auto simp: is_record_def)

lemma blob_not_record: "under (store_dir root) p \<Longrightarrow> \<not> is_record root p"
  using record_not_store by blast

lemma content_inv_link:
  assumes inv: "content_inv sha root s" and src: "(src, i) \<in> set (names s)"
    and rec: "\<not> is_record root src" "\<not> is_record root dest"
    and store: "under (store_dir root) dest \<Longrightarrow> sha (contents s i) = last dest"
  shows "content_inv sha root (s\<lparr>names := names s @ [(dest, i)]\<rparr>)"
proof (rule content_invI)
  let ?s = "s\<lparr>names := names s @ [(dest, i)]\<rparr>"
  show "sha (contents ?s j) = last p" if "(p, j) \<in> set (names ?s)" "under (store_dir root) p" for p j
    using that inv store content_addressedD by (auto simp: content_inv_def)
  show "q = p" if "(p, j) \<in> set (names ?s)" "(q, j) \<in> set (names ?s)" "is_record root p" for p q j
    using that rec src inv records_privateD [of root s p j] by (auto simp: content_inv_def)
qed

lemma content_inv_write:
  assumes inv: "content_inv sha root s" and ok: "fs_ok s" and rec: "is_record root p"
    and m: "write_text p t s = (r, s')"
  shows "content_inv sha root s'"
  using write_text_cases [OF m]
proof (elim disjE exE conjE)
  fix i assume i: "ino s p = Some i" and s': "s' = s\<lparr>contents := (contents s)(i := t)\<rparr>"
  have only: "q = p" if "(q, i) \<in> set (names s)" for q
    using records_privateD [OF _ ino_mem [OF i] that rec] inv by (simp add: content_inv_def)
  show ?thesis
  proof (rule content_invI)
    show "sha (contents s' j) = last q" if "(q, j) \<in> set (names s')" "under (store_dir root) q" for q j
    proof -
      have "j \<noteq> i" using only [of q] that record_not_store [OF rec] by (auto simp: s')
      then show ?thesis using that inv content_addressedD [of sha root s q j] by (simp add: content_inv_def s')
    qed
    show "q' = q" if "(q, j) \<in> set (names s')" "(q', j) \<in> set (names s')" "is_record root q" for q q' j
      using that inv records_privateD [of root s] by (simp add: content_inv_def s')
  qed
next
  assume s': "s' = s\<lparr>names := names s @ [(p, next_inode s)],
              contents := (contents s)(next_inode s := t), next_inode := Suc (next_inode s)\<rparr>"
  have fresh: "j \<noteq> next_inode s" if "(q, j) \<in> set (names s)" for q j
    using fs_ok_name(4) [OF ok that] by simp
  show ?thesis
  proof (rule content_invI)
    show "sha (contents s' j) = last q" if "(q, j) \<in> set (names s')" "under (store_dir root) q" for q j
      using that inv content_addressedD [of sha root s q j] record_not_store [OF rec] fresh [of q j]
      by (auto simp: content_inv_def s')
    show "q' = q" if "(q, j) \<in> set (names s')" "(q', j) \<in> set (names s')" "is_record root q" for q q' j
      using that inv records_privateD [of root s q j q'] fresh by (auto simp: content_inv_def s')
  qed
qed (use inv in simp)

lemma content_inv_rename:
  assumes inv: "content_inv sha root s" and ok: "fs_ok s"
    and src: "src = root @ [kind, a]" and dest: "dest = root @ [kind, b]"
    and kind: "kind \<noteq> BLOBSTORE_DIR" "kind \<noteq> ''hosts''"
    and m: "rename_dir src dest s = (r, s')"
  shows "content_inv sha root s'"
  using rename_dir_cases [OF m]
proof (elim disjE conjE)
  assume dir: "is_dir s src"
    and s': "s' = s\<lparr>names := map (\<lambda>(p, i). (reroot src dest p, i)) (names s),
                    dirs := map (reroot src dest) (dirs s)\<rparr>"
  have moved: "\<not> under (store_dir root) (reroot src dest p) \<and> \<not> is_record root (reroot src dest p)"
    if "(p, i) \<in> set (names s)" "reroot src dest p \<noteq> p" for p i
  proof -
    have "p \<noteq> src" using fs_ok_name(3) [OF ok that(1)] dir by auto
    with that(2) obtain x y where "p = src @ x # y"
      using reroot_other [of p src dest] by (auto simp: under_iff neq_Nil_conv)
    then have "reroot src dest p = dest @ x # y" by simp
    with kind show ?thesis by (simp add: dest is_record_def)
  qed
  show ?thesis
  proof (rule content_invI)
    show "sha (contents s' j) = last q" if "(q, j) \<in> set (names s')" "under (store_dir root) q" for q j
      using that moved inv content_addressedD [of sha root s] by (fastforce simp: content_inv_def s')
    show "q' = q" if q: "(q, j) \<in> set (names s')" "(q', j) \<in> set (names s')" and rec: "is_record root q" for q q' j
    proof -
      from q obtain p p' where p: "(p, j) \<in> set (names s)" "q = reroot src dest p"
        and p': "(p', j) \<in> set (names s)" "q' = reroot src dest p'" by (auto simp: s')
      with moved [OF p(1)] rec have "q = p" by metis
      with rec have "p' = p" using records_privateD [of root s p j p'] p(1) p'(1) inv by (simp add: content_inv_def)
      with p p' show ?thesis by simp
    qed
  qed
qed (use inv in simp)

section \<open>Every command keeps the invariants\<close>

lemma inv_mono:
  "blob_inv sha root s \<Longrightarrow> fs_ok s' \<Longrightarrow> set (names s') \<subseteq> set (names s) \<Longrightarrow> contents s' = contents s \<Longrightarrow>
   blob_inv sha root s'"
  unfolding blob_inv_split by (blast intro: content_inv_mono)

lemma inv_mkdir_p [keep]: "keeps (blob_inv sha root) (mkdir_p p)"
proof (rule keepsI)
  fix s r s' assume inv: "blob_inv sha root s" and m: "mkdir_p p s = (r, s')"
  have "fs_ok s'" using keepsD [OF keeps_fs_ok_mkdir_p _ m] inv by (simp add: blob_inv_split)
  with mkdir_p_cases [OF m] show "blob_inv sha root s'" by (auto intro: inv_mono [OF inv])
qed

lemma inv_unlink [keep]: "keeps (blob_inv sha root) (unlink p)"
proof (rule keepsI)
  fix s r s' assume inv: "blob_inv sha root s" and m: "unlink p s = (r, s')"
  have "fs_ok s'" using keepsD [OF keeps_fs_ok_unlink _ m] inv by (simp add: blob_inv_split)
  with unlink_cases [OF m] show "blob_inv sha root s'" by (auto intro: inv_mono [OF inv])
qed

lemma inv_remove_tree: "blob_inv sha root s \<Longrightarrow> blob_inv sha root (remove_tree p s)"
  by (rule inv_mono) (auto simp: remove_tree_def blob_inv_split intro: fs_ok_remove_tree [unfolded remove_tree_def])

lemma inv_rmtree [keep]: "keeps (blob_inv sha root) (rmtree p)"
  unfolding rmtree_def by (intro keep) (rule inv_remove_tree)

lemma inv_os_link:
  assumes "\<not> is_record root src" and "\<not> is_record root dest" and "\<not> under (store_dir root) dest"
  shows "keeps (blob_inv sha root) (os_link src dest)"
proof (rule keepsI)
  fix s r s' assume inv: "blob_inv sha root s" and m: "os_link src dest s = (r, s')"
  have "fs_ok s'" using keepsD [OF keeps_fs_ok_os_link _ m] inv by (simp add: blob_inv_split)
  with os_link_cases [OF m] show "blob_inv sha root s'"
    using content_inv_link [of sha root s src _ dest] assms inv ino_mem [of s src]
    by (auto simp: blob_inv_split)
qed

lemma inv_write_text: "is_record root p \<Longrightarrow> keeps (blob_inv sha root) (write_text p t)"
  by (rule keepsI) (auto simp: blob_inv_split intro: content_inv_write dest: keepsD [OF keeps_fs_ok_write_text])

lemma blob_path_plain [simp]: "\<not> is_record root (blob_path root d)"
  by (rule blob_not_record) (rule under_blob)

lemma target_plain [simp]:
  "\<not> is_record root (target_dir root host @ p)" "\<not> under (store_dir root) (target_dir root host @ p)"
  by (auto simp: is_record_def target_dir_def)

lemma inv_assemble_entry [keep]:
  "keeps (blob_inv sha root) (assemble_entry root (target_dir root host) entry wanted)"
  unfolding assemble_entry_def Let_def by (intro keep inv_os_link) simp_all

lemma inv_prune_to [keep]: "keeps (blob_inv sha root) (prune_to target wanted)"
proof -
  have "blob_inv sha root (prune_files target wanted s)" if "blob_inv sha root s" for s
    using that by (intro inv_mono [OF that])
      (auto simp: prune_files_def blob_inv_split intro: fs_ok_filter_names)
  moreover have "blob_inv sha root (prune_dirs ds s)" if "blob_inv sha root s" for ds s
  proof (rule prune_dirs_inv [where I = "blob_inv sha root", OF _ that])
    fix s d assume i: "blob_inv sha root s" and e: "child_names s d = []"
    have "fs_ok (s\<lparr>dirs := filter (\<lambda>q. q \<noteq> d) (dirs s)\<rparr>)"
      using i e by (intro fs_ok_drop_empty_dir) (simp_all add: blob_inv_split)
    then show "blob_inv sha root (s\<lparr>dirs := filter (\<lambda>q. q \<noteq> d) (dirs s)\<rparr>)"
      by (intro inv_mono [OF i]) simp_all
  qed
  ultimately show ?thesis
    unfolding prune_to_def by (intro keep)
qed

subsection \<open>Snapshots\<close>

text \<open>An id that is one path component.\<close>

definition plain :: "string \<Rightarrow> bool" where
  "plain t \<longleftrightarrow> t \<noteq> [] \<and> t \<noteq> ''.'' \<and> CHR 47 \<notin> set t"

lemma path_parts_plain: "plain t \<Longrightarrow> path_parts t = [t]"
  by (simp add: plain_def path_parts_def split_on_no_sep)

lemma snap_paths:
  assumes "plain i"
  shows "snap_final root kind i = root @ [kind, i]"
    and "snap_record root kind i = root @ [kind, i @ ''.json'']"
    and "snap_building root kind i = root @ [kind, ''.'' @ i @ ''.building'']"
proof -
  have "plain (i @ ''.json'')" "plain (''.'' @ i @ ''.building'')"
    using assms by (auto simp: plain_def)
  then show "snap_final root kind i = root @ [kind, i]"
    and "snap_record root kind i = root @ [kind, i @ ''.json'']"
    and "snap_building root kind i = root @ [kind, ''.'' @ i @ ''.building'']"
    using assms by (simp_all add: snap_final_def snap_record_def snap_building_def path_parts_plain)
qed

lemma not_json: "''.'' @ i @ ''.building'' \<noteq> n @ ''.json''"
proof
  assume "''.'' @ i @ ''.building'' = n @ ''.json''"
  then have "last (''.'' @ i @ ''.building'') = last (n @ ''.json'')" by (rule arg_cong)
  then show False by simp
qed

lemma building_neq: "''.'' @ i @ ''.building'' \<noteq> i" "i @ ''.json'' \<noteq> i"
  using arg_cong [of _ _ length] by fastforce+

text \<open>While a snapshot is built its final name stays free.\<close>

definition building_inv :: "(string \<Rightarrow> string) \<Rightarrow> path \<Rightarrow> path \<Rightarrow> fs \<Rightarrow> bool" where
  "building_inv sha root final s \<longleftrightarrow> blob_inv sha root s \<and> \<not> path_exists s final"

lemma keeps_free_mkdir_p: "final \<notin> set (parents p) \<Longrightarrow> keeps (\<lambda>s. \<not> path_exists s final) (mkdir_p p)"
  by (rule keepsI) (auto dest!: mkdir_p_cases simp: path_exists_def is_dir_def is_file_def ino_def)

lemma keeps_free_os_link: "dest \<noteq> final \<Longrightarrow> keeps (\<lambda>s. \<not> path_exists s final) (os_link src dest)"
  by (rule keepsI) (auto dest!: os_link_cases simp: path_exists_def is_dir_def is_file_mem)

lemma keeps_free_write: "p \<noteq> final \<Longrightarrow> keeps (\<lambda>s. \<not> path_exists s final) (write_text p t)"
  by (rule keepsI) (auto dest!: write_text_cases simp: path_exists_def is_dir_def is_file_mem)

lemma free_remove_tree: "\<not> path_exists s final \<Longrightarrow> \<not> path_exists (remove_tree p s) final"
  by (auto simp: path_exists_def is_dir_def is_file_mem remove_tree_def)

lemma keeps_conj: "keeps I m \<Longrightarrow> keeps J m \<Longrightarrow> keeps (\<lambda>s. I s \<and> J s) m"
  by (auto simp: keeps_def)

lemma snapshot_link_keeps:
  assumes "plain i" and "kind \<noteq> BLOBSTORE_DIR" and "kind \<noteq> ''hosts''"
  shows "keeps (building_inv sha root (snap_final root kind i))
           (snapshot_link root (snap_building root kind i) e)"
proof -
  obtain p d where e: "e = (p, d)" by fastforce
  let ?dest = "snap_building root kind i @ path_parts p"
  have dest: "?dest = root @ [kind, ''.'' @ i @ ''.building''] @ path_parts p"
    by (simp add: snap_paths [OF assms(1)])
  have "\<not> is_record root ?dest" "\<not> under (store_dir root) ?dest" "?dest \<noteq> snap_final root kind i"
    using assms not_json [of i] building_neq(1) [of i]
    unfolding dest by (auto simp: is_record_def snap_paths)
  moreover have "snap_final root kind i \<notin> set (parents (butlast ?dest))"
  proof
    assume "snap_final root kind i \<in> set (parents (butlast ?dest))"
    then have "prefix (snap_final root kind i) ?dest"
      by (auto simp: parents_mem intro: prefix_order.trans prefixeq_butlast)
    then show False using building_neq(1) [of i] unfolding dest by (simp add: snap_paths [OF assms(1)])
  qed
  ultimately show ?thesis
    unfolding e snapshot_link_def building_inv_def [abs_def] prod.case
    by (intro keep keeps_conj inv_os_link keeps_free_mkdir_p keeps_free_os_link) simp_all
qed

lemma building_inv_remove_tree:
  "building_inv sha root final s \<Longrightarrow> building_inv sha root final (remove_tree p s)"
  by (simp add: building_inv_def inv_remove_tree free_remove_tree)

lemma snapshot_fill_keeps:
  assumes "plain i" and "kind \<noteq> BLOBSTORE_DIR" and "kind \<noteq> ''hosts''"
  shows "keeps (building_inv sha root (snap_final root kind i))
           (snapshot_fill root (snap_building root kind i) wanted)"
  unfolding snapshot_fill_def
  by (intro keep snapshot_link_keeps assms) (rule building_inv_remove_tree)

lemma building_seq:
  assumes "keeps (building_inv sha root final) m"
    and "\<And>s. building_inv sha root final s \<Longrightarrow> blob_inv sha root (snd (n s))"
    and "building_inv sha root final s"
  shows "blob_inv sha root (snd (seqM m n s))"
proof (cases "m s")
  case (Pair r s1)
  have J: "building_inv sha root final s1" by (rule keepsD [OF assms(1,3) Pair])
  then have "blob_inv sha root s1" by (simp add: building_inv_def)
  with assms(2) [OF J] show ?thesis
    by (simp add: seqM_def bindM_def Pair split: sum.splits)
qed

lemma snapshot_keeps:
  assumes "plain i" and "kind \<noteq> BLOBSTORE_DIR" and "kind \<noteq> ''hosts''"
  shows "keeps (blob_inv sha root) (snapshot root kind i manifest)"
proof -
  let ?final = "snap_final root kind i" and ?b = "snap_building root kind i"
  have recd: "is_record root (snap_record root kind i)"
    using assms by (auto simp: snap_paths is_record_def)
  have rename: "blob_inv sha root (snd (seqM (rename_dir ?b ?final) (ret ''created'') s))"
    if J: "building_inv sha root ?final s" for s
  proof -
    obtain r s' where m: "rename_dir ?b ?final s = (r, s')" by fastforce
    have "fs_ok s'" "content_inv sha root s'"
    proof -
      have sib: "butlast ?b = butlast ?final" "?b \<noteq> []" "?final \<noteq> []"
        using assms(1) by (simp_all add: snap_paths butlast_append)
      from J have J': "fs_ok s" "content_inv sha root s" "\<not> path_exists s ?final"
        by (simp_all add: building_inv_def blob_inv_split)
      show "fs_ok s'" by (rule keeps_rename [OF sib J'(1,3) m])
      show "content_inv sha root s'"
        by (rule content_inv_rename [OF J'(2,1) snap_paths(3,1) [OF assms(1)] assms(2,3) m])
    qed
    then have "blob_inv sha root s'" by (simp add: blob_inv_split)
    then show ?thesis by (simp add: seqM_def bindM_def m ret_def split: sum.splits)
  qed
  have wr: "keeps (building_inv sha root ?final) (write_text (snap_record root kind i) t)" for t
    using assms building_neq(2) [of i] unfolding building_inv_def [abs_def]
    by (intro keeps_conj inv_write_text keeps_free_write recd) (simp add: snap_paths)
  have tail: "blob_inv sha root (snd (seqM (snapshot_fill root ?b wanted)
        (seqM (write_text (snap_record root kind i) t) (seqM (rename_dir ?b ?final) (ret ''created''))) s))"
    if "building_inv sha root ?final s" for s wanted t
  proof (rule building_seq [OF snapshot_fill_keeps [OF assms] _ that])
    fix s assume J: "building_inv sha root ?final s"
    show "blob_inv sha root (snd (seqM (write_text (snap_record root kind i) t)
        (seqM (rename_dir ?b ?final) (ret ''created'')) s))"
      by (rule building_seq [OF wr rename J])
  qed
  have pre: "keeps (building_inv sha root ?final) (whenM c (rmtree ?b))" for c
    unfolding whenM_def rmtree_def by (intro keep) (rule building_inv_remove_tree)
  have create: "blob_inv sha root (snd (seqM (whenM c (rmtree ?b)) (seqM (snapshot_fill root ?b wanted)
        (seqM (write_text (snap_record root kind i) t) (seqM (rename_dir ?b ?final) (ret ''created'')))) s))"
    if "blob_inv sha root s" "\<not> path_exists s ?final" for s c wanted t
    using that by (intro building_seq [OF pre tail]) (simp_all add: building_inv_def)
  show ?thesis
    unfolding snapshot_def Let_def
    by (rule keeps_bindM, rule keeps_liftR, rule keeps_bind_gets_at)
       (simp add: create)
qed

section \<open>The commands\<close>

lemma inv_seed_file:
  assumes "\<not> is_record root f"
  shows "keeps (blob_inv sha root) (seed_file sha root f counts)"
proof (rule keepsI)
  fix s r s' assume inv: "blob_inv sha root s" and m: "seed_file sha root f counts s = (r, s')"
  obtain a l k where counts: "counts = (a, l, k)" by (cases counts)
  show "blob_inv sha root s'"
  proof (cases "ino s f")
    case None
    with m inv show ?thesis by (simp add: seed_file_def sha256_of_def counts)
  next
    case (Some i)
    let ?d = "sha (contents s i)"
    let ?dest = "blob_path root ?d"
    show ?thesis
    proof (cases "path_exists s ?dest")
      case True
      with m inv Some show ?thesis by (simp add: seed_file_def sha256_of_def counts Let_def)
    next
      case False
      let ?link = "catchM (seqM (os_link f ?dest) (ret (a + 1, l, k)))
                 (\<lambda>e. if e = OSError then ret (a, l, k + 1) else raise e)"
      from False m Some have step: "seqM (mkdir_p (butlast ?dest)) ?link s = (r, s')"
        by (simp add: seed_file_def sha256_of_def counts Let_def)
      obtain r1 s1 where mk: "mkdir_p (butlast ?dest) s = (r1, s1)" by fastforce
      have inv1: "blob_inv sha root s1" by (rule keepsD [OF inv_mkdir_p inv mk])
      have same: "names s1 = names s" "contents s1 = contents s"
        using mkdir_p_cases [OF mk] by auto
      obtain r2 s2 where ln: "os_link f ?dest s1 = (r2, s2)" by fastforce
      have "fs_ok s2" using keepsD [OF keeps_fs_ok_os_link _ ln] inv1 by (simp add: blob_inv_split)
      moreover have "content_inv sha root s2"
        using os_link_cases [OF ln] content_inv_link [of sha root s1 f _ ?dest] inv1 assms Some same
          ino_mem [of s1 f]
        by (auto simp: blob_inv_split ino_def)
      ultimately have inv2: "blob_inv sha root s2" by (simp add: blob_inv_split)
      have "?link s1 = (r', s'') \<Longrightarrow> s'' = s2" for r' s''
        by (cases r2) (auto simp: catchM_def seqM_def bindM_def ln ret_def raise_def split: if_splits)
      with step mk inv1 inv2 show ?thesis
        by (cases r1) (auto simp: seqM_def bindM_def)
    qed
  qed
qed

lemma files_under_mem: "f \<in> set (files_under s d) \<Longrightarrow> under d f \<and> f \<in> fst ` set (names s)"
  by (auto simp: files_under_def)

text \<open>The arguments under which a command is safe: a seeded tree holds no record, and an id names one directory.\<close>

definition safe_command :: "path \<Rightarrow> command \<Rightarrow> bool" where
  "safe_command root c \<longleftrightarrow>
     (case c of
        Seed ds \<Rightarrow> \<forall>d\<in>set ds. \<forall>p. under d p \<longrightarrow> \<not> is_record root p
      | Assemble h t \<Rightarrow> \<forall>m i. read_manifest t = Inr m \<longrightarrow> entry_str (JObj m) ''payload_hash'' = Inr i \<longrightarrow> plain i
      | Snapshot k i t \<Rightarrow> plain i
      | _ \<Rightarrow> True)"

lemma inv_seed:
  assumes "safe_command root (Seed ds)"
  shows "keeps (blob_inv sha root) (cmd_seed sha root ds)"
proof -
  have "keeps (blob_inv sha root) (bindM (gets (\<lambda>s. files_under s d)) (\<lambda>fs. foldM fs counts (seed_file sha root)))"
    if "d \<in> set ds" for d counts
    using assms that files_under_mem
    by (intro keeps_bind_gets keeps_foldM inv_seed_file) (fastforce simp: safe_command_def)
  then have "keeps (blob_inv sha root) (foldM ds (0, 0, 0) (\<lambda>d counts.
      bindM (gets (\<lambda>s. files_under s d)) (\<lambda>fs. foldM fs counts (seed_file sha root))))"
    by (rule keeps_foldM)
  then show ?thesis
    unfolding cmd_seed_def by (rule keeps_bindM) (simp split: prod.splits)
qed

lemma inv_want: "keeps I (cmd_want root t)"
  unfolding cmd_want_def by (intro keep)

lemma record_manifest: "is_record root (root @ [''hosts'', host, ''payload-manifest.json''])"
  by (simp add: is_record_def)

lemma keeps_bind_liftR: "(\<And>a. r = Inr a \<Longrightarrow> keeps I (f a)) \<Longrightarrow> keeps I (bindM (liftR r) f)"
  by (cases r) (auto simp: keeps_def)

lemma inv_assemble:
  assumes "safe_command root (Assemble h t)"
  shows "keeps (blob_inv sha root) (cmd_assemble root h t)"
proof -
  have "keeps (blob_inv sha root) (snapshot root (kind_value PROVISIONING_PAYLOAD) i m')"
    if "read_manifest t = Inr m" "entry_str (JObj m) ''payload_hash'' = Inr i" for m i m'
    using that assms by (intro snapshot_keeps dir_names_distinct) (simp add: safe_command_def)
  then show ?thesis
    unfolding cmd_assemble_def assemble_finish_def Let_def
    by (intro keeps_bind_liftR keep inv_write_text record_manifest) auto
qed

lemma inv_snapshot:
  "safe_command root (Snapshot k i t) \<Longrightarrow> keeps (blob_inv sha root) (cmd_snapshot root k i t)"
  unfolding cmd_snapshot_def
  by (intro keep snapshot_keeps) (simp_all add: safe_command_def)

lemma inv_fsck: "keeps I (cmd_fsck sha root n)"
  unfolding cmd_fsck_def fsck_blob_def Let_def by (intro keep)

lemma inv_gc_blob: "keeps (blob_inv sha root) (gc_blob dry b t)"
proof -
  have "keeps (blob_inv sha root) (case ino s b of None \<Rightarrow> f | Some i \<Rightarrow> g i)"
    if "keeps (blob_inv sha root) f" "\<And>i. keeps (blob_inv sha root) (g i)" for s f and g :: "_ \<Rightarrow> (fs, tally) eff"
    using that by (cases "ino s b") auto
  then show ?thesis
    unfolding gc_blob_def Let_def by (intro keep) (simp_all add: keep)
qed

lemma inv_gc: "keeps (blob_inv sha root) (cmd_gc root dry)"
proof -
  have "keeps (blob_inv sha root) (gc_shard dry sh t)" for sh t
  proof -
    have "blob_inv sha root (snd (seqM (whenM (\<not> dry \<and> child_names s sh = []) (rmdir sh)) (ret t') s))"
      if "blob_inv sha root s" for s t'
    proof (cases "\<not> dry \<and> child_names s sh = []")
      case True
      then have "fs_ok (s\<lparr>dirs := filter (\<lambda>q. q \<noteq> sh) (dirs s)\<rparr>)"
        using that by (intro fs_ok_drop_empty_dir) (simp_all add: blob_inv_split)
      with True inv_mono [OF that] show ?thesis
        by (simp add: whenM_def rmdir_def seqM_def bindM_def modifyM_def ret_def)
    next
      case False
      then have "whenM (\<not> dry \<and> child_names s sh = []) (rmdir sh) = ret ()" by (simp only: whenM_def if_False)
      with that show ?thesis by (simp add: seqM_def bindM_def ret_def)
    qed
    then show ?thesis
      unfolding gc_shard_def
      by (intro keeps_bindM keeps_gets keeps_foldM inv_gc_blob keeps_bind_gets_at)
  qed
  then show ?thesis unfolding cmd_gc_def by (intro keep)
qed

lemma inv_repair: "keeps (blob_inv sha root) (cmd_repair sha root digest good)"
proof -
  have wr: "blob_inv sha root (s\<lparr>contents := (contents s)(i := t)\<rparr>)"
    if inv: "blob_inv sha root s" and i: "ino s (blob_path root digest) = Some i" and t: "sha t = digest" for s i t
  proof -
    have "sha (contents s i) = digest"
      using content_addressedD [OF _ ino_mem [OF i], of sha root] inv by (simp add: blob_inv_def)
    then have "content_inv sha root (s\<lparr>contents := (contents s)(i := t)\<rparr>)"
      using inv t content_addressedD [of sha root s] records_privateD [of root s]
      by (intro content_invI) (auto simp: blob_inv_def)
    then show ?thesis using inv by (simp add: blob_inv_split fs_ok_def)
  qed
  show ?thesis
  proof (rule keepsI)
    fix s r s' assume inv: "blob_inv sha root s" and m: "cmd_repair sha root digest good s = (r, s')"
    from m inv wr [OF inv] show "blob_inv sha root s'"
      by (auto simp: cmd_repair_def Let_def sha256_of_def seqM_def bindM_def modifyM_def gets_def liftR_def
          raise_def ret_def split: option.splits if_splits)
  qed
qed

lemma blob_inv_kept:
  assumes "safe_command root c"
  shows "keeps (blob_inv sha root) (blobstore_main sha root c)"
  unfolding blobstore_main_def dispatch_def
  using assms inv_seed inv_assemble inv_snapshot
  by (intro keep) (cases c; simp add: inv_want inv_fsck inv_gc inv_repair)

end
