(* ===== verification/Blobstore_Props.thy ===== *)
theory Blobstore_Props
  imports Blobstore_Inv
begin

text \<open>
  What the commands of \<open>tools/blobstore.py\<close> promise: the want-list is exact, an assembled
  payload is exactly its manifest, a snapshot is never rewritten, a garbage collection frees
  exactly the blobs nothing else names, fsck reports exactly the corrupt ones and repair heals
  every tree that links the blob.
\<close>

section \<open>What a command leaves alone\<close>

lemma map_of_append_new: "m k = None \<Longrightarrow> [k \<mapsto> v] ++ m = m(k \<mapsto> v)"
  by (rule ext) (simp add: map_add_def split: option.splits)

lemma map_of_filter_key: "map_of (filter (\<lambda>e. P (fst e)) xs) x = (if P x then map_of xs x else None)"
  by (induction xs) auto

lemmas map_of_filter_neq = map_of_filter_key [where P = "\<lambda>x. x \<noteq> p" for p]

lemma map_of_rekey:
  assumes "\<And>q. f q = p \<longleftrightarrow> q = p"
  shows "map_of (map (\<lambda>(q, i). (f q, i)) xs) p = map_of xs p"
proof (induction xs)
  case (Cons e xs)
  obtain q i where "e = (q, i)" by fastforce
  with Cons.IH assms [of q] show ?case by (cases "q = p") auto
qed simp

lemma ino_mkdir_p [keep]: "keeps (\<lambda>s. ino s p = v) (mkdir_p d)"
  by (rule keepsI) (auto dest!: mkdir_p_cases simp: ino_def)

lemma ino_os_link:
  assumes "os_link src dest s = (Inr u, s')"
  shows "ino s src \<noteq> None" and "ino s dest = None" and "ino s' = (ino s)(dest := ino s src)"
    and "contents s' = contents s"
  using os_link_cases [OF assms]
  by (auto simp: ino_def [abs_def] fun_eq_iff map_of_append_new path_exists_def is_file_def)

lemma ino_unlink:
  "unlink q s = (Inr u, s') \<Longrightarrow> ino s' = (ino s)(q := None) \<and> contents s' = contents s"
  by (drule unlink_cases) (auto simp: ino_def [abs_def] map_of_filter_neq fun_eq_iff)

lemma keeps_ino_os_link [keep]: "dest \<noteq> p \<Longrightarrow> keeps (\<lambda>s. ino s p = v) (os_link src dest)"
  by (rule keepsI)
     (auto dest!: os_link_cases simp: ino_def map_of_append_new path_exists_def is_file_def)

lemma keeps_ino_unlink [keep]: "q \<noteq> p \<Longrightarrow> keeps (\<lambda>s. ino s p = v) (unlink q)"
  by (rule keepsI) (auto dest!: unlink_cases simp: ino_def map_of_filter_neq)

lemma keeps_ino_write_text [keep]: "q \<noteq> p \<Longrightarrow> keeps (\<lambda>s. ino s p = v) (write_text q t)"
  by (rule keepsI) (auto dest!: write_text_cases simp: ino_def map_of_append_new)

lemma ino_remove_tree [simp]: "ino (remove_tree q s) p = (if under q p then None else ino s p)"
  by (simp add: ino_def remove_tree_def map_of_filter_key [where P = "\<lambda>x. \<not> under q x"])

lemma keeps_ino_rename [keep]:
  assumes "p \<noteq> src" "\<not> under src p" "p \<noteq> dest" "\<not> under dest p"
  shows "keeps (\<lambda>s. ino s p = v) (rename_dir src dest)"
proof -
  have "reroot src dest q = p \<longleftrightarrow> q = p" for q
  proof (cases "q = src \<or> under src q")
    case True
    then obtain r where "q = src @ r" unfolding under_iff by (metis append_Nil2)
    then have "reroot src dest q = dest @ r" "q = src @ r" by simp_all
    moreover have "dest @ r \<noteq> p" "src @ r \<noteq> p"
      using assms under_append by (metis append_Nil2)+
    ultimately show ?thesis by metis
  next
    case False
    with assms show ?thesis by (auto simp: reroot_other)
  qed
  then have "ino s' p = ino s p" if "rename_dir src dest s = (r, s')" for s r s'
    using rename_dir_cases [OF that] by (elim disjE conjE) (simp_all add: ino_def map_of_rekey)
  then show ?thesis by (auto intro: keepsI)
qed

lemma keeps_ino_rmtree [keep]: "\<not> under q p \<Longrightarrow> keeps (\<lambda>s. ino s p = v) (rmtree q)"
  unfolding rmtree_def by (intro keep) simp

lemma keeps_ino_rmdir [keep]: "keeps (\<lambda>s. ino s p = v) (rmdir d)"
  unfolding rmdir_def by (intro keep) (simp add: ino_def)

lemma under_shorter: "under d p \<Longrightarrow> length d < length p"
  by (simp add: under_def)

text \<open>A snapshot command touches names below its kind only.\<close>

lemma snapshot_ino_elsewhere:
  assumes "plain i" and "\<not> under (root @ [kind]) p"
  shows "keeps (\<lambda>s. ino s p = v) (snapshot root kind i manifest)"
proof -
  have below: "x \<noteq> p \<and> \<not> under x p" if "x = root @ kind # y # z" for x y z
  proof -
    have "under (root @ [kind]) x" using that under_append [of "root @ [kind]" "y # z"] by simp
    then show ?thesis using assms(2) under_trans by blast
  qed
  have link: "keeps (\<lambda>s. ino s p = v) (snapshot_link root (snap_building root kind i) e)" for e
  proof -
    obtain q d where e: "e = (q, d)" by fastforce
    have "snap_building root kind i @ path_parts q \<noteq> p"
      using below by (simp add: snap_paths [OF assms(1)])
    then show ?thesis
      unfolding e snapshot_link_def prod.case by (intro keep)
  qed
  have b: "snap_building root kind i \<noteq> p" "\<not> under (snap_building root kind i) p"
    "snap_final root kind i \<noteq> p" "\<not> under (snap_final root kind i) p" "snap_record root kind i \<noteq> p"
    using below by (auto simp: snap_paths [OF assms(1)])
  show ?thesis
    unfolding snapshot_def snapshot_fill_def Let_def
    using b b(1,3,5) [symmetric] by (intro keep link) auto
qed

section \<open>The assembled payload\<close>

text \<open>What one manifest entry asks for: the digest that belongs at a path of the target.\<close>

definition entry_link :: "path \<Rightarrow> json \<Rightarrow> (path \<times> string) res" where
  "entry_link target e =
     bind_res (entry_str e ''sha256'') (\<lambda>d. bind_res (entry_str e ''path'') (\<lambda>p. Inr (target @ path_parts p, d)))"

lemma blob_not_below_target: "blob_path root d \<noteq> target_dir root host @ p"
  by (auto simp: blob_path_def target_dir_def)

lemma assemble_entry_step:
  assumes "assemble_entry root target e wanted s = (Inr wanted', s')"
  shows "\<exists>dest d i. entry_link target e = Inr (dest, d) \<and> wanted' = insert dest wanted
     \<and> ino s (blob_path root d) = Some i \<and> ino s' = (ino s)(dest \<mapsto> i) \<and> contents s' = contents s"
proof -
  from assms obtain d where d: "entry_str e ''sha256'' = Inr d"
    by (cases "entry_str e ''sha256''") (auto simp: assemble_entry_def)
  let ?blob = "blob_path root d"
  from assms d have held: "path_exists s ?blob"
    by (auto simp: assemble_entry_def Let_def split: if_splits sum.splits)
  from assms d held obtain p where p: "entry_str e ''path'' = Inr p"
    by (cases "entry_str e ''path''") (auto simp: assemble_entry_def Let_def)
  let ?dest = "target @ path_parts p"
  let ?put = "bindM (gets id) (\<lambda>s.
        if path_exists s ?dest
        then (if same_inode s ?dest ?blob then ret (insert ?dest wanted)
              else seqM (unlink ?dest) (seqM (os_link ?blob ?dest) (ret (insert ?dest wanted))))
        else seqM (os_link ?blob ?dest) (ret (insert ?dest wanted)))"
  from assms d p held have "seqM (mkdir_p (butlast ?dest)) ?put s = (Inr wanted', s')"
    by (simp add: assemble_entry_def Let_def)
  then obtain s1 where mk: "mkdir_p (butlast ?dest) s = (Inr (), s1)" and put: "?put s1 = (Inr wanted', s')"
    by (auto simp: seqM_Inr_iff)
  have s1: "ino s1 = ino s" "contents s1 = contents s"
    using mkdir_p_cases [OF mk] by (auto simp: ino_def [abs_def])
  have "\<exists>i. wanted' = insert ?dest wanted \<and> ino s1 ?blob = Some i
     \<and> ino s' = (ino s1)(?dest \<mapsto> i) \<and> contents s' = contents s1"
  proof (cases "path_exists s1 ?dest")
    case new: False
    with put have l: "os_link ?blob ?dest s1 = (Inr (), s')" and w: "wanted' = insert ?dest wanted"
      by (auto simp: seqM_Inr_iff)
    with ino_os_link [OF l] show ?thesis by auto
  next
    case True
    show ?thesis
    proof (cases "same_inode s1 ?dest ?blob")
      case True
      with put \<open>path_exists s1 ?dest\<close> have "wanted' = insert ?dest wanted" "s' = s1" by simp_all
      moreover from True obtain i where "ino s1 ?dest = Some i" "ino s1 ?blob = Some i"
        by (cases "ino s1 ?blob") (auto simp: same_inode_def)
      ultimately show ?thesis by (metis fun_upd_triv)
    next
      case False
      with put True obtain s2 where u: "unlink ?dest s1 = (Inr (), s2)"
        and l: "os_link ?blob ?dest s2 = (Inr (), s')" and w: "wanted' = insert ?dest wanted"
        by (auto simp: seqM_Inr_iff)
      have "ino s2 = (ino s1)(?dest := None)" "contents s2 = contents s1" using ino_unlink [OF u] by auto
      with ino_os_link [OF l] w show ?thesis by (auto split: if_splits)
    qed
  qed
  then show ?thesis using s1 d p by (auto simp: entry_link_def)
qed

lemma assemble_loop:
  assumes "foldM es wanted (assemble_entry root (target_dir root host)) s = (Inr wanted', s')"
  shows "\<exists>links. map_res (entry_link (target_dir root host)) es = Inr links
     \<and> wanted' = wanted \<union> fst ` set links \<and> contents s' = contents s
     \<and> (\<forall>(p, d)\<in>set links. ino s (blob_path root d) \<noteq> None)
     \<and> (\<forall>p. ino s' p = (case map_of (rev links) p of None \<Rightarrow> ino s p | Some d \<Rightarrow> ino s (blob_path root d)))"
  using assms
proof (induction es arbitrary: wanted s)
  case Nil
  then show ?case by (auto simp: ret_def)
next
  case (Cons e es)
  let ?t = "target_dir root host"
  from Cons.prems obtain w1 s1 where
    step: "assemble_entry root ?t e wanted s = (Inr w1, s1)" and
    rest: "foldM es w1 (assemble_entry root ?t) s1 = (Inr wanted', s')"
    by (auto simp: bindM_Inr_iff)
  from assemble_entry_step [OF step] obtain dest d i where
    e: "entry_link ?t e = Inr (dest, d)" "w1 = insert dest wanted" "ino s (blob_path root d) = Some i"
      "ino s1 = (ino s)(dest \<mapsto> i)" "contents s1 = contents s"
    by blast
  from Cons.IH [OF rest] obtain links where
    l: "map_res (entry_link ?t) es = Inr links" "wanted' = w1 \<union> fst ` set links" "contents s' = contents s1"
      "\<forall>(p, d)\<in>set links. ino s1 (blob_path root d) \<noteq> None"
      "\<forall>p. ino s' p = (case map_of (rev links) p of None \<Rightarrow> ino s1 p | Some d \<Rightarrow> ino s1 (blob_path root d))"
    by blast
  obtain q where dest: "dest = ?t @ q"
    using e(1) by (auto simp: entry_link_def bind_res_Inr_iff)
  have blob: "ino s1 (blob_path root d') = ino s (blob_path root d')" for d'
    using blob_not_below_target [of root d' host q] by (simp add: e(4) dest)
  show ?case
  proof (intro exI conjI)
    show "map_res (entry_link ?t) (e # es) = Inr ((dest, d) # links)" by (simp add: e(1) l(1))
    show "\<forall>(p, d)\<in>set ((dest, d) # links). ino s (blob_path root d) \<noteq> None"
      using l(4) e(3) by (auto simp: blob)
    show "\<forall>p. ino s' p = (case map_of (rev ((dest, d) # links)) p of None \<Rightarrow> ino s p
        | Some d \<Rightarrow> ino s (blob_path root d))"
    proof
      fix p
      have "ino s' p = (case map_of (rev links) p of None \<Rightarrow> ino s1 p | Some d \<Rightarrow> ino s (blob_path root d))"
        using l(5) by (simp only: blob)
      then show "ino s' p = (case map_of (rev ((dest, d) # links)) p of None \<Rightarrow> ino s p
        | Some d \<Rightarrow> ino s (blob_path root d))"
        unfolding e(4) using e(3) by (auto simp: map_add_def split: option.splits)
    qed
  qed (use l e in auto)
qed

lemma ino_prune_files: "ino (prune_files target wanted s) p = (if under target p \<and> p \<notin> wanted then None else ino s p)"
  by (simp add: ino_def prune_files_def map_of_filter_key [where P = "\<lambda>x. under target x \<longrightarrow> x \<in> wanted"])

lemma prune_dirs_same [simp]: "names (prune_dirs ds s) = names s" "contents (prune_dirs ds s) = contents s"
  by (induction ds s rule: prune_dirs.induct) simp_all

lemma prune_to_result:
  "prune_to target wanted s = (r, s') \<Longrightarrow>
   ino s' = (\<lambda>p. if under target p \<and> p \<notin> wanted then None else ino s p) \<and> contents s' = contents s
   \<and> (\<exists>n. r = Inr n)"
  by (auto simp: prune_to_def seqM_def bindM_def ino_prune_files [unfolded ino_def] ino_def [abs_def] fun_eq_iff)
     (auto simp: prune_files_def)

lemma map_of_rev_Some: "map_of (rev links) p \<noteq> None \<longleftrightarrow> p \<in> fst ` set links"
  by (metis map_of_eq_None_iff set_rev)

lemma assemble_finish_snapshot:
  assumes "assemble_finish root host m removed s = (Inr out, s')"
  shows "\<exists>i state m'. entry_str (JObj m) ''payload_hash'' = Inr i
     \<and> snapshot root (kind_value PROVISIONING_PAYLOAD) i m' s = (Inr state, s')"
proof -
  from assms obtain i where i: "entry_str (JObj m) ''payload_hash'' = Inr i"
    by (cases "entry_str (JObj m) ''payload_hash''") (simp_all add: assemble_finish_def Let_def)
  let ?p = "dict_set ''files''
            (JList (filter (\<lambda>e. jindex e ''path'' \<noteq> Inr (JStr BUILD_MANIFEST)) (manifest_files m))) m"
  from assms i obtain state s1 where sn: "snapshot root (kind_value PROVISIONING_PAYLOAD) i ?p s = (Inr state, s1)"
    by (auto simp: assemble_finish_def Let_def bindM_Inr_iff simp del: kind_value.simps)
  with assms i have "s1 = s'"
    by (cases "map_res entry_size (manifest_files m)")
       (simp_all add: assemble_finish_def Let_def bindM_def [of "snapshot _ _ _ _"] del: kind_value.simps)
  with i sn show ?thesis by blast
qed

text \<open>The payload a host is served, as links: what the manifest names and nothing else.\<close>

lemma assemble_tree:
  assumes inv: "blob_inv sha root s" and safe: "safe_command root (Assemble host t)"
    and run: "cmd_assemble root host t s = (Inr out, s')"
  shows "\<exists>m links. read_manifest t = Inr m
     \<and> map_res (entry_link (target_dir root host)) (manifest_files m) = Inr links
     \<and> (\<forall>p. under (target_dir root host) p \<longrightarrow>
          (case map_of (rev links) p of
             None \<Rightarrow> ino s' p = None
           | Some d \<Rightarrow> \<exists>i. ino s' p = Some i \<and> ino s' (blob_path root d) = Some i))"
proof -
  let ?t = "target_dir root host" and ?rec = "root @ [''hosts'', host, ''payload-manifest.json'']"
  from run obtain m where m: "read_manifest t = Inr m"
    by (cases "read_manifest t") (auto simp: cmd_assemble_def Let_def)
  from run m obtain s1 where mk: "mkdir_p ?t s = (Inr (), s1)"
    and one: "device s1 (root @ [BLOBSTORE_DIR]) = device s1 ?t"
    by (auto simp: cmd_assemble_def Let_def seqM_Inr_iff split: if_splits)
  from run m mk one obtain wanted s2 where lp: "foldM (manifest_files m) {} (assemble_entry root ?t) s1 = (Inr wanted, s2)"
    by (auto simp: cmd_assemble_def Let_def seqM_Inr_iff bindM_Inr_iff)
  from run m mk one lp obtain removed s3 where pr: "prune_to ?t wanted s2 = (Inr removed, s3)"
    by (auto simp: cmd_assemble_def Let_def seqM_Inr_iff bindM_Inr_iff)
  from run m mk one lp pr obtain s4 where wr: "write_text ?rec (dumps_indent 0 (JObj m)) s3 = (Inr (), s4)"
    by (auto simp: cmd_assemble_def Let_def seqM_Inr_iff bindM_Inr_iff)
  from run m mk one lp pr wr have fin: "assemble_finish root host m removed s4 = (Inr out, s')"
    by (auto simp: cmd_assemble_def Let_def seqM_Inr_iff bindM_Inr_iff)
  from assemble_finish_snapshot [OF fin] obtain i state m' where
    i: "entry_str (JObj m) ''payload_hash'' = Inr i"
    and sn: "snapshot root (kind_value PROVISIONING_PAYLOAD) i m' s4 = (Inr state, s')"
    by blast
  from safe m i have plain: "plain i" by (simp add: safe_command_def)
  have s1: "ino s1 = ino s" using mkdir_p_cases [OF mk] by (auto simp: ino_def [abs_def])
  from assemble_loop [OF lp, unfolded s1] obtain links where
    links: "map_res (entry_link ?t) (manifest_files m) = Inr links" "wanted = fst ` set links"
      "\<forall>(p, d)\<in>set links. ino s (blob_path root d) \<noteq> None"
      "\<forall>p. ino s2 p = (case map_of (rev links) p of None \<Rightarrow> ino s p | Some d \<Rightarrow> ino s (blob_path root d))"
    by auto
  have below: "\<exists>q. p = ?t @ q" if "p \<in> fst ` set links" for p
    using links(1) that by (fastforce simp: map_res_Inr_iff list_all2_conv_all_nth in_set_conv_nth
        entry_link_def bind_res_Inr_iff)
  have later: "ino s' p = ino s3 p" if "\<not> under (root @ [kind_value PROVISIONING_PAYLOAD]) p" "p \<noteq> ?rec" for p
    using keepsD [OF keeps_ino_write_text [of ?rec p "ino s3 p"] _ wr] that
      keepsD [OF snapshot_ino_elsewhere [OF plain that(1), of "ino s4 p"] _ sn] by auto
  have prune: "ino s3 p = (if under ?t p \<and> p \<notin> wanted then None else ino s2 p)" for p
    using prune_to_result [OF pr] by simp
  have blobs: "ino s' (blob_path root d) = ino s (blob_path root d)" for d
  proof -
    have "map_of (rev links) (blob_path root d) = None"
      using below blob_not_below_target map_of_rev_Some by metis
    then have "ino s2 (blob_path root d) = ino s (blob_path root d)" using links(4) by simp
    moreover have "\<not> under ?t (blob_path root d)"
      using blob_not_below_target by (auto simp: under_iff)
    moreover have "\<not> under (root @ [kind_value PROVISIONING_PAYLOAD]) (blob_path root d)" "blob_path root d \<noteq> ?rec"
      by (auto simp: under_def blob_path_def BLOBSTORE_DIR_def)
    ultimately show ?thesis using prune later by simp
  qed
  have "case map_of (rev links) p of None \<Rightarrow> ino s' p = None
           | Some d \<Rightarrow> \<exists>i. ino s' p = Some i \<and> ino s' (blob_path root d) = Some i"
    if u: "under ?t p" for p
  proof -
    have "\<not> under (root @ [kind_value PROVISIONING_PAYLOAD]) p" "p \<noteq> ?rec"
      using u by (auto simp: under_iff target_dir_def)
    note p' = later [OF this]
    show ?thesis
    proof (cases "map_of (rev links) p")
      case None
      then have "p \<notin> wanted" using map_of_rev_Some links(2) by metis
      with u p' prune None show ?thesis by simp
    next
      case (Some d)
      then have "p \<in> wanted" "(p, d) \<in> set links"
        using map_of_rev_Some [of links p] links(2) map_of_SomeD [OF Some] by auto
      then obtain i where "ino s (blob_path root d) = Some i" using links(3) by auto
      with Some p' prune \<open>p \<in> wanted\<close> links(4) blobs show ?thesis by simp
    qed
  qed
  with m links(1) show ?thesis by blast
qed

section \<open>Snapshots stay as they were taken\<close>

text \<open>A snapshot's own name never starts with the dot of a tree under construction.\<close>

definition snapshot_name :: "string \<Rightarrow> bool" where
  "snapshot_name i \<longleftrightarrow> plain i \<and> hd i \<noteq> CHR ''.''"

definition frozen :: "(string \<Rightarrow> string) \<Rightarrow> path \<Rightarrow> path \<Rightarrow> nat \<Rightarrow> fs \<Rightarrow> bool" where
  "frozen sha root p i s \<longleftrightarrow> blob_inv sha root s \<and> ino s p = Some i"

lemma frozen_exists:
  assumes "frozen sha root p i s" and "under d p"
  shows "path_exists s d"
proof -
  have "path_exists s p" using assms(1) by (simp add: frozen_def path_exists_def is_file_def)
  moreover have "fs_ok s" using assms(1) by (simp add: frozen_def blob_inv_def)
  ultimately show ?thesis using exists_above assms(2) by (simp add: path_exists_def)
qed

lemma frozenI: "keeps (blob_inv sha root) m \<Longrightarrow> keeps (\<lambda>s. ino s p = Some i) m \<Longrightarrow> keeps (frozen sha root p i) m"
  by (auto simp: keeps_def frozen_def)

lemma snapshot_frozen:
  assumes k: "kind \<noteq> BLOBSTORE_DIR" "kind \<noteq> ''hosts''" and name: "snapshot_name sid"
    and p: "under (root @ [kind, sid]) p" and i: "plain i" "kind' \<noteq> BLOBSTORE_DIR" "kind' \<noteq> ''hosts''"
  shows "keeps (frozen sha root p n) (snapshot root kind' i manifest)"
proof (cases "kind' = kind \<and> i = sid")
  case True
  then have ex: "path_exists s (snap_final root kind' i)" if "frozen sha root p n s" for s
    using frozen_exists [OF that p] i(1) by (simp add: snap_paths)
  show ?thesis
    unfolding snapshot_def Let_def
    by (rule keeps_bindM, rule keeps_liftR, rule keeps_bind_gets_at) (simp add: ex)
next
  case False
  from p obtain x y where px: "p = root @ kind # sid # x # y"
    by (auto simp: under_iff neq_Nil_conv)
  have off: "z \<noteq> p \<and> \<not> under z p"
    if "z = root @ kind' # a # b" "kind' \<noteq> kind \<or> a \<noteq> sid" for z a b
    using that by (auto simp: px under_iff)
  have sid: "''.'' @ i @ ''.building'' \<noteq> sid" using name by (auto simp: snapshot_name_def)
  have nb: "snap_building root kind' i @ q \<noteq> p" "\<not> under (snap_building root kind' i) p"
    "snap_final root kind' i \<noteq> p" "\<not> under (snap_final root kind' i) p" for q
    using off False sid by (auto simp: snap_paths [OF i(1)])
  have nr: "snap_record root kind' i \<noteq> p" by (simp add: snap_paths [OF i(1)] px)
  have "snap_building root kind' i \<noteq> p" using nb(1) [of "[]"] by simp
  moreover have "keeps (\<lambda>s. ino s p = Some n) (snapshot_link root (snap_building root kind' i) e)" for e
  proof -
    obtain q d where e: "e = (q, d)" by fastforce
    show ?thesis unfolding e snapshot_link_def prod.case by (intro keep nb)
  qed
  ultimately have "keeps (\<lambda>s. ino s p = Some n) (snapshot root kind' i manifest)"
    unfolding snapshot_def snapshot_fill_def Let_def
    using nb(2-4) nr nb(3) [symmetric] by (intro keep) auto
  then show ?thesis by (intro frozenI snapshot_keeps i)
qed

lemma keeps_ino_prune_to: "\<not> under target p \<Longrightarrow> keeps (\<lambda>s. ino s p = v) (prune_to target wanted)"
  by (rule keepsI) (auto dest!: prune_to_result)

lemma foldM_seed_ino:
  "under (store_dir root) p \<or> keeps (\<lambda>s. ino s p = v) (seed_file sha root f counts)"
proof (cases "under (store_dir root) p")
  case False
  then have "blob_path root d \<noteq> p" for d by (metis under_blob)
  then show ?thesis unfolding seed_file_def Let_def by (cases counts) (auto intro!: keep)
qed simp

lemma gc_ino:
  assumes "\<not> under (store_dir root) p"
  shows "keeps (\<lambda>s. ino s p = v) (cmd_gc root dry)"
proof -
  have ne: "store_dir root @ [sh, b] \<noteq> p" for sh b
    using assms under_append [of "store_dir root" "[sh, b]"] by auto
  have "keeps (\<lambda>s. ino s p = v) (gc_blob dry (store_dir root @ [sh, b]) t)" for sh b t
    using ne [of sh b] by (auto simp: gc_blob_def Let_def intro!: keep split: option.split)
  then have "keeps (\<lambda>s. ino s p = v) (gc_shard dry (store_dir root @ [sh]) t)" for sh t
    unfolding gc_shard_def by (intro keep) simp_all
  then show ?thesis unfolding cmd_gc_def by (intro keep)
qed

lemma repair_ino: "keeps (\<lambda>s. ino s p = v) (cmd_repair sha root d good)"
  unfolding cmd_repair_def Let_def
  by (auto intro!: keep simp: ino_def split: option.split)

lemma frozen_command:
  assumes k: "kind \<noteq> BLOBSTORE_DIR" "kind \<noteq> ''hosts''" and name: "snapshot_name sid"
    and p: "under (root @ [kind, sid]) p" and safe: "safe_command root c"
  shows "keeps (frozen sha root p n) (blobstore_main sha root c)"
proof -
  have px: "\<exists>q. p = root @ kind # sid # q" using p by (auto simp: under_iff)
  then have ns: "\<not> under (store_dir root) p" using k by auto
  have th: "\<not> under (target_dir root h) p" "target_dir root h @ q \<noteq> p"
    "root @ [''hosts'', h, ''payload-manifest.json''] \<noteq> p" for h q
    using px k(2) by (auto simp: under_iff target_dir_def)
  have snap: "keeps (frozen sha root p n) (snapshot root (kind_value kv) i m)" if "plain i" for kv i m
    by (rule snapshot_frozen [OF k name p that]) simp_all
  have asm: "keeps (\<lambda>s. ino s p = Some n) (assemble_entry root (target_dir root h) e w)" for h e w
    unfolding assemble_entry_def Let_def using th(2) by (intro keep) auto
  have sd: "keeps (\<lambda>s. ino s p = Some n) (cmd_seed sha root ds)" for ds
  proof -
    have "keeps (\<lambda>s. ino s p = Some n) (seed_file sha root f counts)" for f counts
      using foldM_seed_ino [of root p "Some n" sha f counts] ns by blast
    then show ?thesis unfolding cmd_seed_def by (intro keep) (auto intro!: keep split: prod.split)
  qed
  have mk: "keeps (frozen sha root p n) (mkdir_p d)" for d by (intro frozenI keep)
  have "keeps (frozen sha root p n) (dispatch sha root c)"
  proof (cases c)
    case (Assemble h t)
    have fin: "keeps (frozen sha root p n) (assemble_finish root h m r)" if "read_manifest t = Inr m" for m r
      using safe that Assemble unfolding assemble_finish_def Let_def
      by (intro keeps_bind_liftR keep snap) (simp add: safe_command_def)
    have "keeps (frozen sha root p n) (cmd_assemble root h t)"
      unfolding cmd_assemble_def Let_def
      by (intro keeps_bind_liftR keep fin mk frozenI asm keeps_ino_prune_to th inv_write_text record_manifest
          inv_assemble_entry) (use th in auto)
    then show ?thesis using Assemble by (simp add: dispatch_def)
  next
    case (Snapshot kv i t)
    then have "plain i" using safe by (simp add: safe_command_def)
    then show ?thesis using Snapshot by (auto simp: dispatch_def cmd_snapshot_def intro!: keep snap)
  next
    case (Seed ds)
    with safe sd inv_seed show ?thesis by (simp add: dispatch_def frozenI)
  qed (simp_all add: dispatch_def frozenI inv_want inv_fsck inv_gc inv_repair gc_ino ns repair_ino)
  then show ?thesis unfolding blobstore_main_def by (intro keep mk)
qed

section \<open>Garbage collection\<close>

definition in_shard :: "path \<Rightarrow> path \<Rightarrow> bool" where
  "in_shard root p \<longleftrightarrow> (\<exists>a b. p = store_dir root @ [a, b])"

text \<open>The state after the blobs of \<open>looked\<close> have been looked at.\<close>

definition collected :: "fs \<Rightarrow> path set \<Rightarrow> fs \<Rightarrow> bool" where
  "collected s0 looked s \<longleftrightarrow> contents s = contents s0
     \<and> names s = filter (\<lambda>e. \<not> (fst e \<in> looked \<and> nlink s0 (snd e) = 1)) (names s0)"

lemma nlink_one:
  assumes "nlink s i = 1" and "(p, i) \<in> set (names s)" and "(q, i) \<in> set (names s)"
  shows "q = p"
proof -
  let ?l = "filter (\<lambda>e. snd e = i) (names s)"
  have "length ?l = 1" using assms(1) by (simp add: nlink_def)
  then obtain e where e: "?l = [e]" by (metis One_nat_def length_0_conv length_Suc_conv)
  have "(p, i) \<in> set ?l" "(q, i) \<in> set ?l" using assms(2,3) by simp_all
  with e show ?thesis by auto
qed

lemma collected_nlink:
  assumes c: "collected s0 looked s" and p: "(p, i) \<in> set (names s0)" "p \<notin> looked \<or> nlink s0 i \<noteq> 1"
  shows "nlink s i = nlink s0 i"
proof -
  have "(\<not> (fst e \<in> looked \<and> nlink s0 (snd e) = 1)) \<or> snd e \<noteq> i" if "e \<in> set (names s0)" for e
    using nlink_one [of s0 i p "fst e"] that p by (cases e) auto
  then have "filter (\<lambda>e. snd e = i \<and> \<not> (fst e \<in> looked \<and> nlink s0 (snd e) = 1)) (names s0)
      = filter (\<lambda>e. snd e = i) (names s0)"
    by (intro filter_cong) auto
  with c show ?thesis by (simp add: collected_def nlink_def conj_commute)
qed

lemma collected_ino:
  assumes "fs_ok s0" and "collected s0 looked s" and "p \<notin> looked"
  shows "ino s p = ino s0 p"
proof -
  have d: "distinct (map fst (names s))"
    using assms fs_ok_distinct by (simp add: collected_def distinct_map_filter)
  have "(p, i) \<in> set (names s) \<longleftrightarrow> (p, i) \<in> set (names s0)" for i
    using assms by (simp add: collected_def)
  then show ?thesis
    using d fs_ok_distinct [OF assms(1)] by (metis ino_def map_of_eq_Some_iff not_Some_eq)
qed

lemma collected_step:
  assumes ok: "fs_ok s0" and c: "collected s0 looked s" and p: "p \<notin> looked"
  shows "\<exists>t' s'. gc_blob False p t s = (Inr t', s') \<and> collected s0 (insert p looked) s'"
proof (cases "ino s p")
  case None
  have "(p, i) \<notin> set (names s0)" for i
    using None collected_ino [OF ok c p] ino_Some_iff [OF ok] by (metis option.distinct(1))
  then have "collected s0 (insert p looked) s"
    using c by (auto simp: collected_def intro!: filter_cong)
  with None show ?thesis by (auto simp: gc_blob_def)
next
  case (Some i)
  have m: "(p, i) \<in> set (names s0)" using Some collected_ino [OF ok c p] ino_Some_iff [OF ok] by metis
  have n: "nlink s i = nlink s0 i" by (rule collected_nlink [OF c m]) (simp add: p)
  have only: "j = i" if "(p, j) \<in> set (names s0)" for j
    using that m fs_ok_distinct [OF ok] by (metis eq_key_imp_eq_value)
  show ?thesis
  proof (cases "nlink s0 i = 1")
    case True
    have "filter (\<lambda>e. fst e \<noteq> p) (names s)
        = filter (\<lambda>e. \<not> (fst e \<in> insert p looked \<and> nlink s0 (snd e) = 1)) (names s0)"
      using c True only by (auto simp: collected_def filter_filter intro!: filter_cong)
    then have "collected s0 (insert p looked) (s\<lparr>names := filter (\<lambda>e. fst e \<noteq> p) (names s)\<rparr>)"
      using c by (simp add: collected_def)
    moreover have "unlink p s = (Inr (), s\<lparr>names := filter (\<lambda>e. fst e \<noteq> p) (names s)\<rparr>)"
      using Some by (simp add: unlink_def is_file_def)
    ultimately show ?thesis
      using Some n True by (simp add: gc_blob_def Let_def seqM_def bindM_def)
  next
    case False
    then have "collected s0 (insert p looked) s"
      using c only by (auto simp: collected_def intro!: filter_cong)
    with Some n False show ?thesis by (simp add: gc_blob_def Let_def)
  qed
qed

lemma collected_cong:
  assumes "collected s0 A s" and "\<And>p. p \<in> fst ` set (names s0) \<Longrightarrow> p \<in> A \<longleftrightarrow> p \<in> B"
  shows "collected s0 B s"
proof -
  have "filter (\<lambda>e. \<not> (fst e \<in> A \<and> nlink s0 (snd e) = 1)) (names s0)
      = filter (\<lambda>e. \<not> (fst e \<in> B \<and> nlink s0 (snd e) = 1)) (names s0)"
    using assms(2) by (intro filter_cong refl) blast
  with assms(1) show ?thesis by (simp add: collected_def)
qed

lemma collected_children:
  assumes ok: "fs_ok s0" and c: "collected s0 looked s" and "p \<in> fst ` set (names s0)" and "p \<notin> looked"
  shows "p \<in> fst ` set (names s)"
  using assms by (force simp: collected_def)

lemma gc_shard_step:
  assumes ok: "fs_ok s0" and c: "collected s0 looked s" and new: "\<And>b. sh @ [b] \<notin> looked"
  shows "\<exists>t' s'. gc_shard False sh t s = (Inr t', s')
     \<and> collected s0 (looked \<union> {sh @ [b] | b. sh @ [b] \<in> fst ` set (names s0)}) s'"
proof -
  let ?bs = "child_names s sh"
  have fold: "\<exists>t' s'. foldM ?bs t (\<lambda>b. gc_blob False (sh @ [b])) s = (Inr t', s')
      \<and> collected s0 (looked \<union> (\<lambda>b. sh @ [b]) ` set ?bs) s'"
  proof (rule foldM_total [where P = "\<lambda>ys _ s. collected s0 (looked \<union> (\<lambda>b. sh @ [b]) ` set ys) s"])
    show "collected s0 (looked \<union> (\<lambda>b. sh @ [b]) ` set []) s" using c by simp
  next
    fix ys x zs a s1
    assume xs: "?bs = ys @ x # zs" and c1: "collected s0 (looked \<union> (\<lambda>b. sh @ [b]) ` set ys) s1"
    have "distinct ?bs" by (simp add: child_names_def)
    then have "x \<notin> set ys" using xs by simp
    with new have "sh @ [x] \<notin> looked \<union> (\<lambda>b. sh @ [b]) ` set ys" by auto
    from collected_step [OF ok c1 this, of a]
    show "\<exists>a' s'. gc_blob False (sh @ [x]) a s1 = (Inr a', s')
        \<and> collected s0 (looked \<union> (\<lambda>b. sh @ [b]) ` set (ys @ [x])) s'"
      by simp
  qed
  then obtain t1 s1 where f: "foldM ?bs t (\<lambda>b. gc_blob False (sh @ [b])) s = (Inr t1, s1)"
    and c1: "collected s0 (looked \<union> (\<lambda>b. sh @ [b]) ` set ?bs) s1" by blast
  have "b \<in> set ?bs" if "sh @ [b] \<in> fst ` set (names s0)" for b
    using collected_children [OF ok c that new] by (simp add: child_names_mem)
  then have "collected s0 (looked \<union> {sh @ [b] | b. sh @ [b] \<in> fst ` set (names s0)}) s1"
    by (intro collected_cong [OF c1]) blast
  moreover have "collected s0 L (s1\<lparr>dirs := d\<rparr>) = collected s0 L s1" for L d
    by (simp add: collected_def)
  ultimately show ?thesis
    by (auto simp: gc_shard_def bindM_def f whenM_def rmdir_def seqM_def)
qed

lemma shard_listed:
  assumes ok: "fs_ok s" and f: "store_dir root @ [a, b] \<in> fst ` set (names s)"
  shows "a \<in> set (shard_names root s)"
proof -
  from f obtain i where i: "(store_dir root @ [a, b], i) \<in> set (names s)" by force
  have d: "is_dir s (store_dir root @ [a])"
    using fs_ok_name(2) [OF ok i] by (simp add: butlast_append)
  then have "store_dir root @ [a] \<in> set (dirs s)" by (simp add: is_dir_def)
  then have "is_dir s (store_dir root)" "a \<in> set (child_names s (store_dir root))"
    using fs_ok_dir(2) [OF ok, of "store_dir root @ [a]"] by (simp_all add: child_names_mem)
  with d show ?thesis by (simp add: shard_names_def path_exists_def)
qed

lemma gc_frees_exactly:
  assumes ok: "fs_ok s"
  shows "\<exists>out s'. cmd_gc root False s = (Inr out, s') \<and> contents s' = contents s
     \<and> names s' = filter (\<lambda>(p, i). \<not> (in_shard root p \<and> nlink s i = 1)) (names s)"
proof -
  let ?st = "store_dir root" and ?shards = "shard_names root s"
  let ?L = "\<lambda>as. {?st @ [a, b] | a b. a \<in> set as \<and> ?st @ [a, b] \<in> fst ` set (names s)}"
  have "\<exists>t' s'. foldM ?shards empty_tally (\<lambda>sh. gc_shard False (?st @ [sh])) s = (Inr t', s')
      \<and> collected s (?L ?shards) s'"
  proof (rule foldM_total [where P = "\<lambda>ys _ s'. collected s (?L ys) s'"])
    show "collected s (?L []) s" by (simp add: collected_def)
  next
    fix ys x zs a s1
    assume xs: "?shards = ys @ x # zs" and c: "collected s (?L ys) s1"
    have "distinct ?shards" by (simp add: shard_names_def child_names_def)
    then have "(?st @ [x]) @ [b] \<notin> ?L ys" for b using xs by auto
    from gc_shard_step [OF ok c this, of a] obtain t' s' where
      g: "gc_shard False (?st @ [x]) a s1 = (Inr t', s')"
      and c': "collected s (?L ys \<union> {(?st @ [x]) @ [b] | b. (?st @ [x]) @ [b] \<in> fst ` set (names s)}) s'" by blast
    have "?L ys \<union> {(?st @ [x]) @ [b] | b. (?st @ [x]) @ [b] \<in> fst ` set (names s)} = ?L (ys @ [x])"
      by auto
    with g c' show "\<exists>a' s'. gc_shard False (?st @ [x]) a s1 = (Inr a', s') \<and> collected s (?L (ys @ [x])) s'"
      by auto
  qed
  then obtain t s' where f: "foldM ?shards empty_tally (\<lambda>sh. gc_shard False (?st @ [sh])) s = (Inr t, s')"
    and c: "collected s (?L ?shards) s'" by blast
  have "p \<in> ?L ?shards \<longleftrightarrow> p \<in> Collect (in_shard root)" if p: "p \<in> fst ` set (names s)" for p
  proof
    assume "p \<in> Collect (in_shard root)"
    then obtain a b where "p = ?st @ [a, b]" by (auto simp: in_shard_def)
    with p shard_listed [OF ok, of root a b] show "p \<in> ?L ?shards"
      by (intro CollectI exI [of _ a] exI [of _ b]) simp
  qed (auto simp: in_shard_def)
  from collected_cong [OF c this] have c: "collected s (Collect (in_shard root)) s'" .
  then have "names s' = filter (\<lambda>(p, i). \<not> (in_shard root p \<and> nlink s i = 1)) (names s)"
    by (simp add: collected_def case_prod_beta')
  moreover have "contents s' = contents s" using c by (simp add: collected_def)
  ultimately show ?thesis using f by (simp add: cmd_gc_def bindM_def)
qed

section \<open>fsck and repair\<close>

lemma fsck_blob_result:
  "\<exists>t'. fsck_blob sha n b t s = (Inr t', s)
     \<and> (t_bad t' = 0 \<longleftrightarrow> t_bad t = 0 \<and> (\<forall>i. ino s b = Some i \<longrightarrow> sha (contents s i) = last b))"
  by (cases "ino s b") (auto simp: fsck_blob_def is_file_def sha256_of_def Let_def)

lemma fsck_shard_result:
  "\<exists>t'. foldM bs t (\<lambda>b. fsck_blob sha n (d @ [b])) s = (Inr t', s)
     \<and> (t_bad t' = 0 \<longleftrightarrow> t_bad t = 0
         \<and> (\<forall>b\<in>set bs. \<forall>i. ino s (d @ [b]) = Some i \<longrightarrow> sha (contents s i) = b))"
proof (induction bs arbitrary: t)
  case (Cons b bs)
  from fsck_blob_result [of sha n "d @ [b]" t s]
  obtain t1 where t1: "fsck_blob sha n (d @ [b]) t s = (Inr t1, s)"
    "t_bad t1 = 0 \<longleftrightarrow> t_bad t = 0 \<and> (\<forall>i. ino s (d @ [b]) = Some i \<longrightarrow> sha (contents s i) = b)"
    unfolding last_snoc by (elim exE conjE) (rule that)
  obtain t2 where t2: "foldM bs t1 (\<lambda>b. fsck_blob sha n (d @ [b])) s = (Inr t2, s)"
    "t_bad t2 = 0 \<longleftrightarrow> t_bad t1 = 0 \<and> (\<forall>b\<in>set bs. \<forall>i. ino s (d @ [b]) = Some i \<longrightarrow> sha (contents s i) = b)"
    using Cons.IH [of t1] by (elim exE conjE) (rule that)
  have "foldM (b # bs) t (\<lambda>b. fsck_blob sha n (d @ [b])) s = (Inr t2, s)"
    using t1(1) t2(1) by (simp add: bindM_def)
  then show ?case
    by (rule exI [of _ t2, OF conjI]) (simp only: t2(2) t1(2) list.set ball_simps conj_assoc)
qed simp

lemma fsck_reports:
  assumes ok: "fs_ok s"
  shows "\<exists>out. cmd_fsck sha root n s = (Inr out, s)
     \<and> (rc out = 0 \<longleftrightarrow> (\<forall>p i. in_shard root p \<longrightarrow> ino s p = Some i \<longrightarrow> sha (contents s i) = last p))"
proof -
  let ?st = "store_dir root" and ?shards = "shard_names root s"
  let ?f = "\<lambda>sh t. bindM (gets (\<lambda>s. child_names s (?st @ [sh]))) (\<lambda>blobs.
        foldM blobs t (\<lambda>b. fsck_blob sha n (?st @ [sh, b])))"
  let ?good = "\<lambda>sh. \<forall>b\<in>set (child_names s (?st @ [sh])). \<forall>i. ino s (?st @ [sh, b]) = Some i \<longrightarrow> sha (contents s i) = b"
  have step: "\<exists>t'. ?f sh t s = (Inr t', s) \<and> (t_bad t' = 0 \<longleftrightarrow> t_bad t = 0 \<and> ?good sh)" for sh t
    using fsck_shard_result [of "child_names s (?st @ [sh])" t sha n "?st @ [sh]" s] by simp
  have "\<exists>t'. foldM shs t ?f s = (Inr t', s) \<and> (t_bad t' = 0 \<longleftrightarrow> t_bad t = 0 \<and> (\<forall>sh\<in>set shs. ?good sh))" for shs t
  proof (induction shs arbitrary: t)
    case (Cons sh shs)
    from step [of sh t]
    obtain t1 where t1: "?f sh t s = (Inr t1, s)" "t_bad t1 = 0 \<longleftrightarrow> t_bad t = 0 \<and> ?good sh"
      by (elim exE conjE) (rule that)
    obtain t2 where t2: "foldM shs t1 ?f s = (Inr t2, s)" "t_bad t2 = 0 \<longleftrightarrow> t_bad t1 = 0 \<and> (\<forall>sh\<in>set shs. ?good sh)"
      using Cons.IH [of t1] by (elim exE conjE) (rule that)
    have "foldM (sh # shs) t ?f s = (Inr t2, s)"
      using t1(1) t2(1) by (simp add: bindM_def [where m = "?f sh t"])
    then show ?case
      by (rule exI [of _ t2, OF conjI]) (simp only: t2(2) t1(2) list.set ball_simps conj_assoc)
  qed simp
  from this [of ?shards empty_tally]
  obtain t where t: "foldM ?shards empty_tally ?f s = (Inr t, s)"
    and t0: "t_bad t = 0 \<longleftrightarrow> t_bad empty_tally = 0 \<and> (\<forall>sh\<in>set ?shards. ?good sh)"
    by (elim exE conjE) (rule that)
  have none: "t_bad empty_tally = 0" by (simp add: empty_tally_def)
  have "(\<forall>sh\<in>set ?shards. ?good sh)
      \<longleftrightarrow> (\<forall>p i. in_shard root p \<longrightarrow> ino s p = Some i \<longrightarrow> sha (contents s i) = last p)"
  proof
    assume g: "\<forall>sh\<in>set ?shards. ?good sh"
    show "\<forall>p i. in_shard root p \<longrightarrow> ino s p = Some i \<longrightarrow> sha (contents s i) = last p"
    proof (intro allI impI)
      fix p i assume "in_shard root p" and i: "ino s p = Some i"
      then obtain a b where p: "p = ?st @ [a, b]" by (auto simp: in_shard_def)
      have f: "?st @ [a, b] \<in> fst ` set (names s)" using ino_mem [OF i] p by force
      then have "b \<in> set (child_names s (?st @ [a]))" by (simp add: child_names_mem)
      with g shard_listed [OF ok f] i p show "sha (contents s i) = last p" by simp
    qed
  next
    assume g: "\<forall>p i. in_shard root p \<longrightarrow> ino s p = Some i \<longrightarrow> sha (contents s i) = last p"
    have "in_shard root (?st @ [a, b])" for a b by (auto simp: in_shard_def)
    with g show "\<forall>sh\<in>set ?shards. ?good sh" by fastforce
  qed
  then have zero: "t_bad t = 0 \<longleftrightarrow> (\<forall>p i. in_shard root p \<longrightarrow> ino s p = Some i \<longrightarrow> sha (contents s i) = last p)"
    using t0 none by blast
  have "\<exists>out. cmd_fsck sha root n s = (Inr out, s) \<and> (rc out = 0 \<longleftrightarrow> t_bad t = 0)"
    by (simp add: cmd_fsck_def bindM_def [where m = "foldM ?shards empty_tally ?f"] t)
  then show ?thesis by (simp only: zero)
qed

lemma repair_heals:
  assumes "cmd_repair sha root digest good s = (Inr out, s')"
  shows "\<exists>i. ino s (blob_path root digest) = Some i \<and> sha (contents s' i) = digest
     \<and> names s' = names s \<and> (\<forall>j. j \<noteq> i \<longrightarrow> contents s' j = contents s j)"
  using assms
  by (auto simp: cmd_repair_def Let_def sha256_of_def seqM_def bindM_def split: option.splits if_splits)

lemma map_res_set: "map_res f xs = Inr ys \<Longrightarrow> set ys = {y. \<exists>x\<in>set xs. f x = Inr y}"
  by (induction xs arbitrary: ys) (auto simp: bind_res_Inr_iff)

lemma want_missing:
  assumes "cmd_want root t s = (Inr out, s')"
  shows "s' = s \<and> rc out = 0 \<and> sorted (stdout out) \<and> distinct (stdout out)
     \<and> (\<exists>m. read_manifest t = Inr m \<and> set (stdout out) =
          {d. (\<exists>e\<in>set (manifest_files m). entry_str e ''sha256'' = Inr d) \<and> \<not> path_exists s (blob_path root d)})"
proof -
  from assms obtain m where m: "read_manifest t = Inr m"
    by (cases "read_manifest t") (simp_all add: cmd_want_def)
  from assms m obtain ds where ds: "map_res (\<lambda>e. entry_str e ''sha256'') (manifest_files m) = Inr ds"
    by (cases "map_res (\<lambda>e. entry_str e ''sha256'') (manifest_files m)") (simp_all add: cmd_want_def)
  from map_res_set [OF ds] have "set ds = {d. \<exists>e\<in>set (manifest_files m). entry_str e ''sha256'' = Inr d}" .
  with assms m ds show ?thesis by (auto simp: cmd_want_def missing_digests_def)
qed

section \<open>Properties\<close>

text \<open>C4: Every command of the relay's store keeps it content-addressed (each blob's bytes hash to its
  name) on a well-formed tree, whatever it does and however it fails, given an id that is one path
  component and seeded trees without the store's own JSON records.\<close>

theorem blobstore_invariant:
  assumes "blob_inv sha root s" and "safe_command root c"
    and "blobstore_main sha root c s = (r, s')"
  shows "blob_inv sha root s'"
  by (rule keepsD [OF blob_inv_kept [OF assms(2)] assms(1,3)])

text \<open>The want-list is exact: it names, sorted and once each, precisely the digests of the manifest
  the store does not hold, and asking changes nothing.\<close>

theorem want_exact:
  assumes "cmd_want root t s = (Inr out, s')"
  shows "s' = s \<and> rc out = 0 \<and> sorted (stdout out) \<and> distinct (stdout out)
     \<and> (\<exists>m. read_manifest t = Inr m \<and> set (stdout out) =
          {d. (\<exists>e\<in>set (manifest_files m). entry_str e ''sha256'' = Inr d) \<and> \<not> path_exists s (blob_path root d)})"
  using assms by (rule want_missing)

text \<open>C3: An assemble that succeeds serves exactly the manifest: below the host's payload directory
  there is a file for each path the manifest names and for nothing else, it is a link to the blob of
  that path's digest, and its bytes hash to that digest.\<close>

theorem assemble_exact:
  assumes "blob_inv sha root s" and "safe_command root (Assemble host t)"
    and "cmd_assemble root host t s = (Inr out, s')"
  shows "\<exists>m links. read_manifest t = Inr m
     \<and> map_res (entry_link (target_dir root host)) (manifest_files m) = Inr links
     \<and> (\<forall>p. under (target_dir root host) p \<longrightarrow>
          (case map_of (rev links) p of
             None \<Rightarrow> ino s' p = None
           | Some d \<Rightarrow> \<exists>i. ino s' p = Some i \<and> ino s' (blob_path root d) = Some i
                       \<and> sha (contents s' i) = d))"
proof -
  have inv: "blob_inv sha root s'"
    by (rule keepsD [OF inv_assemble [OF assms(2)] assms(1,3)])
  have d: "sha (contents s' i) = d" if "ino s' (blob_path root d) = Some i" for d i
    using content_addressedD [OF _ ino_mem [OF that], of sha root] inv by (simp add: blob_inv_def)
  from assemble_tree [OF assms] obtain m links where
    "read_manifest t = Inr m" "map_res (entry_link (target_dir root host)) (manifest_files m) = Inr links"
    and l: "\<And>p. under (target_dir root host) p \<Longrightarrow>
          (case map_of (rev links) p of
             None \<Rightarrow> ino s' p = None
           | Some d \<Rightarrow> \<exists>i. ino s' p = Some i \<and> ino s' (blob_path root d) = Some i)"
    by blast
  moreover have "case map_of (rev links) p of
             None \<Rightarrow> ino s' p = None
           | Some d \<Rightarrow> \<exists>i. ino s' p = Some i \<and> ino s' (blob_path root d) = Some i \<and> sha (contents s' i) = d"
    if "under (target_dir root host) p" for p
    using l [OF that] d by (cases "map_of (rev links) p") auto
  ultimately show ?thesis by blast
qed

text \<open>C5: A snapshot is immutable: whatever command runs next, every file of its tree is still there
  and still the same inode.\<close>

theorem snapshot_immutable:
  assumes "blob_inv sha root s" and "safe_command root c" and "snapshot_name sid"
    and "under (root @ [kind_value kind, sid]) p" and "ino s p = Some i"
    and "blobstore_main sha root c s = (r, s')"
  shows "ino s' p = Some i"
proof -
  have "keeps (frozen sha root p i) (blobstore_main sha root c)"
    by (rule frozen_command [OF _ _ assms(3,4,2)]) simp_all
  then show ?thesis using assms(1,5,6) by (auto simp: frozen_def dest: keepsD)
qed

text \<open>C6: A garbage collection always finishes, drops exactly the blob names no other name links to,
  and loses no bytes: a file served or snapshotted keeps its inode, and every blob that remains is
  linked from elsewhere.\<close>

theorem gc_exact:
  assumes "fs_ok s"
  shows "\<exists>out s'. cmd_gc root False s = (Inr out, s') \<and> contents s' = contents s
     \<and> names s' = filter (\<lambda>(p, i). \<not> (in_shard root p \<and> nlink s i = 1)) (names s)"
  using assms by (rule gc_frees_exactly)

text \<open>fsck changes nothing and its exit code is right: zero exactly when every blob in a shard
  hashes to its name.\<close>

theorem fsck_exact:
  assumes "fs_ok s"
  shows "\<exists>out. cmd_fsck sha root n s = (Inr out, s)
     \<and> (rc out = 0 \<longleftrightarrow> (\<forall>p i. in_shard root p \<longrightarrow> ino s p = Some i \<longrightarrow> sha (contents s i) = last p))"
  using assms by (rule fsck_reports)

text \<open>A repair that succeeds heals the blob and with it every tree that links it: no name moves,
  the blob's inode holds bytes of the right digest and no other inode changes.\<close>

theorem repair_exact:
  assumes "cmd_repair sha root digest good s = (Inr out, s')"
  shows "\<exists>i. ino s (blob_path root digest) = Some i \<and> sha (contents s' i) = digest
     \<and> names s' = names s \<and> (\<forall>j. j \<noteq> i \<longrightarrow> contents s' j = contents s j)"
  using assms by (rule repair_heals)

section \<open>Witnesses\<close>

text \<open>A toy hash, and a relay with two source files, an older payload and nothing stored yet.\<close>

definition ex_sha :: "string \<Rightarrow> string" where
  "ex_sha t = ''h'' @ t"

definition ex_fs :: fs where
  "ex_fs = \<lparr>names = [([''src'', ''f''], 0), ([''src'', ''g''], 1),
                     ([''r'', ''hosts'', ''m'', ''01-provisioning'', ''old'', ''z''], 1)],
            contents = (\<lambda>i. if i = 0 then ''AA'' else if i = 1 then ''BB'' else []),
            dirs = [[''src''], [''r''], [''r'', ''hosts''], [''r'', ''hosts'', ''m''],
                    [''r'', ''hosts'', ''m'', ''01-provisioning''],
                    [''r'', ''hosts'', ''m'', ''01-provisioning'', ''old'']],
            next_inode = 2, device = (\<lambda>_. 0)\<rparr>"

definition ex_doc :: "(string, json) dict" where
  "ex_doc =
     [(''files'', JList [JObj [(''path'', JStr ''a/x''), (''sha256'', JStr ''hAA''), (''size'', JInt 2)],
                         JObj [(''path'', JStr ''build-manifest.json''), (''sha256'', JStr ''hBB''), (''size'', JInt 2)]]),
      (''payload_hash'', JStr ''ph'')]"

definition ex_manifest :: string where
  "ex_manifest = json_dumps (JObj ex_doc)"

definition ex_seeded :: fs where
  "ex_seeded = snd (blobstore_main ex_sha [''r''] (Seed [[''src'']]) ex_fs)"

definition ex_assembled :: fs where
  "ex_assembled = snd (cmd_assemble [''r''] ''m'' ex_manifest ex_seeded)"

lemma ex_fs_inv: "blob_inv ex_sha [''r''] ex_fs"
  unfolding blob_inv_def
  by (intro conjI)
     (auto simp: fs_ok_def ex_fs_def is_dir_def content_addressed_def records_private_def is_record_def
       ex_sha_def store_dir_def BLOBSTORE_DIR_def under_def split: if_splits)

lemma ex_seed_safe: "safe_command [''r''] (Seed [[''src'']])"
  by (auto simp: safe_command_def under_iff is_record_def)

lemma ex_manifest_read: "read_manifest ex_manifest = Inr ex_doc"
  by code_simp

lemma ex_assemble_safe: "safe_command [''r''] (Assemble ''m'' ex_manifest)"
  by (simp add: safe_command_def ex_manifest_read entry_str_def ex_doc_def plain_def)

lemma ex_seeded_inv: "blob_inv ex_sha [''r''] ex_seeded"
  unfolding ex_seeded_def
  by (rule keepsD [OF blob_inv_kept [OF ex_seed_safe] ex_fs_inv]) (rule prod.collapse [symmetric])

lemma ex_assembled_run:
  "cmd_assemble [''r''] ''m'' ex_manifest ex_seeded
   = (Inr \<lparr>rc = 0, stdout = [''ASSEMBLED host=m files=2 bytes=4 pruned=1 snapshot=created''], stderr = []\<rparr>,
      ex_assembled)"
proof -
  have "fst (cmd_assemble [''r''] ''m'' ex_manifest ex_seeded)
      = Inr \<lparr>rc = 0, stdout = [''ASSEMBLED host=m files=2 bytes=4 pruned=1 snapshot=created''], stderr = []\<rparr>"
    by code_simp
  then show ?thesis by (simp add: ex_assembled_def prod_eq_iff)
qed

lemma ex_assembled_inv: "blob_inv ex_sha [''r''] ex_assembled"
  by (rule keepsD [OF inv_assemble [OF ex_assemble_safe] ex_seeded_inv ex_assembled_run])

theorem blobstore_invariant_witness: "blob_inv ex_sha [''r''] ex_seeded"
  unfolding ex_seeded_def
  by (rule blobstore_invariant [OF ex_fs_inv ex_seed_safe, of "fst (blobstore_main ex_sha [''r''] (Seed [[''src'']]) ex_fs)"])
     simp

theorem want_exact_witness:
  "sorted [''hAA'', ''hBB''] \<and> (\<exists>m. read_manifest ex_manifest = Inr m \<and> {''hAA'', ''hBB''} =
     {d. (\<exists>e\<in>set (manifest_files m). entry_str e ''sha256'' = Inr d)
         \<and> \<not> path_exists ex_fs (blob_path [''r''] d)})"
proof -
  have "fst (cmd_want [''r''] ex_manifest ex_fs) = Inr \<lparr>rc = 0, stdout = [''hAA'', ''hBB''], stderr = []\<rparr>"
    by code_simp
  then have "cmd_want [''r''] ex_manifest ex_fs
      = (Inr \<lparr>rc = 0, stdout = [''hAA'', ''hBB''], stderr = []\<rparr>, snd (cmd_want [''r''] ex_manifest ex_fs))"
    by (simp add: prod_eq_iff)
  from want_exact [OF this] show ?thesis by simp
qed

theorem assemble_exact_witness:
  "\<exists>m links. read_manifest ex_manifest = Inr m
     \<and> map_res (entry_link (target_dir [''r''] ''m'')) (manifest_files m) = Inr links
     \<and> (\<forall>p. under (target_dir [''r''] ''m'') p \<longrightarrow>
          (case map_of (rev links) p of
             None \<Rightarrow> ino ex_assembled p = None
           | Some d \<Rightarrow> \<exists>i. ino ex_assembled p = Some i \<and> ino ex_assembled (blob_path [''r''] d) = Some i
                       \<and> ex_sha (contents ex_assembled i) = d))"
  by (rule assemble_exact [OF ex_seeded_inv ex_assemble_safe ex_assembled_run])

theorem snapshot_immutable_witness:
  "ino (snd (blobstore_main ex_sha [''r''] (Gc False) ex_assembled))
     [''r'', ''provisioning-payload'', ''ph'', ''a'', ''x''] = Some 0"
proof (rule snapshot_immutable [OF ex_assembled_inv])
  show "safe_command [''r''] (Gc False)" by (simp add: safe_command_def)
  show "snapshot_name ''ph''" by (simp add: snapshot_name_def plain_def)
  show "under ([''r''] @ [kind_value PROVISIONING_PAYLOAD, ''ph'']) [''r'', ''provisioning-payload'', ''ph'', ''a'', ''x'']"
    by (simp add: under_def)
  show "ino ex_assembled [''r'', ''provisioning-payload'', ''ph'', ''a'', ''x''] = Some 0"
    by code_simp
qed (rule prod.collapse [symmetric])

theorem gc_exact_witness:
  "\<exists>out s'. cmd_gc [''r''] False ex_assembled = (Inr out, s') \<and> contents s' = contents ex_assembled
     \<and> names s' = filter (\<lambda>(p, i). \<not> (in_shard [''r''] p \<and> nlink ex_assembled i = 1)) (names ex_assembled)"
  using ex_assembled_inv by (intro gc_exact) (simp add: blob_inv_def)

theorem fsck_exact_witness:
  "\<exists>out. cmd_fsck ex_sha [''r''] True ex_assembled = (Inr out, ex_assembled)
     \<and> (rc out = 0 \<longleftrightarrow> (\<forall>p i. in_shard [''r''] p \<longrightarrow> ino ex_assembled p = Some i
                          \<longrightarrow> ex_sha (contents ex_assembled i) = last p))"
  using ex_assembled_inv by (intro fsck_exact) (simp add: blob_inv_def)

text \<open>A rotted blob and a good copy of it.\<close>

definition ex_rotted :: fs where
  "ex_rotted = ex_fs\<lparr>names := ([''r'', ''blobstore'', ''hA'', ''hAA''], 5) # names ex_fs,
                      contents := (contents ex_fs)(5 := ''A?'')\<rparr>"

theorem repair_exact_witness:
  "ex_sha (contents (snd (cmd_repair ex_sha [''r''] ''hAA'' [''src'', ''f''] ex_rotted)) 5) = ''hAA''"
proof -
  let ?run = "cmd_repair ex_sha [''r''] ''hAA'' [''src'', ''f''] ex_rotted"
  have "fst ?run = Inr \<lparr>rc = 0, stdout = [''REPAIRED hAA links=1''], stderr = []\<rparr>"
    by code_simp
  then have "?run = (Inr \<lparr>rc = 0, stdout = [''REPAIRED hAA links=1''], stderr = []\<rparr>, snd ?run)"
    by (simp add: prod_eq_iff)
  from repair_exact [OF this] show ?thesis
    by (auto simp: ex_rotted_def ino_def blob_path_def BLOBSTORE_DIR_def)
qed

end
