(* ===== verification/Relay.thy ===== *)
theory Relay
  imports Effects Py_Json
begin

text \<open>
  \<open>server/prov/relay.py\<close>: the declared staging hosts, and putting a payload or a snapshot on
  one of them through \<open>ssh\<close> and \<open>rsync\<close>. The processes are run by a parameter
  \<open>runner\<close> over a world that holds this machine's files, the temporary blob farm and
  whatever the relay is; a command is its argument vector and standard input.
\<close>

section \<open>Declared staging hosts\<close>

definition RSYNC_EXE :: string where "RSYNC_EXE = ''C:'' @ [CHR 92] @ ''cygwin64'' @ [CHR 92] @ ''bin'' @ [CHR 92] @ ''rsync.exe''"
definition SSH_EXE :: string where "SSH_EXE = ''C:'' @ [CHR 92] @ ''cygwin64'' @ [CHR 92] @ ''bin'' @ [CHR 92] @ ''ssh.exe''"
definition CYGWIN_SSH :: string where "CYGWIN_SSH = ''/usr/bin/ssh''"
definition RELAY_STORE_REMOTE :: string where "RELAY_STORE_REMOTE = ''/tmp/mast-blobstore.py''"
definition HOSTS_SUBDIR :: string where "HOSTS_SUBDIR = ''hosts''"

record staging_host =
  sh_address :: string
  sh_share :: string
  sh_ssh_target :: string
  sh_root :: string
  sh_creds_key :: string

definition backslash :: char where "backslash = CHR 92"

definition unc :: "staging_host \<Rightarrow> string \<Rightarrow> string" where
  "unc h host = [backslash, backslash] @ sh_address h @ [backslash] @ sh_share h @ [backslash] @ host @ [backslash] @ ''01-provisioning''"

definition host_dir :: "staging_host \<Rightarrow> string \<Rightarrow> string" where
  "host_dir h host = sh_root h @ ''/'' @ HOSTS_SUBDIR @ ''/'' @ host @ ''/01-provisioning''"

definition required_fields :: "string list" where
  "required_fields = [''address'', ''share'', ''ssh_target'', ''root'']"

text \<open>
  \<open>StagingHost(**entry)\<close>: a \<open>TypeError\<close> for an entry that is no mapping, a missing
  field or an unknown one. The declared values are strings; another value counts as its text.
\<close>

definition make_staging_host :: "json \<Rightarrow> staging_host res" where
  "make_staging_host entry =
     (case entry of
        JObj d \<Rightarrow>
          (if list_all (\<lambda>k. k \<in> set (required_fields @ [''creds_key''])) (keys d)
              \<and> list_all (\<lambda>k. k \<in> set (keys d)) required_fields
           then Inr \<lparr>sh_address = py_str (field d ''address''), sh_share = py_str (field d ''share''),
                     sh_ssh_target = py_str (field d ''ssh_target''), sh_root = py_str (field d ''root''),
                     sh_creds_key = (case map_of d ''creds_key'' of None \<Rightarrow> ''shared'' | Some v \<Rightarrow> py_str v)\<rparr>
           else Inl TypeError)
      | _ \<Rightarrow> Inl TypeError)"

fun load_sites :: "(string \<times> json) list \<Rightarrow> (string, staging_host) dict \<Rightarrow> (string, staging_host) dict res" where
  "load_sites [] out = Inr out"
| "load_sites ((site, entry) # rest) out =
     (case make_staging_host entry of
        Inr h \<Rightarrow> load_sites rest (dict_set site h out)
      | Inl e \<Rightarrow> Inl (if e = TypeError then ValueError else e))"

text \<open>The file's text, none when there is no such file.\<close>

definition load_staging_hosts :: "string option \<Rightarrow> (string, staging_host) dict res" where
  "load_staging_hosts text =
     (case text of
        None \<Rightarrow> Inr []
      | Some t \<Rightarrow>
          bind_res (json_loads t) (\<lambda>data.
          bind_res (jget data ''sites'') (\<lambda>sites.
          (case jor sites (JObj []) of
             JObj d \<Rightarrow> load_sites d []
           | _ \<Rightarrow> Inl AttributeError))))"

definition staging_host_for :: "string option \<Rightarrow> string \<Rightarrow> staging_host res" where
  "staging_host_for text site =
     bind_res (load_staging_hosts text) (\<lambda>hosts.
       case map_of hosts site of
         Some h \<Rightarrow> Inr h
       | None \<Rightarrow>
           (let declared = join '', '' (sorted_set (keys hosts))
            in Inl (UserError ''UnknownSiteError''
                 (''no staging host for site '' @ site @ '' (declared: ''
                  @ (if declared = [] then ''none'' else declared) @ '')''))))"

section \<open>Command lines\<close>

definition cygwin_path :: "string \<Rightarrow> string" where
  "cygwin_path windows_path =
     (let text = replace_char backslash ''/'' windows_path
      in if 1 < length text \<and> text ! 1 = CHR '':''
         then ''/cygdrive/'' @ lower [text ! 0] @ drop 2 text
         else text)"

definition ssh_spec :: "string \<Rightarrow> string" where
  "ssh_spec identity =
     CYGWIN_SSH @ '' -i '' @ identity @ '' -o BatchMode=yes -o StrictHostKeyChecking=no ''
     @ ''-o UserKnownHostsFile=/dev/null -o LogLevel=ERROR ''
     @ ''-o ServerAliveInterval=30 -o ServerAliveCountMax=10''"

definition ssh_argv :: "staging_host \<Rightarrow> string \<Rightarrow> string \<Rightarrow> string list" where
  "ssh_argv relay identity remote_cmd =
     SSH_EXE # tl (split_ws (ssh_spec identity)) @ [sh_ssh_target relay, remote_cmd]"

definition store_cmd :: "staging_host \<Rightarrow> string list \<Rightarrow> string" where
  "store_cmd relay args = join '' '' ([''python3'', RELAY_STORE_REMOTE, ''--root'', sh_root relay] @ args)"

definition ship_cmd :: string where
  "ship_cmd = ''cat > '' @ RELAY_STORE_REMOTE"

definition rsync_argv :: "staging_host \<Rightarrow> string \<Rightarrow> string \<Rightarrow> string list" where
  "rsync_argv relay identity tmp =
     [RSYNC_EXE, ''-rlt'', ''--no-perms'', ''--no-owner'', ''--no-group'', ''--chmod=D755,F644'', ''-e'',
      ssh_spec identity,
      rev (dropWhile (\<lambda>c. c = CHR 47) (rev (cygwin_path tmp))) @ ''/'',
      sh_ssh_target relay @ '':'' @ sh_root relay @ ''/blobstore/'']"

section \<open>Putting a payload on the relay\<close>

record sync_result =
  sr_ok :: bool
  sr_returncode :: int
  sr_detail :: string

record proc =
  returncode :: int
  p_stdout :: string
  p_stderr :: string

text \<open>This machine's files, the hardlink farm of an upload as (digest, bytes), and the far side.\<close>

record 'r relay_world =
  local_files :: "(string, string) dict"
  farm :: "(string, string) dict"
  remote :: 'r

type_synonym 'r runner = "string list \<Rightarrow> string option \<Rightarrow> ('r relay_world, proc) eff"

text \<open>Where it runs: the identity, the temporary directory and the script that is shipped.\<close>

record relay_config =
  rl_relay :: staging_host
  rl_identity :: string
  rl_tmp :: string
  rl_script :: string

definition failed :: "int \<Rightarrow> string \<Rightarrow> sync_result" where
  "failed status detail = \<lparr>sr_ok = False, sr_returncode = status, sr_detail = detail\<rparr>"

definition tail_of :: "string \<Rightarrow> string" where
  "tail_of err = take 300 (strip err)"

text \<open>\<open>os.link\<close> or, failing that, \<open>shutil.copy2\<close>: the farm gets the file's bytes.\<close>

definition farm_blob :: "string \<times> string \<Rightarrow> ('r relay_world, unit) eff" where
  "farm_blob = (\<lambda>(digest, src).
     bindM (gets (\<lambda>w. map_of (local_files w) src)) (\<lambda>content.
       case content of
         None \<Rightarrow> raise OSError
       | Some bytes \<Rightarrow> modifyM (\<lambda>w. w\<lparr>farm := dict_set digest bytes (farm w)\<rparr>)))"

definition upload_blobs ::
  "'r runner \<Rightarrow> relay_config \<Rightarrow> string list \<Rightarrow> (string, string) dict \<Rightarrow> ('r relay_world, sync_result) eff" where
  "upload_blobs runner cfg missing sources =
     (let by_hash = filter (\<lambda>(d, src). d \<in> set missing) sources in
      if length by_hash \<noteq> length (remdups missing)
      then ret (failed (-1) ''manifest does not name every missing hash'')
      else
        bindM (finallyM
          (seqM (forM by_hash farm_blob)
                (runner (rsync_argv (rl_relay cfg) (rl_identity cfg) (rl_tmp cfg)) None))
          (modifyM (\<lambda>w. w\<lparr>farm := []\<rparr>))) (\<lambda>done_p.
        if returncode done_p \<noteq> 0
        then ret (failed (returncode done_p) (take 400 (''blob upload: '' @ p_stdout done_p @ p_stderr done_p)))
        else ret \<lparr>sr_ok = True, sr_returncode = 0,
                  sr_detail = ''uploaded '' @ nat_str (length by_hash) @ '' blobs''\<rparr>))"

definition missing_of :: "string \<Rightarrow> string list" where
  "missing_of out = remdups (filter (\<lambda>l. l \<noteq> []) (map strip (splitlines out)))"

definition sync_blobs ::
  "'r runner \<Rightarrow> relay_config \<Rightarrow> json \<Rightarrow> (string, string) dict \<Rightarrow> string list \<Rightarrow> ('r relay_world, sync_result) eff" where
  "sync_blobs runner cfg manifest sources final =
     (let ssh = (\<lambda>cmd inp. runner (ssh_argv (rl_relay cfg) (rl_identity cfg) cmd) (Some inp));
          payload = json_dumps manifest
      in
      bindM (ssh ship_cmd (rl_script cfg)) (\<lambda>sent.
      if returncode sent \<noteq> 0
      then ret (failed (returncode sent) (''shipping blobstore.py: '' @ tail_of (p_stderr sent)))
      else
      bindM (ssh (store_cmd (rl_relay cfg) [''want'']) payload) (\<lambda>want.
      if returncode want \<noteq> 0
      then ret (failed (returncode want) (''want: '' @ tail_of (p_stderr want)))
      else
        let missing = missing_of (p_stdout want) in
        bindM (if missing = [] then ret \<lparr>sr_ok = True, sr_returncode = 0, sr_detail = []\<rparr>
               else upload_blobs runner cfg missing sources) (\<lambda>staged.
        if \<not> sr_ok staged then ret staged
        else
        bindM (ssh (store_cmd (rl_relay cfg) final) payload) (\<lambda>done_p.
        if returncode done_p \<noteq> 0
        then ret (failed (returncode done_p) (hd final @ '': '' @ tail_of (p_stderr done_p)))
        else ret \<lparr>sr_ok = True, sr_returncode = 0,
                  sr_detail = ''blobs_sent='' @ nat_str (length missing) @ '' '' @ strip (p_stdout done_p)\<rparr>)))))"

definition local_join :: "string \<Rightarrow> string \<Rightarrow> string" where
  "local_join d p = d @ ''/'' @ p"

definition payload_sources :: "string \<Rightarrow> json list \<Rightarrow> (string, string) dict res" where
  "payload_sources staging_dir entries =
     bind_res (map_res (\<lambda>e. bind_res (entry_str e ''sha256'') (\<lambda>d. bind_res (entry_str e ''path'') (\<lambda>p.
        Inr (d, local_join staging_dir p)))) entries) (\<lambda>ps. Inr (dict_of_pairs ps []))"

definition read_text :: "string \<Rightarrow> ('r relay_world, string) eff" where
  "read_text p = bindM (gets (\<lambda>w. map_of (local_files w) p)) (\<lambda>t.
     case t of None \<Rightarrow> raise OSError | Some t \<Rightarrow> ret t)"

definition sync_payload ::
  "'r runner \<Rightarrow> relay_config \<Rightarrow> string \<Rightarrow> string \<Rightarrow> string \<Rightarrow> ('r relay_world, sync_result) eff" where
  "sync_payload runner cfg manifest_path staging_dir host =
     bindM (read_text manifest_path) (\<lambda>text.
     bindM (liftR (json_loads text)) (\<lambda>manifest.
     bindM (liftR (jget manifest ''files'')) (\<lambda>files.
       case files of
         JList (e # es) \<Rightarrow>
           bindM (liftR (payload_sources staging_dir (e # es))) (\<lambda>sources.
           sync_blobs runner cfg manifest sources [''assemble'', ''--host'', host])
       | _ \<Rightarrow> ret (failed (-1) (manifest_path @ '': no file list to assemble from'')))))"

record snapshot_file =
  sf_path :: string
  sf_sha256 :: string
  sf_size :: int
  sf_source :: string

text \<open>The first file whose bytes are not what it must hash to.\<close>

fun check_sources :: "(string \<Rightarrow> string) \<Rightarrow> (string, string) dict \<Rightarrow> snapshot_file list \<Rightarrow> sync_result option" where
  "check_sources sha files [] = None"
| "check_sources sha files (f # fs) =
     (let actual = (case map_of files (sf_source f) of None \<Rightarrow> ''absent'' | Some b \<Rightarrow> sha b)
      in if actual \<noteq> sf_sha256 f
         then Some (failed (-1) (sf_path f @ '': '' @ sf_source f @ '' is '' @ actual @ '', not '' @ sf_sha256 f))
         else check_sources sha files fs)"

definition snapshot_manifest :: "snapshot_file list \<Rightarrow> json" where
  "snapshot_manifest fs = JObj [(''files'', JList (map (\<lambda>f.
     JObj [(''path'', JStr (sf_path f)), (''size'', JInt (sf_size f)), (''sha256'', JStr (sf_sha256 f))]) fs))]"

definition sync_snapshot ::
  "(string \<Rightarrow> string) \<Rightarrow> 'r runner \<Rightarrow> relay_config \<Rightarrow> string \<Rightarrow> string \<Rightarrow> snapshot_file list
   \<Rightarrow> ('r relay_world, sync_result) eff" where
  "sync_snapshot sha runner cfg kind snapshot_id files =
     bindM (gets (\<lambda>w. check_sources sha (local_files w) files)) (\<lambda>bad.
       case bad of
         Some r \<Rightarrow> ret r
       | None \<Rightarrow>
           sync_blobs runner cfg (snapshot_manifest files)
             (dict_of_pairs (map (\<lambda>f. (sf_sha256 f, sf_source f)) files) [])
             [''snapshot'', ''--kind'', kind, ''--id'', snapshot_id])"

end
