(* ===== verification/Transport_Text.thy ===== *)
theory Transport_Text
  imports Prov_Prelude Py_Json
begin

text \<open>
  The text helpers of \<open>src/server/prov/transport.py\<close>: PowerShell literals, the argument
  list of the pull script, the JSON loaders, user names, durations, and the size of an inline
  command. A path or a file name is the text the source builds; a character outside Latin-1,
  such as a byte order mark, is not represented, so \<open>removeprefix\<close> of one has nothing to do.
\<close>

section \<open>PowerShell literals\<close>

definition apostrophe :: char where "apostrophe = CHR 39"

definition ps_escape :: "string \<Rightarrow> string" where
  "ps_escape s = replace_char apostrophe [apostrophe, apostrophe] s"

definition ps_lit :: "string \<Rightarrow> string" where
  "ps_lit s = apostrophe # ps_escape s @ [apostrophe]"

text \<open>How PowerShell reads a single-quoted literal at the start of a text: two quotes are one,
  a lone quote ends it. The value and the rest of the text.\<close>

fun ps_unquote :: "string \<Rightarrow> (string \<times> string) option" where
  "ps_unquote [] = None"
| "ps_unquote (c # s) =
     (if c = apostrophe
      then (case s of
              d # r \<Rightarrow> if d = apostrophe
                       then map_option (\<lambda>(v, rest). (apostrophe # v, rest)) (ps_unquote r)
                       else Some ([], s)
            | [] \<Rightarrow> Some ([], []))
      else map_option (\<lambda>(v, rest). (c # v, rest)) (ps_unquote s))"

definition ps_read_lit :: "string \<Rightarrow> (string \<times> string) option" where
  "ps_read_lit t = (case t of [] \<Rightarrow> None | c # s \<Rightarrow> if c = apostrophe then ps_unquote s else None)"

definition quoted_rest :: "string \<Rightarrow> bool" where
  "quoted_rest rest \<longleftrightarrow> rest = [] \<or> hd rest \<noteq> apostrophe"

lemma replace_char_append: "replace_char c r (a @ b) = replace_char c r a @ replace_char c r b"
  by (induction a) auto

lemma ps_unquote_escape:
  "quoted_rest rest \<Longrightarrow> ps_unquote (ps_escape s @ apostrophe # rest) = Some (s, rest)"
proof (induction s)
  case Nil
  then show ?case by (cases rest) (auto simp: ps_escape_def quoted_rest_def)
next
  case (Cons c s)
  then show ?case by (cases "c = apostrophe") (simp_all add: ps_escape_def)
qed

lemma ps_read_ps_lit: "quoted_rest rest \<Longrightarrow> ps_read_lit (ps_lit s @ rest) = Some (s, rest)"
  by (simp add: ps_read_lit_def ps_lit_def ps_unquote_escape)

section \<open>The arguments of the pull script\<close>

record pull_args =
  pa_prov_address :: string
  pa_unit_hostname :: string
  pa_smb_user :: string
  pa_smb_pass :: string
  pa_unit_stage :: string
  pa_src_unc :: string
  pa_payload_bytes :: int
  pa_exclude_files :: "string list"
  pa_exclude_dirs :: "string list"

definition pull_staging_args :: "pull_args \<Rightarrow> string" where
  "pull_staging_args a =
     ''-ProvAddress '' @ ps_lit (pa_prov_address a) @ '' ''
     @ ''-UnitHostname '' @ ps_lit (pa_unit_hostname a) @ '' ''
     @ ''-SmbUser '' @ ps_lit (pa_smb_user a) @ '' ''
     @ ''-SmbPass '' @ ps_lit (pa_smb_pass a) @ '' ''
     @ ''-UnitStage '' @ ps_lit (pa_unit_stage a) @ '' ''
     @ ''-SrcUNC '' @ ps_lit (pa_src_unc a) @ '' ''
     @ ''-PayloadBytes '' @ ps_lit (int_str (pa_payload_bytes a)) @ '' ''
     @ ''-ExcludeFiles '' @ ps_lit (join ''|'' (pa_exclude_files a)) @ '' ''
     @ ''-ExcludeDirs '' @ ps_lit (join ''|'' (pa_exclude_dirs a))"

section \<open>JSON loaders\<close>

definition load_json_file :: "string res \<Rightarrow> json res" where
  "load_json_file text = bind_res text json_loads"

definition load_json_object :: "string res \<Rightarrow> (string, json) dict res" where
  "load_json_object text = bind_res (load_json_file text) (\<lambda>v. case v of JObj d \<Rightarrow> Inr d | _ \<Rightarrow> Inl TypeError)"

definition load_json_list :: "string res \<Rightarrow> json list res" where
  "load_json_list text = bind_res (load_json_file text) (\<lambda>v.
     case v of JList xs \<Rightarrow> (if list_all is_dict xs then Inr xs else Inl TypeError) | _ \<Rightarrow> Inl TypeError)"

definition parse_json_text :: "string \<Rightarrow> json res" where
  "parse_json_text text = json_loads text"

section \<open>Names, durations, and the size of an inline command\<close>

definition fmt_mmss :: "nat \<Rightarrow> string" where
  "fmt_mmss seconds =
     (let two = (\<lambda>n. if n < 10 then CHR ''0'' # nat_str n else nat_str n)
      in if seconds < 60 then nat_str seconds @ ''s''
         else two (seconds div 60) @ '':'' @ two (seconds mod 60))"

definition ssh_username :: "string \<Rightarrow> string" where
  "ssh_username raw_user =
     (let u = strip raw_user in
      if startswith [CHR 46, CHR 92] u then drop 2 u
      else if CHR 92 \<in> set u then last (split_on (CHR 92) u)
      else u)"

definition WINRM_ENCODED_CMD_MAX :: nat where "WINRM_ENCODED_CMD_MAX = 8000"

end
