(* ===== verification/Local_Files.thy ===== *)
theory Local_Files
  imports Relay Transport_Text
begin

text \<open>
  The files of the machine the commands run on, in the world of \<open>Relay\<close>: a flat dictionary from a
  path to its bytes, in which writing, renaming and removing succeed and folders need not be made.
\<close>

definition STAGING_HOSTS :: string where "STAGING_HOSTS = ''server/data/staging-hosts.json''"

definition disk_of :: "'r relay_world \<Rightarrow> string \<Rightarrow> string option" where
  "disk_of w p = map_of (local_files w) p"

text \<open>The text of a file, and an \<open>OSError\<close> when there is none.\<close>

definition text_of :: "(string \<Rightarrow> string option) \<Rightarrow> string \<Rightarrow> string res" where
  "text_of disk p = (case disk p of None \<Rightarrow> Inl OSError | Some t \<Rightarrow> Inr t)"

definition dict_del :: "'k \<Rightarrow> ('k, 'v) dict \<Rightarrow> ('k, 'v) dict" where
  "dict_del k d = filter (\<lambda>e. fst e \<noteq> k) d"

definition write_file :: "string \<Rightarrow> string \<Rightarrow> ('r relay_world, unit) eff" where
  "write_file p bytes = modifyM (\<lambda>w. w\<lparr>local_files := dict_set p bytes (local_files w)\<rparr>)"

definition remove_file :: "string \<Rightarrow> ('r relay_world, unit) eff" where
  "remove_file p = modifyM (\<lambda>w. w\<lparr>local_files := dict_del p (local_files w)\<rparr>)"

text \<open>\<open>os.replace\<close>.\<close>

definition replace_file :: "string \<Rightarrow> string \<Rightarrow> ('r relay_world, unit) eff" where
  "replace_file src dst = bindM (read_text src) (\<lambda>bytes. seqM (remove_file src) (write_file dst bytes))"

definition copy_file :: "string \<Rightarrow> string \<Rightarrow> ('r relay_world, unit) eff" where
  "copy_file src dst = bindM (read_text src) (write_file dst)"

lemma map_of_dict_del [dict_simps, simp]: "map_of (dict_del k d) = (map_of d)(k := None)"
  by (induction d) (auto simp: dict_del_def fun_eq_iff)

text \<open>What a file operation leaves on the disk.\<close>

lemma file_ops [simp]:
  "write_file p bytes w = (Inr (), w\<lparr>local_files := dict_set p bytes (local_files w)\<rparr>)"
  "remove_file p w = (Inr (), w\<lparr>local_files := dict_del p (local_files w)\<rparr>)"
  "read_text p w = (case disk_of w p of None \<Rightarrow> (Inl OSError, w) | Some t \<Rightarrow> (Inr t, w))"
  by (simp_all add: write_file_def remove_file_def read_text_def disk_of_def split: option.split)

lemma replace_file_app [simp]:
  "replace_file a b w = (case disk_of w a of None \<Rightarrow> (Inl OSError, w)
     | Some t \<Rightarrow> (Inr (), w\<lparr>local_files := dict_set b t (dict_del a (local_files w))\<rparr>))"
  by (simp add: replace_file_def bindM_def seqM_def split: option.split)

lemma disk_of_simps [simp]:
  "disk_of (w\<lparr>local_files := dict_set p b (local_files w)\<rparr>) = (disk_of w)(p \<mapsto> b)"
  "disk_of (w\<lparr>local_files := dict_del p (local_files w)\<rparr>) = (disk_of w)(p := None)"
  "disk_of (w\<lparr>local_files := dict_set q b (dict_del p (local_files w))\<rparr>) = (disk_of w)(p := None, q \<mapsto> b)"
  "disk_of (w\<lparr>remote := r\<rparr>) = disk_of w"
  by (auto simp: disk_of_def fun_eq_iff)

end
