(* ===== verification/Bootstrap_Payload.thy ===== *)
theory Bootstrap_Payload
  imports Local_Files
begin

text \<open>
  \<open>server/prov/bootstrap_payload.py\<close>: the files a bare unit needs on its bootstrap medium,
  resolved from the repository or the asset cache, checked against the asset index, and staged or
  kept on the relay as a snapshot named by the payload's hash. The digest is a parameter; the files
  are those of this machine in the world of \<open>Relay\<close>. A declared path uses forward slashes.
\<close>

section \<open>Resolving the payload\<close>

definition BOOTSTRAP_PAYLOAD :: string where "BOOTSTRAP_PAYLOAD = ''client/bootstrap-payload.json''"
definition ASSETS :: string where "ASSETS = ''server/data/assets.json''"

abbreviation BootstrapPayloadError :: "string \<Rightarrow> pyexc" where
  "BootstrapPayloadError m \<equiv> UserError ''BootstrapPayloadError'' m"

definition load_declared :: "(string \<Rightarrow> string option) \<Rightarrow> string \<Rightarrow> string list res" where
  "load_declared disk repo =
     bind_res (load_json_object (text_of disk (local_join repo BOOTSTRAP_PAYLOAD))) (\<lambda>d.
     bind_res (jindex (JObj d) ''files'') (\<lambda>files. bind_res (jiter files) (\<lambda>xs. Inr (map py_str xs))))"

text \<open>\<open>row["path"]\<close> as a key: only one that is a string is ever looked up.\<close>

fun index_rows :: "json list \<Rightarrow> (string, json) dict \<Rightarrow> (string, json) dict res" where
  "index_rows [] out = Inr out"
| "index_rows (row # rows) out =
     bind_res (jindex row ''path'') (\<lambda>p.
     bind_res (jindex row ''sha256'') (\<lambda>digest.
       case p of
         JStr k \<Rightarrow> index_rows rows (dict_set k digest out)
       | JList xs \<Rightarrow> Inl TypeError
       | JObj d \<Rightarrow> Inl TypeError
       | _ \<Rightarrow> index_rows rows out))"

definition indexed_assets :: "(string \<Rightarrow> string option) \<Rightarrow> string \<Rightarrow> (string, json) dict res" where
  "indexed_assets disk repo =
     bind_res (load_json_object (text_of disk (local_join repo ASSETS))) (\<lambda>d.
     bind_res (jindex (JObj d) ''files'') (\<lambda>files. bind_res (jiter files) (\<lambda>rows. index_rows rows [])))"

text \<open>\<open>Path(rel).name\<close>: the last component that is neither empty nor a dot.\<close>

definition leaf_name :: "string \<Rightarrow> string" where
  "leaf_name rel =
     (case filter (\<lambda>c. c \<noteq> [] \<and> c \<noteq> ''.'') (split_on (CHR ''/'') rel) of [] \<Rightarrow> [] | cs \<Rightarrow> last cs)"

definition resolve_source :: "(string \<Rightarrow> string option) \<Rightarrow> string \<Rightarrow> string \<Rightarrow> string \<Rightarrow> string" where
  "resolve_source disk repo cache rel =
     (if disk (local_join repo rel) \<noteq> None then local_join repo rel else local_join cache rel)"

definition payload_file :: "(string \<Rightarrow> string) \<Rightarrow> (string \<Rightarrow> string option) \<Rightarrow> string \<Rightarrow> string
    \<Rightarrow> (string, json) dict \<Rightarrow> string \<Rightarrow> snapshot_file res" where
  "payload_file sha disk repo cache indexed rel =
     (let source = resolve_source disk repo cache rel; leaf = leaf_name rel in
      case disk source of
        None \<Rightarrow> Inl (BootstrapPayloadError (rel @ '' is in neither the repo nor the asset cache; run tools/fetch-assets.sh''))
      | Some bytes \<Rightarrow>
          (let digest = sha bytes in
           case map_of indexed rel of
             Some want \<Rightarrow>
               (if JStr digest \<noteq> want
                then Inl (BootstrapPayloadError (source @ '' hashes to '' @ digest @ '', not the indexed '' @ py_str want @ '' for '' @ leaf))
                else Inr \<lparr>sf_path = leaf, sf_sha256 = digest, sf_size = int (length bytes), sf_source = source\<rparr>)
           | None \<Rightarrow> Inr \<lparr>sf_path = leaf, sf_sha256 = digest, sf_size = int (length bytes), sf_source = source\<rparr>))"

fun collect_files :: "(string \<Rightarrow> string) \<Rightarrow> (string \<Rightarrow> string option) \<Rightarrow> string \<Rightarrow> string \<Rightarrow> (string, json) dict
    \<Rightarrow> string list \<Rightarrow> string list \<Rightarrow> snapshot_file list res" where
  "collect_files sha disk repo cache indexed [] seen = Inr []"
| "collect_files sha disk repo cache indexed (rel # rels) seen =
     (if leaf_name rel \<in> set seen
      then Inl (BootstrapPayloadError (''two bootstrap payload files are named '' @ leaf_name rel @ ''; the payload is flat''))
      else bind_res (payload_file sha disk repo cache indexed rel) (\<lambda>f.
           bind_res (collect_files sha disk repo cache indexed rels (leaf_name rel # seen)) (\<lambda>fs. Inr (f # fs))))"

definition payload_files :: "(string \<Rightarrow> string) \<Rightarrow> (string \<Rightarrow> string option) \<Rightarrow> string \<Rightarrow> string
    \<Rightarrow> snapshot_file list res" where
  "payload_files sha disk repo cache =
     bind_res (indexed_assets disk repo) (\<lambda>indexed.
     bind_res (load_declared disk repo) (\<lambda>rels. collect_files sha disk repo cache indexed rels []))"

definition payload_line :: "snapshot_file \<Rightarrow> string" where
  "payload_line f = sf_sha256 f @ ''  '' @ sf_path f"

definition payload_hash :: "(string \<Rightarrow> string) \<Rightarrow> snapshot_file list \<Rightarrow> string" where
  "payload_hash sha files = sha (join [CHR 10] (sort (map payload_line files)))"

section \<open>Staging and the command\<close>

definition stage :: "snapshot_file list \<Rightarrow> string \<Rightarrow> ('r relay_world, unit) eff" where
  "stage files out = forM files (\<lambda>f. copy_file (sf_source f) (local_join out (sf_path f)))"

datatype bootstrap_cmd = StageTo string | SnapshotAt string

definition is_declared_error :: "pyexc \<Rightarrow> bool" where
  "is_declared_error e \<longleftrightarrow> (\<exists>m. e = BootstrapPayloadError m) \<or> (\<exists>m. e = UserError ''UnknownSiteError'' m)"

text \<open>The exit status; what is printed is left out.\<close>

definition bootstrap_main :: "(string \<Rightarrow> string) \<Rightarrow> 'r runner \<Rightarrow> relay_config \<Rightarrow> string \<Rightarrow> string \<Rightarrow> bootstrap_cmd
    \<Rightarrow> ('r relay_world, int) eff" where
  "bootstrap_main sha runner cfg repo cache cmd =
     bindM (catchM
       (bindM (gets disk_of) (\<lambda>disk.
        bindM (case cmd of
                 SnapshotAt site \<Rightarrow> bindM (liftR (staging_host_for (disk (local_join repo STAGING_HOSTS)) site)) (\<lambda>h. ret (Some h))
               | StageTo out \<Rightarrow> ret None) (\<lambda>site.
        bindM (liftR (payload_files sha disk repo cache)) (\<lambda>files. ret (Some (site, files))))))
       (\<lambda>e. if is_declared_error e then ret None else raise e)) (\<lambda>found.
     case found of
       None \<Rightarrow> ret 1
     | Some (site, files) \<Rightarrow>
         (case (site, cmd) of
            (None, StageTo out) \<Rightarrow> seqM (stage files out) (ret 0)
          | (Some host, _) \<Rightarrow>
              bindM (sync_snapshot sha runner (cfg\<lparr>rl_relay := host\<rparr>) ''bootstrap-payload'' (payload_hash sha files) files)
                (\<lambda>result. ret (if sr_ok result then 0 else 1))
          | _ \<Rightarrow> ret 0))"

section \<open>Properties\<close>

lemma payload_file_Inr:
  assumes "payload_file sha disk repo cache indexed rel = Inr f"
  shows "sf_path f = leaf_name rel \<and> sf_source f = resolve_source disk repo cache rel
    \<and> (\<exists>bytes. disk (sf_source f) = Some bytes \<and> sf_sha256 f = sha bytes \<and> sf_size f = int (length bytes))
    \<and> (\<forall>want. map_of indexed rel = Some want \<longrightarrow> want = JStr (sf_sha256 f))"
  using assms by (auto simp: payload_file_def Let_def split: option.splits if_splits)

lemma collect_files_Inr:
  assumes "collect_files sha disk repo cache indexed rels seen = Inr fs"
  shows "list_all2 (\<lambda>rel f. payload_file sha disk repo cache indexed rel = Inr f) rels fs"
    and "distinct (map sf_path fs) \<and> set (map sf_path fs) \<inter> set seen = {}"
proof -
  show "list_all2 (\<lambda>rel f. payload_file sha disk repo cache indexed rel = Inr f) rels fs"
    using assms by (induction rels arbitrary: seen fs) (auto simp: bind_res_Inr_iff split: if_splits)
  show "distinct (map sf_path fs) \<and> set (map sf_path fs) \<inter> set seen = {}"
    using assms
  proof (induction rels arbitrary: seen fs)
    case (Cons rel rels)
    then obtain f gs where f: "leaf_name rel \<notin> set seen" "payload_file sha disk repo cache indexed rel = Inr f"
      and gs: "collect_files sha disk repo cache indexed rels (leaf_name rel # seen) = Inr gs" "fs = f # gs"
      by (auto simp: bind_res_Inr_iff split: if_splits)
    from Cons.IH [OF gs(1)] f payload_file_Inr [OF f(2)] gs(2) show ?case by auto
  qed simp
qed

lemma check_sources_matching:
  "\<forall>f\<in>set files. \<exists>bytes. map_of fs (sf_source f) = Some bytes \<and> sf_sha256 f = sha bytes
     \<Longrightarrow> check_sources sha fs files = None"
  by (induction files) auto

lemma payload_files_Inr:
  assumes "payload_files sha disk repo cache = Inr files"
  obtains indexed rels where "indexed_assets disk repo = Inr indexed" "load_declared disk repo = Inr rels"
    "collect_files sha disk repo cache indexed rels [] = Inr files"
  using assms by (auto simp: payload_files_def bind_res_Inr_iff)

lemma stage_copies:
  assumes "distinct (map sf_path files)"
    and "\<forall>f\<in>set files. map_of (local_files w) (sf_source f) = Some (bytes f)"
    and "\<forall>f\<in>set files. \<forall>g\<in>set files. sf_source f \<noteq> local_join out (sf_path g)"
  shows "\<exists>w'. stage files out w = (Inr (), w')
     \<and> (\<forall>f\<in>set files. map_of (local_files w') (local_join out (sf_path f)) = Some (bytes f))
     \<and> (\<forall>p. p \<notin> (\<lambda>f. local_join out (sf_path f)) ` set files \<longrightarrow> map_of (local_files w') p = map_of (local_files w) p)"
  using assms
proof (induction files arbitrary: w)
  case (Cons f files)
  let ?dst = "\<lambda>g. local_join out (sf_path g)"
  let ?w1 = "w\<lparr>local_files := dict_set (?dst f) (bytes f) (local_files w)\<rparr>"
  have first: "copy_file (sf_source f) (?dst f) w = (Inr (), ?w1)"
    using Cons.prems(2) by (simp add: copy_file_def bindM_def disk_of_def)
  have new: "?dst g \<noteq> ?dst f" if "g \<in> set files" for g
    using that Cons.prems(1) by (auto simp: local_join_def image_iff)
  have kept: "\<forall>g\<in>set files. map_of (local_files ?w1) (sf_source g) = Some (bytes g)"
    using Cons.prems(2,3) by simp
  have tail: "distinct (map sf_path files)"
      "\<forall>g\<in>set files. \<forall>h\<in>set files. sf_source g \<noteq> ?dst h"
    using Cons.prems(1,3) by simp_all
  from Cons.IH [OF tail(1) kept tail(2)] obtain w' where w': "stage files out ?w1 = (Inr (), w')"
      "\<forall>g\<in>set files. map_of (local_files w') (?dst g) = Some (bytes g)"
      "\<forall>p. p \<notin> ?dst ` set files \<longrightarrow> map_of (local_files w') p = map_of (local_files ?w1) p"
    by blast
  have "?dst f \<notin> ?dst ` set files" using new by (auto simp: image_iff) metis
  then have "map_of (local_files w') (?dst f) = Some (bytes f)" using w'(3) by simp
  moreover have "stage (f # files) out w = (Inr (), w')"
    using first w'(1) by (simp add: stage_def seqM_def bindM_def)
  ultimately show ?case using w'(2,3) by (intro exI [of _ w']) auto
qed (simp add: stage_def)


definition ex_stick_world :: "unit relay_world" where
  "ex_stick_world = \<lparr>local_files =
     [(''r/client/bootstrap-payload.json'', json_dumps (JObj [(''files'', JList [JStr ''client/a'', JStr ''client/assets/n.exe''])])),
      (''r/server/data/assets.json'', json_dumps (JObj [(''files'',
         JList [JObj [(''path'', JStr ''client/assets/n.exe''), (''sha256'', JStr ''3'')]])])),
      (''r/client/a'', ''AA''), (''c/client/assets/n.exe'', ''NNN'')], farm = [], remote = ()\<rparr>"


end
