(* ===== verification/Drift.thy ===== *)
theory Drift
  imports Py_Json
begin

text \<open>
  \<open>server/prov/drift.py\<close>: the per-module verdict of a unit's installed manifest against the
  payload's build manifest, and the set of modules to run. The documents are JSON values,
  because \<open>classify\<close> reads them as they come: every shape the code does not expect is the
  exception it raises.
\<close>

section \<open>Data\<close>

datatype module_state = UpToDate | NeedsUpdate | Missing | ExtraModule | NeedsRepair

fun state_value :: "module_state \<Rightarrow> string" where
  "state_value UpToDate = ''up-to-date''"
| "state_value NeedsUpdate = ''needs-update''"
| "state_value Missing = ''missing''"
| "state_value ExtraModule = ''extra''"
| "state_value NeedsRepair = ''needs-repair''"

definition ACTIONABLE :: "module_state set" where
  "ACTIONABLE = {NeedsUpdate, Missing, NeedsRepair}"

record module_drift =
  md_name :: string
  md_state :: module_state
  installed_version :: "string option"
  built_version :: "string option"
  installed_hash :: "string option"
  built_hash :: "string option"
  md_provide :: "string option"
  md_verify :: "string option"

definition actionable :: "module_drift \<Rightarrow> bool" where
  "actionable m \<longleftrightarrow> md_state m \<in> ACTIONABLE"

lemma ACTIONABLE_iff [simp]: "s \<in> ACTIONABLE \<longleftrightarrow> s \<noteq> UpToDate \<and> s \<noteq> ExtraModule"
  by (cases s) (auto simp: ACTIONABLE_def)

record drift_report =
  dr_modules :: "module_drift list"
  dr_always :: "string set"

section \<open>The report\<close>

definition drifted :: "drift_report \<Rightarrow> string list" where
  "drifted r = map md_name (filter actionable (dr_modules r))"

definition targets :: "drift_report \<Rightarrow> string list" where
  "targets r =
     (let d = drifted r in
        if d = [] then []
        else
          (let wanted = set d \<union> {md_name m | m. m \<in> set (dr_modules r) \<and> md_name m \<in> dr_always r
                                                  \<and> md_state m \<noteq> ExtraModule}
           in map md_name (filter (\<lambda>m. md_name m \<in> wanted) (dr_modules r))))"

definition report_current :: "drift_report \<Rightarrow> bool" where
  "report_current r \<longleftrightarrow> targets r = []"

definition by_state :: "drift_report \<Rightarrow> module_state \<Rightarrow> string list" where
  "by_state r s = map md_name (filter (\<lambda>m. md_state m = s) (dr_modules r))"

definition summary :: "drift_report \<Rightarrow> string" where
  "summary r =
     (let counts = foldl (\<lambda>c m. let k = state_value (md_state m) in
                            dict_set k (case map_of c k of None \<Rightarrow> 1 | Some n \<Rightarrow> n + 1) c)
                     [] (dr_modules r)
      in join '' '' (map (\<lambda>k. k @ ''='' @ int_str (case map_of counts k of None \<Rightarrow> 0 | Some n \<Rightarrow> n))
                       (sort (keys counts))))"

text \<open>An executable form of \<open>targets\<close>: the comprehension over the modules as a filter.\<close>

lemma targets_code [code]:
  "targets r =
     (let d = drifted r in
        if d = [] then []
        else
          (let wanted = d @ map md_name (filter (\<lambda>m. md_name m \<in> dr_always r \<and> md_state m \<noteq> ExtraModule)
                                            (dr_modules r))
           in filter (\<lambda>n. n \<in> set wanted) (map md_name (dr_modules r))))"
proof -
  have "set (map md_name (filter (\<lambda>m. md_name m \<in> dr_always r \<and> md_state m \<noteq> ExtraModule) (dr_modules r)))
      = {md_name m | m. m \<in> set (dr_modules r) \<and> md_name m \<in> dr_always r \<and> md_state m \<noteq> ExtraModule}"
    by auto
  then show ?thesis
    by (auto simp: targets_def Let_def filter_map comp_def)
qed

section \<open>Timestamps\<close>

text \<open>
  \<open>datetime.strptime(value, "%Y-%m-%dT%H:%M:%SZ")\<close>: the fields in order, one or two digits
  where the directive takes one or two (a day may also be a space and a digit), letters in
  either case, and a date that exists. The result is the field list, whose lexicographic
  order is the order of the datetimes; every such time is UTC.
\<close>

fun take_until :: "(char \<Rightarrow> bool) \<Rightarrow> string \<Rightarrow> (string \<times> string) option" where
  "take_until p [] = None"
| "take_until p (c # s) =
     (if p c then Some ([], s) else map_option (\<lambda>(a, b). (c # a, b)) (take_until p s))"

definition two_digits :: "string \<Rightarrow> nat option" where
  "two_digits s = (if all_digits s \<and> length s \<le> 2 then Some (digits_val s) else None)"

definition leap :: "nat \<Rightarrow> bool" where
  "leap y \<longleftrightarrow> y mod 4 = 0 \<and> (y mod 100 \<noteq> 0 \<or> y mod 400 = 0)"

definition days_in_month :: "nat \<Rightarrow> nat \<Rightarrow> nat" where
  "days_in_month y m =
     (if m = 2 then (if leap y then 29 else 28) else if m \<in> {4, 6, 9, 11} then 30 else 31)"

definition day_field :: "string \<Rightarrow> nat option" where
  "day_field s =
     (case s of
        [a, b] \<Rightarrow> (if a = CHR '' '' \<and> is_digit b \<and> b \<noteq> CHR ''0'' then Some (digit_val b) else two_digits s)
      | _ \<Rightarrow> two_digits s)"

definition mk_datetime :: "string \<Rightarrow> string \<Rightarrow> string \<Rightarrow> string \<Rightarrow> string \<Rightarrow> string \<Rightarrow> nat list option" where
  "mk_datetime ys ms ds hs mins ss =
     (if \<not> (all_digits ys \<and> length ys = 4) then None
      else
        (case (two_digits ms, day_field ds, two_digits hs, two_digits mins, two_digits ss) of
           (Some m, Some d, Some h, Some mi, Some s) \<Rightarrow>
             (let y = digits_val ys in
                if 1 \<le> y \<and> 1 \<le> m \<and> m \<le> 12 \<and> 1 \<le> d \<and> d \<le> days_in_month y m
                   \<and> h \<le> 23 \<and> mi \<le> 59 \<and> s \<le> 59
                then Some [y, m, d, h, mi, s] else None)
         | _ \<Rightarrow> None))"

definition strptime_utc :: "string \<Rightarrow> nat list option" where
  "strptime_utc v =
     (case take_until (\<lambda>c. c = CHR ''-'') v of
        None \<Rightarrow> None
      | Some (ys, r1) \<Rightarrow>
          (case take_until (\<lambda>c. c = CHR ''-'') r1 of
             None \<Rightarrow> None
           | Some (ms, r2) \<Rightarrow>
               (case take_until (\<lambda>c. c = CHR ''T'' \<or> c = CHR ''t'') r2 of
                  None \<Rightarrow> None
                | Some (ds, r3) \<Rightarrow>
                    (case take_until (\<lambda>c. c = CHR '':'') r3 of
                       None \<Rightarrow> None
                     | Some (hs, r4) \<Rightarrow>
                         (case take_until (\<lambda>c. c = CHR '':'') r4 of
                            None \<Rightarrow> None
                          | Some (mins, r5) \<Rightarrow>
                              (case take_until (\<lambda>c. c = CHR ''Z'' \<or> c = CHR ''z'') r5 of
                                 None \<Rightarrow> None
                               | Some (ss, r6) \<Rightarrow>
                                   (if r6 = [] then mk_datetime ys ms ds hs mins ss else None)))))))"

text \<open>\<open>_parse_ts\<close>: a value that is not a string raises \<open>TypeError\<close>, which is not caught.\<close>

fun parse_ts :: "json \<Rightarrow> nat list option res" where
  "parse_ts (JStr s) = Inr (if s = [] then None else strptime_utc s)"
| "parse_ts v = (if truthy v then Inl TypeError else Inr None)"

definition validation_is_stale :: "nat list option \<Rightarrow> string option \<Rightarrow> bool" where
  "validation_is_stale checked_at installed_at =
     (case (checked_at, case installed_at of None \<Rightarrow> None
                        | Some s \<Rightarrow> if s = [] then None else strptime_utc s) of
        (Some c, Some i) \<Rightarrow> c < i
      | _ \<Rightarrow> False)"

fun entry_field :: "json \<Rightarrow> string \<Rightarrow> string option" where
  "entry_field (JObj d) f =
     (case map_of d f of None \<Rightarrow> None | Some v \<Rightarrow> (if v = JNull then None else Some (py_str v)))"
| "entry_field _ f = None"

section \<open>The classification\<close>

definition unknown_outcomes :: "string option set" where
  "unknown_outcomes = {Some ''fail'', Some ''skipped''}"

text \<open>
  The state of a module the unit has an entry for. \<open>live\<close> is the tier-2 report's module
  map, read only when the hash comparison passes.
\<close>

definition module_verdict ::
    "json \<Rightarrow> nat list option \<Rightarrow> string \<Rightarrow> json \<Rightarrow> string option \<Rightarrow> module_state res" where
  "module_verdict live checked_at name entry built =
     (let inst_hash = entry_field entry ''hash'';
          failed = (entry_field entry ''provide'' \<in> unknown_outcomes
                    \<or> entry_field entry ''verify'' \<in> unknown_outcomes)
      in if failed \<or> inst_hash = None \<or> inst_hash = Some [] \<or> inst_hash \<noteq> built
         then Inr NeedsUpdate
         else bind_res (jget_default live name (JStr []))
                (\<lambda>v. Inr (if lower (py_str v) = ''fail''
                            \<and> \<not> validation_is_stale checked_at (entry_field entry ''installed_at'')
                         then NeedsRepair else UpToDate)))"

definition classify_built ::
    "(string, json) dict \<Rightarrow> json \<Rightarrow> json \<Rightarrow> nat list option \<Rightarrow> string \<Rightarrow> module_drift res" where
  "classify_built installed_modules build_state live checked_at name =
     bind_res (jget build_state name) (\<lambda>b.
       (let built = jor b (JObj []);
            bhash = entry_field built ''hash'';
            bversion = entry_field built ''version'';
            entry = (case map_of installed_modules name of None \<Rightarrow> JNull | Some e \<Rightarrow> e)
        in if entry = JNull
           then Inr \<lparr>md_name = name, md_state = Missing, installed_version = None,
                     built_version = bversion, installed_hash = None, built_hash = bhash,
                     md_provide = None, md_verify = None\<rparr>
           else bind_res (module_verdict live checked_at name entry bhash)
                  (\<lambda>st. Inr \<lparr>md_name = name, md_state = st,
                     installed_version = entry_field entry ''version'', built_version = bversion,
                     installed_hash = entry_field entry ''hash'', built_hash = bhash,
                     md_provide = entry_field entry ''provide'',
                     md_verify = entry_field entry ''verify''\<rparr>)))"

definition extra_module :: "(string, json) dict \<Rightarrow> string \<Rightarrow> module_drift" where
  "extra_module installed_modules name =
     (let entry = (case map_of installed_modules name of None \<Rightarrow> JNull | Some e \<Rightarrow> e)
      in \<lparr>md_name = name, md_state = ExtraModule, installed_version = entry_field entry ''version'',
          built_version = None, installed_hash = entry_field entry ''hash'', built_hash = None,
          md_provide = entry_field entry ''provide'', md_verify = entry_field entry ''verify''\<rparr>)"

text \<open>The installed manifest's module map; a legacy list of names counts as no map.\<close>

definition recorded_modules :: "json \<Rightarrow> (string, json) dict res" where
  "recorded_modules installed =
     (if truthy installed
      then bind_res (jget installed ''modules'')
             (\<lambda>r. Inr (case r of JObj d \<Rightarrow> d | _ \<Rightarrow> []))
      else Inr [])"

definition str_list :: "json \<Rightarrow> string list res" where
  "str_list v = bind_res (jiter (jor v (JList []))) (\<lambda>xs. Inr (map py_str xs))"

text \<open>The tier-2 report: its module map and when it was written; an absent report is an empty
  map of unknown age.\<close>

definition validation_view :: "json \<Rightarrow> (json \<times> nat list option) res" where
  "validation_view validation =
     (if truthy validation
      then bind_res (jget validation ''modules'') (\<lambda>ms.
           bind_res (jget validation ''checked_at'') (\<lambda>c.
           bind_res (parse_ts c) (\<lambda>t. Inr (jor ms (JObj []), t))))
      else Inr (JObj [], None))"

definition classify :: "json \<Rightarrow> json \<Rightarrow> json \<Rightarrow> drift_report res" where
  "classify installed build validation =
     bind_res (validation_view validation) (\<lambda>(live, checked_at).
     bind_res (jget build ''module_state'') (\<lambda>ms.
     bind_res (bind_res (jget build ''modules'') str_list) (\<lambda>build_modules.
     bind_res (bind_res (jget build ''always_modules'') str_list) (\<lambda>always.
     bind_res (recorded_modules installed) (\<lambda>installed_modules.
     bind_res (map_res (classify_built installed_modules (jor ms (JObj [])) live checked_at) build_modules)
       (\<lambda>out. Inr \<lparr>dr_modules = out @ map (extra_module installed_modules)
                       (sorted_set (filter (\<lambda>n. n \<notin> set build_modules) (keys installed_modules))),
                 dr_always = set always\<rparr>))))))"

section \<open>The shape of a report\<close>

lemma names_map_extra [simp]: "map md_name (map (extra_module d) ns) = ns"
  by (induction ns) (auto simp: extra_module_def Let_def)

lemma extra_module_state [simp]: "md_state (extra_module d n) = ExtraModule"
  by (simp add: extra_module_def Let_def)

lemma extra_module_name [simp]: "md_name (extra_module d n) = n"
  by (simp add: extra_module_def Let_def)

lemma module_verdict_not_extra:
  "module_verdict live c n e b = Inr st \<Longrightarrow> st \<noteq> ExtraModule \<and> st \<noteq> Missing"
  by (auto simp: module_verdict_def Let_def bind_res_Inr_iff split: if_splits)

lemma classify_built_name:
  "classify_built d ms live c n = Inr m \<Longrightarrow> md_name m = n \<and> md_state m \<noteq> ExtraModule"
  by (auto simp: classify_built_def Let_def bind_res_Inr_iff
           dest: module_verdict_not_extra split: if_splits)

text \<open>
  A successful classification: one verdict per build module, in build order, followed by the
  modules only the unit records.
\<close>

definition extras :: "(string, json) dict \<Rightarrow> string list \<Rightarrow> string list" where
  "extras d bm = sorted_set (filter (\<lambda>n. n \<notin> set bm) (keys d))"

lemma classify_cases:
  assumes "classify installed build validation = Inr r"
  obtains bm d ms live c out al where
    "bind_res (jget build ''modules'') str_list = Inr bm"
    "recorded_modules installed = Inr d"
    "jget build ''module_state'' = Inr ms"
    "map_res (classify_built d (jor ms (JObj [])) live c) bm = Inr out"
    "r = \<lparr>dr_modules = out @ map (extra_module d) (extras d bm), dr_always = set al\<rparr>"
    "bind_res (jget build ''always_modules'') str_list = Inr al"
    "validation_view validation = Inr (live, c)"
proof -
  from assms that show ?thesis
    unfolding classify_def extras_def
    by (auto simp: bind_res_Inr_iff split: prod.splits if_splits)
qed

lemma map_res_classify_names:
  assumes "map_res (classify_built d ms live c) bm = Inr out"
  shows "map md_name out = bm" and "\<forall>m \<in> set out. md_state m \<noteq> ExtraModule"
proof -
  from assms have "list_all2 (\<lambda>n m. classify_built d ms live c n = Inr m) bm out"
    by (simp add: map_res_Inr_iff)
  then have "map md_name out = bm \<and> (\<forall>m \<in> set out. md_state m \<noteq> ExtraModule)"
    by (induction rule: list_all2_induct) (auto dest: classify_built_name)
  then show "map md_name out = bm" and "\<forall>m \<in> set out. md_state m \<noteq> ExtraModule" by auto
qed

lemma filter_actionable_extras [simp]: "filter actionable (map (extra_module d) ns) = []"
  by (auto simp: filter_empty_conv actionable_def)

text \<open>The names \<open>targets\<close> keeps, as a filter over the build's own list.\<close>

lemma targets_eq_filter:
  assumes "classify installed build validation = Inr r"
    and "bind_res (jget build ''modules'') str_list = Inr bm"
  shows "targets r =
     (if drifted r = [] then []
      else filter (\<lambda>n. n \<in> set (drifted r) \<or> n \<in> dr_always r) bm)"
    and "set (drifted r) \<subseteq> set bm"
proof -
  from assms obtain d ms live c out al where
    out: "map_res (classify_built d (jor ms (JObj [])) live c) bm = Inr out" and
    r: "r = \<lparr>dr_modules = out @ map (extra_module d) (extras d bm), dr_always = set al\<rparr>"
    by (elim classify_cases) auto
  note nm = map_res_classify_names [OF out]
  have ex: "set (extras d bm) \<inter> set bm = {}" by (auto simp: extras_def)
  have dr: "drifted r = map md_name (filter actionable out)"
    by (simp add: r drifted_def del: filter_map)
  then show sub: "set (drifted r) \<subseteq> set bm" using nm(1) by auto
  let ?wanted = "set (drifted r) \<union> {md_name m | m. m \<in> set (dr_modules r) \<and> md_name m \<in> dr_always r
                                                  \<and> md_state m \<noteq> ExtraModule}"
  have w: "?wanted = set (drifted r) \<union> (dr_always r \<inter> set bm)"
    using nm by (fastforce simp: r)
  have "map md_name (filter (\<lambda>m. md_name m \<in> ?wanted) (dr_modules r))
      = filter (\<lambda>n. n \<in> ?wanted) (map md_name (dr_modules r))"
    by (simp add: filter_map comp_def)
  also have "map md_name (dr_modules r) = bm @ extras d bm"
    using nm(1) by (simp add: r comp_def)
  also have "filter (\<lambda>n. n \<in> ?wanted) (bm @ extras d bm) = filter (\<lambda>n. n \<in> ?wanted) bm"
    using sub ex unfolding w by (auto simp: filter_empty_conv)
  also have "\<dots> = filter (\<lambda>n. n \<in> set (drifted r) \<or> n \<in> dr_always r) bm"
    unfolding w by (rule filter_cong) auto
  finally show "targets r =
     (if drifted r = [] then []
      else filter (\<lambda>n. n \<in> set (drifted r) \<or> n \<in> dr_always r) bm)"
    by (simp add: targets_def Let_def)
qed

lemma report_current_drifted:
  assumes "classify installed build validation = Inr r"
    and "bind_res (jget build ''modules'') str_list = Inr bm"
  shows "report_current r \<longleftrightarrow> drifted r = []"
proof (cases "drifted r")
  case Nil
  with targets_eq_filter(1) [OF assms] show ?thesis by (simp add: report_current_def)
next
  case (Cons n ns)
  with targets_eq_filter [OF assms] have "n \<in> set (targets r)" by auto
  with Cons show ?thesis by (auto simp: report_current_def)
qed

text \<open>\<open>targets\<close> lists modules in the order of the build and runs only modules the build
  ships: it is the build's module list filtered, every drifted module is in it, everything
  else in it is an always-module, and once anything drifted every always-module the build
  ships rides along. The report is current exactly when nothing drifted.\<close>

theorem targets_build_order:
  assumes "classify installed build validation = Inr r"
    and "bind_res (jget build ''modules'') str_list = Inr bm"
  shows "subseq (targets r) bm
    \<and> set (drifted r) \<subseteq> set (targets r)
    \<and> set (targets r) \<subseteq> set (drifted r) \<union> dr_always r
    \<and> (drifted r \<noteq> [] \<longrightarrow> dr_always r \<inter> set bm \<subseteq> set (targets r))
    \<and> (report_current r \<longleftrightarrow> drifted r = [])"
proof -
  note t = targets_eq_filter [OF assms]
  have "subseq (targets r) bm" by (simp add: t(1) subseq_filter)
  moreover have "set (drifted r) \<subseteq> set (targets r)" using t by auto
  moreover have "targets r = [] \<longleftrightarrow> drifted r = []"
    using t(2) \<open>set (drifted r) \<subseteq> set (targets r)\<close> by (auto simp: t(1))
  ultimately show ?thesis using t by (auto simp: report_current_def split: if_splits)
qed

section \<open>When nothing is left to run\<close>

definition live_fails :: "json \<Rightarrow> string \<Rightarrow> bool" where
  "live_fails live n \<longleftrightarrow>
     (case jget_default live n (JStr []) of Inl _ \<Rightarrow> False | Inr v \<Rightarrow> lower (py_str v) = ''fail'')"

definition built_hash_of :: "json \<Rightarrow> string \<Rightarrow> string option" where
  "built_hash_of ms n =
     (case jget (jor ms (JObj [])) n of Inl _ \<Rightarrow> None | Inr b \<Rightarrow> entry_field (jor b (JObj [])) ''hash'')"

text \<open>A recorded module needs nothing: it was installed from this build's bytes, cleanly, and
  its live check has not failed since.\<close>

definition settled :: "(string, json) dict \<Rightarrow> json \<Rightarrow> json \<Rightarrow> nat list option \<Rightarrow> string \<Rightarrow> bool" where
  "settled d ms live c n \<longleftrightarrow>
     (case map_of d n of
        None \<Rightarrow> False
      | Some e \<Rightarrow> e \<noteq> JNull
          \<and> entry_field e ''provide'' \<notin> unknown_outcomes \<and> entry_field e ''verify'' \<notin> unknown_outcomes
          \<and> entry_field e ''hash'' \<notin> {None, Some []} \<and> entry_field e ''hash'' = built_hash_of ms n
          \<and> (live_fails live n \<longrightarrow> validation_is_stale c (entry_field e ''installed_at'')))"

lemma module_verdict_actionable:
  assumes "module_verdict live c n e built = Inr st"
  shows "(st \<noteq> UpToDate \<and> st \<noteq> ExtraModule) \<longleftrightarrow>
    \<not> (entry_field e ''provide'' \<notin> unknown_outcomes \<and> entry_field e ''verify'' \<notin> unknown_outcomes
       \<and> entry_field e ''hash'' \<notin> {None, Some []} \<and> entry_field e ''hash'' = built
       \<and> (live_fails live n \<longrightarrow> validation_is_stale c (entry_field e ''installed_at'')))"
proof (cases "jget_default live n (JStr [])")
  case (Inl x)
  with assms show ?thesis
    by (auto simp: module_verdict_def Let_def live_fails_def split: if_splits)
next
  case (Inr v)
  with assms show ?thesis
    by (auto simp: module_verdict_def Let_def live_fails_def split: if_splits)
qed

lemma classify_built_settled:
  assumes "classify_built d (jor ms (JObj [])) live c n = Inr m"
  shows "actionable m \<longleftrightarrow> \<not> settled d ms live c n"
proof -
  from assms obtain b where b: "jget (jor ms (JObj [])) n = Inr b"
    by (auto simp: classify_built_def bind_res_Inr_iff)
  then have h: "built_hash_of ms n = entry_field (jor b (JObj [])) ''hash''"
    by (simp add: built_hash_of_def)
  show ?thesis
  proof (cases "map_of d n = None \<or> map_of d n = Some JNull")
    case True
    with assms b show ?thesis
      by (auto simp: classify_built_def settled_def actionable_def Let_def)
  next
    case False
    then obtain e where e: "map_of d n = Some e" "e \<noteq> JNull" by auto
    with assms b obtain st where
      "module_verdict live c n e (built_hash_of ms n) = Inr st" "md_state m = st"
      by (auto simp: classify_built_def Let_def bind_res_Inr_iff h)
    with e show ?thesis
      by (auto simp: settled_def actionable_def module_verdict_actionable)
  qed
qed

lemma report_current_settled:
  assumes "classify installed build validation = Inr r"
    and "bind_res (jget build ''modules'') str_list = Inr bm"
    and "recorded_modules installed = Inr d"
    and "jget build ''module_state'' = Inr ms"
    and "validation_view validation = Inr (live, c)"
  shows "report_current r \<longleftrightarrow> (\<forall>n \<in> set bm. settled d ms live c n)"
proof -
  from assms obtain out al where
    out: "map_res (classify_built d (jor ms (JObj [])) live c) bm = Inr out" and
    r: "r = \<lparr>dr_modules = out @ map (extra_module d) (extras d bm), dr_always = set al\<rparr>"
    by (elim classify_cases) auto
  from out have "list_all2 (\<lambda>n m. actionable m \<longleftrightarrow> \<not> settled d ms live c n) bm out"
    by (auto simp: map_res_Inr_iff elim!: list_all2_mono dest: classify_built_settled)
  then have "filter actionable out = [] \<longleftrightarrow> (\<forall>n \<in> set bm. settled d ms live c n)"
    by (induction rule: list_all2_induct) auto
  then show ?thesis
    using report_current_drifted [OF assms(1,2)] by (simp add: r drifted_def del: filter_map)
qed

text \<open>C1: A unit is current exactly when every module of the build is settled on it: recorded, its
  provide and verify outcomes neither \<open>fail\<close> nor \<open>skipped\<close>, a known hash equal to the
  build's, and no live failure newer than its installation.\<close>

theorem classify_current_iff:
  assumes "classify installed build validation = Inr r"
    and "bind_res (jget build ''modules'') str_list = Inr bm"
    and "recorded_modules installed = Inr d"
    and "jget build ''module_state'' = Inr ms"
    and "validation_view validation = Inr (live, c)"
  shows "report_current r \<longleftrightarrow> (\<forall>n \<in> set bm. settled d ms live c n)"
  using assms by (rule report_current_settled)


text \<open>A unit whose record is empty or a legacy list of names is classified as unknown: every
  module of the build is \<open>Missing\<close> and the whole build is targeted, in build order.\<close>

theorem unprovisioned_runs_everything:
  assumes "classify installed build validation = Inr r"
    and "bind_res (jget build ''modules'') str_list = Inr bm"
    and "recorded_modules installed = Inr []"
  shows "targets r = bm \<and> (\<forall>m \<in> set (dr_modules r). md_state m = Missing)"
proof -
  from assms obtain ms live c out al where
    out: "map_res (classify_built [] (jor ms (JObj [])) live c) bm = Inr out" and
    r: "r = \<lparr>dr_modules = out, dr_always = set al\<rparr>"
    by (elim classify_cases) (auto simp: extras_def keys_def sorted_set_def)
  from out have "list_all2 (\<lambda>n m. md_state m = Missing \<and> md_name m = n) bm out"
    by (auto simp: map_res_Inr_iff classify_built_def Let_def bind_res_Inr_iff elim!: list_all2_mono)
  then have m: "\<forall>m \<in> set out. md_state m = Missing" "map md_name out = bm"
    by (induction rule: list_all2_induct) auto
  then have "drifted r = bm" by (auto simp: r drifted_def actionable_def)
  then have "targets r = bm" using targets_eq_filter(1) [OF assms(1,2)] by auto
  with m show ?thesis by (simp add: r)
qed

section \<open>Documents that classify\<close>

definition list_or_none :: "json \<Rightarrow> bool" where
  "list_or_none v \<longleftrightarrow> (case v of JNull \<Rightarrow> True | JList _ \<Rightarrow> True | _ \<Rightarrow> False)"

definition dict_or_none :: "json \<Rightarrow> bool" where
  "dict_or_none v \<longleftrightarrow> (case v of JNull \<Rightarrow> True | JObj _ \<Rightarrow> True | _ \<Rightarrow> False)"

definition wf_build :: "json \<Rightarrow> bool" where
  "wf_build build \<longleftrightarrow> (case build of
      JObj b \<Rightarrow> list_or_none (field b ''modules'') \<and> list_or_none (field b ''always_modules'')
                \<and> dict_or_none (field b ''module_state'')
    | _ \<Rightarrow> False)"

definition wf_validation :: "json \<Rightarrow> bool" where
  "wf_validation v \<longleftrightarrow> (case v of
      JNull \<Rightarrow> True
    | JObj d \<Rightarrow> dict_or_none (field d ''modules'')
                \<and> (case field d ''checked_at'' of JNull \<Rightarrow> True | JStr _ \<Rightarrow> True | _ \<Rightarrow> False)
    | _ \<Rightarrow> False)"

lemma str_list_total: "list_or_none v \<Longrightarrow> \<exists>l. str_list v = Inr l"
  by (auto simp: list_or_none_def str_list_def jor_def split: json.splits)

lemma jor_dict: "dict_or_none v \<Longrightarrow> \<exists>d. jor v (JObj []) = JObj d"
  by (cases v) (auto simp: dict_or_none_def jor_def)

lemma validation_view_total:
  assumes "wf_validation v"
  shows "\<exists>d c. validation_view v = Inr (JObj d, c)"
  using assms
  by (cases v) (auto simp: wf_validation_def validation_view_def dict_or_none_def jor_def simp del: jget.simps split: json.splits)

lemma map_res_total: "(\<And>x. x \<in> set xs \<Longrightarrow> \<exists>y. f x = Inr y) \<Longrightarrow> \<exists>ys. map_res f xs = Inr ys"
  by (induction xs) (auto, metis bind_res_simps(2))

lemma classify_built_total:
  "\<exists>m. classify_built d (JObj ms) (JObj live) c n = Inr m"
  by (cases "map_of d n = None \<or> map_of d n = Some JNull")
    (auto simp: classify_built_def module_verdict_def Let_def field_def [symmetric] simp del: jget.simps)

lemma recorded_modules_total: "\<not> truthy v \<or> is_dict v \<Longrightarrow> \<exists>d. recorded_modules v = Inr d"
  by (cases v) (auto simp: recorded_modules_def)

lemma classify_defined:
  assumes "wf_build build" and "wf_validation validation" and "\<not> truthy installed \<or> is_dict installed"
  shows "\<exists>r. classify installed build validation = Inr r"
proof -
  from assms(1) obtain b where b: "build = JObj b"
    "list_or_none (field b ''modules'')" "list_or_none (field b ''always_modules'')"
    "dict_or_none (field b ''module_state'')"
    by (auto simp: wf_build_def split: json.splits)
  from b obtain bm al where "str_list (field b ''modules'') = Inr bm" "str_list (field b ''always_modules'') = Inr al"
    using str_list_total by blast
  moreover obtain live c where "validation_view validation = Inr (JObj live, c)"
    using validation_view_total [OF assms(2)] by blast
  moreover obtain ms where "jor (field b ''module_state'') (JObj []) = JObj ms"
    using b(4) jor_dict by blast
  moreover obtain d where "recorded_modules installed = Inr d"
    using assms(3) recorded_modules_total by blast
  moreover obtain out where "map_res (classify_built d (JObj ms) (JObj live) c) bm = Inr out"
    using map_res_total [of bm "classify_built d (JObj ms) (JObj live) c"] classify_built_total by blast
  ultimately show ?thesis by (simp add: classify_def b(1) del: jget.simps)
qed

text \<open>Classification never raises on documents of the shapes the build, the unit and the verify
  report write: a missing, empty or legacy installed manifest, an absent report and absent
  keys are all verdicts, not exceptions.\<close>

theorem classify_total:
  assumes "wf_build build" and "wf_validation validation" and "\<not> truthy installed \<or> is_dict installed"
  shows "\<exists>r. classify installed build validation = Inr r"
  using assms by (rule classify_defined)

section \<open>Witnesses\<close>

definition ex_build :: json where
  "ex_build = JObj [(''modules'', JList [JStr ''git'', JStr ''mast'', JStr ''reboot'']),
     (''always_modules'', JList [JStr ''reboot'']),
     (''module_state'', JObj [(''git'', JObj [(''hash'', JStr ''g1''), (''version'', JStr ''2.4'')]),
                              (''mast'', JObj [(''hash'', JStr ''m1'')]),
                              (''reboot'', JObj [(''hash'', JStr ''r1'')])])]"

definition ex_entry :: "string \<Rightarrow> json" where
  "ex_entry h = JObj [(''hash'', JStr h), (''provide'', JStr ''pass''), (''verify'', JStr ''pass''),
                      (''installed_at'', JStr ''2026-09-15T10:00:00Z'')]"

definition ex_installed :: "string \<Rightarrow> json" where
  "ex_installed mast_hash = JObj [(''modules'', JObj [(''git'', ex_entry ''g1''), (''mast'', ex_entry mast_hash),
       (''reboot'', ex_entry ''r1''), (''ds9'', ex_entry ''d1'')])]"

definition ex_validation :: json where
  "ex_validation = JObj [(''modules'', JObj [(''git'', JStr ''Fail'')]),
                         (''checked_at'', JStr ''2026-09-14T10:00:00Z'')]"

definition ex_modules :: "string list" where
  "ex_modules = [''git'', ''mast'', ''reboot'']"

definition the_report :: "drift_report res \<Rightarrow> drift_report" where
  "the_report x = (case x of Inl _ \<Rightarrow> \<lparr>dr_modules = [], dr_always = {}\<rparr> | Inr r \<Rightarrow> r)"

lemma ex_modules_of_build: "bind_res (jget ex_build ''modules'') str_list = Inr ex_modules"
  by code_simp

lemma ex_report: "wf_build ex_build" "wf_validation ex_validation" "is_dict (ex_installed h)"
  by (simp_all add: wf_build_def ex_build_def wf_validation_def ex_validation_def ex_installed_def
        field_def list_or_none_def dict_or_none_def)

lemma ex_classified:
  "classify (ex_installed h) ex_build ex_validation = Inr (the_report (classify (ex_installed h) ex_build ex_validation))"
  using classify_defined [OF ex_report(1,2), of "ex_installed h"] ex_report(3)
  by (auto simp: the_report_def)

lemma ex_recorded: "recorded_modules (ex_installed h) = Inr [(''git'', ex_entry ''g1''), (''mast'', ex_entry h),
    (''reboot'', ex_entry ''r1''), (''ds9'', ex_entry ''d1'')]"
  by (simp add: recorded_modules_def ex_installed_def)

theorem targets_build_order_witness:
  "subseq (targets (the_report (classify (ex_installed ''m0'') ex_build ex_validation))) ex_modules
   \<and> targets (the_report (classify (ex_installed ''m0'') ex_build ex_validation)) = [''mast'', ''reboot'']"
proof -
  have "targets (the_report (classify (ex_installed ''m0'') ex_build ex_validation)) = [''mast'', ''reboot'']"
    by code_simp
  then show ?thesis
    using targets_build_order [OF ex_classified ex_modules_of_build, of "''m0''"] by simp
qed

definition ex_live :: json where
  "ex_live = JObj [(''git'', JStr ''Fail'')]"

definition ex_state :: json where
  "ex_state = (case jget ex_build ''module_state'' of Inr v \<Rightarrow> v | Inl _ \<Rightarrow> JNull)"

lemma ex_views:
  "jget ex_build ''module_state'' = Inr ex_state"
  "validation_view ex_validation = Inr (ex_live, Some [2026, 9, 14, 10, 0, 0])"
  by code_simp+

theorem classify_current_iff_witness:
  "report_current (the_report (classify (ex_installed ''m1'') ex_build ex_validation))
   \<longleftrightarrow> (\<forall>n \<in> set ex_modules. settled [(''git'', ex_entry ''g1''), (''mast'', ex_entry ''m1''),
         (''reboot'', ex_entry ''r1''), (''ds9'', ex_entry ''d1'')] ex_state ex_live (Some [2026, 9, 14, 10, 0, 0]) n)"
  by (rule classify_current_iff [OF ex_classified ex_modules_of_build ex_recorded ex_views])


definition ex_legacy :: json where
  "ex_legacy = JObj [(''payload_hash'', JStr ''p''), (''modules'', JList [JStr ''git''])]"

lemma ex_legacy_classified:
  "classify ex_legacy ex_build ex_validation = Inr (the_report (classify ex_legacy ex_build ex_validation))"
  using classify_defined [OF ex_report(1,2), of ex_legacy] by (auto simp: the_report_def ex_legacy_def)

theorem unprovisioned_runs_everything_witness:
  "targets (the_report (classify ex_legacy ex_build ex_validation)) = [''git'', ''mast'', ''reboot'']"
proof -
  have "recorded_modules ex_legacy = Inr []" by code_simp
  from unprovisioned_runs_everything [OF ex_legacy_classified ex_modules_of_build this]
  show ?thesis by (simp add: ex_modules_def)
qed

theorem classify_total_witness: "\<exists>r. classify (ex_installed ''m0'') ex_build ex_validation = Inr r"
  using classify_total [OF ex_report(1,2)] ex_report(3) by blast

end
