(* ===== verification/Payload.thy ===== *)
theory Payload
  imports Py_Json
begin

text \<open>
  \<open>server/prov/payload.py\<close>: which staging-root names a targeted run leaves out of the
  transfer, computed from the build manifest's \<open>module_payload\<close> (who claims what) and
  \<open>payload_always\<close> (what every run carries).
\<close>

section \<open>The computation\<close>

text \<open>\<open>IncompletePayloadManifestError\<close>.\<close>

definition incomplete :: "string \<Rightarrow> pyexc" where
  "incomplete msg = UserError ''IncompletePayloadManifestError'' msg"

record exclusions =
  ex_files :: "string list"
  ex_dirs :: "string list"

definition any_excluded :: "exclusions \<Rightarrow> bool" where
  "any_excluded x \<longleftrightarrow> ex_files x \<noteq> [] \<or> ex_dirs x \<noteq> []"

definition excl_summary :: "exclusions \<Rightarrow> string" where
  "excl_summary x = (let t = join '','' (ex_dirs x @ ex_files x) in if t = [] then ''none'' else t)"

fun str_value :: "json \<Rightarrow> string option" where
  "str_value (JStr s) = Some s"
| "str_value _ = None"

definition names :: "json \<Rightarrow> string \<Rightarrow> string \<Rightarrow> string list res" where
  "names entry key loc =
     (case entry of
        JObj d \<Rightarrow>
          (let value = (case map_of d key of None \<Rightarrow> JList [] | Some v \<Rightarrow> v)
           in case value of
                JList vs \<Rightarrow>
                  (if list_all (\<lambda>v. str_value v \<noteq> None) vs
                   then Inr (filter (\<lambda>s. s \<noteq> []) (map (the \<circ> str_value) vs))
                   else Inl (incomplete (loc @ ''.'' @ key @ '': expected a list of names, got '' @ py_repr value)))
              | _ \<Rightarrow> Inl (incomplete (loc @ ''.'' @ key @ '': expected a list of names, got '' @ py_repr value)))
      | _ \<Rightarrow> Inl (incomplete (loc @ '': expected an object, got '' @ type_name entry)))"

type_synonym slot = "string \<times> string"

text \<open>The two accumulators of the loop: who claims a slot, and the slots in build order.\<close>

type_synonym claim_state = "(slot \<rightharpoonup> string set) \<times> slot list"

fun claim_names :: "string \<Rightarrow> string \<Rightarrow> string list \<Rightarrow> claim_state \<Rightarrow> claim_state" where
  "claim_names module key [] st = st"
| "claim_names module key (n # ns) (claimants, order) =
     (case claimants (key, n) of
        None \<Rightarrow> claim_names module key ns (claimants((key, n) \<mapsto> {module}), order @ [(key, n)])
      | Some ms \<Rightarrow> claim_names module key ns (claimants((key, n) \<mapsto> insert module ms), order))"

fun claim_modules :: "(string \<times> json) list \<Rightarrow> claim_state \<Rightarrow> claim_state res" where
  "claim_modules [] st = Inr st"
| "claim_modules ((module, entry) # rest) st =
     bind_res (names entry ''files'' (''module_payload.'' @ module)) (\<lambda>fs.
     bind_res (names entry ''dirs'' (''module_payload.'' @ module)) (\<lambda>ds.
     claim_modules rest (claim_names module ''dirs'' ds (claim_names module ''files'' fs st))))"

definition exclusions_of :: "(string, json) dict \<Rightarrow> string list \<Rightarrow> exclusions res" where
  "exclusions_of build targets =
     (case (field build ''module_payload'', field build ''payload_always'') of
        (JObj payload, JObj always) \<Rightarrow>
          bind_res (names (JObj always) ''files'' ''payload_always'') (\<lambda>nf.
          bind_res (names (JObj always) ''dirs'' ''payload_always'') (\<lambda>nd.
          bind_res (claim_modules payload (Map.empty, [])) (\<lambda>(claimants, order).
          (if targets = [] then Inr \<lparr>ex_files = [], ex_dirs = []\<rparr>
           else
             (let never = set nf \<union> set nd;
                  dropped = filter (\<lambda>s. snd s \<notin> never
                              \<and> (case claimants s of None \<Rightarrow> True | Some ms \<Rightarrow> ms \<inter> set targets = {})) order
              in Inr \<lparr>ex_files = map snd (filter (\<lambda>s. fst s = ''files'') dropped),
                      ex_dirs = map snd (filter (\<lambda>s. fst s = ''dirs'') dropped)\<rparr>)))))
      | _ \<Rightarrow> Inl (incomplete ''build-manifest.json has no module_payload/payload_always; the driver and build/build-mast.ps1 disagree about the payload format''))"

section \<open>Who claims what\<close>

definition entry_claims :: "json \<Rightarrow> slot set" where
  "entry_claims entry =
     {(k, n). k \<in> {''files'', ''dirs''} \<and> (\<exists>ns. names entry k [] = Inr ns \<and> n \<in> set ns)}"

definition claims :: "(string \<times> json) list \<Rightarrow> slot \<Rightarrow> string set" where
  "claims payload s = {m. \<exists>entry. (m, entry) \<in> set payload \<and> s \<in> entry_claims entry}"

text \<open>The location only shows in the message.\<close>

lemma names_loc: "names entry k loc = Inr ns \<Longrightarrow> names entry k [] = Inr ns"
  by (auto simp: names_def Let_def split: json.splits if_splits)

definition claims_inv :: "(slot \<Rightarrow> string set) \<Rightarrow> claim_state \<Rightarrow> bool" where
  "claims_inv C st \<longleftrightarrow>
     (\<forall>s. fst st s = (if C s = {} then None else Some (C s)))
     \<and> set (snd st) = {s. C s \<noteq> {}} \<and> distinct (snd st)"

lemma claim_names_inv:
  "claims_inv C st \<Longrightarrow>
   claims_inv (\<lambda>s. C s \<union> (if fst s = key \<and> snd s \<in> set ns then {module} else {}))
     (claim_names module key ns st)"
proof (induction ns arbitrary: C st)
  case Nil
  then show ?case by simp
next
  case (Cons n ns)
  obtain cl ord where st: "st = (cl, ord)" by fastforce
  let ?C = "\<lambda>s. C s \<union> (if s = (key, n) then {module} else {})"
  let ?st = "(cl((key, n) \<mapsto> ?C (key, n)), if C (key, n) = {} then ord @ [(key, n)] else ord)"
  have "claims_inv ?C ?st"
    using Cons.prems by (auto simp: claims_inv_def st)
  from Cons.IH [OF this]
  have "claims_inv (\<lambda>s. C s \<union> (if fst s = key \<and> snd s \<in> set (n # ns) then {module} else {}))
     (claim_names module key ns ?st)"
    by (rule back_subst [where P = "\<lambda>C. claims_inv C _"]) (auto simp: fun_eq_iff)
  moreover have "claim_names module key (n # ns) st = claim_names module key ns ?st"
    using Cons.prems by (auto simp: claims_inv_def st Un_commute split: option.splits)
  ultimately show ?case by simp
qed

lemma claims_simps:
  "claims [] s = {}"
  "claims ((m, entry) # rest) s = (if s \<in> entry_claims entry then {m} else {}) \<union> claims rest s"
  by (auto simp: claims_def)

lemma entry_claims_iff:
  assumes "names entry ''files'' loc = Inr fs" and "names entry ''dirs'' loc = Inr ds"
  shows "s \<in> entry_claims entry \<longleftrightarrow>
     (fst s = ''files'' \<and> snd s \<in> set fs) \<or> (fst s = ''dirs'' \<and> snd s \<in> set ds)"
proof -
  have n: "names entry ''files'' [] = Inr fs" "names entry ''dirs'' [] = Inr ds"
    by (rule names_loc, rule assms)+
  obtain k m where "s = (k, m)" by fastforce
  then show ?thesis
    by (auto simp: entry_claims_def n simp del: list.inject)
qed

lemma claim_modules_inv:
  "claim_modules payload st = Inr st' \<Longrightarrow> claims_inv C st \<Longrightarrow>
   claims_inv (\<lambda>s. C s \<union> claims payload s) st'"
proof (induction payload st arbitrary: C rule: claim_modules.induct)
  case (1 st)
  then show ?case by (simp add: claims_simps)
next
  case (2 module entry rest st)
  from "2.prems"(1) obtain fs ds where
    n: "names entry ''files'' (''module_payload.'' @ module) = Inr fs"
       "names entry ''dirs'' (''module_payload.'' @ module) = Inr ds" and
    rest: "claim_modules rest (claim_names module ''dirs'' ds (claim_names module ''files'' fs st)) = Inr st'"
    by (auto simp: bind_res_Inr_iff)
  let ?C1 = "\<lambda>s. C s \<union> (if fst s = ''files'' \<and> snd s \<in> set fs then {module} else {})"
  let ?C2 = "\<lambda>s. ?C1 s \<union> (if fst s = ''dirs'' \<and> snd s \<in> set ds then {module} else {})"
  have "claims_inv ?C2 (claim_names module ''dirs'' ds (claim_names module ''files'' fs st))"
    by (intro claim_names_inv "2.prems"(2))
  from "2.IH" [OF rest this]
  show ?case
  proof (rule back_subst [where P = "\<lambda>C. claims_inv C _"])
    show "(\<lambda>s. ?C2 s \<union> claims rest s) = (\<lambda>s. C s \<union> claims ((module, entry) # rest) s)"
      unfolding claims_simps entry_claims_iff [OF n]
      by (rule ext) (simp split: if_split add: Un_assoc)
  qed
qed

text \<open>What every run carries whatever it targets.\<close>

definition always_names :: "(string, json) dict \<Rightarrow> string set" where
  "always_names build = snd ` entry_claims (field build ''payload_always'')"

definition payload_of :: "(string, json) dict \<Rightarrow> (string \<times> json) list" where
  "payload_of build = (case field build ''module_payload'' of JObj p \<Rightarrow> p | _ \<Rightarrow> [])"

lemma exclusions_of_cases:
  assumes "exclusions_of build targets = Inr x"
  obtains claimants order where
    "claims_inv (claims (payload_of build)) (claimants, order)"
    "targets = [] \<Longrightarrow> x = \<lparr>ex_files = [], ex_dirs = []\<rparr>"
    "targets \<noteq> [] \<Longrightarrow> ex_files x = map snd (filter (\<lambda>s. fst s = ''files'')
       (filter (\<lambda>s. snd s \<notin> always_names build \<and> claims (payload_of build) s \<inter> set targets = {}) order))"
    "targets \<noteq> [] \<Longrightarrow> ex_dirs x = map snd (filter (\<lambda>s. fst s = ''dirs'')
       (filter (\<lambda>s. snd s \<notin> always_names build \<and> claims (payload_of build) s \<inter> set targets = {}) order))"
proof -
  from assms obtain payload always nf nd claimants order where
    j: "field build ''module_payload'' = JObj payload" "field build ''payload_always'' = JObj always" and
    n: "names (JObj always) ''files'' ''payload_always'' = Inr nf"
       "names (JObj always) ''dirs'' ''payload_always'' = Inr nd" and
    c: "claim_modules payload (Map.empty, []) = Inr (claimants, order)" and
    x: "x = (if targets = [] then \<lparr>ex_files = [], ex_dirs = []\<rparr>
       else (let dropped = filter (\<lambda>s. snd s \<notin> set nf \<union> set nd
                   \<and> (case claimants s of None \<Rightarrow> True | Some ms \<Rightarrow> ms \<inter> set targets = {})) order
             in \<lparr>ex_files = map snd (filter (\<lambda>s. fst s = ''files'') dropped),
                 ex_dirs = map snd (filter (\<lambda>s. fst s = ''dirs'') dropped)\<rparr>))"
    unfolding exclusions_of_def
    by (auto simp: bind_res_Inr_iff Let_def split: json.splits if_splits)
  have "claims_inv (\<lambda>_. {}) (Map.empty, [])" by (simp add: claims_inv_def)
  from claim_modules_inv [OF c this] have inv: "claims_inv (claims payload) (claimants, order)"
    by simp
  have nv: "set nf \<union> set nd = always_names build"
    unfolding always_names_def j set_eq_iff image_iff Bex_def entry_claims_iff [OF n]
    by auto
  have "(case claimants s of None \<Rightarrow> True | Some ms \<Rightarrow> ms \<inter> set targets = {})
      \<longleftrightarrow> claims payload s \<inter> set targets = {}" for s
    using inv by (cases s) (simp add: claims_inv_def)
  with inv j nv show ?thesis
    by (intro that [of claimants order]) (auto simp: payload_of_def x Let_def cong: filter_cong)
qed

lemma excluded_files_iff:
  assumes "exclusions_of build targets = Inr x" "targets \<noteq> []"
  shows "n \<in> set (ex_files x) \<longleftrightarrow> claims (payload_of build) (''files'', n) \<noteq> {}
      \<and> n \<notin> always_names build \<and> claims (payload_of build) (''files'', n) \<inter> set targets = {}"
  using assms by (elim exclusions_of_cases) (auto simp: claims_inv_def image_iff)

lemma excluded_dirs_iff:
  assumes "exclusions_of build targets = Inr x" "targets \<noteq> []"
  shows "n \<in> set (ex_dirs x) \<longleftrightarrow> claims (payload_of build) (''dirs'', n) \<noteq> {}
      \<and> n \<notin> always_names build \<and> claims (payload_of build) (''dirs'', n) \<inter> set targets = {}"
  using assms by (elim exclusions_of_cases) (auto simp: claims_inv_def image_iff)

lemmas excluded_iff = excluded_files_iff excluded_dirs_iff

section \<open>Properties\<close>

text \<open>A targeted run leaves out exactly the staged entries that some module claims, that no
  targeted module claims and that are not on the always list; so every file a targeted module
  needs is transferred.\<close>

theorem exclusions_exact:
  assumes "exclusions_of build targets = Inr x" and "targets \<noteq> []"
  shows "set (map (Pair ''files'') (ex_files x) @ map (Pair ''dirs'') (ex_dirs x)) =
     {s. claims (payload_of build) s \<noteq> {} \<and> snd s \<notin> always_names build
         \<and> claims (payload_of build) s \<inter> set targets = {}}"
proof (rule set_eqI)
  fix s
  have kinds: "fst s = ''files'' \<or> fst s = ''dirs''" if "claims (payload_of build) s \<noteq> {}"
    using that by (auto simp: claims_def entry_claims_def)
  obtain k n where s: "s = (k, n)" by (cases s)
  show "s \<in> set (map (Pair ''files'') (ex_files x) @ map (Pair ''dirs'') (ex_dirs x)) \<longleftrightarrow>
     s \<in> {s. claims (payload_of build) s \<noteq> {} \<and> snd s \<notin> always_names build
         \<and> claims (payload_of build) s \<inter> set targets = {}}"
  proof (cases "k = ''files'' \<or> k = ''dirs''")
    case True
    then show ?thesis
      using excluded_iff [OF assms, of n] by (elim disjE) (simp_all add: s image_iff)
  next
    case False
    then have "claims (payload_of build) s = {}" using kinds by (auto simp: s)
    with False show ?thesis by (simp add: s image_iff)
  qed
qed

text \<open>The two ways of saying "send everything" agree: a run with no target set (\<open>--force\<close>) and a
  run that targets every module of the payload both leave nothing out.\<close>

theorem force_and_all_modules_agree:
  assumes "exclusions_of build [] = Inr x" and "exclusions_of build targets = Inr y"
    and "fst ` set (payload_of build) \<subseteq> set targets"
  shows "x = \<lparr>ex_files = [], ex_dirs = []\<rparr> \<and> y = x"
proof -
  from assms(1) have x: "x = \<lparr>ex_files = [], ex_dirs = []\<rparr>"
    by (elim exclusions_of_cases) auto
  show ?thesis
  proof (cases "targets = []")
    case True
    with assms(1,2) x show ?thesis by simp
  next
    case False
    have "claims (payload_of build) s \<subseteq> set targets" for s
      using assms(3) by (force simp: claims_def)
    then have "claims (payload_of build) s = {} \<or> claims (payload_of build) s \<inter> set targets \<noteq> {}" for s
      by blast
    then have "set (ex_files y) = {}" "set (ex_dirs y) = {}"
      by (simp_all only: set_eq_iff excluded_iff [OF assms(2) False]) (simp_all, blast+)
    then show ?thesis using x by (cases y) simp
  qed
qed

text \<open>Targeting more modules never leaves out more: an entry left out by the larger run is left
  out by the smaller one.\<close>

theorem exclusions_antitone:
  assumes "exclusions_of build small = Inr x" and "exclusions_of build large = Inr y"
    and "set small \<subseteq> set large" and "small \<noteq> []"
  shows "set (ex_files y) \<subseteq> set (ex_files x) \<and> set (ex_dirs y) \<subseteq> set (ex_dirs x)"
proof -
  from assms(3,4) have "large \<noteq> []" by auto
  note larger = excluded_iff [OF assms(2) this]
  have "X \<inter> set small = {}" if "X \<inter> set large = {}" for X :: "string set"
    using that assms(3) by blast
  then show ?thesis
    by (simp add: subset_iff excluded_iff [OF assms(1) assms(4)] larger)
qed

text \<open>The error branch does not depend on the targets: a bad manifest surfaces on the run that
  built it, targeted or not.\<close>

lemma exclusions_error_any_targets:
  "exclusions_of build targets = Inl e \<longleftrightarrow> exclusions_of build targets' = Inl e"
  by (auto simp: exclusions_of_def bind_res_def Let_def split: json.splits sum.splits prod.splits)

section \<open>Witnesses\<close>

definition ex_manifest :: "(string, json) dict" where
  "ex_manifest =
     [(''module_payload'', JObj [(''git'', JObj [(''files'', JList [JStr ''git.exe''])]),
                                 (''imdisk'', JObj [(''files'', JList [JStr ''seed.zip'', JStr ''git.exe'']),
                                                    (''dirs'', JList [JStr ''mast-indexes''])])]),
      (''payload_always'', JObj [(''files'', JList [JStr ''commands.json''])])]"

lemma ex_exclusions:
  "exclusions_of ex_manifest [''git''] = Inr \<lparr>ex_files = [''seed.zip''], ex_dirs = [''mast-indexes'']\<rparr>"
  "exclusions_of ex_manifest [''git'', ''imdisk''] = Inr \<lparr>ex_files = [], ex_dirs = []\<rparr>"
  "exclusions_of ex_manifest [] = Inr \<lparr>ex_files = [], ex_dirs = []\<rparr>"
  by code_simp+

theorem exclusions_exact_witness:
  "{(''files'', ''seed.zip''), (''dirs'', ''mast-indexes'')} =
     {s. claims (payload_of ex_manifest) s \<noteq> {} \<and> snd s \<notin> always_names ex_manifest
         \<and> claims (payload_of ex_manifest) s \<inter> set [''git''] = {}}"
  using exclusions_exact [OF ex_exclusions(1)] by simp

theorem force_and_all_modules_agree_witness:
  "\<lparr>ex_files = [], ex_dirs = []\<rparr> = (\<lparr>ex_files = [], ex_dirs = []\<rparr> :: exclusions)
   \<and> fst ` set (payload_of ex_manifest) \<subseteq> set [''git'', ''imdisk'']"
proof -
  have "fst ` set (payload_of ex_manifest) \<subseteq> set [''git'', ''imdisk'']"
    by (simp add: payload_of_def ex_manifest_def field_def)
  with force_and_all_modules_agree [OF ex_exclusions(3,2)] show ?thesis by blast
qed

theorem exclusions_antitone_witness:
  "set (ex_files \<lparr>ex_files = [], ex_dirs = []\<rparr>)
     \<subseteq> set (ex_files \<lparr>ex_files = [''seed.zip''], ex_dirs = [''mast-indexes'']\<rparr>)"
  using exclusions_antitone [OF ex_exclusions(1,2)] by simp

end
