(* ===== verification/Staging.thy ===== *)
theory Staging
  imports Prov_Prelude
begin

text \<open>
  \<open>server/prov/staging_size.py\<close>: the pre-scan of the staging tree that TRANSFER_START and the
  unit's disk guard rest on. A directory is named by its resolved real path, so a junction is a
  directory entry that leads to an already named directory; the walk is the source's
  depth-first search with a visited set, bounded by fuel for the recursion.
\<close>

section \<open>The tree and the walk\<close>

text \<open>
  What \<open>DirEntry.is_dir\<close>, \<open>is_file\<close> and \<open>stat\<close> answer: a directory (through a
  junction or not) with the real path it resolves to, or none when resolving it raises; a file
  with its size, or none when its \<open>stat\<close> raises; neither; or an \<open>OSError\<close> already
  from \<open>is_dir\<close>.
\<close>

datatype entry_kind =
    DirEntry "string option"
  | FileEntry "nat option"
  | OtherEntry
  | EntryError

type_synonym dir_entry = "string \<times> entry_kind"

text \<open>\<open>os.scandir\<close> of a real path; none when it raises.\<close>

type_synonym tree = "string \<Rightarrow> dir_entry list option"

record staging_size =
  ss_bytes :: nat
  ss_files :: nat

record walk_state =
  total_bytes :: nat
  total_files :: nat
  visited :: "string set"

definition add_file :: "nat \<Rightarrow> walk_state \<Rightarrow> walk_state" where
  "add_file b st = st\<lparr>total_bytes := total_bytes st + b, total_files := total_files st + 1\<rparr>"

fun walk :: "tree \<Rightarrow> nat \<Rightarrow> string option \<Rightarrow> string set \<Rightarrow> walk_state \<Rightarrow> walk_state option"
and walk_entries :: "tree \<Rightarrow> nat \<Rightarrow> dir_entry list \<Rightarrow> walk_state \<Rightarrow> walk_state option"
where
  "walk t 0 d skip_here st = None"
| "walk t (Suc n) None skip_here st = Some st"
| "walk t (Suc n) (Some real) skip_here st =
     (if real \<in> visited st then Some st
      else
        (let st1 = st\<lparr>visited := insert real (visited st)\<rparr>
         in case t real of
              None \<Rightarrow> Some st1
            | Some all_entries \<Rightarrow> walk_entries t n (filter (\<lambda>e. fst e \<notin> skip_here) all_entries) st1))"
| "walk_entries t n [] st = Some st"
| "walk_entries t n ((name, kind) # es) st =
     (case kind of
        DirEntry d \<Rightarrow>
          (case walk t n d {} st of None \<Rightarrow> None | Some st' \<Rightarrow> walk_entries t n es st')
      | FileEntry (Some b) \<Rightarrow> walk_entries t n es (add_file b st)
      | FileEntry None \<Rightarrow> walk_entries t n es st
      | OtherEntry \<Rightarrow> walk_entries t n es st
      | EntryError \<Rightarrow> walk_entries t n es st)"

definition skip_names :: "string list \<Rightarrow> string list \<Rightarrow> string set" where
  "skip_names exclude_files exclude_dirs = set (filter (\<lambda>n. n \<noteq> []) (exclude_files @ exclude_dirs))"

definition staging_payload_size ::
  "tree \<Rightarrow> nat \<Rightarrow> string option \<Rightarrow> string list \<Rightarrow> string list \<Rightarrow> staging_size option" where
  "staging_payload_size t fuel path exclude_files exclude_dirs =
     (case walk t fuel path (skip_names exclude_files exclude_dirs)
             \<lparr>total_bytes = 0, total_files = 0, visited = {}\<rparr> of
        None \<Rightarrow> None
      | Some st \<Rightarrow> Some \<lparr>ss_bytes = total_bytes st, ss_files = total_files st\<rparr>)"

section \<open>What the figure should be\<close>

text \<open>
  The entries \<open>robocopy\<close> takes of a directory: the excluded names are left out of the staging
  root only.
\<close>

definition taken :: "tree \<Rightarrow> string \<Rightarrow> string set \<Rightarrow> string \<Rightarrow> dir_entry list" where
  "taken t root skip d =
     (case t d of None \<Rightarrow> [] | Some es \<Rightarrow> filter (\<lambda>e. d = root \<longrightarrow> fst e \<notin> skip) es)"

definition subdirs :: "dir_entry list \<Rightarrow> string set" where
  "subdirs es = {d. DirEntry (Some d) \<in> snd ` set es}"

fun file_bytes :: "dir_entry list \<Rightarrow> nat" where
  "file_bytes [] = 0"
| "file_bytes (e # es) = (case snd e of FileEntry (Some b) \<Rightarrow> b | _ \<Rightarrow> 0) + file_bytes es"

fun file_count :: "dir_entry list \<Rightarrow> nat" where
  "file_count [] = 0"
| "file_count (e # es) = (case snd e of FileEntry (Some b) \<Rightarrow> 1 | _ \<Rightarrow> 0) + file_count es"

inductive reached :: "tree \<Rightarrow> string \<Rightarrow> string set \<Rightarrow> string \<Rightarrow> bool" for t root skip where
  root: "reached t root skip root"
| sub: "reached t root skip d \<Longrightarrow> d' \<in> subdirs (taken t root skip d) \<Longrightarrow> reached t root skip d'"

inductive_cases reachedE: "reached t root skip d"

lemma subdirs_simps [simp]:
  "subdirs [] = {}"
  "subdirs (e # es) = (case snd e of DirEntry (Some d) \<Rightarrow> {d} | _ \<Rightarrow> {}) \<union> subdirs es"
  by (auto simp: subdirs_def split: entry_kind.splits option.splits)

section \<open>What the walk does\<close>

text \<open>
  From one state of the walk to a later one: the directories visited in between, each counted
  once with what is taken of it, and every directory reached from one of them visited too.
\<close>

definition grown :: "(string \<Rightarrow> dir_entry list) \<Rightarrow> nat \<Rightarrow> nat \<Rightarrow> walk_state \<Rightarrow> walk_state \<Rightarrow> bool" where
  "grown ents b f st st' \<longleftrightarrow>
     visited st \<subseteq> visited st' \<and> finite (visited st' - visited st)
     \<and> total_bytes st' = total_bytes st + b + (\<Sum>d\<in>visited st' - visited st. file_bytes (ents d))
     \<and> total_files st' = total_files st + f + (\<Sum>d\<in>visited st' - visited st. file_count (ents d))
     \<and> (\<forall>d\<in>visited st' - visited st. subdirs (ents d) \<subseteq> visited st')"

lemma grown_refl [simp]: "grown ents 0 0 st st"
  by (simp add: grown_def)

lemma grown_trans:
  assumes "grown ents b f st st1" and "grown ents b' f' st1 st2"
  shows "grown ents (b + b') (f + f') st st2"
proof -
  have sub: "visited st \<subseteq> visited st1" "visited st1 \<subseteq> visited st2"
    using assms by (simp_all add: grown_def)
  then have split: "visited st2 - visited st = (visited st1 - visited st) \<union> (visited st2 - visited st1)"
    by blast
  have fin: "finite (visited st1 - visited st)" "finite (visited st2 - visited st1)"
    using assms by (simp_all add: grown_def)
  have sums: "(\<Sum>d\<in>visited st2 - visited st. g d)
      = (\<Sum>d\<in>visited st1 - visited st. g d) + (\<Sum>d\<in>visited st2 - visited st1. g d)"
    for g :: "string \<Rightarrow> nat"
    unfolding split by (rule sum.union_disjoint [OF fin]) blast
  have "\<forall>d\<in>visited st2 - visited st. subdirs (ents d) \<subseteq> visited st2"
    using assms sub unfolding grown_def by blast
  moreover have "finite (visited st2 - visited st)"
    unfolding split using fin by blast
  ultimately show ?thesis
    using assms sub by (simp add: grown_def sums)
qed

lemma grown_file: "grown ents b 1 st (add_file b st)"
  by (simp add: grown_def add_file_def)

lemma grown_dir:
  assumes "real \<notin> visited st"
    and "grown ents (file_bytes (ents real)) (file_count (ents real))
           (st\<lparr>visited := insert real (visited st)\<rparr>) st'"
    and "subdirs (ents real) \<subseteq> visited st'"
  shows "grown ents 0 0 st st' \<and> real \<in> visited st'"
proof -
  let ?V = "visited st' - insert real (visited st)"
  have g: "visited st \<subseteq> visited st'" "real \<in> visited st'" "finite ?V"
      "total_bytes st' = total_bytes st + file_bytes (ents real) + (\<Sum>d\<in>?V. file_bytes (ents d))"
      "total_files st' = total_files st + file_count (ents real) + (\<Sum>d\<in>?V. file_count (ents d))"
      "\<forall>d\<in>?V. subdirs (ents d) \<subseteq> visited st'"
    using assms(2) by (simp_all add: grown_def)
  have split: "visited st' - visited st = insert real ?V"
    using g(2) assms(1) by blast
  show ?thesis
    using g assms(3) unfolding grown_def split by simp
qed

text \<open>
  A call is well placed when it is the first one, on the root with the excluded names, or a
  later one, with none.
\<close>

lemma walk_grown:
  "walk t n d skip_here st = Some st' \<Longrightarrow>
      (root \<in> visited st \<and> skip_here = {}) \<or> (d = Some root \<and> skip_here = skip \<and> root \<notin> visited st) \<Longrightarrow>
      grown (taken t root skip) 0 0 st st' \<and> (\<forall>r. d = Some r \<longrightarrow> r \<in> visited st')"
  "walk_entries t n es st = Some st' \<Longrightarrow> root \<in> visited st \<Longrightarrow>
      grown (taken t root skip) (file_bytes es) (file_count es) st st' \<and> subdirs es \<subseteq> visited st'"
proof (induction t n d skip_here st and t n es st arbitrary: st' and st' rule: walk_walk_entries.induct)
  case (3 t n real skip_here st)
  show ?case
  proof (cases "real \<in> visited st")
    case True
    with "3.prems" show ?thesis by simp
  next
    case new: False
    let ?st1 = "st\<lparr>visited := insert real (visited st)\<rparr>"
    have placed: "root \<in> visited ?st1" and skips: "skip_here = (if real = root then skip else {})"
      using "3.prems"(2) new by auto
    have "grown (taken t root skip) (file_bytes (taken t root skip real))
        (file_count (taken t root skip real)) ?st1 st' \<and> subdirs (taken t root skip real) \<subseteq> visited st'"
    proof (cases "t real")
      case None
      with "3.prems"(1) new have "st' = ?st1" by simp
      with None show ?thesis by (simp add: taken_def)
    next
      case (Some all)
      then have "taken t root skip real = filter (\<lambda>e. fst e \<notin> skip_here) all"
        by (simp add: taken_def skips)
      moreover from Some "3.prems"(1) new
      have "walk_entries t n (filter (\<lambda>e. fst e \<notin> skip_here) all) ?st1 = Some st'"
        by simp
      ultimately show ?thesis
        using "3.IH" [OF new refl Some _ placed] by simp
    qed
    with grown_dir [OF new, of "taken t root skip" st'] show ?thesis by simp
  qed
next
  case (5 t n name kind es st)
  show ?case
  proof (cases kind)
    case (DirEntry d)
    with "5.prems"(1) obtain st1 where
      st1: "walk t n d {} st = Some st1" "walk_entries t n es st1 = Some st'"
      by (auto split: option.splits)
    from "5.IH"(1) [OF DirEntry st1(1)] "5.prems"(2)
    have g: "grown (taken t root skip) 0 0 st st1" "\<forall>r. d = Some r \<longrightarrow> r \<in> visited st1"
      by auto
    have "root \<in> visited st1" using g(1) "5.prems"(2) by (auto simp: grown_def)
    from "5.IH"(2) [OF DirEntry st1(1,2) this]
    have r: "grown (taken t root skip) (file_bytes es) (file_count es) st1 st'"
        "subdirs es \<subseteq> visited st'" by auto
    have "visited st1 \<subseteq> visited st'" using r(1) by (simp add: grown_def)
    with grown_trans [OF g(1) r(1)] r(2) g(2) DirEntry show ?thesis
      by (auto split: option.splits)
  next
    case (FileEntry ob)
    show ?thesis
    proof (cases ob)
      case None
      with FileEntry "5.prems" "5.IH"(3) [OF FileEntry None] show ?thesis by simp
    next
      case (Some b)
      have "root \<in> visited (add_file b st)" using "5.prems"(2) by (simp add: add_file_def)
      with FileEntry Some "5.prems"(1) "5.IH"(4) [OF FileEntry Some]
        grown_trans [OF grown_file, where ents = "taken t root skip" and st = st and b = b]
      show ?thesis by simp
    qed
  next
    case OtherEntry
    with "5.prems" "5.IH"(5) [OF OtherEntry] show ?thesis by simp
  next
    case EntryError
    with "5.prems" "5.IH"(6) [OF EntryError] show ?thesis by simp
  qed
qed auto

lemma walk_reached:
  "walk t n d skip_here st = Some st' \<Longrightarrow>
      (root \<in> visited st \<and> skip_here = {}) \<or> (d = Some root \<and> skip_here = skip \<and> root \<notin> visited st) \<Longrightarrow>
      (\<forall>r. d = Some r \<longrightarrow> reached t root skip r) \<Longrightarrow>
      visited st \<subseteq> visited st' \<and> (\<forall>x\<in>visited st' - visited st. reached t root skip x)"
  "walk_entries t n es st = Some st' \<Longrightarrow> root \<in> visited st \<Longrightarrow>
      (\<forall>d\<in>subdirs es. reached t root skip d) \<Longrightarrow>
      visited st \<subseteq> visited st' \<and> (\<forall>x\<in>visited st' - visited st. reached t root skip x)"
proof (induction t n d skip_here st and t n es st arbitrary: st' and st' rule: walk_walk_entries.induct)
  case (3 t n real skip_here st)
  show ?case
  proof (cases "real \<in> visited st \<or> t real = None")
    case True
    with "3.prems" show ?thesis by (auto split: if_splits)
  next
    case False
    then obtain all where new: "real \<notin> visited st" and Some: "t real = Some all" by blast
    let ?st1 = "st\<lparr>visited := insert real (visited st)\<rparr>"
    have placed: "root \<in> visited ?st1" and skips: "skip_here = (if real = root then skip else {})"
      using "3.prems"(2) new by auto
    have real: "reached t root skip real" using "3.prems"(3) by simp
    have "filter (\<lambda>e. fst e \<notin> skip_here) all = taken t root skip real"
      using Some by (simp add: taken_def skips)
    then have kids: "\<forall>d\<in>subdirs (filter (\<lambda>e. fst e \<notin> skip_here) all). reached t root skip d"
      using real by (auto intro: reached.sub)
    from Some new "3.prems"(1)
    have "walk_entries t n (filter (\<lambda>e. fst e \<notin> skip_here) all) ?st1 = Some st'" by simp
    from "3.IH" [OF new refl Some this placed kids] real show ?thesis by auto
  qed
next
  case (5 t n name kind es st)
  show ?case
  proof (cases kind)
    case (DirEntry d)
    with "5.prems"(1) obtain st1 where
      st1: "walk t n d {} st = Some st1" "walk_entries t n es st1 = Some st'"
      by (auto split: option.splits)
    have g: "visited st \<subseteq> visited st1 \<and> (\<forall>x\<in>visited st1 - visited st. reached t root skip x)"
      using "5.prems" DirEntry by (intro "5.IH"(1) [OF DirEntry st1(1)]) auto
    have "visited st1 \<subseteq> visited st' \<and> (\<forall>x\<in>visited st' - visited st1. reached t root skip x)"
      using "5.prems" g by (intro "5.IH"(2) [OF DirEntry st1(1,2)]) auto
    with g show ?thesis by blast
  next
    case (FileEntry ob)
    show ?thesis
    proof (cases ob)
      case None
      with FileEntry "5.prems" "5.IH"(3) [OF FileEntry None] show ?thesis by simp
    next
      case (Some b)
      with FileEntry "5.prems" "5.IH"(4) [OF FileEntry Some] show ?thesis by (simp add: add_file_def)
    qed
  next
    case OtherEntry
    with "5.prems" "5.IH"(5) [OF OtherEntry] show ?thesis by simp
  next
    case EntryError
    with "5.prems" "5.IH"(6) [OF EntryError] show ?thesis by simp
  qed
qed auto

definition closed_dirs :: "tree \<Rightarrow> string set \<Rightarrow> bool" where
  "closed_dirs t D \<longleftrightarrow> finite D \<and> (\<forall>d\<in>D. \<forall>es. t d = Some es \<longrightarrow> subdirs es \<subseteq> D)"

lemma walk_returns:
  "closed_dirs t D \<Longrightarrow> card (D - visited st) < n \<Longrightarrow> (\<forall>r. d = Some r \<longrightarrow> r \<in> D) \<Longrightarrow>
      \<exists>st'. walk t n d skip_here st = Some st' \<and> visited st \<subseteq> visited st'"
  "closed_dirs t D \<Longrightarrow> card (D - visited st) < n \<Longrightarrow> subdirs es \<subseteq> D \<Longrightarrow>
      \<exists>st'. walk_entries t n es st = Some st' \<and> visited st \<subseteq> visited st'"
proof (induction t n d skip_here st and t n es st rule: walk_walk_entries.induct)
  case (3 t n real skip_here st)
  show ?case
  proof (cases "real \<in> visited st \<or> t real = None")
    case True
    then show ?thesis by auto
  next
    case False
    then obtain all where new: "real \<notin> visited st" and Some: "t real = Some all" by blast
    let ?st1 = "st\<lparr>visited := insert real (visited st)\<rparr>"
    have real: "real \<in> D" using "3.prems"(3) by simp
    have "card (D - visited ?st1) < card (D - visited st)"
      using new real "3.prems"(1) by (intro psubset_card_mono) (auto simp: closed_dirs_def)
    then have "card (D - visited ?st1) < n" using "3.prems"(2) by simp
    moreover have "subdirs (filter (\<lambda>e. fst e \<notin> skip_here) all) \<subseteq> D"
      using "3.prems"(1) real Some by (auto simp: subdirs_def closed_dirs_def)
    ultimately obtain st' where
      "walk_entries t n (filter (\<lambda>e. fst e \<notin> skip_here) all) ?st1 = Some st'" "visited ?st1 \<subseteq> visited st'"
      using "3.IH" [OF new refl Some "3.prems"(1)] by blast
    with new Some show ?thesis by auto
  qed
next
  case (5 t n name kind es st)
  show ?case
  proof (cases kind)
    case (DirEntry d)
    have "\<forall>r. d = Some r \<longrightarrow> r \<in> D" using "5.prems"(3) DirEntry by auto
    from "5.IH"(1) [OF DirEntry "5.prems"(1,2) this] obtain st1 where
      st1: "walk t n d {} st = Some st1" "visited st \<subseteq> visited st1" by blast
    have "card (D - visited st1) \<le> card (D - visited st)"
      using st1(2) "5.prems"(1) by (intro card_mono) (auto simp: closed_dirs_def)
    with "5.prems"(2) have "card (D - visited st1) < n" by simp
    moreover have "subdirs es \<subseteq> D" using "5.prems"(3) by simp
    ultimately obtain st' where "walk_entries t n es st1 = Some st'" "visited st1 \<subseteq> visited st'"
      using "5.IH"(2) [OF DirEntry st1(1) "5.prems"(1)] by blast
    with st1 DirEntry show ?thesis by auto
  next
    case (FileEntry ob)
    show ?thesis
    proof (cases ob)
      case None
      with FileEntry "5.prems" "5.IH"(3) [OF FileEntry None "5.prems"(1)] show ?thesis by simp
    next
      case (Some b)
      with FileEntry "5.prems" "5.IH"(4) [OF FileEntry Some "5.prems"(1)]
      show ?thesis by (simp add: add_file_def)
    qed
  next
    case OtherEntry
    with "5.prems" "5.IH"(5) [OF OtherEntry "5.prems"(1)] show ?thesis by simp
  next
    case EntryError
    with "5.prems" "5.IH"(6) [OF EntryError "5.prems"(1)] show ?thesis by simp
  qed
qed auto

section \<open>Properties\<close>

abbreviation (input) start_state :: walk_state where
  "start_state \<equiv> \<lparr>total_bytes = 0, total_files = 0, visited = {}\<rparr>"

lemma walk_visits_reached:
  assumes "walk t n (Some root) skip start_state = Some st'"
  shows "visited st' = {d. reached t root skip d}"
proof
  show "visited st' \<subseteq> {d. reached t root skip d}"
    using walk_reached(1) [OF assms, of root skip] by (auto intro: reached.root)
  have g: "grown (taken t root skip) 0 0 start_state st'" "root \<in> visited st'"
    using walk_grown(1) [OF assms, of root skip] by auto
  have "d \<in> visited st'" if "reached t root skip d" for d
    using that by induction (use g in \<open>auto simp: grown_def\<close>)
  then show "{d. reached t root skip d} \<subseteq> visited st'" by blast
qed

text \<open>C35: The pre-scan counts every directory reachable through sub-directories and junctions
  exactly once, cycles or not, with every readable file in it, and leaves the excluded names out of
  the staging root only.\<close>

theorem staging_size_exact:
  assumes "staging_payload_size t fuel (Some root) exclude_files exclude_dirs = Some s"
    and "skip = skip_names exclude_files exclude_dirs"
  shows "ss_bytes s = (\<Sum>d | reached t root skip d. file_bytes (taken t root skip d))
     \<and> ss_files s = (\<Sum>d | reached t root skip d. file_count (taken t root skip d))"
proof -
  from assms obtain st' where w: "walk t fuel (Some root) skip start_state = Some st'"
    and s: "ss_bytes s = total_bytes st'" "ss_files s = total_files st'"
    by (auto simp: staging_payload_size_def split: option.splits)
  from walk_grown(1) [OF w, of root skip] walk_visits_reached [OF w] s
  show ?thesis by (simp add: grown_def)
qed

text \<open>The pre-scan returns on every tree of finitely many directories: fuel above their number
  is enough, whatever the junctions.\<close>

theorem staging_size_returns:
  assumes "closed_dirs t D" and "root \<in> D" and "card D < fuel"
  shows "\<exists>s. staging_payload_size t fuel (Some root) exclude_files exclude_dirs = Some s"
proof -
  have "\<exists>st'. walk t fuel (Some root) (skip_names exclude_files exclude_dirs) start_state = Some st'
      \<and> visited start_state \<subseteq> visited st'"
    using assms by (intro walk_returns(1) [of t D]) auto
  then show ?thesis by (auto simp: staging_payload_size_def)
qed

section \<open>Witnesses\<close>

text \<open>A staging root with a junction to a seed directory, which has a junction back.\<close>

definition ex_tree :: tree where
  "ex_tree d =
     (if d = ''stage'' then Some [(''seed.zip'', FileEntry (Some 7)), (''mast.zip'', FileEntry (Some 5)),
                                  (''mast-indexes'', DirEntry (Some ''indexes''))]
      else if d = ''indexes'' then Some [(''seed.zip'', FileEntry (Some 100)), (''up'', DirEntry (Some ''stage''))]
      else None)"

lemma ex_scan: "staging_payload_size ex_tree 3 (Some ''stage'') [''seed.zip''] [] = Some \<lparr>ss_bytes = 105, ss_files = 2\<rparr>"
  by code_simp

theorem staging_size_exact_witness:
  "105 = (\<Sum>d | reached ex_tree ''stage'' {''seed.zip''} d. file_bytes (taken ex_tree ''stage'' {''seed.zip''} d))"
  using staging_size_exact [OF ex_scan refl] by (simp add: skip_names_def)

theorem staging_size_returns_witness:
  "\<exists>s. staging_payload_size ex_tree 3 (Some ''stage'') [''seed.zip''] [''mast-indexes''] = Some s"
  by (rule staging_size_returns [of _ "{''stage'', ''indexes''}"])
     (auto simp: ex_tree_def closed_dirs_def split: if_splits)

end
