(* ===== verification/Retention.thy ===== *)
theory Retention
  imports Prov_Prelude
begin

text \<open>
  \<open>server/prov/retention.py\<close>: which run directories the end of a run prunes, and the
  pruning itself over the directory the session logs live in. The file system is the list of the
  directory's entries; whether one \<open>rmtree\<close> fails is a parameter.
\<close>

section \<open>The decision\<close>

text \<open>
  \<open>^run-(\d{8}-\d{6})$\<close> under \<open>re.match\<close>: \<open>$\<close> also matches before a final
  line feed.
\<close>

definition run_id_timestamp :: "string \<Rightarrow> string option" where
  "run_id_timestamp run_id =
     (let body = drop 4 run_id;
          stamp = take 15 body
      in if take 4 run_id = ''run-''
            \<and> length stamp = 15
            \<and> list_all is_digit (take 8 stamp) \<and> stamp ! 8 = CHR ''-'' \<and> list_all is_digit (drop 9 stamp)
            \<and> (drop 15 body = [] \<or> drop 15 body = [CHR 10])
         then Some stamp else None)"

definition stamp_key :: "string \<Rightarrow> string" where
  "stamp_key r = (case run_id_timestamp r of None \<Rightarrow> [] | Some s \<Rightarrow> s)"

definition conforming :: "string list \<Rightarrow> string list" where
  "conforming run_ids = filter (\<lambda>r. run_id_timestamp r \<noteq> None) run_ids"

definition select_prunable_runs :: "string list \<Rightarrow> int \<Rightarrow> string list res" where
  "select_prunable_runs run_ids retain =
     (if retain < 1 then Inl ValueError
      else if int (length (conforming run_ids)) \<le> retain then Inr []
      else Inr (drop (nat retain) (sorted_desc_by stamp_key (conforming run_ids))))"

section \<open>The runner\<close>

record sessions_dir =
  sd_is_dir :: bool
  sd_entries :: "(string \<times> bool) list"  \<comment> \<open>name, and whether it is a directory\<close>

text \<open>\<open>shutil.rmtree\<close>: the entry is gone, or the call raises and, in this model, leaves it.\<close>

fun prune_runs :: "(string \<Rightarrow> bool) \<Rightarrow> string list \<Rightarrow> sessions_dir \<Rightarrow> string list \<Rightarrow> string list
    \<Rightarrow> sessions_dir \<times> string list \<times> string list" where
  "prune_runs fails [] d removed warned = (d, removed, warned)"
| "prune_runs fails (name # rest) d removed warned =
     (if fails name then prune_runs fails rest d removed (warned @ [name])
      else prune_runs fails rest
             (d\<lparr>sd_entries := filter (\<lambda>e. fst e \<noteq> name) (sd_entries d)\<rparr>) (removed @ [name]) warned)"

definition run_retention :: "(string \<Rightarrow> bool) \<Rightarrow> sessions_dir \<Rightarrow> int
    \<Rightarrow> (sessions_dir \<times> string list \<times> string list) res" where
  "run_retention fails d retain =
     (if \<not> sd_is_dir d then Inr (d, [], [])
      else bind_res (select_prunable_runs (map fst (filter snd (sd_entries d))) retain)
             (\<lambda>prune. Inr (prune_runs fails prune d [] [])))"

section \<open>Properties\<close>

lemma conforming_stamp: "r \<in> set (conforming run_ids) \<Longrightarrow> run_id_timestamp r = Some (stamp_key r)"
  by (auto simp: conforming_def stamp_key_def)

lemma conforming_mset: "set (sorted_desc_by f (conforming run_ids)) = {r \<in> set run_ids. run_id_timestamp r \<noteq> None}"
  by (auto simp: conforming_def)

lemma select_kept:
  assumes "select_prunable_runs run_ids retain = Inr pruned" and "pruned \<noteq> []"
  shows "1 \<le> retain \<and> pruned = drop (nat retain) (sorted_desc_by stamp_key (conforming run_ids))
     \<and> nat retain < length (conforming run_ids)"
  using assms by (auto simp: select_prunable_runs_def split: if_splits)

text \<open>Retention keeps the newest runs: what it prunes are conforming names, exactly those beyond
  the newest \<open>retain\<close>, and none of them is newer than a conforming run that stays.\<close>

theorem retention_keeps_newest:
  assumes "select_prunable_runs run_ids retain = Inr pruned" and "distinct run_ids"
  shows "set pruned \<subseteq> {r \<in> set run_ids. run_id_timestamp r \<noteq> None}
     \<and> length pruned = length (conforming run_ids) - nat retain
     \<and> (\<forall>p\<in>set pruned. \<forall>k\<in>set (conforming run_ids) - set pruned. stamp_key p \<le> stamp_key k)"
proof (cases "pruned = []")
  case True
  with assms show ?thesis by (auto simp: select_prunable_runs_def split: if_splits)
next
  case False
  let ?o = "sorted_desc_by stamp_key (conforming run_ids)"
  from select_kept [OF assms(1) False] have p: "pruned = drop (nat retain) ?o" by simp
  have d: "distinct ?o"
    using assms(2) by (simp add: sorted_desc_by_def conforming_def)
  have all: "set ?o = {r \<in> set run_ids. run_id_timestamp r \<noteq> None}"
    by (rule conforming_mset)
  have "k \<in> set (take (nat retain) ?o)" if "k \<in> set (conforming run_ids) - set pruned" for k
    using that p append_take_drop_id [of "nat retain" ?o]
    by (metis DiffD1 DiffD2 Un_iff set_append set_sorted_desc_by)
  then have "\<forall>p\<in>set pruned. \<forall>k\<in>set (conforming run_ids) - set pruned. stamp_key p \<le> stamp_key k"
    using sorted_wrt_take_drop [OF sorted_desc_by_sorted [of stamp_key]] unfolding p by blast
  moreover have "set pruned \<subseteq> {r \<in> set run_ids. run_id_timestamp r \<noteq> None}"
    unfolding p all [symmetric] by (rule set_drop_subset)
  ultimately show ?thesis by (simp add: p)
qed

lemma prune_runs_entries:
  "prune_runs fails names d removed warned = (d', removed', warned') \<Longrightarrow>
     sd_entries d' = filter (\<lambda>e. fst e \<notin> {n \<in> set names. \<not> fails n}) (sd_entries d)
     \<and> removed' = removed @ filter (\<lambda>n. \<not> fails n) names \<and> warned' = warned @ filter fails names"
proof (induction fails names d removed warned rule: prune_runs.induct)
  case (2 fails name rest d removed warned)
  show ?case
  proof (cases "fails name")
    case True
    with "2.IH"(1) "2.prems" show ?thesis by (auto intro!: filter_cong)
  next
    case False
    with "2.IH"(2) "2.prems" show ?thesis by (auto simp: filter_filter intro!: filter_cong)
  qed
qed simp

text \<open>The runner removes exactly the directories it reports, and it never removes a file or a
  directory whose name is not a run id; a directory it cannot remove stays and is warned about.\<close>

theorem run_retention_removes:
  assumes "run_retention fails d retain = Inr (d', removed, warned)" and "sd_is_dir d"
  shows "sd_entries d' = filter (\<lambda>e. fst e \<notin> set removed) (sd_entries d)
     \<and> (\<forall>n\<in>set removed \<union> set warned. run_id_timestamp n \<noteq> None \<and> (n, True) \<in> set (sd_entries d))
     \<and> (\<forall>n\<in>set warned. fails n) \<and> set removed \<inter> set warned = {}"
proof -
  from assms obtain prune where
    sel: "select_prunable_runs (map fst (filter snd (sd_entries d))) retain = Inr prune" and
    run: "prune_runs fails prune d [] [] = (d', removed, warned)"
    by (auto simp: run_retention_def bind_res_Inr_iff)
  have "set prune \<subseteq> set (conforming (map fst (filter snd (sd_entries d))))"
    using sel set_drop_subset [of "nat retain" "sorted_desc_by stamp_key (conforming (map fst (filter snd (sd_entries d))))"]
    by (auto simp: select_prunable_runs_def split: if_splits)
  then have "\<forall>n\<in>set prune. run_id_timestamp n \<noteq> None \<and> (n, True) \<in> set (sd_entries d)"
    by (auto simp: conforming_def)
  with prune_runs_entries [OF run] show ?thesis by (auto intro!: filter_cong)
qed

section \<open>Witnesses\<close>

definition ex_runs :: "string list" where
  "ex_runs = [''run-20260101-000000'', ''notes'', ''run-20260301-120000'', ''run-20260201-235959'']"

theorem retention_keeps_newest_witness:
  "stamp_key ''run-20260101-000000'' \<le> stamp_key ''run-20260301-120000''
     \<and> stamp_key ''run-20260101-000000'' \<le> stamp_key ''run-20260201-235959''"
proof -
  have "select_prunable_runs ex_runs 2 = Inr [''run-20260101-000000'']" by code_simp
  moreover have "distinct ex_runs" by (simp add: ex_runs_def)
  ultimately have "\<forall>k\<in>set (conforming ex_runs) - set [''run-20260101-000000''].
      stamp_key ''run-20260101-000000'' \<le> stamp_key k"
    using retention_keeps_newest by force
  moreover have "''run-20260301-120000'' \<in> set (conforming ex_runs) - set [''run-20260101-000000'']"
    "''run-20260201-235959'' \<in> set (conforming ex_runs) - set [''run-20260101-000000'']"
    by code_simp+
  ultimately show ?thesis by blast
qed

theorem run_retention_removes_witness:
  "(''run-20260101-000000'', True) \<in> set ((''a-file'', False) # map (\<lambda>r. (r, True)) ex_runs)
     \<and> (''run-20260201-235959'', True) \<in> set ((''a-file'', False) # map (\<lambda>r. (r, True)) ex_runs)"
proof -
  have "run_retention (\<lambda>n. n = ''run-20260201-235959'')
      \<lparr>sd_is_dir = True, sd_entries = (''a-file'', False) # map (\<lambda>r. (r, True)) ex_runs\<rparr> 1
    = Inr (\<lparr>sd_is_dir = True, sd_entries = [(''a-file'', False), (''notes'', True),
             (''run-20260301-120000'', True), (''run-20260201-235959'', True)]\<rparr>,
           [''run-20260101-000000''], [''run-20260201-235959''])"
    by code_simp
  from run_retention_removes [OF this] show ?thesis by simp
qed

end
