(* ===== verification/Maintenance.thy ===== *)
theory Maintenance
  imports Prov_Prelude
begin

text \<open>
  \<open>server/prov/maintenance_window.py\<close>: whether a unit may be worked on now. Time zones are
  resolved by \<open>zoneinfo\<close> and by the server's own clock, which are parameters: \<open>zone\<close>
  gives the local hour and minute of an instant in an IANA zone or the exception it raises,
  \<open>server_local\<close> the server's.
\<close>

record maintenance_window =
  start_hour :: int
  end_hour :: int

record window_result =
  allowed :: bool
  reason :: string
  wr_current :: string
  wr_window :: string
  wr_tz :: "string option"
  tz_error :: "string option"

type_synonym local_time = "nat \<times> nat"

text \<open>\<open>f"{h:02d}"\<close> of an integer, with its sign.\<close>

definition two_pad :: "int \<Rightarrow> string" where
  "two_pad h = (if 0 \<le> h \<and> h < 10 then CHR ''0'' # int_str h else int_str h)"

definition hhmm :: "local_time \<Rightarrow> string" where
  "hhmm t = two_pad (int (fst t)) @ '':'' @ two_pad (int (snd t))"

text \<open>
  The message of the exception is a parameter of the exception in Python; the log carries the
  class name and it. \<open>ZoneInfoNotFoundError\<close> is a \<open>UserError\<close> here.
\<close>

definition zone_caught :: "pyexc \<Rightarrow> bool" where
  "zone_caught e = (case e of
       UserError c m \<Rightarrow> c = ''ZoneInfoNotFoundError''
     | ValueError \<Rightarrow> True | JSONDecodeError \<Rightarrow> True
     | OSError \<Rightarrow> True | TimeoutError \<Rightarrow> True | ConnectionError \<Rightarrow> True
     | _ \<Rightarrow> False)"

definition exc_text :: "pyexc \<Rightarrow> string" where
  "exc_text e = (case e of UserError c m \<Rightarrow> m | SystemExit m \<Rightarrow> m | _ \<Rightarrow> [])"

definition resolve_local ::
  "(string \<Rightarrow> 'i \<Rightarrow> local_time res) \<Rightarrow> ('i \<Rightarrow> local_time) \<Rightarrow> 'i \<Rightarrow> string option
    \<Rightarrow> (local_time \<times> string option) res" where
  "resolve_local zone server_local now_utc tz =
     (case tz of
        None \<Rightarrow> Inr (server_local now_utc, None)
      | Some z \<Rightarrow>
          (if z = [] then Inr (server_local now_utc, None)
           else case zone z now_utc of
                  Inr t \<Rightarrow> Inr (t, None)
                | Inl e \<Rightarrow>
                    (if zone_caught e
                     then Inr (server_local now_utc, Some (exc_name e @ '': '' @ exc_text e))
                     else Inl e)))"

definition in_maintenance_window ::
  "(string \<Rightarrow> 'i \<Rightarrow> local_time res) \<Rightarrow> ('i \<Rightarrow> local_time) \<Rightarrow> maintenance_window option
    \<Rightarrow> string option \<Rightarrow> int \<Rightarrow> int \<Rightarrow> 'i \<Rightarrow> window_result res" where
  "in_maintenance_window zone server_local window timezone override_start override_end now_utc =
     (let tz = (if timezone = Some [] then None else timezone);
          bounds = (if 0 \<le> override_start \<and> 0 \<le> override_end
                    then Some (override_start, override_end)
                    else map_option (\<lambda>w. (start_hour w, end_hour w)) window)
      in case bounds of
           None \<Rightarrow> Inr \<lparr>allowed = True, reason = ''no_window_configured'', wr_current = [],
                         wr_window = [], wr_tz = tz, tz_error = None\<rparr>
         | Some (start_h, end_h) \<Rightarrow>
             bind_res (resolve_local zone server_local now_utc tz) (\<lambda>(local_t, err).
               (let h = int (fst local_t);
                    in_win = (if start_h \<le> end_h then start_h \<le> h \<and> h < end_h
                              else start_h \<le> h \<or> h < end_h)
                in Inr \<lparr>allowed = in_win,
                         reason = (if in_win then ''in_window'' else ''outside_window''),
                         wr_current = hhmm local_t,
                         wr_window = two_pad start_h @ '':00-'' @ two_pad end_h @ '':00'',
                         wr_tz = tz, tz_error = err\<rparr>)))"

section \<open>Properties\<close>

text \<open>The local hour the decision is taken at.\<close>

definition local_hour :: "(string \<Rightarrow> 'i \<Rightarrow> local_time res) \<Rightarrow> ('i \<Rightarrow> local_time) \<Rightarrow> string option \<Rightarrow> 'i \<Rightarrow> nat" where
  "local_hour zone server_local timezone now =
     (case timezone of
        None \<Rightarrow> fst (server_local now)
      | Some z \<Rightarrow> if z = [] then fst (server_local now)
                 else (case zone z now of Inr t \<Rightarrow> fst t | Inl e \<Rightarrow> fst (server_local now)))"

lemma resolve_local_hour:
  "resolve_local zone server_local now tz = Inr (t, err) \<Longrightarrow>
   fst t = local_hour zone server_local tz now"
  by (auto simp: resolve_local_def local_hour_def split: option.splits sum.splits if_splits)

text \<open>Hours elapsed since the window opened, around the clock.\<close>

definition hours_into :: "int \<Rightarrow> int \<Rightarrow> int" where
  "hours_into start_h h = (h - start_h) mod 24"

lemma window_hours:
  assumes "0 \<le> s" "s < 24" "0 \<le> e" "e < 24" "0 \<le> h" "h < (24::int)"
  shows "(if s \<le> e then s \<le> h \<and> h < e else s \<le> h \<or> h < e)
     \<longleftrightarrow> hours_into s h < hours_into s e"
proof -
  have m: "hours_into s x = (if s \<le> x then x - s else x - s + 24)" if "0 \<le> x" "x < 24" for x
  proof (cases "s \<le> x")
    case True
    then show ?thesis using assms that by (simp add: hours_into_def)
  next
    case False
    have "(x - s) mod 24 = (x - s + 24) mod 24" by simp
    also have "\<dots> = x - s + 24" using False assms that by (intro mod_pos_pos_trivial) auto
    finally show ?thesis using False by (simp add: hours_into_def)
  qed
  show ?thesis
    using assms by (auto simp: m)
qed

text \<open>A window of hours is read around the clock: the unit is allowed exactly when the hours
  since its start are fewer than the window's length, whether or not the window wraps past
  midnight.\<close>

theorem window_around_the_clock:
  assumes "in_maintenance_window zone server_local (Some w) timezone (-1) (-1) now = Inr r"
    and "0 \<le> start_hour w" "start_hour w < 24" "0 \<le> end_hour w" "end_hour w < 24"
    and "local_hour zone server_local timezone now < 24"
  shows "allowed r \<longleftrightarrow>
     hours_into (start_hour w) (int (local_hour zone server_local timezone now))
       < hours_into (start_hour w) (end_hour w)"
proof -
  let ?tz = "if timezone = Some [] then None else timezone"
  from assms(1) obtain t err where
    res: "resolve_local zone server_local now ?tz = Inr (t, err)" and
    r: "allowed r \<longleftrightarrow> (if start_hour w \<le> end_hour w then start_hour w \<le> int (fst t) \<and> int (fst t) < end_hour w
                       else start_hour w \<le> int (fst t) \<or> int (fst t) < end_hour w)"
    by (auto simp: in_maintenance_window_def Let_def bind_res_Inr_iff)
  have "fst t = local_hour zone server_local timezone now"
    using resolve_local_hour [OF res] by (simp add: local_hour_def split: if_splits)
  then show ?thesis
    unfolding r using assms window_hours [of "start_hour w" "end_hour w" "int (fst t)"] by simp
qed

text \<open>A unit without a window is allowed at any time unless both fleet-wide bounds are given,
  and a window that starts and ends at the same hour never opens.\<close>

theorem window_extremes:
  "in_maintenance_window zone server_local None timezone s e now =
     (if 0 \<le> s \<and> 0 \<le> e
      then in_maintenance_window zone server_local (Some \<lparr>start_hour = s, end_hour = e\<rparr>) timezone (-1) (-1) now
      else Inr \<lparr>allowed = True, reason = ''no_window_configured'', wr_current = [], wr_window = [],
                wr_tz = (if timezone = Some [] then None else timezone), tz_error = None\<rparr>)
   \<and> (\<forall>r. in_maintenance_window zone server_local (Some \<lparr>start_hour = h, end_hour = h\<rparr>) timezone (-1) (-1) now
           = Inr r \<longrightarrow> \<not> allowed r)"
  by (auto simp: in_maintenance_window_def Let_def bind_res_Inr_iff)

text \<open>An unresolvable zone never stops a run: the decision falls back to the server's clock and says so.\<close>

lemma window_bad_zone:
  assumes "zone z now = Inl e" "zone_caught e" "z \<noteq> []"
  shows "\<exists>r. in_maintenance_window zone server_local (Some w) (Some z) (-1) (-1) now = Inr r
     \<and> tz_error r \<noteq> None \<and> wr_current r = hhmm (server_local now)"
  using assms by (auto simp: in_maintenance_window_def resolve_local_def Let_def)

section \<open>Witnesses\<close>

definition ex_zone :: "string \<Rightarrow> nat \<Rightarrow> local_time res" where
  "ex_zone z now = (if z = ''Asia/Jerusalem'' then Inr ((now + 3) mod 24, 0)
                    else Inl (UserError ''ZoneInfoNotFoundError'' ''no such key''))"

definition ex_local :: "nat \<Rightarrow> local_time" where
  "ex_local now = (now mod 24, 0)"

theorem window_around_the_clock_witness:
  "True \<longleftrightarrow> hours_into 22 (int (local_hour ex_zone ex_local (Some ''Asia/Jerusalem'') 23)) < hours_into 22 6"
proof -
  have "in_maintenance_window ex_zone ex_local (Some \<lparr>start_hour = 22, end_hour = 6\<rparr>)
      (Some ''Asia/Jerusalem'') (-1) (-1) 23
    = Inr \<lparr>allowed = True, reason = ''in_window'', wr_current = ''02:00'', wr_window = ''22:00-06:00'',
            wr_tz = Some ''Asia/Jerusalem'', tz_error = None\<rparr>"
    by code_simp
  from window_around_the_clock [OF this] show ?thesis
    by (simp add: local_hour_def ex_zone_def)
qed

theorem window_extremes_witness:
  "\<not> allowed \<lparr>allowed = False, reason = ''outside_window'', wr_current = ''05:00'', wr_window = ''05:00-05:00'',
            wr_tz = None, tz_error = None\<rparr>"
proof -
  have "in_maintenance_window ex_zone ex_local (Some \<lparr>start_hour = 5, end_hour = 5\<rparr>) None (-1) (-1) 5
    = Inr \<lparr>allowed = False, reason = ''outside_window'', wr_current = ''05:00'', wr_window = ''05:00-05:00'',
            wr_tz = None, tz_error = None\<rparr>"
    by code_simp
  with window_extremes [of ex_zone ex_local None "-1" "-1" 5 5] show ?thesis by blast
qed

end
