(* ===== verification/Registry.thy ===== *)
theory Registry
  imports Py_Json
begin

text \<open>
  \<open>server/prov/registry.py\<close>: the unit registry, its closed schema read and written, and which
  units a run works on. The schema is checked by pydantic; what the source relies on of it is
  written out (unknown keys are refused, an identifier is stripped and not empty, a
  \<open>None\<close> is left out of the dump), with the conversion to an integer a parameter
  \<open>to_int\<close>.
\<close>

section \<open>The models\<close>

record maintenance_hours =
  mw_start_hour :: int
  mw_end_hour :: int

record unit_entry =
  ue_hostname :: string
  ue_site :: string
  ue_comment :: "string option"
  ue_timezone :: "string option"
  ue_maintenance_window :: "maintenance_hours option"
  ue_ip :: "string option"
  ue_mac :: "string option"
  ue_modules :: "string list option"
  ue_excluded :: "string option"

definition select_units :: "unit_entry list \<Rightarrow> string list \<Rightarrow> unit_entry list \<times> unit_entry list" where
  "select_units units only_hosts =
     (if only_hosts \<noteq> [] then (filter (\<lambda>u. ue_hostname u \<in> set only_hosts) units, [])
      else (filter (\<lambda>u. ue_excluded u = None \<or> ue_excluded u = Some []) units,
            filter (\<lambda>u. \<not> (ue_excluded u = None \<or> ue_excluded u = Some [])) units))"

section \<open>Reading and writing\<close>

definition validation_error :: pyexc where
  "validation_error = UserError ''ValidationError'' []"

definition ident_value :: "json \<Rightarrow> string res" where
  "ident_value v = (case v of JStr s \<Rightarrow> if strip s = [] then Inl validation_error else Inr (strip s)
                           | _ \<Rightarrow> Inl validation_error)"

definition plain_str :: "json \<Rightarrow> string res" where
  "plain_str v = (case v of JStr s \<Rightarrow> Inr s | _ \<Rightarrow> Inl validation_error)"

text \<open>An optional field: absent and \<open>null\<close> are both \<open>None\<close>.\<close>

definition optional :: "(json \<Rightarrow> 'a res) \<Rightarrow> json \<Rightarrow> 'a option res" where
  "optional f v = (if v = JNull then Inr None else bind_res (f v) (\<lambda>x. Inr (Some x)))"

definition str_items :: "json \<Rightarrow> string list res" where
  "str_items v = (case v of JList xs \<Rightarrow> map_res plain_str xs | _ \<Rightarrow> Inl validation_error)"

definition closed :: "string list \<Rightarrow> (string, json) dict \<Rightarrow> bool" where
  "closed ks d \<longleftrightarrow> list_all (\<lambda>k. k \<in> set ks) (keys d)"

definition validate_window :: "(json \<Rightarrow> int option) \<Rightarrow> json \<Rightarrow> maintenance_hours res" where
  "validate_window to_int v =
     (case v of
        JObj d \<Rightarrow>
          (if closed [''start_hour'', ''end_hour''] d
           then (case (Option.bind (map_of d ''start_hour'') to_int, Option.bind (map_of d ''end_hour'') to_int) of
                   (Some s, Some e) \<Rightarrow> Inr \<lparr>mw_start_hour = s, mw_end_hour = e\<rparr>
                 | _ \<Rightarrow> Inl validation_error)
           else Inl validation_error)
      | _ \<Rightarrow> Inl validation_error)"

definition entry_keys :: "string list" where
  "entry_keys = [''hostname'', ''site'', ''_comment'', ''comment'', ''timezone'', ''maintenance_window'',
                 ''ip'', ''mac'', ''modules'', ''excluded'']"

text \<open>\<open>populate_by_name\<close>: the comment is read under its alias first, then under its name.\<close>

definition comment_of :: "(string, json) dict \<Rightarrow> json" where
  "comment_of d = (case map_of d ''_comment'' of Some v \<Rightarrow> v | None \<Rightarrow> field d ''comment'')"

definition validate_entry :: "(json \<Rightarrow> int option) \<Rightarrow> json \<Rightarrow> unit_entry res" where
  "validate_entry to_int v =
     (case v of
        JObj d \<Rightarrow>
          (if \<not> closed entry_keys d then Inl validation_error
           else
             bind_res (ident_value (field d ''hostname'')) (\<lambda>hostname.
             bind_res (ident_value (field d ''site'')) (\<lambda>site.
             bind_res (optional plain_str (comment_of d)) (\<lambda>comment.
             bind_res (optional plain_str (field d ''timezone'')) (\<lambda>timezone.
             bind_res (optional (validate_window to_int) (field d ''maintenance_window'')) (\<lambda>window.
             bind_res (optional plain_str (field d ''ip'')) (\<lambda>ip.
             bind_res (optional plain_str (field d ''mac'')) (\<lambda>mac.
             bind_res (optional str_items (field d ''modules'')) (\<lambda>modules.
             bind_res (optional ident_value (field d ''excluded'')) (\<lambda>excluded.
             Inr \<lparr>ue_hostname = hostname, ue_site = site, ue_comment = comment, ue_timezone = timezone,
                  ue_maintenance_window = window, ue_ip = ip, ue_mac = mac, ue_modules = modules,
                  ue_excluded = excluded\<rparr>))))))))))
      | _ \<Rightarrow> Inl validation_error)"

text \<open>The registry's text is a JSON list; every malformed file is a \<open>TypeError\<close> naming it.\<close>

definition load_unit_registry :: "(json \<Rightarrow> int option) \<Rightarrow> json \<Rightarrow> unit_entry list res" where
  "load_unit_registry to_int doc =
     (case doc of
        JList entries \<Rightarrow>
          (case map_res (validate_entry to_int) entries of
             Inr es \<Rightarrow> Inr es
           | Inl e \<Rightarrow> Inl (if e = validation_error then TypeError else e))
      | _ \<Rightarrow> Inl TypeError)"

definition opt_field :: "string \<Rightarrow> ('a \<Rightarrow> json) \<Rightarrow> 'a option \<Rightarrow> (string, json) dict" where
  "opt_field k f v = (case v of None \<Rightarrow> [] | Some x \<Rightarrow> [(k, f x)])"

definition dump_window :: "maintenance_hours \<Rightarrow> json" where
  "dump_window w = JObj [(''start_hour'', JInt (mw_start_hour w)), (''end_hour'', JInt (mw_end_hour w))]"

definition dump_entry :: "unit_entry \<Rightarrow> json" where
  "dump_entry u = JObj
     ([(''hostname'', JStr (ue_hostname u)), (''site'', JStr (ue_site u))]
      @ opt_field ''_comment'' JStr (ue_comment u)
      @ opt_field ''timezone'' JStr (ue_timezone u)
      @ opt_field ''maintenance_window'' dump_window (ue_maintenance_window u)
      @ opt_field ''ip'' JStr (ue_ip u)
      @ opt_field ''mac'' JStr (ue_mac u)
      @ opt_field ''modules'' (\<lambda>ms. JList (map JStr ms)) (ue_modules u)
      @ opt_field ''excluded'' JStr (ue_excluded u))"

definition dump_unit_registry :: "unit_entry list \<Rightarrow> json" where
  "dump_unit_registry entries = JList (map dump_entry entries)"

section \<open>Properties\<close>

text \<open>What validation guarantees of an entry.\<close>

definition valid_entry :: "unit_entry \<Rightarrow> bool" where
  "valid_entry u \<longleftrightarrow> strip (ue_hostname u) = ue_hostname u \<and> ue_hostname u \<noteq> []
     \<and> strip (ue_site u) = ue_site u \<and> ue_site u \<noteq> []
     \<and> (\<forall>x. ue_excluded u = Some x \<longrightarrow> strip x = x \<and> x \<noteq> [])"

lemma map_of_opt_field [simp]:
  "map_of (opt_field k f v @ d) k' = (if k' = k \<and> v \<noteq> None then map_option f v else map_of d k')"
  "map_of (opt_field k f v) k' = (if k' = k then map_option f v else None)"
  by (cases v; simp add: opt_field_def)+

lemma keys_opt_field: "set (keys (opt_field k f v)) \<subseteq> {k}"
  by (cases v) (simp_all add: opt_field_def keys_def)

lemma map_res_JStr: "map_res plain_str (map JStr ms) = Inr ms"
  by (induction ms) (simp_all add: plain_str_def)

lemma ident_value_JStr: "strip s = s \<Longrightarrow> s \<noteq> [] \<Longrightarrow> ident_value (JStr s) = Inr s"
  by (simp add: ident_value_def)

lemma optional_field:
  "\<lbrakk>\<And>x. v = Some x \<Longrightarrow> g (f x) = Inr x; \<And>x. f x \<noteq> JNull\<rbrakk> \<Longrightarrow>
   optional g (case map_option f v of None \<Rightarrow> JNull | Some w \<Rightarrow> w) = Inr v"
  by (cases v) (simp_all add: optional_def)

lemma closed_simps:
  "closed ks (d @ d') \<longleftrightarrow> closed ks d \<and> closed ks d'"
  "closed ks (e # d) \<longleftrightarrow> fst e \<in> set ks \<and> closed ks d"
  "closed ks []"
  "k \<in> set ks \<Longrightarrow> closed ks (opt_field k f v)"
  by (simp_all add: closed_def keys_def opt_field_def split: option.split)

lemma dump_closed:
  "closed entry_keys ([(''hostname'', h), (''site'', s)] @ opt_field ''_comment'' f1 v1 @ opt_field ''timezone'' f2 v2
      @ opt_field ''maintenance_window'' f3 v3 @ opt_field ''ip'' f4 v4 @ opt_field ''mac'' f5 v5
      @ opt_field ''modules'' f6 v6 @ opt_field ''excluded'' f7 v7)"
  by (simp add: closed_simps entry_keys_def)

lemma entry_round_trip:
  assumes "valid_entry u" and to_int: "\<And>i. to_int (JInt i) = Some i"
  shows "validate_entry to_int (dump_entry u) = Inr u"
proof -
  let ?d = "[(''hostname'', JStr (ue_hostname u)), (''site'', JStr (ue_site u))]
      @ opt_field ''_comment'' JStr (ue_comment u)
      @ opt_field ''timezone'' JStr (ue_timezone u)
      @ opt_field ''maintenance_window'' dump_window (ue_maintenance_window u)
      @ opt_field ''ip'' JStr (ue_ip u)
      @ opt_field ''mac'' JStr (ue_mac u)
      @ opt_field ''modules'' (\<lambda>ms. JList (map JStr ms)) (ue_modules u)
      @ opt_field ''excluded'' JStr (ue_excluded u)"
  have w: "validate_window to_int (dump_window x) = Inr x" for x
    by (simp add: validate_window_def dump_window_def closed_def keys_def to_int)
  have f: "ident_value (field ?d ''hostname'') = Inr (ue_hostname u)"
    "ident_value (field ?d ''site'') = Inr (ue_site u)"
    using assms(1) by (simp_all add: field_def ident_value_JStr valid_entry_def)
  have c: "comment_of ?d = (case map_option JStr (ue_comment u) of None \<Rightarrow> JNull | Some v \<Rightarrow> v)"
    by (cases "ue_comment u") (simp_all add: comment_of_def field_def del: map_of_append)
  have g: "field ?d ''timezone'' = (case map_option JStr (ue_timezone u) of None \<Rightarrow> JNull | Some v \<Rightarrow> v)"
    "field ?d ''maintenance_window'' = (case map_option dump_window (ue_maintenance_window u) of None \<Rightarrow> JNull | Some v \<Rightarrow> v)"
    "field ?d ''ip'' = (case map_option JStr (ue_ip u) of None \<Rightarrow> JNull | Some v \<Rightarrow> v)"
    "field ?d ''mac'' = (case map_option JStr (ue_mac u) of None \<Rightarrow> JNull | Some v \<Rightarrow> v)"
    "field ?d ''modules'' = (case map_option (\<lambda>ms. JList (map JStr ms)) (ue_modules u) of None \<Rightarrow> JNull | Some v \<Rightarrow> v)"
    "field ?d ''excluded'' = (case map_option JStr (ue_excluded u) of None \<Rightarrow> JNull | Some v \<Rightarrow> v)"
    by (simp_all add: field_def del: map_of_append)
  have o: "optional plain_str (case map_option JStr v of None \<Rightarrow> JNull | Some w \<Rightarrow> w) = Inr v" for v
    by (rule optional_field) (simp_all add: plain_str_def)
  have o2: "optional (validate_window to_int) (case map_option dump_window v of None \<Rightarrow> JNull | Some w \<Rightarrow> w) = Inr v" for v
    by (rule optional_field [OF w]) (simp_all add: dump_window_def)
  have o3: "optional str_items (case map_option (\<lambda>ms. JList (map JStr ms)) v of None \<Rightarrow> JNull | Some w \<Rightarrow> w) = Inr v" for v
    by (rule optional_field) (simp_all add: str_items_def map_res_JStr)
  have o4: "optional ident_value (case map_option JStr (ue_excluded u) of None \<Rightarrow> JNull | Some w \<Rightarrow> w) = Inr (ue_excluded u)"
    using assms(1) by (intro optional_field) (simp_all add: valid_entry_def ident_value_JStr)
  show ?thesis
    unfolding dump_entry_def validate_entry_def json.case
    by (simp only: dump_closed f c g o o2 o3 o4 bind_res_simps not_True_eq_False if_False) simp
qed

text \<open>Writing the registry back loses nothing: reading what was written gives the very entries
  that were read, whatever optional fields they carry.\<close>

theorem registry_round_trip:
  assumes "list_all valid_entry units" and "\<And>i. to_int (JInt i) = Some i"
  shows "load_unit_registry to_int (dump_unit_registry units) = Inr units"
proof -
  have "map_res (validate_entry to_int) (map dump_entry units) = Inr units"
    using assms by (induction units) (simp_all add: entry_round_trip)
  then show ?thesis by (simp add: load_unit_registry_def dump_unit_registry_def)
qed

text \<open>What a run works on and what it leaves out.\<close>

lemma select_units_partition:
  "select_units units [] = (run, skipped) \<Longrightarrow> set run \<union> set skipped = set units \<and> set run \<inter> set skipped = {}"
  by (auto simp: select_units_def)

lemma select_units_named:
  "only \<noteq> [] \<Longrightarrow> select_units units only = (run, skipped) \<Longrightarrow>
   skipped = [] \<and> (\<forall>u. u \<in> set run \<longleftrightarrow> u \<in> set units \<and> ue_hostname u \<in> set only)"
  by (auto simp: select_units_def)

section \<open>Witnesses\<close>

definition ex_unit :: unit_entry where
  "ex_unit = \<lparr>ue_hostname = ''mast01'', ue_site = ''ns'', ue_comment = Some ''spare'', ue_timezone = None,
     ue_maintenance_window = Some \<lparr>mw_start_hour = 22, mw_end_hour = 6\<rparr>, ue_ip = None, ue_mac = None,
     ue_modules = Some [''git''], ue_excluded = None\<rparr>"

definition ex_to_int :: "json \<Rightarrow> int option" where
  "ex_to_int v = (case v of JInt i \<Rightarrow> Some i | _ \<Rightarrow> None)"

theorem registry_round_trip_witness:
  "load_unit_registry ex_to_int (dump_unit_registry [ex_unit]) = Inr [ex_unit]"
  by (rule registry_round_trip)
     (simp_all add: ex_unit_def valid_entry_def ex_to_int_def strip_def lstrip_def rstrip_def is_space_def code_def)

end
