(* ===== verification/Driver_World.thy ===== *)
theory Driver_World
  imports Effects Transport_Text Drift Payload Staging Retention Maintenance Registry Relay
begin

text \<open>
  What the driver of \<open>src/server/prov/driver.py\<close> works on: its configuration, the state of a
  \<open>Driver\<close> object with the locals of the unit it is processing, the timeline of what it
  did (remote scripts, uploads, builds, log events, activity rows), and the world outside the
  process. The world is an \<open>env\<close>: one reply for each question, as a function of the number of
  questions asked before, so any behaviour of the units, the clock and the network is one.
\<close>

section \<open>Remote scripts\<close>

text \<open>The scripts the driver sends, by what they ask; \<open>ps_text\<close> of the next theory is their text.\<close>

datatype script =
    ReadFile string            \<comment> \<open>a status file, or nothing\<close>
  | ReachStaging string        \<comment> \<open>can the unit open SMB to this address\<close>
  | InventoryScript
  | StandDown                  \<comment> \<open>remove the MAST services\<close>
  | WriteJson string json      \<comment> \<open>a file of the unit and its content\<close>
  | Pull pull_args             \<comment> \<open>the pull script with its arguments\<close>
  | ProtectCred                \<comment> \<open>turn the plaintext of the shared account into a blob\<close>
  | RegisterRun                \<comment> \<open>register the detached run\<close>
  | DeleteTask
  | SmokeScript "string list"
  | SessionCheck string
  | ArchivePull string

section \<open>The timeline\<close>

type_synonym fields = "(string \<times> string) list"

datatype act =
    Ps nat script
  | Upload nat string string          \<comment> \<open>session, path on the unit, content\<close>
  | Connect string
  | Dispose nat
  | Build string "string list"        \<comment> \<open>host and command line\<close>
  | SyncRelay string                  \<comment> \<open>host\<close>
  | WriteLocal string string          \<comment> \<open>a file of the server\<close>
  | Sleep int
  | Event string fields
  | Activity string string string int string string
      \<comment> \<open>host, outcome, reason, duration, payload hash, git revision\<close>
  | RemoveRun string                  \<comment> \<open>a session directory retention removed\<close>

section \<open>Configuration, environment and state\<close>

record config =
  repo_top :: string
  cfg_unit_registry :: string
  cfg_vault_creds :: string
  cfg_modules :: "string list"
  cfg_only_hosts :: "string list"
  cfg_proxy_mode :: string
  cfg_dry_run :: bool
  cfg_force :: bool
  cfg_test_mode :: bool
  maint_window_start :: int
  maint_window_end :: int
  retain_runs :: int

text \<open>
  Answers of the world. Times are nanoseconds; a registry file is read as JSON and its
  \<open>int\<close> coercion is that of the validation library; a staging directory is the finite list of
  its directories. \<open>e_ps\<close> is the decoded standard output of \<open>transport.run_ps\<close> or what it raises.
\<close>

record env =
  e_exists :: "nat \<Rightarrow> string \<Rightarrow> bool"
  e_read :: "nat \<Rightarrow> string \<Rightarrow> string res"
  e_write :: "nat \<Rightarrow> string \<Rightarrow> unit res"
  e_now :: "nat \<Rightarrow> int"
  e_mono :: "nat \<Rightarrow> int"
  e_instant :: "string \<Rightarrow> int option res"   \<comment> \<open>\<open>datetime.fromisoformat\<close>; none when it carries no zone\<close>
  e_zone :: "string \<Rightarrow> int \<Rightarrow> local_time res"
  e_server_local :: "int \<Rightarrow> local_time"
  e_to_int :: "json \<Rightarrow> int option"
  e_resolve :: "nat \<Rightarrow> string \<Rightarrow> string res"
  e_local_address :: "nat \<Rightarrow> string \<Rightarrow> string"
  e_tcp :: "nat \<Rightarrow> string \<Rightarrow> nat \<Rightarrow> bool"
  e_connect :: "nat \<Rightarrow> string \<Rightarrow> nat res"
  e_ps :: "nat \<Rightarrow> nat \<Rightarrow> script \<Rightarrow> string res"
  e_upload :: "nat \<Rightarrow> string \<Rightarrow> unit res"
  e_build :: "nat \<Rightarrow> string \<Rightarrow> int res"
  e_sync :: "nat \<Rightarrow> string \<Rightarrow> sync_result res"
  e_providers :: "nat \<Rightarrow> (string \<times> string option) list option"
  e_diverged :: "nat \<Rightarrow> (string \<times> string \<times> string) list res"
  e_staging :: "nat \<Rightarrow> string \<Rightarrow> (string \<times> dir_entry list) list"
  e_smb_check :: "nat \<Rightarrow> string option res"  \<comment> \<open>none on a server that is not Windows\<close>
  e_username :: "string option"
  e_identity :: string
  e_sessions :: "nat \<Rightarrow> sessions_dir"
  e_rmtree_fails :: "nat \<Rightarrow> string \<Rightarrow> bool"
  e_decode64 :: "string \<Rightarrow> string res"
  e_log_root :: string
  e_status_root :: string

record driver =
  tick :: nat
  slept :: int                         \<comment> \<open>nanoseconds spent in \<open>time.sleep\<close>\<close>
  trace :: "act list"
  run_id :: string
  run_start :: int
  exit_code :: int
  units_checked :: nat
  execute_refused :: bool
  prov_address :: string
  the_relay :: "staging_host option"
  staging_share :: string
  staging_dir :: string
  unit_stage :: string
  staging_hosts :: "(string, staging_host) dict"
  d_creds :: "(string, json) dict"
  smb_user :: json
  smb_pass :: json
  shared_user :: json
  shared_pass :: json
  unit_outcomes :: "(string, string) dict"
  u_payload_hash :: json               \<comment> \<open>the locals of \<open>_process_unit\<close> its handlers read\<close>
  u_git_sha :: json
  u_lease_held :: bool
  u_session :: "nat option"
  u_start :: int

type_synonym 'a drv = "(driver, 'a) eff"

section \<open>Asking and logging\<close>

text \<open>One question to the world: its number is used up.\<close>

definition ask :: "(nat \<Rightarrow> 'a) \<Rightarrow> 'a drv" where
  "ask q = (\<lambda>s. (Inr (q (tick s)), s\<lparr>tick := tick s + 1\<rparr>))"

definition act :: "act \<Rightarrow> unit drv" where
  "act a = modifyM (\<lambda>s. s\<lparr>trace := trace s @ [a]\<rparr>)"

text \<open>\<open>time.monotonic()\<close>: what the process's own sleeps add up to, and whatever else the world
  makes of the clock; and \<open>time.sleep\<close>.\<close>

definition mono_clock :: "env \<Rightarrow> int drv" where
  "mono_clock E = bindM (gets slept) (\<lambda>t. bindM (ask (e_mono E)) (\<lambda>c. ret (c + t)))"

definition second :: int where "second = 1000000000"

definition sleep :: "int \<Rightarrow> unit drv" where
  "sleep seconds = seqM (act (Sleep seconds)) (modifyM (\<lambda>s. s\<lparr>slept := slept s + seconds * second\<rparr>))"

text \<open>A question that is also a deed, on the timeline whether it succeeds or raises.\<close>

definition deed :: "act \<Rightarrow> (nat \<Rightarrow> 'a res) \<Rightarrow> 'a drv" where
  "deed a q = seqM (act a) (bindM (ask q) liftR)"

definition event :: "string \<Rightarrow> fields \<Rightarrow> unit drv" where
  "event kind fs = act (Event kind fs)"

text \<open>\<open>RunLog.activity\<close>: the row, and the outcome \<open>_finish\<close> counts.\<close>

definition activity :: "string \<Rightarrow> string \<Rightarrow> string \<Rightarrow> int \<Rightarrow> string \<Rightarrow> string \<Rightarrow> unit drv" where
  "activity unit outcome why duration payload_hash git_sha =
     seqM (act (Activity unit outcome why duration payload_hash git_sha))
          (modifyM (\<lambda>s. s\<lparr>unit_outcomes := dict_set unit outcome (unit_outcomes s)\<rparr>))"

definition set_exit :: "int \<Rightarrow> unit drv" where
  "set_exit c = modifyM (\<lambda>s. s\<lparr>exit_code := c\<rparr>)"

definition EXIT_OK :: int where "EXIT_OK = 0"
definition EXIT_UNIT_FAIL :: int where "EXIT_UNIT_FAIL = 1"
definition EXIT_FATAL :: int where "EXIT_FATAL = 2"
definition EXECUTE_EXIT_LEASE_HELD :: int where "EXECUTE_EXIT_LEASE_HELD = 10"

text \<open>\<open>except Exception\<close>: everything but a \<open>SystemExit\<close>.\<close>

fun is_exception :: "pyexc \<Rightarrow> bool" where
  "is_exception (SystemExit m) = False"
| "is_exception e = True"

definition catch_exception :: "'a drv \<Rightarrow> (pyexc \<Rightarrow> 'a drv) \<Rightarrow> 'a drv" where
  "catch_exception m h = catchM m (\<lambda>e. if is_exception e then h e else raise e)"

definition exc_text :: "pyexc \<Rightarrow> string" where
  "exc_text e = exc_name e @ '': '' @ exc_msg e"

text \<open>A remote script of the driver, its output decoded.\<close>

definition ps_out :: "env \<Rightarrow> nat \<Rightarrow> script \<Rightarrow> string drv" where
  "ps_out E sess sc = deed (Ps sess sc) (\<lambda>n. e_ps E n sess sc)"

definition upload :: "env \<Rightarrow> nat \<Rightarrow> string \<Rightarrow> string \<Rightarrow> unit drv" where
  "upload E sess path content = deed (Upload sess path content) (\<lambda>n. e_upload E n path)"

definition connect_unit :: "env \<Rightarrow> string \<Rightarrow> nat drv" where
  "connect_unit E host = deed (Connect host) (\<lambda>n. e_connect E n host)"

definition write_local :: "env \<Rightarrow> string \<Rightarrow> string \<Rightarrow> unit drv" where
  "write_local E path content = deed (WriteLocal path content) (\<lambda>n. e_write E n path)"

section \<open>Numbers and instants\<close>

text \<open>\<open>round\<close> of the quotient of two integers, halves to even.\<close>

definition round_div :: "int \<Rightarrow> int \<Rightarrow> int" where
  "round_div n d =
     (let q = n div d; r = n mod d
      in if 2 * r < d then q else if d < 2 * r then q + 1 else if even q then q else q + 1)"

text \<open>A number of tenths, as Python shows the float.\<close>

definition tenths_str :: "int \<Rightarrow> string" where
  "tenths_str t = (if t < 0 then ''-'' else []) @ int_str (\<bar>t\<bar> div 10) @ ''.'' @ int_str (\<bar>t\<bar> mod 10)"

definition seconds_str :: "int \<Rightarrow> string" where
  "seconds_str ns = tenths_str (round_div (10 * ns) second)"

text \<open>\<open>transfer_rate_mbps\<close>, in tenths of a MiB/s, from nanoseconds.\<close>

definition transfer_rate_tenths :: "int \<Rightarrow> int \<Rightarrow> int" where
  "transfer_rate_tenths byte_count ns =
     (if ns \<le> 0 then 0 else round_div (byte_count * 10 * second) (1048576 * ns))"

definition TRANSFER_SLOW_MIN_SECONDS :: int where "TRANSFER_SLOW_MIN_SECONDS = 30 * second"
definition TRANSFER_SLOW_FLOOR_MBPS :: int where "TRANSFER_SLOW_FLOOR_MBPS = 400"

definition transfer_is_slow :: "int \<Rightarrow> int \<Rightarrow> bool" where
  "transfer_is_slow byte_count ns =
     (if ns < TRANSFER_SLOW_MIN_SECONDS then False
      else let rate = transfer_rate_tenths byte_count ns
           in rate \<noteq> 0 \<and> rate < TRANSFER_SLOW_FLOOR_MBPS)"

text \<open>\<open>strftime('%Y-%m-%dT%H:%M:%SZ')\<close> of an instant: the civil date of the day number.\<close>

definition civil :: "int \<Rightarrow> int \<times> int \<times> int" where
  "civil days =
     (let z = days + 719468; era = z div 146097; doe = z mod 146097;
          yoe = (doe - doe div 1460 + doe div 36524 - doe div 146096) div 365;
          doy = doe - (365 * yoe + yoe div 4 - yoe div 100);
          mp = (5 * doy + 2) div 153;
          d = doy - (153 * mp + 2) div 5 + 1;
          m = (if mp < 10 then mp + 3 else mp - 9)
      in (yoe + era * 400 + (if m \<le> 2 then 1 else 0), m, d))"

definition utc_stamp :: "int \<Rightarrow> string" where
  "utc_stamp ns =
     (let t = ns div second; (y, m, d) = civil (t div 86400); r = t mod 86400
      in int_str y @ ''-'' @ two_pad m @ ''-'' @ two_pad d @ ''T'' @ two_pad (r div 3600) @ '':''
         @ two_pad (r mod 3600 div 60) @ '':'' @ two_pad (r mod 60) @ ''Z'')"

text \<open>\<open>int(seconds)\<close> of an elapsed time.\<close>

definition whole_seconds :: "int \<Rightarrow> int" where
  "whole_seconds ns = (if 0 \<le> ns then ns div second else - ((- ns) div second))"

definition dur :: "env \<Rightarrow> int drv" where
  "dur E = bindM (ask (e_now E)) (\<lambda>now. gets (\<lambda>s. whole_seconds (now - u_start s)))"

text \<open>An activity row of the unit being processed, with what is known of its payload so far; and
  the rows after which the run has failed.\<close>

definition row :: "env \<Rightarrow> string \<Rightarrow> string \<Rightarrow> string \<Rightarrow> unit drv" where
  "row E host outcome why =
     bindM (dur E) (\<lambda>d. bindM (gets id) (\<lambda>s.
       activity host outcome why d (py_str (u_payload_hash s)) (py_str (u_git_sha s))))"

definition fail_row :: "env \<Rightarrow> string \<Rightarrow> string \<Rightarrow> string \<Rightarrow> unit drv" where
  "fail_row E host outcome why = seqM (row E host outcome why) (set_exit EXIT_UNIT_FAIL)"

section \<open>Parsing what the units report\<close>

text \<open>\<open>json.loads\<close> raises nothing but a \<open>JSONDecodeError\<close>, which the source answers with \<open>None\<close>.\<close>

definition parse_json_or_none :: "string \<Rightarrow> json" where
  "parse_json_or_none text =
     (let t = strip text in
      if t = [] then JNull else case parse_json_text t of Inl e \<Rightarrow> JNull | Inr v \<Rightarrow> v)"

fun marker_lines :: "string list \<Rightarrow> string \<Rightarrow> json" where
  "marker_lines [] marker = JNull"
| "marker_lines (l # ls) marker =
     (if startswith marker l then parse_json_or_none (drop (length marker) l) else marker_lines ls marker)"

definition marker_json :: "string \<Rightarrow> string \<Rightarrow> json" where
  "marker_json stdout marker = marker_lines (splitlines stdout) marker"

text \<open>The number a JSON number is as a dictionary key, where \<open>True\<close> and \<open>1.0\<close> are \<open>1\<close>; a list
  or an object is no key.\<close>

definition hashable :: "json \<Rightarrow> bool" where
  "hashable v \<longleftrightarrow> (case v of JList _ \<Rightarrow> False | JObj _ \<Rightarrow> False | _ \<Rightarrow> True)"

definition small_key :: "json \<Rightarrow> int option" where
  "small_key v = (case v of JInt i \<Rightarrow> Some i | JBool b \<Rightarrow> Some (if b then 1 else 0)
     | JFloat t \<Rightarrow> (if t = ''0.0'' \<or> t = ''-0.0'' then Some 0 else if t = ''1.0'' then Some 1 else None)
     | _ \<Rightarrow> None)"

text \<open>\<open>int(v)\<close> of a JSON value; of a float the digits before its point.\<close>

definition py_int_json :: "json \<Rightarrow> int res" where
  "py_int_json v =
     (case v of JInt i \<Rightarrow> Inr i | JBool b \<Rightarrow> Inr (if b then 1 else 0) | JStr t \<Rightarrow> py_int t
      | JFloat t \<Rightarrow> py_int (hd (split_on CHR ''.'' t))
      | _ \<Rightarrow> Inl TypeError)"

end
