(* ===== verification/Driver_Phases.thy ===== *)
theory Driver_Phases
  imports Driver_World
begin

text \<open>
  The phases of \<open>Driver._process_unit\<close> up to the transfer, one definition for each method of
  \<open>src/server/prov/driver.py\<close>: preflight, module resolution, inventory, stand-down, build,
  relay sync, availability.
\<close>

section \<open>Unit paths\<close>

definition bs :: string where "bs = [backslash]"

definition UNIT_STATUS_DIR :: string where "UNIT_STATUS_DIR = ''C:'' @ bs @ ''MAST'' @ bs @ ''status''"
definition UNIT_AVAIL :: string where "UNIT_AVAIL = UNIT_STATUS_DIR @ bs @ ''availability.json''"
definition UNIT_INSTALLED :: string where "UNIT_INSTALLED = ''C:'' @ bs @ ''MAST'' @ bs @ ''installed-manifest.json''"
definition UNIT_VALIDATION :: string where "UNIT_VALIDATION = UNIT_STATUS_DIR @ bs @ ''validation.json''"
definition UNIT_PULL_SCRIPT :: string where "UNIT_PULL_SCRIPT = ''C:'' @ bs @ ''MAST'' @ bs @ ''mast-pull-staging.ps1''"
definition UNIT_DETACHED_RUNNER :: string where "UNIT_DETACHED_RUNNER = ''C:'' @ bs @ ''MAST'' @ bs @ ''mast-run-detached.ps1''"
definition UNIT_DETACHED_CFG :: string where "UNIT_DETACHED_CFG = UNIT_STATUS_DIR @ bs @ ''detached-run.json''"
definition UNIT_EXECUTE_RESULT :: string where "UNIT_EXECUTE_RESULT = UNIT_STATUS_DIR @ bs @ ''execute-result.json''"
definition UNIT_EXECUTE_LEASE :: string where "UNIT_EXECUTE_LEASE = UNIT_STATUS_DIR @ bs @ ''execute-lease.json''"
definition UNIT_SHARED_PLAIN :: string where "UNIT_SHARED_PLAIN = UNIT_STATUS_DIR @ bs @ ''shared-cred.tmp''"
definition UNIT_SHARED_CFG :: string where "UNIT_SHARED_CFG = UNIT_STATUS_DIR @ bs @ ''shared-cred.json''"

definition STAND_DOWN_SERVICES :: "string list" where
  "STAND_DOWN_SERVICES = [''mast-unit'', ''mast-pwi4'', ''mast-pwshutter'', ''mast-phd2'']"

definition STAND_DOWN_LEGACY_SERVICES :: "string list" where
  "STAND_DOWN_LEGACY_SERVICES = [''PWI4'', ''PWShutter'', ''PHD2'']"

definition AVAIL_TTL_S :: int where "AVAIL_TTL_S = 7200"

section \<open>Preflight\<close>

definition preflight_smb :: "env \<Rightarrow> unit drv" where
  "preflight_smb E =
     bindM (ask (e_smb_check E)) (\<lambda>checked.
     bindM (liftR checked) (\<lambda>answer.
     case answer of
       None \<Rightarrow> event ''PREFLIGHT_SMB_SKIP'' [(''reason'', ''non_windows_server''), (''server_os'', ''posix'')]
     | Some stdout \<Rightarrow>
         let res = marker_json stdout ''SMBRESULT '' in
         bindM (if truthy res
                then bindM (liftR (jget res ''ok'')) (\<lambda>lower_ok. liftR (jget_default res ''Ok'' lower_ok))
                else ret (JBool True)) (\<lambda>ok.
         if \<not> truthy ok
         then bindM (liftR (jget res ''Failures'')) (\<lambda>f1. bindM (liftR (jget res ''failures'')) (\<lambda>f2.
              bindM (liftR (jiter (jor (jor f1 f2) (JList [])))) (\<lambda>fs.
              seqM (event ''PREFLIGHT_SMB_FAIL'' [(''failures'', join '';'' (map py_str fs))])
                   (set_exit EXIT_UNIT_FAIL))))
         else event ''PREFLIGHT_SMB_OK'' [])))"

definition TREE_DIVERGENCE_REPORT_LIMIT :: nat where "TREE_DIVERGENCE_REPORT_LIMIT = 20"

definition preflight_tree :: "env \<Rightarrow> unit drv" where
  "preflight_tree E =
     bindM (ask (e_diverged E)) (\<lambda>r.
     case r of
       Inl e \<Rightarrow> (if is_exception e then event ''PREFLIGHT_TREE_UNVERIFIED'' [(''error'', exc_text e)] else raise e)
     | Inr diverged \<Rightarrow>
         if diverged = [] then event ''PREFLIGHT_TREE_OK'' []
         else
           seqM (forM (take TREE_DIVERGENCE_REPORT_LIMIT diverged) (\<lambda>(p, why, detail).
                   event ''TREE_DIVERGED'' [(''path'', p), (''reason'', why), (''detail'', detail)]))
          (seqM (event ''PREFLIGHT_TREE_FAIL'' [(''diverged'', nat_str (length diverged)),
                   (''hint'', ''tree does not match its own commit; re-checkout to repair -- see MAST_provisioning#216'')])
                (set_exit EXIT_FATAL)))"

section \<open>Which modules\<close>

text \<open>Each provider directory with the text of its \<open>module.json\<close>, if it has one; none when there is
  no providers directory.\<close>

type_synonym providers = "(string \<times> string option) list option"

definition provider_bodies :: "providers \<Rightarrow> (string \<times> json) list" where
  "provider_bodies ps =
     (case ps of None \<Rightarrow> []
      | Some ds \<Rightarrow> concat (map (\<lambda>(n, t). case t of None \<Rightarrow> [] | Some t \<Rightarrow> [(n, jor (parse_json_or_none t) (JObj []))]) ds))"

definition module_order :: "providers \<Rightarrow> (string, int) dict res" where
  "module_order ps =
     bind_res (map_res (\<lambda>(n, body). bind_res (jget body ''order'') (\<lambda>v.
                 bind_res (py_int_json (jor v (JInt 0))) (\<lambda>i. Inr (n, i)))) (provider_bodies ps))
       (\<lambda>out. Inr (dict_of_pairs out []))"

definition always_modules :: "providers \<Rightarrow> string list res" where
  "always_modules ps =
     bind_res (map_res (\<lambda>(n, body). bind_res (jget body ''always'') (\<lambda>v. Inr (n, truthy v))) (provider_bodies ps))
       (\<lambda>found. Inr (map fst (filter snd found)))"

definition resolve_modules :: "unit_entry \<Rightarrow> providers \<Rightarrow> string list" where
  "resolve_modules u ps =
     (case ue_modules u of
        Some (m # ms) \<Rightarrow> m # ms
      | _ \<Rightarrow> (case ps of None \<Rightarrow> [] | Some ds \<Rightarrow> sort (map fst (filter (\<lambda>(n, t). t \<noteq> None) ds))))"

definition requested_modules :: "string list \<Rightarrow> string list" where
  "requested_modules ms = concat (map (\<lambda>m. filter (\<lambda>p. p \<noteq> []) (split_on CHR '','' m)) ms)"

text \<open>\<open>sorted(out, key=lambda n: (order.get(n, 0), n))\<close>: the sort on the pair is the stable
  sort on the number after the sort on the name.\<close>

definition order_of :: "(string, int) dict \<Rightarrow> string \<Rightarrow> int" where
  "order_of order n = (case map_of order n of None \<Rightarrow> 0 | Some i \<Rightarrow> i)"

definition add_new :: "string list \<Rightarrow> string list \<Rightarrow> string list" where
  "add_new extra out = fold (\<lambda>n out. if n \<in> set out then out else out @ [n]) extra out"

definition filter_targets :: "string list \<Rightarrow> providers \<Rightarrow> providers \<Rightarrow> string list \<Rightarrow> string list \<Rightarrow> string list res" where
  "filter_targets requested ps1 ps2 targeted full_set =
     (let named = requested_modules requested;
          wanted = (if targeted = [] then full_set else targeted);
          real = filter (\<lambda>n. n \<in> set named) wanted
      in if real = [] then Inr []
         else bind_res (module_order ps1) (\<lambda>order. bind_res (always_modules ps2) (\<lambda>always.
                Inr (sort_key (order_of order) (sort (add_new always real))))))"

section \<open>First contact: staging reachability, inventory, an old lease\<close>

definition unit_can_reach_staging :: "env \<Rightarrow> nat \<Rightarrow> bool drv" where
  "unit_can_reach_staging E sess =
     bindM (gets prov_address) (\<lambda>a. bindM (ps_out E sess (ReachStaging a)) (\<lambda>out. ret (contains ''SMBREACH ok'' out)))"

text \<open>\<open>unit.mac = mac\<close> and the registry written back; a value that is no text is kept as its text.\<close>

definition mac_value :: "json \<Rightarrow> string option" where
  "mac_value v = (if v = JNull then None else Some (py_str v))"

definition persist_mac :: "env \<Rightarrow> config \<Rightarrow> unit_entry \<Rightarrow> json \<Rightarrow> unit drv" where
  "persist_mac E cfg u mac =
     catch_exception
       (bindM (ask (\<lambda>n. e_read E n (cfg_unit_registry cfg))) (\<lambda>t.
        bindM (liftR (bind_res (load_json_file t) (load_unit_registry (e_to_int E)))) (\<lambda>units.
        let units' = map (\<lambda>x. if ue_hostname x = ue_hostname u then x\<lparr>ue_mac := mac_value mac\<rparr> else x) units in
        seqM (write_local E (cfg_unit_registry cfg) (dumps_indent 0 (dump_unit_registry units')))
             (event ''REGISTRY_MAC_SET'' [(''unit'', ue_hostname u), (''mac'', py_str mac)]))))
       (\<lambda>e. event ''REGISTRY_MAC_WARN'' [(''unit'', ue_hostname u), (''error'', exc_text e)])"

definition adapter_up :: "json \<Rightarrow> bool res" where
  "adapter_up a =
     bind_res (jget a ''status'') (\<lambda>st. bind_res (jget_default a ''media'' (JStr [])) (\<lambda>media.
       Inr (lower (py_str st) = ''up'' \<and> contains ''802.3'' (py_str media))))"

fun macs_of :: "json list \<Rightarrow> json list res" where
  "macs_of [] = Inr []"
| "macs_of (a # as) =
     bind_res (adapter_up a) (\<lambda>up.
     bind_res (if up then bind_res (jindex a ''mac'') (\<lambda>m. Inr [m]) else Inr []) (\<lambda>m.
     bind_res (macs_of as) (\<lambda>ms. Inr (m @ ms))))"

definition GIB :: int where "GIB = 1073741824"

definition inventory :: "env \<Rightarrow> config \<Rightarrow> nat \<Rightarrow> unit_entry \<Rightarrow> unit drv" where
  "inventory E cfg sess u =
     (let host = ue_hostname u in
      catch_exception
       (bindM (ps_out E sess InventoryScript) (\<lambda>out.
        let inv = marker_json out ''INV '' in
        if \<not> truthy inv
        then event ''INVENTORY_WARN'' [(''unit'', host), (''error'', ''no inventory returned'')]
        else
          seqM (write_local E (e_log_root E @ ''/unit-inventory/'' @ host @ ''.json'') (dumps_indent 0 inv))
         (bindM (liftR (bind_res (jget_default inv ''adapters'' (JList [])) jiter)) (\<lambda>adapters.
          bindM (liftR (macs_of adapters)) (\<lambda>macs_up.
          bindM (liftR (jget inv ''memory_visible_bytes'')) (\<lambda>mem.
          let mem_gb = (if is_int mem then tenths_str (round_div (10 * int_of mem) GIB) else ''unknown'') in
          seqM (event ''INVENTORY_OK'' [(''unit'', host), (''site'', ue_site u),
                  (''macs_up'', nat_str (length macs_up)), (''memory_gb'', mem_gb)])
               (case macs_up of
                  [] \<Rightarrow> ret ()
                | m # _ \<Rightarrow> whenM (ue_mac u \<noteq> mac_value m) (persist_mac E cfg u m))))))))
       (\<lambda>e. event ''INVENTORY_WARN'' [(''unit'', host), (''error'', exc_text e)]))"

definition reclaim_availability :: "env \<Rightarrow> nat \<Rightarrow> string \<Rightarrow> unit drv" where
  "reclaim_availability E sess host =
     bindM (ps_out E sess (ReadFile UNIT_AVAIL)) (\<lambda>out.
     let avail = parse_json_or_none out in
     if \<not> truthy avail then ret ()
     else bindM (liftR (jget avail ''available'')) (\<lambda>available.
     if available \<noteq> JBool False then ret ()
     else bindM (liftR (jget avail ''lease_owner'')) (\<lambda>owner.
          bindM (liftR (jget avail ''expected_return_utc'')) (\<lambda>expires.
          bindM (liftR (jget avail ''reason'')) (\<lambda>why.
          bindM (if truthy expires
                 then bindM (ask (e_now E)) (\<lambda>now.
                      case (case expires of JStr t \<Rightarrow> e_instant E t | _ \<Rightarrow> Inl TypeError) of
                        Inr (Some t) \<Rightarrow> ret (t < now)
                      | Inr None \<Rightarrow> raise TypeError
                      | Inl e \<Rightarrow> (if e = ValueError then ret False else raise e))
                 else ret False) (\<lambda>is_stale.
          bindM (gets run_id) (\<lambda>me.
          if owner = JStr me
          then event ''AVAIL_LEASE_SELF'' [(''unit'', host), (''owner'', py_str owner), (''reason'', py_str why)]
          else event ''AVAIL_LEASE_RECLAIM'' [(''unit'', host), (''prior_run'', py_str owner), (''reason'', py_str why),
                 (''expires'', py_str (jor expires (JStr ''none''))), (''stale'', py_str (JBool is_stale))])))))))"

section \<open>Standing the unit down\<close>

definition expected_services :: "string list" where
  "expected_services = STAND_DOWN_SERVICES @ STAND_DOWN_LEGACY_SERVICES"

definition harmless_states :: "string list" where
  "harmless_states = [''absent'', ''removed'', ''not-ours'']"

definition bad_services :: "(string, json) dict \<Rightarrow> (string \<times> string) list" where
  "bad_services states = filter (\<lambda>(n, v). v \<notin> set harmless_states) (map (\<lambda>(n, v). (n, py_str v)) states)"

definition unreported_services :: "(string, json) dict \<Rightarrow> string list" where
  "unreported_services states = filter (\<lambda>n. n \<notin> set (keys states)) expected_services"

definition stand_down_failed :: "env \<Rightarrow> string \<Rightarrow> fields \<Rightarrow> bool drv" where
  "stand_down_failed E host why =
     seqM (event ''STANDDOWN_FAIL'' ((''unit'', host) # why))
    (seqM (event ''UNIT_FAIL'' [(''unit'', host), (''reason'', ''standdown_failed''), (''detail'', snd (hd why))])
    (seqM (fail_row E host ''FAIL'' ''standdown_failed'') (ret False)))"

definition stand_down :: "env \<Rightarrow> nat \<Rightarrow> string \<Rightarrow> bool drv" where
  "stand_down E sess host =
     bindM (ps_out E sess StandDown) (\<lambda>out.
     case marker_json out ''STANDDOWN '' of
       JObj states \<Rightarrow>
         (let bad = bad_services states; missing = unreported_services states in
          if bad \<noteq> [] \<or> missing \<noteq> []
          then stand_down_failed E host [(''detail'', join ''; ''
                 (map (\<lambda>(n, v). n @ ''='' @ v) bad @ map (\<lambda>n. n @ ''=unreported'') missing))]
          else
            seqM (event ''STANDDOWN_OK'' [(''unit'', host), (''services'', join ''; ''
                    (map (\<lambda>n. n @ ''='' @ py_str (field states n)) expected_services))])
                 (ret True))
     | _ \<Rightarrow> stand_down_failed E host [(''reason'', ''no_marker'')])"

section \<open>The build\<close>

definition build_args :: "config \<Rightarrow> unit_entry \<Rightarrow> string list \<Rightarrow> string list" where
  "build_args cfg u mods =
     [''-NoProfile'', ''-ExecutionPolicy'', ''Bypass'', ''-File'', repo_top cfg @ ''/build/build-mast.ps1'',
      ''-Top'', repo_top cfg, ''-HostName'', ue_hostname u, ''-ProxyMode'', cfg_proxy_mode cfg]
     @ [''-Site'', ue_site u]
     @ (if mods \<noteq> [] then [''-Modules'', join '','' mods] else [])
     @ (if cfg_test_mode cfg then [''-TestMode'', ''-AllowMissingNoMachineLicense''] else [])"

text \<open>What the build leaves: the payload hash (none for a failed build), the revision and the
  manifest. A manifest without a hash also gives none, after \<open>BUILD_OK\<close>.\<close>

definition build :: "env \<Rightarrow> config \<Rightarrow> unit_entry \<Rightarrow> string list \<Rightarrow> (json \<times> json \<times> (string, json) dict) drv" where
  "build E cfg u mods =
     bindM (gets run_id) (\<lambda>me.
      let host = ue_hostname u;
          build_log = e_log_root E @ ''/sessions/'' @ me @ ''/'' @ me @ ''-'' @ host @ ''-build.log'';
          failed_build = (\<lambda>fs why. seqM (event ''BUILD_FAIL'' ((''unit'', host) # fs))
             (seqM (fail_row E host ''BUILD_FAIL'' why) (ret (JNull, JStr [], []))));
          dir = repo_top cfg @ ''/staging/'' @ host @ ''/01-provisioning''
      in
      seqM (event ''BUILD_START'' [(''unit'', host), (''test_mode'', py_str (JBool (cfg_test_mode cfg)))])
     (seqM (act (Build host (build_args cfg u mods)))
     (bindM (ask (\<lambda>n. e_build E n host)) (\<lambda>r.
      case r of
        Inl e \<Rightarrow> (if e = SubprocessTimeout
                  then failed_build [(''reason'', ''timeout''), (''timeout_s'', ''1800''), (''log'', build_log)] ''timeout''
                  else raise e)
      | Inr rc \<Rightarrow>
          if rc \<noteq> 0 then failed_build [(''exit_code'', int_str rc), (''log'', build_log)] ''exception''
          else
            bindM (ask (\<lambda>n. e_read E n (dir @ ''/build-manifest.json''))) (\<lambda>t.
            bindM (liftR (load_json_object t)) (\<lambda>bm.
            let payload_hash = field bm ''payload_hash'';
                git_sha = (case map_of bm ''git_sha'' of None \<Rightarrow> JStr [] | Some v \<Rightarrow> v) in
            seqM (event ''BUILD_OK'' [(''unit'', host), (''payload_hash'', py_str payload_hash), (''git_sha'', py_str git_sha)])
           (seqM (modifyM (\<lambda>s. s\<lparr>staging_dir := dir\<rparr>))
                 (ret (payload_hash, git_sha, bm)))))))))"

section \<open>Availability\<close>

definition write_unit_json :: "env \<Rightarrow> nat \<Rightarrow> string \<Rightarrow> json \<Rightarrow> unit drv" where
  "write_unit_json E sess path obj = bindM (ps_out E sess (WriteJson path obj)) (\<lambda>out. ret ())"

definition unavailable_doc :: "int \<Rightarrow> string \<Rightarrow> json \<Rightarrow> json" where
  "unavailable_doc since me payload_hash = JObj
     [(''available'', JBool False), (''reason'', JStr ''provisioning''),
      (''since_utc'', JStr (utc_stamp since)),
      (''expected_return_utc'', JStr (utc_stamp (since + AVAIL_TTL_S * second))),
      (''lease_owner'', JStr me), (''payload_hash'', payload_hash)]"

definition set_unavailable :: "env \<Rightarrow> nat \<Rightarrow> string \<Rightarrow> unit drv" where
  "set_unavailable E sess host =
     bindM (ask (e_now E)) (\<lambda>since. bindM (gets id) (\<lambda>s.
     seqM (write_unit_json E sess UNIT_AVAIL (unavailable_doc since (run_id s) (u_payload_hash s)))
          (event ''AVAIL_SET'' [(''unit'', host), (''available'', ''false''), (''reason'', ''provisioning''),
             (''expected_return_utc'', utc_stamp (since + AVAIL_TTL_S * second)), (''lease_owner'', run_id s)])))"

definition set_available :: "env \<Rightarrow> nat \<Rightarrow> string \<Rightarrow> unit drv" where
  "set_available E sess host =
     bindM (ask (e_now E)) (\<lambda>now.
     seqM (write_unit_json E sess UNIT_AVAIL
             (JObj [(''available'', JBool True), (''since_utc'', JStr (utc_stamp now))]))
          (event ''AVAIL_SET'' [(''unit'', host), (''available'', ''true'')]))"

definition released_doc :: "int \<Rightarrow> json" where
  "released_doc now = JObj [(''available'', JBool False), (''reason'', JStr ''provisioning_incomplete''),
     (''released_utc'', JStr (utc_stamp now))]"

section \<open>The relay\<close>

definition sync_to_relay :: "env \<Rightarrow> string \<Rightarrow> bool drv" where
  "sync_to_relay E host =
     bindM (gets the_relay) (\<lambda>relay.
     case relay of
       None \<Rightarrow> ret True
     | Some rl \<Rightarrow>
         bindM (mono_clock E) (\<lambda>started. bindM (gets staging_dir) (\<lambda>dir.
         let manifest = dir @ ''/../payload-manifest.json'';
             sync_failed = (\<lambda>rc detail why. bindM (mono_clock E) (\<lambda>now.
               seqM (event ''RELAY_SYNC_FAIL'' [(''unit'', host), (''rc'', int_str rc),
                       (''seconds'', seconds_str (now - started)), (''detail'', detail)])
              (seqM (fail_row E host ''RELAY_SYNC_FAIL'' why) (ret False)))) in
         bindM (ask (\<lambda>n. e_exists E n manifest)) (\<lambda>there.
         if \<not> there then sync_failed (-1) (''no payload manifest at '' @ manifest) ''no_manifest''
         else
           seqM (event ''RELAY_SYNC_START'' [(''unit'', host), (''relay'', sh_ssh_target rl), (''dest'', host_dir rl host)])
          (bindM (deed (SyncRelay host) (\<lambda>n. e_sync E n host)) (\<lambda>r.
           if \<not> sr_ok r then sync_failed (sr_returncode r) (sr_detail r) (''rc_'' @ int_str (sr_returncode r))
           else
             bindM (mono_clock E) (\<lambda>now.
             seqM (event ''RELAY_SYNC_OK'' [(''unit'', host), (''seconds'', seconds_str (now - started)),
                     (''dest'', host_dir rl host), (''detail'', sr_detail r)])
                  (ret True))))))))"

end
