(* ===== verification/Driver_Deploy.thy ===== *)
theory Driver_Deploy
  imports Driver_Phases
begin

text \<open>
  The phases that change a unit: the transfer and how its report is judged, the detached run and
  the loop that polls it, the smoke markers, and what is archived
  (\<open>_staging_credential\<close> to \<open>_smoke\<close>, \<open>_release_and_archive\<close>, \<open>_download_dir\<close> of
  \<open>src/server/prov/driver.py\<close>).
\<close>

section \<open>Transfer\<close>

text \<open>The account for whichever host serves the payload.\<close>

definition staging_credential :: "env \<Rightarrow> string \<Rightarrow> (json \<times> json) option drv" where
  "staging_credential E host =
     bindM (gets id) (\<lambda>s.
     case the_relay s of
       None \<Rightarrow> ret (Some (smb_user s, smb_pass s))
     | Some rl \<Rightarrow>
         let block = jor (field (d_creds s) (sh_creds_key rl)) (JObj []) in
         bindM (liftR (jget block ''user'')) (\<lambda>user. bindM (liftR (jget block ''pass'')) (\<lambda>pw.
         if truthy user \<and> truthy pw then ret (Some (user, pw))
         else
           seqM (event ''TRANSFER_FAIL'' [(''unit'', host), (''reason'', ''creds_relay_missing''),
                   (''creds_key'', sh_creds_key rl),
                   (''hint'', ''vault/creds.json needs '' @ sh_creds_key rl @ ''.user/pass for this staging host'')])
          (seqM (fail_row E host ''TRANSFER_FAIL'' ''creds_relay_missing'')
                (ret None)))))"

text \<open>The pre-scan of the staging directory; the fuel is above its number of directories.\<close>

definition scan_fuel :: "(string \<times> dir_entry list) list \<Rightarrow> nat" where
  "scan_fuel d = 2 + length d + sum_list (map (length \<circ> snd) d)"

definition measured :: "(string \<times> dir_entry list) list \<Rightarrow> string \<Rightarrow> exclusions \<Rightarrow> staging_size" where
  "measured d root x =
     (case staging_payload_size (map_of d) (scan_fuel d) (Some root) (ex_files x) (ex_dirs x) of
        Some m \<Rightarrow> m
      | None \<Rightarrow> \<lparr>ss_bytes = 0, ss_files = 0\<rparr>)"

definition measure_staging :: "env \<Rightarrow> exclusions \<Rightarrow> staging_size drv" where
  "measure_staging E x =
     bindM (gets staging_dir) (\<lambda>root. bindM (ask (\<lambda>n. e_staging E n root)) (\<lambda>d. ret (measured d root x)))"

definition reason_by_outcome :: "json \<Rightarrow> string" where
  "reason_by_outcome outcome =
     (if outcome = JStr ''NET_USE_FAIL'' then ''net_use_failed''
      else if outcome = JStr ''NET_USE_HUNG'' then ''net_use_hung''
      else if outcome = JStr ''PAYLOAD_BYTES_MISSING'' then ''payload_bytes_missing''
      else if outcome = JStr ''ROBOCOPY_ERROR'' then ''robocopy_error''
      else if outcome = JStr ''DISK_INSUFFICIENT'' then ''disk_insufficient''
      else ''unrecognized_pull_result'')"

definition note_by_rc :: "json \<Rightarrow> string" where
  "note_by_rc rc =
     (case small_key rc of
        Some i \<Rightarrow> (if i = 0 then ''no_changes'' else if i = 1 then ''files_copied''
                   else ''robocopy_warning_rc_'' @ py_str rc)
      | None \<Rightarrow> ''robocopy_warning_rc_'' @ py_str rc)"

text \<open>
  How a pull report is judged: a failure with its reason and the fields its event adds, or the
  bytes and files that landed. The order is the code's: the outcome, the figures, the summary
  block, the sizes.
\<close>

datatype pull_verdict =
    PullRejected string fields
  | PullUnverified string fields
  | PullLanded int int

definition judge_pull :: "json \<Rightarrow> staging_size \<Rightarrow> pull_verdict res" where
  "judge_pull res sz =
     (let r = jor res (JObj []) in
      bind_res (jget r ''outcome'') (\<lambda>outcome.
      bind_res (jget r ''rc'') (\<lambda>rc.
      if outcome \<noteq> JStr ''OK'' then
        (if \<not> hashable outcome then Inl TypeError
         else bind_res (jget r ''detail'') (\<lambda>detail.
           Inr (PullRejected (reason_by_outcome outcome)
                 [(''outcome'', py_str (jor outcome (JStr ''none''))), (''rc'', py_str rc), (''detail'', py_str detail)])))
      else
      bind_res (jget r ''landed_bytes'') (\<lambda>bytes.
      bind_res (jget r ''landed_files'') (\<lambda>files.
      bind_res (jget r ''completed'') (\<lambda>completed.
      let landed = [(''landed_bytes'', py_str bytes), (''landed_files'', py_str files)] in
      if \<not> is_int bytes \<or> \<not> is_int files
      then Inr (PullUnverified ''unverified_transfer'' [(''landed_bytes'', ''absent''), (''landed_files'', ''absent'')])
      else if completed \<noteq> JBool True then Inr (PullUnverified ''robocopy_incomplete'' landed)
      else if int_of bytes \<noteq> int (ss_bytes sz) \<or> int_of files \<noteq> int (ss_files sz)
      then Inr (PullUnverified ''short_transfer'' landed)
      else Inr (PullLanded (int_of bytes) (int_of files))))))))"

definition transfer_failed :: "env \<Rightarrow> string \<Rightarrow> fields \<Rightarrow> string \<Rightarrow> bool drv" where
  "transfer_failed E host fs why =
     bindM (dur E) (\<lambda>d.
     seqM (event ''TRANSFER_FAIL'' ((''unit'', host) # fs @ [(''duration_s'', int_str d)]))
    (seqM (fail_row E host ''TRANSFER_FAIL'' why) (ret False)))"

text \<open>What follows a pull that returned: \<open>ns\<close> is how long it took.\<close>

definition transfer_outcome :: "env \<Rightarrow> string \<Rightarrow> string \<Rightarrow> staging_size \<Rightarrow> string \<Rightarrow> int \<Rightarrow> bool drv" where
  "transfer_outcome E host stage sz out ns =
     (let res = marker_json out ''PULLRESULT '' in
      bindM (liftR (judge_pull res sz)) (\<lambda>verdict.
      bindM (liftR (jget (jor res (JObj [])) ''rc'')) (\<lambda>rc.
      case verdict of
        PullRejected why fs \<Rightarrow>
          transfer_failed E host ((''reason'', why) # fs) (why @ ''_rc_'' @ py_str rc)
      | PullUnverified why fs \<Rightarrow>
          transfer_failed E host ((''reason'', why) # (''expected_bytes'', nat_str (ss_bytes sz))
            # (''expected_files'', nat_str (ss_files sz)) # (''robocopy_rc'', py_str rc) # fs)
            (why @ ''_rc_'' @ py_str rc)
      | PullLanded bytes files \<Rightarrow>
          if \<not> hashable rc then raise TypeError
          else
          (let mbps = tenths_str (transfer_rate_tenths bytes ns) in
           seqM (event ''TRANSFER_OK'' [(''unit'', host), (''bytes'', int_str bytes), (''files'', int_str files),
                   (''robocopy_rc'', py_str rc), (''note'', note_by_rc rc), (''seconds'', seconds_str ns), (''mbps'', mbps)])
          (seqM (whenM (transfer_is_slow bytes ns)
                  (event ''TRANSFER_SLOW'' [(''unit'', host), (''mbps'', mbps),
                     (''floor_mbps'', tenths_str TRANSFER_SLOW_FLOOR_MBPS), (''seconds'', seconds_str ns),
                     (''bytes'', int_str bytes),
                     (''hint'', ''robocopy.log in the unit session dir carries the per-file detail'')]))
          (seqM (modifyM (\<lambda>s. s\<lparr>unit_stage := stage\<rparr>))
                (ret True)))))))"

definition transfer :: "env \<Rightarrow> config \<Rightarrow> nat \<Rightarrow> string \<Rightarrow> exclusions \<Rightarrow> bool drv" where
  "transfer E cfg sess host skip =
     bindM (staging_credential E host) (\<lambda>serving.
     case serving of
       None \<Rightarrow> ret False
     | Some (user, pw) \<Rightarrow>
         bindM (gets id) (\<lambda>s.
         let stage = ''C:'' @ bs @ ''mast-staging'' @ bs @ run_id s;
             src_unc = bs @ bs @ prov_address s @ bs @ staging_share s @ bs @ host @ bs @ ''01-provisioning'' in
         bindM (measure_staging E skip) (\<lambda>sz.
         seqM (whenM (any_excluded skip)
           (bindM (measure_staging E \<lparr>ex_files = [], ex_dirs = []\<rparr>) (\<lambda>full.
            event ''TRANSFER_TRIMMED'' [(''unit'', host), (''excluded'', excl_summary skip),
              (''files_skipped'', int_str (int (ss_files full) - int (ss_files sz))),
              (''bytes_skipped'', int_str (int (ss_bytes full) - int (ss_bytes sz)))])))
        (seqM (event ''TRANSFER_START'' [(''unit'', host), (''files'', nat_str (ss_files sz)),
                 (''expected_bytes'', nat_str (ss_bytes sz)), (''src_unc'', src_unc), (''dst_local'', stage)])
        (bindM (ask (\<lambda>n. e_read E n (repo_top cfg @ ''/client/mast-pull-staging.ps1''))) (\<lambda>t.
         bindM (liftR t) (\<lambda>pull_src.
         seqM (upload E sess UNIT_PULL_SCRIPT pull_src)
        (bindM (mono_clock E) (\<lambda>started.
         bindM (catchM (bindM (ps_out E sess (Pull
                   \<lparr>pa_prov_address = prov_address s, pa_unit_hostname = host,
                    pa_smb_user = py_str user, pa_smb_pass = py_str pw, pa_unit_stage = stage,
                    pa_src_unc = src_unc, pa_payload_bytes = int (ss_bytes sz),
                    pa_exclude_files = ex_files skip, pa_exclude_dirs = ex_dirs skip\<rparr>)) (\<lambda>out. ret (Some out)))
                 (\<lambda>e. if e = TimeoutError then ret None else raise e)) (\<lambda>answer.
         case answer of
           None \<Rightarrow> transfer_failed E host [(''reason'', ''timeout''), (''timeout_s'', ''3600'')] ''timeout''
         | Some out \<Rightarrow>
             bindM (mono_clock E) (\<lambda>ended.
             transfer_outcome E host stage sz out (ended - started))))))))))))"

section \<open>The detached run\<close>

definition write_detached_inputs :: "env \<Rightarrow> nat \<Rightarrow> string \<Rightarrow> string list \<Rightarrow> unit drv" where
  "write_detached_inputs E sess stage target_modules =
     bindM (gets run_id) (\<lambda>me.
     write_unit_json E sess UNIT_DETACHED_CFG (JObj
       [(''run_id'', JStr me), (''staging_path'', JStr stage), (''held_by'', JStr (e_identity E)),
        (''modules'', JStr (join '','' target_modules))]))"

definition write_shared_cred :: "env \<Rightarrow> nat \<Rightarrow> unit drv" where
  "write_shared_cred E sess =
     bindM (gets id) (\<lambda>s.
     seqM (write_unit_json E sess UNIT_SHARED_CFG (JObj [(''user'', shared_user s)]))
    (seqM (upload E sess UNIT_SHARED_PLAIN (py_str (shared_pass s)))
          (bindM (ps_out E sess ProtectCred) (\<lambda>out. ret ()))))"

definition EXECUTE_TIMEOUT_S :: int where "EXECUTE_TIMEOUT_S = 3600"
definition EXECUTE_POLL_INTERVAL_S :: int where "EXECUTE_POLL_INTERVAL_S = 15"

text \<open>What the loop keeps between two polls: the last report, the session, the last heartbeat.\<close>

record poll_state =
  p_result :: json
  p_session :: nat
  p_last_beat :: int

definition reconnect :: "env \<Rightarrow> string \<Rightarrow> pyexc \<Rightarrow> poll_state \<Rightarrow> poll_state drv" where
  "reconnect E host e p =
     seqM (event ''EXECUTE_RECONNECT'' [(''unit'', host), (''error'', exc_text e)])
    (seqM (act (Dispose (p_session p)))
          (catch_exception (bindM (connect_unit E host) (\<lambda>sess. ret (p\<lparr>p_session := sess\<rparr>)))
             (\<lambda>e2. seqM (event ''EXECUTE_RECONNECT_WAIT'' [(''unit'', host), (''error'', exc_text e2)]) (ret p))))"

definition status_done :: "json \<Rightarrow> bool" where
  "status_done result \<longleftrightarrow> truthy result \<and> jget result ''status'' = Inr (JStr ''done'')"

definition heartbeat :: "env \<Rightarrow> string \<Rightarrow> poll_state \<Rightarrow> poll_state drv" where
  "heartbeat E host p =
     bindM (mono_clock E) (\<lambda>now.
     if 90 * second \<le> now - p_last_beat p
     then bindM (dur E) (\<lambda>d.
          bindM (liftR (jget_default (jor (p_result p) (JObj [])) ''status'' (JStr ''starting''))) (\<lambda>status.
          seqM (event ''EXECUTE_RUNNING'' [(''unit'', host), (''elapsed_s'', int_str d), (''status'', py_str status)])
               (ret (p\<lparr>p_last_beat := now\<rparr>))))
     else ret p)"

text \<open>One pass of the \<open>try\<close>; true ends the loop. A report that is no object raises in the
  \<open>.get\<close>, and counts as a dropped session with the report kept.\<close>

definition poll_once :: "env \<Rightarrow> string \<Rightarrow> poll_state \<Rightarrow> (bool \<times> poll_state) drv" where
  "poll_once E host p =
     bindM (catch_exception (bindM (ps_out E (p_session p) (ReadFile UNIT_EXECUTE_RESULT)) (\<lambda>out. ret (Inr out)))
              (\<lambda>e. ret (Inl e))) (\<lambda>answer.
     case answer of
       Inl e \<Rightarrow> bindM (reconnect E host e p) (\<lambda>p'. ret (False, p'))
     | Inr out \<Rightarrow>
         let result = parse_json_or_none out; p' = p\<lparr>p_result := result\<rparr> in
         if truthy result \<and> \<not> is_dict result
         then bindM (reconnect E host AttributeError p') (\<lambda>p''. ret (False, p''))
         else if status_done result then ret (True, p')
         else bindM (heartbeat E host p') (\<lambda>p''. ret (False, p'')))"

text \<open>The loop, with at most \<open>fuel\<close> passes.\<close>

fun poll :: "env \<Rightarrow> string \<Rightarrow> int \<Rightarrow> nat \<Rightarrow> poll_state \<Rightarrow> poll_state drv" where
  "poll E host deadline 0 p = ret p"
| "poll E host deadline (Suc fuel) p =
     bindM (mono_clock E) (\<lambda>now.
     if now < deadline then
       bindM (poll_once E host p) (\<lambda>(finished, p').
       if finished then ret p'
       else seqM (sleep EXECUTE_POLL_INTERVAL_S) (poll E host deadline fuel p'))
     else ret p)"

text \<open>A pass sleeps fifteen seconds, so an hour is over after 240 of them.\<close>

definition POLL_FUEL :: nat where "POLL_FUEL = 241"

definition execute_failed :: "env \<Rightarrow> string \<Rightarrow> fields \<Rightarrow> string \<Rightarrow> unit drv" where
  "execute_failed E host fs why =
     bindM (dur E) (\<lambda>d.
     seqM (event ''EXECUTE_FAIL'' ((''unit'', host) # fs @ [(''duration_s'', int_str d)]))
          (fail_row E host ''EXECUTE_FAIL'' why))"

definition lease_refused :: "env \<Rightarrow> nat \<Rightarrow> string \<Rightarrow> int \<Rightarrow> unit drv" where
  "lease_refused E sess host rc =
     bindM (ps_out E sess (ReadFile UNIT_EXECUTE_LEASE)) (\<lambda>out.
     let holder = jor (parse_json_or_none out) (JObj []);
         shown = (\<lambda>k. bind_res (jget holder k) (\<lambda>v. Inr (py_str (jor v (JStr ''unknown''))))) in
     bindM (dur E) (\<lambda>d.
     bindM (liftR (shown ''run_id'')) (\<lambda>hr. bindM (liftR (shown ''pid'')) (\<lambda>hp. bindM (liftR (shown ''expires_utc'')) (\<lambda>ex.
     seqM (event ''EXECUTE_LEASE_HELD'' [(''unit'', host), (''exit_code'', int_str rc), (''duration_s'', int_str d),
             (''holder_run'', hr), (''holder_pid'', hp), (''expires'', ex)])
    (seqM (row E host ''SKIP'' ''lease_held'')
          (modifyM (\<lambda>s. s\<lparr>execute_refused := True\<rparr>))))))))"

text \<open>What the end of the loop decides; the session is the one the polling ended with.\<close>

definition execute_verdict :: "env \<Rightarrow> string \<Rightarrow> poll_state \<Rightarrow> bool drv" where
  "execute_verdict E host p =
     bindM (if truthy (p_result p) then bindM (liftR (jget (p_result p) ''status'')) (\<lambda>st. ret (st = JStr ''done''))
            else ret False) (\<lambda>finished.
     if \<not> finished
     then seqM (execute_failed E host [(''reason'', ''timeout''), (''timeout_s'', ''3600'')] ''timeout'') (ret False)
     else
       bindM (liftR (bind_res (jget_default (p_result p) ''exit_code'' (JInt 1)) py_int_json)) (\<lambda>rc.
       if rc = EXECUTE_EXIT_LEASE_HELD then seqM (lease_refused E (p_session p) host rc) (ret False)
       else if rc \<noteq> 0
       then seqM (execute_failed E host [(''exit_code'', int_str rc)] (''exit_'' @ int_str rc)) (ret False)
       else
         bindM (dur E) (\<lambda>d.
         seqM (event ''EXECUTE_OK'' [(''unit'', host), (''duration_s'', int_str d), (''mode'', ''detached'')])
              (ret True))))"

definition execute :: "env \<Rightarrow> config \<Rightarrow> nat \<Rightarrow> string \<Rightarrow> string list \<Rightarrow> (bool \<times> nat) drv" where
  "execute E cfg sess host target_modules =
     bindM (gets id) (\<lambda>s.
     seqM (event ''EXECUTE_START'' [(''unit'', host), (''run_id'', run_id s), (''mode'', ''detached''),
             (''modules'', (let t = join '','' target_modules in if t = [] then ''all'' else t))])
    (seqM (write_detached_inputs E sess (unit_stage s) target_modules)
    (seqM (write_shared_cred E sess)
    (bindM (ask (\<lambda>n. e_read E n (repo_top cfg @ ''/client/mast-run-detached.ps1''))) (\<lambda>t.
     bindM (liftR t) (\<lambda>runner_src.
     seqM (upload E sess UNIT_DETACHED_RUNNER runner_src)
    (bindM (ps_out E sess RegisterRun) (\<lambda>reg.
     if \<not> contains ''DETACHED_REGISTERED'' reg
     then seqM (execute_failed E host [(''reason'', ''detached_register_failed''), (''detail'', take 200 (strip reg))]
                 ''detached_register_failed'') (ret (False, sess))
     else
       bindM (mono_clock E) (\<lambda>started.
       bindM (poll E host (started + EXECUTE_TIMEOUT_S * second) POLL_FUEL
                \<lparr>p_result = JNull, p_session = sess, p_last_beat = 0\<rparr>) (\<lambda>p.
       seqM (catch_exception (bindM (ps_out E (p_session p) DeleteTask) (\<lambda>out. ret ())) (\<lambda>e. ret ()))
            (bindM (execute_verdict E host p) (\<lambda>ok. ret (ok, p_session p)))))))))))))"

section \<open>Smoke markers\<close>

definition smoke_missing :: "json \<Rightarrow> string \<Rightarrow> json res" where
  "smoke_missing results m = jget_default results m (JStr ''<missing>'')"

definition smoke_ok :: "json \<Rightarrow> bool" where
  "smoke_ok v \<longleftrightarrow> v \<noteq> JStr ''<missing>'' \<and> v \<noteq> JStr ''<empty>''"

definition smoke :: "env \<Rightarrow> nat \<Rightarrow> string \<Rightarrow> string list \<Rightarrow> bool drv" where
  "smoke E sess host modules =
     seqM (event ''SMOKE_START'' [(''unit'', host)])
    (bindM (ps_out E sess (SmokeScript modules)) (\<lambda>out.
     let results = jor (marker_json out ''SMOKE '') (JObj []) in
     bindM (foldM modules [] (\<lambda>m fails.
       bindM (liftR (smoke_missing results m)) (\<lambda>v.
       if smoke_ok v
       then seqM (event ''SMOKE_RESULT'' [(''unit'', host), (''module'', m), (''status'', ''OK'')]) (ret fails)
       else seqM (event ''SMOKE_RESULT'' [(''unit'', host), (''module'', m), (''status'', ''FAIL''), (''reason'', py_str v)])
                 (ret (fails @ [m]))))) (\<lambda>fails.
     if fails \<noteq> []
     then seqM (event ''UNIT_FAIL'' [(''unit'', host), (''reason'', ''smoke_failures''), (''modules'', join '','' fails)])
         (seqM (fail_row E host ''FAIL'' (''smoke:'' @ join ''+'' fails)) (ret False))
     else ret True)))"

section \<open>Release and archive\<close>

text \<open>One line of the archive: \<open>FILE name base64\<close>.\<close>

definition archive_line :: "env \<Rightarrow> string \<Rightarrow> string \<Rightarrow> unit drv" where
  "archive_line E dest l =
     whenM (startswith ''FILE '' l)
       (case split_on CHR '' '' l of
          tag # rel # rest \<Rightarrow>
            (if rest = [] then raise ValueError
             else bindM (liftR (e_decode64 E (join '' '' rest)))
                    (\<lambda>content. write_local E (dest @ ''/'' @ replace_char backslash ''/'' rel) content))
        | _ \<Rightarrow> raise ValueError)"

definition download_dir :: "env \<Rightarrow> nat \<Rightarrow> string \<Rightarrow> string \<Rightarrow> unit drv" where
  "download_dir E sess unit_dir dest =
     bindM (ps_out E sess (ArchivePull unit_dir)) (\<lambda>out. forM (splitlines out) (archive_line E dest))"

definition release_lease :: "env \<Rightarrow> nat \<Rightarrow> string \<Rightarrow> unit drv" where
  "release_lease E sess host =
     catch_exception
       (bindM (ask (e_now E)) (\<lambda>now.
        seqM (write_unit_json E sess UNIT_AVAIL (released_doc now))
             (event ''AVAIL_RELEASE'' [(''unit'', host), (''reason'', ''provisioning_incomplete'')])))
       (\<lambda>e. event ''AVAIL_RELEASE_WARN'' [(''unit'', host), (''error'', exc_text e)])"

definition archive_session :: "env \<Rightarrow> nat \<Rightarrow> string \<Rightarrow> unit drv" where
  "archive_session E sess host =
     bindM (gets run_id) (\<lambda>me.
     let unit_sess = ''C:'' @ bs @ ''MAST'' @ bs @ ''logs'' @ bs @ ''sessions'' @ bs @ me;
         dest = e_log_root E @ ''/sessions/'' @ me @ ''/unit-'' @ host in
     catch_exception
       (bindM (ps_out E sess (SessionCheck unit_sess)) (\<lambda>out.
        if drop (length (strip out) - 3) (strip out) = ''yes''
        then seqM (download_dir E sess unit_sess dest)
                  (event ''UNIT_LOGS_ARCHIVED'' [(''unit'', host), (''src'', unit_sess), (''dest'', dest)])
        else event ''UNIT_LOGS_ABSENT'' [(''unit'', host), (''src'', unit_sess)]))
       (\<lambda>e. event ''UNIT_LOGS_ARCHIVE_WARN'' [(''unit'', host), (''error'', exc_text e)]))"

definition release_and_archive :: "env \<Rightarrow> nat \<Rightarrow> string \<Rightarrow> unit drv" where
  "release_and_archive E sess host =
     bindM (gets u_lease_held) (\<lambda>held. seqM (whenM held (release_lease E sess host)) (archive_session E sess host))"

end
