(* ===== verification/Driver.thy ===== *)
theory Driver
  imports Driver_Deploy
begin

text \<open>
  \<open>Driver._process_unit\<close>, \<open>run\<close>, \<open>_finish\<close> and \<open>run_loop\<close> of
  \<open>src/server/prov/driver.py\<close>: the order of the phases, their early returns and what the
  \<open>except\<close> and \<open>finally\<close> blocks do.
\<close>

section \<open>What to run on a unit\<close>

text \<open>Phase 5, first half: the per-module compare. None when the unit is skipped, otherwise the
  targets, where none means the full set.\<close>

definition or_none :: "json \<Rightarrow> string" where
  "or_none v = py_str (jor v (JStr ''none''))"

definition classify_unit :: "env \<Rightarrow> config \<Rightarrow> string \<Rightarrow> json \<Rightarrow> json \<Rightarrow> json \<Rightarrow> (string, json) dict
    \<Rightarrow> string list option drv" where
  "classify_unit E cfg host installed prior_hash validation bm =
     bindM (gets u_payload_hash) (\<lambda>payload_hash.
     if cfg_force cfg
     then seqM (event ''HASH_CHECK'' [(''unit'', host), (''installed'', or_none prior_hash),
             (''built'', py_str payload_hash), (''result'', ''FORCED'')]) (ret (Some []))
     else
       bindM (liftR (classify installed (JObj bm) validation)) (\<lambda>report.
       let aggregate_matches = (prior_hash = payload_hash);
           shown = join '','' (targets report) in
       seqM (event ''MODULE_DRIFT'' [(''unit'', host), (''summary'', summary report),
               (''targets'', if shown = [] then ''none'' else shown),
               (''aggregate'', if aggregate_matches then ''match'' else ''differs'')])
      (if report_current report \<and> aggregate_matches
       then seqM (event ''UNIT_SKIP'' [(''unit'', host), (''reason'', ''already_current''), (''payload_hash'', py_str payload_hash)])
           (seqM (row E host ''SKIP'' ''already_current'') (ret None))
       else if report_current report
       then seqM (event ''MODULE_DRIFT_NONE'' [(''unit'', host),
               (''note'', ''aggregate differs but no module drifted; running full set'')]) (ret (Some []))
       else seqM (event ''HASH_CHECK'' [(''unit'', host), (''installed'', or_none prior_hash),
               (''built'', py_str payload_hash),
               (''result'', if aggregate_matches then ''NEEDS_REPAIR'' else ''NEEDS_UPDATE'')])
            (ret (Some (targets report))))))"

text \<open>Phase 5, second half: \<open>--modules\<close>.\<close>

definition narrow_targets :: "env \<Rightarrow> config \<Rightarrow> string \<Rightarrow> string list \<Rightarrow> string list \<Rightarrow> string list option drv" where
  "narrow_targets E cfg host modules targeted =
     (if cfg_modules cfg = [] then ret (Some targeted)
      else
        bindM (ask (e_providers E)) (\<lambda>ps1. bindM (ask (e_providers E)) (\<lambda>ps2.
        bindM (liftR (filter_targets (cfg_modules cfg) ps1 ps2 targeted modules)) (\<lambda>narrowed.
        if narrowed = []
        then seqM (event ''MODULE_TARGET_EMPTY'' [(''unit'', host), (''requested'', join '','' (cfg_modules cfg)),
                (''note'', ''none of the requested modules need work; not running the always-modules alone'')])
            (seqM (row E host ''SKIP'' ''no_requested_module_drift'') (ret None))
        else seqM (event ''MODULE_TARGET_FILTERED'' [(''unit'', host), (''requested'', join '','' (cfg_modules cfg)),
                (''targets'', join '','' narrowed)])
             (ret (Some narrowed))))))"

definition window_of :: "unit_entry \<Rightarrow> maintenance_window option" where
  "window_of u = map_option (\<lambda>w. \<lparr>start_hour = mw_start_hour w, end_hour = mw_end_hour w\<rparr>) (ue_maintenance_window u)"

definition unit_window :: "env \<Rightarrow> config \<Rightarrow> unit_entry \<Rightarrow> int \<Rightarrow> window_result res" where
  "unit_window E cfg u now =
     in_maintenance_window (e_zone E) (e_server_local E) (window_of u) (ue_timezone u)
       (maint_window_start cfg) (maint_window_end cfg) now"

text \<open>The dry run and the maintenance window: whether the unit may be changed now.\<close>

definition may_change :: "env \<Rightarrow> config \<Rightarrow> unit_entry \<Rightarrow> bool drv" where
  "may_change E cfg u =
     (let host = ue_hostname u in
      if cfg_dry_run cfg
      then seqM (event ''DRYRUN_STOP'' [(''unit'', host), (''reason'', ''would_transfer_and_execute'')])
          (seqM (row E host ''SKIP'' ''dry_run'') (ret False))
      else
        bindM (ask (e_now E)) (\<lambda>now.
        bindM (liftR (unit_window E cfg u now)) (\<lambda>mw.
        let tz = (case wr_tz mw of None \<Rightarrow> ''None'' | Some z \<Rightarrow> z) in
        seqM (case tz_error mw of
                None \<Rightarrow> ret ()
              | Some err \<Rightarrow> whenM (err \<noteq> []) (event ''MAINT_TZ_WARN'' [(''unit'', host), (''tz'', tz), (''err'', err)]))
       (if \<not> allowed mw
        then seqM (event ''MAINT_SKIP'' [(''unit'', host), (''reason'', ''outside_window''), (''current'', wr_current mw),
                (''window'', wr_window mw), (''tz'', tz)])
            (seqM (row E host ''SKIP_MAINTENANCE''
                     (''outside_window current='' @ wr_current mw @ '' window='' @ wr_window mw))
                  (ret False))
        else ret True))))"

section \<open>One unit\<close>

definition hold_lease :: "bool \<Rightarrow> unit drv" where
  "hold_lease b = modifyM (\<lambda>s. s\<lparr>u_lease_held := b\<rparr>)"

text \<open>Phases 8 to 10, once the payload is on the unit.\<close>

definition run_on_unit :: "env \<Rightarrow> config \<Rightarrow> nat \<Rightarrow> string \<Rightarrow> string list \<Rightarrow> string list \<Rightarrow> unit drv" where
  "run_on_unit E cfg sess host modules targeted =
     seqM (modifyM (\<lambda>s. s\<lparr>execute_refused := False\<rparr>))
    (bindM (execute E cfg sess host targeted) (\<lambda>(ok, sess').
     seqM (modifyM (\<lambda>s. s\<lparr>u_session := Some sess'\<rparr>))
    (bindM (gets execute_refused) (\<lambda>refused.
     if \<not> ok \<and> refused then seqM (set_available E sess' host) (hold_lease False)
     else if \<not> ok then ret ()
     else
       bindM (smoke E sess' host (if targeted = [] then modules else targeted)) (\<lambda>smoke_passed.
       if \<not> smoke_passed then ret ()
       else
         seqM (set_available E sess' host)
        (seqM (hold_lease False)
        (bindM (gets u_payload_hash) (\<lambda>payload_hash.
         seqM (event ''UNIT_OK'' [(''unit'', host), (''payload_hash'', py_str payload_hash)])
              (row E host ''OK'' ''updated'')))))))))"

text \<open>Phases 5c to 7: the relay, the lease, the transfer.\<close>

definition deploy :: "env \<Rightarrow> config \<Rightarrow> nat \<Rightarrow> string \<Rightarrow> string list \<Rightarrow> string list \<Rightarrow> (string, json) dict \<Rightarrow> unit drv" where
  "deploy E cfg sess host modules targeted bm =
     bindM (liftR (exclusions_of bm targeted)) (\<lambda>skip.
     bindM (sync_to_relay E host) (\<lambda>synced.
     if \<not> synced then ret ()
     else
       seqM (set_unavailable E sess host)
      (seqM (hold_lease True)
      (bindM (transfer E cfg sess host skip) (\<lambda>transferred.
       if \<not> transferred then ret ()
       else run_on_unit E cfg sess host modules targeted)))))"

definition decide_and_deploy ::
  "env \<Rightarrow> config \<Rightarrow> nat \<Rightarrow> unit_entry \<Rightarrow> string list \<Rightarrow> json \<Rightarrow> json \<Rightarrow> json \<Rightarrow> (string, json) dict \<Rightarrow> unit drv" where
  "decide_and_deploy E cfg sess u modules installed prior_hash validation bm =
     (let host = ue_hostname u in
      bindM (classify_unit E cfg host installed prior_hash validation bm) (\<lambda>t1.
      case t1 of None \<Rightarrow> ret () | Some targeted \<Rightarrow>
      bindM (narrow_targets E cfg host modules targeted) (\<lambda>t2.
      case t2 of None \<Rightarrow> ret () | Some targeted' \<Rightarrow>
      bindM (may_change E cfg u) (\<lambda>go.
      if \<not> go then ret () else deploy E cfg sess host modules targeted' bm))))"

text \<open>Phases 2a to 4: what is read of the unit, the stand-down, the build.\<close>

definition unit_phases :: "env \<Rightarrow> config \<Rightarrow> nat \<Rightarrow> unit_entry \<Rightarrow> string list \<Rightarrow> unit drv" where
  "unit_phases E cfg sess u modules =
     (let host = ue_hostname u in
      seqM (inventory E cfg sess u)
     (seqM (reclaim_availability E sess host)
     (bindM (stand_down E sess host) (\<lambda>quiet.
      if \<not> quiet then ret ()
      else
        bindM (ps_out E sess (ReadFile UNIT_INSTALLED)) (\<lambda>i_out.
        let installed = parse_json_or_none i_out in
        bindM (if truthy installed then liftR (jget installed ''payload_hash'') else ret JNull) (\<lambda>prior_hash.
        bindM (ps_out E sess (ReadFile UNIT_VALIDATION)) (\<lambda>v_out.
        let validation = parse_json_or_none v_out in
        bindM (unit_can_reach_staging E sess) (\<lambda>reachable.
        if \<not> reachable
        then bindM (gets prov_address) (\<lambda>a.
             seqM (event ''PREFLIGHT_UNIT_SMB_FAIL'' [(''unit'', host), (''address'', a), (''port'', ''445''),
                     (''note'', ''unit cannot open SMB to the staging host; not building a payload it cannot pull'')])
                  (fail_row E host ''PREFLIGHT_FAIL'' ''unit_smb_unreachable''))
        else
          bindM (build E cfg u modules) (\<lambda>(built_hash, git_sha, bm).
          seqM (modifyM (\<lambda>s. s\<lparr>u_git_sha := git_sha\<rparr>))
         (if built_hash = JNull then ret ()
          else
            seqM (modifyM (\<lambda>s. s\<lparr>u_payload_hash := built_hash\<rparr>))
                 (decide_and_deploy E cfg sess u modules installed prior_hash validation bm)))))))))))"

text \<open>The \<open>finally\<close>: the lease is released and the logs archived over the session the unit ended
  with.\<close>

definition close_unit :: "env \<Rightarrow> string \<Rightarrow> unit drv" where
  "close_unit E host =
     bindM (gets u_session) (\<lambda>sess. case sess of None \<Rightarrow> ret ()
       | Some sn \<Rightarrow> seqM (release_and_archive E sn host) (act (Dispose sn)))"

text \<open>The body of the outer \<open>try\<close>.\<close>

definition SSH_PORT :: nat where "SSH_PORT = 22"
definition WINRM_PORT :: nat where "WINRM_PORT = 5985"

definition unit_body :: "env \<Rightarrow> config \<Rightarrow> unit_entry \<Rightarrow> string list \<Rightarrow> string \<Rightarrow> unit drv" where
  "unit_body E cfg u modules resolved =
     (let host = ue_hostname u in
      bindM (ask (\<lambda>n. e_tcp E n host SSH_PORT)) (\<lambda>ssh.
      bindM (if ssh then ret True else ask (\<lambda>n. e_tcp E n host WINRM_PORT)) (\<lambda>up.
      if \<not> up
      then seqM (event ''UNIT_UNREACHABLE'' [(''unit'', host), (''resolved_ip'', resolved)])
                (fail_row E host ''UNREACHABLE'' ''ssh_and_winrm_ports_closed'')
      else
        bindM (connect_unit E host) (\<lambda>sess.
        seqM (modifyM (\<lambda>s. s\<lparr>u_session := Some sess\<rparr>))
             (finallyM (unit_phases E cfg sess u modules) (close_unit E host))))))"

definition unit_exception :: "env \<Rightarrow> string \<Rightarrow> pyexc \<Rightarrow> unit drv" where
  "unit_exception E host e =
     seqM (event ''EXCEPTION'' [(''unit'', host), (''error'', exc_text e)])
    (seqM (catchM (write_local E (e_log_root E @ ''/last-error.log'') (exc_text e))
             (\<lambda>x. if is_os_error x then ret () else raise x))
          (fail_row E host ''FAIL'' (''exception:'' @ exc_name e)))"

text \<open>Which address and share the unit pulls from.\<close>

definition choose_address :: "env \<Rightarrow> unit_entry \<Rightarrow> string \<Rightarrow> unit drv" where
  "choose_address E u resolved =
     (let host = ue_hostname u in
      seqM (modifyM (\<lambda>s. s\<lparr>the_relay := map_of (staging_hosts s) (ue_site u)\<rparr>))
     (bindM (gets the_relay) (\<lambda>rl.
      case rl of
        Some r \<Rightarrow>
          seqM (modifyM (\<lambda>s. s\<lparr>staging_share := sh_share r, prov_address := sh_address r\<rparr>))
               (event ''PROV_ADDR'' [(''unit'', host), (''address'', sh_address r), (''via_unit_ip'', resolved),
                  (''source'', ''relay:'' @ ue_site u)])
      | None \<Rightarrow>
          seqM (modifyM (\<lambda>s. s\<lparr>staging_share := ''mast-staging''\<rparr>))
         (bindM (ask (\<lambda>n. e_local_address E n resolved)) (\<lambda>a.
          if a \<noteq> []
          then seqM (modifyM (\<lambda>s. s\<lparr>prov_address := a\<rparr>))
                    (event ''PROV_ADDR'' [(''unit'', host), (''address'', a), (''via_unit_ip'', resolved)])
          else seqM (modifyM (\<lambda>s. s\<lparr>prov_address := e_identity E\<rparr>))
                    (event ''PROV_ADDR_FALLBACK'' [(''unit'', host), (''address'', e_identity E),
                       (''unit_ip'', if resolved = [] then ''unresolved'' else resolved),
                       (''note'', ''could not derive a route-local address; falling back to this machine's name, which the unit must resolve itself'')]))))))"

definition begin_unit :: "env \<Rightarrow> unit drv" where
  "begin_unit E =
     bindM (ask (e_now E)) (\<lambda>now. modifyM (\<lambda>s. s\<lparr>u_payload_hash := JStr [], u_git_sha := JStr [],
        u_lease_held := False, u_session := None, u_start := now\<rparr>))"

definition process_unit :: "env \<Rightarrow> config \<Rightarrow> unit_entry \<Rightarrow> unit drv" where
  "process_unit E cfg u =
     (let host = ue_hostname u in
      seqM (modifyM (\<lambda>s. s\<lparr>units_checked := units_checked s + 1\<rparr>))
     (seqM (begin_unit E)
     (bindM (ask (e_providers E)) (\<lambda>ps.
      let modules = resolve_modules u ps in
      bindM (ask (\<lambda>n. e_resolve E n host)) (\<lambda>r.
      bindM (case r of Inr a \<Rightarrow> ret a | Inl e \<Rightarrow> (if is_os_error e then ret [] else raise e)) (\<lambda>resolved.
      seqM (event ''UNIT_BEGIN'' [(''unit'', host), (''resolved_ip'', resolved)])
     (seqM (choose_address E u resolved)
           (catch_exception (unit_body E cfg u modules resolved) (unit_exception E host)))))))))"

section \<open>A run\<close>

definition fail_states :: "string list" where
  "fail_states = [''FAIL'', ''UNREACHABLE'', ''BUILD_FAIL'', ''TRANSFER_FAIL'', ''EXECUTE_FAIL'']"

definition count_outcomes :: "(string \<Rightarrow> bool) \<Rightarrow> (string, string) dict \<Rightarrow> nat" where
  "count_outcomes p outcomes = length (filter (\<lambda>(u, x). p x) outcomes)"

definition last_run_doc :: "driver \<Rightarrow> int \<Rightarrow> json" where
  "last_run_doc s run_end = JObj
     [(''run_id'', JStr (run_id s)), (''started_utc'', JStr (utc_stamp (run_start s))),
      (''ended_utc'', JStr (utc_stamp run_end)),
      (''duration_s'', JInt (whole_seconds (run_end - run_start s))),
      (''units_checked'', JInt (int (units_checked s))),
      (''units_updated'', JInt (int (count_outcomes (\<lambda>x. x = ''OK'') (unit_outcomes s)))),
      (''units_failed'', JInt (int (count_outcomes (\<lambda>x. x \<in> set fail_states) (unit_outcomes s)))),
      (''unit_outcomes'', JObj (map (\<lambda>(u, x). (u, JStr x)) (unit_outcomes s))),
      (''exit_code'', JInt (exit_code s))]"

definition prune_sessions :: "env \<Rightarrow> config \<Rightarrow> unit drv" where
  "prune_sessions E cfg =
     catch_exception
       (bindM (ask (e_sessions E)) (\<lambda>d. bindM (ask (e_rmtree_fails E)) (\<lambda>fails.
        bindM (liftR (run_retention fails d (retain_runs cfg))) (\<lambda>(left, pruned, warned).
        seqM (forM warned (\<lambda>m. event ''RETENTION_WARN'' [(''msg'', m)]))
       (seqM (forM pruned (\<lambda>n. act (RemoveRun n)))
             (whenM (pruned \<noteq> []) (event ''RETENTION_PRUNED'' [(''count'', nat_str (length pruned)),
                (''retained'', int_str (retain_runs cfg))])))))))
       (\<lambda>e. event ''RETENTION_FAIL'' [(''err'', exc_text e)])"

definition finish :: "env \<Rightarrow> config \<Rightarrow> unit drv" where
  "finish E cfg =
     bindM (ask (e_now E)) (\<lambda>run_end. bindM (gets id) (\<lambda>s.
     let doc = dumps_indent 0 (last_run_doc s run_end) in
     seqM (catchM (seqM (write_local E (e_status_root E @ ''/last-run.json'') doc)
                        (write_local E (e_log_root E @ ''/sessions/'' @ run_id s @ ''/last-run.json'') doc))
             (\<lambda>e. if is_os_error e then event ''HEARTBEAT_WRITE_FAIL'' [(''err'', exc_msg e)] else raise e))
    (seqM (prune_sessions E cfg)
          (event ''RUN_END'' [(''exit_code'', int_str (exit_code s)), (''units_checked'', nat_str (units_checked s)),
             (''units_updated'', nat_str (count_outcomes (\<lambda>x. x = ''OK'') (unit_outcomes s))),
             (''units_failed'', nat_str (count_outcomes (\<lambda>x. x \<in> set fail_states) (unit_outcomes s))),
             (''duration_s'', int_str (whole_seconds (run_end - run_start s)))]))))"

definition fatal :: "fields \<Rightarrow> int drv" where
  "fatal fs = seqM (event ''FATAL'' fs) (ret EXIT_FATAL)"

text \<open>The account blocks of the vault: both members present, or the run is fatal.\<close>

definition account :: "(string, json) dict \<Rightarrow> string \<Rightarrow> (json \<times> json) option res" where
  "account creds key =
     (let block = jor (field creds key) (JObj []) in
      bind_res (jget block ''user'') (\<lambda>user. bind_res (jget block ''pass'') (\<lambda>pw.
      Inr (if truthy user \<and> truthy pw then Some (user, pw) else None))))"

text \<open>After the vault: the preflight and the units.\<close>

definition run_units :: "env \<Rightarrow> config \<Rightarrow> unit_entry list \<Rightarrow> int drv" where
  "run_units E cfg units =
     seqM (preflight_smb E)
    (seqM (preflight_tree E)
    (bindM (gets exit_code) (\<lambda>c.
     if c = EXIT_FATAL then ret EXIT_FATAL
     else
       (case select_units units (cfg_only_hosts cfg) of (chosen, skipped) \<Rightarrow>
        seqM (forM skipped (\<lambda>u. event ''UNIT_EXCLUDED'' [(''unit'', ue_hostname u),
                (''reason'', case ue_excluded u of None \<Rightarrow> ''None'' | Some x \<Rightarrow> x)]))
       (seqM (event ''RUN_PLAN'' [(''units'', join '','' (map ue_hostname chosen)),
                (''dry_run'', py_str (JBool (cfg_dry_run cfg))), (''force'', py_str (JBool (cfg_force cfg)))])
       (seqM (forM chosen (process_unit E cfg))
       (seqM (finish E cfg) (gets exit_code))))))))"

definition run :: "env \<Rightarrow> config \<Rightarrow> int drv" where
  "run E cfg =
     bindM (gets run_id) (\<lambda>me.
     seqM (event ''RUN_START'' [(''run_id'', me),
             (''trigger'', if e_username E = Some ''SYSTEM'' then ''TaskScheduler'' else ''manual'')])
    (bindM (ask (\<lambda>n. e_exists E n (cfg_unit_registry cfg))) (\<lambda>reg_there.
     if \<not> reg_there then fatal [(''reason'', ''unit_registry_missing''), (''path'', cfg_unit_registry cfg)]
     else
     bindM (ask (\<lambda>n. e_exists E n (cfg_vault_creds cfg))) (\<lambda>vault_there.
     if \<not> vault_there then fatal [(''reason'', ''vault_creds_missing''), (''path'', cfg_vault_creds cfg)]
     else
     bindM (ask (\<lambda>n. e_read E n (cfg_unit_registry cfg))) (\<lambda>reg_text.
     bindM (liftR (bind_res (load_json_file reg_text) (load_unit_registry (e_to_int E)))) (\<lambda>units.
     bindM (ask (\<lambda>n. e_read E n (cfg_vault_creds cfg))) (\<lambda>vault_text.
     bindM (liftR (load_json_object vault_text)) (\<lambda>creds.
     if \<not> truthy (field creds ''unit'') then fatal [(''reason'', ''creds_unit_missing'')]
     else
     bindM (liftR (account creds ''smb'')) (\<lambda>smb.
     case smb of None \<Rightarrow> fatal [(''reason'', ''creds_smb_missing''), (''hint'', ''vault/creds.json needs smb.user/pass'')]
     | Some (su, sp) \<Rightarrow>
     bindM (liftR (account creds ''shared'')) (\<lambda>shared.
     case shared of
       None \<Rightarrow> fatal [(''reason'', ''creds_shared_missing''),
                 (''hint'', ''vault/creds.json needs shared.user/pass (the mast-share account)'')]
     | Some (hu, hp) \<Rightarrow>
     bindM (liftR (bind_res (jindex (field creds ''unit'') ''user'') (\<lambda>_. jindex (field creds ''unit'') ''pass''))) (\<lambda>_.
     seqM (modifyM (\<lambda>s. s\<lparr>smb_user := su, smb_pass := sp, shared_user := hu, shared_pass := hp, d_creds := creds\<rparr>))
          (run_units E cfg units))))))))))))"

text \<open>\<open>Driver(cfg)\<close>: the state a run starts from.\<close>

definition new_driver :: "env \<Rightarrow> string \<Rightarrow> int \<Rightarrow> (string, staging_host) dict \<Rightarrow> driver" where
  "new_driver E rid start hosts =
     \<lparr>tick = 0, slept = 0, trace = [], run_id = rid, run_start = start, exit_code = EXIT_OK, units_checked = 0,
      execute_refused = False, prov_address = e_identity E, the_relay = None, staging_share = ''mast-staging'',
      staging_dir = [], unit_stage = [], staging_hosts = hosts, d_creds = [], smb_user = JNull, smb_pass = JNull,
      shared_user = JNull, shared_pass = JNull, unit_outcomes = [], u_payload_hash = JStr [], u_git_sha = JStr [],
      u_lease_held = False, u_session = None, u_start = 0\<rparr>"

section \<open>The supervised loop\<close>

text \<open>
  \<open>run_loop\<close>: \<open>stop\<close> is asked with the number of times it was asked before, \<open>one\<close> makes a
  \<open>Driver(cfg)\<close> and runs it, given the number of the cycle, on a state that outlives it, and may
  raise; \<open>sleep_fn\<close> waits for the interval and may raise, which ends the loop. \<open>fuel\<close> bounds the
  cycles of a service that is never stopped; the result is none when it runs out.
\<close>

fun run_loop :: "(nat \<Rightarrow> bool) \<Rightarrow> (nat \<Rightarrow> 's \<Rightarrow> int res \<times> 's) \<Rightarrow> ('s \<Rightarrow> unit res \<times> 's) \<Rightarrow> nat option
    \<Rightarrow> nat \<Rightarrow> nat \<Rightarrow> nat \<Rightarrow> 's \<Rightarrow> (nat res \<times> 's) option" where
  "run_loop stop one sleep_fn max_cycles 0 asked cycle s = None"
| "run_loop stop one sleep_fn max_cycles (Suc fuel) asked cycle s =
     (if stop asked then Some (Inr cycle, s)
      else
        (case one (cycle + 1) s of (r, s1) \<Rightarrow>
           (case r of
              Inl (SystemExit m) \<Rightarrow> Some (Inl (SystemExit m), s1)
            | _ \<Rightarrow>
                if (case max_cycles of None \<Rightarrow> False | Some m \<Rightarrow> m \<le> cycle + 1) then Some (Inr (cycle + 1), s1)
                else if stop (asked + 1) then Some (Inr (cycle + 1), s1)
                else
                  (case sleep_fn s1 of
                     (Inl e, s2) \<Rightarrow> Some (Inl e, s2)
                   | (Inr u, s2) \<Rightarrow> run_loop stop one sleep_fn max_cycles fuel (asked + 2) (cycle + 1) s2))))"

end
