(* ===== verification/Driver_Example.thy ===== *)
theory Driver_Example
  imports Driver
begin

text \<open>
  A healthy world for the concrete instances: one unit that lacks one module, a server that serves
  it, a unit that answers every script the way a working one does.
\<close>

definition ex_states :: json where
  "ex_states = JObj (map (\<lambda>n. (n, JStr ''absent'')) expected_services)"

definition ex_bm :: json where
  "ex_bm = JObj [(''payload_hash'', JStr ''p1''), (''git_sha'', JStr ''abc''), (''modules'', JList [JStr ''git'']),
     (''module_state'', JObj [(''git'', JObj [(''hash'', JStr ''g1'')])]),
     (''module_payload'', JObj []), (''payload_always'', JObj [])]"

definition ex_pull :: json where
  "ex_pull = JObj [(''outcome'', JStr ''OK''), (''rc'', JInt 1), (''landed_bytes'', JInt 5), (''landed_files'', JInt 1), (''completed'', JBool True)]"

fun ex_ps :: "script \<Rightarrow> string res" where
  "ex_ps StandDown = Inr (''STANDDOWN '' @ json_dumps ex_states)"
| "ex_ps (ReachStaging a) = Inr ''SMBREACH ok''"
| "ex_ps (Pull a) = Inr (''PULLRESULT '' @ json_dumps ex_pull)"
| "ex_ps RegisterRun = Inr ''DETACHED_REGISTERED''"
| "ex_ps (ReadFile p) = Inr (if p = UNIT_EXECUTE_RESULT then json_dumps (JObj [(''status'', JStr ''done''), (''exit_code'', JInt 0)]) else [])"
| "ex_ps (SmokeScript ms) = Inr (''SMOKE '' @ json_dumps (JObj [(''git'', JStr ''ok'')]))"
| "ex_ps sc = Inr []"

definition ex_env :: env where
  "ex_env = \<lparr>e_exists = (\<lambda>n p. True), e_read = (\<lambda>n p. Inr (json_dumps ex_bm)), e_write = (\<lambda>n p. Inr ()),
     e_now = (\<lambda>n. 1700000000000000000), e_mono = (\<lambda>n. 0), e_instant = (\<lambda>t. Inl ValueError),
     e_zone = (\<lambda>z t. Inr (0,0)), e_server_local = (\<lambda>t. (0,0)), e_to_int = (\<lambda>j. None),
     e_resolve = (\<lambda>n h. Inr ''10.0.0.5''), e_local_address = (\<lambda>n h. ''10.0.0.1''), e_tcp = (\<lambda>n h p. True),
     e_connect = (\<lambda>n h. Inr 7), e_ps = (\<lambda>n s sc. ex_ps sc), e_upload = (\<lambda>n p. Inr ()), e_build = (\<lambda>n h. Inr 0),
     e_sync = (\<lambda>n h. Inl OSError), e_providers = (\<lambda>n. Some [(''git'', Some ''{}'')]), e_diverged = (\<lambda>n. Inr []),
     e_staging = (\<lambda>n d. [(d, [(''git.exe'', FileEntry (Some 5))])]), e_smb_check = (\<lambda>n. Inr None), e_username = None,
     e_identity = ''prov'', e_sessions = (\<lambda>n. \<lparr>sd_is_dir = False, sd_entries = []\<rparr>), e_rmtree_fails = (\<lambda>n d. False),
     e_decode64 = Inr, e_log_root = ''/log'', e_status_root = ''/status''\<rparr>"

definition ex_cfg :: config where
  "ex_cfg = \<lparr>repo_top = ''/repo'', cfg_unit_registry = ''/u.json'', cfg_vault_creds = ''/v.json'', cfg_modules = [],
     cfg_only_hosts = [], cfg_proxy_mode = ''weizmann'', cfg_dry_run = False, cfg_force = False, cfg_test_mode = False,
     maint_window_start = -1, maint_window_end = -1, retain_runs = 60\<rparr>"

definition ex_unit :: unit_entry where
  "ex_unit = \<lparr>ue_hostname = ''mast01'', ue_site = ''ns'', ue_comment = None, ue_timezone = None,
     ue_maintenance_window = None, ue_ip = None, ue_mac = None, ue_modules = None, ue_excluded = None\<rparr>"

end
