(* ===== verification/Driver_Trace.thy ===== *)
theory Driver_Trace
  imports Driver
begin

text \<open>
  What a step of the driver does to its state, phase by phase and once for every relation that
  matters. \<open>moves R m\<close>: running \<open>m\<close> moves the state along \<open>R\<close>, whether it returns or raises.
  The locale \<open>step_logic\<close> proves it for the control structures from reflexivity and transitivity,
  \<open>phase_logic\<close> for every phase of \<open>process_unit\<close> from what \<open>R\<close> says of one appended act, and
  \<open>unit_logic\<close> for the whole of it. The interpretations are the relations the properties use:
  what is appended to the timeline (\<open>step_rel\<close>) and that the lease is left alone (\<open>lease_rel\<close>).
\<close>

definition moves :: "(driver \<Rightarrow> driver \<Rightarrow> bool) \<Rightarrow> 'a drv \<Rightarrow> bool" where
  "moves R m \<longleftrightarrow> (\<forall>s. R s (snd (m s)))"

lemma movesD: "moves R m \<Longrightarrow> m s = (r, s') \<Longrightarrow> R s s'"
  by (auto simp: moves_def dest!: spec [where x = s])

lemma movesI: "(\<And>s r s'. m s = (r, s') \<Longrightarrow> R s s') \<Longrightarrow> moves R m"
  by (metis moves_def prod.collapse)

lemma moves_mono: "moves R m \<Longrightarrow> (\<And>s s'. R s s' \<Longrightarrow> R' s s') \<Longrightarrow> moves R' m"
  unfolding moves_def by blast

named_theorems resp \<open>statements that respect a relation\<close>

section \<open>Control structures\<close>

locale step_logic =
  fixes R :: "driver \<Rightarrow> driver \<Rightarrow> bool"
  assumes R_refl: "R s s"
    and R_trans: "R a b \<Longrightarrow> R b c \<Longrightarrow> R a c"
begin

lemma pure [resp]:
  "moves R (ret a)" "moves R (raise e)" "moves R (gets f)" "moves R (liftR r)"
  by (simp_all add: moves_def R_refl)

lemma modify: "(\<And>s. R s (f s)) \<Longrightarrow> moves R (modifyM f)"
  by (simp add: moves_def)

lemma bind [resp]: "moves R m \<Longrightarrow> (\<And>a. moves R (f a)) \<Longrightarrow> moves R (bindM m f)"
proof (rule movesI)
  fix s r s' assume b: "bindM m f s = (r, s')" and m: "moves R m" and f: "\<And>a. moves R (f a)"
  show "R s s'"
  proof (cases "m s")
    case (Pair q s1)
    with m have "R s s1" by (blast dest: movesD)
    with b Pair R_trans [OF _ movesD [OF f]] show ?thesis by (cases q) (auto simp: bindM_def)
  qed
qed

lemma seq [resp]: "moves R m \<Longrightarrow> moves R n \<Longrightarrow> moves R (seqM m n)"
  unfolding seqM_def by (rule bind)

lemma guard [resp]: "(c \<Longrightarrow> moves R m) \<Longrightarrow> moves R (whenM c m)"
  by (simp add: whenM_def pure)

lemma catch [resp]: "moves R m \<Longrightarrow> (\<And>e. moves R (h e)) \<Longrightarrow> moves R (catchM m h)"
proof (rule movesI)
  fix s r s' assume b: "catchM m h s = (r, s')" and m: "moves R m" and h: "\<And>e. moves R (h e)"
  show "R s s'"
  proof (cases "m s")
    case (Pair q s1)
    with m have "R s s1" by (blast dest: movesD)
    with b Pair R_trans [OF _ movesD [OF h]] show ?thesis by (cases q) (auto simp: catchM_def)
  qed
qed

lemma catch_exc [resp]: "moves R m \<Longrightarrow> (\<And>e. moves R (h e)) \<Longrightarrow> moves R (catch_exception m h)"
  unfolding catch_exception_def by (rule catch) (simp_all add: pure)

lemma finally_block [resp]: "moves R m \<Longrightarrow> moves R n \<Longrightarrow> moves R (finallyM m n)"
  by (rule movesI) (auto simp: finallyM_def split: prod.splits sum.splits intro: R_trans movesD)

lemma for_each [resp]: "(\<And>x. moves R (f x)) \<Longrightarrow> moves R (forM xs f)"
  by (induction xs) (auto intro: seq pure)

lemma fold_each [resp]: "(\<And>x a. moves R (f x a)) \<Longrightarrow> moves R (foldM xs a f)"
  by (induction xs arbitrary: a) (auto intro: bind pure)

lemma cond [resp]: "(c \<Longrightarrow> moves R m) \<Longrightarrow> (\<not> c \<Longrightarrow> moves R n) \<Longrightarrow> moves R (if c then m else n)"
  by simp

lemma let_in [resp]: "(\<And>y. y = x \<Longrightarrow> moves R (f y)) \<Longrightarrow> moves R (Let x f)"
  by (simp add: Let_def)

lemma cases [resp]:
  "(x = None \<Longrightarrow> moves R m) \<Longrightarrow> (\<And>y. x = Some y \<Longrightarrow> moves R (f y))
     \<Longrightarrow> moves R (case x of None \<Rightarrow> m | Some y \<Rightarrow> f y)"
  "(\<And>e. r = Inl e \<Longrightarrow> moves R (g e)) \<Longrightarrow> (\<And>a. r = Inr a \<Longrightarrow> moves R (h a))
     \<Longrightarrow> moves R (case r of Inl e \<Rightarrow> g e | Inr a \<Rightarrow> h a)"
  "(\<And>a b. p = (a, b) \<Longrightarrow> moves R (k a b)) \<Longrightarrow> moves R (case p of (a, b) \<Rightarrow> k a b)"
  "(xs = [] \<Longrightarrow> moves R n) \<Longrightarrow> (\<And>z zs. xs = z # zs \<Longrightarrow> moves R (l z zs))
     \<Longrightarrow> moves R (case xs of [] \<Rightarrow> n | z # zs \<Rightarrow> l z zs)"
  by (auto split: option.split sum.split prod.split list.split)

end

section \<open>Acts\<close>

definition failing_outcomes :: "string list" where
  "failing_outcomes = [''FAIL'', ''UNREACHABLE'', ''PREFLIGHT_FAIL'', ''BUILD_FAIL'', ''RELAY_SYNC_FAIL'',
                       ''TRANSFER_FAIL'', ''EXECUTE_FAIL'']"

lemma failing_simps [simp]:
  "''FAIL'' \<in> set failing_outcomes" "''UNREACHABLE'' \<in> set failing_outcomes" "''PREFLIGHT_FAIL'' \<in> set failing_outcomes"
  "''BUILD_FAIL'' \<in> set failing_outcomes" "''RELAY_SYNC_FAIL'' \<in> set failing_outcomes"
  "''TRANSFER_FAIL'' \<in> set failing_outcomes" "''EXECUTE_FAIL'' \<in> set failing_outcomes"
  "''SKIP'' \<notin> set failing_outcomes" "''OK'' \<notin> set failing_outcomes" "''SKIP_MAINTENANCE'' \<notin> set failing_outcomes"
  by (simp_all add: failing_outcomes_def)

fun is_row :: "act \<Rightarrow> bool" where
  "is_row (Activity h r w d p g) = True"
| "is_row a = False"

fun starts_run :: "act \<Rightarrow> bool" where
  "starts_run (Ps sess RegisterRun) = True"
| "starts_run a = False"

fun pulls :: "act \<Rightarrow> bool" where
  "pulls (Ps sess (Pull pa)) = True"
| "pulls a = False"

fun availability_write :: "act \<Rightarrow> json option" where
  "availability_write (Ps sess (WriteJson p obj)) = (if p = UNIT_AVAIL then Some obj else None)"
| "availability_write a = None"

text \<open>The event that says the unit has been taken out of service.\<close>

definition takes_lease :: "act \<Rightarrow> bool" where
  "takes_lease a \<longleftrightarrow> (case a of Event k fs \<Rightarrow> k = ''AVAIL_SET'' \<and> (''available'', ''false'') \<in> set fs | _ \<Rightarrow> False)"

lemma takes_lease_Ps [simp]: "\<not> takes_lease (Ps sess sc)"
  by (simp add: takes_lease_def)

text \<open>Nothing that changes the unit's payload or its availability.\<close>

definition quiet :: "act \<Rightarrow> bool" where
  "quiet a \<longleftrightarrow> \<not> starts_run a \<and> \<not> pulls a \<and> availability_write a = None \<and> \<not> takes_lease a"

lemma quiet_simps [simp]:
  "k \<noteq> ''AVAIL_SET'' \<Longrightarrow> quiet (Event k fs)" "quiet (Activity h r w d p g)" "quiet (Upload n p c)"
  "quiet (Connect h)" "quiet (Dispose n)" "quiet (Build h as)" "quiet (SyncRelay h)" "quiet (WriteLocal p c)"
  "quiet (Sleep i)" "quiet (RemoveRun rn)"
  by (simp_all add: quiet_def takes_lease_def)

lemma quiet_scripts [simp]:
  "quiet (Ps n (ReadFile p))" "quiet (Ps n (ReachStaging a))" "quiet (Ps n InventoryScript)" "quiet (Ps n StandDown)"
  "quiet (Ps n ProtectCred)" "quiet (Ps n DeleteTask)" "quiet (Ps n (SmokeScript ms))" "quiet (Ps n (SessionCheck p))"
  "quiet (Ps n (ArchivePull p))" "\<not> quiet (Ps n RegisterRun)" "\<not> quiet (Ps n (Pull pa))"
  "quiet (Ps n (WriteJson p obj)) \<longleftrightarrow> p \<noteq> UNIT_AVAIL"
  by (simp_all add: quiet_def takes_lease_def)

lemma unit_paths_distinct [simp]:
  "UNIT_DETACHED_CFG \<noteq> UNIT_AVAIL" "UNIT_SHARED_CFG \<noteq> UNIT_AVAIL"
  by (simp_all add: UNIT_DETACHED_CFG_def UNIT_SHARED_CFG_def UNIT_AVAIL_def)

lemma activity_run:
  "activity h r w d p g s = (Inr (), s\<lparr>trace := trace s @ [Activity h r w d p g],
                                        unit_outcomes := dict_set h r (unit_outcomes s)\<rparr>)"
  by (simp add: activity_def seqM_def bindM_def act_def)

lemma event_run: "event k fs s = (Inr (), s\<lparr>trace := trace s @ [Event k fs]\<rparr>)"
  by (simp add: event_def act_def)

text \<open>A row asks the clock once.\<close>

lemma row_run:
  obtains d p g n where "tick s \<le> n" "row E h r w s = (Inr (), s\<lparr>tick := n, trace := trace s @ [Activity h r w d p g],
                                   unit_outcomes := dict_set h r (unit_outcomes s)\<rparr>)"
  by (rule that [of "Suc (tick s)"]) (simp_all add: row_def dur_def bindM_def ask_def activity_run)

lemma fail_row_run:
  obtains d p g n where "tick s \<le> n" "fail_row E h r w s = (Inr (), s\<lparr>tick := n, trace := trace s @ [Activity h r w d p g],
      unit_outcomes := dict_set h r (unit_outcomes s), exit_code := EXIT_UNIT_FAIL\<rparr>)"
proof -
  obtain d p g n where n: "tick s \<le> n" and "row E h r w s = (Inr (), s\<lparr>tick := n, trace := trace s @ [Activity h r w d p g],
                                   unit_outcomes := dict_set h r (unit_outcomes s)\<rparr>)" by (rule row_run)
  then show ?thesis
    by (intro that [of n d p g]) (simp_all add: n fail_row_def seqM_def bindM_def set_exit_def)
qed

section \<open>Phases\<close>

text \<open>What a relation has to say of one step: a question, the attributes the phases set, an act
  that is not a row, a row that leaves the exit code and one that makes it a unit failure.\<close>

locale phase_logic = step_logic +
  fixes ok :: "act \<Rightarrow> bool"
  assumes R_tick: "tick s \<le> n \<Longrightarrow> R s (s\<lparr>tick := n\<rparr>)"
    and R_slept: "slept s \<le> j \<Longrightarrow> R s (s\<lparr>slept := j\<rparr>)"
    and R_attributes: "R s (s\<lparr>staging_dir := d\<rparr>)" "R s (s\<lparr>unit_stage := d\<rparr>)" "R s (s\<lparr>execute_refused := b\<rparr>)"
      "R s (s\<lparr>the_relay := rl\<rparr>)" "R s (s\<lparr>staging_share := d\<rparr>)" "R s (s\<lparr>prov_address := d\<rparr>)"
      "R s (s\<lparr>u_git_sha := v\<rparr>)" "R s (s\<lparr>u_payload_hash := v\<rparr>)"
      "R s (s\<lparr>units_checked := i\<rparr>)"
    and R_act: "ok a \<Longrightarrow> \<not> is_row a \<Longrightarrow> R s (s\<lparr>trace := trace s @ [a]\<rparr>)"
    and R_row: "r \<notin> set failing_outcomes \<Longrightarrow> tick s \<le> n \<Longrightarrow>
      R s (s\<lparr>tick := n, trace := trace s @ [Activity h r w dd p g], unit_outcomes := dict_set h r (unit_outcomes s)\<rparr>)"
    and R_fail_row: "r \<in> set failing_outcomes \<Longrightarrow> tick s \<le> n \<Longrightarrow>
      R s (s\<lparr>tick := n, trace := trace s @ [Activity h r w dd p g], unit_outcomes := dict_set h r (unit_outcomes s),
             exit_code := EXIT_UNIT_FAIL\<rparr>)"
    and quiet_ok: "quiet a \<Longrightarrow> ok a"
begin

lemma asks [resp]: "moves R (ask q)"
  by (simp add: moves_def ask_def R_tick)

lemma sets [resp]:
  "moves R (modifyM (\<lambda>s. s\<lparr>staging_dir := d\<rparr>))" "moves R (modifyM (\<lambda>s. s\<lparr>unit_stage := d\<rparr>))"
  "moves R (modifyM (\<lambda>s. s\<lparr>execute_refused := b\<rparr>))"
  "moves R (modifyM (\<lambda>s. s\<lparr>the_relay := fr s\<rparr>))" "moves R (modifyM (\<lambda>s. s\<lparr>staging_share := d\<rparr>))"
  "moves R (modifyM (\<lambda>s. s\<lparr>prov_address := d\<rparr>))"
  "moves R (modifyM (\<lambda>s. s\<lparr>staging_share := d, prov_address := d'\<rparr>))"
  "moves R (modifyM (\<lambda>s. s\<lparr>u_git_sha := v\<rparr>))" "moves R (modifyM (\<lambda>s. s\<lparr>u_payload_hash := v\<rparr>))"
  "moves R (modifyM (\<lambda>s. s\<lparr>units_checked := fi s\<rparr>))"
  by (rule modify, (rule R_attributes | rule R_trans [OF R_attributes(5) R_attributes(6)]))+

lemma acts: "ok a \<Longrightarrow> \<not> is_row a \<Longrightarrow> moves R (act a)"
  unfolding act_def by (rule modify) (rule R_act)

lemma events [resp]: "k \<noteq> ''AVAIL_SET'' \<Longrightarrow> moves R (event k fs)"
  unfolding event_def by (rule acts) (simp_all add: quiet_ok)

lemma deeds: "ok a \<Longrightarrow> \<not> is_row a \<Longrightarrow> moves R (deed a q)"
  unfolding deed_def by (intro seq bind acts asks pure)

lemma remote [resp]:
  "ok (Ps sess sc) \<Longrightarrow> moves R (ps_out E sess sc)"
  "moves R (upload E sess p c)" "moves R (connect_unit E host)" "moves R (write_local E p c)"
  unfolding ps_out_def upload_def connect_unit_def write_local_def by (simp_all add: deeds quiet_ok)

lemma clocks [resp]: "moves R (mono_clock E)" "0 \<le> i \<Longrightarrow> moves R (sleep i)"
  unfolding mono_clock_def sleep_def second_def
  by (intro resp acts modify R_slept; simp add: quiet_ok)+

lemma durs [resp]: "moves R (dur E)"
  unfolding dur_def by (intro resp)

lemma rows [resp]:
  assumes "r \<notin> set failing_outcomes"
  shows "moves R (row E h r w)"
proof (rule movesI)
  fix s x s' assume x: "row E h r w s = (x, s')"
  obtain d p g n where n: "tick s \<le> n" and "row E h r w s = (Inr (), s\<lparr>tick := n, trace := trace s @ [Activity h r w d p g],
                                   unit_outcomes := dict_set h r (unit_outcomes s)\<rparr>)" by (rule row_run)
  with x show "R s s'" using R_row [OF assms n, of h w d p g] by simp
qed

lemma fail_rows [resp]:
  assumes "r \<in> set failing_outcomes"
  shows "moves R (fail_row E h r w)"
proof (rule movesI)
  fix s x s' assume x: "fail_row E h r w s = (x, s')"
  obtain d p g n where n: "tick s \<le> n" and "fail_row E h r w s = (Inr (), s\<lparr>tick := n, trace := trace s @ [Activity h r w d p g],
      unit_outcomes := dict_set h r (unit_outcomes s), exit_code := EXIT_UNIT_FAIL\<rparr>)" by (rule fail_row_run)
  with x show "R s s'" using R_fail_row [OF assms n, of h w d p g] by simp
qed

lemma reconnects [resp]: "moves R (reconnect E host e p)"
  unfolding reconnect_def by (intro resp acts) (simp_all add: quiet_ok)

lemma persists [resp]: "moves R (persist_mac E cfg u mac)"
  unfolding persist_mac_def Let_def by (intro resp) simp_all

lemma inventories [resp]: "moves R (inventory E cfg sess u)"
  unfolding inventory_def Let_def by (intro resp) (simp_all add: quiet_ok)

lemma reclaims [resp]: "moves R (reclaim_availability E sess host)"
  unfolding reclaim_availability_def Let_def
  by (intro resp) (auto split: json.split sum.split option.split simp: quiet_ok intro: pure)

lemma stands_down [resp]: "moves R (stand_down E sess host)"
  unfolding stand_down_def stand_down_failed_def Let_def
  by (intro resp) (auto split: json.split intro!: resp simp: quiet_ok)

lemma reaches [resp]: "moves R (unit_can_reach_staging E sess)"
  unfolding unit_can_reach_staging_def by (intro resp) (simp add: quiet_ok)

lemma builds [resp]: "moves R (build E cfg u mods)"
  unfolding build_def Let_def by (intro resp acts) (simp_all add: quiet_ok)

lemma classifies [resp]: "moves R (classify_unit E cfg host i h v bm)"
  unfolding classify_unit_def Let_def by (intro resp) simp_all

lemma narrows [resp]: "moves R (narrow_targets E cfg host modules targeted)"
  unfolding narrow_targets_def by (intro resp) simp_all

lemma may_changes [resp]: "moves R (may_change E cfg u)"
  unfolding may_change_def Let_def by (intro resp) simp_all

lemma syncs [resp]: "moves R (sync_to_relay E host)"
  unfolding sync_to_relay_def Let_def by (intro resp deeds) (simp_all add: quiet_ok)

lemma credentials [resp]: "moves R (staging_credential E host)"
  unfolding staging_credential_def Let_def by (intro resp) simp_all

lemma measures [resp]: "moves R (measure_staging E x)"
  unfolding measure_staging_def by (intro resp)

lemma transfers_failed [resp]: "moves R (transfer_failed E host fs why)"
  unfolding transfer_failed_def by (intro resp) simp_all

lemma transfer_outcomes [resp]: "moves R (transfer_outcome E host stage sz out ns)"
  unfolding transfer_outcome_def Let_def by (intro resp) (auto split: pull_verdict.split intro!: resp)

lemma transfers: "(\<And>pa. ok (Ps sess (Pull pa))) \<Longrightarrow> moves R (transfer E cfg sess host x)"
  unfolding transfer_def Let_def by (intro resp) simp_all

lemma detached_inputs [resp]: "moves R (write_detached_inputs E sess stage ms)"
  unfolding write_detached_inputs_def write_unit_json_def by (intro resp) (simp add: quiet_ok)

lemma shared_creds [resp]: "moves R (write_shared_cred E sess)"
  unfolding write_shared_cred_def write_unit_json_def by (intro resp) (simp_all add: quiet_ok)

lemma polls_once [resp]: "moves R (poll_once E host p)"
  unfolding poll_once_def heartbeat_def Let_def by (intro resp) (simp_all add: quiet_ok)

lemma polls [resp]: "moves R (poll E host deadline fuel p)"
  by (induction fuel arbitrary: p) (auto intro!: resp simp: EXECUTE_POLL_INTERVAL_S_def)

lemma executes_failed [resp]: "moves R (execute_failed E host fs why)"
  unfolding execute_failed_def by (intro resp) simp_all

lemma refuses [resp]: "moves R (lease_refused E sess host rc)"
  unfolding lease_refused_def Let_def by (intro resp) (simp_all add: quiet_ok)

lemma verdicts [resp]: "moves R (execute_verdict E host p)"
  unfolding execute_verdict_def by (intro resp) simp_all

lemma executes: "ok (Ps sess RegisterRun) \<Longrightarrow> moves R (execute E cfg sess host targeted)"
  unfolding execute_def Let_def by (intro resp) (simp_all add: quiet_ok)

lemma smokes [resp]: "moves R (smoke E sess host modules)"
  unfolding smoke_def Let_def by (intro resp) (simp_all add: quiet_ok)

lemma archives [resp]: "moves R (archive_session E sess host)"
  unfolding archive_session_def download_dir_def archive_line_def Let_def by (intro resp) (simp_all add: quiet_ok)

lemma exceptions [resp]: "moves R (unit_exception E host e)"
  unfolding unit_exception_def by (intro resp) simp_all

lemma addresses [resp]: "moves R (choose_address E u resolved)"
  unfolding choose_address_def Let_def by (intro resp) simp_all

lemma json_writes: "(\<And>obj. ok (Ps sess (WriteJson p obj))) \<Longrightarrow> moves R (write_unit_json E sess p obj)"
  unfolding write_unit_json_def by (intro resp) simp

lemma setters:
  assumes "\<And>sess obj. ok (Ps sess (WriteJson UNIT_AVAIL obj))" "\<And>fs. ok (Event ''AVAIL_SET'' fs)"
  shows "moves R (set_unavailable E sess host)" "moves R (set_available E sess host)"
    "moves R (release_lease E sess host)"
  unfolding set_unavailable_def set_available_def release_lease_def event_def [of "''AVAIL_SET''"]
  by (intro resp json_writes acts; simp add: assms)+

end

section \<open>A whole unit\<close>

text \<open>A relation that does not look at the locals of \<open>_process_unit\<close> and for which every act is
  fine is respected by all of it.\<close>

locale unit_logic = phase_logic +
  assumes R_locals: "R s (s\<lparr>u_payload_hash := v, u_git_sha := v', u_lease_held := b, u_session := sn, u_start := i\<rparr>)"
    and R_lease: "R s (s\<lparr>u_lease_held := b\<rparr>)" "R s (s\<lparr>u_session := sn\<rparr>)"
begin

lemma begins [resp]: "moves R (begin_unit E)"
  unfolding begin_unit_def by (intro resp modify R_locals)

lemma holds [resp]: "moves R (hold_lease b)" "moves R (modifyM (\<lambda>s. s\<lparr>u_session := sn\<rparr>))"
  unfolding hold_lease_def by (intro modify R_lease)+

lemma closes:
  assumes "\<And>sess obj. ok (Ps sess (WriteJson UNIT_AVAIL obj))" "\<And>fs. ok (Event ''AVAIL_SET'' fs)"
  shows "moves R (close_unit E host)"
  unfolding close_unit_def release_and_archive_def
  by (intro resp setters acts assms) (simp_all add: quiet_ok)

lemma runs_on_unit: "(\<And>a. ok a) \<Longrightarrow> moves R (run_on_unit E cfg sess host modules targeted)"
  unfolding run_on_unit_def by (intro resp executes setters) simp_all

lemma deploys: "(\<And>a. ok a) \<Longrightarrow> moves R (deploy E cfg sess host modules targeted bm)"
  unfolding deploy_def by (intro resp transfers setters runs_on_unit) simp_all

lemma processes: "(\<And>a. ok a) \<Longrightarrow> moves R (process_unit E cfg u)"
  unfolding process_unit_def unit_body_def unit_phases_def decide_and_deploy_def Let_def
  by (intro resp deploys closes) (simp_all add: quiet_ok)

end

section \<open>What is appended\<close>

fun fails :: "act \<Rightarrow> bool" where
  "fails (Activity h r w d p g) = (r \<in> set failing_outcomes)"
| "fails a = False"

fun note_row :: "(string, string) dict \<Rightarrow> act \<Rightarrow> (string, string) dict" where
  "note_row d (Activity h r w n p g) = dict_set h r d"
| "note_row d a = d"

text \<open>Only acts of \<open>S\<close> are appended, the exit code becomes a unit failure exactly with a failing
  row, and the outcomes are those of the rows.\<close>

definition step_rel :: "(act \<Rightarrow> bool) \<Rightarrow> driver \<Rightarrow> driver \<Rightarrow> bool" where
  "step_rel S s s' \<longleftrightarrow> (\<exists>xs. trace s' = trace s @ xs \<and> list_all S xs
     \<and> exit_code s' = (if list_ex fails xs then EXIT_UNIT_FAIL else exit_code s)
     \<and> unit_outcomes s' = foldl note_row (unit_outcomes s) xs \<and> run_id s' = run_id s)"

abbreviation does :: "(act \<Rightarrow> bool) \<Rightarrow> 'a drv \<Rightarrow> bool" where
  "does S m \<equiv> moves (step_rel S) m"

lemma step_rel_trans: "step_rel S a b \<Longrightarrow> step_rel S b c \<Longrightarrow> step_rel S a c"
proof -
  assume "step_rel S a b" "step_rel S b c"
  then obtain xs ys where
    "trace b = trace a @ xs" "list_all S xs"
    "exit_code b = (if list_ex fails xs then EXIT_UNIT_FAIL else exit_code a)"
    "unit_outcomes b = foldl note_row (unit_outcomes a) xs" "run_id b = run_id a"
    "trace c = trace b @ ys" "list_all S ys"
    "exit_code c = (if list_ex fails ys then EXIT_UNIT_FAIL else exit_code b)"
    "unit_outcomes c = foldl note_row (unit_outcomes b) ys" "run_id c = run_id b"
    unfolding step_rel_def by (elim exE conjE) (rule that)
  then show ?thesis
    unfolding step_rel_def by (intro exI [of _ "xs @ ys"]) simp
qed

lemma step_rel_mono: "step_rel S s s' \<Longrightarrow> (\<And>a. S a \<Longrightarrow> S' a) \<Longrightarrow> step_rel S' s s'"
  unfolding step_rel_def by (elim exE, rule exI) (auto simp: list_all_iff)

lemma does_mono: "does S m \<Longrightarrow> (\<And>a. S a \<Longrightarrow> S' a) \<Longrightarrow> does S' m"
  unfolding moves_def by (blast intro: step_rel_mono)

lemma not_row: "\<not> is_row a \<Longrightarrow> \<not> fails a \<and> note_row d a = d"
  by (cases a) simp_all

lemma step_rel_acts:
  "S a \<Longrightarrow> \<not> is_row a \<Longrightarrow> step_rel S s (s\<lparr>trace := trace s @ [a]\<rparr>)"
  "S (Activity h r w d p g) \<Longrightarrow> r \<notin> set failing_outcomes \<Longrightarrow> step_rel S s
     (s\<lparr>tick := n, trace := trace s @ [Activity h r w d p g], unit_outcomes := dict_set h r (unit_outcomes s)\<rparr>)"
  "S (Activity h r w d p g) \<Longrightarrow> r \<in> set failing_outcomes \<Longrightarrow> step_rel S s
     (s\<lparr>tick := n, trace := trace s @ [Activity h r w d p g], unit_outcomes := dict_set h r (unit_outcomes s),
        exit_code := EXIT_UNIT_FAIL\<rparr>)"
  using not_row [of a] by (auto simp: step_rel_def)

lemma step_rel_unit_logic: "(\<And>a. quiet a \<Longrightarrow> S a) \<Longrightarrow> unit_logic (step_rel S) S"
  by unfold_locales
     (blast intro: step_rel_trans | rule step_rel_acts; simp; fail | simp add: step_rel_def)+

definition no_start :: "act \<Rightarrow> bool" where
  "no_start a \<longleftrightarrow> \<not> starts_run a \<and> availability_write a = None"

definition no_deploy :: "act \<Rightarrow> bool" where
  "no_deploy a \<longleftrightarrow> \<not> starts_run a \<and> \<not> pulls a"

definition anything :: "act \<Rightarrow> bool" where
  "anything a \<longleftrightarrow> True"

lemma anything [simp]: "anything a"
  by (simp add: anything_def)

interpretation quietly: unit_logic "step_rel quiet" quiet
  by (rule step_rel_unit_logic)

interpretation before_start: unit_logic "step_rel no_start" no_start
  by (rule step_rel_unit_logic) (simp add: quiet_def no_start_def)

interpretation around: unit_logic "step_rel no_deploy" no_deploy
  by (rule step_rel_unit_logic) (simp add: quiet_def no_deploy_def)

interpretation freely: unit_logic "step_rel anything" anything
  by (rule step_rel_unit_logic) simp

section \<open>The lease is left alone\<close>

definition lease_rel :: "driver \<Rightarrow> driver \<Rightarrow> bool" where
  "lease_rel s s' \<longleftrightarrow> u_lease_held s' = u_lease_held s \<and> u_session s' = u_session s
     \<and> (\<exists>xs. trace s' = trace s @ xs \<and> list_all (\<lambda>a. availability_write a = None \<and> \<not> takes_lease a) xs)"

definition no_lease :: "act \<Rightarrow> bool" where
  "no_lease a \<longleftrightarrow> availability_write a = None \<and> \<not> takes_lease a"

lemma lease_rel_trans: "lease_rel a b \<Longrightarrow> lease_rel b c \<Longrightarrow> lease_rel a c"
proof -
  assume "lease_rel a b" "lease_rel b c"
  then obtain xs ys where "trace b = trace a @ xs" "list_all (\<lambda>a. availability_write a = None \<and> \<not> takes_lease a) xs"
    "trace c = trace b @ ys" "list_all (\<lambda>a. availability_write a = None \<and> \<not> takes_lease a) ys"
    "u_lease_held c = u_lease_held a" "u_session c = u_session a"
    unfolding lease_rel_def by (elim exE conjE) (rule that, assumption+, simp_all)
  then show ?thesis unfolding lease_rel_def by (intro conjI exI [of _ "xs @ ys"]) simp_all
qed

interpretation leased: phase_logic lease_rel no_lease
proof (unfold_locales, goal_cases)
  case (2 a b c) then show ?case by (rule lease_rel_trans)
qed (auto simp: lease_rel_def no_lease_def quiet_def takes_lease_def)

end
