(* ===== verification/Driver_Guards.thy ===== *)
theory Driver_Guards
  imports Driver_Trace
begin

text \<open>
  What must be on a unit's timeline before an act that changes the unit: a small logic of guarded
  statements over \<open>does\<close>, and its use on \<open>process_unit\<close>. \<open>safe A K P n ks m\<close>: started with the
  event kinds \<open>ks\<close> seen since position \<open>n\<close>, \<open>m\<close> appends an act of \<open>A\<close> only when every kind of \<open>K\<close>
  has been seen and \<open>P\<close> holds.
\<close>

section \<open>Guarded statements\<close>

definition since :: "nat \<Rightarrow> driver \<Rightarrow> act list" where
  "since n s = drop n (trace s)"

definition seen :: "string list \<Rightarrow> act list \<Rightarrow> bool" where
  "seen ks xs \<longleftrightarrow> (\<forall>k\<in>set ks. \<exists>fs. Event k fs \<in> set xs)"

definition before :: "(act \<Rightarrow> bool) \<Rightarrow> (act list \<Rightarrow> bool) \<Rightarrow> act list \<Rightarrow> bool" where
  "before A G xs \<longleftrightarrow> (\<forall>ys a zs. xs = ys @ a # zs \<longrightarrow> A a \<longrightarrow> G ys)"

definition guarded :: "(act \<Rightarrow> bool) \<Rightarrow> string list \<Rightarrow> bool \<Rightarrow> nat \<Rightarrow> driver \<Rightarrow> bool" where
  "guarded A K P n s \<longleftrightarrow> n \<le> length (trace s) \<and> before A (\<lambda>ys. seen K ys \<and> P) (since n s)"

definition safe :: "(act \<Rightarrow> bool) \<Rightarrow> string list \<Rightarrow> bool \<Rightarrow> nat \<Rightarrow> string list \<Rightarrow> 'a drv \<Rightarrow> bool" where
  "safe A K P n ks m \<longleftrightarrow>
     triple (\<lambda>s. guarded A K P n s \<and> seen ks (since n s)) m (\<lambda>_. guarded A K P n) (\<lambda>_. guarded A K P n)"

definition emitted :: "string list \<Rightarrow> driver \<Rightarrow> driver \<Rightarrow> bool" where
  "emitted ks s s' \<longleftrightarrow> (\<exists>xs. trace s' = trace s @ xs \<and> seen ks xs)"

lemma seen_append: "seen ks xs \<Longrightarrow> seen ks (xs @ ys)"
  by (auto simp: seen_def)

lemma seen_prepend: "seen ks ys \<Longrightarrow> seen ks (xs @ ys)"
  by (auto simp: seen_def)

lemma seen_union: "seen (ks @ ls) xs \<longleftrightarrow> seen ks xs \<and> seen ls xs"
  by (auto simp: seen_def)

lemma seen_Nil [simp]: "seen [] xs"
  by (simp add: seen_def)

lemma emitted_Nil: "does S m \<Longrightarrow> m s = (r, s') \<Longrightarrow> emitted [] s s'"
  by (auto simp: emitted_def step_rel_def dest!: movesD)

lemma before_append:
  assumes "before A G xs" "\<And>a. a \<in> set zs \<Longrightarrow> \<not> A a"
  shows "before A G (xs @ zs)"
  unfolding before_def
proof (intro allI impI)
  fix ys a ws assume e: "xs @ zs = ys @ a # ws" and "A a"
  then have "a \<notin> set zs" using assms(2) by blast
  with e obtain us where "xs = ys @ a # us"
    by (auto simp: append_eq_append_conv2 append_eq_Cons_conv Cons_eq_append_conv)
  with assms(1) \<open>A a\<close> show "G ys" unfolding before_def by blast
qed

lemma before_ready:
  assumes "before A G xs" "G xs" "\<And>ys zs. G ys \<Longrightarrow> G (ys @ zs)"
  shows "before A G (xs @ zs)"
  unfolding before_def
proof (intro allI impI)
  fix ys a ws assume e: "xs @ zs = ys @ a # ws" and a: "A a"
  then consider us where "xs = ys @ a # us" | us where "ys = xs @ us"
    by (auto simp: append_eq_append_conv2 append_eq_Cons_conv Cons_eq_append_conv)
  then show "G ys" using assms a unfolding before_def by cases blast+
qed

lemma since_step:
  assumes "step_rel S s s'" "n \<le> length (trace s)"
  obtains zs where "since n s' = since n s @ zs" "list_all S zs" "trace s' = trace s @ zs"
  using assms by (auto simp: since_def step_rel_def)

lemma guarded_step:
  assumes "step_rel S s s'" "guarded A K P n s" "\<And>a. S a \<Longrightarrow> \<not> A a"
  shows "guarded A K P n s'"
proof -
  have n: "n \<le> length (trace s)" using assms(2) by (simp add: guarded_def)
  from since_step [OF assms(1) n] obtain zs where
    z: "since n s' = since n s @ zs" "list_all S zs" "trace s' = trace s @ zs" by blast
  then show ?thesis
    using assms(2,3) n by (auto simp: guarded_def list_all_iff intro!: before_append)
qed

lemma guarded_ready:
  assumes "step_rel S s s'" "guarded A K P n s" "seen K (since n s)" P
  shows "guarded A K P n s'"
proof -
  have n: "n \<le> length (trace s)" using assms(2) by (simp add: guarded_def)
  from since_step [OF assms(1) n] obtain zs where
    z: "since n s' = since n s @ zs" "trace s' = trace s @ zs" by blast
  then show ?thesis
    using assms(2-4) n by (auto simp: guarded_def intro!: before_ready seen_append)
qed

lemma keeps_guarded:
  assumes "does S m" "\<And>a. S a \<Longrightarrow> \<not> A a"
  shows "keeps (guarded A K P n) m"
proof (rule keepsI)
  fix s r s' assume "guarded A K P n s" "m s = (r, s')"
  with guarded_step [OF movesD [OF assms(1)]] assms(2) show "guarded A K P n s'" by blast
qed

lemma safe_quiet:
  assumes "does S m" "\<And>a. S a \<Longrightarrow> \<not> A a"
  shows "safe A K P n ks m"
proof -
  have "keeps (guarded A K P n) m" by (rule keeps_guarded [where S = S]) (use assms in auto)
  then show ?thesis unfolding safe_def keeps_triple by (rule triple_conseq) auto
qed

lemma safe_ret [simp]: "safe A K P n ks (ret a)"
  by (auto simp: safe_def triple_def ret_def)

text \<open>Once every guard has been seen, anything may follow.\<close>

lemma safe_ready:
  assumes "does anything m" "set K \<subseteq> set ks" P
  shows "safe A K P n ks m"
  unfolding safe_def
proof (rule tripleI)
  fix s r s' assume s: "guarded A K P n s \<and> seen ks (since n s)"
  then have "seen K (since n s)" using assms(2) by (auto simp: seen_def)
  then have ready: "step_rel anything s s' \<Longrightarrow> guarded A K P n s'" for s'
    using s assms(3) guarded_ready by blast
  show "m s = (Inr r, s') \<Longrightarrow> guarded A K P n s'" using ready movesD [OF assms(1)] by blast
  fix e show "m s = (Inl e, s') \<Longrightarrow> guarded A K P n s'" using ready movesD [OF assms(1)] by blast
qed

text \<open>A statement that appends none of \<open>A\<close>: what follows may use what it returned and the events
  it emitted.\<close>

lemma safe_bind:
  assumes "does S m" "\<And>a. S a \<Longrightarrow> \<not> A a"
    and "\<And>s a s'. m s = (Inr a, s') \<Longrightarrow> R a \<and> emitted (ls a) s s'"
    and "\<And>a. R a \<Longrightarrow> safe A K P n (ls a @ ks) (f a)"
  shows "safe A K P n ks (bindM m f)"
  unfolding safe_def
proof (rule triple_bindM [where R = "\<lambda>a s. R a \<and> guarded A K P n s \<and> seen (ls a @ ks) (since n s)"])
  show "triple (\<lambda>s. guarded A K P n s \<and> seen ks (since n s)) m
          (\<lambda>a s. R a \<and> guarded A K P n s \<and> seen (ls a @ ks) (since n s)) (\<lambda>_. guarded A K P n)"
  proof (rule tripleI)
    fix s a s' assume s: "guarded A K P n s \<and> seen ks (since n s)" and m: "m s = (Inr a, s')"
    have n: "n \<le> length (trace s)" using s by (simp add: guarded_def)
    from assms(3) [OF m] obtain xs where
      x: "R a" "trace s' = trace s @ xs" "seen (ls a) xs" by (auto simp: emitted_def)
    then have "since n s' = since n s @ xs" using n by (simp add: since_def)
    then have "seen (ls a @ ks) (since n s')"
      using x(3) s by (simp add: seen_union seen_prepend seen_append)
    moreover have "guarded A K P n s'"
      by (rule guarded_step [OF movesD [OF assms(1) m] _ assms(2)]) (use s in auto)
    ultimately show "R a \<and> guarded A K P n s' \<and> seen (ls a @ ks) (since n s')" using x(1) by simp
  next
    fix s e s' assume s: "guarded A K P n s \<and> seen ks (since n s)" and m: "m s = (Inl e, s')"
    show "guarded A K P n s'"
      by (rule guarded_step [OF movesD [OF assms(1) m] _ assms(2)]) (use s in auto)
  qed
  show "triple (\<lambda>s. R a \<and> guarded A K P n s \<and> seen (ls a @ ks) (since n s)) (f a)
          (\<lambda>_. guarded A K P n) (\<lambda>_. guarded A K P n)" for a
    using assms(4) [of a] by (cases "R a") (auto simp: safe_def triple_def)
qed

lemma safe_bind_quiet:
  assumes "does S m" "\<And>a. S a \<Longrightarrow> \<not> A a" "\<And>a. safe A K P n ks (f a)"
  shows "safe A K P n ks (bindM m f)"
proof (rule safe_bind [where S = S and R = "\<lambda>_. True" and ls = "\<lambda>_. []"])
  show "does S m" by (rule assms)
  show "S a \<Longrightarrow> \<not> A a" for a by (rule assms)
  show "m s = (Inr a, s') \<Longrightarrow> True \<and> emitted [] s s'" for s a s'
    using emitted_Nil [OF assms(1)] by blast
  show "safe A K P n ([] @ ks) (f a)" for a using assms(3) by simp
qed

lemma safe_seq_quiet:
  assumes "does S m" "\<And>a. S a \<Longrightarrow> \<not> A a" "safe A K P n ks m'"
  shows "safe A K P n ks (seqM m m')"
  unfolding seqM_def by (rule safe_bind_quiet [OF assms(1)]) (use assms in auto)

lemma safe_if: "(c \<Longrightarrow> safe A K P n ks m) \<Longrightarrow> (\<not> c \<Longrightarrow> safe A K P n ks m') \<Longrightarrow> safe A K P n ks (if c then m else m')"
  by simp

lemma safe_keeps: "safe A K P n [] m \<Longrightarrow> keeps (guarded A K P n) m"
  unfolding safe_def keeps_triple by (erule triple_conseq) auto

section \<open>What a phase that succeeds has logged\<close>

lemma emitted_act:
  assumes "does S m" "m s = (Inr a, s1)" "s' = s1\<lparr>trace := trace s1 @ [Event k fs]\<rparr>"
  shows "emitted [k] s s'"
proof -
  from movesD [OF assms(1,2)] obtain xs where "trace s1 = trace s @ xs" by (auto simp: step_rel_def)
  then show ?thesis using assms(3)
    by (auto simp: emitted_def seen_def intro!: exI [of _ "xs @ [Event k fs]"])
qed

lemma emitted_then:
  assumes "emitted ks s s1" "step_rel S s1 s'"
  shows "emitted ks s s'"
  using assms by (auto simp: emitted_def step_rel_def intro: seen_append)

lemma emitted_after:
  assumes "step_rel S s s1" "emitted ks s1 s'"
  shows "emitted ks s s'"
proof -
  from assms obtain xs ys where "trace s1 = trace s @ xs" "trace s' = trace s1 @ ys" "seen ks ys"
    unfolding emitted_def step_rel_def by (elim exE conjE) (rule that)
  then show ?thesis by (auto simp: emitted_def intro!: exI [of _ "xs @ ys"] seen_prepend)
qed

lemma emitted_event: "event k fs s = (r, s') \<Longrightarrow> emitted [k] s s'"
  by (auto simp: event_run emitted_def seen_def)

text \<open>\<open>logs c k m\<close>: when \<open>m\<close> returns a value of \<open>c\<close>, it has logged an event \<open>k\<close>.\<close>

definition logs :: "('a \<Rightarrow> bool) \<Rightarrow> string \<Rightarrow> 'a drv \<Rightarrow> bool" where
  "logs c k m \<longleftrightarrow> (\<forall>s a s'. m s = (Inr a, s') \<longrightarrow> c a \<longrightarrow> emitted [k] s s')"

lemma logsD: "logs c k m \<Longrightarrow> m s = (Inr a, s') \<Longrightarrow> c a \<Longrightarrow> emitted [k] s s'"
  by (simp add: logs_def)

lemma logs_bind:
  assumes "does S m" "\<And>a. logs c k (f a)"
  shows "logs c k (bindM m f)"
  unfolding logs_def
proof (intro allI impI)
  fix s a s' assume "bindM m f s = (Inr a, s')" "c a"
  then obtain b s1 where b: "m s = (Inr b, s1)" "f b s1 = (Inr a, s')" by (auto simp: bindM_Inr_iff)
  show "emitted [k] s s'"
    by (rule emitted_after [OF movesD [OF assms(1) b(1)] logsD [OF assms(2) b(2)]]) (rule \<open>c a\<close>)
qed

lemma logs_seq: "does S m \<Longrightarrow> logs c k n \<Longrightarrow> logs c k (seqM m n)"
  unfolding seqM_def by (rule logs_bind)

lemma logs_event_seq:
  assumes "does S n"
  shows "logs c k (seqM (event k fs) n)"
  unfolding logs_def
proof (intro allI impI)
  fix s a s' assume "seqM (event k fs) n s = (Inr a, s')"
  then obtain b s1 where b: "event k fs s = (Inr b, s1)" "n s1 = (Inr a, s')" by (auto simp: seqM_Inr_iff)
  show "emitted [k] s s'"
    by (rule emitted_then [OF emitted_event [OF b(1)] movesD [OF assms b(2)]])
qed

lemma logs_event: "logs c k (event k fs)"
  by (auto simp: logs_def intro: emitted_event)

lemma logs_ret: "\<not> c a \<Longrightarrow> logs c k (ret a)"
  by (simp add: logs_def)

lemma logs_raise: "logs c k (raise e)"
  by (simp add: logs_def)

lemma logs_if: "(b \<Longrightarrow> logs c k m) \<Longrightarrow> (\<not> b \<Longrightarrow> logs c k n) \<Longrightarrow> logs c k (if b then m else n)"
  by simp

text \<open>A statement whose every return is outside \<open>c\<close>.\<close>

definition avoids :: "('a \<Rightarrow> bool) \<Rightarrow> 'a drv \<Rightarrow> bool" where
  "avoids c m \<longleftrightarrow> (\<forall>s a s'. m s = (Inr a, s') \<longrightarrow> \<not> c a)"

lemma logs_avoids: "avoids c m \<Longrightarrow> logs c k m"
  unfolding avoids_def logs_def by blast

lemma avoids_bind: "(\<And>a. avoids c (f a)) \<Longrightarrow> avoids c (bindM m f)"
  by (auto simp: avoids_def bindM_Inr_iff)

lemma avoids_seq: "avoids c n \<Longrightarrow> avoids c (seqM m n)"
  unfolding seqM_def by (rule avoids_bind)

lemma avoids_ret: "\<not> c a \<Longrightarrow> avoids c (ret a)"
  by (simp add: avoids_def)

section \<open>The milestones of a unit\<close>

lemma stand_down_failed_avoids: "avoids (\<lambda>ok. ok) (stand_down_failed E host why)"
  unfolding stand_down_failed_def by (intro avoids_seq avoids_ret) simp

lemma stand_down_logs: "logs (\<lambda>ok. ok) ''STANDDOWN_OK'' (stand_down E sess host)"
  unfolding stand_down_def Let_def
  by (rule logs_bind [of quiet])
     (auto split: json.split intro!: resp logs_avoids [OF stand_down_failed_avoids]
           logs_event_seq [of quiet] logs_if)

lemma transfer_failed_avoids: "avoids (\<lambda>ok. ok) (transfer_failed E host fs why)"
  unfolding transfer_failed_def by (intro avoids_bind avoids_seq avoids_ret) simp

lemma transfer_outcome_logs: "logs (\<lambda>ok. ok) ''TRANSFER_OK'' (transfer_outcome E host stage sz out ns)"
  unfolding transfer_outcome_def Let_def
  by (intro logs_bind [of quiet] resp)
     (auto split: pull_verdict.split intro!: resp logs_avoids [OF transfer_failed_avoids]
           logs_event_seq [of quiet] logs_if logs_raise)

lemma transfer_logs: "logs (\<lambda>ok. ok) ''TRANSFER_OK'' (transfer E cfg sess host skip)"
proof -
  have 1: "does anything m" if "does quiet m" for m :: "'x drv"
    using that by (rule does_mono) (simp add: anything_def)
  show ?thesis
    unfolding transfer_def Let_def
    by (rule logs_bind [of quiet], rule resp)
       (auto split: option.split simp: logs_ret
          intro!: logs_bind [of anything] logs_seq [of anything] resp
                  transfer_outcome_logs logs_avoids [OF transfer_failed_avoids])
qed

lemma build_logs: "logs (\<lambda>(h, g, bm). h \<noteq> JNull) ''BUILD_OK'' (build E cfg u mods)"
proof -
  have failed: "logs (\<lambda>(h, g, bm). h \<noteq> JNull) ''BUILD_OK'' (seqM m (seqM m' (ret (JNull, g, b))))"
    for m m' :: "unit drv" and g and b :: "(string, json) dict"
    by (rule logs_avoids) (auto intro!: avoids_seq avoids_ret)
  show ?thesis
    unfolding build_def Let_def
    by (intro logs_seq [of anything] logs_bind [of anything] resp freely.acts)
       (auto split: sum.split simp: failed
          intro!: logs_if logs_raise logs_bind [of anything] logs_event_seq [of anything] resp)
qed

lemma may_change_result:
  assumes "may_change E cfg u s = (Inr True, s')"
  shows "\<not> cfg_dry_run cfg \<and> (\<exists>k mw. unit_window E cfg u (e_now E k) = Inr mw \<and> allowed mw)"
proof (cases "cfg_dry_run cfg")
  case True
  with assms show ?thesis
    by (auto simp: may_change_def seqM_Inr_iff Let_def)
next
  case False
  with assms have "(case unit_window E cfg u (e_now E (tick s)) of Inl e \<Rightarrow> False | Inr mw \<Rightarrow> allowed mw)"
    by (auto simp: may_change_def Let_def bindM_Inr_iff seqM_Inr_iff ask_def split: sum.splits if_splits)
  then show ?thesis using False by (auto split: sum.splits)
qed

end
