(* ===== verification/Driver_Lease.thy ===== *)
theory Driver_Lease
  imports Driver_Guards
begin

text \<open>
  The availability lease of a unit: the driver writes \<open>provisioning\<close> to the unit's availability
  file before the transfer, and whatever happens afterwards the last document it writes there is
  another one.
\<close>

section \<open>The lease\<close>

text \<open>Whether the last word on the unit's availability is that this run took it: set by the event
  that reports the lease, kept by a further provisional document, cleared by any other document
  written to the availability file.\<close>

definition provisional :: "json \<Rightarrow> bool" where
  "provisional d \<longleftrightarrow> jget d ''reason'' = Inr (JStr ''provisioning'')"

fun lease_step :: "bool \<Rightarrow> act \<Rightarrow> bool" where
  "lease_step p a = (takes_lease a \<or> p \<and> (case availability_write a of None \<Rightarrow> True | Some d \<Rightarrow> provisional d))"

definition pending :: "act list \<Rightarrow> bool" where
  "pending xs \<longleftrightarrow> foldl lease_step False xs"

lemma foldl_neutral: "list_all (\<lambda>a. availability_write a = None \<and> \<not> takes_lease a) ys \<Longrightarrow> foldl lease_step p ys = p"
  by (induction ys arbitrary: p) auto

lemma pending_simps [simp]:
  "\<not> pending []"
  "list_all (\<lambda>a. availability_write a = None \<and> \<not> takes_lease a) ys \<Longrightarrow> pending (xs @ ys) \<longleftrightarrow> pending xs"
  by (auto simp: pending_def foldl_neutral)

lemma lease_since:
  assumes "lease_rel s s'" "n \<le> length (trace s)"
  shows "n \<le> length (trace s') \<and> pending (since n s') = pending (since n s)
     \<and> u_lease_held s' = u_lease_held s \<and> u_session s' = u_session s"
  using assms by (auto simp: lease_rel_def since_def)

definition lease_inv :: "nat \<Rightarrow> driver \<Rightarrow> bool" where
  "lease_inv n s \<longleftrightarrow> n \<le> length (trace s) \<and> u_session s \<noteq> None \<and> (pending (since n s) \<longrightarrow> u_lease_held s)"

definition lease_free :: "nat \<Rightarrow> driver \<Rightarrow> bool" where
  "lease_free n s \<longleftrightarrow> n \<le> length (trace s) \<and> \<not> pending (since n s)"

lemma lease_keeps:
  assumes "moves lease_rel m"
  shows "keeps (lease_inv n) m" "keeps (lease_free n) m"
  using lease_since [OF movesD [OF assms]]
  by (auto intro!: keepsI simp: lease_inv_def lease_free_def)

lemma since_snoc: "n \<le> length (trace s) \<Longrightarrow> since n (s\<lparr>trace := trace s @ xs, tick := t\<rparr>) = since n s @ xs"
  by (simp add: since_def)

lemma avail_write_run:
  "\<exists>t. fst (write_unit_json E sess UNIT_AVAIL obj s) \<noteq> Inr () \<and>
       snd (write_unit_json E sess UNIT_AVAIL obj s) = s\<lparr>trace := trace s @ [Ps sess (WriteJson UNIT_AVAIL obj)], tick := t\<rparr>
     \<or> write_unit_json E sess UNIT_AVAIL obj s
         = (Inr (), s\<lparr>trace := trace s @ [Ps sess (WriteJson UNIT_AVAIL obj)], tick := t\<rparr>)"
  by (cases "e_ps E (tick s) sess (WriteJson UNIT_AVAIL obj)")
     (auto simp: write_unit_json_def ps_out_def deed_def seqM_def bindM_def act_def ask_def)

lemma take_lease_keeps:
  assumes "keeps (lease_inv n) m"
  shows "keeps (lease_inv n) (seqM (set_unavailable E sess host) (seqM (hold_lease True) m))"
proof (rule keepsI)
  fix s r s'
  assume inv: "lease_inv n s" and run: "seqM (set_unavailable E sess host) (seqM (hold_lease True) m) s = (r, s')"
  define doc where "doc = unavailable_doc (e_now E (tick s)) (run_id s) (u_payload_hash s)"
  define fs where "fs = [(''unit'', host), (''available'', ''false''), (''reason'', ''provisioning''),
     (''expected_return_utc'', utc_stamp (e_now E (tick s) + AVAIL_TTL_S * second)), (''lease_owner'', run_id s)]"
  let ?s = "s\<lparr>tick := tick s + 1\<rparr>" and ?w = "Ps sess (WriteJson UNIT_AVAIL doc)"
  have n: "n \<le> length (trace s)" using inv by (simp add: lease_inv_def)
  have prov: "provisional doc" by (simp add: doc_def unavailable_doc_def provisional_def)
  have su: "set_unavailable E sess host s
      = seqM (write_unit_json E sess UNIT_AVAIL doc) (event ''AVAIL_SET'' fs) ?s"
    by (simp add: set_unavailable_def bindM_def ask_def doc_def fs_def)
  from avail_write_run [of E sess doc ?s] obtain t where
    "fst (write_unit_json E sess UNIT_AVAIL doc ?s) \<noteq> Inr () \<and>
       snd (write_unit_json E sess UNIT_AVAIL doc ?s) = ?s\<lparr>trace := trace s @ [?w], tick := t\<rparr>
     \<or> write_unit_json E sess UNIT_AVAIL doc ?s = (Inr (), ?s\<lparr>trace := trace s @ [?w], tick := t\<rparr>)"
    by auto
  then consider e where "write_unit_json E sess UNIT_AVAIL doc ?s = (Inl e, s\<lparr>trace := trace s @ [?w], tick := t\<rparr>)"
    | "write_unit_json E sess UNIT_AVAIL doc ?s = (Inr (), s\<lparr>trace := trace s @ [?w], tick := t\<rparr>)"
    by (cases "write_unit_json E sess UNIT_AVAIL doc ?s"; cases "fst (write_unit_json E sess UNIT_AVAIL doc ?s)") auto
  then show "lease_inv n s'"
  proof cases
    case 1
    with run su have "s' = s\<lparr>trace := trace s @ [?w], tick := t\<rparr>"
      by (simp add: seqM_def bindM_def)
    then show ?thesis
      using inv prov n by (auto simp: lease_inv_def since_snoc pending_def takes_lease_def)
  next
    case 2
    let ?s2 = "s\<lparr>tick := t, trace := trace s @ [?w, Event ''AVAIL_SET'' fs], u_lease_held := True\<rparr>"
    have "seqM (set_unavailable E sess host) (seqM (hold_lease True) m) s = m ?s2"
      using 2 su by (simp add: seqM_def bindM_def event_run hold_lease_def)
    moreover have "lease_inv n ?s2" using inv n by (simp add: lease_inv_def since_def)
    ultimately show ?thesis using keepsD [OF assms, of ?s2 r s'] run by simp
  qed
qed

lemma clears:
  assumes "\<not> provisional doc" "list_all (\<lambda>a. availability_write a = None \<and> \<not> takes_lease a) ys"
  shows "\<not> pending (xs @ Ps sess (WriteJson UNIT_AVAIL doc) # ys)"
  using assms by (simp add: pending_def foldl_neutral takes_lease_def)

text \<open>Where a write ends up: the document is on the timeline, then only acts that leave the lease.\<close>

definition settles :: "driver \<Rightarrow> driver \<Rightarrow> bool" where
  "settles s s' \<longleftrightarrow> u_lease_held s' = u_lease_held s \<and> u_session s' = u_session s
     \<and> (\<exists>sess doc ys. trace s' = trace s @ Ps sess (WriteJson UNIT_AVAIL doc) # ys \<and> \<not> provisional doc
          \<and> list_all (\<lambda>a. availability_write a = None \<and> \<not> takes_lease a) ys)"

lemma settles_free: "settles s s' \<Longrightarrow> n \<le> length (trace s) \<Longrightarrow> lease_free n s'"
  by (auto simp: settles_def lease_free_def since_def clears)

lemma settles_then: "settles s s1 \<Longrightarrow> lease_rel s1 s' \<Longrightarrow> settles s s'"
  by (fastforce simp: settles_def lease_rel_def)

lemma write_settles:
  assumes "\<not> provisional doc" "seqM (write_unit_json E sess UNIT_AVAIL doc) m s = (r, s')" "moves lease_rel m"
  shows "settles s s'"
proof -
  from avail_write_run [of E sess doc s] obtain t where
    "snd (write_unit_json E sess UNIT_AVAIL doc s) = s\<lparr>trace := trace s @ [Ps sess (WriteJson UNIT_AVAIL doc)], tick := t\<rparr>"
    by (auto simp: prod_eq_iff)
  then have st: "settles s (snd (write_unit_json E sess UNIT_AVAIL doc s))"
    using assms(1) by (simp add: settles_def)
  show ?thesis
  proof (cases "fst (write_unit_json E sess UNIT_AVAIL doc s)")
    case (Inl e)
    with assms(2) st show ?thesis
      by (cases "write_unit_json E sess UNIT_AVAIL doc s") (simp add: seqM_def bindM_def)
  next
    case (Inr x)
    with assms(2) have "m (snd (write_unit_json E sess UNIT_AVAIL doc s)) = (r, s')"
      by (cases "write_unit_json E sess UNIT_AVAIL doc s") (simp add: seqM_def bindM_def)
    with st show ?thesis using settles_then movesD [OF assms(3)] by blast
  qed
qed

lemma lease_free_events: "\<not> takes_lease (Event k fs) \<Longrightarrow> moves lease_rel (event k fs)"
  unfolding event_def by (rule leased.acts) (simp_all add: no_lease_def)

lemma settles_tick: "settles (s\<lparr>tick := t\<rparr>) s' \<longleftrightarrow> settles s s'"
  by (simp add: settles_def)

lemma set_available_settles: "set_available E sess host s = (r, s') \<Longrightarrow> settles s s'"
proof -
  assume run: "set_available E sess host s = (r, s')"
  let ?doc = "JObj [(''available'', JBool True), (''since_utc'', JStr (utc_stamp (e_now E (tick s))))]"
  from run have "seqM (write_unit_json E sess UNIT_AVAIL ?doc)
      (event ''AVAIL_SET'' [(''unit'', host), (''available'', ''true'')]) (s\<lparr>tick := tick s + 1\<rparr>) = (r, s')"
    by (simp add: set_available_def bindM_def ask_def)
  then have "settles (s\<lparr>tick := tick s + 1\<rparr>) s'"
    by (rule write_settles [rotated])
       (auto simp: provisional_def takes_lease_def intro: lease_free_events)
  then show ?thesis by (simp add: settles_tick)
qed

lemma release_settles: "release_lease E sess host s = (r, s') \<Longrightarrow> settles s s'"
proof -
  assume run: "release_lease E sess host s = (r, s')"
  let ?doc = "released_doc (e_now E (tick s))"
  let ?m = "seqM (write_unit_json E sess UNIT_AVAIL ?doc)
      (event ''AVAIL_RELEASE'' [(''unit'', host), (''reason'', ''provisioning_incomplete'')])"
  let ?s = "s\<lparr>tick := tick s + 1\<rparr>"
  have st: "?m ?s = (q, s1) \<Longrightarrow> settles s s1" for q s1
    using write_settles [of ?doc E sess _ ?s q s1] lease_free_events
    by (simp add: released_doc_def provisional_def takes_lease_def settles_tick)
  obtain q s1 where m: "?m ?s = (q, s1)" by (cases "?m ?s")
  with run have r: "(case q of Inr a \<Rightarrow> (Inr a, s1) | Inl e \<Rightarrow>
      (if is_exception e then event ''AVAIL_RELEASE_WARN'' [(''unit'', host), (''error'', exc_text e)] else raise e) s1) = (r, s')"
    by (simp add: release_lease_def catch_exception_def catchM_def bindM_def ask_def)
  show ?thesis
  proof (cases q)
    case (Inr a)
    with r st [OF m] show ?thesis by simp
  next
    case (Inl e)
    have w: "moves lease_rel (event ''AVAIL_RELEASE_WARN'' [(''unit'', host), (''error'', exc_text e)])"
      by (rule lease_free_events) (simp add: takes_lease_def)
    from Inl r show ?thesis
      using settles_then [OF st [OF m] movesD [OF w]] st [OF m] by (auto split: if_splits)
  qed
qed

section \<open>The lease through a unit\<close>

lemma give_back_keeps: "keeps (lease_inv n) (seqM (set_available E sess host) (hold_lease False))"
proof (rule keepsI)
  fix s r s' assume inv: "lease_inv n s" and run: "seqM (set_available E sess host) (hold_lease False) s = (r, s')"
  obtain q s1 where m: "set_available E sess host s = (q, s1)" by (cases "set_available E sess host s")
  have n: "n \<le> length (trace s)" using inv by (simp add: lease_inv_def)
  have f: "lease_free n s1" "u_session s1 = u_session s"
    using settles_free [OF set_available_settles [OF m] n] set_available_settles [OF m] by (auto simp: settles_def)
  show "lease_inv n s'"
    using run m f inv by (cases q) (auto simp: seqM_def bindM_def hold_lease_def lease_inv_def lease_free_def since_def)
qed

lemma keeps_session: "keeps (lease_inv n) (modifyM (\<lambda>s. s\<lparr>u_session := Some sn\<rparr>))"
  by (rule keeps_modifyM) (simp add: lease_inv_def since_def)

lemma run_on_unit_lease: "keeps (lease_inv n) (run_on_unit E cfg sess host modules targeted)"
proof -
  have x: "keeps (lease_inv n) (execute E cfg sess host targeted)"
    by (rule lease_keeps(1) [OF leased.executes]) (simp add: no_lease_def)
  have give: "keeps (lease_inv n) (seqM (set_available E sn host) (seqM (hold_lease False) m))"
    if "keeps (lease_inv n) m" for sn m
  proof -
    have "seqM (set_available E sn host) (seqM (hold_lease False) m) = seqM (seqM (set_available E sn host) (hold_lease False)) m"
      by (auto simp: seqM_def bindM_def fun_eq_iff split: prod.splits sum.splits)
    then show ?thesis using that give_back_keeps keeps_seqM by metis
  qed
  have ok: "keeps (lease_inv n) (bindM (gets u_payload_hash) (\<lambda>payload_hash.
         seqM (event ''UNIT_OK'' [(''unit'', host), (''payload_hash'', py_str payload_hash)]) (row E host ''OK'' ''updated'')))"
    by (rule lease_keeps(1)) (intro resp, simp_all)
  show ?thesis
    unfolding run_on_unit_def
    by (intro keeps_seqM keeps_bindM x keeps_session keeps_if keeps_gets keeps_ret give ok give_back_keeps
          lease_keeps(1) [OF leased.smokes] lease_keeps(1) [OF leased.sets(3)]
        | split prod.split | intro allI impI conjI)+
qed

lemma deploy_lease: "keeps (lease_inv n) (deploy E cfg sess host modules targeted bm)"
proof -
  have t: "moves lease_rel (transfer E cfg sess host x)" for x
    by (rule leased.transfers) (simp add: no_lease_def)
  show ?thesis
    unfolding deploy_def
    by (intro keeps_bindM keeps_if keeps_ret keeps_liftR take_lease_keeps run_on_unit_lease
          lease_keeps(1) [OF t] lease_keeps(1) [OF leased.syncs])
qed

lemma unit_phases_lease: "keeps (lease_inv n) (unit_phases E cfg sess u modules)"
proof -
  have q: "moves lease_rel m \<Longrightarrow> keeps (lease_inv n) m" for m :: "'x drv" by (rule lease_keeps(1))
  have d: "keeps (lease_inv n) (decide_and_deploy E cfg sess u modules i h v bm)" for i h v bm
    unfolding decide_and_deploy_def Let_def
    by (intro keeps_bindM q [OF leased.classifies])
       (auto split: option.split intro!: keeps_bindM keeps_if deploy_lease q [OF leased.narrows] q [OF leased.may_changes])
  show ?thesis
    unfolding unit_phases_def Let_def
    by (intro keeps_seqM keeps_bindM keeps_if keeps_ret d q [OF leased.inventories] q [OF leased.reclaims]
          q [OF leased.stands_down] q [OF leased.builds] q [OF leased.reaches])
       (auto split: prod.split intro!: keeps_seqM keeps_if d q [OF leased.sets(8)] q [OF leased.sets(9)]
             q [OF leased.remote(1)] q [OF leased.events] q [OF leased.fail_rows] simp: no_lease_def)
qed

lemma close_unit_lease:
  assumes "lease_inv n s" "close_unit E host s = (r, s')"
  shows "lease_free n s'"
proof -
  from assms(1) obtain sn where n: "n \<le> length (trace s)" "u_session s = Some sn" "pending (since n s) \<Longrightarrow> u_lease_held s"
    by (auto simp: lease_inv_def)
  have rest: "keeps (lease_free n) (archive_session E sn host)" "keeps (lease_free n) (act (Dispose sn))"
    by (rule lease_keeps(2) [OF leased.archives], rule lease_keeps(2) [OF leased.acts])
       (simp_all add: no_lease_def takes_lease_def)
  have after_release: "keeps (lease_free n) (seqM (archive_session E sn host) (act (Dispose sn)))"
    by (intro keeps_seqM rest)
  have assoc: "seqM (seqM m1 m2) m3 = seqM m1 (seqM m2 m3)" for m1 m2 :: "unit drv" and m3 :: "unit drv"
    by (auto simp: seqM_def bindM_def fun_eq_iff split: prod.splits sum.splits)
  have run: "seqM (whenM (u_lease_held s) (release_lease E sn host)) (seqM (archive_session E sn host) (act (Dispose sn))) s = (r, s')"
    using assms(2) n(2) by (simp add: close_unit_def release_and_archive_def assoc [symmetric])
      (simp add: seqM_def bindM_def)
  show ?thesis
  proof (cases "u_lease_held s")
    case False
    then have "lease_free n s" using n by (auto simp: lease_free_def)
    with run False after_release show ?thesis
      by (auto simp: whenM_def seqM_def [of "ret ()"] bindM_def dest: keepsD)
  next
    case True
    obtain q s1 where m: "release_lease E sn host s = (q, s1)" by (cases "release_lease E sn host s")
    from settles_free [OF release_settles [OF m] n(1)] have "lease_free n s1" .
    with run True m after_release show ?thesis
      by (cases q) (auto simp: whenM_def seqM_def [of "release_lease E sn host"] bindM_def dest: keepsD)
  qed
qed

lemma unit_body_lease: "keeps (lease_free n) (unit_body E cfg u modules resolved)"
proof -
  have q: "moves lease_rel m \<Longrightarrow> keeps (lease_free n) m" for m :: "'x drv" by (rule lease_keeps(2))
  have held: "keeps (lease_free n) (seqM (modifyM (\<lambda>s. s\<lparr>u_session := Some sess\<rparr>))
             (finallyM (unit_phases E cfg sess u modules) (close_unit E (ue_hostname u))))" for sess
  proof (rule keepsI)
    fix s r s' assume free: "lease_free n s" and
      run: "seqM (modifyM (\<lambda>s. s\<lparr>u_session := Some sess\<rparr>))
             (finallyM (unit_phases E cfg sess u modules) (close_unit E (ue_hostname u))) s = (r, s')"
    let ?s = "s\<lparr>u_session := Some sess\<rparr>"
    have inv: "lease_inv n ?s" using free by (simp add: lease_free_def lease_inv_def since_def)
    obtain q s1 where p: "unit_phases E cfg sess u modules ?s = (q, s1)"
      by (cases "unit_phases E cfg sess u modules ?s")
    obtain q' s2 where c: "close_unit E (ue_hostname u) s1 = (q', s2)" by (cases "close_unit E (ue_hostname u) s1")
    have "s' = s2" using run p c by (cases q') (auto simp: seqM_def bindM_def finallyM_def)
    then show "lease_free n s'" using close_unit_lease [OF keepsD [OF unit_phases_lease inv p] c] by simp
  qed
  show ?thesis
    unfolding unit_body_def Let_def
    by (intro keeps_bindM keeps_if held q leased.asks leased.pure leased.remote leased.seq leased.events leased.fail_rows) simp_all
qed

lemma process_unit_lease:
  "\<not> pending (drop (length (trace s)) (trace (snd (process_unit E cfg u s))))"
proof -
  let ?n = "length (trace s)"
  have q: "moves lease_rel m \<Longrightarrow> keeps (lease_free ?n) m" for m :: "'x drv" by (rule lease_keeps(2))
  have b: "keeps (lease_free ?n) (begin_unit E)"
    unfolding begin_unit_def by (intro keeps_bindM keeps_modifyM q leased.asks) (simp add: lease_free_def since_def)
  have "keeps (lease_free ?n) (process_unit E cfg u)"
    unfolding process_unit_def Let_def catch_exception_def
    by (intro keeps_seqM keeps_bindM keeps_catchM keeps_if b unit_body_lease q [OF leased.asks]
          q [OF leased.sets(10)] q [OF leased.events] q [OF leased.addresses] q [OF leased.exceptions])
       (auto split: sum.split)
  moreover have "lease_free ?n s" by (simp add: lease_free_def since_def)
  ultimately have "lease_free ?n (snd (process_unit E cfg u s))" by (simp add: keeps_def)
  then show ?thesis by (simp add: lease_free_def since_def)
qed

end
