(* ===== verification/Driver_Order.thy ===== *)
theory Driver_Order
  imports Driver_Guards
begin

text \<open>
  The order of the phases of \<open>process_unit\<close>: nothing is pulled or run on a unit before it was stood
  down, its payload built, its window found open and the lease taken.
\<close>

section \<open>Order of the phases\<close>

definition changed_only_when :: "env \<Rightarrow> config \<Rightarrow> unit_entry \<Rightarrow> bool" where
  "changed_only_when E cfg u \<longleftrightarrow>
     \<not> cfg_dry_run cfg \<and> (\<exists>k mw. unit_window E cfg u (e_now E k) = Inr mw \<and> allowed mw)"

lemma set_unavailable_logs: "logs (\<lambda>_. True) ''AVAIL_SET'' (set_unavailable E sess host)"
  unfolding set_unavailable_def write_unit_json_def
  by (intro logs_bind [of anything] logs_seq [of anything] logs_event resp) simp_all

text \<open>The guards of the pull; a run needs the transfer too.\<close>

definition pull_guards :: "string list" where
  "pull_guards = [''STANDDOWN_OK'', ''BUILD_OK'', ''AVAIL_SET'']"

definition run_guards :: "string list" where
  "run_guards = ''TRANSFER_OK'' # pull_guards"

lemma deploy_safe:
  assumes "set pull_guards \<subseteq> set (''AVAIL_SET'' # ks)" P
  shows "safe pulls pull_guards P n ks (deploy E cfg sess host modules targeted bm)"
    and "safe starts_run run_guards P n ks (deploy E cfg sess host modules targeted bm)"
proof -
  have tail: "does anything (seqM (hold_lease True) (bindM (transfer E cfg sess host skip)
      (\<lambda>transferred. if \<not> transferred then ret () else run_on_unit E cfg sess host modules targeted)))" for skip
    by (intro resp freely.transfers freely.runs_on_unit) simp_all
  show "safe pulls pull_guards P n ks (deploy E cfg sess host modules targeted bm)"
    unfolding deploy_def seqM_def [of "set_unavailable E sess host"]
    by (intro safe_bind_quiet [of quiet, OF quietly.pure(4)] safe_bind_quiet [of quiet, OF quietly.syncs] safe_if safe_ret
          safe_bind [of no_deploy, OF around.setters(1), where R = "\<lambda>_. True" and ls = "\<lambda>_. [''AVAIL_SET'']"]
          safe_ready [OF tail])
       (use assms set_unavailable_logs in \<open>auto simp: quiet_def no_deploy_def logs_def\<close>)
  show "safe starts_run run_guards P n ks (deploy E cfg sess host modules targeted bm)"
    unfolding deploy_def seqM_def [of "set_unavailable E sess host"]
    by (intro safe_bind_quiet [of quiet, OF quietly.pure(4)] safe_bind_quiet [of quiet, OF quietly.syncs] safe_if safe_ret
          safe_bind [of no_deploy, OF around.setters(1), where R = "\<lambda>_. True" and ls = "\<lambda>_. [''AVAIL_SET'']"]
          safe_seq_quiet [of quiet, OF quietly.holds(1)]
          safe_bind [of no_start, OF before_start.transfers, where R = "\<lambda>_. True"
                     and ls = "\<lambda>ok. if ok then [''TRANSFER_OK''] else []"]
          safe_ready [OF freely.runs_on_unit])
       (use assms set_unavailable_logs transfer_logs in
          \<open>auto simp: quiet_def no_deploy_def no_start_def logs_def run_guards_def
                intro: emitted_Nil [OF before_start.transfers]\<close>)
qed

lemma decide_safe:
  assumes "set pull_guards \<subseteq> set (''AVAIL_SET'' # ks)"
    and "\<And>targeted. changed_only_when E cfg u \<Longrightarrow>
           safe A K (changed_only_when E cfg u) n ks (deploy E cfg sess (ue_hostname u) modules targeted bm)"
    and "\<And>a. quiet a \<Longrightarrow> \<not> A a"
  shows "safe A K (changed_only_when E cfg u) n ks (decide_and_deploy E cfg sess u modules i h v bm)"
proof -
  have go: "safe A K (changed_only_when E cfg u) n ks (bindM (may_change E cfg u) (\<lambda>go.
      if \<not> go then ret () else deploy E cfg sess (ue_hostname u) modules targeted bm))" for targeted
    by (rule safe_bind [of quiet, OF quietly.may_changes, where
          R = "\<lambda>go. go \<longrightarrow> changed_only_when E cfg u" and ls = "\<lambda>_. []"])
       (use assms may_change_result emitted_Nil [OF quietly.may_changes] in \<open>auto simp: changed_only_when_def\<close>)
  show ?thesis
    unfolding decide_and_deploy_def Let_def
    by (intro safe_bind_quiet [of quiet, OF quietly.classifies])
       (auto split: option.split simp: assms(3) intro!: safe_bind_quiet [of quiet, OF quietly.narrows] go)
qed

lemma unit_phases_safe:
  assumes "\<And>targeted bm ks. set pull_guards \<subseteq> set (''AVAIL_SET'' # ks) \<Longrightarrow> changed_only_when E cfg u \<Longrightarrow>
           safe A K (changed_only_when E cfg u) n ks (deploy E cfg sess (ue_hostname u) modules targeted bm)"
    and A: "\<And>a. quiet a \<Longrightarrow> \<not> A a"
  shows "safe A K (changed_only_when E cfg u) n [] (unit_phases E cfg sess u modules)"
proof -
  let ?safe = "safe A K (changed_only_when E cfg u) n"
  have built: "?safe [''STANDDOWN_OK''] (bindM (build E cfg u modules) (\<lambda>(built_hash, git_sha, bm).
          seqM (modifyM (\<lambda>s. s\<lparr>u_git_sha := git_sha\<rparr>))
         (if built_hash = JNull then ret ()
          else seqM (modifyM (\<lambda>s. s\<lparr>u_payload_hash := built_hash\<rparr>))
                 (decide_and_deploy E cfg sess u modules i h v bm))))" for i h v
    by (rule safe_bind [of quiet, OF quietly.builds, where R = "\<lambda>_. True"
          and ls = "\<lambda>(h, g, bm). if h \<noteq> JNull then [''BUILD_OK''] else []"])
       (use A build_logs assms in \<open>auto simp: logs_def pull_guards_def
          intro!: safe_seq_quiet [of quiet] quietly.sets decide_safe emitted_Nil [OF quietly.builds]
          split: if_splits prod.splits\<close>)
  have phases: "?safe [''STANDDOWN_OK''] (bindM (unit_can_reach_staging E sess) (\<lambda>reachable.
        if \<not> reachable
        then bindM (gets prov_address) (\<lambda>a.
             seqM (event ''PREFLIGHT_UNIT_SMB_FAIL'' [(''unit'', ue_hostname u), (''address'', a), (''port'', ''445''),
                     (''note'', ''unit cannot open SMB to the staging host; not building a payload it cannot pull'')])
                  (fail_row E (ue_hostname u) ''PREFLIGHT_FAIL'' ''unit_smb_unreachable''))
        else bindM (build E cfg u modules) (\<lambda>(built_hash, git_sha, bm).
          seqM (modifyM (\<lambda>s. s\<lparr>u_git_sha := git_sha\<rparr>))
         (if built_hash = JNull then ret ()
          else seqM (modifyM (\<lambda>s. s\<lparr>u_payload_hash := built_hash\<rparr>))
                 (decide_and_deploy E cfg sess u modules i h v bm)))))" for i h v
    by (intro safe_bind_quiet [of quiet, OF quietly.reaches] safe_if built safe_quiet [of quiet] resp)
       (simp_all add: A)
  show ?thesis
    unfolding unit_phases_def Let_def
    by (intro safe_seq_quiet [of quiet, OF quietly.inventories] safe_seq_quiet [of quiet, OF quietly.reclaims]
          safe_bind [of quiet, OF quietly.stands_down, where R = "\<lambda>_. True"
            and ls = "\<lambda>ok. if ok then [''STANDDOWN_OK''] else []"])
       (use A stand_down_logs in \<open>auto simp: logs_def intro!: emitted_Nil [OF quietly.stands_down]
          safe_bind_quiet [of quiet] resp phases\<close>)
qed

lemma process_unit_guarded:
  assumes "\<And>targeted bm ks sess modules. set pull_guards \<subseteq> set (''AVAIL_SET'' # ks) \<Longrightarrow> changed_only_when E cfg u \<Longrightarrow>
           safe A K (changed_only_when E cfg u) n ks (deploy E cfg sess (ue_hostname u) modules targeted bm)"
    and A: "\<And>a. no_deploy a \<Longrightarrow> \<not> A a"
  shows "keeps (guarded A K (changed_only_when E cfg u) n) (process_unit E cfg u)"
proof -
  have q: "quiet a \<Longrightarrow> \<not> A a" for a using A by (simp add: quiet_def no_deploy_def)
  have k: "does quiet m \<Longrightarrow> keeps (guarded A K (changed_only_when E cfg u) n) m" for m :: "'x drv"
    by (rule keeps_guarded [of quiet]) (use q in auto)
  have c: "keeps (guarded A K (changed_only_when E cfg u) n) (close_unit E (ue_hostname u))"
    by (rule keeps_guarded [OF around.closes]) (use A in \<open>auto simp: no_deploy_def\<close>)
  have p: "keeps (guarded A K (changed_only_when E cfg u) n) (unit_phases E cfg sess u modules)" for sess modules
    by (rule safe_keeps [OF unit_phases_safe]) (use assms(1) q in auto)
  have b: "keeps (guarded A K (changed_only_when E cfg u) n) (unit_body E cfg u modules resolved)" for modules resolved
    unfolding unit_body_def Let_def
    by (intro keeps_bindM keeps_if keeps_seqM keeps_finallyM p c k resp) simp_all
  show ?thesis
    unfolding process_unit_def Let_def catch_exception_def
    by (intro keeps_bindM keeps_seqM keeps_catchM keeps_if b k resp) simp_all
qed

end
