(* ===== verification/Driver_Props.thy ===== *)
theory Driver_Props
  imports Driver_Order Driver_Lease
begin

text \<open>
  What \<open>process_unit\<close>, its judgements and \<open>run\<close> guarantee whatever the units, the clock and the
  network answer.
\<close>

section \<open>A unit\<close>

definition added :: "env \<Rightarrow> config \<Rightarrow> unit_entry \<Rightarrow> driver \<Rightarrow> act list" where
  "added E cfg u s = drop (length (trace s)) (trace (snd (process_unit E cfg u s)))"

lemma guarded_start: "guarded A K P (length (trace s)) s"
  by (simp add: guarded_def since_def before_def)



text \<open>C9: The exit code becomes a unit failure exactly when the unit gets a failing activity row,
  and never goes back; the recorded outcome of every unit is that of its last row.\<close>

theorem exit_code_follows_rows:
  "exit_code (snd (process_unit E cfg u s))
     = (if list_ex fails (added E cfg u s) then EXIT_UNIT_FAIL else exit_code s)
   \<and> unit_outcomes (snd (process_unit E cfg u s)) = foldl note_row (unit_outcomes s) (added E cfg u s)"
proof -
  have "step_rel anything s (snd (process_unit E cfg u s))"
    using freely.processes by (simp add: moves_def)
  then show ?thesis by (auto simp: step_rel_def added_def)
qed

section \<open>Judgements\<close>

definition all_quiet :: "(string, json) dict \<Rightarrow> bool" where
  "all_quiet states \<longleftrightarrow> set expected_services \<subseteq> set (keys states)
     \<and> list_all (\<lambda>(n, v). py_str v \<in> set harmless_states) states"

lemma all_quiet_iff: "bad_services states = [] \<and> unreported_services states = [] \<longleftrightarrow> all_quiet states"
  by (auto simp: all_quiet_def bad_services_def unreported_services_def filter_empty_conv list_all_iff)

text \<open>The stand-down succeeds exactly when the unit reported every service and none of them in
  a state other than absent, removed or not ours: a garbled or partial report fails the unit.\<close>

theorem stand_down_exact:
  "fst (stand_down E sess host s) = Inr True \<longleftrightarrow>
     (\<exists>out states. e_ps E (tick s) sess StandDown = Inr out
        \<and> marker_json out ''STANDDOWN '' = JObj states \<and> all_quiet states)"
proof -
  have failed: "fst (stand_down_failed E host why s') \<noteq> Inr True" for why s'
    using stand_down_failed_avoids [of E host why] unfolding avoids_def by (metis prod.collapse)
  show ?thesis
  proof (cases "e_ps E (tick s) sess StandDown")
    case (Inl e)
    then show ?thesis
      by (simp add: stand_down_def ps_out_def deed_def seqM_def bindM_def act_def ask_def)
  next
    case (Inr out)
    let ?s = "s\<lparr>trace := trace s @ [Ps sess StandDown], tick := tick s + 1\<rparr>"
    have "stand_down E sess host s = (case marker_json out ''STANDDOWN '' of
       JObj states \<Rightarrow>
         (let bad = bad_services states; missing = unreported_services states in
          if bad \<noteq> [] \<or> missing \<noteq> []
          then stand_down_failed E host [(''detail'', join ''; ''
                 (map (\<lambda>(n, v). n @ ''='' @ v) bad @ map (\<lambda>n. n @ ''=unreported'') missing))]
          else
            seqM (event ''STANDDOWN_OK'' [(''unit'', host), (''services'', join ''; ''
                    (map (\<lambda>n. n @ ''='' @ py_str (field states n)) expected_services))])
                 (ret True))
     | _ \<Rightarrow> stand_down_failed E host [(''reason'', ''no_marker'')]) ?s"
      using Inr by (simp add: stand_down_def ps_out_def deed_def seqM_def bindM_def act_def ask_def)
    then show ?thesis
      using Inr failed all_quiet_iff
      by (cases "marker_json out ''STANDDOWN ''") (auto simp: Let_def seqM_def bindM_def event_run)
  qed
qed

text \<open>A transfer is accepted exactly when the unit reports the outcome \<open>OK\<close>, a completed
  robocopy summary, and as many bytes and files landed as the pre-scan of the staging tree
  measured with the same exclusions; any other report, a missing one included, fails closed.\<close>

theorem transfer_accepted_iff:
  "judge_pull res sz = Inr (PullLanded b f) \<longleftrightarrow>
     (\<exists>d. res = JObj d \<and> field d ''outcome'' = JStr ''OK'' \<and> field d ''completed'' = JBool True
        \<and> is_int (field d ''landed_bytes'') \<and> is_int (field d ''landed_files'')
        \<and> int_of (field d ''landed_bytes'') = b \<and> int_of (field d ''landed_files'') = f
        \<and> b = int (ss_bytes sz) \<and> f = int (ss_files sz))"
proof -
  have get: "jget (JObj d) k = Inr (field d k)" for d k by (simp add: field_def split: option.split)
  show ?thesis
  proof (cases "jor res (JObj [])")
    case (JObj d)
    then have r: "res = JObj d \<or> d = [] \<and> \<not> truthy res" by (auto simp: jor_def split: if_splits)
    have none: "field [] k = JNull" for k by (simp add: field_def)
    show ?thesis
      unfolding judge_pull_def Let_def JObj get using r
      by (auto simp: bind_res_Inr_iff none split: if_splits)
  qed (auto simp: judge_pull_def jor_def split: if_splits)
qed

lemma round_div_bounds:
  assumes "0 < d" "even k"
  shows "round_div n d < k \<longleftrightarrow> 2 * n < (2 * k - 1) * d" and "k < round_div n d \<longleftrightarrow> (2 * k + 1) * d < 2 * n"
proof -
  define q r where "q = n div d" and "r = n mod d"
  then have qr: "n div d = q" "n mod d = r" and r: "0 \<le> r" "r < d" using assms(1) by simp_all
  have "2 * n = 2 * (q * d + r)" unfolding q_def r_def by (simp only: div_mult_mod_eq)
  then have eq1: "2 * n = (2 * q) * d + 2 * r" by (simp only: distrib_left mult.assoc)
  obtain h where h: "k = 2 * h" using assms(2) by (auto elim: evenE)
  have mono: "a * d \<le> b * d \<longleftrightarrow> a \<le> b" for a b using assms(1) by simp
  consider "q < k - 1" | "q = k - 1" | "q = k" | "k < q" by linarith
  then show "round_div n d < k \<longleftrightarrow> 2 * n < (2 * k - 1) * d"
  proof cases
    case 1
    then have "(2 * q + 3) * d \<le> (2 * k - 1) * d" by (subst mono) simp
    then show ?thesis using 1 r eq1 by (auto simp: round_div_def Let_def qr algebra_simps)
  next
    case 2
    then have "odd q" using h by simp
    then show ?thesis using 2 r eq1 by (auto simp: round_div_def Let_def qr algebra_simps)
  next
    case 3
    then show ?thesis using r eq1 by (auto simp: round_div_def Let_def qr algebra_simps)
  next
    case 4
    then have "(2 * k + 1) * d \<le> (2 * q) * d" by (subst mono) simp
    then show ?thesis using 4 r eq1 assms(1) by (auto simp: round_div_def Let_def qr algebra_simps)
  qed
  consider "q < k" | "q = k" | "k < q" by linarith
  then show "k < round_div n d \<longleftrightarrow> (2 * k + 1) * d < 2 * n"
  proof cases
    case 1
    then have "(2 * q + 2) * d \<le> (2 * k) * d" by (subst mono) simp
    then show ?thesis using 1 r eq1 by (auto simp: round_div_def Let_def qr algebra_simps)
  next
    case 2
    then have "even q" using h by simp
    then show ?thesis using 2 r eq1 by (auto simp: round_div_def Let_def qr algebra_simps)
  next
    case 3
    then have "(2 * k + 2) * d \<le> (2 * q) * d" by (subst mono) simp
    then show ?thesis using 3 r eq1 assms(1) by (auto simp: round_div_def Let_def qr algebra_simps)
  qed
qed

lemma round_div_nonneg: "0 \<le> n \<Longrightarrow> 0 < d \<Longrightarrow> 0 \<le> round_div n d"
  by (simp add: round_div_def Let_def pos_imp_zdiv_nonneg_iff)

text \<open>A completed transfer is reported as slow exactly when it took at least thirty seconds and
  its exact rate, in tenths of a MiB/s, lies strictly between a half and 399.5: a transfer slower than
  a twentieth of a MiB/s rounds to 0.0 and is never reported, however long it took.\<close>

theorem transfer_slow_band:
  "transfer_is_slow (int b) ns \<longleftrightarrow>
     30 * second \<le> ns \<and> 1 * (1048576 * ns) < 20 * (int b * second) \<and> 20 * (int b * second) < 799 * (1048576 * ns)"
proof (cases "30 * second \<le> ns")
  case True
  then have d: "0 < 1048576 * ns" by (simp add: second_def)
  have nn: "0 \<le> round_div (int b * 10 * second) (1048576 * ns)"
    by (rule round_div_nonneg [OF _ d]) (simp add: second_def)
  show ?thesis
    using True round_div_bounds(1) [OF d, of 400 "int b * 10 * second"]
      round_div_bounds(2) [OF d, of 0 "int b * 10 * second"] nn d
    by (auto simp: transfer_is_slow_def transfer_rate_tenths_def Let_def TRANSFER_SLOW_MIN_SECONDS_def
          TRANSFER_SLOW_FLOOR_MBPS_def second_def)
qed (simp add: transfer_is_slow_def TRANSFER_SLOW_MIN_SECONDS_def)

end
