(* ===== verification/Driver_Run.thy ===== *)
theory Driver_Run
  imports Driver_Order Driver_Example
begin

text \<open>
  The loops and the whole run: how long the detached run is polled, what a narrowed target set is,
  what the exit code of a run says, what a refused preflight leaves alone, and the supervised loop.
\<close>

section \<open>Polling ends\<close>

definition clock_rel :: "driver \<Rightarrow> driver \<Rightarrow> bool" where
  "clock_rel s s' \<longleftrightarrow> tick s \<le> tick s' \<and> slept s \<le> slept s'"

interpretation clocked: phase_logic clock_rel "\<lambda>_. True"
  by unfold_locales (auto simp: clock_rel_def)

definition clock_at :: "env \<Rightarrow> driver \<Rightarrow> int" where
  "clock_at E s = e_mono E (tick s) + slept s"

definition steady :: "env \<Rightarrow> bool" where
  "steady E \<longleftrightarrow> (\<forall>n m. n \<le> m \<longrightarrow> e_mono E n \<le> e_mono E m)"

lemma clock_rel_le: "steady E \<Longrightarrow> clock_rel s s' \<Longrightarrow> clock_at E s \<le> clock_at E s'"
  unfolding steady_def clock_rel_def clock_at_def by (meson add_mono)

lemma poll_step:
  "poll E host deadline (Suc fuel) p s =
     (let s1 = s\<lparr>tick := tick s + 1\<rparr> in
      if clock_at E s < deadline then
        (case poll_once E host p s1 of
           (Inl e, s2) \<Rightarrow> (Inl e, s2)
         | (Inr (finished, p'), s2) \<Rightarrow>
             if finished then (Inr p', s2)
             else poll E host deadline fuel p'
                    (s2\<lparr>trace := trace s2 @ [Sleep EXECUTE_POLL_INTERVAL_S],
                        slept := slept s2 + EXECUTE_POLL_INTERVAL_S * second\<rparr>))
      else (Inr p, s1))"
  by (auto simp: mono_clock_def bindM_def ask_def clock_at_def Let_def seqM_def sleep_def act_def
           split: prod.splits sum.splits)

lemma poll_fuel_irrelevant:
  assumes "steady E" "deadline - clock_at E s \<le> int k * (EXECUTE_POLL_INTERVAL_S * second)"
    and "k < fuel" "k < fuel'"
  shows "poll E host deadline fuel p s = poll E host deadline fuel' p s"
  using assms(2-)
proof (induction k arbitrary: fuel fuel' p s)
  case 0
  then obtain f f' where "fuel = Suc f" "fuel' = Suc f'" by (metis gr0_implies_Suc)
  with 0 show ?case by (simp add: poll_step Let_def del: poll.simps)
next
  case (Suc k)
  then obtain f f' where f: "fuel = Suc f" "fuel' = Suc f'" "k < f" "k < f'"
    by (metis Suc_less_eq2)
  let ?s1 = "s\<lparr>tick := tick s + 1\<rparr>"
  have "poll E host deadline f p' (s2\<lparr>trace := trace s2 @ [Sleep EXECUTE_POLL_INTERVAL_S],
                        slept := slept s2 + EXECUTE_POLL_INTERVAL_S * second\<rparr>)
      = poll E host deadline f' p' (s2\<lparr>trace := trace s2 @ [Sleep EXECUTE_POLL_INTERVAL_S],
                        slept := slept s2 + EXECUTE_POLL_INTERVAL_S * second\<rparr>)"
    if once: "poll_once E host p ?s1 = (Inr (fin, p'), s2)" for fin p' s2
  proof (rule Suc.IH)
    have "clock_rel s ?s1" by (simp add: clock_rel_def)
    then have "clock_rel s s2" using movesD [OF clocked.polls_once once] clocked.R_trans by blast
    then have "clock_at E s \<le> clock_at E s2" by (rule clock_rel_le [OF assms(1)])
    then have "clock_at E s + EXECUTE_POLL_INTERVAL_S * second
        \<le> clock_at E (s2\<lparr>trace := trace s2 @ [Sleep EXECUTE_POLL_INTERVAL_S],
                        slept := slept s2 + EXECUTE_POLL_INTERVAL_S * second\<rparr>)"
      by (simp add: clock_at_def)
    then show "deadline - clock_at E (s2\<lparr>trace := trace s2 @ [Sleep EXECUTE_POLL_INTERVAL_S],
                        slept := slept s2 + EXECUTE_POLL_INTERVAL_S * second\<rparr>)
        \<le> int k * (EXECUTE_POLL_INTERVAL_S * second)"
      using Suc.prems(1) by (simp add: algebra_simps)
  qed (use f in auto)
  then show ?case
    unfolding f poll_step Let_def by (auto split: prod.splits sum.splits)
qed

text \<open>Polling the detached run ends: with a clock that does not run backwards and sleeps that
  last as long as asked, the hour of \<open>EXECUTE_TIMEOUT_S\<close> is over within \<open>POLL_FUEL\<close> passes, so more
  fuel changes nothing.\<close>

theorem poll_ends:
  assumes "steady E" and "deadline \<le> clock_at E s + EXECUTE_TIMEOUT_S * second" and "POLL_FUEL \<le> fuel"
  shows "poll E host deadline fuel p s = poll E host deadline POLL_FUEL p s"
  by (rule poll_fuel_irrelevant [of E deadline s 240])
     (use assms in \<open>simp_all add: EXECUTE_TIMEOUT_S_def EXECUTE_POLL_INTERVAL_S_def POLL_FUEL_def second_def\<close>)

lemma poll_ends_witness:
  "steady ex_env
   \<and> poll ex_env ''mast01'' (3600 * second) 500 \<lparr>p_result = JNull, p_session = 7, p_last_beat = 0\<rparr> (new_driver ex_env ''run-1'' 0 [])
     = poll ex_env ''mast01'' (3600 * second) POLL_FUEL \<lparr>p_result = JNull, p_session = 7, p_last_beat = 0\<rparr> (new_driver ex_env ''run-1'' 0 [])"
proof -
  have st: "steady ex_env" by (simp add: steady_def ex_env_def)
  moreover have "(3600 :: int) * second \<le> clock_at ex_env (new_driver ex_env ''run-1'' 0 []) + EXECUTE_TIMEOUT_S * second"
    by (simp add: clock_at_def new_driver_def ex_env_def EXECUTE_TIMEOUT_S_def second_def)
  moreover have "POLL_FUEL \<le> 500" by (simp add: POLL_FUEL_def)
  ultimately show ?thesis using poll_ends by blast
qed

section \<open>Targets\<close>

lemma add_new_set: "set (add_new extra out) = set extra \<union> set out"
  by (induction extra arbitrary: out) (auto simp: add_new_def)

lemma add_new_distinct: "distinct out \<Longrightarrow> distinct (add_new extra out)"
  by (induction extra arbitrary: out) (auto simp: add_new_def)

definition narrowed_by :: "string list \<Rightarrow> string list \<Rightarrow> string list \<Rightarrow> string set" where
  "narrowed_by requested targeted full_set =
     set (requested_modules requested) \<inter> set (if targeted = [] then full_set else targeted)"

text \<open>\<open>--modules\<close> restricts what runs and never what was decided: the result holds exactly the
  requested modules that were going to run, with every always-module added, in provider order; and
  it is empty, always-modules included, exactly when no requested module was going to run.\<close>

theorem filter_targets_exact:
  assumes "filter_targets requested ps ps' targeted full_set = Inr out"
  shows "(\<exists>order always. module_order ps = Inr order \<and> always_modules ps' = Inr always
            \<and> set out = narrowed_by requested targeted full_set \<union> set always
            \<and> sorted (map (order_of order) out))
         \<and> narrowed_by requested targeted full_set \<noteq> {}
       \<or> out = [] \<and> narrowed_by requested targeted full_set = {}"
proof -
  let ?real = "filter (\<lambda>n. n \<in> set (requested_modules requested)) (if targeted = [] then full_set else targeted)"
  have n: "set ?real = narrowed_by requested targeted full_set" by (auto simp: narrowed_by_def)
  show ?thesis
  proof (cases "?real = []")
    case True
    then have "out = []" using assms by (simp add: filter_targets_def Let_def)
    then show ?thesis using n True by (metis list.set(1))
  next
    case False
    from assms False obtain order always where o: "module_order ps = Inr order" "always_modules ps' = Inr always"
      "out = sort_key (order_of order) (sort (add_new always ?real))"
      by (auto simp: filter_targets_def Let_def bind_res_Inr_iff)
    then have "set out = narrowed_by requested targeted full_set \<union> set always"
      using n by (simp add: add_new_set Un_commute)
    moreover have "sorted (map (order_of order) out)" unfolding o(3) by (rule sorted_sort_key)
    moreover have "narrowed_by requested targeted full_set \<noteq> {}" using n False by (metis set_empty)
    ultimately show ?thesis using o(1,2) by blast
  qed
qed

definition ex_order :: providers where
  "ex_order = Some [(''reboot'', Some (''{'' @ [CHR 34] @ ''order'' @ [CHR 34] @ '':9,'' @ [CHR 34] @ ''always'' @ [CHR 34] @ '':true}'')),
     (''git'', Some (''{'' @ [CHR 34] @ ''order'' @ [CHR 34] @ '':3}''))]"

lemma filter_targets_exact_witness:
  "(\<exists>order always. module_order ex_order = Inr order \<and> always_modules ex_order = Inr always
      \<and> set [''git'', ''reboot''] = narrowed_by [''git''] [] [''git'', ''reboot''] \<union> set always
      \<and> sorted (map (order_of order) [''git'', ''reboot'']))
   \<and> narrowed_by [''git''] [] [''git'', ''reboot''] \<noteq> {}
   \<or> [''git'', ''reboot''] = [] \<and> narrowed_by [''git''] [] [''git'', ''reboot''] = {}"
  by (rule filter_targets_exact [where requested = "[''git'']" and ps = ex_order and ps' = ex_order and targeted = "[]"
        and full_set = "[''git'', ''reboot'']" and out = "[''git'', ''reboot'']"]) code_simp

section \<open>The exit code of a run\<close>

definition is_event :: "string \<Rightarrow> act \<Rightarrow> bool" where
  "is_event k a \<longleftrightarrow> (case a of Event k' fs \<Rightarrow> k' = k | _ \<Rightarrow> False)"

text \<open>The acts that reach a unit, a build or a relay.\<close>

fun touches :: "act \<Rightarrow> bool" where
  "touches (Event k fs) = False"
| "touches (Activity h r w d p g) = False"
| "touches (WriteLocal p c) = False"
| "touches (RemoveRun n) = False"
| "touches (Sleep i) = False"
| "touches a = True"

definition talk_rel :: "driver \<Rightarrow> driver \<Rightarrow> bool" where
  "talk_rel s s' \<longleftrightarrow> (\<exists>xs. trace s' = trace s @ xs \<and> list_all (\<lambda>a. \<not> touches a \<and> \<not> fails a) xs)"

lemma talk_trans: "talk_rel a b \<Longrightarrow> talk_rel b c \<Longrightarrow> talk_rel a c"
proof -
  assume "talk_rel a b" "talk_rel b c"
  then obtain xs ys where "trace b = trace a @ xs" "list_all (\<lambda>a. \<not> touches a \<and> \<not> fails a) xs"
    "trace c = trace b @ ys" "list_all (\<lambda>a. \<not> touches a \<and> \<not> fails a) ys"
    unfolding talk_rel_def by (elim exE conjE) (rule that)
  then show ?thesis by (auto simp: talk_rel_def intro!: exI [of _ "xs @ ys"])
qed

interpretation talking: step_logic talk_rel
  by unfold_locales (auto simp: talk_rel_def intro: talk_trans)

lemma talk_prims:
  "moves talk_rel (event k fs)" "moves talk_rel (ask q)" "moves talk_rel (set_exit c)"
  "moves talk_rel (modifyM (\<lambda>s. s\<lparr>smb_user := a, smb_pass := b, shared_user := c', shared_pass := d, d_creds := f\<rparr>))"
  by (auto simp: moves_def talk_rel_def event_run ask_def set_exit_def)

lemma preflights_talk: "moves talk_rel (preflight_smb E)" "moves talk_rel (preflight_tree E)"
  unfolding preflight_smb_def preflight_tree_def Let_def
  by (intro resp talk_prims; (auto intro!: resp talk_prims)?)+

lemma preflight_smb_exit:
  assumes "preflight_smb E s = (r, s')"
  shows "exit_code s' = exit_code s \<or> exit_code s' = EXIT_UNIT_FAIL \<and> list_ex (is_event ''PREFLIGHT_SMB_FAIL'') (trace s')"
  using assms
  by (auto simp: preflight_smb_def bindM_def ask_def Let_def seqM_def event_run set_exit_def is_event_def
           split: option.splits prod.splits sum.splits if_splits)

lemma forM_events:
  "forM xs (\<lambda>x. event (k x) (fs x)) s = (Inr (), s\<lparr>trace := trace s @ map (\<lambda>x. Event (k x) (fs x)) xs\<rparr>)"
  by (induction xs arbitrary: s) (simp_all add: seqM_def bindM_def event_run)

lemma diverged_events:
  "(\<lambda>(p, why, detail). event ''TREE_DIVERGED'' [(''path'', p), (''reason'', why), (''detail'', detail)])
      = (\<lambda>x. event ''TREE_DIVERGED'' [(''path'', fst x), (''reason'', fst (snd x)), (''detail'', snd (snd x))])"
  by (auto simp: fun_eq_iff)

lemma preflight_tree_exit:
  assumes "preflight_tree E s = (r, s')"
  shows "exit_code s' = (case e_diverged E (tick s) of Inr (d # ds) \<Rightarrow> EXIT_FATAL | _ \<Rightarrow> exit_code s)"
  using assms unfolding preflight_tree_def diverged_events
  by (auto simp: bindM_def ask_def seqM_def event_run set_exit_def forM_events
           split: sum.splits list.splits if_splits)

lemma run_phase_logic_events:
  "moves (step_rel anything) (prune_sessions E cfg)"
  unfolding prune_sessions_def
  by (intro resp freely.acts) (auto intro!: resp freely.acts split: prod.split)

lemma finish_step: "moves (step_rel anything) (finish E cfg)"
  unfolding finish_def Let_def by (intro resp run_phase_logic_events) simp_all

text \<open>What a run says of itself when it ends.\<close>

definition honest_exit :: "int \<Rightarrow> act list \<Rightarrow> bool" where
  "honest_exit c xs \<longleftrightarrow>
     c = EXIT_OK \<and> \<not> list_ex fails xs
   \<or> c = EXIT_UNIT_FAIL \<and> (list_ex fails xs \<or> list_ex (is_event ''PREFLIGHT_SMB_FAIL'') xs)
   \<or> c = EXIT_FATAL \<and> \<not> list_ex touches xs"

lemma talk_untouched: "talk_rel s s' \<Longrightarrow> \<not> list_ex touches (trace s) \<Longrightarrow> \<not> list_ex touches (trace s')"
  "talk_rel s s' \<Longrightarrow> \<not> list_ex fails (trace s) \<Longrightarrow> \<not> list_ex fails (trace s')"
  by (auto simp: talk_rel_def list_ex_iff list_all_iff)

lemma run_units_honest:
  assumes "run_units E cfg units s = (Inr c, s')" "exit_code s = EXIT_OK"
    and "\<not> list_ex touches (trace s)" "\<not> list_ex fails (trace s)"
  shows "honest_exit c (trace s')"
proof -
  from assms(1) obtain s1 s2 where
    1: "preflight_smb E s = (Inr (), s1)" and 2: "preflight_tree E s1 = (Inr (), s2)" and
    3: "(if exit_code s2 = EXIT_FATAL then ret EXIT_FATAL
     else
       (case select_units units (cfg_only_hosts cfg) of (chosen, skipped) \<Rightarrow>
        seqM (forM skipped (\<lambda>u. event ''UNIT_EXCLUDED'' [(''unit'', ue_hostname u),
                (''reason'', case ue_excluded u of None \<Rightarrow> ''None'' | Some x \<Rightarrow> x)]))
       (seqM (event ''RUN_PLAN'' [(''units'', join '','' (map ue_hostname chosen)),
                (''dry_run'', py_str (JBool (cfg_dry_run cfg))), (''force'', py_str (JBool (cfg_force cfg)))])
       (seqM (forM chosen (process_unit E cfg))
       (seqM (finish E cfg) (gets exit_code)))))) s2 = (Inr c, s')"
    unfolding run_units_def by (auto simp: seqM_Inr_iff)
  have t1: "talk_rel s s1" and t2: "talk_rel s1 s2"
    using 1 2 movesD [OF preflights_talk(1)] movesD [OF preflights_talk(2)] by blast+
  have q2: "\<not> list_ex touches (trace s2)" "\<not> list_ex fails (trace s2)"
    using talk_untouched [OF talk_trans [OF t1 t2]] assms(3,4) by blast+
  show ?thesis
  proof (cases "exit_code s2 = EXIT_FATAL")
    case True
    with 3 q2 show ?thesis by (auto simp: honest_exit_def)
  next
    case False
    have e2: "exit_code s2 = EXIT_OK \<or> exit_code s2 = EXIT_UNIT_FAIL \<and> list_ex (is_event ''PREFLIGHT_SMB_FAIL'') (trace s2)"
    proof -
      from preflight_tree_exit [OF 2] False have "exit_code s2 = exit_code s1"
        by (auto split: sum.splits list.splits)
      moreover have "list_ex P (trace s1) \<Longrightarrow> list_ex P (trace s2)" for P
        using t2 by (auto simp: talk_rel_def)
      ultimately show ?thesis using preflight_smb_exit [OF 1] assms(2) by auto
    qed
    obtain chosen skipped where sel: "select_units units (cfg_only_hosts cfg) = (chosen, skipped)"
      by (cases "select_units units (cfg_only_hosts cfg)")
    let ?m = "seqM (forM skipped (\<lambda>u. event ''UNIT_EXCLUDED'' [(''unit'', ue_hostname u),
                (''reason'', case ue_excluded u of None \<Rightarrow> ''None'' | Some x \<Rightarrow> x)]))
       (seqM (event ''RUN_PLAN'' [(''units'', join '','' (map ue_hostname chosen)),
                (''dry_run'', py_str (JBool (cfg_dry_run cfg))), (''force'', py_str (JBool (cfg_force cfg)))])
       (seqM (forM chosen (process_unit E cfg))
       (seqM (finish E cfg) (gets exit_code))))"
    have m: "?m s2 = (Inr c, s')" using 3 False sel by simp
    have "moves (step_rel anything) ?m"
      by (intro resp finish_step freely.processes) simp_all
    then have "step_rel anything s2 s'" using m by (rule movesD)
    moreover have "c = exit_code s'" using m by (auto simp: seqM_Inr_iff)
    ultimately show ?thesis
      using e2 q2(2) by (auto simp: honest_exit_def step_rel_def split: if_splits)
  qed
qed

definition fresh :: "driver \<Rightarrow> bool" where
  "fresh s \<longleftrightarrow> exit_code s = EXIT_OK \<and> \<not> list_ex touches (trace s) \<and> \<not> list_ex fails (trace s)"

definition honest :: "int drv \<Rightarrow> bool" where
  "honest m \<longleftrightarrow> triple fresh m (\<lambda>c s. honest_exit c (trace s)) (\<lambda>_ _. True)"

lemma honest_bind: "keeps fresh m \<Longrightarrow> (\<And>a. honest (f a)) \<Longrightarrow> honest (bindM m f)"
  unfolding honest_def keeps_triple
  by (rule triple_bindM [where R = "\<lambda>_. fresh"]) (erule triple_conseq, simp_all)

lemma honest_seq: "keeps fresh m \<Longrightarrow> honest n \<Longrightarrow> honest (seqM m n)"
  unfolding seqM_def by (rule honest_bind)

lemma honest_if: "(b \<Longrightarrow> honest m) \<Longrightarrow> (\<not> b \<Longrightarrow> honest n) \<Longrightarrow> honest (if b then m else n)"
  by simp

lemma honest_option: "honest m \<Longrightarrow> (\<And>y. honest (f y)) \<Longrightarrow> honest (case x of None \<Rightarrow> m | Some y \<Rightarrow> f y)"
  by (cases x) simp_all

lemma honest_prod: "(\<And>a b. honest (f a b)) \<Longrightarrow> honest (case p of (a, b) \<Rightarrow> f a b)"
  by (cases p) simp

lemma honest_fatal: "honest (fatal fs)"
  by (auto simp: honest_def triple_def fatal_def fresh_def seqM_def bindM_def event_run honest_exit_def)

lemma honest_run_units: "honest (run_units E cfg units)"
  unfolding honest_def by (rule tripleI) (auto simp: fresh_def intro: run_units_honest)

lemma fresh_prims: "keeps fresh (ask q)" "keeps fresh (event k fs)"
  "keeps fresh (modifyM (\<lambda>s. s\<lparr>smb_user := a, smb_pass := b, shared_user := c, shared_pass := d, d_creds := f\<rparr>))"
  by (auto simp: keeps_def fresh_def ask_def event_run)

lemma honest_run: "honest (run E cfg)"
  unfolding run_def
  by (intro honest_bind honest_seq honest_if honest_option honest_prod honest_fatal honest_run_units
        fresh_prims keeps_gets keeps_liftR)

text \<open>C10: A run that ends says what happened: exit code 0 means that no unit got a failing row, 1
  that one did or that the SMB preflight failed, and 2 that no unit was ever contacted, nothing was
  built and nothing was copied; there is no other exit code.\<close>

theorem run_exit_honest:
  "case run E cfg (new_driver E rid start hosts) of (r, s') \<Rightarrow> (case r of Inl e \<Rightarrow> True | Inr c \<Rightarrow> honest_exit c (trace s'))"
proof -
  have "fresh (new_driver E rid start hosts)" by (simp add: fresh_def new_driver_def)
  with honest_run [of E cfg] show ?thesis
    unfolding honest_def triple_def by (auto split: prod.splits sum.splits)
qed

section \<open>Failures the summary does not count\<close>

text \<open>A unit that fails the staging reachability check or the relay sync makes the exit code a
  unit failure, and still adds nothing to the failures \<open>_finish\<close> counts: the two disagree.\<close>

theorem failures_not_counted:
  "list_all (\<lambda>outcome. exit_code (snd (fail_row E host outcome why s)) = EXIT_UNIT_FAIL
      \<and> count_outcomes (\<lambda>x. x \<in> set fail_states) (unit_outcomes (snd (fail_row E host outcome why s)))
        \<le> count_outcomes (\<lambda>x. x \<in> set fail_states) (unit_outcomes s))
     [''PREFLIGHT_FAIL'', ''RELAY_SYNC_FAIL'']"
proof -
  have drop: "count_outcomes p (dict_set u x d) \<le> count_outcomes p d" if "\<not> p x" for p u x d
    using that by (induction d) (auto simp: count_outcomes_def)
  have "exit_code (snd (fail_row E host x why s)) = EXIT_UNIT_FAIL"
    and "unit_outcomes (snd (fail_row E host x why s)) = dict_set host x (unit_outcomes s)" for x
    by (simp_all add: fail_row_def row_def dur_def activity_def act_def seqM_def bindM_def ask_def set_exit_def)
  then show ?thesis using drop by (simp add: fail_states_def)
qed

section \<open>The supervised loop\<close>

definition cycles :: "(nat \<Rightarrow> 's \<Rightarrow> int res \<times> 's) \<Rightarrow> ('s \<Rightarrow> unit res \<times> 's) \<Rightarrow> nat list \<Rightarrow> 's \<Rightarrow> 's" where
  "cycles one sleep_fn = fold (\<lambda>k s. snd (sleep_fn (snd (one k s))))"

lemma run_loop_from:
  assumes "\<And>k s m. fst (one k s) \<noteq> Inl (SystemExit m)" and "\<And>s. fst (sleep_fn s) = Inr ()"
  shows "n \<le> fuel \<Longrightarrow> run_loop (\<lambda>_. False) one sleep_fn (Some (c + Suc n)) (Suc fuel) asked c s
    = Some (Inr (c + Suc n), snd (one (c + Suc n) (cycles one sleep_fn [Suc c..<c + Suc n] s)))"
proof (induction n arbitrary: fuel asked c s)
  case 0
  then show ?case using assms(1)[of "Suc c" s]
    by (cases "one (Suc c) s") (auto simp: cycles_def split: sum.split pyexc.split)
next
  case (Suc n)
  then obtain f where f: "fuel = Suc f" "n \<le> f" by (cases fuel) auto
  obtain r s1 where o: "one (Suc c) s = (r, s1)" by fastforce
  obtain u s2 where sl: "sleep_fn s1 = (Inr u, s2)" using assms(2) [of s1] by (cases "sleep_fn s1") auto
  have "run_loop (\<lambda>_. False) one sleep_fn (Some (c + Suc (Suc n))) (Suc fuel) asked c s
      = run_loop (\<lambda>_. False) one sleep_fn (Some (Suc c + Suc n)) (Suc f) (asked + 2) (Suc c) s2"
    using assms(1)[of "Suc c" s] o sl unfolding f(1)
    by (subst run_loop.simps(2)) (auto simp del: run_loop.simps split: sum.split pyexc.split)
  moreover have "cycles one sleep_fn [Suc c..<c + Suc (Suc n)] s = cycles one sleep_fn [Suc (Suc c)..<Suc c + Suc n] s2"
    using o sl by (simp add: cycles_def upt_conv_Cons del: upt_Suc)
  moreover have "run_loop (\<lambda>_. False) one sleep_fn (Some (Suc c + Suc n)) (Suc f) (asked + 2) (Suc c) s2
      = Some (Inr (Suc c + Suc n), snd (one (Suc c + Suc n) (cycles one sleep_fn [Suc (Suc c)..<Suc c + Suc n] s2)))"
    by (rule Suc.IH [OF f(2)])
  ultimately show ?case by (simp del: run_loop.simps upt_Suc)
qed

text \<open>The supervised loop is not stopped by a cycle that raises: bounded to \<open>n\<close> cycles it runs all
  \<open>n\<close>, each on the state the previous ones left, with a sleep between two, whatever they raise.\<close>

theorem loop_survives:
  assumes "\<And>k s m. fst (one k s) \<noteq> Inl (SystemExit m)" and "\<And>s. fst (sleep_fn s) = Inr ()" and "Suc n \<le> fuel"
  shows "run_loop (\<lambda>_. False) one sleep_fn (Some (Suc n)) fuel 0 0 s
    = Some (Inr (Suc n), snd (one (Suc n) (cycles one sleep_fn [1..<Suc n] s)))"
proof -
  from assms(3) obtain f where "fuel = Suc f" "n \<le> f" by (cases fuel) auto
  moreover have "run_loop (\<lambda>_. False) one sleep_fn (Some (0 + Suc n)) (Suc f) 0 0 s
      = Some (Inr (0 + Suc n), snd (one (0 + Suc n) (cycles one sleep_fn [Suc 0..<0 + Suc n] s)))"
    by (rule run_loop_from [where one = one and sleep_fn = sleep_fn, OF assms(1,2) \<open>n \<le> f\<close>])
  ultimately show ?thesis by (simp del: run_loop.simps upt_Suc)
qed

lemma loop_survives_witness:
  "run_loop (\<lambda>_. False) (\<lambda>k s. (Inl ValueError, s @ [k])) (\<lambda>s. (Inr (), s @ [0])) (Some (Suc 2)) 3 0 0 []
     = Some (Inr (Suc 2), [1, 0, 2, 0, 3])"
  using loop_survives [where one = "\<lambda>k s. (Inl ValueError, s @ [k])" and sleep_fn = "\<lambda>s. (Inr (), s @ [0])"
      and n = 2 and fuel = 3 and s = "[] :: nat list"]
  by (simp add: cycles_def upt_rec)

end
