(* ===== verification/Driver_Scripts.thy ===== *)
theory Driver_Scripts
  imports Driver_Phases
begin

text \<open>
  The PowerShell text of every script the driver of \<open>src/server/prov/driver.py\<close> sends, as its
  f-strings build it, and what can and cannot break out of the quotes in it.
\<close>

definition sq :: string where "sq = [CHR 39]"
definition dq :: string where "dq = [CHR 34]"

definition UNIT_SHARED_BLOB :: string where "UNIT_SHARED_BLOB = UNIT_STATUS_DIR @ bs @ ''shared-cred.dpapi''"
definition UNIT_SMOKE_DIR :: string where "UNIT_SMOKE_DIR = ''C:'' @ bs @ ''MAST'' @ bs @ ''logs'' @ bs @ ''smoke''"

definition names_of :: "string list \<Rightarrow> string" where
  "names_of ns = join '', '' (map ps_lit ns)"

text \<open>\<open>unit_path.rsplit('\\', 1)[0]\<close>.\<close>

definition parent_dir :: "string \<Rightarrow> string" where
  "parent_dir p = (if backslash \<in> set p then rev (tl (dropWhile (\<lambda>c. c \<noteq> backslash) (rev p))) else p)"

definition read_text_else :: "string \<Rightarrow> string" where
  "read_text_else p =
       ''if (Test-Path '' @ sq @ p @ sq @ '') { Get-Content '' @ sq @ p @ sq @ '' -Raw } else { '' @ sq @ sq
       @ '' }''"

definition read_lit :: "string \<Rightarrow> string" where
  "read_lit p =
       ''if (Test-Path '' @ ps_lit p @ '') { Get-Content '' @ ps_lit p @ '' -Raw }''"

definition reach_text :: "string \<Rightarrow> string" where
  "reach_text a =
       ''$c = New-Object Net.Sockets.TcpClient; try { $a = $c.BeginConnect('' @ ps_lit a
       @ '', 445, $null, $null); if ($a.AsyncWaitHandle.WaitOne(5000)) { $c.EndConnect($a); '' @ sq
       @ ''SMBREACH ok'' @ sq @ '' } else { '' @ sq @ ''SMBREACH timeout'' @ sq @ '' } } catch { '' @ sq
       @ ''SMBREACH '' @ sq @ '' + $_.Exception.Message } finally { $c.Close() }''"

definition inventory_text :: "string" where
  "inventory_text =
       
       ''$a = Get-NetAdapter -Physical | ForEach-Object { [ordered]@'' @ ''{ name=$_.Name; mac=$_.MacAddress; status=$_.Status; media=$_.PhysicalMediaType } }; $cs = Get-CimInstance Win32_ComputerSystem; $banks = @(Get-CimInstance Win32_PhysicalMemory | ForEach-Object { $_.Capacity }); $o = [ordered]@'' @ ''{ hostname=$env:COMPUTERNAME; adapters=@($a); memory_visible_bytes=$cs.TotalPhysicalMemory; memory_bank_bytes=$banks; collected_utc=(Get-Date).ToUniversalTime().ToString(''
       @ sq @ ''yyyy-MM-ddTHH:mm:ssZ'' @ sq @ '') }; Write-Output ('' @ sq @ ''INV '' @ sq
       @ '' + ($o | ConvertTo-Json -Compress -Depth 6))''"

definition standdown_text :: "string" where
  "standdown_text =
       
       ''function Remove-One { param($n) $svc = Get-Service -Name $n -EA SilentlyContinue; if ($null -eq $svc) { return ''
       @ sq @ ''absent'' @ sq @ '' }; try { if ($svc.Status -ne '' @ sq @ ''Stopped'' @ sq
       @ '') { Stop-Service -Name $n -Force -EA Stop } } catch { return '' @ sq @ ''error: '' @ sq
       @ '' + $_.Exception.Message }; $null = & sc.exe delete $n 2>&1; if ($LASTEXITCODE -ne 0) { return '' @ sq
       @ ''error: sc delete exit '' @ sq
       @ '' + $LASTEXITCODE }; if ($null -ne (Get-Service -Name $n -EA SilentlyContinue)) { return '' @ sq
       @ ''pending-delete'' @ sq @ '' }; return '' @ sq @ ''removed'' @ sq
       @ '' }; $o = [ordered]@'' @ ''{}; foreach ($n in @('' @ names_of STAND_DOWN_SERVICES
       @ '')) { $o[$n] = Remove-One $n }; foreach ($n in @('' @ names_of STAND_DOWN_LEGACY_SERVICES
       @ '')) { if ($null -eq (Get-Service -Name $n -EA SilentlyContinue)) { $o[$n] = '' @ sq @ ''absent'' @ sq
       @ ''; continue }; $img = (Get-CimInstance Win32_Service -Filter ('' @ dq @ ''Name='' @ sq @ ''$n'' @ sq
       @ dq @ '') -EA SilentlyContinue).PathName; if ($img -notmatch '' @ sq @ ''nssm'' @ bs @ ''.exe'' @ sq
       @ '') { $o[$n] = '' @ sq @ ''not-ours'' @ sq @ ''; continue }; $o[$n] = Remove-One $n }; Write-Output (''
       @ sq @ ''STANDDOWN '' @ sq @ '' + ($o | ConvertTo-Json -Compress -Depth 4))''"

definition write_json_text :: "string \<Rightarrow> json \<Rightarrow> string" where
  "write_json_text p obj =
       ''$d = '' @ sq @ parent_dir p @ sq
       @ ''; New-Item -ItemType Directory -Force -Path $d | Out-Null; $tmp = '' @ sq @ p @ ''.tmp'' @ sq
       @ ''; [System.IO.File]::WriteAllText($tmp, '' @ sq @ json_dumps obj @ sq
       @ '', (New-Object System.Text.UTF8Encoding($false))); Move-Item -Force $tmp '' @ sq @ p @ sq"

definition pull_text :: "pull_args \<Rightarrow> string" where
  "pull_text pa =
       ''$r = & '' @ ps_lit UNIT_PULL_SCRIPT @ '' '' @ pull_staging_args pa @ ''; Write-Output ('' @ sq
       @ ''PULLRESULT '' @ sq @ '' + ($r | ConvertTo-Json -Compress -Depth 6))''"

definition protect_text :: "string" where
  "protect_text =
       ''$ErrorActionPreference='' @ sq @ ''Stop'' @ sq @ ''; Add-Type -AssemblyName System.Security; $p=''
       @ ps_lit UNIT_SHARED_PLAIN
       @ ''; $b=[IO.File]::ReadAllBytes($p); $e=[Security.Cryptography.ProtectedData]::Protect($b,$null,[Security.Cryptography.DataProtectionScope]::LocalMachine); [IO.File]::WriteAllBytes(''
       @ ps_lit UNIT_SHARED_BLOB
       @ '',$e); [IO.File]::WriteAllBytes($p,(New-Object byte[] $b.Length)); Remove-Item -LiteralPath $p -Force''"

definition register_text :: "string" where
  "register_text =
       ''& '' @ ps_lit UNIT_DETACHED_RUNNER @ '' -Register''"

definition delete_task_text :: "string" where
  "delete_task_text =
       ''schtasks /delete /tn MAST-Execute-Detached /f''"

definition smoke_text :: "string list \<Rightarrow> string" where
  "smoke_text ms =
       ''$mods = @('' @ join '','' (map ps_lit ms)
       @ ''); $o = [ordered]@'' @ ''{}; foreach ($m in $mods) { $p = Join-Path '' @ sq @ UNIT_SMOKE_DIR @ sq
       @ '' ($m + '' @ sq @ ''-smoke.txt'' @ sq
       @ ''); if (Test-Path $p) { $c = (Get-Content $p -Raw).Trim(); $o[$m] = if ($c) { $c } else { '' @ sq
       @ ''<empty>'' @ sq @ '' } } else { $o[$m] = '' @ sq @ ''<missing>'' @ sq @ '' } }; Write-Output ('' @ sq
       @ ''SMOKE '' @ sq @ '' + ($o | ConvertTo-Json -Compress -Depth 4))''"

definition session_text :: "string \<Rightarrow> string" where
  "session_text p =
       ''if (Test-Path '' @ sq @ p @ sq @ '') { '' @ sq @ ''yes'' @ sq @ '' } else { '' @ sq @ ''no'' @ sq
       @ '' }''"

definition archive_text :: "string \<Rightarrow> string" where
  "archive_text p =
       ''Get-ChildItem -LiteralPath '' @ sq @ p @ sq
       @ '' -File -Recurse | ForEach-Object { $rel = $_.FullName.Substring('' @ sq @ p @ sq
       @ ''.Length).TrimStart('' @ sq @ bs @ sq
       @ ''); $b64 = [Convert]::ToBase64String([IO.File]::ReadAllBytes($_.FullName)); Write-Output ('' @ sq
       @ ''FILE '' @ sq @ '' + $rel + '' @ sq @ '' '' @ sq @ '' + $b64) }''"

text \<open>The poll and the lease are read with quoted literals and no \<open>else\<close>, the other status files with
  the bare path.\<close>

definition ps_text :: "script \<Rightarrow> string" where
  "ps_text sc =
     (case sc of
        ReadFile p \<Rightarrow> (if p = UNIT_EXECUTE_RESULT \<or> p = UNIT_EXECUTE_LEASE then read_lit p else read_text_else p)
      | ReachStaging a \<Rightarrow> reach_text a
      | InventoryScript \<Rightarrow> inventory_text
      | StandDown \<Rightarrow> standdown_text
      | WriteJson p obj \<Rightarrow> write_json_text p obj
      | Pull pa \<Rightarrow> pull_text pa
      | ProtectCred \<Rightarrow> protect_text
      | RegisterRun \<Rightarrow> register_text
      | DeleteTask \<Rightarrow> delete_task_text
      | SmokeScript ms \<Rightarrow> smoke_text ms
      | SessionCheck p \<Rightarrow> session_text p
      | ArchivePull p \<Rightarrow> archive_text p)"

end
