(* ===== verification/Driver_Wire.thy ===== *)
theory Driver_Wire
  imports Driver_Scripts
begin

text \<open>
  What reaches the unit of the values the driver puts between quotes: the arguments of the pull
  script read back whatever they hold, a document written to the unit does not.
\<close>

section \<open>The arguments of the pull script\<close>

text \<open>How PowerShell reads a list of named, single-quoted arguments: a name up to a blank, a
  literal, and either the end or a blank and the next pair. \<open>fuel\<close> bounds the pairs.\<close>

fun ps_named_args :: "nat \<Rightarrow> string \<Rightarrow> (string \<times> string) list option" where
  "ps_named_args 0 t = None"
| "ps_named_args (Suc fuel) t =
     (let name = takeWhile (\<lambda>c. c \<noteq> CHR '' '') t in
      case ps_read_lit (drop (length name + 1) t) of
        None \<Rightarrow> None
      | Some (v, []) \<Rightarrow> Some [(name, v)]
      | Some (v, c # more_args) \<Rightarrow>
          if c = CHR '' '' then map_option (\<lambda>as. (name, v) # as) (ps_named_args fuel more_args) else None)"

definition plain_name :: "string \<Rightarrow> bool" where
  "plain_name n \<longleftrightarrow> CHR '' '' \<notin> set n"

lemma takeWhile_name: "plain_name n \<Longrightarrow> takeWhile (\<lambda>c. c \<noteq> CHR '' '') (n @ CHR '' '' # t) = n"
  by (induction n) (auto simp: plain_name_def)

lemma named_args_last:
  assumes "plain_name n"
  shows "ps_named_args (Suc k) (n @ CHR '' '' # ps_lit v) = Some [(n, v)]"
  using ps_read_ps_lit [of "[]" v] by (simp add: takeWhile_name [OF assms] quoted_rest_def)

lemma named_args_step:
  assumes "plain_name n"
  shows "ps_named_args (Suc k) (n @ CHR '' '' # ps_lit v @ CHR '' '' # t)
     = map_option (\<lambda>as. (n, v) # as) (ps_named_args k t)"
  using ps_read_ps_lit [of "CHR '' '' # t" v]
  by (simp add: takeWhile_name [OF assms] quoted_rest_def apostrophe_def)

fun arg_text :: "(string \<times> string) list \<Rightarrow> string" where
  "arg_text [] = []"
| "arg_text [(n, v)] = n @ CHR '' '' # ps_lit v"
| "arg_text ((n, v) # a # as) = n @ CHR '' '' # ps_lit v @ CHR '' '' # arg_text (a # as)"

lemma named_args_text:
  "as \<noteq> [] \<Longrightarrow> list_all (plain_name \<circ> fst) as \<Longrightarrow> length as \<le> k \<Longrightarrow> ps_named_args k (arg_text as) = Some as"
proof (induction as arbitrary: k rule: arg_text.induct)
  case (2 n v)
  then obtain k' where "k = Suc k'" by (cases k) auto
  then show ?case using 2 named_args_last by simp
next
  case (3 n v a as)
  then obtain k' where "k = Suc k'" by (cases k) auto
  then show ?case using 3 named_args_step by simp
qed simp

definition pull_pairs :: "pull_args \<Rightarrow> (string \<times> string) list" where
  "pull_pairs a =
     [(''-ProvAddress'', pa_prov_address a), (''-UnitHostname'', pa_unit_hostname a), (''-SmbUser'', pa_smb_user a),
      (''-SmbPass'', pa_smb_pass a), (''-UnitStage'', pa_unit_stage a), (''-SrcUNC'', pa_src_unc a),
      (''-PayloadBytes'', int_str (pa_payload_bytes a)), (''-ExcludeFiles'', join ''|'' (pa_exclude_files a)),
      (''-ExcludeDirs'', join ''|'' (pa_exclude_dirs a))]"

lemma pull_staging_args_text: "pull_staging_args a = arg_text (pull_pairs a)"
  by (simp add: pull_staging_args_def pull_pairs_def)

text \<open>C18: The nine arguments of the pull script read back exactly, whatever is in them: no host name,
  account, password or excluded name can end its literal or add an argument.\<close>

theorem pull_args_round_trip:
  "ps_named_args 9 (pull_staging_args a) = Some (pull_pairs a)"
  unfolding pull_staging_args_text
  by (rule named_args_text) (simp_all add: pull_pairs_def plain_name_def)

section \<open>Documents written to the unit\<close>

lemma ps_unquote_plain:
  assumes "apostrophe \<notin> set t" "quoted_rest rest"
  shows "ps_unquote (t @ apostrophe # rest) = Some (t, rest)"
  using assms by (induction t) (auto simp: quoted_rest_def split: list.split)

lemma ps_unquote_shorter: "ps_unquote t = Some (v, rest) \<Longrightarrow> length v + length rest + 1 \<le> length t"
proof (induction t arbitrary: v rest rule: ps_unquote.induct)
  case (2 c s)
  show ?case
  proof (cases "c = apostrophe")
    case True
    show ?thesis
    proof (cases s)
      case Nil
      then show ?thesis using 2 True by auto
    next
      case (Cons d r)
      show ?thesis
      proof (cases "d = apostrophe")
        case ap: True
        then obtain v' where v': "ps_unquote r = Some (v', rest)" "v = apostrophe # v'"
          using 2(3) True Cons by auto
        then show ?thesis using 2(1) [OF True Cons ap v'(1)] Cons by simp
      qed (use 2(3) True Cons in auto)
    qed
  next
    case False
    then obtain v' where v': "ps_unquote s = Some (v', rest)" "v = c # v'" using 2(3) by auto
    then show ?thesis using 2(2) [OF False v'(1)] by simp
  qed
qed simp

lemma ps_unquote_quoted:
  assumes "ps_unquote (t @ apostrophe # rest) = Some (t, rest)"
  shows "apostrophe \<notin> set t"
  using assms
proof (induction t)
  case (Cons c t)
  show ?case
  proof (cases "c = apostrophe")
    case True
    then obtain d r where dr: "t @ apostrophe # rest = d # r" by (cases "t @ apostrophe # rest") auto
    with Cons.prems True obtain v where "d = apostrophe" "ps_unquote r = Some (v, rest)" "c # t = apostrophe # v"
      by (auto split: if_splits)
    moreover have "length t + length rest = length r" using dr by (metis add_Suc_right length_Cons length_append nat.inject)
    ultimately show ?thesis using ps_unquote_shorter [of r v rest] by simp
  next
    case False
    then show ?thesis using Cons by auto
  qed
qed simp

definition write_json_prefix :: "string \<Rightarrow> string" where
  "write_json_prefix p = ''$d = '' @ sq @ parent_dir p @ sq
     @ ''; New-Item -ItemType Directory -Force -Path $d | Out-Null; $tmp = '' @ sq @ p @ ''.tmp'' @ sq
     @ ''; [System.IO.File]::WriteAllText($tmp, ''"

definition write_json_suffix :: "string \<Rightarrow> string" where
  "write_json_suffix p = '', (New-Object System.Text.UTF8Encoding($false))); Move-Item -Force $tmp '' @ sq @ p @ sq"

lemma write_json_text_parts:
  "write_json_text p obj = write_json_prefix p @ apostrophe # json_dumps obj @ apostrophe # write_json_suffix p"
  by (simp add: write_json_text_def write_json_prefix_def write_json_suffix_def sq_def apostrophe_def)

text \<open>The document of a status file is what the unit reads back between the quotes of the script
  exactly when its JSON text holds no apostrophe: \<open>_write_unit_json\<close> does not double them, so one in a
  user name or a host name ends the literal early.\<close>

theorem unit_document_literal:
  "ps_read_lit (drop (length (write_json_prefix p)) (write_json_text p obj)) = Some (json_dumps obj, write_json_suffix p)
     \<longleftrightarrow> apostrophe \<notin> set (json_dumps obj)"
proof -
  have "quoted_rest (write_json_suffix p)" by (simp add: quoted_rest_def write_json_suffix_def apostrophe_def)
  then show ?thesis
    using ps_unquote_plain ps_unquote_quoted by (auto simp: write_json_text_parts ps_read_lit_def)
qed

end
