(* ===== verification/Fleet_Record.thy ===== *)
theory Fleet_Record
  imports Transport_Text
begin

text \<open>
  What \<open>src/tools/fleet-drift-report.py\<close> knows of one unit, and how it reads it from the texts the
  unit prints: the installed manifest in its two shapes, the tier-2 report, the bootstrap stamp and
  what the two live probes print between their markers.
\<close>

section \<open>Constants\<close>

definition BOOTSTRAP_PATH :: string where
  "BOOTSTRAP_PATH = ''C:'' @ [CHR 92] @ ''MAST'' @ [CHR 92] @ ''bootstrap-manifest.json''"
definition NO_MANIFEST_SENTINEL :: string where "NO_MANIFEST_SENTINEL = ''__MAST_NO_MANIFEST__''"
definition NO_BOOTSTRAP_SENTINEL :: string where "NO_BOOTSTRAP_SENTINEL = ''__MAST_NO_BOOTSTRAP__''"
definition SPLIT :: string where "SPLIT = ''====MAST-DRIFT-SPLIT====''"
definition OS_PROBE_BEGIN :: string where "OS_PROBE_BEGIN = ''====MAST-OS-PATCH-PROBE-BEGIN====''"
definition OS_PROBE_END :: string where "OS_PROBE_END = ''====MAST-OS-PATCH-PROBE-END====''"
definition SITE_PROBE_BEGIN :: string where "SITE_PROBE_BEGIN = ''====MAST-PWI4-SITE-PROBE-BEGIN====''"
definition SITE_PROBE_END :: string where "SITE_PROBE_END = ''====MAST-PWI4-SITE-PROBE-END====''"

section \<open>The record of a unit\<close>

text \<open>A value copied from a document is the JSON value it was, \<open>JNull\<close> when there is none.\<close>

record unit_record =
  ur_host :: string
  ur_status :: string
  ur_payload_hash :: json
  ur_git_sha :: json
  ur_built_at :: json
  ur_installed_at :: json
  ur_module_versions :: "(string, string) dict"
  ur_modules :: "(string, json) dict"
  ur_fully_provisioned :: json
  ur_bootstrap_version :: "int option"
  ur_bootstrapped_at :: json
  ur_repos :: "(string, (string, json) dict) dict"
  ur_facts :: "(string, (string, json) dict) dict"
  ur_validation :: "(string, string) dict"
  ur_validated_at :: json
  ur_os_probe :: json
  ur_os_probe_error :: "string option"
  ur_site_probe :: json
  ur_site_probe_error :: "string option"
  ur_error :: "string option"

definition blank_record :: "string \<Rightarrow> string \<Rightarrow> unit_record" where
  "blank_record host status =
     \<lparr>ur_host = host, ur_status = status, ur_payload_hash = JNull, ur_git_sha = JNull, ur_built_at = JNull,
      ur_installed_at = JNull, ur_module_versions = [], ur_modules = [], ur_fully_provisioned = JNull,
      ur_bootstrap_version = None, ur_bootstrapped_at = JNull, ur_repos = [], ur_facts = [],
      ur_validation = [], ur_validated_at = JNull, ur_os_probe = JNull, ur_os_probe_error = None,
      ur_site_probe = JNull, ur_site_probe_error = None, ur_error = None\<rparr>"

section \<open>The installed manifest\<close>

definition read_registry_hosts :: "string res \<Rightarrow> string list res" where
  "read_registry_hosts text =
     bind_res (load_json_file text) (\<lambda>data.
     bind_res (jiter data) (\<lambda>es.
     let hosts = concat (map (\<lambda>e. case e of
           JObj d \<Rightarrow> (if truthy (field d ''hostname'') then [strip (py_str (field d ''hostname''))] else [])
         | _ \<Rightarrow> []) es)
     in if hosts = [] then Inl ValueError else Inr hosts))"

text \<open>\<open>v.get("version", "")\<close> as text.\<close>

definition version_text :: "(string, json) dict \<Rightarrow> string" where
  "version_text d = (case map_of d ''version'' of None \<Rightarrow> [] | Some v \<Rightarrow> py_str v)"

definition dict_entries :: "(string, json) dict \<Rightarrow> (string \<times> (string, json) dict) list" where
  "dict_entries d = concat (map (\<lambda>(k, v). case v of JObj e \<Rightarrow> [(k, e)] | _ \<Rightarrow> []) d)"

text \<open>The versions of the cumulative map, and of the legacy one when that gives none.\<close>

definition versions_of :: "(string, json) dict \<Rightarrow> json \<Rightarrow> (string, string) dict res" where
  "versions_of modules legacy =
     (let mv = map (\<lambda>(k, e). (k, version_text e)) (dict_entries modules)
      in if mv \<noteq> [] then Inr mv
         else (case jor legacy (JObj []) of
                 JObj d \<Rightarrow> Inr (map (\<lambda>(k, v). (k, py_str v)) d)
               | _ \<Rightarrow> Inl AttributeError))"

fun repo_rows :: "json list \<Rightarrow> (string, (string, json) dict) dict \<Rightarrow> (string, (string, json) dict) dict" where
  "repo_rows [] acc = acc"
| "repo_rows (r # rs) acc =
     repo_rows rs (case r of
         JObj d \<Rightarrow> (if truthy (field d ''dir'') then dict_set (py_str (field d ''dir'')) d acc else acc)
       | _ \<Rightarrow> acc)"

definition facts_of :: "(string, json) dict \<Rightarrow> (string, (string, json) dict) dict" where
  "facts_of modules =
     concat (map (\<lambda>(name, e). case field e ''facts'' of JObj b \<Rightarrow> (if b = [] then [] else [(name, b)]) | _ \<Rightarrow> [])
       (dict_entries modules))"

definition manifest_from_obj :: "string \<Rightarrow> json \<Rightarrow> unit_record res" where
  "manifest_from_obj host obj =
     bind_res (jget obj ''modules'') (\<lambda>m.
     let modules = (case jor m (JObj []) of JObj d \<Rightarrow> d | _ \<Rightarrow> []);
         doc = (case obj of JObj d \<Rightarrow> d | _ \<Rightarrow> [])
     in bind_res (versions_of modules (field doc ''module_versions'')) (\<lambda>mv.
        Inr ((blank_record host ''ok'')\<lparr>
          ur_payload_hash := field doc ''payload_hash'', ur_git_sha := field doc ''git_sha'',
          ur_built_at := field doc ''built_at'', ur_installed_at := field doc ''installed_at'',
          ur_module_versions := mv, ur_modules := modules,
          ur_repos := (case field doc ''repos'' of JList rs \<Rightarrow> repo_rows rs [] | _ \<Rightarrow> []),
          ur_facts := facts_of modules, ur_fully_provisioned := field doc ''fully_provisioned''\<rparr>)))"

section \<open>The tier-2 report and the bootstrap stamp\<close>

definition parse_validation :: "string \<Rightarrow> ((string, string) dict \<times> json) res" where
  "parse_validation part =
     (if strip part = [] then Inr ([], JNull)
      else
        (case json_loads (strip part) of
           Inl e \<Rightarrow> if e = JSONDecodeError then Inr ([], JNull) else Inl e
         | Inr obj \<Rightarrow>
             bind_res (jget obj ''modules'') (\<lambda>m.
             case jor m (JObj []) of
               JObj d \<Rightarrow> bind_res (jget obj ''checked_at'') (\<lambda>c. Inr (map (\<lambda>(k, v). (k, py_str v)) d, c))
             | _ \<Rightarrow> Inr ([], JNull))))"

text \<open>\<open>int(v)\<close>; the value of a float is what \<open>trunc\<close> says of its text.\<close>

fun json_int :: "(string \<Rightarrow> int res) \<Rightarrow> json \<Rightarrow> int res" where
  "json_int trunc (JInt i) = Inr i"
| "json_int trunc (JBool b) = Inr (if b then 1 else 0)"
| "json_int trunc (JFloat t) = trunc t"
| "json_int trunc (JStr s) = py_int s"
| "json_int trunc _ = Inl TypeError"

definition parse_bootstrap :: "(string \<Rightarrow> int res) \<Rightarrow> string \<Rightarrow> (int option \<times> json) res" where
  "parse_bootstrap trunc part =
     (if strip part = [] \<or> contains NO_BOOTSTRAP_SENTINEL (strip part) then Inr (None, JNull)
      else
        (case bind_res (json_loads (strip part)) (\<lambda>obj.
              bind_res (jget obj ''bootstrap_version'') (\<lambda>bv.
              bind_res (if bv \<noteq> JNull then bind_res (json_int trunc bv) (\<lambda>i. Inr (Some i)) else Inr None) (\<lambda>v.
              bind_res (jget obj ''bootstrapped_at'') (\<lambda>at. Inr (v, at))))) of
           Inl e \<Rightarrow> if e \<in> {JSONDecodeError, ValueError, TypeError} then Inr (None, JNull) else Inl e
         | Inr r \<Rightarrow> Inr r))"

section \<open>The probes\<close>

definition first_chars :: "nat \<Rightarrow> string \<Rightarrow> string" where
  "first_chars n s = take n (strip s)"

definition between_markers :: "string \<Rightarrow> string \<Rightarrow> string \<Rightarrow> string \<Rightarrow> json res" where
  "between_markers out begin_mark end_mark what =
     (case partition_str begin_mark out of (_, begun, rest) \<Rightarrow>
      case partition_str end_mark rest of (body, ended, _) \<Rightarrow>
        if begun \<noteq> [] \<and> ended \<noteq> [] then json_loads body
        else Inl (UserError ''ValueError''
               (''no '' @ what @ '' output between markers: '' @ repr_str (first_chars 300 out))))"

definition parse_os_probe :: "string \<Rightarrow> json res" where
  "parse_os_probe out = between_markers out OS_PROBE_BEGIN OS_PROBE_END ''OS probe''"

definition parse_site_probe :: "string \<Rightarrow> json res" where
  "parse_site_probe out = between_markers out SITE_PROBE_BEGIN SITE_PROBE_END ''PWI4 site probe''"

section \<open>The verdict on the site\<close>

datatype site_verdict =
  Aligned | NoModel | ModelUnreadable | ModelOrphaned | ConfigDrift | NoCfg | NoConfig

fun verdict_text :: "site_verdict \<Rightarrow> string" where
  "verdict_text Aligned = ''aligned''"
| "verdict_text NoModel = ''aligned, no model''"
| "verdict_text ModelUnreadable = ''aligned, model site unreadable''"
| "verdict_text ModelOrphaned = ''MODEL ORPHANED''"
| "verdict_text ConfigDrift = ''PWI4.cfg DRIFT''"
| "verdict_text NoCfg = ''no PWI4.cfg''"
| "verdict_text NoConfig = ''no config.toml''"

definition site_verdict :: "json \<Rightarrow> site_verdict res" where
  "site_verdict probe =
     bind_res (jindex probe ''config'') (\<lambda>config. if config = JNull then Inr NoConfig else
     bind_res (jindex probe ''cfg'') (\<lambda>cfg. if cfg = JNull then Inr NoCfg else
     bind_res (jindex probe ''cfg_matches_config'') (\<lambda>cm. if \<not> truthy cm then Inr ConfigDrift else
     bind_res (jindex probe ''model_present'') (\<lambda>present. if \<not> truthy present then Inr NoModel else
     bind_res (jindex probe ''model'') (\<lambda>model. if model = JNull then Inr ModelUnreadable else
     bind_res (jindex probe ''model_matches_config'') (\<lambda>mm.
       Inr (if \<not> truthy mm then ModelOrphaned else Aligned)))))))"

end
