(* ===== verification/Transport_Encode.thy ===== *)
theory Transport_Encode
  imports Transport_Text
begin

text \<open>
  What \<open>src/server/prov/transport.py\<close> puts on the wire: UTF-8, UTF-16LE and base64, the size of an
  inline command, the minified script, the chunks of an upload; and the texts it derives from
  what comes back: the accounts to try and the one-line error of a WinRM answer.
\<close>

section \<open>Encodings\<close>

text \<open>A byte is a character with its code. The source's texts are Latin-1 here, so a character is
  one UTF-16 unit and at most two UTF-8 bytes.\<close>

definition utf16_le :: "string \<Rightarrow> string" where
  "utf16_le s = concat (map (\<lambda>c. [c, char_of (0 :: nat)]) s)"

definition utf8_char :: "char \<Rightarrow> string" where
  "utf8_char c = (if code c < 128 then [c] else [char_of (192 + code c div 64), char_of (128 + code c mod 64)])"

definition utf8 :: "string \<Rightarrow> string" where
  "utf8 s = concat (map utf8_char s)"

definition b64_char :: "nat \<Rightarrow> char" where
  "b64_char n = (if n < 26 then char_of (65 + n) else if n < 52 then char_of (71 + n)
     else if n < 62 then char_of (n - 4) else if n = 62 then CHR ''+'' else CHR ''/'')"

fun b64encode :: "string \<Rightarrow> string" where
  "b64encode [] = []"
| "b64encode [a] = [b64_char (code a div 4), b64_char (code a mod 4 * 16), CHR ''='', CHR ''='']"
| "b64encode [a, b] = [b64_char (code a div 4), b64_char (code a mod 4 * 16 + code b div 16),
     b64_char (code b mod 16 * 4), CHR ''='']"
| "b64encode (a # b # c # s) = b64_char (code a div 4) # b64_char (code a mod 4 * 16 + code b div 16)
     # b64_char (code b mod 16 * 4 + code c div 64) # b64_char (code c mod 64) # b64encode s"

text \<open>What \<open>[Convert]::FromBase64String\<close> of the unit reads back.\<close>

definition b64_val :: "char \<Rightarrow> nat" where
  "b64_val c = (let n = code c in
     if 65 \<le> n \<and> n \<le> 90 then n - 65 else if 97 \<le> n \<and> n \<le> 122 then n - 71
     else if 48 \<le> n \<and> n \<le> 57 then n + 4 else if n = 43 then 62 else 63)"

fun b64decode :: "string \<Rightarrow> string option" where
  "b64decode [] = Some []"
| "b64decode (p # q # r # t # s) =
     (let x = b64_val p; y = b64_val q; z = b64_val r; w = b64_val t in
      if t = CHR ''='' then
        (if s \<noteq> [] then None
         else if r = CHR ''='' then Some [char_of (x * 4 + y div 16)]
         else Some [char_of (x * 4 + y div 16), char_of (y mod 16 * 16 + z div 4)])
      else map_option (\<lambda>u. char_of (x * 4 + y div 16) # char_of (y mod 16 * 16 + z div 4)
                              # char_of (z mod 4 * 64 + w) # u) (b64decode s))"
| "b64decode _ = None"

lemma code_bound [simp]: "code c < 256"
  by (simp add: code_def)

lemma char_of_code_eq [simp]: "char_of (code c) = c"
  by (simp add: code_def)

lemma code_char_of: "n < 256 \<Longrightarrow> code (char_of n) = n"
  by (simp add: code_def)

lemma b64_char_code:
  assumes "n < 64"
  shows "code (b64_char n) = (if n < 26 then 65 + n else if n < 52 then 71 + n else if n < 62 then n - 4
    else if n = 62 then 43 else 47)"
  using assms by (auto simp: b64_char_def code_char_of) (simp_all add: code_def)

lemma b64_val_char: "n < 64 \<Longrightarrow> b64_val (b64_char n) = n"
  by (auto simp: b64_val_def b64_char_code Let_def)

lemma b64_char_plain: "n < 64 \<Longrightarrow> b64_char n \<noteq> CHR ''='' \<and> b64_char n \<noteq> apostrophe"
proof -
  assume n: "n < 64"
  have "code (CHR ''='') = 61" "code apostrophe = 39" by (simp_all add: code_def apostrophe_def)
  then show ?thesis using b64_char_code [OF n] n by (auto split: if_splits)
qed

lemma b64_bounds [simp]:
  "code a div 4 < 64" "code a mod 4 * 16 < 64" "code b mod 16 * 4 < 64" "code c mod 64 < 64"
  "code a mod 4 * 16 + code b div 16 < 64" "code b mod 16 * 4 + code c div 64 < 64"
  using code_bound [of a] code_bound [of b] code_bound [of c] by linarith+

lemma b64_pieces [simp]:
  "code a + code b div 16 div 16 = code a"
  "code b div 16 mod 16 * 16 + code b mod 16 = code b"
  "code b div 16 mod 16 * 16 + (code b mod 16 + code c div 64 div 4) = code b"
  "code c div 64 mod 4 * 64 + code c mod 64 = code c"
proof -
  have "code b div 16 < 16" "code c div 64 < 4"
    using code_bound [of b] code_bound [of c] by (simp_all add: div_less_iff_less_mult)
  then show "code a + code b div 16 div 16 = code a"
    and "code b div 16 mod 16 * 16 + code b mod 16 = code b"
    and "code b div 16 mod 16 * 16 + (code b mod 16 + code c div 64 div 4) = code b"
    and "code c div 64 mod 4 * 64 + code c mod 64 = code c"
    by simp_all
qed

lemma b64_round_trip: "b64decode (b64encode s) = Some s"
  by (induction s rule: b64encode.induct) (simp_all add: b64_val_char b64_char_plain Let_def)

lemma length_b64encode: "length (b64encode s) = 4 * ((length s + 2) div 3)"
proof (induction s rule: b64encode.induct)
  case (4 a b c s)
  have "n + 5 = n + 2 + 3" for n :: nat by simp
  then have "(n + 5) div 3 = (n + 2) div 3 + 1" for n :: nat by (metis div_add_self2 zero_neq_numeral)
  then show ?case using 4 by (simp add: add.commute)
qed simp_all

lemma b64_char_apostrophe [simp]: "n < 64 \<Longrightarrow> apostrophe \<noteq> b64_char n"
  using b64_char_plain by metis

lemma b64encode_plain: "apostrophe \<notin> set (b64encode s)"
  by (induction s rule: b64encode.induct) (simp_all, simp_all add: apostrophe_def)

lemma length_utf16_le: "length (utf16_le s) = 2 * length s"
  by (induction s) (simp_all add: utf16_le_def)

section \<open>Inline commands\<close>

definition winrm_encoded_cmd_len :: "string \<Rightarrow> nat" where
  "winrm_encoded_cmd_len script = length (b64encode (utf16_le script))"

definition assert_inline_dispatchable :: "string \<Rightarrow> unit res" where
  "assert_inline_dispatchable script =
     (if winrm_encoded_cmd_len script > WINRM_ENCODED_CMD_MAX then Inl ValueError else Inr ())"

definition ssh_command :: "string \<Rightarrow> string" where
  "ssh_command script =
     ''powershell.exe -NoProfile -NonInteractive -ExecutionPolicy Bypass -EncodedCommand ''
     @ b64encode (utf16_le script)"

definition winrm_command :: "string \<Rightarrow> string" where
  "winrm_command script = ''powershell -encodedcommand '' @ b64encode (utf16_le script)"

lemma winrm_encoded_cmd_len_eq: "winrm_encoded_cmd_len script = 4 * ((2 * length script + 2) div 3)"
  by (simp add: winrm_encoded_cmd_len_def length_b64encode length_utf16_le)

lemma encoded_len_le: "4 * m \<le> 8000 \<longleftrightarrow> m < (2001 :: nat)"
  by linarith

lemma dispatchable_iff: "assert_inline_dispatchable script = Inr () \<longleftrightarrow> length script \<le> 3000"
proof -
  have "(2 * n + 2) div 3 < 2001 \<longleftrightarrow> n \<le> 3000" for n :: nat
    by (simp only: div_less_iff_less_mult zero_less_numeral) linarith
  then have "4 * ((2 * n + 2) div 3) \<le> 8000 \<longleftrightarrow> n \<le> 3000" for n :: nat by (metis encoded_len_le)
  then show ?thesis
    by (simp add: assert_inline_dispatchable_def winrm_encoded_cmd_len_eq WINRM_ENCODED_CMD_MAX_def not_le[symmetric])
qed

text \<open>A script passes the inline check exactly when it has at most 3000 characters; then the
  command line either transport sends stays within the 8191 characters of \<open>cmd.exe\<close>, and it
  decodes to the script again.\<close>

theorem inline_command_fits:
  "(assert_inline_dispatchable script = Inr ()) = (length script \<le> 3000)
   \<and> (if length script \<le> 3000 then length (ssh_command script) \<le> 8191 \<and> length (winrm_command script) \<le> 8191
      else winrm_encoded_cmd_len script > 8000)
   \<and> b64decode (drop 82 (ssh_command script)) = Some (utf16_le script)"
proof -
  have "length script \<le> 3000 \<longleftrightarrow> length (b64encode (utf16_le script)) \<le> 8000"
    using dispatchable_iff [of script]
    by (simp add: assert_inline_dispatchable_def winrm_encoded_cmd_len_def WINRM_ENCODED_CMD_MAX_def split: if_splits)
  then show ?thesis
    using dispatchable_iff [of script]
    by (auto simp: ssh_command_def winrm_command_def winrm_encoded_cmd_len_def b64_round_trip)
qed

section \<open>Minified scripts\<close>

text \<open>What follows the first \<open>#>\<close>; and the text without its block comments, an unclosed one kept.\<close>

fun after_close :: "string \<Rightarrow> string option" where
  "after_close (a # b # s) = (if a = CHR ''#'' \<and> b = CHR ''>'' then Some s else after_close (b # s))"
| "after_close _ = None"

lemma after_close_shorter: "after_close s = Some r \<Longrightarrow> length r < length s"
  by (induction s arbitrary: r rule: after_close.induct) (auto split: if_splits intro: less_trans)

function (sequential) strip_blocks :: "string \<Rightarrow> string" where
  "strip_blocks [] = []"
| "strip_blocks (c # s) =
     (if startswith ''<#'' (c # s)
      then (case after_close (drop 1 s) of None \<Rightarrow> c # strip_blocks s | Some r \<Rightarrow> strip_blocks r)
      else c # strip_blocks s)"
  by pat_completeness auto
termination
  by (relation "measure length")
     (auto dest!: after_close_shorter)

definition minify_ps :: "string \<Rightarrow> string" where
  "minify_ps raw =
     join [CHR 10] (filter (\<lambda>l. \<not> (l = [] \<or> startswith ''#'' l)) (map strip (splitlines (strip_blocks raw))))"

section \<open>Uploads\<close>

function (sequential) chunks_of :: "nat \<Rightarrow> 'a list \<Rightarrow> 'a list list" where
  "chunks_of 0 xs = []"
| "chunks_of n [] = []"
| "chunks_of n xs = take n xs # chunks_of n (drop n xs)"
  by pat_completeness auto
termination by (relation "measure (\<lambda>(n, xs). length xs)") auto

definition upload_chunk_size :: nat where "upload_chunk_size = 10000"

text \<open>The script of \<open>upload_file_b64\<close>.\<close>

definition upload_script :: "string \<Rightarrow> string \<Rightarrow> string \<Rightarrow> string" where
  "upload_script remote_path content label =
     join [CHR 10]
      ([''$chunks = @()'']
       @ map (\<lambda>chunk. ''$chunks += '' @ [apostrophe] @ chunk @ [apostrophe])
           (chunks_of upload_chunk_size (b64encode (utf8 content)))
       @ [''$b64 = [string]::Join('' @ [apostrophe, apostrophe] @ '', $chunks)'',
          ''$bytes = [Convert]::FromBase64String($b64)'',
          ''[System.IO.File]::WriteAllBytes('' @ [apostrophe] @ ps_escape remote_path @ [apostrophe] @ '', $bytes)'',
          ''Write-Host '' @ [apostrophe] @ ''Wrote '' @ ps_escape label @ '' ('' @ nat_str (length content)
            @ '' chars)'' @ [apostrophe]])"

lemma concat_chunks_of: "0 < n \<Longrightarrow> concat (chunks_of n xs) = xs"
  by (induction n xs rule: chunks_of.induct) auto

lemma chunks_of_size: "c \<in> set (chunks_of n xs) \<Longrightarrow> length c \<le> n \<and> set c \<subseteq> set xs"
proof (induction n xs rule: chunks_of.induct)
  case (3 n x xs)
  then show ?case
    using set_take_subset [of "Suc n" "x # xs"] set_drop_subset [of "Suc n" "x # xs"] by auto
qed auto


lemma length_join_mem: "x \<in> set xs \<Longrightarrow> length x \<le> length (join sep xs)"
  by (induction sep xs rule: join.induct) auto

text \<open>An upload over WinRM is never checked against the inline limit: the script of any content of
  2250 bytes or more is one that \<open>assert_inline_dispatchable\<close> refuses.\<close>

theorem upload_over_limit:
  assumes "2250 \<le> length (utf8 content)"
  shows "assert_inline_dispatchable (upload_script remote_path content label) = Inl ValueError"
proof -
  let ?b = "b64encode (utf8 content)"
  have len: "3000 \<le> length ?b" using assms unfolding length_b64encode by linarith
  then obtain x xs where b: "?b = x # xs" by (cases ?b) auto
  have "take upload_chunk_size ?b \<in> set (chunks_of upload_chunk_size ?b)"
    by (simp add: b upload_chunk_size_def numeral_eq_Suc)
  then have "''$chunks += '' @ [apostrophe] @ take upload_chunk_size ?b @ [apostrophe]
      \<in> (\<lambda>chunk. ''$chunks += '' @ [apostrophe] @ chunk @ [apostrophe]) ` set (chunks_of upload_chunk_size ?b)"
    by (rule imageI)
  then have "length (''$chunks += '' @ [apostrophe] @ take upload_chunk_size ?b @ [apostrophe])
      \<le> length (upload_script remote_path content label)"
    unfolding upload_script_def by (intro length_join_mem) (simp only: set_append set_map Un_iff simp_thms)
  then have "3000 < length (upload_script remote_path content label)"
    using len by (simp add: upload_chunk_size_def)
  then show ?thesis
    using dispatchable_iff [of "upload_script remote_path content label"]
    by (auto simp: assert_inline_dispatchable_def split: if_splits)
qed

lemma upload_over_limit_witness:
  "assert_inline_dispatchable (upload_script ''C:/x.ps1'' (replicate 2250 CHR ''a'') ''script'') = Inl ValueError"
proof -
  have "utf8 (replicate n CHR ''a'') = replicate n CHR ''a''" for n
    by (induction n) (simp_all add: utf8_def utf8_char_def code_def)
  then show ?thesis by (intro upload_over_limit) simp
qed

end
