(* ===== verification/Os_Feed.thy ===== *)
theory Os_Feed
  imports Transport_Encode Json_Round_Trip
begin

text \<open>
  What \<open>server/prov/os_updates.py\<close> reads: the declared builds and the baselines, the MSRC release
  list and its CVRF documents, and the two pages of the Update Catalog, whose regular expressions are
  written out as matchers over the text. A value of the feed that the code uses as a string and that is
  none raises a \<open>TypeError\<close> here where the code would carry it along.
\<close>

section \<open>Declarations and baselines\<close>

datatype update_role = LCU | DOTNET

record declared_update =
  du_role :: update_role
  du_msrc_product :: string
  du_catalog_title :: string

record declared_build =
  db_build :: int
  db_edition :: string
  db_updates :: "declared_update list"

record os_builds =
  ob_comment :: "string list"
  ob_builds :: "declared_build list"

record baseline_file =
  bf_role :: update_role
  bf_kb :: string
  bf_fixed_build :: string
  bf_catalog_update_id :: string
  bf_url :: string
  bf_filename :: string
  bf_path :: string
  bf_sha1 :: string
  bf_sha256 :: string
  bf_size :: int

record baseline =
  bl_baseline_id :: string
  bl_build :: int
  bl_target_ubr :: int
  bl_msrc_release :: string
  bl_msrc_release_date :: string
  bl_proposed_utc :: string
  bl_files :: "baseline_file list"

definition OS_BUILDS :: string where "OS_BUILDS = ''server/data/os-builds.json''"
definition BASELINES_DIR :: string where "BASELINES_DIR = ''server/data/os-baselines''"
definition ASSET_PREFIX :: string where "ASSET_PREFIX = ''server/providers/windows-updates/assets''"

definition OsUpdatesError :: "string \<Rightarrow> pyexc" where
  "OsUpdatesError m = UserError ''OsUpdatesError'' m"

definition NotInCatalogError :: "string \<Rightarrow> pyexc" where
  "NotInCatalogError m = UserError ''NotInCatalogError'' m"

text \<open>\<open>except OsUpdatesError\<close>, which its subclass passes too.\<close>

definition is_os_updates_error :: "pyexc \<Rightarrow> bool" where
  "is_os_updates_error e \<longleftrightarrow> exc_name e \<in> {''OsUpdatesError'', ''NotInCatalogError''}"

definition get_build :: "os_builds \<Rightarrow> int \<Rightarrow> declared_build res" where
  "get_build builds build =
     (case find (\<lambda>b. db_build b = build) (ob_builds builds) of
        Some b \<Rightarrow> Inr b
      | None \<Rightarrow> Inl (OsUpdatesError (''build '' @ int_str build @ '' is not declared in '' @ OS_BUILDS)))"

fun role_str :: "update_role \<Rightarrow> string" where
  "role_str LCU = ''lcu''"
| "role_str DOTNET = ''dotnet''"

text \<open>\<open>model_dump(mode="json")\<close>: the declared fields in their order.\<close>

definition file_json :: "baseline_file \<Rightarrow> json" where
  "file_json f = JObj [(''role'', JStr (role_str (bf_role f))), (''kb'', JStr (bf_kb f)),
     (''fixed_build'', JStr (bf_fixed_build f)), (''catalog_update_id'', JStr (bf_catalog_update_id f)),
     (''url'', JStr (bf_url f)), (''filename'', JStr (bf_filename f)), (''path'', JStr (bf_path f)),
     (''sha1'', JStr (bf_sha1 f)), (''sha256'', JStr (bf_sha256 f)), (''size'', JInt (bf_size f))]"

definition baseline_fields :: "baseline \<Rightarrow> (string, json) dict" where
  "baseline_fields b = [(''baseline_id'', JStr (bl_baseline_id b)), (''build'', JInt (bl_build b)),
     (''target_ubr'', JInt (bl_target_ubr b)), (''msrc_release'', JStr (bl_msrc_release b)),
     (''msrc_release_date'', JStr (bl_msrc_release_date b)), (''proposed_utc'', JStr (bl_proposed_utc b)),
     (''files'', JList (map file_json (bl_files b)))]"

lemma wf_baseline: "wf_json (JObj (baseline_fields b))"
  by (simp add: baseline_fields_def file_json_def list_all_iff)

section \<open>The MSRC feed\<close>

record msrc_release =
  mr_release_id :: string
  mr_initial_release_date :: string
  mr_cvrf_url :: string

record msrc_fix =
  mf_kb :: string
  mf_fixed_build :: string

definition VENDOR_FIX :: int where "VENDOR_FIX = 2"

definition release_of :: "json \<Rightarrow> msrc_release res" where
  "release_of r =
     bind_res (entry_str r ''ID'') (\<lambda>i. bind_res (entry_str r ''InitialReleaseDate'') (\<lambda>d.
     bind_res (entry_str r ''CvrfUrl'') (\<lambda>u.
       Inr \<lparr>mr_release_id = i, mr_initial_release_date = d, mr_cvrf_url = u\<rparr>)))"

definition release_list :: "json \<Rightarrow> json list res" where
  "release_list doc = bind_res (jget doc ''value'') (\<lambda>v. jiter (jor v (JList [])))"

text \<open>\<open>max(xs, key=f)\<close>: the first of the greatest.\<close>

fun max_by :: "('a \<Rightarrow> 'b::linorder) \<Rightarrow> 'a \<Rightarrow> 'a list \<Rightarrow> 'a" where
  "max_by f best [] = best"
| "max_by f best (x # xs) = max_by f (if f best < f x then x else best) xs"

definition latest_release :: "json \<Rightarrow> msrc_release res" where
  "latest_release doc =
     bind_res (release_list doc) (\<lambda>releases.
       if releases = [] then Inl (OsUpdatesError ''MSRC lists no releases'')
       else bind_res (map_res (\<lambda>r. bind_res (entry_str r ''InitialReleaseDate'') (\<lambda>d. Inr (d, r))) releases) (\<lambda>dated.
            release_of (snd (max_by fst (hd dated) (tl dated)))))"

fun find_release :: "string \<Rightarrow> json list \<Rightarrow> msrc_release option res" where
  "find_release release_id [] = Inr None"
| "find_release release_id (r # rs) =
     bind_res (jindex r ''ID'') (\<lambda>i.
       if i = JStr release_id then bind_res (release_of r) (\<lambda>m. Inr (Some m)) else find_release release_id rs)"

definition release_by_id :: "json \<Rightarrow> string \<Rightarrow> msrc_release res" where
  "release_by_id doc release_id =
     bind_res (release_list doc) (\<lambda>releases.
     bind_res (find_release release_id releases) (\<lambda>found.
       case found of
         Some m \<Rightarrow> Inr m
       | None \<Rightarrow> Inl (OsUpdatesError (''MSRC has no release '' @ repr_str release_id))))"

text \<open>Members of a set: a list or a dict is not hashable.\<close>

definition hashable :: "json \<Rightarrow> json res" where
  "hashable v = (case v of JList xs \<Rightarrow> Inl TypeError | JObj d \<Rightarrow> Inl TypeError | _ \<Rightarrow> Inr v)"

fun product_ids :: "string \<Rightarrow> json list \<Rightarrow> json list res" where
  "product_ids product [] = Inr []"
| "product_ids product (p # ps) =
     bind_res (jindex p ''Value'') (\<lambda>v.
       if v = JStr product
       then bind_res (jindex p ''ProductID'') (\<lambda>i. bind_res (hashable i) (\<lambda>i. bind_res (product_ids product ps) (\<lambda>is. Inr (i # is))))
       else product_ids product ps)"

text \<open>\<open>str.isdigit()\<close>: a superscript counts.\<close>

definition isdigit :: "string \<Rightarrow> bool" where
  "isdigit s \<longleftrightarrow> s \<noteq> [] \<and> list_all (\<lambda>c. is_digit c \<or> code c \<in> {178, 179, 185}) s"

definition remediation_fix :: "json list \<Rightarrow> json \<Rightarrow> msrc_fix option res" where
  "remediation_fix ids rem =
     bind_res (jget rem ''Type'') (\<lambda>t.
       if t \<noteq> JInt VENDOR_FIX \<and> t \<noteq> JFloat ''2.0'' then Inr None
       else bind_res (jget rem ''ProductID'') (\<lambda>pids.
            bind_res (jiter (jor pids (JList []))) (\<lambda>mine.
            bind_res (map_res hashable mine) (\<lambda>mine.
              if set ids \<inter> set mine = {} then Inr None
              else bind_res (jget rem ''Description'') (\<lambda>desc.
                   bind_res (jget_default (jor desc (JObj [])) ''Value'' (JStr [])) (\<lambda>kb.
                     case kb of
                       JStr kb \<Rightarrow>
                         (if \<not> isdigit kb then Inr None
                          else bind_res (jget rem ''FixedBuild'') (\<lambda>fb.
                               case jor fb (JStr []) of
                                 JStr fixed \<Rightarrow> Inr (Some \<lparr>mf_kb = kb, mf_fixed_build = fixed\<rparr>)
                               | _ \<Rightarrow> Inl TypeError))
                     | _ \<Rightarrow> Inl AttributeError))))))"

fun somes :: "'a option list \<Rightarrow> 'a list" where
  "somes [] = []"
| "somes (None # xs) = somes xs"
| "somes (Some x # xs) = x # somes xs"

definition vulnerability_fixes :: "json list \<Rightarrow> json \<Rightarrow> msrc_fix list res" where
  "vulnerability_fixes ids vuln =
     bind_res (jget vuln ''Remediations'') (\<lambda>rems.
     bind_res (jiter (jor rems (JList []))) (\<lambda>rems.
     bind_res (map_res (remediation_fix ids) rems) (\<lambda>fs. Inr (somes fs))))"

text \<open>The name the error message reads off the document, which may itself be missing.\<close>

definition document_id :: "json \<Rightarrow> json res" where
  "document_id cvrf =
     bind_res (jindex cvrf ''DocumentTracking'') (\<lambda>t. bind_res (jindex t ''Identification'') (\<lambda>i.
     bind_res (jindex i ''ID'') (\<lambda>d. jindex d ''Value'')))"

definition fix_for_product :: "json \<Rightarrow> string \<Rightarrow> msrc_fix res" where
  "fix_for_product cvrf product =
     bind_res (jindex cvrf ''ProductTree'') (\<lambda>tree.
     bind_res (jindex tree ''FullProductName'') (\<lambda>names.
     bind_res (jiter names) (\<lambda>names.
     bind_res (product_ids product names) (\<lambda>ids.
       if ids = []
       then bind_res (document_id cvrf) (\<lambda>rel.
              Inl (OsUpdatesError (''product '' @ repr_str product @ '' is not in MSRC release '' @ py_str rel)))
       else bind_res (jget cvrf ''Vulnerability'') (\<lambda>vulns.
            bind_res (jiter (jor vulns (JList []))) (\<lambda>vulns.
            bind_res (map_res (vulnerability_fixes ids) vulns) (\<lambda>found.
              case remdups (concat found) of
                [fix] \<Rightarrow> Inr fix
              | fixes \<Rightarrow> Inl (OsUpdatesError (''expected one fix for '' @ repr_str product @ '', found ''
                  @ (if fixes = [] then ''none'' else py_repr (JList (map JStr (sort (map mf_kb fixes))))))))))))))"

text \<open>\<open>^10\.0\.(\d+)\.(\d+)$\<close>: \<open>$\<close> also matches before a final line feed.\<close>

definition chomp :: "string \<Rightarrow> string" where
  "chomp s = (if s \<noteq> [] \<and> last s = CHR 10 then butlast s else s)"

definition fixed_build_parts :: "string \<Rightarrow> (int \<times> int) option" where
  "fixed_build_parts s =
     (case split_on (CHR ''.'') (chomp s) of
        [ten, zero, build, ubr] \<Rightarrow>
          (if ten = ''10'' \<and> zero = ''0'' \<and> all_digits build \<and> all_digits ubr
           then Some (int (digits_val build), int (digits_val ubr)) else None)
      | _ \<Rightarrow> None)"

definition target_ubr :: "msrc_fix \<Rightarrow> int \<Rightarrow> int res" where
  "target_ubr fix build =
     (case fixed_build_parts (mf_fixed_build fix) of
        Some (b, ubr) \<Rightarrow>
          (if b = build then Inr ubr
           else Inl (OsUpdatesError (''KB'' @ mf_kb fix @ '' fixes to '' @ repr_str (mf_fixed_build fix)
                  @ '', not a 10.0.'' @ int_str build @ ''.UBR build'')))
      | None \<Rightarrow> Inl (OsUpdatesError (''KB'' @ mf_kb fix @ '' fixes to '' @ repr_str (mf_fixed_build fix)
                  @ '', not a 10.0.'' @ int_str build @ ''.UBR build'')))"

section \<open>The Update Catalog\<close>

record catalog_row =
  cr_update_id :: string
  cr_title :: string

record catalog_file =
  cf_url :: string
  cf_filename :: string
  cf_sha1 :: string

text \<open>\<open>finditer\<close>: the matches from left to right, none overlapping; a matcher gives the groups
  and the text after the match.\<close>

function find_iter :: "(string \<Rightarrow> ('a \<times> string) option) \<Rightarrow> string \<Rightarrow> 'a list" where
  "find_iter m [] = []"
| "find_iter m (c # s) =
     (case m (c # s) of
        Some (g, rest) \<Rightarrow> g # (if length rest < length (c # s) then find_iter m rest else find_iter m s)
      | None \<Rightarrow> find_iter m s)"
  by pat_completeness auto
termination by (relation "measure (\<lambda>(m, s). length s)") auto

definition take_prefix :: "string \<Rightarrow> string \<Rightarrow> string option" where
  "take_prefix p s = (if startswith p s then Some (drop (length p) s) else None)"

text \<open>\<open>[0-9a-f]{8}-[0-9a-f]{4}-[0-9a-f]{4}-[0-9a-f]{4}-[0-9a-f]{12}\<close>.\<close>

definition lower_hex :: "char \<Rightarrow> bool" where
  "lower_hex c \<longleftrightarrow> is_digit c \<or> (97 \<le> code c \<and> code c \<le> 102)"

definition is_uuid :: "string \<Rightarrow> bool" where
  "is_uuid s \<longleftrightarrow> map length (split_on (CHR ''-'') s) = [8, 4, 4, 4, 12]
     \<and> list_all (\<lambda>c. c = CHR ''-'' \<or> lower_hex c) s"

definition match_row :: "string \<Rightarrow> (catalog_row \<times> string) option" where
  "match_row s =
     (if is_uuid (take 36 s) then
        Option.bind (take_prefix (''_link'' @ [CHR 39]) (drop 36 s)) (\<lambda>attrs.
        Option.bind (take_prefix ''>'' (dropWhile (\<lambda>c. c \<noteq> CHR ''>'') attrs)) (\<lambda>text.
        Option.bind (take_prefix ''</a>'' (dropWhile (\<lambda>c. c \<noteq> CHR ''<'') text)) (\<lambda>rest.
          Some (\<lparr>cr_update_id = take 36 s, cr_title = strip (takeWhile (\<lambda>c. c \<noteq> CHR ''<'') text)\<rparr>, rest))))
      else None)"

definition no_results :: string where
  "no_results = ''id='' @ [CHR 34] @ ''ctl00_catalogBody_noResultText'' @ [CHR 34]"

definition parse_catalog_search :: "string \<Rightarrow> string \<Rightarrow> catalog_row list res" where
  "parse_catalog_search html kb =
     (if contains no_results html
      then Inl (NotInCatalogError (''the Update Catalog no longer serves KB'' @ kb))
      else Inr (find_iter match_row html))"

text \<open>\<open>^\d{4}-\d{2} <title> \(KB<kb>\)$\<close>, for a \<open>kb\<close> of digits as its caller passes.\<close>

definition wanted_title :: "string \<Rightarrow> string \<Rightarrow> string \<Rightarrow> bool" where
  "wanted_title kb catalog_title title \<longleftrightarrow>
     length (take 7 title) = 7 \<and> list_all is_digit (take 4 title) \<and> title ! 4 = CHR ''-''
     \<and> list_all is_digit (take 2 (drop 5 title))
     \<and> drop 7 title \<in> {'' '' @ catalog_title @ '' (KB'' @ kb @ '')'', '' '' @ catalog_title @ '' (KB'' @ kb @ '')'' @ [CHR 10]}"

definition select_row :: "catalog_row list \<Rightarrow> string \<Rightarrow> string \<Rightarrow> catalog_row res" where
  "select_row rows kb catalog_title =
     (case filter (\<lambda>r. wanted_title kb catalog_title (cr_title r)) rows of
        [r] \<Rightarrow> Inr r
      | hits \<Rightarrow> Inl (OsUpdatesError (''expected one Catalog row '' @ [CHR 39] @ catalog_title @ '' (KB'' @ kb @ '')'' @ [CHR 39]
                  @ '', found '' @ nat_str (length hits) @ '' of '' @ nat_str (length rows))))"

text \<open>\<open>\.(url|digest|fileName) = '([^']+)'\<close>.\<close>

fun first_prefix :: "string list \<Rightarrow> string \<Rightarrow> (string \<times> string) option" where
  "first_prefix [] s = None"
| "first_prefix (p # ps) s = (if startswith p s then Some (p, drop (length p) s) else first_prefix ps s)"

definition match_dialog_field :: "string \<Rightarrow> ((string \<times> string) \<times> string) option" where
  "match_dialog_field s =
     Option.bind (take_prefix ''.'' s) (\<lambda>t.
     Option.bind (first_prefix [''url'', ''digest'', ''fileName''] t) (\<lambda>(name, u).
     Option.bind (take_prefix ('' = '' @ [CHR 39]) u) (\<lambda>v.
       let value = takeWhile (\<lambda>c. c \<noteq> CHR 39) v; rest = drop (length value) v
       in if value \<noteq> [] \<and> rest \<noteq> [] then Some ((name, value), tl rest) else None)))"

text \<open>The keys in the order they first occur.\<close>

definition remdups_first :: "'a list \<Rightarrow> 'a list" where
  "remdups_first xs = rev (remdups (rev xs))"

text \<open>\<open>base64.b64decode\<close> without validation, as \<open>binascii.a2b_base64\<close> does it: characters outside the
  alphabet are skipped, and a pad that completes a group ends the input.\<close>

definition b64_index :: "char \<Rightarrow> nat option" where
  "b64_index c = (if is_digit c \<or> (65 \<le> code c \<and> code c \<le> 90) \<or> (97 \<le> code c \<and> code c \<le> 122) \<or> c = CHR ''+'' \<or> c = CHR ''/''
     then Some (b64_val c) else None)"

fun a2b_base64 :: "nat \<Rightarrow> nat \<Rightarrow> nat \<Rightarrow> string \<Rightarrow> string res" where
  "a2b_base64 quad left pads [] = (if quad = 0 then Inr [] else Inl ValueError)"
| "a2b_base64 quad left pads (c # s) =
     (if c = CHR ''='' then
        (if 2 \<le> quad \<and> 4 \<le> quad + pads + 1 then Inr []
         else a2b_base64 quad left (if 2 \<le> quad then pads + 1 else pads) s)
      else (case b64_index c of
              None \<Rightarrow> a2b_base64 quad left pads s
            | Some v \<Rightarrow>
                (if quad = 0 then a2b_base64 1 v 0 s
                 else if quad = 1 then bind_res (a2b_base64 2 (v mod 16) 0 s) (\<lambda>r. Inr (char_of (left * 4 + v div 16) # r))
                 else if quad = 2 then bind_res (a2b_base64 3 (v mod 4) 0 s) (\<lambda>r. Inr (char_of (left * 16 + v div 4) # r))
                 else bind_res (a2b_base64 0 0 0 s) (\<lambda>r. Inr (char_of (left * 64 + v) # r)))))"

definition base64_b64decode :: "string \<Rightarrow> string res" where
  "base64_b64decode s = (if list_ex (\<lambda>c. 128 \<le> code c) s then Inl ValueError else a2b_base64 0 0 0 s)"

definition hex_of :: "string \<Rightarrow> string" where
  "hex_of bytes = concat (map (\<lambda>c. [hex_digit (code c div 16), hex_digit (code c mod 16)]) bytes)"

definition values_of :: "(string \<times> string) list \<Rightarrow> string \<Rightarrow> string list" where
  "values_of found k = map snd (filter (\<lambda>f. fst f = k) found)"

definition parse_download_dialog :: "string \<Rightarrow> catalog_file res" where
  "parse_download_dialog html =
     (let found = find_iter match_dialog_field html in
      case (values_of found ''url'', values_of found ''digest'', values_of found ''fileName'') of
        ([url], [digest], [filename]) \<Rightarrow>
          bind_res (base64_b64decode digest) (\<lambda>sha1.
            Inr \<lparr>cf_url = url, cf_filename = filename, cf_sha1 = hex_of sha1\<rparr>)
      | _ \<Rightarrow> Inl (OsUpdatesError (''expected one file in the download dialog, found ''
               @ py_repr (JObj (map (\<lambda>k. (k, JList (map JStr (values_of found k)))) (remdups_first (map fst found)))))))"

definition download_dialog_form :: "string \<Rightarrow> (string \<times> string) list" where
  "download_dialog_form update_id =
     [(''updateIDs'', json_dumps (JList [JObj [(''size'', JInt 0), (''languages'', JStr []), (''uidInfo'', JStr update_id),
        (''updateID'', JStr update_id)]]))]"

section \<open>Lemmas\<close>

lemma max_by_max: "best \<in> set xs0 \<Longrightarrow> set xs \<subseteq> set xs0 \<Longrightarrow> max_by f best xs \<in> set xs0
   \<and> f best \<le> f (max_by f best xs) \<and> (\<forall>x\<in>set xs. f x \<le> f (max_by f best xs))"
proof (induction f best xs rule: max_by.induct)
  case (2 f best x xs)
  then show ?case by (cases "f best < f x") (auto intro: order_trans less_imp_le)
qed simp

lemma set_somes [simp]: "set (somes xs) = {x. Some x \<in> set xs}"
  by (induction xs rule: somes.induct) auto

lemma hashable_Inr [dest]: "hashable v = Inr w \<Longrightarrow> w = v"
  by (cases v) (simp_all add: hashable_def)

lemma product_ids_Inr:
  "product_ids product ps = Inr ids \<Longrightarrow> i \<in> set ids \<Longrightarrow> \<exists>p\<in>set ps. jindex p ''Value'' = Inr (JStr product) \<and> jindex p ''ProductID'' = Inr i"
  by (induction ps arbitrary: ids) (fastforce simp: bind_res_Inr_iff split: if_splits)+

lemma select_row_Inr:
  "select_row rows kb t = Inr r \<Longrightarrow> r \<in> set rows \<and> wanted_title kb t (cr_title r)
     \<and> (\<forall>r'\<in>set rows. wanted_title kb t (cr_title r') \<longrightarrow> r' = r)"
proof -
  assume "select_row rows kb t = Inr r"
  then have "filter (\<lambda>r. wanted_title kb t (cr_title r)) rows = [r]"
    by (auto simp: select_row_def split: list.splits)
  then have "set (filter (\<lambda>r. wanted_title kb t (cr_title r)) rows) = {r}" by simp
  then show ?thesis by (auto simp: set_eq_iff)
qed

lemma fixed_build_parts_text:
  "fixed_build_parts (''10.0.'' @ nat_str b @ ''.'' @ nat_str u) = Some (int b, int u)"
proof -
  have d: "CHR ''.'' \<notin> set (nat_str n)" "CHR 10 \<notin> set (nat_str n)" "nat_str n \<noteq> []" for n
    using nat_str_digits [of n] by (auto simp: all_digits_def list_all_iff is_digit_def code_def)
  have "last (nat_str u) \<in> set (nat_str u)" using d(3) by (rule last_in_set)
  with d(2) have "last (nat_str u) \<noteq> CHR 10" by metis
  then have "last (''10.0.'' @ nat_str b @ ''.'' @ nat_str u) \<noteq> CHR 10" using d(3) [of u] by simp
  then have "chomp (''10.0.'' @ nat_str b @ ''.'' @ nat_str u) = ''10'' @ CHR ''.'' # ''0'' @ CHR ''.'' # nat_str b @ CHR ''.'' # nat_str u"
    by (simp add: chomp_def)
  moreover have "split_on (CHR ''.'') (''10'' @ CHR ''.'' # ''0'' @ CHR ''.'' # nat_str b @ CHR ''.'' # nat_str u)
      = [''10'', ''0'', nat_str b, nat_str u]"
    using d by (simp add: split_on_append_sep split_on_no_sep)
  ultimately show ?thesis using nat_str_digits by (simp add: fixed_build_parts_def)
qed

end
