(* ===== verification/Os_Updates.thy ===== *)
theory Os_Updates
  imports Os_Feed Local_Files
begin

text \<open>
  \<open>server/prov/os_updates.py\<close>: resolving a build's updates over HTTP, fetching them into the asset
  cache, proposing and writing a baseline, and keeping a committed one on the relay. The network is a
  parameter over the far side of the world of \<open>Relay\<close>; the digests and the validation of the two
  closed document models are parameters too.
\<close>

section \<open>HTTP\<close>

datatype http_request =
    HttpGet string "(string \<times> string) list"
  | HttpPost string string

text \<open>The pieces of a body as they are read, and what breaks the connection after them, if anything.\<close>

record http_body =
  hb_chunks :: "string list"
  hb_broken :: "pyexc option"

type_synonym 'r http = "http_request \<Rightarrow> 'r \<Rightarrow> http_body res \<times> 'r"

definition urlopen :: "'r http \<Rightarrow> http_request \<Rightarrow> ('r relay_world, http_body) eff" where
  "urlopen http req = (\<lambda>w. case http req (remote w) of (r, s) \<Rightarrow> (r, w\<lparr>remote := s\<rparr>))"

definition read_body :: "http_body \<Rightarrow> ('r relay_world, string) eff" where
  "read_body b = (case hb_broken b of Some e \<Rightarrow> raise e | None \<Rightarrow> ret (concat (hb_chunks b)))"

definition get_text :: "'r http \<Rightarrow> string \<Rightarrow> (string \<times> string) list \<Rightarrow> ('r relay_world, string) eff" where
  "get_text http url headers = bindM (urlopen http (HttpGet url headers)) read_body"

text \<open>\<open>urllib.parse.urlencode\<close> of string pairs.\<close>

definition upper_hex :: "nat \<Rightarrow> char" where
  "upper_hex n = (if n < 10 then char_of (48 + n) else char_of (55 + n))"

definition quote_char :: "char \<Rightarrow> string" where
  "quote_char c =
     (if c = CHR '' '' then ''+''
      else if is_digit c \<or> (65 \<le> code c \<and> code c \<le> 90) \<or> (97 \<le> code c \<and> code c \<le> 122) \<or> c \<in> set ''_.-~'' then [c]
      else concat (map (\<lambda>b. [CHR ''%'', upper_hex (code b div 16), upper_hex (code b mod 16)]) (utf8_char c)))"

definition urlencode :: "(string \<times> string) list \<Rightarrow> string" where
  "urlencode form = join ''&'' (map (\<lambda>(k, v). concat (map quote_char k) @ ''='' @ concat (map quote_char v)) form)"

definition post_form :: "'r http \<Rightarrow> string \<Rightarrow> (string \<times> string) list \<Rightarrow> ('r relay_world, string) eff" where
  "post_form http url form = bindM (urlopen http (HttpPost url (urlencode form))) read_body"

text \<open>The body is opened first, then the file is emptied and each piece written; an empty piece ends it.\<close>

definition download :: "'r http \<Rightarrow> string \<Rightarrow> string \<Rightarrow> ('r relay_world, unit) eff" where
  "download http url dest =
     bindM (urlopen http (HttpGet url [])) (\<lambda>b.
     let pieces = takeWhile (\<lambda>c. c \<noteq> []) (hb_chunks b) in
     seqM (write_file dest (concat pieces))
          (case hb_broken b of
             Some e \<Rightarrow> if [] \<in> set (hb_chunks b) then ret () else raise e
           | None \<Rightarrow> ret ()))"

section \<open>Resolving\<close>

definition MSRC_API :: string where "MSRC_API = ''https://api.msrc.microsoft.com/cvrf/v3.0''"
definition CATALOG :: string where "CATALOG = ''https://www.catalog.update.microsoft.com''"

definition accept_json :: "(string \<times> string) list" where
  "accept_json = [(''Accept'', ''application/json'')]"

record resolved =
  rs_role :: update_role
  rs_fix :: msrc_fix
  rs_row :: catalog_row
  rs_file :: catalog_file

definition resolve_update :: "'r http \<Rightarrow> json \<Rightarrow> declared_update \<Rightarrow> ('r relay_world, resolved) eff" where
  "resolve_update http cvrf upd =
     bindM (liftR (fix_for_product cvrf (du_msrc_product upd))) (\<lambda>fix_kb.
     bindM (get_text http (CATALOG @ ''/Search.aspx?q=KB'' @ mf_kb fix_kb) []) (\<lambda>search.
     bindM (liftR (parse_catalog_search search (mf_kb fix_kb))) (\<lambda>rows.
     bindM (liftR (select_row rows (mf_kb fix_kb) (du_catalog_title upd))) (\<lambda>row.
     bindM (post_form http (CATALOG @ ''/DownloadDialog.aspx'') (download_dialog_form (cr_update_id row))) (\<lambda>dialog.
     bindM (liftR (parse_download_dialog dialog)) (\<lambda>f.
       ret \<lparr>rs_role = du_role upd, rs_fix = fix_kb, rs_row = row, rs_file = f\<rparr>))))))"

text \<open>A list comprehension whose elements are computed by statements.\<close>

fun mapM :: "('a \<Rightarrow> ('s, 'b) eff) \<Rightarrow> 'a list \<Rightarrow> ('s, 'b list) eff" where
  "mapM f [] = ret []"
| "mapM f (x # xs) = bindM (f x) (\<lambda>y. bindM (mapM f xs) (\<lambda>ys. ret (y # ys)))"

definition resolve :: "'r http \<Rightarrow> declared_build \<Rightarrow> msrc_release \<Rightarrow> ('r relay_world, resolved list) eff" where
  "resolve http declared release =
     bindM (get_text http (mr_cvrf_url release) accept_json) (\<lambda>text.
     bindM (liftR (json_loads text)) (\<lambda>cvrf. mapM (resolve_update http cvrf) (db_updates declared)))"

section \<open>Fetching\<close>

text \<open>The two digests of \<open>_hash\<close>.\<close>

record digests =
  dg_sha1 :: "string \<Rightarrow> string"
  dg_sha256 :: "string \<Rightarrow> string"

definition hash_file :: "digests \<Rightarrow> string \<Rightarrow> ('r relay_world, string \<times> string) eff" where
  "hash_file D p = bindM (read_text p) (\<lambda>bytes. ret (dg_sha1 D bytes, dg_sha256 D bytes))"

definition asset_key :: "int \<Rightarrow> string \<Rightarrow> string" where
  "asset_key build filename = ASSET_PREFIX @ ''/'' @ int_str build @ ''/'' @ filename"

definition part_of :: "string \<Rightarrow> string" where
  "part_of dest = dest @ ''.part''"

definition download_verified :: "'r http \<Rightarrow> digests \<Rightarrow> resolved \<Rightarrow> string \<Rightarrow> ('r relay_world, unit) eff" where
  "download_verified http D r dest =
     seqM (download http (cf_url (rs_file r)) (part_of dest))
     (bindM (hash_file D (part_of dest)) (\<lambda>got.
        if fst got \<noteq> cf_sha1 (rs_file r)
        then seqM (remove_file (part_of dest))
             (raise (OsUpdatesError (cf_filename (rs_file r) @ '': SHA1 '' @ fst got
                @ '' does not match the Catalog'' @ [CHR 39] @ ''s '' @ cf_sha1 (rs_file r))))
        else replace_file (part_of dest) dest))"

definition fetch :: "'r http \<Rightarrow> digests \<Rightarrow> int \<Rightarrow> string \<Rightarrow> resolved \<Rightarrow> ('r relay_world, baseline_file) eff" where
  "fetch http D build cache r =
     (let f = rs_file r; key = asset_key build (cf_filename f); dest = local_join cache key in
      bindM (gets disk_of) (\<lambda>disk.
      bindM (case disk dest of
               None \<Rightarrow> ret False
             | Some _ \<Rightarrow> bindM (hash_file D dest) (\<lambda>h. ret (fst h = cf_sha1 f))) (\<lambda>cached.
      seqM (whenM (\<not> cached) (download_verified http D r dest))
      (bindM (hash_file D dest) (\<lambda>h.
       bindM (read_text dest) (\<lambda>bytes.
         ret \<lparr>bf_role = rs_role r, bf_kb = mf_kb (rs_fix r), bf_fixed_build = mf_fixed_build (rs_fix r),
              bf_catalog_update_id = cr_update_id (rs_row r), bf_url = cf_url f, bf_filename = cf_filename f,
              bf_path = key, bf_sha1 = cf_sha1 f, bf_sha256 = snd h, bf_size = int (length bytes)\<rparr>))))))"

section \<open>Baselines\<close>

definition baseline_id :: "int \<Rightarrow> msrc_release \<Rightarrow> string" where
  "baseline_id build release = int_str build @ ''-'' @ take 7 (mr_initial_release_date release)"

definition propose :: "'r http \<Rightarrow> digests \<Rightarrow> declared_build \<Rightarrow> msrc_release \<Rightarrow> string \<Rightarrow> string
    \<Rightarrow> ('r relay_world, baseline) eff" where
  "propose http D declared release cache now =
     bindM (resolve http declared release) (\<lambda>found.
     case filter (\<lambda>r. rs_role r = LCU) found of
       [lcu] \<Rightarrow>
         bindM (liftR (target_ubr (rs_fix lcu) (db_build declared))) (\<lambda>ubr.
         bindM (mapM (fetch http D (db_build declared) cache) found) (\<lambda>files.
           ret \<lparr>bl_baseline_id = baseline_id (db_build declared) release, bl_build = db_build declared,
                bl_target_ubr = ubr, bl_msrc_release = mr_release_id release,
                bl_msrc_release_date = mr_initial_release_date release, bl_proposed_utc = now, bl_files = files\<rparr>))
     | _ \<Rightarrow> raise (OsUpdatesError (''build '' @ int_str (db_build declared) @ '' must declare exactly one lcu update'')))"

text \<open>\<open>model_validate\<close> of the two document models.\<close>

record validators =
  v_os_builds :: "(string, json) dict \<Rightarrow> os_builds res"
  v_baseline :: "(string, json) dict \<Rightarrow> baseline res"

definition read_baseline :: "validators \<Rightarrow> string \<Rightarrow> ('r relay_world, baseline) eff" where
  "read_baseline V p =
     bindM (gets disk_of) (\<lambda>disk. liftR (bind_res (load_json_object (text_of disk p)) (v_baseline V)))"

definition baseline_path :: "string \<Rightarrow> int \<Rightarrow> string \<Rightarrow> string" where
  "baseline_path out_dir build i = local_join (local_join out_dir (int_str build)) (i @ ''.json'')"

definition baseline_text :: "baseline \<Rightarrow> string" where
  "baseline_text b = dumps_indent 0 (JObj (baseline_fields b)) @ [CHR 10]"

definition write_baseline :: "validators \<Rightarrow> baseline \<Rightarrow> string \<Rightarrow> ('r relay_world, string) eff" where
  "write_baseline V b out_dir =
     (let dest = baseline_path out_dir (bl_build b) (bl_baseline_id b) in
      bindM (gets disk_of) (\<lambda>disk.
      if disk dest \<noteq> None
      then bindM (read_baseline V dest) (\<lambda>existing.
             if bl_files existing = bl_files b then ret dest
             else raise (OsUpdatesError (dest @ '' already exists with different files; Microsoft re-released a KB'')))
      else seqM (write_file (dest @ ''.tmp'') (baseline_text b))
           (seqM (replace_file (dest @ ''.tmp'') dest) (ret dest))))"

definition load_baseline :: "validators \<Rightarrow> string \<Rightarrow> int \<Rightarrow> string \<Rightarrow> ('r relay_world, baseline) eff" where
  "load_baseline V repo build i = read_baseline V (baseline_path (local_join repo BASELINES_DIR) build i)"

fun snapshot_files :: "(string \<Rightarrow> string option) \<Rightarrow> string \<Rightarrow> baseline_file list \<Rightarrow> snapshot_file list res" where
  "snapshot_files disk cache [] = Inr []"
| "snapshot_files disk cache (f # fs) =
     (let source = local_join cache (bf_path f) in
      if disk source = None
      then Inl (OsUpdatesError (bf_filename f @ '' is not in the asset cache at '' @ source @ ''; propose fetches it''))
      else bind_res (snapshot_files disk cache fs) (\<lambda>rest.
             Inr (\<lparr>sf_path = bf_filename f, sf_sha256 = bf_sha256 f, sf_size = bf_size f, sf_source = source\<rparr> # rest)))"

definition select_release :: "'r http \<Rightarrow> string option \<Rightarrow> ('r relay_world, msrc_release) eff" where
  "select_release http release_id =
     bindM (get_text http (MSRC_API @ ''/updates'') accept_json) (\<lambda>text.
     bindM (liftR (json_loads text)) (\<lambda>updates.
       liftR (case release_id of
                Some (c # i) \<Rightarrow> release_by_id updates (c # i)
              | _ \<Rightarrow> latest_release updates)))"

section \<open>The command\<close>

datatype os_cmd =
    Resolve
  | Propose string
  | Snapshot string string string  \<comment> \<open>baseline id, cache, site\<close>

record os_args =
  oa_repo :: string
  oa_build :: int
  oa_release :: "string option"
  oa_cmd :: os_cmd

text \<open>\<open>try: m except OsUpdatesError: return 1\<close>: none stands for the caught error.\<close>

definition caught :: "(pyexc \<Rightarrow> bool) \<Rightarrow> ('s, 'a) eff \<Rightarrow> ('s, 'a option) eff" where
  "caught P m = catchM (bindM m (\<lambda>a. ret (Some a))) (\<lambda>e. if P e then ret None else raise e)"

definition snapshot_cmd :: "validators \<Rightarrow> digests \<Rightarrow> 'r runner \<Rightarrow> relay_config \<Rightarrow> os_args \<Rightarrow> string \<Rightarrow> string \<Rightarrow> string
    \<Rightarrow> ('r relay_world, int) eff" where
  "snapshot_cmd V D runner cfg args i cache site =
     bindM (caught (\<lambda>e. is_os_updates_error e \<or> exc_name e = ''UnknownSiteError'')
       (bindM (gets disk_of) (\<lambda>disk.
        bindM (liftR (staging_host_for (disk (local_join (oa_repo args) STAGING_HOSTS)) site)) (\<lambda>host.
        bindM (load_baseline V (oa_repo args) (oa_build args) i) (\<lambda>b.
        bindM (liftR (snapshot_files disk cache (bl_files b))) (\<lambda>files. ret (host, b, files))))))) (\<lambda>found.
     case found of
       None \<Rightarrow> ret 1
     | Some (host, b, files) \<Rightarrow>
         bindM (sync_snapshot (dg_sha256 D) runner (cfg\<lparr>rl_relay := host\<rparr>) ''windows-os-baseline'' (bl_baseline_id b) files)
           (\<lambda>result. ret (if sr_ok result then 0 else 1)))"

definition os_updates_main :: "validators \<Rightarrow> digests \<Rightarrow> 'r http \<Rightarrow> 'r runner \<Rightarrow> relay_config \<Rightarrow> string \<Rightarrow> os_args
    \<Rightarrow> ('r relay_world, int) eff" where
  "os_updates_main V D http runner cfg now args =
     (case oa_cmd args of
        Snapshot i cache site \<Rightarrow> snapshot_cmd V D runner cfg args i cache site
      | cmd \<Rightarrow>
          bindM (caught is_os_updates_error
            (bindM (gets disk_of) (\<lambda>disk.
             bindM (liftR (bind_res (load_json_object (text_of disk (local_join (oa_repo args) OS_BUILDS))) (v_os_builds V))) (\<lambda>builds.
             bindM (liftR (get_build builds (oa_build args))) (\<lambda>declared.
             bindM (select_release http (oa_release args)) (\<lambda>release.
               case cmd of
                 Propose cache \<Rightarrow>
                   bindM (propose http D declared release cache now) (\<lambda>b.
                   seqM (write_baseline V b (local_join (oa_repo args) BASELINES_DIR)) (ret ()))
               | _ \<Rightarrow> seqM (resolve http declared release) (ret ()))))))) (\<lambda>found.
          ret (case found of None \<Rightarrow> 1 | Some _ \<Rightarrow> 0)))"

section \<open>What a fetch leaves\<close>

lemma urlopen_disk: "urlopen http req w = (r, w') \<Longrightarrow> disk_of w' = disk_of w"
  by (auto simp: urlopen_def split: prod.splits)

lemma hash_file_app:
  "hash_file D p w = (case disk_of w p of None \<Rightarrow> (Inl OSError, w) | Some b \<Rightarrow> (Inr (dg_sha1 D b, dg_sha256 D b), w))"
  by (simp add: hash_file_def bindM_def split: option.split)

lemma download_disk:
  assumes "download http url p w = (r, w')"
  shows "disk_of w' = disk_of w \<and> r \<noteq> Inr () \<or> (\<exists>b. disk_of w' = (disk_of w)(p \<mapsto> b))"
proof (cases "urlopen http (HttpGet url []) w")
  case (Pair q w1)
  note d = urlopen_disk [OF this]
  show ?thesis
  proof (cases q)
    case (Inl e)
    with assms Pair d show ?thesis by (auto simp: download_def bindM_def)
  next
    case (Inr b)
    with assms Pair have "\<exists>t. w' = w1\<lparr>local_files := dict_set p t (local_files w1)\<rparr>"
      by (auto simp: download_def bindM_def seqM_def Let_def split: option.splits if_splits)
    then show ?thesis using d by auto
  qed
qed

text \<open>Either nothing but the partial file changed, or the destination now holds bytes with the digest.\<close>

lemma download_verified_disk:
  assumes "download_verified http D r dest w = (q, w')"
  shows "(q = Inr () \<and> (\<exists>b. dg_sha1 D b = cf_sha1 (rs_file r) \<and> disk_of w' = (disk_of w)(part_of dest := None, dest \<mapsto> b)))
    \<or> (\<exists>e c. q = Inl e \<and> (disk_of w' = disk_of w \<or> disk_of w' = (disk_of w)(part_of dest := c)))"
proof (cases "download http (cf_url (rs_file r)) (part_of dest) w")
  case (Pair q1 w1)
  note d = download_disk [OF this]
  show ?thesis
  proof (cases q1)
    case (Inl e)
    with assms Pair have "q = Inl e" "w' = w1" by (simp_all add: download_verified_def seqM_def bindM_def)
    with d show ?thesis by (metis fun_upd_apply)
  next
    case (Inr u)
    with d obtain b where b: "disk_of w1 = (disk_of w)(part_of dest \<mapsto> b)" by auto
    have ne: "part_of dest \<noteq> dest" by (simp add: part_of_def)
    show ?thesis
    proof (cases "dg_sha1 D b = cf_sha1 (rs_file r)")
      case True
      with assms Pair Inr b have "q = Inr ()" "disk_of w' = (disk_of w)(part_of dest := None, dest \<mapsto> b)"
        by (auto simp: download_verified_def seqM_def bindM_def hash_file_app)
      with True show ?thesis by blast
    next
      case False
      with assms Pair Inr b have "\<exists>e. q = Inl e" "disk_of w' = (disk_of w)(part_of dest := None)"
        by (auto simp: download_verified_def seqM_def bindM_def hash_file_app)
      then show ?thesis by blast
    qed
  qed
qed

definition verified_at :: "digests \<Rightarrow> string \<Rightarrow> (string \<Rightarrow> string option) \<Rightarrow> string \<Rightarrow> bool" where
  "verified_at D sha1 disk p \<longleftrightarrow> (\<exists>b. disk p = Some b \<and> dg_sha1 D b = sha1)"

lemma fetch_app:
  "fetch http D build cache r w =
    (let dest = local_join cache (asset_key build (cf_filename (rs_file r))) in
     case (if verified_at D (cf_sha1 (rs_file r)) (disk_of w) dest then (Inr (), w) else download_verified http D r dest w) of
       (Inl e, w') \<Rightarrow> (Inl e, w')
     | (Inr u, w') \<Rightarrow>
         (case disk_of w' dest of
            None \<Rightarrow> (Inl OSError, w')
          | Some b \<Rightarrow> (Inr \<lparr>bf_role = rs_role r, bf_kb = mf_kb (rs_fix r), bf_fixed_build = mf_fixed_build (rs_fix r),
              bf_catalog_update_id = cr_update_id (rs_row r), bf_url = cf_url (rs_file r), bf_filename = cf_filename (rs_file r),
              bf_path = asset_key build (cf_filename (rs_file r)), bf_sha1 = cf_sha1 (rs_file r),
              bf_sha256 = dg_sha256 D b, bf_size = int (length b)\<rparr>, w')))"
  by (auto simp: fetch_def Let_def bindM_def seqM_def whenM_def hash_file_app verified_at_def
      split: option.splits prod.splits sum.splits)

text \<open>C20: A fetched file is the Catalog's: a success leaves at the recorded path bytes with the Catalog's
  SHA1 and the recorded SHA256 and size, and no partial file; a failure leaves what was there before;
  nothing else on the disk changes, and a file that already verifies is not downloaded again.
\<close>

theorem fetch_verified:
  "case fetch http D build cache r w of (res, w') \<Rightarrow>
     let dest = local_join cache (asset_key build (cf_filename (rs_file r))) in
     disk_of w' |` (- {dest, part_of dest}) = disk_of w |` (- {dest, part_of dest})
     \<and> (if verified_at D (cf_sha1 (rs_file r)) (disk_of w) dest then w' = w \<and> (\<exists>f. res = Inr f) else True)
     \<and> (case res of
          Inl e \<Rightarrow> disk_of w' dest = disk_of w dest
        | Inr f \<Rightarrow> \<exists>b. disk_of w' dest = Some b \<and> dg_sha1 D b = cf_sha1 (rs_file r) \<and> bf_sha256 f = dg_sha256 D b
            \<and> bf_size f = int (length b) \<and> local_join cache (bf_path f) = dest \<and> bf_filename f = cf_filename (rs_file r)
            \<and> disk_of w' (part_of dest) \<in> {None, disk_of w (part_of dest)})"
proof -
  define dest where "dest = local_join cache (asset_key build (cf_filename (rs_file r)))"
  have ne: "part_of dest \<noteq> dest" by (simp add: part_of_def)
  show ?thesis
  proof (cases "verified_at D (cf_sha1 (rs_file r)) (disk_of w) dest")
    case True
    then obtain b where "disk_of w dest = Some b" "dg_sha1 D b = cf_sha1 (rs_file r)" by (auto simp: verified_at_def)
    with True show ?thesis by (simp add: fetch_app Let_def flip: dest_def)
  next
    case False
    obtain q w' where dv: "download_verified http D r dest w = (q, w')" by fastforce
    from download_verified_disk [OF dv] show ?thesis
    proof (elim disjE exE conjE)
      fix b assume "q = Inr ()" "dg_sha1 D b = cf_sha1 (rs_file r)" and
        d: "disk_of w' = (disk_of w)(part_of dest := None, dest \<mapsto> b)"
      with False dv ne show ?thesis
        by (auto simp: fetch_app Let_def restrict_map_def fun_eq_iff simp flip: dest_def)
    next
      fix e c assume "q = Inl e" "disk_of w' = disk_of w"
      with False dv show ?thesis by (simp add: fetch_app Let_def flip: dest_def)
    next
      fix e c assume "q = Inl e" "disk_of w' = (disk_of w)(part_of dest := c)"
      with False dv ne show ?thesis
        by (auto simp: fetch_app Let_def restrict_map_def fun_eq_iff simp flip: dest_def)
    qed
  qed
qed

section \<open>What a proposal leaves\<close>

text \<open>The file of a baseline is in the cache, with the bytes it records.\<close>

definition held_in :: "digests \<Rightarrow> string \<Rightarrow> (string \<Rightarrow> string option) \<Rightarrow> baseline_file \<Rightarrow> bool" where
  "held_in D cache disk f \<longleftrightarrow> (\<exists>b. disk (local_join cache (bf_path f)) = Some b \<and> bf_sha256 f = dg_sha256 D b
     \<and> bf_size f = int (length b))"

definition describes :: "int \<Rightarrow> resolved \<Rightarrow> baseline_file \<Rightarrow> bool" where
  "describes build r f \<longleftrightarrow> bf_role f = rs_role r \<and> bf_fixed_build f = mf_fixed_build (rs_fix r)
     \<and> bf_filename f = cf_filename (rs_file r) \<and> bf_path f = asset_key build (bf_filename f)"

lemma fetch_Inr:
  assumes "fetch http D build cache r w = (Inr f, w')"
  shows "describes build r f" and "held_in D cache (disk_of w') f"
    and "p \<noteq> local_join cache (bf_path f) \<Longrightarrow> p \<noteq> part_of (local_join cache (bf_path f)) \<Longrightarrow> disk_of w' p = disk_of w p"
proof -
  show desc: "describes build r f"
    using assms by (auto simp: fetch_app Let_def describes_def split: prod.splits sum.splits option.splits)
  show "held_in D cache (disk_of w') f"
    using assms by (auto simp: fetch_app Let_def held_in_def split: prod.splits sum.splits option.splits)
  define dest where "dest = local_join cache (asset_key build (cf_filename (rs_file r)))"
  show "disk_of w' p = disk_of w p"
    if "p \<noteq> local_join cache (bf_path f)" "p \<noteq> part_of (local_join cache (bf_path f))"
  proof (cases "verified_at D (cf_sha1 (rs_file r)) (disk_of w) dest")
    case True
    with assms show ?thesis by (auto simp: fetch_app Let_def split: option.splits simp flip: dest_def)
  next
    case False
    obtain q w1 where dv: "download_verified http D r dest w = (q, w1)" by fastforce
    from assms False dv have "w' = w1"
      by (auto simp: fetch_app Let_def split: sum.splits option.splits simp flip: dest_def)
    with download_verified_disk [OF dv] that desc show ?thesis by (auto simp: describes_def dest_def)
  qed
qed

lemma asset_paths_differ:
  "local_join cache (asset_key build a) = local_join cache (asset_key build b) \<longleftrightarrow> a = b"
  "part_of (local_join cache (asset_key build a)) = local_join cache (asset_key build b) \<longleftrightarrow> a @ ''.part'' = b"
  by (auto simp: local_join_def asset_key_def part_of_def)

lemma mapM_fetch:
  assumes "mapM (fetch http D build cache) rs w = (Inr fs, w')"
    and "distinct (map bf_filename fs)" and "\<forall>f\<in>set fs. \<forall>g\<in>set fs. bf_filename f \<noteq> bf_filename g @ ''.part''"
  shows "list_all2 (describes build) rs fs" and "\<forall>f\<in>set fs. held_in D cache (disk_of w') f"
    and "\<forall>p. (\<forall>f\<in>set fs. p \<noteq> local_join cache (bf_path f) \<and> p \<noteq> part_of (local_join cache (bf_path f)))
       \<longrightarrow> disk_of w' p = disk_of w p"
proof -
  have "list_all2 (describes build) rs fs \<and> (\<forall>f\<in>set fs. held_in D cache (disk_of w') f)
    \<and> (\<forall>p. (\<forall>f\<in>set fs. p \<noteq> local_join cache (bf_path f) \<and> p \<noteq> part_of (local_join cache (bf_path f)))
       \<longrightarrow> disk_of w' p = disk_of w p)"
    using assms
  proof (induction rs arbitrary: w fs)
    case (Cons r rs)
    from Cons.prems(1) obtain f gs w1 where f: "fetch http D build cache r w = (Inr f, w1)"
      and gs: "mapM (fetch http D build cache) rs w1 = (Inr gs, w')" and fs: "fs = f # gs"
      by (auto simp: bindM_Inr_iff)
    have sub: "distinct (map bf_filename gs)" "\<forall>f\<in>set gs. \<forall>g\<in>set gs. bf_filename f \<noteq> bf_filename g @ ''.part''"
      using Cons.prems(2,3) by (simp_all add: fs)
    note one = fetch_Inr [OF f] and rest = Cons.IH [OF gs sub]
    have path: "bf_path g = asset_key build (bf_filename g)" if "g \<in> set fs" for g
      using that one(1) rest by (auto simp: fs describes_def list_all2_conv_all_nth in_set_conv_nth)
    have apart: "local_join cache (bf_path f) \<noteq> local_join cache (bf_path g)
        \<and> local_join cache (bf_path f) \<noteq> part_of (local_join cache (bf_path g))" if "g \<in> set gs" for g
    proof -
      from that Cons.prems(2,3) have "bf_filename f \<noteq> bf_filename g" "bf_filename g @ ''.part'' \<noteq> bf_filename f"
        by (auto simp: fs dest: sym)
      moreover have "bf_path f = asset_key build (bf_filename f)" "bf_path g = asset_key build (bf_filename g)"
        using path that by (simp_all add: fs)
      ultimately show ?thesis using asset_paths_differ(2) [of cache build "bf_filename g" "bf_filename f"]
        by (auto simp: asset_paths_differ(1) dest: sym)
    qed
    then have "disk_of w' (local_join cache (bf_path f)) = disk_of w1 (local_join cache (bf_path f))"
      using rest by blast
    with one(2) have "held_in D cache (disk_of w') f" by (simp add: held_in_def)
    with one(1,3) rest show ?case by (simp add: fs)
  qed simp
  then show "list_all2 (describes build) rs fs" "\<forall>f\<in>set fs. held_in D cache (disk_of w') f"
    "\<forall>p. (\<forall>f\<in>set fs. p \<noteq> local_join cache (bf_path f) \<and> p \<noteq> part_of (local_join cache (bf_path f)))
       \<longrightarrow> disk_of w' p = disk_of w p" by simp_all
qed

lemma snapshot_files_held:
  assumes "\<forall>f\<in>set fs. held_in D cache (disk_of w) f"
  shows "\<exists>files. snapshot_files (disk_of w) cache fs = Inr files \<and> check_sources (dg_sha256 D) (local_files w) files = None
     \<and> map sf_path files = map bf_filename fs"
  using assms by (induction fs) (auto simp: held_in_def Let_def disk_of_def)


text \<open>C22: A baseline survives the disk, and none is overwritten: writing one where there is none and
  reading it back gives it, and where there is one the disk is left as it is and the call succeeds
  exactly when the existing one lists the same files.
\<close>

theorem baseline_round_trip:
  assumes "v_baseline V (baseline_fields b) = Inr b"
  shows "case write_baseline V b out_dir w of (r, w') \<Rightarrow>
     let dest = baseline_path out_dir (bl_build b) (bl_baseline_id b) in
     if disk_of w dest = None
     then r = Inr dest \<and> read_baseline V dest w' = (Inr b, w')
       \<and> disk_of w' = (disk_of w)(dest @ ''.tmp'' := None, dest \<mapsto> baseline_text b)
     else w' = w \<and> (r = Inr dest \<longleftrightarrow> (\<exists>e. read_baseline V dest w = (Inr e, w) \<and> bl_files e = bl_files b))"
proof -
  define dest where "dest = baseline_path out_dir (bl_build b) (bl_baseline_id b)"
  have reread: "load_json_object (Inr (baseline_text b)) = Inr (baseline_fields b)"
    using json_indent_round_trip [OF wf_baseline]
    by (simp add: load_json_object_def load_json_file_def baseline_text_def)
  show ?thesis
  proof (cases "disk_of w dest")
    case None
    then show ?thesis
      using assms reread
      by (auto simp: write_baseline_def Let_def read_baseline_def seqM_def bindM_def text_of_def fun_eq_iff disk_of_def
          simp del: disk_of_simps simp flip: dest_def)
  next
    case (Some t)
    then show ?thesis
      by (auto simp: write_baseline_def Let_def read_baseline_def bindM_def split: sum.splits simp flip: dest_def)
  qed
qed

section \<open>Witnesses\<close>

text \<open>The network of one update: a release, its document, the two pages of the Catalog and the file.\<close>

definition ex_cvrf :: json where
  "ex_cvrf = JObj [(''ProductTree'', JObj [(''FullProductName'', JList [JObj [(''ProductID'', JStr ''p''), (''Value'', JStr ''W'')]])]),
     (''Vulnerability'', JList [JObj [(''Remediations'', JList [JObj [(''Type'', JInt 2), (''ProductID'', JList [JStr ''p'']),
        (''Description'', JObj [(''Value'', JStr ''5'')]), (''FixedBuild'', JStr ''10.0.1.7'')]])]])]"

definition ex_search_page :: string where
  "ex_search_page = ''<a id=12345678-1234-1234-1234-123456789abc_link'' @ [CHR 39] @ ''>2026-09 T (KB5)</a>''"

definition ex_dialog_page :: string where
  "ex_dialog_page = ''d.url = '' @ [CHR 39] @ ''dl'' @ [CHR 39] @ '';d.digest = '' @ [CHR 39] @ ''MQ=='' @ [CHR 39]
     @ '';d.fileName = '' @ [CHR 39] @ ''f.msu'' @ [CHR 39]"

definition ex_http :: "unit http" where
  "ex_http = (\<lambda>req s.
     let text = (case req of
          HttpPost url form \<Rightarrow> ex_dialog_page
        | HttpGet url headers \<Rightarrow> (if url = ''cvrf'' then json_dumps ex_cvrf else if url = ''dl'' then ''1xyz'' else ex_search_page))
     in (Inr \<lparr>hb_chunks = [text], hb_broken = None\<rparr>, s))"

definition ex_digests :: digests where
  "ex_digests = \<lparr>dg_sha1 = (\<lambda>b. hex_of (take 1 b)), dg_sha256 = rev\<rparr>"

definition ex_declared_build :: declared_build where
  "ex_declared_build = \<lparr>db_build = 1, db_edition = ''E'', db_updates =
     [\<lparr>du_role = LCU, du_msrc_product = ''W'', du_catalog_title = ''T''\<rparr>]\<rparr>"

definition ex_release :: msrc_release where
  "ex_release = \<lparr>mr_release_id = ''r'', mr_initial_release_date = ''2026-09-08'', mr_cvrf_url = ''cvrf''\<rparr>"

abbreviation ex_proposal :: "baseline res \<times> unit relay_world" where
  "ex_proposal \<equiv> propose ex_http ex_digests ex_declared_build ex_release ''c'' ''now'' \<lparr>local_files = [], farm = [], remote = ()\<rparr>"

definition ex_baseline :: baseline where
  "ex_baseline = \<lparr>bl_baseline_id = ''1-2026-09'', bl_build = 1, bl_target_ubr = 7, bl_msrc_release = ''2026-Sep'',
     bl_msrc_release_date = ''2026-09-08'', bl_proposed_utc = ''now'', bl_files = []\<rparr>"

lemma baseline_round_trip_witness:
  "case write_baseline \<lparr>v_os_builds = \<lambda>d. Inl ValueError, v_baseline = \<lambda>d. Inr ex_baseline\<rparr> ex_baseline ''out''
      \<lparr>local_files = [], farm = [], remote = ()\<rparr> of (r, w') \<Rightarrow> r = Inr (baseline_path ''out'' 1 ''1-2026-09'')"
  using baseline_round_trip [of "\<lparr>v_os_builds = \<lambda>d. Inl ValueError, v_baseline = \<lambda>d. Inr ex_baseline\<rparr>" ex_baseline "''out''"
      "\<lparr>local_files = [], farm = [], remote = ()\<rparr>"]
  by (auto simp: disk_of_def ex_baseline_def Let_def split: prod.splits)

definition ex_proposed :: baseline where
  "ex_proposed = \<lparr>bl_baseline_id = ''1-2026-09'', bl_build = 1, bl_target_ubr = 7, bl_msrc_release = ''r'',
     bl_msrc_release_date = ''2026-09-08'', bl_proposed_utc = ''now'', bl_files =
       [\<lparr>bf_role = LCU, bf_kb = ''5'', bf_fixed_build = ''10.0.1.7'',
          bf_catalog_update_id = ''12345678-1234-1234-1234-123456789abc'', bf_url = ''dl'', bf_filename = ''f.msu'',
          bf_path = ''server/providers/windows-updates/assets/1/f.msu'', bf_sha1 = ''31'', bf_sha256 = ''zyx1'', bf_size = 4\<rparr>]\<rparr>"


end
