(* ===== verification/Os_Drift.thy ===== *)
theory Os_Drift
  imports Os_Updates
begin

text \<open>
  \<open>server/prov/os_drift.py\<close>: a unit's OS patch level against the newest committed baseline of its
  build, what stands in the way of patching it and what is worth saying about it.
\<close>

section \<open>The probe and the verdicts\<close>

datatype os_patch_state = UpToDate | Behind | Ahead | NoBaseline | UnknownBuild

datatype dotnet_state = DotnetUpToDate | DotnetBehind | DotnetAhead | OtherLine | DotnetUnknown

datatype blocker = PendingReboot | ComponentStore | LowDisk

datatype finding = LockdownOff | EdgeUpdateOn | WinreDisabled

record probe_hotfix =
  ph_id :: string
  ph_description :: string
  ph_installed_on :: "string option"

record probe_dotnet =
  pd_release :: "int option"
  pd_mscorlib_version :: "string option"

record probe_edge_update =
  pe_edgeupdate :: "string option"
  pe_edgeupdatem :: "string option"
  pe_tasks_enabled :: int
  pe_off :: bool

record probe_lockdown =
  pl_no_auto_update :: "int option"
  pl_task_state :: "string option"
  pl_wuauserv :: "string option"
  pl_usosvc :: "string option"
  pl_waasmedicsvc :: "string option"
  pl_edge_update :: probe_edge_update

record os_probe =
  op_probe_version :: int
  op_computer :: string
  op_product_name :: string
  op_edition_id :: string
  op_current_build :: int
  op_ubr :: int
  op_rollup_package :: "string option"
  op_rollup_installed :: "string option"
  op_hotfixes :: "probe_hotfix list"
  op_dotnet :: probe_dotnet
  op_pending_reboot :: "string list"
  op_free_c_bytes :: int
  op_component_store :: string
  op_winre :: "string option"
  op_secure_boot :: "bool option"
  op_lockdown :: probe_lockdown

record os_assessment =
  as_state :: os_patch_state
  as_build :: int
  as_ubr :: int
  as_baseline_id :: "string option"
  as_target_ubr :: "int option"
  as_lcu_installed :: "string option"
  as_dotnet :: dotnet_state
  as_dotnet_version :: "string option"
  as_dotnet_target :: "string option"
  as_blockers :: "blocker list"
  as_findings :: "finding list"
  as_pending_reboot :: "string list"
  as_secure_boot :: "bool option"

definition MIN_FREE_C_BYTES :: int where "MIN_FREE_C_BYTES = 20 * 1024 ^ 3"
definition DOTNET_481_MIN_RELEASE :: int where "DOTNET_481_MIN_RELEASE = 533320"
definition DOTNET_48_PREFIX :: string where "DOTNET_48_PREFIX = ''4.8.''"
definition NO_AUTO_UPDATE_ON :: int where "NO_AUTO_UPDATE_ON = 1"

definition SERVICING_REBOOT_REASONS :: "string list" where
  "SERVICING_REBOOT_REASONS = [''CBS RebootPending'', ''WindowsUpdate RebootRequired'']"

section \<open>The committed baselines\<close>

text \<open>The files \<open>*/*.json\<close> under the baselines' folder as (path, text); a \<open>Path\<close> sorts by its parts.\<close>

type_synonym baselines = "(int, baseline list) dict"

fun group_baselines :: "validators \<Rightarrow> (string \<times> string) list \<Rightarrow> baselines \<Rightarrow> baselines res" where
  "group_baselines V [] out = Inr out"
| "group_baselines V ((p, t) # files) out =
     bind_res (bind_res (load_json_object (Inr t)) (v_baseline V)) (\<lambda>b.
       group_baselines V files
         (dict_set (bl_build b) ((case map_of out (bl_build b) of None \<Rightarrow> [] | Some bs \<Rightarrow> bs) @ [b]) out))"

definition load_baselines :: "validators \<Rightarrow> (string \<times> string) list \<Rightarrow> baselines res" where
  "load_baselines V files =
     bind_res (group_baselines V (sort_key (split_on (CHR ''/'') \<circ> fst) files) []) (\<lambda>out.
       Inr (map (\<lambda>(build, bs). (build, sort_key bl_msrc_release_date bs)) out))"

section \<open>The .NET version\<close>

definition version_of :: "string \<Rightarrow> int list res" where
  "version_of v = map_res py_int (split_on (CHR ''.'') v)"

definition dotnet_target :: "baseline \<Rightarrow> string option" where
  "dotnet_target b =
     find (startswith DOTNET_48_PREFIX)
       (map strip (concat (map (\<lambda>f. split_on (CHR ''&'') (bf_fixed_build f)) (filter (\<lambda>f. bf_role f = DOTNET) (bl_files b)))))"

definition dotnet_state :: "os_probe \<Rightarrow> string option \<Rightarrow> dotnet_state res" where
  "dotnet_state probe target =
     (case (pd_mscorlib_version (op_dotnet probe), target, pd_release (op_dotnet probe)) of
        (Some have_v, Some want, Some release) \<Rightarrow>
          (if have_v = [] \<or> want = [] then Inr DotnetUnknown
           else if DOTNET_481_MIN_RELEASE \<le> release \<or> \<not> startswith DOTNET_48_PREFIX have_v then Inr OtherLine
           else bind_res (version_of have_v) (\<lambda>h. bind_res (version_of want) (\<lambda>t.
                  Inr (if h = t then DotnetUpToDate else if h < t then DotnetBehind else DotnetAhead))))
      | _ \<Rightarrow> Inr DotnetUnknown)"

section \<open>The assessment\<close>

definition blockers :: "os_probe \<Rightarrow> blocker list" where
  "blockers probe =
     (if set SERVICING_REBOOT_REASONS \<inter> set (op_pending_reboot probe) \<noteq> {} then [PendingReboot] else [])
     @ (if op_component_store probe \<noteq> ''healthy'' then [ComponentStore] else [])
     @ (if op_free_c_bytes probe < MIN_FREE_C_BYTES then [LowDisk] else [])"

definition findings :: "os_probe \<Rightarrow> finding list" where
  "findings probe =
     (let l = op_lockdown probe in
      (if pl_no_auto_update l \<noteq> Some NO_AUTO_UPDATE_ON \<or> pl_task_state l = None then [LockdownOff] else [])
      @ (if \<not> pe_off (pl_edge_update l) then [EdgeUpdateOn] else [])
      @ (if op_winre probe \<noteq> None \<and> op_winre probe \<noteq> Some ''Enabled'' then [WinreDisabled] else []))"

definition patch_state :: "int \<Rightarrow> int \<Rightarrow> os_patch_state" where
  "patch_state ubr target = (if ubr = target then UpToDate else if ubr < target then Behind else Ahead)"

text \<open>The fields every assessment has, with the defaults of the others.\<close>

definition common :: "os_probe \<Rightarrow> os_patch_state \<Rightarrow> os_assessment" where
  "common probe state = \<lparr>as_state = state, as_build = op_current_build probe, as_ubr = op_ubr probe,
     as_baseline_id = None, as_target_ubr = None, as_lcu_installed = op_rollup_installed probe,
     as_dotnet = DotnetUnknown, as_dotnet_version = None, as_dotnet_target = None,
     as_blockers = blockers probe, as_findings = findings probe,
     as_pending_reboot = op_pending_reboot probe, as_secure_boot = op_secure_boot probe\<rparr>"

definition assess :: "os_probe \<Rightarrow> os_builds \<Rightarrow> baselines \<Rightarrow> os_assessment res" where
  "assess probe builds bs =
     (if \<not> list_ex (\<lambda>b. db_build b = op_current_build probe) (ob_builds builds) then Inr (common probe UnknownBuild)
      else case map_of bs (op_current_build probe) of
             None \<Rightarrow> Inr (common probe NoBaseline)
           | Some known \<Rightarrow>
               if known = [] then Inr (common probe NoBaseline)
               else let ref = last known; target = dotnet_target ref in
                    bind_res (dotnet_state probe target) (\<lambda>dn.
                      Inr ((common probe (patch_state (op_ubr probe) (bl_target_ubr ref)))
                        \<lparr>as_baseline_id := Some (bl_baseline_id ref), as_target_ubr := Some (bl_target_ubr ref),
                         as_dotnet := dn, as_dotnet_version := pd_mscorlib_version (op_dotnet probe),
                         as_dotnet_target := target\<rparr>)))"

section \<open>Properties\<close>

text \<open>A committed baseline file.\<close>

definition committed :: "validators \<Rightarrow> (string \<times> string) list \<Rightarrow> baseline set" where
  "committed V files = {b. \<exists>p t. (p, t) \<in> set files \<and> bind_res (load_json_object (Inr t)) (v_baseline V) = Inr b}"

lemma group_baselines_Inr:
  assumes "group_baselines V files out = Inr out'"
  shows "set (case map_of out' n of None \<Rightarrow> [] | Some bs \<Rightarrow> bs)
     = set (case map_of out n of None \<Rightarrow> [] | Some bs \<Rightarrow> bs) \<union> {b \<in> committed V files. bl_build b = n}"
  using assms
proof (induction V files out rule: group_baselines.induct)
  case (2 V p t files out)
  then obtain b where b: "bind_res (load_json_object (Inr t)) (v_baseline V) = Inr b"
    and rest: "group_baselines V files
         (dict_set (bl_build b) ((case map_of out (bl_build b) of None \<Rightarrow> [] | Some bs \<Rightarrow> bs) @ [b]) out) = Inr out'"
    by (auto simp: bind_res_Inr_iff)
  have "committed V ((p, t) # files) = insert b (committed V files)"
    using b by (auto simp: committed_def)
  with "2.IH" [OF rest] show ?case by (cases "n = bl_build b") auto
qed (simp add: committed_def)

lemma group_baselines_total:
  "\<forall>(p, t)\<in>set files. \<exists>b. bind_res (load_json_object (Inr t)) (v_baseline V) = Inr b
     \<Longrightarrow> \<exists>out'. group_baselines V files out = Inr out'"
  by (induction V files out rule: group_baselines.induct) auto

lemma map_of_map_values: "map_of (map (\<lambda>(k, v). (k, f v)) d) k = map_option f (map_of d k)"
  by (induction d) auto

lemma load_baselines_newest:
  assumes "load_baselines V files = Inr bs"
  shows "map_of bs n = Some known \<Longrightarrow> set known = {b \<in> committed V files. bl_build b = n}
       \<and> (known \<noteq> [] \<longrightarrow> (\<forall>b\<in>set known. bl_msrc_release_date b \<le> bl_msrc_release_date (last known)))"
    and "map_of bs n = None \<Longrightarrow> {b \<in> committed V files. bl_build b = n} = {}"
proof -
  let ?fs = "sort_key (split_on (CHR ''/'') \<circ> fst) files"
  from assms obtain out where out: "group_baselines V ?fs [] = Inr out"
    and bs: "bs = map (\<lambda>(build, bs). (build, sort_key bl_msrc_release_date bs)) out"
    by (auto simp: load_baselines_def bind_res_Inr_iff)
  have same: "committed V ?fs = committed V files" by (simp add: committed_def)
  note g = group_baselines_Inr [OF out, of n, unfolded same]
  show "map_of bs n = None \<Longrightarrow> {b \<in> committed V files. bl_build b = n} = {}"
    using g by (simp add: bs map_of_map_values)
  assume "map_of bs n = Some known"
  then obtain raw where raw: "map_of out n = Some raw" "known = sort_key bl_msrc_release_date raw"
    by (auto simp: bs map_of_map_values)
  have "sorted (map bl_msrc_release_date known)" by (simp add: raw)
  then have "\<forall>b\<in>set known. bl_msrc_release_date b \<le> bl_msrc_release_date (last known)" if "known \<noteq> []"
    using that by (cases known rule: rev_cases) (auto simp: sorted_append)
  with g show "set known = {b \<in> committed V files. bl_build b = n}
       \<and> (known \<noteq> [] \<longrightarrow> (\<forall>b\<in>set known. bl_msrc_release_date b \<le> bl_msrc_release_date (last known)))"
    by (simp add: raw)
qed


definition ex_probe :: os_probe where
  "ex_probe = \<lparr>op_probe_version = 1, op_computer = ''m'', op_product_name = ''W'', op_edition_id = ''E'', op_current_build = 1,
     op_ubr = 5, op_rollup_package = None, op_rollup_installed = None, op_hotfixes = [],
     op_dotnet = \<lparr>pd_release = None, pd_mscorlib_version = None\<rparr>, op_pending_reboot = [], op_free_c_bytes = 0,
     op_component_store = ''healthy'', op_winre = None, op_secure_boot = None,
     op_lockdown = \<lparr>pl_no_auto_update = None, pl_task_state = None, pl_wuauserv = None, pl_usosvc = None, pl_waasmedicsvc = None,
       pl_edge_update = \<lparr>pe_edgeupdate = None, pe_edgeupdatem = None, pe_tasks_enabled = 0, pe_off = True\<rparr>\<rparr>\<rparr>"

definition ex_validators :: validators where
  "ex_validators = \<lparr>v_os_builds = (\<lambda>d. Inl ValueError), v_baseline = (\<lambda>d. Inr ex_baseline)\<rparr>"


end
