(* ===== verification/Fleet_Compare.thy ===== *)
theory Fleet_Compare
  imports Fleet_Record Os_Drift Drift "HOL-Library.Product_Lexorder"
begin

text \<open>
  The comparisons of \<open>src/tools/fleet-drift-report.py\<close>: each unit against the build, the units against
  each other, the upstream repositories, the facts the modules report, the bootstrap elements and
  the live update state. A dictionary keyed by host keeps the last unit of a name, as the source's
  does. Members of a set and keys of a count are compared as JSON values; \<open>1\<close>, \<open>1.0\<close> and
  \<open>true\<close> are different ones here and the same for Python.
\<close>

section \<open>The baseline of a column\<close>

definition count_value :: "'a \<Rightarrow> 'a list \<Rightarrow> nat" where
  "count_value v vs = length (filter (\<lambda>w. w = v) vs)"

fun index_of :: "'a \<Rightarrow> 'a list \<Rightarrow> nat" where
  "index_of v [] = 0"
| "index_of v (w # ws) = (if w = v then 0 else Suc (index_of v ws))"

definition modal :: "'a list \<Rightarrow> 'a option" where
  "modal present =
     (case present of
        [] \<Rightarrow> None
      | v # vs \<Rightarrow> Some (max_by (\<lambda>v. (count_value v present, - int (index_of v present))) v vs))"

definition baseline_of :: "'a option list \<Rightarrow> 'a option \<Rightarrow> 'a option" where
  "baseline_of values reference = (case reference of Some r \<Rightarrow> Some r | None \<Rightarrow> modal (somes values))"

text \<open>For values of a document: a list or a dict cannot be counted.\<close>

definition some_json :: "json \<Rightarrow> json option" where
  "some_json v = (if v = JNull then None else Some v)"

definition baseline_json :: "json list \<Rightarrow> json \<Rightarrow> json res" where
  "baseline_json values reference =
     (if reference \<noteq> JNull then Inr reference
      else bind_res (map_res hashable (filter (\<lambda>v. v \<noteq> JNull) values)) (\<lambda>present.
           Inr (case modal present of None \<Rightarrow> JNull | Some v \<Rightarrow> v)))"

section \<open>Units against the build\<close>

record matrix_row =
  mr_module :: string
  mr_baseline :: "string option"
  mr_cells :: "(string, string option) dict"
  mr_differs :: "(string, bool) dict"

record comparison =
  cmp_baseline_hash :: json
  cmp_modules :: "string list"
  cmp_matrix :: "matrix_row list"
  cmp_drift :: "(string, string list) dict"
  cmp_verdicts :: "(string, string) dict"
  cmp_summaries :: "(string, string) dict option"

fun state_cell :: "module_state \<Rightarrow> string" where
  "state_cell module_state.UpToDate = ''ok''"
| "state_cell NeedsUpdate = ''STALE''"
| "state_cell Missing = ''MISSING''"
| "state_cell ExtraModule = ''extra''"
| "state_cell NeedsRepair = ''REPAIR''"

definition is_ok :: "unit_record \<Rightarrow> bool" where
  "is_ok u \<longleftrightarrow> ur_status u = ''ok''"

definition upper_char :: "char \<Rightarrow> char" where
  "upper_char c = (if 97 \<le> code c \<and> code c \<le> 122 then char_of (code c - 32) else c)"

definition upper :: "string \<Rightarrow> string" where
  "upper s = map upper_char s"

definition as_objects :: "(string, string) dict \<Rightarrow> (string, json) dict" where
  "as_objects d = map (\<lambda>(k, v). (k, JStr v)) d"

text \<open>What \<open>classify\<close> is given for a unit.\<close>

definition installed_view :: "unit_record \<Rightarrow> json" where
  "installed_view u = (if ur_modules u = [] then JNull else JObj [(''modules'', JObj (ur_modules u))])"

definition live_view :: "unit_record \<Rightarrow> json" where
  "live_view u = (if ur_validation u = [] then JNull else JObj [(''modules'', JObj (as_objects (ur_validation u)))])"

definition report_of :: "json \<Rightarrow> unit_record \<Rightarrow> drift_report res" where
  "report_of bdoc u = classify (installed_view u) bdoc (live_view u)"

definition entry_of :: "drift_report \<Rightarrow> string \<Rightarrow> module_drift option" where
  "entry_of r m = find (\<lambda>d. md_name d = m) (dr_modules r)"

definition by_host :: "(unit_record \<Rightarrow> 'a) \<Rightarrow> unit_record list \<Rightarrow> (string, 'a) dict" where
  "by_host f us = dict_of_pairs (map (\<lambda>u. (ur_host u, f u)) us) []"

definition report_at :: "(string, drift_report) dict \<Rightarrow> unit_record \<Rightarrow> drift_report" where
  "report_at reports u = the (map_of reports (ur_host u))"

definition build_row :: "(string, drift_report) dict \<Rightarrow> unit_record list \<Rightarrow> string \<Rightarrow> matrix_row" where
  "build_row reports oks m =
     \<lparr>mr_module = m, mr_baseline = Some ''ok'',
      mr_cells = by_host (\<lambda>u. Some (case entry_of (report_at reports u) m of Some d \<Rightarrow> state_cell (md_state d) | None \<Rightarrow> ''-'')) oks,
      mr_differs = by_host (\<lambda>u. case entry_of (report_at reports u) m of Some d \<Rightarrow> md_state d \<noteq> module_state.UpToDate | None \<Rightarrow> False) oks\<rparr>"

definition compare_to_build :: "unit_record list \<Rightarrow> json \<Rightarrow> comparison res" where
  "compare_to_build units bdoc =
     (let oks = filter is_ok units in
      bind_res (map_res (\<lambda>u. bind_res (report_of bdoc u) (\<lambda>r. Inr (ur_host u, r))) oks) (\<lambda>pairs.
      let reports = dict_of_pairs pairs [] in
      bind_res (bind_res (jget bdoc ''modules'') str_list) (\<lambda>modules.
      let extras = sorted_set (concat (map (\<lambda>(h, r). map md_name (filter (\<lambda>d. md_state d = ExtraModule) (dr_modules r))) reports));
          all_modules = modules @ filter (\<lambda>m. m \<notin> set modules) extras
      in bind_res (jget bdoc ''payload_hash'') (\<lambda>hash.
         Inr \<lparr>cmp_baseline_hash = hash,
              cmp_modules = all_modules,
              cmp_matrix = map (build_row reports oks) all_modules,
              cmp_drift = map (\<lambda>(h, r). (h, targets r)) reports,
              cmp_verdicts = by_host (\<lambda>u. if is_ok u then (if report_current (report_at reports u) then ''IN SYNC'' else ''DRIFT'')
                                          else upper (ur_status u)) units,
              cmp_summaries = Some (map (\<lambda>(h, r). (h, summary r)) reports)\<rparr>))))"

section \<open>Units against each other\<close>

definition append_at :: "string \<Rightarrow> 'a \<Rightarrow> (string, 'a list) dict \<Rightarrow> (string, 'a list) dict" where
  "append_at k x d = dict_set k ((case map_of d k of None \<Rightarrow> [] | Some xs \<Rightarrow> xs) @ [x]) d"

fun add_drift :: "string \<Rightarrow> (string, bool) dict \<Rightarrow> (string, string list) dict \<Rightarrow> (string, string list) dict" where
  "add_drift m [] acc = acc"
| "add_drift m ((h, d) # ds) acc = add_drift m ds (if d then append_at h m acc else acc)"

definition version_row :: "unit_record list \<Rightarrow> unit_record option \<Rightarrow> string \<Rightarrow> matrix_row" where
  "version_row oks reference m =
     (let cells = by_host (\<lambda>u. map_of (ur_module_versions u) m) oks;
          base = baseline_of (map snd cells) (case reference of None \<Rightarrow> None | Some r \<Rightarrow> map_of (ur_module_versions r) m)
      in \<lparr>mr_module = m, mr_baseline = base, mr_cells = cells, mr_differs = map (\<lambda>(h, v). (h, v \<noteq> base)) cells\<rparr>)"

definition compare_units :: "unit_record list \<Rightarrow> unit_record option \<Rightarrow> comparison res" where
  "compare_units units reference =
     (let oks = filter is_ok units;
          ref_mv = (case reference of None \<Rightarrow> [] | Some r \<Rightarrow> ur_module_versions r);
          all_modules = sorted_set (concat (map (\<lambda>u. keys (ur_module_versions u)) oks) @ keys ref_mv)
      in bind_res (baseline_json (map ur_payload_hash oks) (case reference of None \<Rightarrow> JNull | Some r \<Rightarrow> ur_payload_hash r)) (\<lambda>hash.
         let matrix = map (version_row oks reference) all_modules;
             drift = foldl (\<lambda>acc row. add_drift (mr_module row) (mr_differs row) acc) (by_host (\<lambda>u. []) oks) matrix
         in Inr \<lparr>cmp_baseline_hash = hash, cmp_modules = all_modules, cmp_matrix = matrix, cmp_drift = drift,
                 cmp_verdicts = by_host (\<lambda>u. if is_ok u
                     then (if ur_payload_hash u = hash \<and> map_of drift (ur_host u) \<in> {None, Some []} then ''IN SYNC'' else ''DRIFT'')
                     else upper (ur_status u)) units,
                 cmp_summaries = None\<rparr>))"

section \<open>The upstream repositories\<close>

datatype repo_state = RepoOk | RepoDiffers | RepoMissing | RepoNa | RepoUnpinned | RepoUnverified

record repo_row =
  rr_dir :: string
  rr_baseline :: json
  rr_pinned :: json
  rr_cells :: "(string, json) dict"
  rr_states :: "(string, repo_state) dict"

record repo_comparison =
  rc_dirs :: "string list"
  rc_matrix :: "repo_row list"
  rc_drift :: "(string, string list) dict"
  rc_consistent :: nat
  rc_total :: nat
  rc_divergent :: "string list"
  rc_any_data :: bool

definition repo_at :: "unit_record \<Rightarrow> string \<Rightarrow> (string, json) dict" where
  "repo_at u d = (case map_of (ur_repos u) d of None \<Rightarrow> [] | Some row \<Rightarrow> row)"

definition or_null :: "json \<Rightarrow> json" where
  "or_null v = (if truthy v then v else JNull)"

definition or_empty :: "json \<Rightarrow> json" where
  "or_empty v = (if truthy v then v else JStr [])"

text \<open>The clone dirs a role pulls, from the rows of \<open>tools/mast-repos.tsv\<close>.\<close>

definition row_roles :: "string \<Rightarrow> string list" where
  "row_roles s = filter (\<lambda>r. r \<noteq> []) (map strip (split_on (CHR '','') s))"

definition wanted_dir :: "string \<Rightarrow> string \<Rightarrow> string option" where
  "wanted_dir role line =
     (if strip line = [] \<or> startswith ''#'' (lstrip line) then None
      else let parts = split_on (CHR 9) line in
        if length parts < 4 then None
        else if role \<in> set (row_roles (parts ! 2)) \<or> ''all'' \<in> set (row_roles (parts ! 2)) then Some (strip (hd parts))
        else None)"

definition expected_repo_dirs :: "string option \<Rightarrow> string \<Rightarrow> string list" where
  "expected_repo_dirs tsv role = (case tsv of None \<Rightarrow> [] | Some t \<Rightarrow> somes (map (wanted_dir role) (splitlines t)))"

definition repo_state_of :: "string list \<Rightarrow> string \<Rightarrow> json \<Rightarrow> (string, json) dict \<Rightarrow> repo_state" where
  "repo_state_of want d base row =
     (if row = [] then (if d \<in> set want then RepoMissing else RepoNa)
      else if field row ''fetch_ok'' = JBool False then RepoUnverified
      else if truthy (or_empty (field row ''rev'')) \<and> or_empty (field row ''head'') \<noteq> JStr ''HEAD'' then RepoUnpinned
      else if or_null (field row ''resolved_sha'') \<noteq> base then RepoDiffers
      else RepoOk)"

text \<open>The pins the units carry for a repository: the one, or all of them.\<close>

definition pinned_of :: "json list \<Rightarrow> json res" where
  "pinned_of revs =
     bind_res (map_res hashable revs) (\<lambda>revs.
     case remdups (filter (\<lambda>r. r \<noteq> JStr []) revs) of
       [r] \<Rightarrow> Inr r
     | rs \<Rightarrow> bind_res (map_res (\<lambda>r. case r of JStr t \<Rightarrow> Inr t | _ \<Rightarrow> Inl TypeError) rs) (\<lambda>ts. Inr (JStr (join '';'' (sort ts)))))"

definition repo_row_of :: "unit_record list \<Rightarrow> unit_record option \<Rightarrow> string list \<Rightarrow> string \<Rightarrow> repo_row res" where
  "repo_row_of oks reference want d =
     (let cells = by_host (\<lambda>u. or_null (field (repo_at u d) ''resolved_sha'')) oks;
          ref_sha = (case reference of None \<Rightarrow> JNull | Some r \<Rightarrow> field (repo_at r d) ''resolved_sha'')
      in bind_res (baseline_json (map snd cells) ref_sha) (\<lambda>base.
         bind_res (pinned_of (map (\<lambda>u. or_empty (field (repo_at u d) ''rev'')) oks)) (\<lambda>pinned.
         Inr \<lparr>rr_dir = d, rr_baseline = base, rr_pinned = pinned, rr_cells = cells,
              rr_states = by_host (\<lambda>u. repo_state_of want d base (repo_at u d)) oks\<rparr>)))"

definition drifting :: "repo_state \<Rightarrow> bool" where
  "drifting s \<longleftrightarrow> s \<noteq> RepoOk \<and> s \<noteq> RepoNa"

text \<open>The drift of a row, a unit at a time: two units of one name both add to its list.\<close>

fun add_repo_drift :: "string list \<Rightarrow> repo_row \<Rightarrow> unit_record list \<Rightarrow> (string, string list) dict \<Rightarrow> (string, string list) dict" where
  "add_repo_drift want row [] acc = acc"
| "add_repo_drift want row (u # us) acc =
     add_repo_drift want row us
       (if drifting (repo_state_of want (rr_dir row) (rr_baseline row) (repo_at u (rr_dir row)))
        then append_at (ur_host u) (rr_dir row) acc else acc)"

definition row_consistent :: "repo_row \<Rightarrow> bool" where
  "row_consistent r \<longleftrightarrow>
     list_all (\<lambda>s. s = RepoOk) (filter (\<lambda>s. s \<noteq> RepoNa) (map snd (rr_states r))) \<and> RepoOk \<in> set (map snd (rr_states r))"

definition compare_repos :: "unit_record list \<Rightarrow> unit_record option \<Rightarrow> string list \<Rightarrow> repo_comparison res" where
  "compare_repos units reference want =
     (let oks = filter is_ok units;
          ref_repos = (case reference of None \<Rightarrow> [] | Some r \<Rightarrow> ur_repos r);
          all_dirs = sorted_set (concat (map (\<lambda>u. keys (ur_repos u)) oks) @ keys ref_repos @ want)
      in bind_res (map_res (repo_row_of oks reference want) all_dirs) (\<lambda>matrix.
         Inr \<lparr>rc_dirs = all_dirs, rc_matrix = matrix,
              rc_drift = foldl (\<lambda>acc row. add_repo_drift want row oks acc) (by_host (\<lambda>u. []) oks) matrix,
              rc_consistent = length (filter row_consistent matrix), rc_total = length matrix,
              rc_divergent = map rr_dir (filter (\<lambda>r. \<not> row_consistent r) matrix),
              rc_any_data = list_ex (\<lambda>u. ur_repos u \<noteq> []) oks\<rparr>))"

section \<open>The facts\<close>

record fact_row =
  fr_module :: string
  fr_key :: string
  fr_cells :: "(string, string option) dict"
  fr_divergent :: bool
  fr_reported_by :: nat

definition fact_keys :: "unit_record \<Rightarrow> (string \<times> string) list" where
  "fact_keys u = concat (map (\<lambda>(m, b). map (\<lambda>k. (m, k)) (filter (\<lambda>k. k \<noteq> ''observed_at'') (keys b))) (ur_facts u))"

definition fact_at :: "unit_record \<Rightarrow> string \<Rightarrow> string \<Rightarrow> json" where
  "fact_at u m k = field (case map_of (ur_facts u) m of None \<Rightarrow> [] | Some b \<Rightarrow> b) k"

definition fact_row_of :: "unit_record list \<Rightarrow> string \<times> string \<Rightarrow> fact_row" where
  "fact_row_of oks mk =
     (let cells = by_host (\<lambda>u. map_option py_str (some_json (fact_at u (fst mk) (snd mk)))) oks;
          present = somes (map snd cells)
      in \<lparr>fr_module = fst mk, fr_key = snd mk, fr_cells = cells,
          fr_divergent = (1 < length (remdups present)), fr_reported_by = length present\<rparr>)"

definition compare_facts :: "unit_record list \<Rightarrow> fact_row list" where
  "compare_facts units =
     (let oks = filter is_ok units in map (fact_row_of oks) (sorted_set (concat (map fact_keys oks))))"

end
