(* ===== verification/Fleet_Bootstrap.thy ===== *)
theory Fleet_Bootstrap
  imports Fleet_Compare
begin

text \<open>
  The bootstrap elements a unit may be missing and who fixes them, and the live update state of the
  units, as \<open>src/tools/fleet-drift-report.py\<close> works them out.
\<close>

section \<open>The declared elements\<close>

definition load_bootstrap_elements :: "string option \<Rightarrow> json res" where
  "load_bootstrap_elements file = (case file of None \<Rightarrow> Inr (JObj []) | Some text \<Rightarrow> json_loads text)"

text \<open>\<open>$script:BootstrapVersion = n\<close>, the first one in the script.\<close>

definition match_version :: "string \<Rightarrow> int option" where
  "match_version s =
     (case take_prefix ''$script:BootstrapVersion'' s of
        None \<Rightarrow> None
      | Some r \<Rightarrow> (case take_prefix ''='' (dropWhile is_space r) of
          None \<Rightarrow> None
        | Some r \<Rightarrow> (let ds = takeWhile is_digit (dropWhile is_space r) in
            if ds = [] then None else Some (int (digits_val ds)))))"

fun search_version :: "string \<Rightarrow> int option" where
  "search_version [] = None"
| "search_version (c # s) = (case match_version (c # s) of Some n \<Rightarrow> Some n | None \<Rightarrow> search_version s)"

definition repo_bootstrap_version :: "string option \<Rightarrow> int option" where
  "repo_bootstrap_version file = (case file of None \<Rightarrow> None | Some text \<Rightarrow> search_version text)"

section \<open>Who fixes what\<close>

definition SELF_HEALING_KINDS :: "string list" where "SELF_HEALING_KINDS = [''routine'']"

definition element_id :: "json \<Rightarrow> string res" where
  "element_id e = bind_res (jindex e ''id'') (\<lambda>i. Inr (py_str i))"

definition element_kind :: "json \<Rightarrow> (string \<times> string) res" where
  "element_kind e =
     bind_res (element_id e) (\<lambda>i. bind_res (jget_default e ''reassert'' (JStr [])) (\<lambda>k. Inr (i, py_str k)))"

definition kind_at :: "(string, string) dict \<Rightarrow> string \<Rightarrow> string" where
  "kind_at kind_of i = (case map_of kind_of i of None \<Rightarrow> ''unclassified'' | Some k \<Rightarrow> if k = [] then ''unclassified'' else k)"

fun group_by_kind :: "(string \<Rightarrow> string) \<Rightarrow> string list \<Rightarrow> (string, string list) dict \<Rightarrow> (string, string list) dict" where
  "group_by_kind kind [] acc = acc"
| "group_by_kind kind (i # is) acc = group_by_kind kind is (append_at (kind i) i acc)"

definition split_by_kind :: "string list \<Rightarrow> json list \<Rightarrow> (string, string list) dict res" where
  "split_by_kind missing elements =
     bind_res (map_res element_kind elements) (\<lambda>kinds.
     Inr (group_by_kind (kind_at (dict_of_pairs kinds [])) missing []))"

section \<open>The gaps of a unit\<close>

datatype boot_state = Unstamped | Outdated | Current

record reassert =
  ra_state :: string
  ra_at :: string
  ra_applied :: json

record boot_gap =
  bg_state :: boot_state
  bg_version :: "int option"
  bg_missing :: "string list"
  bg_by_kind :: "(string, string list) dict"
  bg_self_healing :: "string list"
  bg_needs_console :: "string list"
  bg_reassert :: "reassert option"

record floats =
  fl_trunc :: "string \<Rightarrow> int res"
  fl_above :: "string \<Rightarrow> int \<Rightarrow> bool"   \<comment> \<open>whether a float is greater than an integer\<close>

fun above :: "floats \<Rightarrow> json \<Rightarrow> int \<Rightarrow> bool res" where
  "above F (JInt i) v = Inr (v < i)"
| "above F (JBool b) v = Inr (v < (if b then 1 else 0))"
| "above F (JFloat t) v = Inr (fl_above F t v)"
| "above F _ v = Inl TypeError"

text \<open>The elements newer than a version.\<close>

fun newer_than :: "floats \<Rightarrow> int \<Rightarrow> json list \<Rightarrow> string list res" where
  "newer_than F v [] = Inr []"
| "newer_than F v (e # es) =
     bind_res (jget_default e ''since'' (JInt 0)) (\<lambda>s.
     bind_res (json_int (fl_trunc F) s) (\<lambda>since.
     bind_res (if v < since then bind_res (element_id e) (\<lambda>i. Inr [i]) else Inr []) (\<lambda>i.
     bind_res (newer_than F v es) (\<lambda>rest. Inr (i @ rest)))))"

definition missing_of_unit :: "floats \<Rightarrow> json \<Rightarrow> json list \<Rightarrow> string list \<Rightarrow> int option \<Rightarrow> (boot_state \<times> string list) res" where
  "missing_of_unit F current elements all_ids version =
     (case version of
        None \<Rightarrow> Inr (Unstamped, all_ids)
      | Some v \<Rightarrow>
          bind_res (if current \<noteq> JNull then above F current v else Inr False) (\<lambda>behind.
          if behind then bind_res (newer_than F v elements) (\<lambda>ids. Inr (Outdated, ids))
          else Inr (Current, [])))"

definition kind_list :: "(string, string list) dict \<Rightarrow> string \<Rightarrow> string list" where
  "kind_list d k = (case map_of d k of None \<Rightarrow> [] | Some xs \<Rightarrow> xs)"

definition reassert_of :: "unit_record \<Rightarrow> reassert option" where
  "reassert_of u =
     (let facts = (case map_of (ur_facts u) ''bootstrap-reassert'' of None \<Rightarrow> [] | Some f \<Rightarrow> f) in
      if truthy (field facts ''reassert_state'')
      then Some \<lparr>ra_state = py_str (field facts ''reassert_state''), ra_at = py_str (or_empty (field facts ''reassert_at'')),
                 ra_applied = field facts ''reassert_applied_count''\<rparr>
      else None)"

definition unit_gap :: "floats \<Rightarrow> json \<Rightarrow> json list \<Rightarrow> string list \<Rightarrow> unit_record \<Rightarrow> boot_gap res" where
  "unit_gap F current elements all_ids u =
     bind_res (missing_of_unit F current elements all_ids (ur_bootstrap_version u)) (\<lambda>(state, missing).
     bind_res (split_by_kind missing elements) (\<lambda>kinds.
     Inr \<lparr>bg_state = state, bg_version = ur_bootstrap_version u, bg_missing = missing, bg_by_kind = kinds,
          bg_self_healing = concat (map (kind_list kinds) SELF_HEALING_KINDS),
          bg_needs_console = kind_list kinds ''console'', bg_reassert = reassert_of u\<rparr>))"

record boot_report =
  br_current :: json
  br_by_host :: "(string, boot_gap) dict"

definition bootstrap_gaps :: "floats \<Rightarrow> unit_record list \<Rightarrow> json \<Rightarrow> boot_report res" where
  "bootstrap_gaps F units doc =
     bind_res (jget doc ''current_version'') (\<lambda>current.
     bind_res (if truthy doc then jget_default doc ''elements'' (JList []) else Inr (JList [])) (\<lambda>el.
     bind_res (jiter el) (\<lambda>elements.
     bind_res (map_res element_id elements) (\<lambda>all_ids.
     bind_res (map_res (\<lambda>u. bind_res (unit_gap F current elements all_ids u) (\<lambda>g. Inr (ur_host u, g))) units) (\<lambda>gaps.
     Inr \<lparr>br_current = current, br_by_host = dict_of_pairs gaps []\<rparr>)))))"

section \<open>The live update state\<close>

definition is_value_error :: "pyexc \<Rightarrow> bool" where
  "is_value_error e \<longleftrightarrow> (case e of ValueError \<Rightarrow> True | JSONDecodeError \<Rightarrow> True
     | UserError c m \<Rightarrow> c = ''ValueError'' \<or> c = ''ValidationError'' | _ \<Rightarrow> False)"

record patch_env =
  pe_text :: "pyexc \<Rightarrow> string"
  pe_validators :: validators
  pe_probe :: "json \<Rightarrow> os_probe res"              \<comment> \<open>\<open>OsProbe.model_validate\<close>\<close>
  pe_os_builds :: "string option"                  \<comment> \<open>the text of the declared builds\<close>
  pe_baselines :: "(string \<times> string) list"        \<comment> \<open>the baseline files, sorted by path\<close>

definition failed_text :: "string option \<Rightarrow> bool" where
  "failed_text e \<longleftrightarrow> (case e of None \<Rightarrow> False | Some t \<Rightarrow> t \<noteq> [])"

definition optional_text :: "string option \<Rightarrow> string" where
  "optional_text t = (case t of None \<Rightarrow> ''None'' | Some s \<Rightarrow> s)"

definition assess_unit :: "patch_env \<Rightarrow> os_builds \<Rightarrow> baselines \<Rightarrow> unit_record \<Rightarrow> (string + os_assessment) res" where
  "assess_unit E builds baselines u =
     (if ur_os_probe u = JNull then Inr (Inl (''probe failed: '' @ optional_text (ur_os_probe_error u)))
      else
        (case bind_res (pe_probe E (ur_os_probe u)) (\<lambda>p. assess p builds baselines) of
           Inr a \<Rightarrow> Inr (Inr a)
         | Inl e \<Rightarrow> if is_value_error e then Inr (Inl (''probe output rejected: '' @ pe_text E e)) else Inl e))"

definition assess_os_patch :: "patch_env \<Rightarrow> unit_record list \<Rightarrow> (string, string + os_assessment) dict res" where
  "assess_os_patch E units =
     (let probed = filter (\<lambda>u. ur_os_probe u \<noteq> JNull \<or> failed_text (ur_os_probe_error u)) units in
      if probed = [] then Inr []
      else
        bind_res (bind_res (load_json_object (case pe_os_builds E of None \<Rightarrow> Inl OSError | Some t \<Rightarrow> Inr t))
                    (v_os_builds (pe_validators E))) (\<lambda>builds.
        bind_res (load_baselines (pe_validators E) (pe_baselines E)) (\<lambda>baselines.
        bind_res (map_res (\<lambda>u. bind_res (assess_unit E builds baselines u) (\<lambda>a. Inr (ur_host u, a))) probed) (\<lambda>pairs.
        Inr (dict_of_pairs pairs [])))))"

end
