(* ===== verification/Transport_Answers.thy ===== *)
theory Transport_Answers
  imports Transport_Text
begin

text \<open>
  The texts \<open>src/server/prov/transport.py\<close> derives: the accounts a WinRM probe tries for the one of
  the vault, and the one line of log the error stream of a remote command becomes.
\<close>

section \<open>Accounts\<close>

text \<open>\<open>^\d{1,3}(\.\d{1,3}){3}$\<close>, whose \<open>$\<close> also stands before a final line feed.\<close>

definition looks_ipv4 :: "string \<Rightarrow> bool" where
  "looks_ipv4 host =
     (let h = (if host \<noteq> [] \<and> last host = CHR 10 then butlast host else host); parts = split_on CHR ''.'' h
      in length parts = 4 \<and> list_all (\<lambda>p. all_digits p \<and> length p \<le> 3) parts)"

definition dot_user :: "string \<Rightarrow> string" where
  "dot_user u = [CHR 46, CHR 92] @ u"

definition bare_user :: "string \<Rightarrow> string" where
  "bare_user u = (if startswith [CHR 46, CHR 92] u then drop 2 u
     else if CHR 92 \<in> set u then last (split_on (CHR 92) u) else u)"

definition candidate_users :: "string \<Rightarrow> string \<Rightarrow> string list" where
  "candidate_users host raw_user =
     (let u = strip raw_user in
      if u = [] then []
      else
        (let candidates =
           [u] @ (if startswith [CHR 46, CHR 92] u then [drop 2 u]
                  else if CHR 92 \<in> set u then [last (split_on (CHR 92) u)]
                  else [dot_user u])
           @ (if looks_ipv4 host then [host @ [CHR 92] @ bare_user u] else [])
         in fold (\<lambda>c out. if c \<noteq> [] \<and> c \<notin> set out then out @ [c] else out) candidates []))"

lemma ssh_username_bare: "ssh_username raw = bare_user (strip raw)"
  by (simp add: ssh_username_def bare_user_def Let_def)

section \<open>Replacing and finding\<close>

function (sequential) replace_str :: "string \<Rightarrow> string \<Rightarrow> string \<Rightarrow> string" where
  "replace_str pat r [] = []"
| "replace_str pat r (c # s) =
     (if pat \<noteq> [] \<and> startswith pat (c # s) then r @ replace_str pat r (drop (length pat) (c # s))
      else c # replace_str pat r s)"
  by pat_completeness auto
termination by (relation "measure (\<lambda>(p, r, s). length s)") auto

lemma partition_str_shorter: "length (snd (snd (partition_str sep s))) \<le> length s"
  by (induction sep s rule: partition_str.induct) (auto split: prod.splits)

lemma partition_rest_shorter:
  assumes "(a, b, rest) = partition_str sep (drop (length p) (c # s))" and "p \<noteq> []"
  shows "length rest < Suc (length s)"
proof -
  obtain n where n: "length p = Suc n" using assms(2) by (cases p) auto
  have "partition_str sep (drop n s) = (a, b, rest)" using assms(1) by (simp add: n)
  then have "length rest \<le> length (drop n s)" using partition_str_shorter [of sep "drop n s"] by simp
  then show ?thesis by simp
qed

text \<open>\<open>re.findall\<close> of what stands between an opening and the nearest closing text.\<close>

function (sequential) between :: "string \<Rightarrow> string \<Rightarrow> string \<Rightarrow> string list" where
  "between start_tag end_tag [] = []"
| "between start_tag end_tag (c # s) =
     (if start_tag \<noteq> [] \<and> startswith start_tag (c # s)
      then (case partition_str end_tag (drop (length start_tag) (c # s)) of
              (inner, found, rest) \<Rightarrow>
                if found = [] then between start_tag end_tag s else inner # between start_tag end_tag rest)
      else between start_tag end_tag s)"
  by pat_completeness auto
termination
  by (relation "measure (\<lambda>(p, q, s). length s)") (auto simp: partition_rest_shorter)

section \<open>The error stream\<close>

definition unescape_clixml_fragment :: "string \<Rightarrow> string" where
  "unescape_clixml_fragment s =
     join '' '' (split_ws (replace_str ''_x000D_'' '' '' (replace_str ''_x000A_'' '' ''
       (replace_str ''_x000D__x000A_'' '' '' s))))"

definition drop_clixml :: "string \<Rightarrow> string" where
  "drop_clixml t =
     (if startswith ''#<'' t
      then (let r = dropWhile is_space (drop 2 t)
            in if lower (take 6 r) = ''clixml'' then dropWhile is_space (drop 6 r) else t)
      else t)"

definition clixml_stream :: "string \<Rightarrow> string \<Rightarrow> string list" where
  "clixml_stream tag t =
     between (''<S S='' @ [CHR 34] @ tag @ [CHR 34] @ ''>'') ''</S>'' t"

definition stderr_markers :: "string list" where
  "stderr_markers = [''At line:'', ''At '', ''    + CategoryInfo'', ''    + FullyQualifiedErrorId'']"

fun cut_at_marker :: "string list \<Rightarrow> string \<Rightarrow> string" where
  "cut_at_marker [] t = t"
| "cut_at_marker (m # ms) t = (if contains m t then rstrip (fst (partition_str m t)) else cut_at_marker ms t)"

definition one_line :: "nat \<Rightarrow> string \<Rightarrow> string" where
  "one_line max_len t =
     (let l = join '' '' (split_ws (cut_at_marker stderr_markers t))
      in if length l > max_len then take (max_len - 3) l @ ''...'' else l)"

definition format_winrm_stderr :: "string \<Rightarrow> nat \<Rightarrow> string" where
  "format_winrm_stderr text max_len =
     (let t = strip text in
      if t = [] then []
      else
        (let t = strip (drop_clixml t) in
         if t = [] then []
         else if contains ''<Objs'' t
         then (let chunks = map unescape_clixml_fragment (clixml_stream ''Error'' t @ clixml_stream ''Warning'' t)
               in if chunks = [] then [] else one_line max_len (join '' '' chunks))
         else one_line max_len t))"

definition STDERR_MAX_LEN :: nat where "STDERR_MAX_LEN = 900"

lemma words_acc_no_space:
  "list_all (\<lambda>c. \<not> is_space c) w \<Longrightarrow> list_all (list_all (\<lambda>c. \<not> is_space c)) (words_acc s w)"
proof (induction s arbitrary: w)
  case (Cons c s)
  then show ?case using Cons.IH [of "[]"] Cons.IH [of "c # w"] by (cases "is_space c") simp_all
qed simp

lemma join_blank: "list_all (list_all (\<lambda>c. \<not> is_space c)) ws \<Longrightarrow> list_all (\<lambda>c. is_space c \<longrightarrow> c = CHR '' '') (join '' '' ws)"
  by (induction "'' ''" ws rule: join.induct) (auto simp: list_all_iff)

lemma linebreak_space: "is_linebreak c \<Longrightarrow> is_space c \<and> c \<noteq> CHR '' ''"
proof -
  assume l: "is_linebreak c"
  have "code (CHR '' '') = 32" by (simp add: code_def)
  then have "\<not> is_linebreak (CHR '' '')" by (simp add: is_linebreak_def)
  then show ?thesis using l by (auto simp: is_linebreak_def is_space_def)
qed

lemma one_line_bounds:
  assumes "3 \<le> n"
  shows "length (one_line n t) \<le> n" and "list_all (\<lambda>c. \<not> is_linebreak c) (one_line n t)"
proof -
  let ?l = "join '' '' (split_ws (cut_at_marker stderr_markers t))"
  have "list_all (\<lambda>c. is_space c \<longrightarrow> c = CHR '' '') ?l"
    by (rule join_blank) (simp add: split_ws_def words_acc_no_space)
  then have l: "list_all (\<lambda>c. \<not> is_linebreak c) ?l"
    using linebreak_space by (force simp: list_all_iff)
  then have "list_all (\<lambda>c. \<not> is_linebreak c) (take (n - 3) ?l)"
    by (auto simp: list_all_iff dest: in_set_takeD)
  moreover have "list_all (\<lambda>c. \<not> is_linebreak c) ''...''" by (simp add: is_linebreak_def code_def)
  ultimately show "list_all (\<lambda>c. \<not> is_linebreak c) (one_line n t)" using l by (simp add: one_line_def Let_def)
  show "length (one_line n t) \<le> n" using assms by (auto simp: one_line_def Let_def)
qed

text \<open>Whatever the error stream holds, the log gets at most one line of at most 900 characters.\<close>

lemma stderr_is_one_line:
  "length (format_winrm_stderr text STDERR_MAX_LEN) \<le> STDERR_MAX_LEN
   \<and> list_all (\<lambda>c. \<not> is_linebreak c) (format_winrm_stderr text STDERR_MAX_LEN)"
proof -
  have "3 \<le> STDERR_MAX_LEN" by (simp add: STDERR_MAX_LEN_def)
  note b = one_line_bounds [OF this]
  show ?thesis unfolding format_winrm_stderr_def Let_def by (auto simp: b)
qed

lemma candidate_fold:
  "distinct out \<Longrightarrow> [] \<notin> set out \<Longrightarrow>
     (let r = fold (\<lambda>c out. if c \<noteq> [] \<and> c \<notin> set out then out @ [c] else out) cs out
      in distinct r \<and> set r = set out \<union> (set cs - {[]}))"
proof (induction cs arbitrary: out)
  case (Cons c cs)
  show ?case using Cons.IH [of "if c \<noteq> [] \<and> c \<notin> set out then out @ [c] else out"] Cons.prems
    by (auto simp: Let_def split: if_splits)
qed (simp add: Let_def)

end
