(* ===== verification/Transport_Net.thy ===== *)
theory Transport_Net
  imports Effects Transport_Encode Transport_Answers
begin

text \<open>
  The world under \<open>src/server/prov/transport.py\<close>: paramiko, pywinrm, sockets and the clock answer
  questions, in order; the state keeps the number of questions asked, the monotonic clock, the
  account that last worked, and the timeline of what was done. And the loops of the source:
  bounded by fuel, with the contract under which a loop that watches the clock ends.
\<close>

section \<open>Sessions and responses\<close>

record ssh_session =
  ss_host :: string
  ss_user :: string
  ss_port :: nat
  ss_connect_timeout :: int

datatype unit_session = Ssh ssh_session | Winrm string string  \<comment> \<open>host and account\<close>

text \<open>\<open>_SshResponse\<close> and \<open>winrm.Response\<close>; a byte string is its characters.\<close>

record response =
  status_code :: int
  std_out :: string
  std_err :: string

section \<open>The timeline\<close>

type_synonym received = "(string \<times> string \<times> int \<times> bool) res"

datatype wact =
    LogLine string
  | LogRaw string
  | SshConnect string string int      \<comment> \<open>host, account and the timeout of the attempt\<close>
  | SshClose
  | Keepalive int
  | OpenedChannel
  | Exec string
  | CloseChannel
  | Pause int                         \<comment> \<open>nanoseconds of \<open>time.sleep\<close>\<close>
  | SftpOpened
  | SftpPut string string
  | SftpClose
  | Ping string string                \<comment> \<open>host and account\<close>
  | DisposeWinrm
  | OpenedShell string
  | StartedCommand string string      \<comment> \<open>shell and command\<close>
  | Receive string string received    \<comment> \<open>and what it answered\<close>
  | EvictPool
  | CleanupCommand string string
  | CloseShell string
  | WinrmRun string                   \<comment> \<open>\<open>Session.run_ps\<close> of pywinrm\<close>
  | Spawned "string list"             \<comment> \<open>a process of this machine\<close>
  | Terminated string                 \<comment> \<open>a process of this machine that was told to end\<close>
  | WebGet string
  | WroteFile string string           \<comment> \<open>a file of this machine and its text\<close>

section \<open>The world\<close>

text \<open>\<open>n_elapsed\<close> is the time a question takes. \<open>n_recv\<close> is what one drain of the channel reads
  until \<open>recv_ready\<close> is false.\<close>

record net =
  n_elapsed :: "nat \<Rightarrow> nat"
  n_connect :: "nat \<Rightarrow> string \<Rightarrow> string \<Rightarrow> int \<Rightarrow> unit res"
  n_has_transport :: "nat \<Rightarrow> bool"
  n_open_channel :: "nat \<Rightarrow> unit res"
  n_exec :: "nat \<Rightarrow> string \<Rightarrow> unit res"
  n_recv :: "nat \<Rightarrow> string res"
  n_recv_stderr :: "nat \<Rightarrow> string res"
  n_exit_ready :: "nat \<Rightarrow> bool"
  n_active :: "nat \<Rightarrow> bool"
  n_exit_status :: "nat \<Rightarrow> int"
  n_sftp_open :: "nat \<Rightarrow> unit res"
  n_sftp_put :: "nat \<Rightarrow> string \<Rightarrow> unit res"
  n_tcp :: "nat \<Rightarrow> string \<Rightarrow> nat \<Rightarrow> bool"
  n_ping :: "nat \<Rightarrow> string \<Rightarrow> string \<Rightarrow> int res"
  n_open_shell :: "nat \<Rightarrow> string res"
  n_start_command :: "nat \<Rightarrow> string \<Rightarrow> string res"
  n_receive :: "nat \<Rightarrow> received"
  n_cleanup :: "nat \<Rightarrow> unit res"
  n_close_shell :: "nat \<Rightarrow> unit res"
  n_clean_error :: "string \<Rightarrow> string"        \<comment> \<open>\<open>Session._clean_error_msg\<close> of pywinrm\<close>
  n_winrm_run :: "nat \<Rightarrow> string \<Rightarrow> response res"
  n_beats :: "nat \<Rightarrow> (int \<times> int) list"       \<comment> \<open>the watchdog's wake-ups, from its start\<close>

record wire =
  w_tick :: nat
  w_now :: int
  w_user :: string
  w_acts :: "wact list"

type_synonym 'a net_eff = "(wire, 'a) eff"

definition ns :: int where "ns = 1000000000"

definition query :: "net \<Rightarrow> (nat \<Rightarrow> 'a) \<Rightarrow> 'a net_eff" where
  "query N q = (\<lambda>s. (Inr (q (w_tick s)), s\<lparr>w_tick := w_tick s + 1, w_now := w_now s + int (n_elapsed N (w_tick s))\<rparr>))"

definition emit :: "wact \<Rightarrow> unit net_eff" where
  "emit a = modifyM (\<lambda>s. s\<lparr>w_acts := w_acts s @ [a]\<rparr>)"

text \<open>A call on the timeline before it answers, and one only once it succeeded.\<close>

definition call :: "net \<Rightarrow> wact \<Rightarrow> (nat \<Rightarrow> 'a res) \<Rightarrow> 'a net_eff" where
  "call N a q = seqM (emit a) (bindM (query N q) liftR)"

definition acquire :: "net \<Rightarrow> ('a \<Rightarrow> wact) \<Rightarrow> (nat \<Rightarrow> 'a res) \<Rightarrow> 'a net_eff" where
  "acquire N a q = bindM (bindM (query N q) liftR) (\<lambda>x. seqM (emit (a x)) (ret x))"

definition clock :: "net \<Rightarrow> int net_eff" where
  "clock N = seqM (query N (\<lambda>n. ())) (gets w_now)"

definition pause :: "int \<Rightarrow> unit net_eff" where
  "pause d = seqM (emit (Pause d)) (modifyM (\<lambda>s. s\<lparr>w_now := w_now s + d\<rparr>))"

definition log_line :: "string \<Rightarrow> unit net_eff" where
  "log_line m = emit (LogLine m)"

section \<open>Exceptions of the libraries\<close>

definition is_caught :: "pyexc \<Rightarrow> bool" where
  "is_caught e \<longleftrightarrow> (case e of SystemExit m \<Rightarrow> False | _ \<Rightarrow> True)"

definition attempt :: "'a net_eff \<Rightarrow> 'a res net_eff" where
  "attempt m = catchM (bindM m (\<lambda>a. ret (Inr a))) (\<lambda>e. if is_caught e then ret (Inl e) else raise e)"

definition describe :: "pyexc \<Rightarrow> string" where
  "describe e = exc_name e @ '': '' @ exc_msg e"

definition ssh_exception_classes :: "string list" where
  "ssh_exception_classes = [''SSHException'', ''AuthenticationException'', ''PasswordRequiredException'',
     ''BadAuthenticationType'', ''PartialAuthentication'', ''ChannelException'', ''BadHostKeyException'',
     ''IncompatiblePeer'', ''MessageOrderError'', ''ProxyCommandFailure'']"

definition is_class :: "string list \<Rightarrow> pyexc \<Rightarrow> bool" where
  "is_class cs e \<longleftrightarrow> (case e of UserError c m \<Rightarrow> c \<in> set cs | _ \<Rightarrow> False)"

text \<open>\<open>conn_errors\<close>; and \<open>_TRANSIENT_RECEIVE_EXCEPTIONS\<close> with the classes derived from them.\<close>

definition conn_error :: "pyexc \<Rightarrow> bool" where
  "conn_error e \<longleftrightarrow> is_os_error e \<or> e = EOFError \<or> is_class ssh_exception_classes e"

definition transient_receive :: "pyexc \<Rightarrow> bool" where
  "transient_receive e \<longleftrightarrow> is_class [''ReadTimeout'', ''ConnectTimeout'', ''ConnectionError'', ''ProxyError'',
     ''SSLError'', ''ChunkedEncodingError'', ''WinRMTransportError''] e"

definition operation_timeout :: "pyexc \<Rightarrow> bool" where
  "operation_timeout e \<longleftrightarrow> is_class [''WinRMOperationTimeoutError''] e"

section \<open>Loops\<close>

text \<open>\<open>while\<close> around a body that goes on with a new value or ends with a result; none when \<open>fuel\<close>
  passes did not end it.\<close>

fun loop_within :: "nat \<Rightarrow> ('a \<Rightarrow> ('s, 'a + 'b) eff) \<Rightarrow> 'a \<Rightarrow> ('s, 'b option) eff" where
  "loop_within 0 body a = ret None"
| "loop_within (Suc fuel) body a =
     bindM (body a) (\<lambda>r. case r of Inl a' \<Rightarrow> loop_within fuel body a' | Inr b \<Rightarrow> ret (Some b))"

lemma loop_within_again:
  "body a s = (Inr (Inl a'), s') \<Longrightarrow> loop_within (Suc fuel) body a s = loop_within fuel body a' s'"
  by (simp add: bindM_def)

text \<open>For the loops that end within their fuel.\<close>

definition loop_for :: "nat \<Rightarrow> ('a \<Rightarrow> ('s, 'a + 'b) eff) \<Rightarrow> 'a \<Rightarrow> ('s, 'b) eff" where
  "loop_for fuel body a =
     bindM (loop_within fuel body a) (\<lambda>r. case r of Some b \<Rightarrow> ret b | None \<Rightarrow> raise RuntimeError)"

text \<open>What a loop that watches a deadline promises: a pass that goes on began before the deadline
  and moved the clock by a positive step.\<close>

locale timed_loop =
  fixes body :: "'a \<Rightarrow> ('s, 'a + 'b) eff" and time :: "'s \<Rightarrow> int" and step deadline :: int and ok :: "'a \<Rightarrow> bool"
  assumes step_pos: "0 < step"
    and advances: "ok a \<Longrightarrow> body a s = (Inr (Inl a'), s') \<Longrightarrow> time s + step \<le> time s'"
    and in_time: "ok a \<Longrightarrow> body a s = (Inr (Inl a'), s') \<Longrightarrow> time s < deadline"
    and keeps_ok: "ok a \<Longrightarrow> body a s = (Inr (Inl a'), s') \<Longrightarrow> ok a'"
begin

lemma ends:
  "ok a \<Longrightarrow> deadline - time s \<le> int k * step \<Longrightarrow> k < fuel
     \<Longrightarrow> fst (loop_within fuel body a s) \<noteq> Inr None \<and> loop_within fuel body a s = loop_within (Suc k) body a s"
proof (induction k arbitrary: fuel a s)
  case 0
  then obtain f where f: "fuel = Suc f" by (cases fuel) auto
  have "\<not> (\<exists>a' s'. body a s = (Inr (Inl a'), s'))" using in_time [OF 0(1)] 0(2) by fastforce
  then show ?case
    unfolding f by (cases "body a s") (auto simp: bindM_def split: sum.splits)
next
  case (Suc k)
  then obtain f where f: "fuel = Suc f" "k < f" by (cases fuel) auto
  show ?case
  proof (cases "\<exists>a' s'. body a s = (Inr (Inl a'), s')")
    case True
    then obtain a' s' where b: "body a s = (Inr (Inl a'), s')" by blast
    have "deadline - time s' \<le> int k * step"
      using advances [OF Suc.prems(1) b] Suc.prems(2) by (simp add: distrib_right)
    note ih = Suc.IH [OF keeps_ok [OF Suc.prems(1) b] this f(2)]
    show ?thesis
      unfolding f(1) loop_within_again [of body, OF b] using ih by blast
  next
    case False
    then show ?thesis unfolding f(1) by (cases "body a s") (auto simp: bindM_def split: sum.splits)
  qed
qed

end

section \<open>Time only goes on\<close>

definition later :: "wire \<Rightarrow> wire \<Rightarrow> bool" where
  "later s s' \<longleftrightarrow> w_now s \<le> w_now s'"

definition passes :: "'a net_eff \<Rightarrow> bool" where
  "passes m \<longleftrightarrow> (\<forall>s. later s (snd (m s)))"

named_theorems timely \<open>programs during which the clock does not go back\<close>

lemma passesD: "passes m \<Longrightarrow> m s = (r, s') \<Longrightarrow> w_now s \<le> w_now s'"
  unfolding passes_def later_def by (metis snd_conv)

lemma passes_ret [timely]: "passes (ret a)" and passes_raise [timely]: "passes (raise e)"
  and passes_gets [timely]: "passes (gets f)" and passes_liftR [timely]: "passes (liftR r)"
  by (simp_all add: passes_def later_def)

lemma passes_query [timely]: "passes (query N q)"
  by (simp add: passes_def later_def query_def)

lemma passes_emit [timely]: "passes (emit a)"
  by (simp add: passes_def later_def emit_def)

lemma passes_user [timely]: "passes (modifyM (\<lambda>s. s\<lparr>w_user := u\<rparr>))"
  by (simp add: passes_def later_def)

lemma passes_pause [timely]: "0 \<le> d \<Longrightarrow> passes (pause d)"
  by (simp add: passes_def later_def pause_def seqM_def bindM_def emit_def)

lemma passes_bindM [timely]: "passes m \<Longrightarrow> (\<And>a. passes (f a)) \<Longrightarrow> passes (bindM m f)"
  unfolding passes_def later_def bindM_def
  by (auto split: prod.splits sum.splits) (metis order_trans snd_conv)+

lemma passes_seqM [timely]: "passes m \<Longrightarrow> passes n \<Longrightarrow> passes (seqM m n)"
  unfolding seqM_def by (rule passes_bindM)

lemma passes_catchM [timely]: "passes m \<Longrightarrow> (\<And>e. passes (h e)) \<Longrightarrow> passes (catchM m h)"
  unfolding passes_def later_def catchM_def
  by (auto split: prod.splits sum.splits) (metis order_trans snd_conv)+

lemma passes_finallyM [timely]: "passes m \<Longrightarrow> passes fin \<Longrightarrow> passes (finallyM m fin)"
  unfolding passes_def later_def finallyM_def
  by (auto split: prod.splits sum.splits) (metis order_trans snd_conv)+

lemma passes_if [timely]: "passes m \<Longrightarrow> passes n \<Longrightarrow> passes (if b then m else n)"
  by simp

lemma passes_whenM [timely]: "passes m \<Longrightarrow> passes (whenM b m)"
  by (simp add: whenM_def passes_ret)

lemma passes_option [timely]: "passes m \<Longrightarrow> (\<And>y. passes (f y)) \<Longrightarrow> passes (case x of None \<Rightarrow> m | Some y \<Rightarrow> f y)"
  by (cases x) simp_all

lemma passes_sum [timely]: "(\<And>y. passes (f y)) \<Longrightarrow> (\<And>y. passes (g y)) \<Longrightarrow> passes (case x of Inl y \<Rightarrow> f y | Inr y \<Rightarrow> g y)"
  by (cases x) simp_all

lemma passes_prod [timely]: "(\<And>a b. passes (f a b)) \<Longrightarrow> passes (case p of (a, b) \<Rightarrow> f a b)"
  by (cases p) simp

lemma passes_loop: "(\<And>a. passes (body a)) \<Longrightarrow> passes (loop_within fuel body a)"
  by (induction fuel arbitrary: a) (auto intro!: timely)

lemma passes_calls [timely]:
  "passes (call N a q)" "passes (acquire N f r)" "passes (clock N)" "passes (log_line m)"
  unfolding call_def acquire_def clock_def log_line_def by (intro timely)+

lemma passes_attempt [timely]: "passes m \<Longrightarrow> passes (attempt m)"
  unfolding attempt_def by (intro timely)

section \<open>Passes that go on\<close>

text \<open>A pass begun at or after \<open>T\<close> goes on only with \<open>Q\<close>.\<close>

definition going :: "int \<Rightarrow> ('a \<Rightarrow> wire \<Rightarrow> bool) \<Rightarrow> ('a + 'b) net_eff \<Rightarrow> bool" where
  "going T Q m \<longleftrightarrow> (\<forall>s. T \<le> w_now s \<longrightarrow> (case m s of (Inr (Inl a), s') \<Rightarrow> Q a s' | _ \<Rightarrow> True))"

named_theorems goings \<open>rules for passes that go on\<close>

lemma goingD: "going (w_now s) Q m \<Longrightarrow> m s = (Inr (Inl a), s') \<Longrightarrow> Q a s'"
  unfolding going_def by (auto dest!: spec [where x = s])

lemma going_bind:
  assumes m: "passes m" and f: "\<And>a. going T Q (f a)"
  shows "going T Q (bindM m f)"
  unfolding going_def
proof (intro allI impI)
  fix s :: wire assume T: "T \<le> w_now s"
  show "case bindM m f s of (Inr (Inl a), s') \<Rightarrow> Q a s' | _ \<Rightarrow> True"
  proof (cases "m s")
    case (Pair r u)
    show ?thesis
    proof (cases r)
      case (Inr a)
      have "T \<le> w_now u" using T passesD [OF m Pair] by linarith
      with f [of a] show ?thesis using Pair Inr by (simp add: bindM_def going_def)
    qed (use Pair in \<open>simp add: bindM_def\<close>)
  qed
qed

lemma clock_run: "clock N s = (Inr (w_now (snd (clock N s))), snd (clock N s))"
  and clock_later: "w_now s \<le> w_now (snd (clock N s))"
  by (simp_all add: clock_def seqM_def bindM_def query_def)

lemma going_clock [goings]:
  assumes "\<And>now. T \<le> now \<Longrightarrow> going now Q (f now)"
  shows "going T Q (bindM (clock N) f)"
  unfolding going_def bindM_def
proof (intro allI impI)
  fix s :: wire assume "T \<le> w_now s"
  then have "T \<le> w_now (snd (clock N s))" using clock_later [of s N] by linarith
  from assms [OF this] show "case case clock N s of (Inl e, s') \<Rightarrow> (Inl e, s') | (Inr a, s') \<Rightarrow> f a s' of
      (Inr (Inl a), s') \<Rightarrow> Q a s' | _ \<Rightarrow> True"
    by (subst clock_run) (simp add: going_def)
qed

lemma going_ret [goings]: "going T Q (ret (Inr b))" and going_raise [goings]: "going T Q (raise e)"
  by (simp_all add: going_def)

lemma going_pause [goings]:
  "(\<And>s. T + d \<le> w_now s \<Longrightarrow> Q a s) \<Longrightarrow> going T Q (seqM (pause d) (ret (Inl a)))"
  by (simp add: going_def pause_def seqM_def bindM_def emit_def)

lemma going_seq: "passes m \<Longrightarrow> going T Q n \<Longrightarrow> going T Q (seqM m n)"
  unfolding seqM_def by (rule going_bind)

lemma going_if [goings]: "(b \<Longrightarrow> going T Q m) \<Longrightarrow> (\<not> b \<Longrightarrow> going T Q n) \<Longrightarrow> going T Q (if b then m else n)"
  by simp

lemma going_option [goings]:
  "going T Q m \<Longrightarrow> (\<And>y. going T Q (f y)) \<Longrightarrow> going T Q (case x of None \<Rightarrow> m | Some y \<Rightarrow> f y)"
  by (cases x) simp_all

lemma going_sum [goings]:
  "(\<And>y. going T Q (f y)) \<Longrightarrow> (\<And>y. going T Q (g y)) \<Longrightarrow> going T Q (case x of Inl y \<Rightarrow> f y | Inr y \<Rightarrow> g y)"
  by (cases x) simp_all

lemma going_prod [goings]: "(\<And>a b. going T Q (f a b)) \<Longrightarrow> going T Q (case p of (a, b) \<Rightarrow> f a b)"
  by (cases p) simp

end
