(* ===== verification/Transport_Ssh.thy ===== *)
theory Transport_Ssh
  imports Transport_Net
begin

text \<open>
  \<open>SshSession\<close>, \<open>ssh_session\<close> and \<open>wait_for_ssh\<close> of \<open>src/server/prov/transport.py\<close>: connecting,
  reconnecting with a growing delay, running a command to its exit status, writing a file.
\<close>

section \<open>Constants\<close>

definition SSH_PORT :: nat where "SSH_PORT = 22"
definition SSH_KEEPALIVE_S :: int where "SSH_KEEPALIVE_S = 30"
definition SSH_RECONNECT_ATTEMPTS :: nat where "SSH_RECONNECT_ATTEMPTS = 2"
definition SSH_RECONNECT_MAX_WAIT_S :: int where "SSH_RECONNECT_MAX_WAIT_S = 180"
definition SSH_RECONNECT_PROBE_TIMEOUT_S :: int where "SSH_RECONNECT_PROBE_TIMEOUT_S = 5"

text \<open>Delays are nanoseconds; their growth by a factor of 1.3 is rounded down to one.\<close>

definition SSH_RECONNECT_INITIAL_DELAY :: int where "SSH_RECONNECT_INITIAL_DELAY = ns"
definition SSH_RECONNECT_MAX_DELAY :: int where "SSH_RECONNECT_MAX_DELAY = 15 * ns"

definition next_delay :: "int \<Rightarrow> int" where
  "next_delay d = min SSH_RECONNECT_MAX_DELAY (d * 13 div 10)"

section \<open>Connecting\<close>

definition ssh_connect :: "net \<Rightarrow> ssh_session \<Rightarrow> int option \<Rightarrow> unit net_eff" where
  "ssh_connect N sess connect_timeout_s =
     (let timeout = (case connect_timeout_s of None \<Rightarrow> ss_connect_timeout sess | Some t \<Rightarrow> t) in
      seqM (call N (SshConnect (ss_host sess) (ss_user sess) timeout)
              (\<lambda>n. n_connect N n (ss_host sess) (ss_user sess) timeout))
           (bindM (query N (n_has_transport N)) (\<lambda>t. whenM t (emit (Keepalive SSH_KEEPALIVE_S)))))"

text \<open>\<open>SshSession(host, cred)\<close>: the account is the one of the credential at that moment.\<close>

definition ssh_session :: "net \<Rightarrow> string \<Rightarrow> nat \<Rightarrow> int \<Rightarrow> ssh_session net_eff" where
  "ssh_session N host port connect_timeout_s =
     bindM (gets w_user) (\<lambda>raw.
     let sess = \<lparr>ss_host = host, ss_user = ssh_username raw, ss_port = port, ss_connect_timeout = connect_timeout_s\<rparr> in
     seqM (ssh_connect N sess None) (ret sess))"

definition ssh_close :: "unit net_eff" where
  "ssh_close = emit SshClose"

text \<open>One probe of \<open>reconnect\<close>: the connection is back, or the last error once the window is over.\<close>

definition reconnect_body :: "net \<Rightarrow> ssh_session \<Rightarrow> int \<Rightarrow> int \<Rightarrow> (int + unit) net_eff" where
  "reconnect_body N sess deadline delay =
     bindM (catchM (seqM (ssh_connect N sess (Some SSH_RECONNECT_PROBE_TIMEOUT_S)) (ret None))
              (\<lambda>e. if conn_error e then ret (Some e) else raise e)) (\<lambda>failure.
     case failure of
       None \<Rightarrow> ret (Inr ())
     | Some e \<Rightarrow> bindM (clock N) (\<lambda>now.
         if deadline \<le> now then raise e
         else seqM (pause delay) (ret (Inl (next_delay delay)))))"

definition RECONNECT_FUEL :: nat where "RECONNECT_FUEL = 181"

definition reconnect :: "net \<Rightarrow> ssh_session \<Rightarrow> unit net_eff" where
  "reconnect N sess =
     seqM ssh_close
    (bindM (clock N) (\<lambda>now.
     loop_for RECONNECT_FUEL (reconnect_body N sess (now + SSH_RECONNECT_MAX_WAIT_S * ns)) SSH_RECONNECT_INITIAL_DELAY))"

section \<open>Running a script\<close>

text \<open>One pass of the wait: what is buffered is read, then the exit status, the transport and the
  deadline are looked at in this order. The value is what was read of the two streams.\<close>

definition drain :: "net \<Rightarrow> string \<times> string \<Rightarrow> (string \<times> string) net_eff" where
  "drain N read =
     bindM (bindM (query N (n_recv N)) liftR) (\<lambda>out.
     bindM (bindM (query N (n_recv_stderr N)) liftR) (\<lambda>err.
     ret (fst read @ out, snd read @ err)))"

definition ssh_wait_body :: "net \<Rightarrow> int \<Rightarrow> string \<times> string \<Rightarrow> ((string \<times> string) + (string \<times> string)) net_eff" where
  "ssh_wait_body N deadline read =
     bindM (drain N read) (\<lambda>read.
     bindM (query N (n_exit_ready N)) (\<lambda>exited.
     if exited then bindM (drain N read) (\<lambda>read. ret (Inr read))
     else
       bindM (query N (n_active N)) (\<lambda>active.
       if \<not> active then raise ConnectionError
       else
         bindM (clock N) (\<lambda>now.
         if deadline \<le> now then raise TimeoutError
         else seqM (pause (ns div 10)) (ret (Inl read))))))"

text \<open>Ten passes to a second.\<close>

definition ssh_fuel :: "int \<Rightarrow> nat" where
  "ssh_fuel timeout_s = Suc (nat (10 * timeout_s))"

definition ssh_run_ps :: "net \<Rightarrow> string \<Rightarrow> int \<Rightarrow> response net_eff" where
  "ssh_run_ps N script timeout_s =
     bindM (query N (n_has_transport N)) (\<lambda>t.
     if \<not> t then raise ConnectionError
     else
       seqM (acquire N (\<lambda>u. OpenedChannel) (n_open_channel N))
      (finallyM
        (seqM (call N (Exec (ssh_command script)) (\<lambda>n. n_exec N n (ssh_command script)))
        (bindM (clock N) (\<lambda>now.
         bindM (loop_for (ssh_fuel timeout_s) (ssh_wait_body N (now + timeout_s * ns)) ([], [])) (\<lambda>(out, err).
         bindM (query N (n_exit_status N)) (\<lambda>rc.
         if rc = -1 then raise ConnectionError
         else ret \<lparr>status_code = rc, std_out = out, std_err = err\<rparr>)))))
        (emit CloseChannel)))"

section \<open>Writing a file\<close>

definition put_file :: "net \<Rightarrow> string \<Rightarrow> string \<Rightarrow> unit net_eff" where
  "put_file N remote_path data =
     (let path = replace_char (CHR 92) ''/'' remote_path in
      seqM (acquire N (\<lambda>u. SftpOpened) (n_sftp_open N))
           (finallyM (call N (SftpPut path data) (\<lambda>n. n_sftp_put N n path)) (emit SftpClose)))"

section \<open>Waiting for SSH\<close>

text \<open>\<open>repr\<close> of an account name without quotes or control characters.\<close>

definition quoted :: "string \<Rightarrow> string" where
  "quoted u = [CHR 39] @ replace_char (CHR 92) [CHR 92, CHR 92] u @ [CHR 39]"

definition user_note :: "string \<Rightarrow> string" where
  "user_note u = ''(user='' @ quoted u @ '')''"

definition wait_for_ssh_body :: "net \<Rightarrow> string \<Rightarrow> nat \<Rightarrow> int \<Rightarrow> string \<Rightarrow> (string + ssh_session) net_eff" where
  "wait_for_ssh_body N host port deadline last_err =
     bindM (clock N) (\<lambda>now.
     if now < deadline
     then bindM (attempt (ssh_session N host port 20)) (\<lambda>r.
          case r of
            Inr s \<Rightarrow> bindM (gets w_user) (\<lambda>u.
              seqM (log_line (''SSH on '' @ host @ '' is ready '' @ user_note (ssh_username u) @ ''.''))
                   (ret (Inr s)))
          | Inl e \<Rightarrow> seqM (pause (5 * ns)) (ret (Inl (describe e))))
     else raise TimeoutError)"

definition wait_fuel :: "int \<Rightarrow> nat" where
  "wait_fuel timeout_s = Suc (nat (timeout_s div 5 + 1))"

definition wait_for_ssh :: "net \<Rightarrow> string \<Rightarrow> int \<Rightarrow> nat \<Rightarrow> ssh_session net_eff" where
  "wait_for_ssh N host timeout_s port =
     seqM (log_line (''Waiting for SSH on '' @ host @ '':'' @ nat_str port @ '' (up to '' @ int_str timeout_s @ ''s)...''))
    (bindM (clock N) (\<lambda>now.
     loop_for (wait_fuel timeout_s) (wait_for_ssh_body N host port (now + timeout_s * ns)) []))"

section \<open>The loops end\<close>

lemma seconds [simp]: "0 < ns" "0 \<le> ns" "ns div 10 = 100000000" "0 \<le> ns div 10"
  by (simp_all add: ns_def)

lemma passes_ssh [timely]:
  "passes (ssh_connect N sess t)" "passes (ssh_session N host port timeout_s)" "passes ssh_close" "passes (drain N read)"
  unfolding ssh_connect_def ssh_session_def ssh_close_def drain_def Let_def by (intro timely)+

text \<open>What a pass that goes on has done: the last thing is the sleep, after a look at the clock.\<close>

lemma reconnect_body_goes_on:
  "going T (\<lambda>d' s'. T + d \<le> w_now s' \<and> T < deadline \<and> d' = next_delay d) (reconnect_body N sess deadline d)"
  unfolding reconnect_body_def by (intro going_bind goings timely) auto

interpretation reconnecting: timed_loop "reconnect_body N sess deadline" w_now ns deadline "\<lambda>d. ns \<le> d"
  for N sess deadline
  by unfold_locales
     (auto dest!: goingD [OF reconnect_body_goes_on] simp: next_delay_def SSH_RECONNECT_MAX_DELAY_def ns_def)

lemma ssh_wait_body_goes_on:
  "going T (\<lambda>r s'. T + ns div 10 \<le> w_now s' \<and> T < deadline) (ssh_wait_body N deadline read)"
  unfolding ssh_wait_body_def by (intro goings going_bind timely) auto

interpretation waiting: timed_loop "ssh_wait_body N deadline" w_now "ns div 10" deadline "\<lambda>_. True"
  for N deadline
  by unfold_locales (auto dest!: goingD [OF ssh_wait_body_goes_on] simp: ns_def)

lemma wait_for_ssh_body_goes_on:
  "going T (\<lambda>r s'. T + 5 * ns \<le> w_now s' \<and> T < deadline) (wait_for_ssh_body N host port deadline l)"
  unfolding wait_for_ssh_body_def by (intro going_clock going_if going_bind goings going_seq timely) auto

interpretation booting: timed_loop "wait_for_ssh_body N host port deadline" w_now "5 * ns" deadline "\<lambda>_. True"
  for N host port deadline
  by unfold_locales (auto dest!: goingD [OF wait_for_ssh_body_goes_on] simp: ns_def)

end
