(* ===== verification/Transport_Winrm.thy ===== *)
theory Transport_Winrm
  imports Transport_Ssh
begin

text \<open>
  Running a script on a unit, over either transport (\<open>src/server/prov/transport.py\<close>): the Receive
  loop that outlives transient failures, the retries over SSH, the watchdog with its log lines,
  \<open>run_ps\<close> and the uploads.
\<close>

section \<open>The Receive loop\<close>

definition TRANSIENT_RETRY_BUDGET_S :: int where "TRANSIENT_RETRY_BUDGET_S = 600"
definition TRANSIENT_RETRY_BACKOFF_S :: int where "TRANSIENT_RETRY_BACKOFF_S = 3"

text \<open>What the loop keeps: the chunks of the two streams, the return code, and the deadline and
  first error of the failures since the last successful Receive.\<close>

record receive_state =
  stdout_chunks :: "string list"
  stderr_chunks :: "string list"
  return_code :: int
  transient_deadline :: "int option"
  transient_first_err :: string

definition no_output :: receive_state where
  "no_output = \<lparr>stdout_chunks = [], stderr_chunks = [], return_code = 0, transient_deadline = None,
     transient_first_err = []\<rparr>"

definition got_output :: "string \<Rightarrow> string \<Rightarrow> int \<Rightarrow> receive_state \<Rightarrow> receive_state" where
  "got_output out err rc st =
     \<lparr>stdout_chunks = stdout_chunks st @ [out], stderr_chunks = stderr_chunks st @ [err], return_code = rc,
      transient_deadline = None, transient_first_err = []\<rparr>"

definition receive_once :: "net \<Rightarrow> string \<Rightarrow> string \<Rightarrow> received net_eff" where
  "receive_once N shell command =
     bindM (query N (n_receive N)) (\<lambda>r. seqM (emit (Receive shell command r)) (ret r))"

definition receive_body :: "net \<Rightarrow> string \<Rightarrow> string \<Rightarrow> string \<Rightarrow> int \<Rightarrow> receive_state
    \<Rightarrow> (receive_state + receive_state) net_eff" where
  "receive_body N shell command label budget_s st =
     bindM (receive_once N shell command) (\<lambda>r.
     case r of
       Inr (out, err, rc, command_done) \<Rightarrow>
         seqM (whenM (transient_deadline st \<noteq> None)
                 (log_line (''  ... '' @ label @ '' WinRM recovered after transient errors'')))
              (ret (if command_done then Inr (got_output out err rc st) else Inl (got_output out err rc st)))
     | Inl e \<Rightarrow>
         if operation_timeout e then ret (Inl st)
         else if \<not> transient_receive e then raise e
         else
           bindM (clock N) (\<lambda>now.
           case transient_deadline st of
             None \<Rightarrow>
               seqM (log_line (''  ... '' @ label @ '' transient WinRM error ('' @ describe e @ ''); will retry up to ''
                       @ int_str budget_s @ ''s against the same shell''))
              (seqM (emit EvictPool)
              (seqM (pause (TRANSIENT_RETRY_BACKOFF_S * ns))
                    (ret (Inl (st\<lparr>transient_deadline := Some (now + budget_s * ns), transient_first_err := describe e\<rparr>)))))
           | Some deadline \<Rightarrow>
               if deadline \<le> now then raise RuntimeError
               else seqM (emit EvictPool) (seqM (pause (TRANSIENT_RETRY_BACKOFF_S * ns)) (ret (Inl st)))))"

text \<open>A command that is still running when \<open>fuel\<close> Receives are spent has no result.\<close>

definition resilient_get_command_output :: "nat \<Rightarrow> net \<Rightarrow> string \<Rightarrow> string \<Rightarrow> string \<Rightarrow> int
    \<Rightarrow> (string \<times> string \<times> int) option net_eff" where
  "resilient_get_command_output fuel N shell command label budget_s =
     bindM (loop_within fuel (receive_body N shell command label budget_s) no_output) (\<lambda>r.
     ret (map_option (\<lambda>st. (concat (stdout_chunks st), concat (stderr_chunks st), return_code st)) r))"

section \<open>Running a script\<close>

text \<open>The attempts over SSH: a dropped connection is waited out and the script run again, a timeout
  is not.\<close>

fun ssh_attempts :: "nat \<Rightarrow> net \<Rightarrow> ssh_session \<Rightarrow> string \<Rightarrow> int \<Rightarrow> string \<Rightarrow> response net_eff" where
  "ssh_attempts left N sess script timeout_s label =
     catchM (ssh_run_ps N script timeout_s) (\<lambda>e.
       if e = TimeoutError then raise e
       else if conn_error e then
         (case left of
            0 \<Rightarrow> raise e
          | Suc left' \<Rightarrow>
              seqM (log_line (''  ... '' @ label @ '' SSH connection dropped ('' @ describe e
                      @ ''); waiting for the channel to recover, then retrying (attempt ''
                      @ nat_str (SSH_RECONNECT_ATTEMPTS - left' + 1) @ ''/'' @ nat_str (SSH_RECONNECT_ATTEMPTS + 1) @ '')''))
             (seqM (reconnect N sess) (ssh_attempts left' N sess script timeout_s label)))
       else raise e)"

declare ssh_attempts.simps [simp del]

text \<open>\<open>try: ... except Exception\<close> around a release: it is logged and goes no further.\<close>

definition release :: "net \<Rightarrow> wact \<Rightarrow> (nat \<Rightarrow> unit res) \<Rightarrow> string \<Rightarrow> unit net_eff" where
  "release N a q what =
     bindM (attempt (call N a q)) (\<lambda>r. case r of Inr u \<Rightarrow> ret () | Inl e \<Rightarrow> log_line (what @ exc_msg e))"

text \<open>The \<open>finally\<close> of a block that may still be running, in which case it is not reached.\<close>

definition finally_done :: "'a option net_eff \<Rightarrow> unit net_eff \<Rightarrow> 'a option net_eff" where
  "finally_done m fin = (\<lambda>s. case m s of (Inr None, s') \<Rightarrow> (Inr None, s') | _ \<Rightarrow> finallyM m fin s)"

definition winrm_run_ps :: "nat \<Rightarrow> net \<Rightarrow> string \<Rightarrow> string \<Rightarrow> int \<Rightarrow> response option net_eff" where
  "winrm_run_ps fuel N script label budget_s =
     bindM (acquire N OpenedShell (n_open_shell N)) (\<lambda>shell.
     bindM (finally_done
       (bindM (acquire N (StartedCommand shell) (\<lambda>n. n_start_command N n (winrm_command script))) (\<lambda>command.
        finally_done (resilient_get_command_output fuel N shell command label budget_s)
          (release N (CleanupCommand shell command) (n_cleanup N)
             (''  ... '' @ label @ '' cleanup_command failed (ignored): ''))))
       (release N (CloseShell shell) (n_close_shell N) (''  ... '' @ label @ '' close_shell failed (ignored): '')))
     (\<lambda>r. ret (map_option (\<lambda>(out, err, rc).
        \<lparr>status_code = rc, std_out = out, std_err = (if err \<noteq> [] then n_clean_error N err else err)\<rparr>) r)))"

definition resilient_run_ps :: "nat \<Rightarrow> net \<Rightarrow> unit_session \<Rightarrow> string \<Rightarrow> string \<Rightarrow> int \<Rightarrow> response option net_eff" where
  "resilient_run_ps fuel N sess script label timeout_s =
     (case sess of
        Ssh s \<Rightarrow> bindM (ssh_attempts SSH_RECONNECT_ATTEMPTS N s script timeout_s label) (\<lambda>r. ret (Some r))
      | Winrm host user \<Rightarrow> winrm_run_ps fuel N script label TRANSIENT_RETRY_BUDGET_S)"

section \<open>The watchdog\<close>

definition HEARTBEAT_INTERVAL_S :: int where "HEARTBEAT_INTERVAL_S = 30"
definition HEARTBEAT_MAX_GAP_S :: int where "HEARTBEAT_MAX_GAP_S = 120"
definition HEARTBEAT_ESCALATE_S :: int where "HEARTBEAT_ESCALATE_S = 600"
definition HEARTBEAT_ESCALATE_GAP_S :: int where "HEARTBEAT_ESCALATE_GAP_S = 300"

text \<open>What the watchdog keeps: the last line, and the gap to the next (nanoseconds and seconds).\<close>

record beat_state =
  last_log :: int
  log_gap :: int

definition elapsed_s :: "int \<Rightarrow> int \<Rightarrow> int" where
  "elapsed_s now start = (now - start) div ns"

definition beat_line :: "string \<Rightarrow> int \<Rightarrow> int \<Rightarrow> string" where
  "beat_line label elapsed since_step =
     (if HEARTBEAT_ESCALATE_S \<le> elapsed
      then ''  [WARN] '' @ label @ '' STILL running after '' @ fmt_mmss (nat elapsed) @ '' (step ''
           @ fmt_mmss (nat since_step) @ '') - unusually long, may be stuck''
      else ''  ... '' @ label @ '' still running ('' @ fmt_mmss (nat elapsed) @ '' elapsed, step ''
           @ fmt_mmss (nat since_step) @ '')'')"

definition next_gap :: "int \<Rightarrow> int \<Rightarrow> int" where
  "next_gap elapsed gap =
     (if HEARTBEAT_ESCALATE_S \<le> elapsed then HEARTBEAT_ESCALATE_GAP_S else min HEARTBEAT_MAX_GAP_S (gap * 2))"

text \<open>The wake-ups at which the worker was still alive, each with the clock and the start of the
  step: the lines with their times, and whether the timeout was reached.\<close>

fun beats :: "string \<Rightarrow> int \<Rightarrow> int \<Rightarrow> (int \<times> int) list \<Rightarrow> beat_state \<Rightarrow> (int \<times> string) list \<times> bool" where
  "beats label timeout_s start [] b = ([], False)"
| "beats label timeout_s start ((now, step_start) # ws) b =
     (let elapsed = elapsed_s now start;
          due = log_gap b * ns \<le> now - last_log b;
          b' = (if due then \<lparr>last_log = now, log_gap = next_gap elapsed (log_gap b)\<rparr> else b);
          line = (if due then [(now, beat_line label elapsed (elapsed_s now step_start))] else [])
      in if timeout_s \<le> elapsed then (line, True)
         else (case beats label timeout_s start ws b' of (ls, t) \<Rightarrow> (line @ ls, t)))"

text \<open>\<open>_run_with_heartbeat\<close>: the work runs in its own thread; what it did comes first here, the
  lines of the watchdog after it. A run that has no result yet only ends by the timeout.\<close>

definition run_with_heartbeat :: "net \<Rightarrow> 'a option net_eff \<Rightarrow> string \<Rightarrow> int \<Rightarrow> bool \<Rightarrow> 'a net_eff" where
  "run_with_heartbeat N work label timeout_s has_timer =
     bindM (clock N) (\<lambda>start. \<lambda>s.
       case work s of
         (r, s1) \<Rightarrow>
           bindM (query N (n_beats N)) (\<lambda>ws.
             (case beats label timeout_s start (map (\<lambda>(now, t). (now, if has_timer then t else start)) ws)
                     \<lparr>last_log = start, log_gap = HEARTBEAT_INTERVAL_S\<rparr> of
                (ls, timed_out) \<Rightarrow>
                  seqM (forM ls (\<lambda>(t, l). log_line l))
                       (if timed_out \<or> r = Inr None then raise TimeoutError
                        else bindM (liftR r) (\<lambda>x. case x of Some a \<Rightarrow> ret a | None \<Rightarrow> raise TimeoutError)))) s1)"

definition tag_of :: "string \<Rightarrow> string" where
  "tag_of label = (if label = [] then [] else ''['' @ label @ ''] '')"

definition run_ps :: "nat \<Rightarrow> net \<Rightarrow> unit_session \<Rightarrow> string \<Rightarrow> string \<Rightarrow> int \<Rightarrow> bool \<Rightarrow> bool \<Rightarrow> bool \<Rightarrow> response net_eff" where
  "run_ps fuel N sess script label timeout_s echo tee_stdout has_timer =
     (let tag = tag_of label in
      seqM (liftR (assert_inline_dispatchable script))
     (seqM (whenM echo (log_line (tag @ ''>>> '' @ rstrip (take 120 script))))
     (bindM (run_with_heartbeat N (resilient_run_ps fuel N sess script (tag @ ''run_ps'') timeout_s)
               (tag @ ''run_ps'') timeout_s has_timer) (\<lambda>r.
      seqM (whenM (tee_stdout \<and> std_out r \<noteq> []) (emit (LogRaw (rstrip (std_out r)))))
     (seqM (whenM (std_err r \<noteq> [])
              (let brief = format_winrm_stderr (std_err r) STDERR_MAX_LEN
               in whenM (brief \<noteq> []) (emit (LogRaw (''[stderr] '' @ brief)))))
           (ret r))))))"

definition check_rc :: "response \<Rightarrow> string \<Rightarrow> unit res" where
  "check_rc r phase = (if status_code r \<noteq> 0 then Inl RuntimeError else Inr ())"

section \<open>Uploads\<close>

definition upload_file_b64 :: "net \<Rightarrow> string \<Rightarrow> string \<Rightarrow> string \<Rightarrow> unit net_eff" where
  "upload_file_b64 N remote_path content label =
     (let script = upload_script remote_path content label in
      bindM (call N (WinrmRun script) (\<lambda>n. n_winrm_run N n script)) (\<lambda>r.
      seqM (whenM (strip (std_out r) \<noteq> []) (emit (LogRaw (strip (std_out r)))))
           (if status_code r \<noteq> 0 then raise RuntimeError else ret ())))"

definition upload_file :: "net \<Rightarrow> unit_session \<Rightarrow> string \<Rightarrow> string \<Rightarrow> string \<Rightarrow> unit net_eff" where
  "upload_file N sess remote_path content label =
     (case sess of
        Ssh s \<Rightarrow>
          seqM (put_file N remote_path (utf8 content))
               (log_line (''Uploaded '' @ label @ '' via SFTP ('' @ nat_str (length content) @ '' chars)''))
      | Winrm host user \<Rightarrow> upload_file_b64 N remote_path content label)"

end
