(* ===== verification/Transport_Connect.thy ===== *)
theory Transport_Connect
  imports Transport_Ssh
begin

text \<open>
  Reaching a unit (\<open>src/server/prov/transport.py\<close>): the WinRM probe with the accounts it tries,
  \<open>connect_unit\<close> with its two transports and its last attempt, \<open>wait_for_winrm\<close>, and the server's
  own address on the route to the unit.
\<close>

section \<open>The WinRM probe\<close>

definition WINRM_PORT :: nat where "WINRM_PORT = 5985"
definition WINRM_BOOT_TIMEOUT_S :: int where "WINRM_BOOT_TIMEOUT_S = 900"

datatype probe_state = ProbeOk | AuthRejected | ProbeDown

definition invalid_credentials :: "pyexc \<Rightarrow> bool" where
  "invalid_credentials e \<longleftrightarrow> is_class [''InvalidCredentialsError''] e"

text \<open>The ping of one account: its status, or the exception; the probing session is disposed of in
  either case.\<close>

definition ping :: "net \<Rightarrow> string \<Rightarrow> string \<Rightarrow> int res net_eff" where
  "ping N host user =
     finallyM (attempt (call N (Ping host user) (\<lambda>n. n_ping N n host user))) (emit DisposeWinrm)"

fun probe_users :: "net \<Rightarrow> string \<Rightarrow> bool \<Rightarrow> string list \<Rightarrow> (unit_session option \<times> probe_state) net_eff" where
  "probe_users N host rejected [] = ret (None, if rejected then AuthRejected else ProbeDown)"
| "probe_users N host rejected (user # users) =
     bindM (ping N host user) (\<lambda>r.
     case r of
       Inr rc \<Rightarrow>
         if rc = 0
         then seqM (modifyM (\<lambda>s. s\<lparr>w_user := user\<rparr>)) (ret (Some (Winrm host user), ProbeOk))
         else probe_users N host rejected users
     | Inl e \<Rightarrow> probe_users N host (rejected \<or> invalid_credentials e) users)"

definition winrm_probe_once :: "net \<Rightarrow> string \<Rightarrow> string list \<Rightarrow> (unit_session option \<times> probe_state) net_eff" where
  "winrm_probe_once N host users =
     bindM (query N (\<lambda>n. n_tcp N n host WINRM_PORT)) (\<lambda>up.
     if \<not> up then ret (None, ProbeDown) else probe_users N host False users)"

section \<open>Connecting to a unit\<close>

definition users_to_try :: "string \<Rightarrow> string \<Rightarrow> string list" where
  "users_to_try host raw = (let us = candidate_users host raw in if us = [] then [raw] else us)"

text \<open>One attempt over SSH; none when it is not ready, which is logged.\<close>

definition try_ssh :: "net \<Rightarrow> string \<Rightarrow> string \<Rightarrow> unit_session option net_eff" where
  "try_ssh N host advice =
     bindM (attempt (ssh_session N host SSH_PORT 20)) (\<lambda>r.
     case r of
       Inr s \<Rightarrow> bindM (gets w_user) (\<lambda>u.
         seqM (log_line (''Connected to '' @ host @ '' over SSH '' @ user_note (ssh_username u) @ ''.''))
              (ret (Some (Ssh s))))
     | Inl e \<Rightarrow> seqM (log_line (''  SSH not ready yet ('' @ describe e @ '')'' @ advice)) (ret None))"

definition try_winrm :: "net \<Rightarrow> string \<Rightarrow> string list \<Rightarrow> string \<Rightarrow> (unit_session option \<times> probe_state) net_eff" where
  "try_winrm N host users kind =
     bindM (winrm_probe_once N host users) (\<lambda>(sess, state).
     if state = ProbeOk
     then bindM (gets w_user) (\<lambda>u.
          seqM (log_line (''Connected to '' @ host @ '' over WinRM'' @ kind @ '' '' @ user_note u @ ''.''))
               (ret (sess, state)))
     else ret (None, state))"

definition connect_pass :: "net \<Rightarrow> string \<Rightarrow> string list \<Rightarrow> bool \<Rightarrow> bool \<Rightarrow> unit_session option net_eff" where
  "connect_pass N host users ssh_first allow_ssh_fallback =
     (if ssh_first
      then bindM (try_ssh N host ''; trying WinRM fallback...'') (\<lambda>s.
           case s of
             Some sess \<Rightarrow> ret (Some sess)
           | None \<Rightarrow> bindM (try_winrm N host users '' fallback'') (\<lambda>(sess, state). ret sess))
      else bindM (try_winrm N host users []) (\<lambda>(sess, state).
           if state = AuthRejected \<and> allow_ssh_fallback
           then try_ssh N host ''; will keep trying.''
           else ret sess))"

definition connect_body :: "net \<Rightarrow> string \<Rightarrow> string list \<Rightarrow> bool \<Rightarrow> bool \<Rightarrow> int \<Rightarrow> unit
    \<Rightarrow> (unit + unit_session option) net_eff" where
  "connect_body N host users ssh_first allow_ssh_fallback deadline u =
     bindM (clock N) (\<lambda>now.
     if now < deadline
     then bindM (connect_pass N host users ssh_first allow_ssh_fallback) (\<lambda>s.
          case s of
            Some sess \<Rightarrow> ret (Inr (Some sess))
          | None \<Rightarrow> seqM (pause (5 * ns)) (ret (Inl ())))
     else ret (Inr None))"

definition connect_unit :: "net \<Rightarrow> string \<Rightarrow> int \<Rightarrow> bool \<Rightarrow> string \<Rightarrow> unit_session net_eff" where
  "connect_unit N host winrm_wait_s allow_ssh_fallback preferred =
     (let ssh_first = (preferred = ''ssh'') in
      seqM (log_line (''Connecting to unit '' @ host @ '' ('' @ preferred @ ''-first, ''
              @ (if ssh_first then ''WinRM'' else ''SSH'') @ '' fallback)...''))
     (bindM (clock N) (\<lambda>now.
      bindM (gets w_user) (\<lambda>raw.
      bindM (loop_for (wait_fuel winrm_wait_s)
               (connect_body N host (users_to_try host raw) ssh_first allow_ssh_fallback (now + winrm_wait_s * ns)) ()) (\<lambda>s.
      case s of
        Some sess \<Rightarrow> ret sess
      | None \<Rightarrow>
          seqM (log_line (''Neither channel usable within '' @ int_str winrm_wait_s @ ''s; final SSH attempt...''))
               (bindM (wait_for_ssh N host 60 SSH_PORT) (\<lambda>s. ret (Ssh s))))))))"

section \<open>Waiting for WinRM\<close>

text \<open>One round over the accounts: true when one answered; else what each said.\<close>

fun ping_round :: "net \<Rightarrow> string \<Rightarrow> string list \<Rightarrow> string list \<Rightarrow> (bool \<times> string list) net_eff" where
  "ping_round N host errs [] = ret (False, errs)"
| "ping_round N host errs (user # users) =
     bindM (ping N host user) (\<lambda>r.
     case r of
       Inr rc \<Rightarrow>
         if rc = 0
         then seqM (modifyM (\<lambda>s. s\<lparr>w_user := user\<rparr>))
             (seqM (log_line (''WinRM on '' @ host @ '' is ready '' @ user_note user @ ''.'')) (ret (True, errs)))
         else ping_round N host errs users
     | Inl e \<Rightarrow> ping_round N host (errs @ [quoted user @ '':'' @ exc_name e]) users)"

definition last_four :: "string list \<Rightarrow> string list" where
  "last_four xs = drop (length xs - 4) xs"

definition winrm_diagnosis :: "string \<Rightarrow> bool \<Rightarrow> string list \<Rightarrow> string" where
  "winrm_diagnosis host tcp_ok errs =
     (if tcp_ok
      then ''WinRM: TCP 5985 open on '' @ host @ '' but Basic auth not accepted yet (''
           @ (if errs \<noteq> [] then join ''; '' (last_four errs) else ''no auth attempts'')
           @ ''). Confirm vault/creds.json matches the unit mast password and that bootstrap.ps1 finished (a Public network profile can also make WinRM Basic return 401).''
      else ''WinRM: TCP 5985 not open on '' @ host @ '' yet (still booting or wrong host?).'')"

text \<open>The value is the time of the last diagnosis.\<close>

definition wait_for_winrm_body :: "net \<Rightarrow> string \<Rightarrow> string list \<Rightarrow> int \<Rightarrow> int \<Rightarrow> (int + unit) net_eff" where
  "wait_for_winrm_body N host users deadline last_diag =
     bindM (clock N) (\<lambda>now.
     if now < deadline
     then
       bindM (query N (\<lambda>n. n_tcp N n host WINRM_PORT)) (\<lambda>tcp_ok.
       bindM (if tcp_ok then ping_round N host [] users else ret (False, [])) (\<lambda>(ready, errs).
       if ready then ret (Inr ())
       else
         bindM (clock N) (\<lambda>now.
         let due = 60 * ns \<le> now - last_diag in
         seqM (whenM due (log_line (winrm_diagnosis host tcp_ok errs)))
        (seqM (pause (5 * ns)) (ret (Inl (if due then now else last_diag)))))))
     else raise TimeoutError)"

definition wait_for_winrm :: "net \<Rightarrow> string \<Rightarrow> int \<Rightarrow> unit net_eff" where
  "wait_for_winrm N host timeout_s =
     seqM (log_line (''Waiting for WinRM on '' @ host @ '' (up to '' @ int_str timeout_s @ ''s)...''))
    (bindM (clock N) (\<lambda>now.
     bindM (gets w_user) (\<lambda>raw.
     loop_for (wait_fuel timeout_s) (wait_for_winrm_body N host (users_to_try host raw) (now + timeout_s * ns)) 0)))"

section \<open>The server's address on the route to a unit\<close>

text \<open>What \<open>connect\<close> and \<open>getsockname\<close> of a datagram socket answer is \<open>routed\<close>.\<close>

definition local_address_for :: "(string \<Rightarrow> string res) \<Rightarrow> string \<Rightarrow> string res" where
  "local_address_for routed peer_ip =
     (if peer_ip = [] then Inr []
      else case routed peer_ip of
             Inr a \<Rightarrow> Inr a
           | Inl e \<Rightarrow> if is_os_error e then Inr [] else Inl e)"

section \<open>The loops end\<close>

lemma passes_ping [timely]: "passes (ping N host user)"
  unfolding ping_def by (intro timely)

lemma passes_probe_users [timely]: "passes (probe_users N host rejected users)"
  by (induction users arbitrary: rejected) (auto intro!: timely)

lemma passes_ping_round [timely]: "passes (ping_round N host errs users)"
  by (induction users arbitrary: errs) (auto intro!: timely)

lemma passes_tries [timely]:
  "passes (winrm_probe_once N host users)" "passes (try_ssh N host advice)" "passes (try_winrm N host users kind)"
  "passes (connect_pass N host users ssh_first fallback)"
  unfolding winrm_probe_once_def try_ssh_def try_winrm_def connect_pass_def by (intro timely)+

lemma connect_body_goes_on:
  "going T (\<lambda>r s'. T + 5 * ns \<le> w_now s' \<and> T < deadline) (connect_body N host users ssh_first fallback deadline u)"
  unfolding connect_body_def by (intro going_clock going_if going_bind goings timely) auto

interpretation connecting: timed_loop "connect_body N host users ssh_first fallback deadline" w_now "5 * ns" deadline "\<lambda>_. True"
  for N host users ssh_first fallback deadline
  by unfold_locales (auto dest!: goingD [OF connect_body_goes_on] simp: ns_def)

lemma wait_for_winrm_body_goes_on:
  "going T (\<lambda>r s'. T + 5 * ns \<le> w_now s' \<and> T < deadline) (wait_for_winrm_body N host users deadline d)"
  unfolding wait_for_winrm_body_def Let_def
  by (intro going_clock going_if going_bind goings going_seq timely | auto)+

interpretation winrm_boot: timed_loop "wait_for_winrm_body N host users deadline" w_now "5 * ns" deadline "\<lambda>_. True"
  for N host users deadline
  by unfold_locales (auto dest!: goingD [OF wait_for_winrm_body_goes_on] simp: ns_def)

end
