(* ===== verification/Transport_Held.thy ===== *)
theory Transport_Held
  imports Transport_Winrm Transport_Connect
begin

text \<open>
  What the transport holds open on a unit: channels, shells, commands, SFTP clients. Whatever
  raises, a program that has ended has given back all it took.
\<close>

section \<open>What is held\<close>

datatype resource = Channel | Shell | Command | Sftp

fun weight :: "wact \<Rightarrow> resource \<Rightarrow> int" where
  "weight OpenedChannel = (\<lambda>_. 0)(Channel := 1)"
| "weight CloseChannel = (\<lambda>_. 0)(Channel := -1)"
| "weight (OpenedShell x) = (\<lambda>_. 0)(Shell := 1)"
| "weight (CloseShell x) = (\<lambda>_. 0)(Shell := -1)"
| "weight (StartedCommand x y) = (\<lambda>_. 0)(Command := 1)"
| "weight (CleanupCommand x y) = (\<lambda>_. 0)(Command := -1)"
| "weight SftpOpened = (\<lambda>_. 0)(Sftp := 1)"
| "weight SftpClose = (\<lambda>_. 0)(Sftp := -1)"
| "weight a = (\<lambda>_. 0)"

definition held :: "resource \<Rightarrow> wact list \<Rightarrow> int" where
  "held k as = sum_list (map (\<lambda>a. weight a k) as)"

lemma held_simps [simp]: "held k [] = 0" "held k (as @ bs) = held k as + held k bs" "held k [a] = weight a k"
  by (simp_all add: held_def)

text \<open>A program that changes what is held by \<open>d\<close>, however it ends; and one that leaves nothing if
  it has a result.\<close>

definition shifts :: "(resource \<Rightarrow> int) \<Rightarrow> 'a net_eff \<Rightarrow> bool" where
  "shifts d m \<longleftrightarrow> (\<forall>s k. held k (w_acts (snd (m s))) = held k (w_acts s) + d k)"

abbreviation settled :: "'a net_eff \<Rightarrow> bool" where
  "settled \<equiv> shifts (\<lambda>_. 0)"

definition shifts_done :: "(resource \<Rightarrow> int) \<Rightarrow> 'a option net_eff \<Rightarrow> bool" where
  "shifts_done d m \<longleftrightarrow> (\<forall>s k. fst (m s) \<noteq> Inr None \<longrightarrow> held k (w_acts (snd (m s))) = held k (w_acts s) + d k)"

named_theorems holds \<open>rules for what a program leaves held\<close>

lemma settled_ret [holds]: "settled (ret a)" and settled_raise [holds]: "settled (raise e)"
  and settled_gets [holds]: "settled (gets f)" and settled_liftR [holds]: "settled (liftR r)"
  and settled_query [holds]: "settled (query N q)"
  by (simp_all add: shifts_def query_def)

lemma shifts_emit: "shifts (weight a) (emit a)"
  by (simp add: shifts_def emit_def)

lemma settled_emit [holds]: "weight a = (\<lambda>_. 0) \<Longrightarrow> settled (emit a)"
  using shifts_emit [of a] by simp

lemma settled_user [holds]: "settled (modifyM (\<lambda>s. s\<lparr>w_user := u\<rparr>))"
  by (simp add: shifts_def)

lemma settled_time [holds]: "settled (modifyM (\<lambda>s. s\<lparr>w_now := w_now s + d\<rparr>))"
  by (simp add: shifts_def)

lemma settled_bindM [holds]: "settled m \<Longrightarrow> (\<And>a. settled (f a)) \<Longrightarrow> settled (bindM m f)"
  unfolding shifts_def bindM_def by (auto split: prod.splits sum.splits) (metis snd_conv)+

lemma settled_seqM [holds]: "settled m \<Longrightarrow> settled n \<Longrightarrow> settled (seqM m n)"
  unfolding seqM_def by (rule settled_bindM)

lemma settled_catchM [holds]: "settled m \<Longrightarrow> (\<And>e. settled (h e)) \<Longrightarrow> settled (catchM m h)"
  unfolding shifts_def catchM_def by (auto split: prod.splits sum.splits) (metis snd_conv)+

lemma settled_if [holds]: "settled m \<Longrightarrow> settled n \<Longrightarrow> settled (if b then m else n)"
  by simp

lemma settled_whenM [holds]: "settled m \<Longrightarrow> settled (whenM b m)"
  by (simp add: whenM_def settled_ret)

lemma settled_option [holds]: "settled m \<Longrightarrow> (\<And>y. settled (f y)) \<Longrightarrow> settled (case x of None \<Rightarrow> m | Some y \<Rightarrow> f y)"
  by (cases x) simp_all

lemma settled_sum [holds]: "(\<And>y. settled (f y)) \<Longrightarrow> (\<And>y. settled (g y)) \<Longrightarrow> settled (case x of Inl y \<Rightarrow> f y | Inr y \<Rightarrow> g y)"
  by (cases x) simp_all

lemma settled_prod [holds]: "(\<And>a b. settled (f a b)) \<Longrightarrow> settled (case p of (a, b) \<Rightarrow> f a b)"
  by (cases p) simp

lemma settled_forM [holds]: "(\<And>x. settled (f x)) \<Longrightarrow> settled (forM xs f)"
  by (induction xs) (auto intro!: holds)

lemma settled_loop [holds]: "(\<And>a. settled (body a)) \<Longrightarrow> settled (loop_within fuel body a)"
  by (induction fuel arbitrary: a) (auto intro!: holds)

lemma settled_loop_for [holds]: "(\<And>a. settled (body a)) \<Longrightarrow> settled (loop_for fuel body a)"
  unfolding loop_for_def by (intro holds)

lemma settled_clock [holds]: "settled (clock N)" and settled_pause [holds]: "settled (pause d)"
  and settled_log [holds]: "settled (log_line m)"
  unfolding clock_def pause_def log_line_def by (intro holds; simp)+


lemma settled_attempt [holds]: "settled m \<Longrightarrow> settled (attempt m)"
  unfolding attempt_def by (intro holds)

section \<open>Taking and giving back\<close>

lemma shifts_bindM: "shifts d m \<Longrightarrow> (\<And>a. settled (f a)) \<Longrightarrow> shifts d (bindM m f)"
  unfolding shifts_def bindM_def by (auto split: prod.splits sum.splits) (metis snd_conv)+

lemma shifts_catchM: "shifts d m \<Longrightarrow> (\<And>e. settled (h e)) \<Longrightarrow> shifts d (catchM m h)"
  unfolding shifts_def catchM_def by (auto split: prod.splits sum.splits) (metis snd_conv)+

lemma shifts_call: "shifts (weight a) (call N a q)"
  unfolding call_def seqM_def by (intro shifts_bindM shifts_emit holds)

lemma settled_call [holds]: "weight a = (\<lambda>_. 0) \<Longrightarrow> settled (call N a q)"
  using shifts_call [of a] by simp

lemma shifts_attempt: "shifts d m \<Longrightarrow> shifts d (attempt m)"
  unfolding attempt_def by (intro shifts_catchM shifts_bindM holds)

lemma shifts_release: "shifts (weight a) (release N a q what)"
  unfolding release_def by (intro shifts_bindM shifts_attempt shifts_call holds)

lemma shifts_finallyM: "settled m \<Longrightarrow> shifts d fin \<Longrightarrow> shifts d (finallyM m fin)"
  unfolding shifts_def finallyM_def by (auto split: prod.splits sum.splits) (metis snd_conv)+

lemma settled_finallyM [holds]: "settled m \<Longrightarrow> settled fin \<Longrightarrow> settled (finallyM m fin)"
  by (rule shifts_finallyM)

lemma acquire_cases:
  assumes "acquire N a q s = (r, s')"
  shows "(\<exists>e. r = Inl e \<and> w_acts s' = w_acts s) \<or> (\<exists>x. r = Inr x \<and> w_acts s' = w_acts s @ [a x])"
proof (cases "q (w_tick s)")
  case (Inl e)
  then have "r = Inl e \<and> w_acts s' = w_acts s" using assms by (auto simp: acquire_def bindM_def query_def)
  then show ?thesis by blast
next
  case (Inr x)
  then have "r = Inr x \<and> w_acts s' = w_acts s @ [a x]"
    using assms by (auto simp: acquire_def bindM_def query_def seqM_def emit_def)
  then show ?thesis by blast
qed

lemma bracket:
  assumes "\<And>x. shifts (\<lambda>k. - weight (a x) k) (body x)"
  shows "settled (bindM (acquire N a q) body)"
  unfolding shifts_def
proof (intro allI)
  fix s k
  obtain r s' where r: "acquire N a q s = (r, s')" by fastforce
  show "held k (w_acts (snd (bindM (acquire N a q) body s))) = held k (w_acts s) + 0"
    using acquire_cases [OF r] assms r by (auto simp: bindM_def shifts_def)
qed

lemma bracket_seq: "shifts (\<lambda>k. - weight a k) m \<Longrightarrow> settled (seqM (acquire N (\<lambda>u. a) q) m)"
  unfolding seqM_def by (rule bracket)

lemma done_bracket:
  assumes "\<And>x. shifts_done (\<lambda>k. - weight (a x) k) (body x)"
  shows "shifts_done (\<lambda>k. 0) (bindM (acquire N a q) body)"
  unfolding shifts_done_def
proof (intro allI impI)
  fix s k
  assume d: "fst (bindM (acquire N a q) body s) \<noteq> Inr None"
  obtain r s' where r: "acquire N a q s = (r, s')" by fastforce
  show "held k (w_acts (snd (bindM (acquire N a q) body s))) = held k (w_acts s) + 0"
    using acquire_cases [OF r] assms r d by (auto simp: bindM_def shifts_done_def)
qed

lemma shifts_finally_done:
  assumes m: "shifts_done (\<lambda>k. 0) m" and f: "shifts d fin"
  shows "shifts_done d (finally_done m fin)"
  unfolding shifts_done_def
proof (intro allI impI)
  fix s k
  assume d: "fst (finally_done m fin s) \<noteq> Inr None"
  obtain r s' where r: "m s = (r, s')" by fastforce
  have "r \<noteq> Inr None" using d r by (auto simp: finally_done_def)
  then have "held k (w_acts s') = held k (w_acts s)" and "finally_done m fin s = finallyM m fin s"
    using m r by (auto simp: shifts_done_def finally_done_def dest!: spec [where x = s] split: sum.splits option.splits)
  then show "held k (w_acts (snd (finally_done m fin s))) = held k (w_acts s) + d k"
    using f r by (auto simp: finallyM_def shifts_def split: prod.splits sum.splits) (metis snd_conv)+
qed

lemma done_settled: "settled m \<Longrightarrow> shifts_done (\<lambda>k. 0) m"
  by (simp add: shifts_done_def shifts_def)

lemma done_mapped:
  assumes "shifts_done d m"
  shows "shifts_done d (bindM m (\<lambda>r. ret (map_option f r)))"
  unfolding shifts_done_def
proof (intro allI impI)
  fix s k
  assume d: "fst (bindM m (\<lambda>r. ret (map_option f r)) s) \<noteq> Inr None"
  obtain r s' where r: "m s = (r, s')" by fastforce
  have "r \<noteq> Inr None" using d r by (auto simp: bindM_def)
  then have "held k (w_acts s') = held k (w_acts s) + d k"
    using assms r by (auto simp: shifts_done_def dest!: spec [where x = s])
  then show "held k (w_acts (snd (bindM m (\<lambda>r. ret (map_option f r)) s))) = held k (w_acts s) + d k"
    using r by (auto simp: bindM_def split: sum.splits)
qed

section \<open>The programs\<close>

lemma settled_ssh [holds]:
  "settled (ssh_connect N sess t)" "settled (ssh_session N host port timeout_s)" "settled (drain N read)"
  unfolding ssh_connect_def ssh_session_def drain_def Let_def by (intro holds; simp)+

lemma settled_reconnect [holds]: "settled (reconnect N sess)"
  unfolding reconnect_def reconnect_body_def ssh_close_def by (intro holds; simp)+

lemma gives_back:
  "shifts (\<lambda>k. - weight OpenedChannel k) (emit CloseChannel)" "shifts (\<lambda>k. - weight SftpOpened k) (emit SftpClose)"
  "shifts (\<lambda>k. - weight (StartedCommand x y) k) (release N (CleanupCommand x y) q what)"
  "shifts (\<lambda>k. - weight (OpenedShell x) k) (release N (CloseShell x) q what)"
proof -
  have eq: "(\<lambda>k. - weight OpenedChannel k) = weight CloseChannel" "(\<lambda>k. - weight SftpOpened k) = weight SftpClose"
    "(\<lambda>k. - weight (StartedCommand x y) k) = weight (CleanupCommand x y)"
    "(\<lambda>k. - weight (OpenedShell x) k) = weight (CloseShell x)" by (auto simp: fun_eq_iff)
  show "shifts (\<lambda>k. - weight OpenedChannel k) (emit CloseChannel)" "shifts (\<lambda>k. - weight SftpOpened k) (emit SftpClose)"
    unfolding eq by (rule shifts_emit)+
  show "shifts (\<lambda>k. - weight (StartedCommand x y) k) (release N (CleanupCommand x y) q what)"
    "shifts (\<lambda>k. - weight (OpenedShell x) k) (release N (CloseShell x) q what)"
    unfolding eq by (rule shifts_release)+
qed

lemma settled_wait_body [holds]: "settled (ssh_wait_body N deadline r)"
  unfolding ssh_wait_body_def by (intro holds)

lemma settled_ssh_run [holds]: "settled (ssh_run_ps N script timeout_s)"
proof -
  have body: "settled (seqM (call N (Exec (ssh_command script)) q) (bindM (clock N) (\<lambda>now.
         bindM (loop_for (ssh_fuel timeout_s) (ssh_wait_body N (now + timeout_s * ns)) ([], [])) (\<lambda>(out, err).
         bindM (query N (n_exit_status N)) (\<lambda>rc.
         if rc = -1 then raise ConnectionError
         else ret \<lparr>status_code = rc, std_out = out, std_err = err\<rparr>)))))" for q
    by (intro holds) simp
  show ?thesis
    unfolding ssh_run_ps_def
    by (rule settled_bindM [OF settled_query], rule settled_if [OF settled_raise])
       (rule bracket_seq [OF shifts_finallyM [OF body gives_back(1)]])
qed

lemma settled_ssh_attempts: "settled (ssh_attempts left N sess script timeout_s label)"
proof (induction left)
  case 0
  show ?case by (subst ssh_attempts.simps) (auto intro!: holds)
next
  case (Suc left)
  then show ?case by (subst ssh_attempts.simps) (auto intro!: holds)
qed

lemma settled_receive: "settled (resilient_get_command_output fuel N shell command label budget_s)"
  unfolding resilient_get_command_output_def receive_body_def receive_once_def by (intro holds; simp)

lemma done_winrm: "shifts_done (\<lambda>k. 0) (winrm_run_ps fuel N script label budget_s)"
  unfolding winrm_run_ps_def
  by (intro done_bracket done_mapped shifts_finally_done gives_back done_settled settled_receive)

lemma done_resilient: "shifts_done (\<lambda>k. 0) (resilient_run_ps fuel N sess script label timeout_s)"
  unfolding resilient_run_ps_def
  by (cases sess) (auto intro!: done_winrm done_settled settled_ssh_attempts holds)

lemma settled_put_file: "settled (put_file N path data)"
  unfolding put_file_def Let_def
  by (rule bracket_seq [OF shifts_finallyM [OF settled_call gives_back(2)]]) simp

lemma settled_upload: "settled (upload_file N sess path content label)"
  unfolding upload_file_def upload_file_b64_def Let_def
  by (cases sess) (auto intro!: holds settled_put_file)

lemma settled_probe: "settled (probe_users N host rejected users)"
  unfolding ping_def by (induction users arbitrary: rejected) (auto intro!: holds simp: ping_def)

lemma settled_connect: "settled (connect_unit N host winrm_wait_s fallback kind)"
  unfolding connect_unit_def connect_body_def connect_pass_def try_ssh_def try_winrm_def winrm_probe_once_def
    wait_for_ssh_def wait_for_ssh_body_def Let_def
  by (intro holds settled_probe)


end
