(* ===== verification/Fleet_Gather.thy ===== *)
theory Fleet_Gather
  imports Driver_Phases Fleet_Record Transport_Held
begin

text \<open>
  The live part of \<open>src/tools/fleet-drift-report.py\<close>: reading one unit over SSH and running the two
  uploaded probes on it, over the world of answers of the transport. Its commands have no deadline,
  so a command may never end: a run that did not within the fuel is none, and what follows it in
  the source, \<open>finally\<close> blocks too, is not reached.
\<close>

section \<open>A command without a deadline\<close>

definition bindD :: "('s, 'a option) eff \<Rightarrow> ('a \<Rightarrow> ('s, 'b option) eff) \<Rightarrow> ('s, 'b option) eff" where
  "bindD m f = bindM m (\<lambda>r. case r of None \<Rightarrow> ret None | Some x \<Rightarrow> f x)"

definition retD :: "'a \<Rightarrow> ('s, 'a option) eff" where
  "retD x = ret (Some x)"

definition open_wait_body :: "net \<Rightarrow> string \<times> string \<Rightarrow> ((string \<times> string) + (string \<times> string)) net_eff" where
  "open_wait_body N read =
     bindM (drain N read) (\<lambda>read.
     bindM (query N (n_exit_ready N)) (\<lambda>exited.
     if exited then bindM (drain N read) (\<lambda>read. ret (Inr read))
     else
       bindM (query N (n_active N)) (\<lambda>active.
       if \<not> active then raise ConnectionError
       else seqM (pause (ns div 10)) (ret (Inl read)))))"

definition run_open :: "nat \<Rightarrow> net \<Rightarrow> string \<Rightarrow> response option net_eff" where
  "run_open fuel N script =
     bindM (query N (n_has_transport N)) (\<lambda>t.
     if \<not> t then raise ConnectionError
     else
       seqM (acquire N (\<lambda>u. OpenedChannel) (n_open_channel N))
      (finally_done
        (seqM (call N (Exec (ssh_command script)) (\<lambda>n. n_exec N n (ssh_command script)))
        (bindD (loop_within fuel (open_wait_body N) ([], [])) (\<lambda>(out, err).
         bindM (query N (n_exit_status N)) (\<lambda>rc.
         if rc = -1 then raise ConnectionError
         else retD \<lparr>status_code = rc, std_out = out, std_err = err\<rparr>))))
        (emit CloseChannel)))"

text \<open>\<open>finally\<close> around a block and with an end that may both still be running.\<close>

definition finally_open :: "('s, 'a option) eff \<Rightarrow> ('s, unit option) eff \<Rightarrow> ('s, 'a option) eff" where
  "finally_open m fin = (\<lambda>s. case m s of
      (Inr None, s') \<Rightarrow> (Inr None, s')
    | (r, s') \<Rightarrow> (case fin s' of
         (Inl e, s'') \<Rightarrow> (Inl e, s'')
       | (Inr None, s'') \<Rightarrow> (Inr None, s'')
       | (Inr (Some u), s'') \<Rightarrow> (r, s'')))"

text \<open>\<open>try: x = m except Exception\<close>, the exception as a value.\<close>

definition attemptD :: "'a option net_eff \<Rightarrow> 'a res option net_eff" where
  "attemptD m = catchM (bindD m (\<lambda>x. retD (Inr x))) (\<lambda>e. if is_caught e then retD (Inl e) else raise e)"

section \<open>The uploaded probes\<close>

definition OS_PROBE_FILES :: "string list" where
  "OS_PROBE_FILES = [''server/lib/mast-os-patch-probe.ps1'', ''server/lib/mast-pending-reboot.ps1'',
     ''server/lib/mast-edge-update.ps1'']"
definition SITE_PROBE_FILES :: "string list" where
  "SITE_PROBE_FILES = [''server/lib/mast-pwi4-site-probe.ps1'', ''server/lib/mast-pwi4-site.ps1'']"
definition OS_PROBE_REMOTE_ROOT :: string where
  "OS_PROBE_REMOTE_ROOT = ''C:'' @ [CHR 92] @ ''Windows'' @ [CHR 92] @ ''Temp''"

definition remote_join :: "string \<Rightarrow> string \<Rightarrow> string" where
  "remote_join parent name = parent @ [CHR 92] @ name"

text \<open>\<open>Path(p).name\<close> and \<open>Path(p).stem\<close> of a path with forward slashes and one dot.\<close>

definition path_name :: "string \<Rightarrow> string" where
  "path_name p = last (split_on (CHR ''/'') p)"

definition path_stem :: "string \<Rightarrow> string" where
  "path_stem p = takeWhile (\<lambda>c. c \<noteq> CHR ''.'') (path_name p)"

definition probe_folder :: "string list \<Rightarrow> string \<Rightarrow> string" where
  "probe_folder files uid = remote_join OS_PROBE_REMOTE_ROOT (path_stem (hd files) @ ''-'' @ uid)"

definition make_text :: "string \<Rightarrow> string" where
  "make_text folder = ''New-Item -ItemType Directory -Force -Path '' @ ps_lit folder @ '' | Out-Null''"
definition probe_text :: "string \<Rightarrow> string list \<Rightarrow> string" where
  "probe_text folder files = ''& '' @ ps_lit (remote_join folder (path_name (hd files)))"
definition remove_text :: "string \<Rightarrow> string" where
  "remove_text folder = ''Remove-Item -LiteralPath '' @ ps_lit folder @ '' -Recurse -Force''"

text \<open>\<open>decode("utf-8-sig")\<close> of what the unit printed: the mark is dropped.\<close>

definition decode_sig :: "string \<Rightarrow> string" where
  "decode_sig b = (if startswith [CHR 0xEF, CHR 0xBB, CHR 0xBF] b then drop 3 b else b)"

text \<open>\<open>read_repo\<close> reads a file of the repository; \<open>uid n\<close> is the identifier drawn at the question \<open>n\<close>.\<close>

definition upload_files :: "net \<Rightarrow> (string \<Rightarrow> string res) \<Rightarrow> string \<Rightarrow> string list \<Rightarrow> unit net_eff" where
  "upload_files N read_repo folder files =
     forM files (\<lambda>rel. bindM (liftR (read_repo rel)) (put_file N (remote_join folder (path_name rel))))"

definition run_probe :: "nat \<Rightarrow> net \<Rightarrow> string \<Rightarrow> string list \<Rightarrow> string option net_eff" where
  "run_probe fuel N folder files =
     bindD (run_open fuel N (probe_text folder files)) (\<lambda>resp.
     if status_code resp \<noteq> 0
     then raise (UserError ''RuntimeError''
            (''probe exited '' @ int_str (status_code resp) @ '': '' @ first_chars 300 (std_err resp)))
     else retD (decode_sig (std_out resp)))"

definition remove_folder :: "nat \<Rightarrow> net \<Rightarrow> string \<Rightarrow> unit option net_eff" where
  "remove_folder fuel N folder =
     bindD (run_open fuel N (remove_text folder)) (\<lambda>cleanup.
     if status_code cleanup \<noteq> 0
     then raise (UserError ''RuntimeError''
            (''could not remove '' @ folder @ '' from the unit: '' @ take 300 (std_err cleanup)))
     else retD ())"

definition run_uploaded_probe ::
    "nat \<Rightarrow> net \<Rightarrow> (string \<Rightarrow> string res) \<Rightarrow> (nat \<Rightarrow> string) \<Rightarrow> string list \<Rightarrow> string option net_eff" where
  "run_uploaded_probe fuel N read_repo uid files =
     bindM (query N uid) (\<lambda>u.
     let folder = probe_folder files u in
     bindD (run_open fuel N (make_text folder)) (\<lambda>_.
     finally_open
       (seqM (upload_files N read_repo folder files) (run_probe fuel N folder files))
       (remove_folder fuel N folder)))"

definition gather_os_probe ::
    "nat \<Rightarrow> net \<Rightarrow> (string \<Rightarrow> string res) \<Rightarrow> (nat \<Rightarrow> string) \<Rightarrow> json option net_eff" where
  "gather_os_probe fuel N read_repo uid =
     bindD (run_uploaded_probe fuel N read_repo uid OS_PROBE_FILES) (\<lambda>out.
     bindM (liftR (parse_os_probe out)) retD)"

definition gather_site_probe ::
    "nat \<Rightarrow> net \<Rightarrow> (string \<Rightarrow> string res) \<Rightarrow> (nat \<Rightarrow> string) \<Rightarrow> json option net_eff" where
  "gather_site_probe fuel N read_repo uid =
     bindD (run_uploaded_probe fuel N read_repo uid SITE_PROBE_FILES) (\<lambda>out.
     bindM (liftR (parse_site_probe out)) retD)"

section \<open>One unit\<close>

definition quote :: "string \<Rightarrow> string" where
  "quote s = CHR 39 # s @ [CHR 39]"

definition print_or :: "string \<Rightarrow> string \<Rightarrow> string" where
  "print_or path otherwise =
     ''if (Test-Path -LiteralPath '' @ quote path @ '') { Get-Content -LiteralPath '' @ quote path @ '' -Raw }'' @ otherwise"

definition gather_script :: string where
  "gather_script =
     print_or UNIT_INSTALLED ('' else { '' @ quote NO_MANIFEST_SENTINEL @ '' }; '')
     @ quote SPLIT @ ''; ''
     @ print_or BOOTSTRAP_PATH ('' else { '' @ quote NO_BOOTSTRAP_SENTINEL @ '' }; '')
     @ quote SPLIT @ ''; ''
     @ print_or UNIT_VALIDATION []"

definition installed_record :: "(pyexc \<Rightarrow> string) \<Rightarrow> string \<Rightarrow> string \<Rightarrow> unit_record res" where
  "installed_record text host part =
     (if part = [] \<or> contains NO_MANIFEST_SENTINEL part then Inr (blank_record host ''no-manifest'')
      else
        (case bind_res (json_loads part) (manifest_from_obj host) of
           Inl e \<Rightarrow> if e = JSONDecodeError
                     then Inr ((blank_record host ''parse-error'')\<lparr>ur_error := Some (text e)\<rparr>) else Inl e
         | Inr r \<Rightarrow> Inr r))"

definition read_output :: "(pyexc \<Rightarrow> string) \<Rightarrow> (string \<Rightarrow> int res) \<Rightarrow> string \<Rightarrow> string \<Rightarrow> unit_record res" where
  "read_output text trunc host out =
     (case partition_str SPLIT out of (installed_part, _, rest) \<Rightarrow>
      case partition_str SPLIT rest of (bootstrap_part, _, validation_part) \<Rightarrow>
        bind_res (parse_bootstrap trunc bootstrap_part) (\<lambda>(version, at).
        bind_res (parse_validation validation_part) (\<lambda>(validation, checked).
        bind_res (installed_record text host (strip installed_part)) (\<lambda>r.
        Inr (r\<lparr>ur_bootstrap_version := version, ur_bootstrapped_at := at,
               ur_validation := validation, ur_validated_at := checked\<rparr>)))))"

definition with_os_probe :: "(pyexc \<Rightarrow> string) \<Rightarrow> json res \<Rightarrow> unit_record \<Rightarrow> unit_record" where
  "with_os_probe text p r =
     (case p of Inr j \<Rightarrow> r\<lparr>ur_os_probe := j\<rparr> | Inl e \<Rightarrow> r\<lparr>ur_os_probe_error := Some (text e)\<rparr>)"

definition with_site_probe :: "(pyexc \<Rightarrow> string) \<Rightarrow> json res \<Rightarrow> unit_record \<Rightarrow> unit_record" where
  "with_site_probe text p r =
     (case p of Inr j \<Rightarrow> r\<lparr>ur_site_probe := j\<rparr> | Inl e \<Rightarrow> r\<lparr>ur_site_probe_error := Some (text e)\<rparr>)"

record gather_env =
  ge_text :: "pyexc \<Rightarrow> string"        \<comment> \<open>\<open>str(exc)\<close>\<close>
  ge_trunc :: "string \<Rightarrow> int res"     \<comment> \<open>\<open>int\<close> of a float\<close>
  ge_read :: "string \<Rightarrow> string res"   \<comment> \<open>a file of the repository\<close>
  ge_uid :: "nat \<Rightarrow> string"

definition gather_body :: "nat \<Rightarrow> net \<Rightarrow> gather_env \<Rightarrow> string \<Rightarrow> unit_record option net_eff" where
  "gather_body fuel N G host =
     bindD (run_open fuel N gather_script) (\<lambda>resp.
     bindM (liftR (read_output (ge_text G) (ge_trunc G) host (decode_sig (std_out resp)))) (\<lambda>r.
     bindD (attemptD (gather_os_probe fuel N (ge_read G) (ge_uid G))) (\<lambda>o_p.
     bindD (attemptD (gather_site_probe fuel N (ge_read G) (ge_uid G))) (\<lambda>s_p.
     retD (with_site_probe (ge_text G) s_p (with_os_probe (ge_text G) o_p r))))))"

definition failed_record :: "gather_env \<Rightarrow> string \<Rightarrow> string \<Rightarrow> pyexc \<Rightarrow> unit_record" where
  "failed_record G host status e = (blank_record host status)\<lparr>ur_error := Some (ge_text G e)\<rparr>"

definition gather_unit :: "nat \<Rightarrow> net \<Rightarrow> gather_env \<Rightarrow> string \<Rightarrow> int \<Rightarrow> unit_record option net_eff" where
  "gather_unit fuel N G host connect_timeout_s =
     bindM (attempt (ssh_session N host SSH_PORT connect_timeout_s)) (\<lambda>session.
     case session of
       Inl e \<Rightarrow> retD (failed_record G host ''unreachable'' e)
     | Inr sess \<Rightarrow>
         finally_done
           (catchM (gather_body fuel N G host)
              (\<lambda>e. if is_caught e then retD (failed_record G host ''error'' e) else raise e))
           ssh_close)"

section \<open>What is sent to the unit\<close>

text \<open>The acts a program adds to the timeline are all of one set.\<close>

definition grown :: "wact set \<Rightarrow> wire \<Rightarrow> wire \<Rightarrow> bool" where
  "grown A s s' \<longleftrightarrow> (\<exists>as. w_acts s' = w_acts s @ as \<and> set as \<subseteq> A)"

lemma acts_grown_refl [simp]: "w_acts s' = w_acts s \<Longrightarrow> grown A s s'"
  by (simp add: grown_def)

lemma acts_grown_trans: "grown A s t \<Longrightarrow> grown A t u \<Longrightarrow> grown A s u"
  unfolding grown_def by force

definition only_acts :: "wact set \<Rightarrow> 'a net_eff \<Rightarrow> bool" where
  "only_acts A m \<longleftrightarrow> (\<forall>s. grown A s (snd (m s)))"

named_theorems acts \<open>rules for the acts of a program\<close>

lemma only_actsD: "only_acts A m \<Longrightarrow> m s = (r, s') \<Longrightarrow> grown A s s'"
  unfolding only_acts_def by (metis snd_conv)

lemma only_actsI: "(\<And>s r s'. m s = (r, s') \<Longrightarrow> grown A s s') \<Longrightarrow> only_acts A m"
  unfolding only_acts_def by (metis prod.collapse)

lemma only_basic [acts]:
  "only_acts A (ret a)" "only_acts A (raise e)" "only_acts A (gets f)" "only_acts A (liftR r)" "only_acts A (query N q)"
  "only_acts A (retD a')"
  by (simp_all add: only_acts_def query_def retD_def)

lemma only_emit [acts]: "a \<in> A \<Longrightarrow> only_acts A (emit a)"
  by (simp add: only_acts_def emit_def grown_def)

lemma only_bindM [acts]: "only_acts A m \<Longrightarrow> (\<And>a. only_acts A (f a)) \<Longrightarrow> only_acts A (bindM m f)"
  by (rule only_actsI) (auto simp: bindM_def split: prod.splits sum.splits intro: acts_grown_trans dest!: only_actsD)

lemma only_bind_query:
  assumes "\<And>n. only_acts A (f (q n))"
  shows "only_acts A (bindM (query N q) f)"
proof (rule only_actsI)
  fix s r s'
  assume "bindM (query N q) f s = (r, s')"
  then have "f (q (w_tick s)) (s\<lparr>w_tick := w_tick s + 1, w_now := w_now s + int (n_elapsed N (w_tick s))\<rparr>) = (r, s')"
    by (simp add: bindM_def query_def)
  from only_actsD [OF assms this] show "grown A s s'" by (simp add: grown_def)
qed

lemma only_seqM [acts]: "only_acts A m \<Longrightarrow> only_acts A n \<Longrightarrow> only_acts A (seqM m n)"
  unfolding seqM_def by (rule only_bindM)

lemma only_option [acts]: "only_acts A m \<Longrightarrow> (\<And>y. only_acts A (f y)) \<Longrightarrow> only_acts A (case x of None \<Rightarrow> m | Some y \<Rightarrow> f y)"
  by (cases x) simp_all

lemma only_sum [acts]: "(\<And>y. only_acts A (f y)) \<Longrightarrow> (\<And>y. only_acts A (g y)) \<Longrightarrow> only_acts A (case x of Inl y \<Rightarrow> f y | Inr y \<Rightarrow> g y)"
  by (cases x) simp_all

lemma only_prod [acts]: "(\<And>a b. only_acts A (f a b)) \<Longrightarrow> only_acts A (case p of (a, b) \<Rightarrow> f a b)"
  by (cases p) simp

lemma only_if [acts]: "only_acts A m \<Longrightarrow> only_acts A n \<Longrightarrow> only_acts A (if b then m else n)"
  by simp

lemma only_bindD [acts]: "only_acts A m \<Longrightarrow> (\<And>a. only_acts A (f a)) \<Longrightarrow> only_acts A (bindD m f)"
  unfolding bindD_def by (intro acts)

lemma only_catchM [acts]: "only_acts A m \<Longrightarrow> (\<And>e. only_acts A (h e)) \<Longrightarrow> only_acts A (catchM m h)"
  by (rule only_actsI) (auto simp: catchM_def split: prod.splits sum.splits option.splits intro: acts_grown_trans dest!: only_actsD)

lemma only_attempt [acts]: "only_acts A m \<Longrightarrow> only_acts A (attempt m)" "only_acts A n \<Longrightarrow> only_acts A (attemptD n)"
  unfolding attempt_def attemptD_def by (intro acts; assumption)+

lemma only_pause [acts]: "Pause d \<in> A \<Longrightarrow> only_acts A (pause d)"
  by (simp add: only_acts_def pause_def emit_def seqM_def bindM_def grown_def)

lemma only_whenM [acts]: "only_acts A m \<Longrightarrow> only_acts A (whenM b m)"
  by (simp add: whenM_def only_basic)

lemma only_finallyM [acts]: "only_acts A m \<Longrightarrow> only_acts A fin \<Longrightarrow> only_acts A (finallyM m fin)"
  by (rule only_actsI) (auto simp: finallyM_def split: prod.splits sum.splits option.splits intro: acts_grown_trans dest!: only_actsD)

lemma only_finally_done [acts]: "only_acts A m \<Longrightarrow> only_acts A fin \<Longrightarrow> only_acts A (finally_done m fin)"
  by (rule only_actsI) (auto simp: finally_done_def finallyM_def split: prod.splits sum.splits option.splits intro: acts_grown_trans dest!: only_actsD)

lemma only_finally_open [acts]: "only_acts A m \<Longrightarrow> only_acts A fin \<Longrightarrow> only_acts A (finally_open m fin)"
  by (rule only_actsI) (auto simp: finally_open_def split: prod.splits sum.splits option.splits intro: acts_grown_trans dest!: only_actsD)

lemma only_call [acts]: "a \<in> A \<Longrightarrow> only_acts A (call N a q)"
  and only_acquire [acts]: "(\<And>x. b x \<in> A) \<Longrightarrow> only_acts A (acquire N b q')"
  unfolding call_def acquire_def by (intro acts; simp)+

lemma only_loop [acts]: "(\<And>a. only_acts A (body a)) \<Longrightarrow> only_acts A (loop_within fuel body a)"
  by (induction fuel arbitrary: a) (auto intro!: acts)

lemma only_forM [acts]: "(\<And>x. x \<in> set xs \<Longrightarrow> only_acts A (f x)) \<Longrightarrow> only_acts A (forM xs f)"
  by (induction xs) (auto intro!: acts)

end
