(* ===== verification/Fleet_Gather_Props.thy ===== *)
theory Fleet_Gather_Props
  imports Fleet_Gather
begin

text \<open>
  What a gather does to a unit: it sends the reading script and, for each probe, a folder of its own
  under the temp folder, the probe's files, the probe and the removal of the folder; it leaves no
  channel open; and whatever happens on the way is a record of the unit.
\<close>

section \<open>Commands\<close>

definition is_command :: "wact \<Rightarrow> bool" where
  "is_command a = (case a of Exec c \<Rightarrow> True | SftpPut p d \<Rightarrow> True | StartedCommand s c \<Rightarrow> True | WinrmRun c \<Rightarrow> True | _ \<Rightarrow> False)"

definition commands :: "wact list \<Rightarrow> wact list" where
  "commands as = filter is_command as"

lemma commands_simps [simp]:
  "commands [] = []" "commands (xs @ ys) = commands xs @ commands ys" "is_command a \<Longrightarrow> commands [a] = [a]"
  "\<not> is_command a \<Longrightarrow> commands [a] = []"
  by (simp_all add: commands_def)

lemma command_kinds [simp]:
  "is_command (Exec c)" "is_command (SftpPut p d)" "\<not> is_command OpenedChannel" "\<not> is_command CloseChannel"
  "\<not> is_command SftpOpened" "\<not> is_command SftpClose" "\<not> is_command (Pause i)" "\<not> is_command SshClose"
  "\<not> is_command (SshConnect h u t)" "\<not> is_command (Keepalive k)"
  by (simp_all add: is_command_def)

text \<open>A program that sends exactly these commands when it has a result.\<close>

definition gave :: "'a option res \<Rightarrow> bool" where
  "gave r \<longleftrightarrow> (case r of Inr (Some x) \<Rightarrow> True | _ \<Rightarrow> False)"

definition exactly :: "wact list \<Rightarrow> 'a option net_eff \<Rightarrow> bool" where
  "exactly cs m \<longleftrightarrow> (\<forall>s r s'. m s = (r, s') \<longrightarrow> gave r \<longrightarrow> commands (w_acts s') = commands (w_acts s) @ cs)"

definition exactlyU :: "wact list \<Rightarrow> 'a net_eff \<Rightarrow> bool" where
  "exactlyU cs m \<longleftrightarrow> (\<forall>s x s'. m s = (Inr x, s') \<longrightarrow> commands (w_acts s') = commands (w_acts s) @ cs)"

lemma exactlyI: "(\<And>s r s'. m s = (r, s') \<Longrightarrow> gave r \<Longrightarrow> commands (w_acts s') = commands (w_acts s) @ cs) \<Longrightarrow> exactly cs m"
  by (simp add: exactly_def)

lemma exactlyUD: "exactlyU cs m \<Longrightarrow> m s = (Inr x, s') \<Longrightarrow> commands (w_acts s') = commands (w_acts s) @ cs"
  by (simp add: exactlyU_def)

lemma exactlyD: "exactly cs m \<Longrightarrow> m s = (r, s') \<Longrightarrow> gave r \<Longrightarrow> commands (w_acts s') = commands (w_acts s) @ cs"
  by (simp add: exactly_def)

lemma gave_simps [simp]: "gave (Inr (Some x))" "\<not> gave (Inr None)" "\<not> gave (Inl e)"
  by (simp_all add: gave_def)

abbreviation silent :: "wact set" where "silent \<equiv> {a. \<not> is_command a}"

lemma grown_silent: "grown silent s s' \<Longrightarrow> commands (w_acts s') = commands (w_acts s)"
  by (auto simp: grown_def commands_def filter_empty_conv)

lemma silent_exactly: "only_acts silent m \<Longrightarrow> exactlyU [] m"
  by (auto simp: exactlyU_def dest!: only_actsD grown_silent)

lemma exactlyU_exactly: "exactlyU cs m \<Longrightarrow> exactly cs m"
  by (auto simp: exactlyU_def exactly_def gave_def split: sum.splits)

lemma exactly_bindM: "exactlyU cs m \<Longrightarrow> (\<And>a. exactly ds (f a)) \<Longrightarrow> exactly (cs @ ds) (bindM m f)"
  by (auto simp: exactlyU_def exactly_def bindM_def gave_def split: prod.splits sum.splits option.splits)

lemma exactlyU_bindM: "exactlyU cs m \<Longrightarrow> (\<And>a. exactlyU ds (f a)) \<Longrightarrow> exactlyU (cs @ ds) (bindM m f)"
  by (auto simp: exactlyU_def bindM_def split: prod.splits sum.splits)

lemma exactly_bindD:
  assumes "exactly cs m" and "\<And>a. exactly ds (f a)"
  shows "exactly (cs @ ds) (bindD m f)"
  unfolding exactly_def
proof (intro allI impI)
  fix s r s'
  assume r: "bindD m f s = (r, s')" "gave r"
  obtain q t where q: "m s = (q, t)" by fastforce
  with r obtain x where x: "q = Inr (Some x)" by (auto simp: bindD_def bindM_def gave_def ret_def split: sum.splits option.splits)
  with r q have "f x t = (r, s')" by (simp add: bindD_def bindM_def)
  with assms r x q show "commands (w_acts s') = commands (w_acts s) @ cs @ ds"
    by (fastforce simp: exactly_def gave_def)
qed

lemma exactly_call: "is_command a \<Longrightarrow> exactlyU [a] (call N a q)"
  by (auto simp: exactlyU_def call_def seqM_def bindM_def query_def emit_def split: sum.splits prod.splits)

lemma gave_finally:
  "finally_done m fin s = (r, s') \<Longrightarrow> gave r \<Longrightarrow> \<exists>t. m s = (r, t) \<and> fin t = (Inr (), s')"
  "finally_open m fin' s = (r, s') \<Longrightarrow> gave r \<Longrightarrow> \<exists>t. m s = (r, t) \<and> fin' t = (Inr (Some ()), s')"
  by (auto simp: finally_done_def finallyM_def finally_open_def gave_def split: prod.splits sum.splits option.splits)

lemma exactly_finally_done: "exactly cs m \<Longrightarrow> only_acts silent fin \<Longrightarrow> exactly cs (finally_done m fin)"
  unfolding exactly_def by (metis gave_finally(1) grown_silent only_actsD)

lemma exactly_finally_open: "exactly cs m \<Longrightarrow> exactly ds fin \<Longrightarrow> exactly (cs @ ds) (finally_open m fin)"
  by (rule exactlyI) (auto dest!: gave_finally(2) dest: exactlyD simp: exactlyD [where r = "Inr (Some ())"])

lemma exactlyU_forM:
  "(\<And>x. x \<in> set xs \<Longrightarrow> exactlyU (f x) (m x)) \<Longrightarrow> exactlyU (concat (map f xs)) (forM xs m)"
proof (induction xs)
  case (Cons x xs)
  then show ?case by (auto simp: seqM_def intro!: exactlyU_bindM)
qed (simp add: exactlyU_def)

lemma exactly_raise: "exactly cs (raise e)" and exactly_ret: "exactly [] (retD x)"
  by (simp_all add: exactly_def retD_def)

lemma exactly_if: "exactly cs m \<Longrightarrow> exactly cs n \<Longrightarrow> exactly cs (if b then m else n)"
  by simp

section \<open>The programs\<close>

lemma silent_parts [acts]: "only_acts silent (drain N r)" "only_acts silent (open_wait_body N r)"
  "only_acts silent (ssh_session N host port t)" "only_acts silent ssh_close"
  unfolding drain_def open_wait_body_def ssh_session_def ssh_connect_def ssh_close_def Let_def
  by (intro acts; simp)+

lemma exactly_run_open: "exactly [Exec (ssh_command script)] (run_open fuel N script)"
proof -
  have body: "exactly ([Exec (ssh_command script)] @ [] @ []) (seqM (call N (Exec (ssh_command script)) q)
        (bindD (loop_within fuel (open_wait_body N) ([], [])) (\<lambda>(out, err).
         bindM (query N (n_exit_status N)) (\<lambda>rc.
         if rc = -1 then raise ConnectionError else retD \<lparr>status_code = rc, std_out = out, std_err = err\<rparr>))))" for q
    unfolding seqM_def
    by (intro exactly_bindM exactly_bindD exactly_call command_kinds exactlyU_exactly [OF silent_exactly]) (intro acts)+
  note fin = exactly_finally_done [OF body only_emit, of CloseChannel]
  have "exactly ([] @ [] @ ([Exec (ssh_command script)] @ [] @ [])) (run_open fuel N script)"
    unfolding run_open_def seqM_def [of "acquire N a q" for a q]
    by (intro exactly_bindM exactly_if exactly_raise silent_exactly fin) (intro acts | simp)+
  then show ?thesis by simp
qed

text \<open>The path \<open>put_file\<close> hands to SFTP.\<close>

definition sftp_path :: "string \<Rightarrow> string" where
  "sftp_path p = replace_char (CHR 92) ''/'' p"

lemma exactly_put_file: "exactlyU [SftpPut (sftp_path p) data] (put_file N p data)"
proof -
  have "commands (w_acts s') = commands (w_acts s) @ [SftpPut (sftp_path p) data]"
    if r: "put_file N p data s = (Inr x, s')" for s x s'
  proof -
    have a: "exactlyU [] (acquire N (\<lambda>u. SftpOpened) (n_sftp_open N))"
      by (rule silent_exactly) (intro acts, simp)
    from r obtain t u where "acquire N (\<lambda>u. SftpOpened) (n_sftp_open N) s = (Inr u, t)"
      and f: "finallyM (call N (SftpPut (sftp_path p) data) (\<lambda>n. n_sftp_put N n (sftp_path p))) (emit SftpClose) t = (Inr x, s')"
      by (auto simp: put_file_def Let_def seqM_Inr_iff sftp_path_def)
    with a have t: "commands (w_acts t) = commands (w_acts s)" by (simp add: exactlyU_def)
    from f obtain v where v: "call N (SftpPut (sftp_path p) data) (\<lambda>n. n_sftp_put N n (sftp_path p)) t = (Inr x, v)"
      and s': "emit SftpClose v = (Inr (), s')"
      by (auto simp: finallyM_def split: prod.splits sum.splits)
    have "commands (w_acts v) = commands (w_acts t) @ [SftpPut (sftp_path p) data]"
      by (rule exactlyUD [OF exactly_call v]) simp
    then show ?thesis using t s' by (auto simp: emit_def)
  qed
  then show ?thesis by (simp add: exactlyU_def)
qed

text \<open>What the unit sees of one probe: its folder made, its files, the probe, the folder removed.\<close>

definition upload_act :: "(string \<Rightarrow> string res) \<Rightarrow> string \<Rightarrow> string \<Rightarrow> wact" where
  "upload_act rd folder rel = SftpPut (sftp_path (remote_join folder (path_name rel))) (case rd rel of Inr d \<Rightarrow> d | Inl e \<Rightarrow> [])"

definition probe_acts :: "(string \<Rightarrow> string res) \<Rightarrow> string list \<Rightarrow> string \<Rightarrow> wact list" where
  "probe_acts rd files folder =
     Exec (ssh_command (make_text folder)) # map (upload_act rd folder) files
     @ [Exec (ssh_command (probe_text folder files)), Exec (ssh_command (remove_text folder))]"

lemma exactly_upload: "exactlyU (map (upload_act rd folder) files) (upload_files N rd folder files)"
proof -
  have "exactlyU [upload_act rd folder rel] (bindM (liftR (rd rel)) (put_file N (remote_join folder (path_name rel))))" for rel
    using exactly_put_file by (auto simp: exactlyU_def upload_act_def split: sum.splits)
  then have "exactlyU (concat (map (\<lambda>rel. [upload_act rd folder rel]) files)) (upload_files N rd folder files)"
    unfolding upload_files_def by (intro exactlyU_forM)
  then show ?thesis by (simp add: concat_map_singleton)
qed

lemma exactly_probe:
  "exactly ([Exec (ssh_command (probe_text folder files))] @ []) (run_probe fuel N folder files)"
  "exactly ([Exec (ssh_command (remove_text folder))] @ []) (remove_folder fuel N folder)"
  unfolding run_probe_def remove_folder_def
  by (intro exactly_bindD exactly_run_open exactly_if exactly_raise exactly_ret)+

lemma uploaded_probe_acts:
  assumes "run_uploaded_probe fuel N rd uid files s = (Inr (Some out), s')"
  shows "commands (w_acts s') = commands (w_acts s) @ probe_acts rd files (probe_folder files (uid (w_tick s)))"
proof -
  define folder where "folder = probe_folder files (uid (w_tick s))"
  have "exactly ([Exec (ssh_command (make_text folder))] @ (map (upload_act rd folder) files
       @ ([Exec (ssh_command (probe_text folder files))] @ [])) @ ([Exec (ssh_command (remove_text folder))] @ []))
     (bindD (run_open fuel N (make_text folder)) (\<lambda>_. finally_open
       (seqM (upload_files N rd folder files) (run_probe fuel N folder files)) (remove_folder fuel N folder)))"
    unfolding seqM_def
    by (intro exactly_bindD exactly_finally_open exactly_bindM exactly_run_open exactly_upload exactly_probe)
  from exactlyD [OF this] assms show ?thesis
    by (auto simp: run_uploaded_probe_def Let_def folder_def probe_acts_def bindM_def query_def)
qed

section \<open>A gather\<close>

text \<open>The acts a gather may add: connecting, waiting, the reading script, and the acts of the two
  probes on folders of their own.\<close>

definition own_folders :: "gather_env \<Rightarrow> (string list \<times> string) set" where
  "own_folders G = {(files, probe_folder files (ge_uid G n)) |files n. files = OS_PROBE_FILES \<or> files = SITE_PROBE_FILES}"

definition allowed :: "gather_env \<Rightarrow> wact set" where
  "allowed G = silent \<union> {Exec (ssh_command gather_script)}
     \<union> {a. \<exists>(files, folder) \<in> own_folders G. a \<in> set (probe_acts (ge_read G) files folder)}"

lemma allowed_silent [simp]: "\<not> is_command a \<Longrightarrow> a \<in> allowed G"
  and allowed_script [simp]: "Exec (ssh_command gather_script) \<in> allowed G"
  and allowed_probe: "(files, folder) \<in> own_folders G \<Longrightarrow> a \<in> set (probe_acts (ge_read G) files folder) \<Longrightarrow> a \<in> allowed G"
  by (auto simp: allowed_def)

lemma only_run_open: "Exec (ssh_command script) \<in> allowed G \<Longrightarrow> only_acts (allowed G) (run_open fuel N script)"
  unfolding run_open_def open_wait_body_def drain_def by (intro acts) simp_all

lemma only_put_file:
  "SftpPut (sftp_path p) data \<in> allowed G \<Longrightarrow> only_acts (allowed G) (put_file N p data)"
  unfolding put_file_def Let_def sftp_path_def by (intro acts) simp_all

lemma only_probe:
  assumes "files = OS_PROBE_FILES \<or> files = SITE_PROBE_FILES"
  shows "only_acts (allowed G) (run_uploaded_probe fuel N (ge_read G) (ge_uid G) files)"
proof -
  have "only_acts (allowed G) (bindD (run_open fuel N (make_text folder)) (\<lambda>_. finally_open
       (seqM (upload_files N (ge_read G) folder files) (run_probe fuel N folder files)) (remove_folder fuel N folder)))"
    if "(files, folder) \<in> own_folders G" for folder
  proof -
    note al = allowed_probe [OF that]
    have "only_acts (allowed G) (bindM (liftR (ge_read G rel)) (put_file N (remote_join folder (path_name rel))))"
      if "rel \<in> set files" for rel
    proof (cases "ge_read G rel")
      case (Inr d)
      have "upload_act (ge_read G) folder rel \<in> allowed G" using that by (intro al) (simp add: probe_acts_def)
      with Inr show ?thesis
        by (auto simp: only_acts_def upload_act_def dest!: only_put_file [of _ _ G N])
    qed (simp add: only_acts_def)
    then have up: "only_acts (allowed G) (upload_files N (ge_read G) folder files)"
      unfolding upload_files_def by (rule only_forM)
    show ?thesis
      unfolding run_probe_def remove_folder_def
      by (intro acts only_run_open al up) (simp_all add: probe_acts_def)
  qed
  moreover have "(files, probe_folder files (ge_uid G n)) \<in> own_folders G" for n
    using assms by (auto simp: own_folders_def)
  ultimately show ?thesis unfolding run_uploaded_probe_def Let_def by (intro only_bind_query) blast
qed

lemma only_gather_body: "only_acts (allowed G) (gather_body fuel N G host)"
  unfolding gather_body_def gather_os_probe_def gather_site_probe_def
  by (intro acts only_run_open only_probe) simp_all

lemma only_gather: "only_acts (allowed G) (gather_unit fuel N G host t)"
  unfolding gather_unit_def ssh_session_def ssh_connect_def ssh_close_def Let_def
  by (intro acts only_gather_body) simp_all

text \<open>Nothing is left open when a gather has ended.\<close>

abbreviation clean :: "'a option net_eff \<Rightarrow> bool" where
  "clean \<equiv> shifts_done (\<lambda>k. 0)"

definition level :: "wire \<Rightarrow> wire \<Rightarrow> bool" where
  "level s s' \<longleftrightarrow> (\<forall>k. held k (w_acts s') = held k (w_acts s))"

lemma level_refl [simp]: "level s s" and level_trans: "level s t \<Longrightarrow> level t u \<Longrightarrow> level s u"
  by (simp_all add: level_def)

lemma cleanI: "(\<And>s r s'. m s = (r, s') \<Longrightarrow> r \<noteq> Inr None \<Longrightarrow> level s s') \<Longrightarrow> clean m"
  unfolding shifts_done_def level_def by (metis add.right_neutral prod.collapse)

lemma cleanD: "clean m \<Longrightarrow> m s = (r, s') \<Longrightarrow> r \<noteq> Inr None \<Longrightarrow> level s s'"
  by (auto simp: shifts_done_def level_def dest!: spec [where x = s])

lemma settledD: "settled m \<Longrightarrow> m s = (r, s') \<Longrightarrow> level s s'"
  by (auto simp: shifts_def level_def dest!: spec [where x = s])

lemma clean_bindD: "clean m \<Longrightarrow> (\<And>a. clean (f a)) \<Longrightarrow> clean (bindD m f)"
  by (rule cleanI) (auto simp: bindD_def bindM_def intro: level_trans dest!: cleanD split: prod.splits sum.splits option.splits)

lemma clean_bindM: "settled m \<Longrightarrow> (\<And>a. clean (f a)) \<Longrightarrow> clean (bindM m f)"
  by (rule cleanI) (auto simp: bindM_def intro: level_trans dest!: settledD cleanD split: prod.splits sum.splits)

lemma clean_catchM: "clean m \<Longrightarrow> (\<And>e. clean (h e)) \<Longrightarrow> clean (catchM m h)"
  by (rule cleanI) (auto simp: catchM_def intro: level_trans dest!: cleanD split: prod.splits sum.splits)

lemma clean_finally_open: "clean m \<Longrightarrow> clean fin \<Longrightarrow> clean (finally_open m fin)"
  by (rule cleanI) (auto simp: finally_open_def intro: level_trans dest!: cleanD split: prod.splits sum.splits option.splits)

lemma clean_basic: "clean (retD x)" "clean (raise e)"
  by (simp_all add: shifts_done_def retD_def)

lemma clean_if: "clean m \<Longrightarrow> clean n \<Longrightarrow> clean (if b then m else n)"
  by simp

lemma clean_run_open: "clean (run_open fuel N script)"
proof -
  have body: "clean (seqM (call N (Exec (ssh_command script)) q)
        (bindD (loop_within fuel (open_wait_body N) ([], [])) (\<lambda>(out, err).
         bindM (query N (n_exit_status N)) (\<lambda>rc.
         if rc = -1 then raise ConnectionError else retD \<lparr>status_code = rc, std_out = out, std_err = err\<rparr>))))" for q
    unfolding seqM_def open_wait_body_def
    by (intro clean_bindM clean_bindD done_settled settled_prod holds) (simp_all add: retD_def holds)
  note fin = shifts_finally_done [OF body gives_back(1)]
  show ?thesis
    unfolding run_open_def seqM_def [of "acquire N a q" for a q]
    by (intro clean_bindM clean_if clean_basic done_bracket fin holds)
qed

lemma clean_attemptD: "clean m \<Longrightarrow> clean (attemptD m)"
  unfolding attemptD_def by (intro clean_catchM clean_bindD clean_basic clean_if)

lemma clean_uploaded_probe: "clean (run_uploaded_probe fuel N rd uid files)"
  unfolding run_uploaded_probe_def upload_files_def run_probe_def remove_folder_def seqM_def Let_def
  by (intro clean_bindM clean_bindD clean_finally_open clean_run_open clean_basic clean_if holds settled_put_file)

lemma clean_gather: "clean (gather_unit fuel N G host t)"
proof -
  have body: "clean (gather_body fuel N G host)"
    unfolding gather_body_def gather_os_probe_def gather_site_probe_def
    by (intro clean_bindD clean_bindM clean_attemptD clean_run_open clean_uploaded_probe clean_basic holds)
  have "settled ssh_close" unfolding ssh_close_def by (intro holds) simp
  note fin = shifts_finally_done [OF clean_catchM [OF body] this]
  show ?thesis
    unfolding gather_unit_def
    by (intro clean_bindM holds settled_ssh) (auto split: sum.split intro!: clean_basic fin)
qed

text \<open>Every exception becomes a record, of the host asked for.\<close>

lemma records_are_hosts [simp]:
  "ur_host (blank_record host st) = host" "ur_host (failed_record G host st e) = host"
  "ur_os_probe (blank_record host st) = JNull" "ur_os_probe (failed_record G host st e) = JNull"
  "ur_site_probe (blank_record host st) = JNull" "ur_site_probe (failed_record G host st e) = JNull"
  by (simp_all add: blank_record_def failed_record_def)

lemma manifest_record:
  "manifest_from_obj host obj = Inr r \<Longrightarrow> ur_host r = host \<and> ur_os_probe r = JNull \<and> ur_site_probe r = JNull"
  by (auto simp: manifest_from_obj_def bind_res_Inr_iff Let_def)

lemma read_record:
  assumes "read_output text trunc host out = Inr r"
  shows "ur_host r = host \<and> ur_os_probe r = JNull \<and> ur_site_probe r = JNull"
proof -
  have "ur_host q = host \<and> ur_os_probe q = JNull \<and> ur_site_probe q = JNull"
    if "installed_record text host part = Inr q" for part q
    using that
    by (auto simp: installed_record_def bind_res_Inr_iff dest!: manifest_record split: if_splits sum.splits)
  then show ?thesis using assms by (auto simp: read_output_def bind_res_Inr_iff split: prod.splits)
qed

lemma attemptD_cases:
  assumes "attemptD m s = (Inr (Some p), s')"
  obtains x where "p = Inr x" "m s = (Inr (Some x), s')" | e where "p = Inl e"
  using assms
  by (auto simp: attemptD_def catchM_def bindD_def bindM_def retD_def ret_def raise_def split: prod.splits sum.splits option.splits if_splits)

lemma bindD_gave:
  assumes "bindD m f s = (Inr (Some y), s')"
  obtains x t where "m s = (Inr (Some x), t)" "f x t = (Inr (Some y), s')"
  using assms by (auto simp: bindD_def bindM_def ret_def split: prod.splits sum.splits option.splits)

text \<open>A probe that ran to a result.\<close>

definition ran_probe :: "gather_env \<Rightarrow> string list \<Rightarrow> wact list \<Rightarrow> bool" where
  "ran_probe G files cs \<longleftrightarrow> (\<exists>n. cs = probe_acts (ge_read G) files (probe_folder files (ge_uid G n)))"

lemma probe_result:
  assumes "attemptD (bindD (run_uploaded_probe fuel N (ge_read G) (ge_uid G) files) (\<lambda>out. bindM (liftR (parse out)) retD)) s
      = (Inr (Some p), s')"
  shows "\<exists>cs. commands (w_acts s') = commands (w_acts s) @ cs \<and> (case p of Inr j \<Rightarrow> ran_probe G files cs | Inl e \<Rightarrow> True)"
proof (rule attemptD_cases [OF assms])
  fix j
  assume p: "p = Inr j"
    and "bindD (run_uploaded_probe fuel N (ge_read G) (ge_uid G) files) (\<lambda>out. bindM (liftR (parse out)) retD) s = (Inr (Some j), s')"
  then obtain out where "run_uploaded_probe fuel N (ge_read G) (ge_uid G) files s = (Inr (Some out), s')"
    by (auto elim!: bindD_gave split: sum.splits simp: retD_def)
  from uploaded_probe_acts [OF this] p show ?thesis by (auto simp: ran_probe_def)
next
  fix e
  assume p: "p = Inl e"
  have "only_acts UNIV (attemptD (bindD (run_uploaded_probe fuel N (ge_read G) (ge_uid G) files) (\<lambda>out. bindM (liftR (parse out)) retD)))"
    unfolding run_uploaded_probe_def upload_files_def put_file_def run_probe_def remove_folder_def run_open_def open_wait_body_def drain_def Let_def
    by (intro acts) simp_all
  from only_actsD [OF this assms] p show ?thesis by (auto simp: grown_def)
qed

definition probed_fully :: "gather_env \<Rightarrow> string list \<Rightarrow> wact list \<Rightarrow> bool" where
  "probed_fully G files cs \<longleftrightarrow> (\<exists>pre ran post. cs = pre @ ran @ post \<and> ran_probe G files ran)"

lemma probed_fullyI: "ran_probe G files cs \<Longrightarrow> probed_fully G files (pre @ cs @ post)"
  by (auto simp: probed_fully_def)

lemma body_result:
  assumes "gather_body fuel N G host s = (Inr (Some u), s')"
  shows "ur_host u = host" and "\<exists>cs. commands (w_acts s') = commands (w_acts s) @ cs
    \<and> (ur_os_probe u = JNull \<or> probed_fully G OS_PROBE_FILES cs) \<and> (ur_site_probe u = JNull \<or> probed_fully G SITE_PROBE_FILES cs)"
proof -
  from assms [unfolded gather_body_def] obtain resp s1 r o_p s2 s_p where
    run: "run_open fuel N gather_script s = (Inr (Some resp), s1)" and
    r: "read_output (ge_text G) (ge_trunc G) host (decode_sig (std_out resp)) = Inr r" and
    o_p: "attemptD (gather_os_probe fuel N (ge_read G) (ge_uid G)) s1 = (Inr (Some o_p), s2)" and
    s_p: "attemptD (gather_site_probe fuel N (ge_read G) (ge_uid G)) s2 = (Inr (Some s_p), s')" and
    u: "u = with_site_probe (ge_text G) s_p (with_os_probe (ge_text G) o_p r)"
    by (auto elim!: bindD_gave split: sum.splits simp: retD_def)
  note rr = read_record [OF r]
  show "ur_host u = host" using rr by (simp add: u with_site_probe_def with_os_probe_def split: sum.split)
  obtain xs where xs: "commands (w_acts s2) = commands (w_acts s1) @ xs"
      "case o_p of Inr j \<Rightarrow> ran_probe G OS_PROBE_FILES xs | Inl e \<Rightarrow> True"
    using probe_result [OF o_p [unfolded gather_os_probe_def]] by blast
  obtain ys where ys: "commands (w_acts s') = commands (w_acts s2) @ ys"
      "case s_p of Inr j \<Rightarrow> ran_probe G SITE_PROBE_FILES ys | Inl e \<Rightarrow> True"
    using probe_result [OF s_p [unfolded gather_site_probe_def]] by blast
  let ?cs = "[Exec (ssh_command gather_script)] @ xs @ ys"
  have "commands (w_acts s') = commands (w_acts s) @ ?cs"
    using exactlyD [OF exactly_run_open run] xs(1) ys(1) by simp
  moreover have "ur_os_probe u = JNull \<or> probed_fully G OS_PROBE_FILES ?cs"
    using rr xs(2) probed_fullyI [of G OS_PROBE_FILES xs "[Exec (ssh_command gather_script)]" ys]
    by (auto simp: u with_site_probe_def with_os_probe_def split: sum.splits)
  moreover have "ur_site_probe u = JNull \<or> probed_fully G SITE_PROBE_FILES ?cs"
    using rr ys(2) probed_fullyI [of G SITE_PROBE_FILES ys "[Exec (ssh_command gather_script)] @ xs" "[]"]
    by (auto simp: u with_site_probe_def with_os_probe_def split: sum.splits)
  ultimately show "\<exists>cs. commands (w_acts s') = commands (w_acts s) @ cs
    \<and> (ur_os_probe u = JNull \<or> probed_fully G OS_PROBE_FILES cs) \<and> (ur_site_probe u = JNull \<or> probed_fully G SITE_PROBE_FILES cs)"
    by blast
qed

lemma gather_never_raises: "gather_unit fuel N G host t s = (Inl e, s') \<Longrightarrow> \<not> is_caught e"
  by (auto simp: gather_unit_def finally_done_def finallyM_def catchM_def attempt_def bindM_def retD_def ret_def raise_def
      ssh_close_def emit_def split: prod.splits sum.splits option.splits if_splits)

lemma gather_result:
  assumes "gather_unit fuel N G host t s = (Inr (Some u), s')"
  shows "ur_host u = host" and "\<exists>cs. commands (w_acts s') = commands (w_acts s) @ cs
    \<and> (ur_os_probe u = JNull \<or> probed_fully G OS_PROBE_FILES cs) \<and> (ur_site_probe u = JNull \<or> probed_fully G SITE_PROBE_FILES cs)"
proof -
  obtain q s1 where q: "attempt (ssh_session N host SSH_PORT t) s = (Inr q, s1)"
    using assms by (auto simp: gather_unit_def bindM_def split: prod.splits sum.splits)
  have s1: "commands (w_acts s1) = commands (w_acts s)"
    using grown_silent [OF only_actsD [OF only_attempt(1) [OF silent_parts(3)] q]] .
  have "ur_host u = host \<and> (\<exists>cs. commands (w_acts s') = commands (w_acts s1) @ cs
    \<and> (ur_os_probe u = JNull \<or> probed_fully G OS_PROBE_FILES cs) \<and> (ur_site_probe u = JNull \<or> probed_fully G SITE_PROBE_FILES cs))"
  proof (cases q)
    case (Inl e)
    then show ?thesis using assms q by (auto simp: gather_unit_def bindM_def retD_def)
  next
    case (Inr sess)
    then have "finally_done (catchM (gather_body fuel N G host)
        (\<lambda>e. if is_caught e then retD (failed_record G host ''error'' e) else raise e)) ssh_close s1 = (Inr (Some u), s')"
      using assms q by (simp add: gather_unit_def bindM_def)
    then obtain s2 where c: "catchM (gather_body fuel N G host)
        (\<lambda>e. if is_caught e then retD (failed_record G host ''error'' e) else raise e) s1 = (Inr (Some u), s2)"
      and close: "ssh_close s2 = (Inr (), s')"
      using gave_finally(1) by fastforce
    have s': "commands (w_acts s') = commands (w_acts s2)"
      using grown_silent [OF only_actsD [OF silent_parts(4) close]] .
    show ?thesis
    proof (cases "gather_body fuel N G host s1")
      case (Pair r s3)
      show ?thesis
      proof (cases r)
        case (Inr x)
        then have "gather_body fuel N G host s1 = (Inr (Some u), s2)" using c Pair by (simp add: catchM_def)
        from body_result [OF this] s' show ?thesis by auto
      next
        case (Inl e)
        then have u: "u = failed_record G host ''error'' e" and "s2 = s3"
          using c Pair by (auto simp: catchM_def retD_def split: if_splits)
        have "grown (allowed G) s1 s3"
          using only_gather_body Pair by (rule only_actsD)
        then show ?thesis using s' u \<open>s2 = s3\<close> by (auto simp: grown_def)
      qed
    qed
  qed
  with s1 show "ur_host u = host" and "\<exists>cs. commands (w_acts s') = commands (w_acts s) @ cs
    \<and> (ur_os_probe u = JNull \<or> probed_fully G OS_PROBE_FILES cs) \<and> (ur_site_probe u = JNull \<or> probed_fully G SITE_PROBE_FILES cs)"
    by simp_all
qed

text \<open>C26: Reading a unit is contained: whatever the network and the unit answer, the unit is sent nothing
  but the reading script and the acts of the two probes in folders drawn for the call; every exception
  is a record of the host asked for; a gather that ended left no channel and no SFTP client open; and a
  probe's result is in the record only if its folder was made, filled, run and removed, in this order.\<close>

theorem gather_is_contained:
  "case gather_unit fuel N G host t s of (r, s') \<Rightarrow>
     (\<exists>new. w_acts s' = w_acts s @ new \<and> set new \<subseteq> allowed G \<and>
       (case r of
          Inl e \<Rightarrow> \<not> is_caught e
        | Inr None \<Rightarrow> True
        | Inr (Some u) \<Rightarrow> ur_host u = host \<and> held k (w_acts s') = held k (w_acts s)
            \<and> (ur_os_probe u = JNull \<or> probed_fully G OS_PROBE_FILES (commands new))
            \<and> (ur_site_probe u = JNull \<or> probed_fully G SITE_PROBE_FILES (commands new))))"
proof -
  obtain r s' where run: "gather_unit fuel N G host t s = (r, s')" by fastforce
  obtain new where new: "w_acts s' = w_acts s @ new" "set new \<subseteq> allowed G"
    using only_actsD [OF only_gather run] by (auto simp: grown_def)
  have "held k (w_acts s') = held k (w_acts s)" if "r \<noteq> Inr None"
    using cleanD [OF clean_gather run that] by (simp add: level_def)
  then show ?thesis
    using run new gather_never_raises gather_result [of fuel N G host t s _ s'] by (auto split: sum.split option.split)
qed

end
