(* ===== verification/Fleet_Render.thy ===== *)
theory Fleet_Render
  imports Fleet_Bootstrap
begin

text \<open>
  The text report of \<open>src/tools/fleet-drift-report.py\<close>, a section per function, in the order
  \<open>render\<close> prints them. A value of a manifest that is not the text the columns expect raises what
  Python raises on it.
\<close>

section \<open>Columns\<close>

definition ljust :: "nat \<Rightarrow> string \<Rightarrow> string" where
  "ljust n s = s @ replicate (n - length s) (CHR '' '')"

definition dashes :: "string \<Rightarrow> string" where
  "dashes s = replicate (length s) (CHR ''-'')"

definition widest :: "nat list \<Rightarrow> nat \<Rightarrow> nat" where
  "widest ns least = foldl max least ns"

definition commas :: "string list \<Rightarrow> string" where
  "commas ss = join '', '' ss"

text \<open>\<open>_short\<close>: a slice, of a value that has a length.\<close>

definition short :: "nat \<Rightarrow> json \<Rightarrow> json res" where
  "short n v =
     (if \<not> truthy v then Inr (JStr ''-'')
      else (case v of
         JStr s \<Rightarrow> Inr (JStr (take n s))
       | JList xs \<Rightarrow> Inr (JList (take n xs))
       | JObj d \<Rightarrow> if length d \<le> n then Inr v else Inl KeyError
       | _ \<Rightarrow> Inl TypeError))"

definition ljust_json :: "nat \<Rightarrow> json \<Rightarrow> string res" where
  "ljust_json n v = (case v of JStr s \<Rightarrow> Inr (ljust n s) | _ \<Rightarrow> Inl AttributeError)"

definition marked_json :: "nat \<Rightarrow> string \<Rightarrow> json \<Rightarrow> string res" where
  "marked_json n mark v = (case v of JStr s \<Rightarrow> Inr (ljust n (s @ mark)) | _ \<Rightarrow> Inl TypeError)"

definition opt_int :: "int option \<Rightarrow> string" where
  "opt_int v = (case v of None \<Rightarrow> ''None'' | Some i \<Rightarrow> int_str i)"

definition hosts_of :: "unit_record list \<Rightarrow> nat list" where
  "hosts_of us = map (\<lambda>u. length (ur_host u)) us"

section \<open>The fleet summary\<close>

definition boot_cell :: "boot_gap option \<Rightarrow> string" where
  "boot_cell gap =
     (case gap of
        None \<Rightarrow> ''none''
      | Some g \<Rightarrow> (case bg_state g of
           Unstamped \<Rightarrow> ''none''
         | Outdated \<Rightarrow> ''v'' @ opt_int (bg_version g) @ ''!''
         | Current \<Rightarrow> ''v'' @ opt_int (bg_version g)))"

definition summary_line :: "nat \<Rightarrow> string \<Rightarrow> string \<Rightarrow> unit_record \<Rightarrow> string res" where
  "summary_line host_w verdict boot u =
     bind_res (bind_res (short 12 (ur_payload_hash u)) (ljust_json 12)) (\<lambda>hash.
     bind_res (bind_res (short 12 (ur_git_sha u)) (ljust_json 12)) (\<lambda>git.
     Inr (ljust host_w (ur_host u) @ ''  '' @ ljust 11 verdict @ ''  '' @ hash @ ''  '' @ git @ ''  '' @ ljust 6 boot @ ''  ''
          @ py_str (jor (ur_installed_at u) (JStr ''-''))
          @ (case ur_error u of None \<Rightarrow> [] | Some e \<Rightarrow> if e = [] then [] else ''  '' @ e))))"

definition verdict_at :: "comparison \<Rightarrow> unit_record \<Rightarrow> string option" where
  "verdict_at cmp u = map_of (cmp_verdicts cmp) (ur_host u)"

definition or_question :: "string option \<Rightarrow> string" where
  "or_question v = (case v of None \<Rightarrow> ''?'' | Some s \<Rightarrow> s)"

definition render_fleet_summary :: "unit_record list \<Rightarrow> unit_record option \<Rightarrow> comparison \<Rightarrow> boot_report \<Rightarrow> string list res" where
  "render_fleet_summary units reference cmp boot =
     (let refs = (case reference of None \<Rightarrow> [] | Some r \<Rightarrow> [r]);
          host_w = widest (hosts_of (refs @ units)) 9;
          hdr = ljust host_w ''unit'' @ ''  '' @ ljust 11 ''status'' @ ''  '' @ ljust 12 ''payload'' @ ''  ''
                @ ljust 12 ''git'' @ ''  '' @ ljust 6 ''boot'' @ ''  installed_at''
      in bind_res (map_res (summary_line host_w ''REFERENCE'' ''-'') refs) (\<lambda>ref_lines.
         bind_res (map_res (\<lambda>u. summary_line host_w (or_question (verdict_at cmp u))
             (boot_cell (map_of (br_by_host boot) (ur_host u))) u) units) (\<lambda>unit_lines.
         Inr ([''=== Fleet summary ==='', hdr, dashes hdr] @ ref_lines @ unit_lines))))"

section \<open>The modules\<close>

definition render_repos_oneliner :: "repo_comparison \<Rightarrow> string list" where
  "render_repos_oneliner repos =
     (if rc_total repos = 0 then []
      else if \<not> rc_any_data repos then [''upstream repos: no data (no unit has re-provisioned since #75 landed)'']
      else if rc_consistent repos = rc_total repos
      then [''upstream repos: all '' @ nat_str (rc_total repos) @ '' consistent across the fleet'']
      else [''upstream repos: '' @ nat_str (rc_consistent repos) @ '' of '' @ nat_str (rc_total repos) @ '' consistent ''
            @ ''('' @ commas (rc_divergent repos) @ '' differ)''])"

definition row_at :: "matrix_row list \<Rightarrow> string \<Rightarrow> matrix_row" where
  "row_at matrix m = the (map_of (dict_of_pairs (map (\<lambda>r. (mr_module r, r)) matrix) []) m)"

definition cell_text :: "matrix_row \<Rightarrow> string \<Rightarrow> string" where
  "cell_text row host =
     (let v = (case map_of (mr_cells row) host of None \<Rightarrow> None | Some v \<Rightarrow> v);
          shown = (case v of None \<Rightarrow> ''(absent)'' | Some t \<Rightarrow> if t = [] then ''(absent)'' else t)
      in take 22 shown @ (if map_of (mr_differs row) host = Some True then ''*'' else '' ''))"

definition render_module_matrix :: "comparison \<Rightarrow> unit_record list \<Rightarrow> string list" where
  "render_module_matrix cmp ok_cols =
     (if cmp_modules cmp = [] \<or> ok_cols = [] then []
      else
        (let mod_w = widest (map length (cmp_modules cmp)) (length ''module'');
             hdr = ljust mod_w ''module'' @ ''  '' @ concat (map (\<lambda>u. ljust 23 (take 22 (ur_host u))) ok_cols)
         in ['''', if cmp_summaries cmp \<noteq> None then ''=== Module status vs build (ok / STALE / MISSING / extra) ===''
                   else ''=== Module versions ('' @ [CHR 39] @ ''*'' @ [CHR 39] @ '' = differs from baseline) ==='',
             hdr, dashes hdr]
            @ map (\<lambda>m. ljust mod_w m @ ''  ''
                       @ concat (map (\<lambda>u. ljust 23 (cell_text (row_at (cmp_matrix cmp) m) (ur_host u))) ok_cols))
                (cmp_modules cmp)))"

definition VALIDATION_UNVERIFIABLE :: string where "VALIDATION_UNVERIFIABLE = ''unverifiable''"

definition with_outcome :: "string \<Rightarrow> unit_record \<Rightarrow> string list" where
  "with_outcome out u = sort (map fst (filter (\<lambda>(m, v). lower v = out) (ur_validation u)))"

definition tier2_line :: "unit_record \<Rightarrow> string" where
  "tier2_line u =
     (if truthy (ur_validated_at u)
      then (let parts = (if with_outcome ''fail'' u = [] then [] else [''fail: '' @ commas (with_outcome ''fail'' u)])
                      @ (if with_outcome VALIDATION_UNVERIFIABLE u = [] then []
                         else [''UNVERIFIABLE: '' @ commas (with_outcome VALIDATION_UNVERIFIABLE u)])
            in ''  '' @ ur_host u @ '': checked '' @ py_str (ur_validated_at u) @ '' -- ''
               @ join ''; '' (if parts = [] then [''all pass''] else parts))
      else ''  '' @ ur_host u @ '': never run (run-verify-only.ps1 has not written a report)'')"

definition render_tier2 :: "comparison \<Rightarrow> unit_record list \<Rightarrow> string list" where
  "render_tier2 cmp ok_cols =
     (if cmp_summaries cmp = None \<or> ok_cols = [] then []
      else ['''', ''=== Tier-2 verify (computed live state) ===''] @ map tier2_line ok_cols)"

definition render_drift_detail :: "comparison \<Rightarrow> string list" where
  "render_drift_detail cmp =
     (let drifted = filter (\<lambda>(h, ms). ms \<noteq> []) (cmp_drift cmp) in
      if drifted = [] then []
      else ['''', ''=== Module drift detail ===''] @ map (\<lambda>(h, ms). ''  '' @ h @ '': '' @ commas ms) drifted)"

section \<open>The repositories\<close>

definition hosts_in :: "repo_row \<Rightarrow> repo_state \<Rightarrow> string list" where
  "hosts_in row st = map fst (filter (\<lambda>(h, s). s = st) (rr_states row))"

definition row_warnings :: "repo_row \<Rightarrow> string list" where
  "row_warnings row =
     (let unverified = sort (hosts_in row RepoUnverified) in
        if unverified = [] then []
        else [''  [WARN] '' @ rr_dir row @ '': '' @ commas unverified @ '' could not reach origin, so the ''
              @ ''revision shown is whatever was already on disk, not what the remote says (#175).''])
     @ (if truthy (rr_pinned row) \<and> hosts_in row RepoDiffers \<noteq> []
        then [''  [WARN] '' @ rr_dir row @ '': pinned at '' @ py_str (rr_pinned row) @ '' but units resolved to ''
              @ ''different commits -- the tag moved, or a unit predates the pin.'']
        else [])
     @ (if hosts_in row RepoMissing \<noteq> []
        then [''  [WARN] '' @ rr_dir row @ '': expected for this role but ABSENT on ''
              @ commas (hosts_in row RepoMissing) @ '' -- the clone did not land, or predates the repo.'']
        else [])
     @ (if hosts_in row RepoUnpinned \<noteq> []
        then [''  [WARN] '' @ rr_dir row @ '': pinned in the manifest but on a branch on ''
              @ commas (hosts_in row RepoUnpinned) @ '' -- a --branch override, or a clone from before the pin.'']
        else [])"

definition render_repo_warnings :: "repo_comparison \<Rightarrow> string list" where
  "render_repo_warnings repos = concat (map row_warnings (rc_matrix repos))"

definition repo_cell :: "repo_row \<Rightarrow> string \<Rightarrow> string res" where
  "repo_cell row host =
     bind_res (short 7 (case map_of (rr_cells row) host of None \<Rightarrow> JNull | Some v \<Rightarrow> v)) (\<lambda>sha.
     case (case map_of (rr_states row) host of None \<Rightarrow> RepoNa | Some st \<Rightarrow> st) of
       RepoNa \<Rightarrow> Inr (ljust 9 ''n/a'')
     | RepoMissing \<Rightarrow> Inr (ljust 9 ''MISSING'')
     | RepoUnverified \<Rightarrow> marked_json 9 ''?'' sha
     | RepoUnpinned \<Rightarrow> marked_json 9 ''!'' sha
     | RepoDiffers \<Rightarrow> marked_json 9 ''*'' sha
     | RepoOk \<Rightarrow> ljust_json 9 sha)"

definition quoted_char :: "char \<Rightarrow> string" where
  "quoted_char c = [CHR 39, c, CHR 39]"

definition render_repo_matrix :: "repo_comparison \<Rightarrow> unit_record list \<Rightarrow> string list res" where
  "render_repo_matrix repos ok_cols =
     (if rc_any_data repos
      then
        (let repo_w = widest (map (\<lambda>r. length (rr_dir r)) (rc_matrix repos)) 8;
             rhdr = ljust repo_w ''repo'' @ ''  '' @ join ''  '' (map (\<lambda>u. ljust 9 (ur_host u)) ok_cols) @ ''  pin''
         in bind_res (map_res (\<lambda>row. bind_res (map_res (\<lambda>u. repo_cell row (ur_host u)) ok_cols) (\<lambda>cells.
              Inr (ljust repo_w (rr_dir row) @ ''  '' @ join ''  '' cells @ ''  '' @ py_str (jor (rr_pinned row) (JStr ''-'')))))
              (rc_matrix repos)) (\<lambda>lines.
            Inr (['''', ''=== Upstream repos (resolved revision; '' @ quoted_char (CHR ''*'') @ '' = differs, ''
                   @ quoted_char (CHR ''!'') @ '' = pin not honoured, '' @ quoted_char (CHR ''?'')
                   @ '' = not verified against origin, MISSING = expected for this role, n/a = not) ==='',
                  rhdr, dashes rhdr] @ lines @ render_repo_warnings repos)))
      else if rc_total repos = 0
      then Inr ['''', ''=== Upstream repos ==='',
                ''  no '' @ [CHR 39] @ ''repos'' @ [CHR 39] @ '' block on any unit -- nothing has re-provisioned since #75 landed.'']
      else Inr [])"

end
