(* ===== verification/Run_Log.thy ===== *)
theory Run_Log
  imports Local_Files
begin

text \<open>
  \<open>server/prov/logevents.py\<close>: where the server keeps its own logs, the event line, and the
  activity table with \<open>csv.writer\<close>'s quoting. The environment and the clock are parameters; a path is
  text, made with the separator of the system.
\<close>

section \<open>Comma-separated rows\<close>

text \<open>\<open>csv.writer\<close> in its default dialect: a field with a comma, a quote or a line end is quoted, and a
  row of one empty field is quoted so that it is not an empty line.\<close>

definition csv_special :: "char \<Rightarrow> bool" where
  "csv_special c \<longleftrightarrow> c \<in> {CHR '','', CHR 34, CHR 13, CHR 10}"

definition csv_quoted :: "string \<Rightarrow> string" where
  "csv_quoted w = CHR 34 # replace_char (CHR 34) [CHR 34, CHR 34] w @ [CHR 34]"

definition csv_field :: "string \<Rightarrow> string" where
  "csv_field w = (if list_ex csv_special w then csv_quoted w else w)"

definition csv_row :: "string list \<Rightarrow> string" where
  "csv_row ws = (if ws = [[]] then csv_quoted [] else join '','' (map csv_field ws)) @ [CHR 13, CHR 10]"

text \<open>What \<open>csv.reader\<close> makes of a text.\<close>

datatype csv_state = StartField | InField | InQuotes | QuoteSeen

fun csv_read :: "csv_state \<Rightarrow> string \<Rightarrow> string list \<Rightarrow> string \<Rightarrow> string list list" where
  "csv_read st w row [] = (if st = StartField \<and> row = [] then [] else [rev (rev w # row)])"
| "csv_read st w row (c # s) =
     (if st = InQuotes then (if c = CHR 34 then csv_read QuoteSeen w row s else csv_read InQuotes (c # w) row s)
      else if st = QuoteSeen \<and> c = CHR 34 then csv_read InQuotes (c # w) row s
      else if c = CHR '','' then csv_read StartField [] (rev w # row) s
      else if c = CHR 13 \<or> c = CHR 10
      then rev (rev w # row) # csv_read StartField [] [] (if c = CHR 13 \<and> s \<noteq> [] \<and> hd s = CHR 10 then tl s else s)
      else if st = StartField \<and> c = CHR 34 then csv_read InQuotes w row s
      else csv_read InField (c # w) row s)"

lemma read_quoted:
  "csv_read InQuotes v row (replace_char (CHR 34) [CHR 34, CHR 34] w @ CHR 34 # s) = csv_read QuoteSeen (rev w @ v) row s"
  by (induction w arbitrary: v) auto

lemma read_plain:
  assumes "\<not> list_ex csv_special w" and "st = StartField \<or> st = InField"
  shows "csv_read st v row (w @ s) = csv_read (if w = [] then st else InField) (rev w @ v) row s"
  using assms by (induction w arbitrary: v st) (auto simp: csv_special_def)

lemma read_field:
  "csv_read StartField [] row (csv_field w @ CHR '','' # s) = csv_read StartField [] (w # row) s"
  "csv_read StartField [] row (csv_field w @ CHR 13 # CHR 10 # s) = rev (w # row) # csv_read StartField [] [] s"
  using read_quoted [of "[]" row w] read_plain [of w StartField "[]" row]
  by (simp_all add: csv_field_def csv_quoted_def)

lemma read_fields:
  "ws \<noteq> [] \<Longrightarrow> csv_read StartField [] row (join '','' (map csv_field ws) @ CHR 13 # CHR 10 # s)
     = (rev row @ ws) # csv_read StartField [] [] s"
proof (induction ws arbitrary: row)
  case (Cons w ws)
  then show ?case by (cases ws) (simp_all add: read_field)
qed simp

lemma read_row: "ws \<noteq> [] \<Longrightarrow> csv_read StartField [] [] (csv_row ws @ s) = ws # csv_read StartField [] [] s"
  using read_fields [of ws "[]" s] by (simp add: csv_row_def csv_quoted_def)

lemma read_rows: "\<forall>ws\<in>set rows. ws \<noteq> [] \<Longrightarrow> csv_read StartField [] [] (concat (map csv_row rows) @ s)
    = rows @ csv_read StartField [] [] s"
  by (induction rows) (simp_all add: read_row)

section \<open>Paths\<close>

record server_env =
  en_server_root :: "string option"
  en_windows :: bool
  en_systemdrive :: "string option"

definition server_root :: "server_env \<Rightarrow> string" where
  "server_root E =
     (case en_server_root E of
        Some (c # r) \<Rightarrow> c # r
      | _ \<Rightarrow> if en_windows E
             then (case en_systemdrive E of Some (c # d) \<Rightarrow> c # d | _ \<Rightarrow> ''C:'') @ [CHR 92] @ ''MAST''
             else ''/var/lib/mast'')"

definition sep :: "server_env \<Rightarrow> string" where
  "sep E = (if en_windows E then [CHR 92] else ''/'')"

definition prov_logs_base :: "server_env \<Rightarrow> string" where
  "prov_logs_base E = server_root E @ sep E @ ''logs'' @ sep E @ ''prov''"

definition prov_session_dir :: "server_env \<Rightarrow> string \<Rightarrow> string" where
  "prov_session_dir E run_id = prov_logs_base E @ sep E @ ''sessions'' @ sep E @ run_id"

definition prov_activity_csv :: "server_env \<Rightarrow> string" where
  "prov_activity_csv E = prov_logs_base E @ sep E @ ''activity.csv''"

definition prov_last_err_log :: "server_env \<Rightarrow> string" where
  "prov_last_err_log E = prov_logs_base E @ sep E @ ''last-error.log''"

definition status_base :: "server_env \<Rightarrow> string" where
  "status_base E = server_root E @ sep E @ ''status''"

definition last_run_path :: "server_env \<Rightarrow> string" where
  "last_run_path E = status_base E @ sep E @ ''last-run.json''"

section \<open>The log of a run\<close>

definition write_status_atomic :: "string \<Rightarrow> json \<Rightarrow> ('r relay_world, unit) eff" where
  "write_status_atomic path obj =
     seqM (write_file (path @ ''.tmp'') (dumps_indent 0 obj)) (replace_file (path @ ''.tmp'') path)"

definition fmt_event :: "string \<Rightarrow> string \<Rightarrow> (string \<times> string) list \<Rightarrow> string" where
  "fmt_event now event_type flds =
     join ''  '' ([''['' @ now @ '']'', event_type] @ map (\<lambda>(k, v). k @ ''='' @ v) flds)"

text \<open>The world of a run: the files, what was printed, and the outcomes kept for \<open>last-run.json\<close>.\<close>

record log_world =
  lw_files :: "(string, string) dict"
  lw_stdout :: "string list"
  lw_outcomes :: "(string, string) dict"

record run_log =
  rl_run_id :: string
  rl_run_log_path :: string
  rl_activity_csv :: string
  rl_last_err_log :: string
  rl_echo :: bool

definition append_file :: "string \<Rightarrow> string \<Rightarrow> (log_world, unit) eff" where
  "append_file p t = modifyM (\<lambda>w. w\<lparr>lw_files :=
     dict_set p ((case map_of (lw_files w) p of None \<Rightarrow> [] | Some old \<Rightarrow> old) @ t) (lw_files w)\<rparr>)"

definition ACTIVITY_HEADER :: "string list" where
  "ACTIVITY_HEADER = [''timestamp_utc'', ''run_id'', ''unit'', ''outcome'', ''reason'', ''duration_s'', ''payload_hash'', ''git_sha'']"

definition new_run_log :: "server_env \<Rightarrow> string \<Rightarrow> bool \<Rightarrow> (log_world, run_log) eff" where
  "new_run_log E run_id echo =
     (let csv = prov_activity_csv E in
      seqM (modifyM (\<lambda>w. w\<lparr>lw_outcomes := []\<rparr>))
      (bindM (gets (\<lambda>w. map_of (lw_files w) csv)) (\<lambda>there.
       seqM (whenM (there = None) (append_file csv (csv_row ACTIVITY_HEADER)))
            (ret \<lparr>rl_run_id = run_id, rl_run_log_path = prov_session_dir E run_id @ sep E @ run_id @ ''.log'',
                  rl_activity_csv = csv, rl_last_err_log = prov_last_err_log E, rl_echo = echo\<rparr>))))"

definition append_run_log :: "run_log \<Rightarrow> string \<Rightarrow> (log_world, unit) eff" where
  "append_run_log L line =
     seqM (append_file (rl_run_log_path L) (line @ [CHR 10]))
          (whenM (rl_echo L) (modifyM (\<lambda>w. w\<lparr>lw_stdout := lw_stdout w @ [line]\<rparr>)))"

definition log_event :: "run_log \<Rightarrow> string \<Rightarrow> string \<Rightarrow> (string \<times> string) list \<Rightarrow> (log_world, unit) eff" where
  "log_event L now event_type flds = append_run_log L (fmt_event now event_type flds)"

definition log_raw :: "run_log \<Rightarrow> string \<Rightarrow> (log_world, unit) eff" where
  "log_raw L text = whenM (text \<noteq> []) (append_run_log L text)"

record activity_row =
  ar_unit :: string
  ar_outcome :: string
  ar_reason :: string
  ar_duration_s :: int
  ar_payload_hash :: string
  ar_git_sha :: string

definition activity_fields :: "run_log \<Rightarrow> string \<Rightarrow> activity_row \<Rightarrow> string list" where
  "activity_fields L now r = [now, rl_run_id L, ar_unit r, ar_outcome r, ar_reason r, int_str (ar_duration_s r),
     ar_payload_hash r, ar_git_sha r]"

definition log_activity :: "run_log \<Rightarrow> string \<Rightarrow> activity_row \<Rightarrow> (log_world, unit) eff" where
  "log_activity L now r =
     seqM (append_file (rl_activity_csv L) (csv_row (activity_fields L now r)))
          (modifyM (\<lambda>w. w\<lparr>lw_outcomes := dict_set (ar_unit r) (ar_outcome r) (lw_outcomes w)\<rparr>))"

text \<open>The sink of \<open>prov.transport\<close>: its heartbeat lines get the time.\<close>

definition transport_log :: "run_log \<Rightarrow> string \<Rightarrow> string \<Rightarrow> (log_world, unit) eff" where
  "transport_log L now m = append_run_log L (''['' @ now @ ''] '' @ m)"

section \<open>Properties\<close>

definition log_activities :: "run_log \<Rightarrow> (string \<times> activity_row) list \<Rightarrow> (log_world, unit) eff" where
  "log_activities L rs = forM rs (\<lambda>(now, r). log_activity L now r)"

lemma log_activities_app:
  assumes "map_of (lw_files w) (rl_activity_csv L) = Some t"
  shows "\<exists>w'. log_activities L rs w = (Inr (), w')
     \<and> map_of (lw_files w') (rl_activity_csv L) = Some (t @ concat (map (\<lambda>(now, r). csv_row (activity_fields L now r)) rs))
     \<and> map_of (lw_outcomes w') = map_of (lw_outcomes w) ++ map_of (rev (map (\<lambda>(now, r). (ar_unit r, ar_outcome r)) rs))"
  using assms
proof (induction rs arbitrary: w t)
  case (Cons e rs)
  obtain now r where e: "e = (now, r)" by fastforce
  define w1 where "w1 = snd (log_activity L now r w)"
  have w1: "log_activity L now r w = (Inr (), w1)"
      "map_of (lw_files w1) (rl_activity_csv L) = Some (t @ csv_row (activity_fields L now r))"
      "map_of (lw_outcomes w1) = (map_of (lw_outcomes w))(ar_unit r \<mapsto> ar_outcome r)"
    using Cons.prems by (simp_all add: w1_def log_activity_def append_file_def seqM_def bindM_def)
  from Cons.IH [OF w1(2)] obtain w' where w': "log_activities L rs w1 = (Inr (), w')"
      "map_of (lw_files w') (rl_activity_csv L) = Some ((t @ csv_row (activity_fields L now r)) @
         concat (map (\<lambda>(now, r). csv_row (activity_fields L now r)) rs))"
      "map_of (lw_outcomes w') = map_of (lw_outcomes w1) ++ map_of (rev (map (\<lambda>(now, r). (ar_unit r, ar_outcome r)) rs))"
    by blast
  have "log_activities L (e # rs) w = (Inr (), w')"
    using w1(1) w'(1) by (simp add: log_activities_def e seqM_def bindM_def)
  moreover have "map_of (lw_outcomes w') = map_of (lw_outcomes w)
      ++ map_of (rev (map (\<lambda>(now, r). (ar_unit r, ar_outcome r)) (e # rs)))"
    unfolding w'(3) w1(3) by (simp add: e)
  ultimately show ?case using w'(2) by (intro exI [of _ w']) (simp add: e)
qed (simp add: log_activities_def)

text \<open>C33: The activity table reads back: on a disk with no table, or with one the log wrote, a new run log
  and any rows whatever they hold leave a table that reads as the header, the rows that were there and
  the new ones, and the outcomes kept in memory are those of the last row of each unit.
\<close>

theorem activity_table_reads_back:
  assumes before: "map_of (lw_files w) (prov_activity_csv E) = None \<and> old = []
      \<or> map_of (lw_files w) (prov_activity_csv E) = Some (csv_row ACTIVITY_HEADER @ concat (map csv_row old))"
    and "\<forall>ws\<in>set old. ws \<noteq> []"
  shows "\<exists>L w1 w2 t. new_run_log E run_id echo w = (Inr L, w1) \<and> log_activities L rs w1 = (Inr (), w2)
     \<and> map_of (lw_files w2) (prov_activity_csv E) = Some t
     \<and> csv_read StartField [] [] t = ACTIVITY_HEADER # old @ map (\<lambda>(now, r). activity_fields L now r) rs
     \<and> map_of (lw_outcomes w2) = map_of (rev (map (\<lambda>(now, r). (ar_unit r, ar_outcome r)) rs))"
proof -
  define L where "L = \<lparr>rl_run_id = run_id, rl_run_log_path = prov_session_dir E run_id @ sep E @ run_id @ ''.log'',
                  rl_activity_csv = prov_activity_csv E, rl_last_err_log = prov_last_err_log E, rl_echo = echo\<rparr>"
  define w1 where "w1 = snd (new_run_log E run_id echo w)"
  have w1: "new_run_log E run_id echo w = (Inr L, w1)"
      "map_of (lw_files w1) (rl_activity_csv L) = Some (csv_row ACTIVITY_HEADER @ concat (map csv_row old))"
      "lw_outcomes w1 = []"
    using before by (auto simp: w1_def L_def new_run_log_def Let_def seqM_def bindM_def gets_def modifyM_def ret_def
        whenM_def append_file_def)
  obtain w2 where w2: "log_activities L rs w1 = (Inr (), w2)"
     "map_of (lw_files w2) (rl_activity_csv L) = Some ((csv_row ACTIVITY_HEADER @ concat (map csv_row old))
        @ concat (map (\<lambda>(now, r). csv_row (activity_fields L now r)) rs))"
     "map_of (lw_outcomes w2) = map_of (lw_outcomes w1) ++ map_of (rev (map (\<lambda>(now, r). (ar_unit r, ar_outcome r)) rs))"
    using log_activities_app [OF w1(2)] by blast
  let ?all = "ACTIVITY_HEADER # old @ map (\<lambda>(now, r). activity_fields L now r) rs"
  have "(csv_row ACTIVITY_HEADER @ concat (map csv_row old)) @ concat (map (\<lambda>(now, r). csv_row (activity_fields L now r)) rs)
      = concat (map csv_row ?all)"
    by (simp add: comp_def case_prod_unfold)
  moreover have "\<forall>ws\<in>set ?all. ws \<noteq> []"
    using assms(2) by (auto simp: ACTIVITY_HEADER_def activity_fields_def)
  ultimately have "csv_read StartField [] [] ((csv_row ACTIVITY_HEADER @ concat (map csv_row old))
      @ concat (map (\<lambda>(now, r). csv_row (activity_fields L now r)) rs)) = ?all"
    using read_rows [of ?all "[]"] by simp
  then show ?thesis
    using w1(1,3) w2 by (intro exI [of _ L] exI [of _ w1] exI [of _ w2]) (simp add: L_def)
qed

lemma activity_table_reads_back_witness:
  "\<exists>L w1 w2 t. new_run_log \<lparr>en_server_root = None, en_windows = False, en_systemdrive = None\<rparr> ''r'' False
        \<lparr>lw_files = [], lw_stdout = [], lw_outcomes = []\<rparr> = (Inr L, w1)
     \<and> log_activities L [(''t'', \<lparr>ar_unit = ''m'', ar_outcome = ''OK'', ar_reason = ''a, b'', ar_duration_s = 1,
          ar_payload_hash = [], ar_git_sha = []\<rparr>)] w1 = (Inr (), w2)
     \<and> map_of (lw_files w2) ''/var/lib/mast/logs/prov/activity.csv'' = Some t"
proof -
  let ?E = "\<lparr>en_server_root = None, en_windows = False, en_systemdrive = None\<rparr>"
  have p: "prov_activity_csv ?E = ''/var/lib/mast/logs/prov/activity.csv''"
    by (simp add: prov_activity_csv_def prov_logs_base_def server_root_def sep_def)
  have none: "map_of (lw_files \<lparr>lw_files = [], lw_stdout = [], lw_outcomes = []\<rparr>) (prov_activity_csv ?E) = None \<and> [] = []
      \<or> map_of (lw_files \<lparr>lw_files = [], lw_stdout = [], lw_outcomes = []\<rparr>) (prov_activity_csv ?E)
        = Some (csv_row ACTIVITY_HEADER @ concat (map csv_row []))" by simp
  show ?thesis
    using activity_table_reads_back [OF none, of "''r''" False "[(''t'', \<lparr>ar_unit = ''m'', ar_outcome = ''OK'',
        ar_reason = ''a, b'', ar_duration_s = 1, ar_payload_hash = [], ar_git_sha = []\<rparr>)]"]
    unfolding p by auto
qed

end
