(* ===== verification/Fleet_Sections.thy ===== *)
theory Fleet_Sections
  imports Fleet_Render Run_Log
begin

text \<open>
  The sections of \<open>src/tools/fleet-drift-report.py\<close> on what the units report of themselves (facts,
  BIOS, certificates, update state, site), on the bootstrap and the result; the whole report and
  its CSV form.
\<close>

section \<open>Module-reported facts\<close>

definition fact_label :: "fact_row \<Rightarrow> string" where
  "fact_label r = fr_module r @ ''.'' @ fr_key r @ (if fr_divergent r then ''*'' else [])"

definition fact_cell :: "fact_row \<Rightarrow> string \<Rightarrow> string option" where
  "fact_cell r host = (case map_of (fr_cells r) host of None \<Rightarrow> None | Some v \<Rightarrow> v)"

definition shown_cell :: "fact_row \<Rightarrow> string \<Rightarrow> string" where
  "shown_cell r host = (case fact_cell r host of None \<Rightarrow> ''-'' | Some v \<Rightarrow> if v = [] then ''-'' else v)"

definition render_facts_matrix :: "fact_row list \<Rightarrow> unit_record list \<Rightarrow> string list" where
  "render_facts_matrix rows ok_cols =
     (if rows = [] then []
      else
        (let name_w = widest (map (\<lambda>r. length (fact_label r)) rows) 8;
             width = (\<lambda>host. widest (map (\<lambda>r. length (shown_cell r host)) rows) (length host));
             hdr = ljust name_w ''fact'' @ ''  '' @ join ''  '' (map (\<lambda>u. ljust (width (ur_host u)) (ur_host u)) ok_cols)
         in ['''', ''=== Module-reported facts (what each module FOUND; '' @ quoted_char (CHR ''*'') @ '' = units disagree, ''
               @ quoted_char (CHR ''-'') @ '' = not reported) ==='', rstrip hdr, dashes hdr]
            @ map (\<lambda>r. rstrip (ljust name_w (fact_label r) @ ''  ''
                 @ join ''  '' (map (\<lambda>u. ljust (width (ur_host u))
                      (case fact_cell r (ur_host u) of None \<Rightarrow> ''-'' | Some v \<Rightarrow> v)) ok_cols))) rows))"

section \<open>The BIOS power policy\<close>

definition facts_at :: "unit_record \<Rightarrow> string \<Rightarrow> (string, json) dict" where
  "facts_at u m = (case map_of (ur_facts u) m of None \<Rightarrow> [] | Some f \<Rightarrow> f)"

definition reporting :: "string \<Rightarrow> string \<Rightarrow> unit_record list \<Rightarrow> (string \<times> (string, json) dict) list" where
  "reporting m key us = filter (\<lambda>(h, f). truthy (field f key)) (map (\<lambda>u. (ur_host u, facts_at u m)) us)"

definition policy_fields :: "(string, json) dict \<Rightarrow> string list" where
  "policy_fields f = map (\<lambda>(k, v). drop 6 k @ ''='' @ py_str v) (sort_key fst (filter (\<lambda>(k, v). startswith ''field_'' k) f))"

definition bios_line :: "nat \<Rightarrow> string \<times> (string, json) dict \<Rightarrow> string" where
  "bios_line width hf =
     ''  '' @ ljust width (fst hf) @ ''  '' @ ljust 16 (py_str (field (snd hf) ''bios_check'')) @ ''  ''
     @ join ''  '' ([''board='' @ py_str (jor (field (snd hf) ''baseboard'') (JStr ''?'')),
                   ''bios='' @ py_str (jor (field (snd hf) ''bios_version'') (JStr ''?''))] @ policy_fields (snd hf))"

definition bios_note :: "string \<times> (string, json) dict \<Rightarrow> string list" where
  "bios_note hf =
     (let status = py_str (field (snd hf) ''bios_check'') in
      if truthy (field (snd hf) ''needs_attention'')
      then (if status = ''unknown-baseline''
            then [''  [WARN] '' @ fst hf @ '': no baseline for this board/BIOS -- power policy NOT verified. ''
                  @ ''Check APM Configuration by hand, then re-baseline (see README).'']
            else [''  [WARN] '' @ fst hf @ '': BIOS power policy is wrong -- this unit may not power itself ''
                  @ ''back on after a mains event. Fix in BIOS setup: Advanced -> APM Configuration.''])
      else if status = ''blob-drift''
      then [''  [note] '' @ fst hf @ '': some other BIOS setting differs from the baseline; ''
            @ ''the power-policy fields are all correct.'']
      else [])"

definition render_bios_policy :: "unit_record list \<Rightarrow> string list" where
  "render_bios_policy ok_cols =
     (let rows = reporting ''power-management'' ''bios_check'' ok_cols in
      if rows = [] then []
      else ['''', ''=== BIOS power policy (read-only; fixed by hand at the console) ==='']
        @ map (bios_line (widest (map (\<lambda>(h, f). length h) rows) 0)) rows
        @ concat (map bios_note rows)
        @ (if list_ex (\<lambda>(h, f). truthy (field f ''needs_attention'')) rows then []
           else [''  All reporting units match their baseline power policy.'']))"

section \<open>Certificates\<close>

definition days_of :: "(string \<times> (string, json) dict) list \<Rightarrow> int" where
  "days_of members = (let d = field (snd (hd members)) ''nomachine_days_left'' in if is_int d then int_of d else 10 ^ 6)"

fun group_by_expiry ::
    "(string \<times> (string, json) dict) list \<Rightarrow> (string, (string \<times> (string, json) dict) list) dict
      \<Rightarrow> (string, (string \<times> (string, json) dict) list) dict" where
  "group_by_expiry [] acc = acc"
| "group_by_expiry (hf # rows) acc =
     group_by_expiry rows (append_at (py_str (jor (field (snd hf) ''nomachine_expiry'') (JStr ''(unreported)''))) hf acc)"

definition expiry_warning :: "string \<Rightarrow> string \<Rightarrow> string \<Rightarrow> string option" where
  "expiry_warning state left hosts =
     (if state = ''expired'' then Some (''  [WARN] EXPIRED -- these units refuse NoMachine connections now: '' @ hosts)
      else if state = ''expiring'' then Some (''  [WARN] renewal is a purchase with lead time; start it now ('' @ left @ '' left)'')
      else if state = ''unknown'' then Some (''  [WARN] expiry could not be read on: '' @ hosts)
      else None)"

definition expiry_lines :: "string \<times> (string \<times> (string, json) dict) list \<Rightarrow> string list \<times> bool" where
  "expiry_lines eg =
     (let members = snd eg;
          hosts = commas (sort (map fst members));
          days = field (snd (hd members)) ''nomachine_days_left'';
          left = (if is_int days then py_str days @ '' day(s)'' else ''unknown'');
          warning = expiry_warning (py_str (field (snd (hd members)) ''nomachine_state'')) left hosts
      in ((''  '' @ nat_str (length members) @ '' unit(s) expire '' @ fst eg @ '' -- '' @ left @ '': '' @ hosts)
            # (case warning of None \<Rightarrow> [] | Some w \<Rightarrow> [w]), warning \<noteq> None))"

definition render_nomachine :: "unit_record list \<Rightarrow> string list" where
  "render_nomachine ok_cols =
     (let rows = reporting ''nomachine'' ''nomachine_state'' ok_cols in
      if rows = [] then []
      else
        (let groups = map expiry_lines (sort_key (\<lambda>eg. days_of (snd eg)) (group_by_expiry rows []))
         in ['''', ''=== NoMachine certificates ===''] @ concat (map fst groups)
            @ (if list_ex snd groups then [] else [''  All reporting units hold a current certificate.''])))"

section \<open>The update state\<close>

fun patch_text :: "os_patch_state \<Rightarrow> string" where
  "patch_text os_patch_state.UpToDate = ''up-to-date''"
| "patch_text Behind = ''behind''"
| "patch_text Ahead = ''ahead''"
| "patch_text NoBaseline = ''no-baseline''"
| "patch_text UnknownBuild = ''unknown-build''"

fun dotnet_text :: "dotnet_state \<Rightarrow> string" where
  "dotnet_text DotnetUpToDate = ''up-to-date''"
| "dotnet_text DotnetBehind = ''behind''"
| "dotnet_text DotnetAhead = ''ahead''"
| "dotnet_text OtherLine = ''other-line''"
| "dotnet_text DotnetUnknown = ''unknown''"

fun blocker_text :: "string \<Rightarrow> blocker \<Rightarrow> string" where
  "blocker_text reasons PendingReboot = ''a reboot is already pending ('' @ reasons @ ''); reboot before patching''"
| "blocker_text reasons ComponentStore = ''the component store is not healthy; repair it (DISM /RestoreHealth) before patching''"
| "blocker_text reasons LowDisk = ''less than the free space an LCU install needs on C:''"

fun finding_text :: "finding \<Rightarrow> string" where
  "finding_text LockdownOff = ''the Windows Update lockdown is not in place (NoAutoUpdate policy or task missing)''"
| "finding_text EdgeUpdateOn = ''Microsoft Edge'' @ [CHR 39] @ ''s own updater is not disabled (services or tasks live)''"
| "finding_text WinreDisabled = ''WinRE is not enabled, so a failed update has no recovery environment''"

definition patch_line :: "nat \<Rightarrow> string \<Rightarrow> os_assessment \<Rightarrow> string" where
  "patch_line width host a =
     ''  '' @ ljust width host @ ''  '' @ ljust 14 (patch_text (as_state a)) @ ''  '' @ int_str (as_build a) @ ''.'' @ int_str (as_ubr a)
     @ (case as_target_ubr a of None \<Rightarrow> []
        | Some t \<Rightarrow> '' -> '' @ int_str t @ '' ('' @ optional_text (as_baseline_id a) @ '')'')
     @ ''  lcu-installed='' @ (case as_lcu_installed a of None \<Rightarrow> ''?'' | Some t \<Rightarrow> if t = [] then ''?'' else t)
     @ ''  .NET '' @ dotnet_text (as_dotnet a)
     @ (case as_dotnet_target a of None \<Rightarrow> []
        | Some t \<Rightarrow> if t = [] then [] else '' '' @ optional_text (as_dotnet_version a) @ '' -> '' @ t)"

definition patch_notes :: "string \<Rightarrow> os_assessment \<Rightarrow> string list" where
  "patch_notes host a =
     map (\<lambda>b. ''  [WARN] '' @ host @ '': '' @ blocker_text (commas (as_pending_reboot a)) b) (as_blockers a)
     @ map (\<lambda>f. ''  [WARN] '' @ host @ '': '' @ finding_text f) (as_findings a)"

definition hosts_where :: "(os_assessment \<Rightarrow> bool) \<Rightarrow> (string, string + os_assessment) dict \<Rightarrow> string list" where
  "hosts_where P os_patch = sort (map fst (filter (\<lambda>(h, a). case a of Inl t \<Rightarrow> False | Inr a \<Rightarrow> P a) os_patch))"

definition counted_note :: "string \<Rightarrow> string list \<Rightarrow> string list" where
  "counted_note what hosts =
     (if hosts = [] then []
      else [''  [note] '' @ what @ '' on '' @ nat_str (length hosts) @ '' unit(s): '' @ commas hosts])"

definition render_os_patch :: "(string, string + os_assessment) dict \<Rightarrow> string list" where
  "render_os_patch os_patch =
     (if os_patch = [] then []
      else
        (let width = widest (map (\<lambda>(h, a). length h) os_patch) 0;
             entries = sort_key fst os_patch
         in ['''', ''=== OS patch level (live probe; reference = newest committed baseline for the build) ==='']
            @ map (\<lambda>(h, a). case a of Inl t \<Rightarrow> ''  '' @ ljust width h @ ''  unknown         '' @ t | Inr a \<Rightarrow> patch_line width h a) entries
            @ concat (map (\<lambda>(h, a). case a of Inl t \<Rightarrow> [] | Inr a \<Rightarrow> patch_notes h a) entries)
            @ counted_note ''File renames are queued for the next reboot''
                (hosts_where (\<lambda>a. as_pending_reboot a \<noteq> [] \<and> PendingReboot \<notin> set (as_blockers a)) os_patch)
            @ counted_note ''Secure Boot is off'' (hosts_where (\<lambda>a. as_secure_boot a = Some False) os_patch)))"

section \<open>The PWI4 site\<close>

definition site_text :: "json \<Rightarrow> string res" where
  "site_text site =
     (if site = JNull then Inr ''-''
      else bind_res (jindex site ''latitude'') (\<lambda>lat. bind_res (jindex site ''longitude'') (\<lambda>long.
           Inr (py_repr lat @ '' / '' @ py_repr long))))"

definition site_line :: "nat \<Rightarrow> unit_record \<Rightarrow> string res" where
  "site_line width u =
     (if ur_site_probe u = JNull
      then Inr (''  '' @ ljust width (ur_host u) @ ''  unknown  probe failed: '' @ optional_text (ur_site_probe_error u))
      else
        bind_res (site_verdict (ur_site_probe u)) (\<lambda>verdict.
        bind_res (bind_res (jindex (ur_site_probe u) ''cfg'') site_text) (\<lambda>cfg.
        bind_res (bind_res (jindex (ur_site_probe u) ''model'') site_text) (\<lambda>model.
        bind_res (jindex (ur_site_probe u) ''pwi4_running'') (\<lambda>running.
        Inr (''  '' @ ljust width (ur_host u) @ ''  '' @ ljust 30 (verdict_text verdict) @ ''  cfg '' @ cfg @ ''  model '' @ model
             @ (if truthy running then ''  (PWI4 running)'' else [])))))))"

definition render_pwi4_site :: "unit_record list \<Rightarrow> string list res" where
  "render_pwi4_site units =
     (let probed = filter (\<lambda>u. ur_site_probe u \<noteq> JNull \<or> failed_text (ur_site_probe_error u)) units in
      if probed = [] then Inr []
      else bind_res (map_res (site_line (widest (hosts_of probed) 0)) (sort_key ur_host probed)) (\<lambda>lines.
           Inr (['''', ''=== PWI4 site (live probe; reference = each unit'' @ [CHR 39] @ ''s C:'' @ [CHR 92] @ ''WIS'' @ [CHR 92]
                       @ ''config.toml) ===''] @ lines)))"

section \<open>The bootstrap\<close>

definition render_work_order :: "boot_gap \<Rightarrow> string list" where
  "render_work_order g =
     (let other = filter (\<lambda>(k, v). k \<notin> set SELF_HEALING_KINDS \<and> k \<noteq> ''console'' \<and> v \<noteq> []) (bg_by_kind g);
          out = (if bg_self_healing g = [] then [] else [''      self-heals next cycle : '' @ commas (bg_self_healing g)])
              @ (if bg_needs_console g = [] then [] else [''      NEEDS A CONSOLE VISIT : '' @ commas (bg_needs_console g)])
              @ map (\<lambda>(k, ids). ''      '' @ ljust 21 k @ '' : '' @ commas ids) (sort_key fst other)
      in if out = [] then [''      (no elements listed)''] else out)"

definition render_reassert_note :: "boot_gap \<Rightarrow> string list" where
  "render_reassert_note g =
     (case bg_reassert g of
        None \<Rightarrow> []
      | Some ra \<Rightarrow>
          (let at = (if ra_at ra = [] then ''unknown time'' else ra_at ra) in
           if ra_state ra = ''applied''
           then [''      re-asserted '' @ at @ '' ('' @ py_str (ra_applied ra) @ '' routine element(s) applied)'']
           else if ra_state ra = ''failed'' then [''      [WARN] last re-assert FAILED at '' @ at]
           else [''      last re-assert: '' @ ra_state ra @ '' at '' @ at]))"

definition render_bootstrap_unit :: "json \<Rightarrow> string \<Rightarrow> boot_gap \<Rightarrow> string list" where
  "render_bootstrap_unit cur host g =
     (case bg_state g of
        Unstamped \<Rightarrow> [''  '' @ host @ '': UNSTAMPED -- no bootstrap-manifest.json ''
                      @ ''(pre-versioning, or bootstrap not re-run since stamping was added); ''
                      @ ''treat every element as unverified'']
      | Outdated \<Rightarrow> [''  '' @ host @ '': v'' @ opt_int (bg_version g) @ '' OUTDATED (current '' @ py_str cur @ '')'']
      | Current \<Rightarrow> [''  '' @ host @ '': v'' @ opt_int (bg_version g) @ '' (current)''])
     @ (if bg_state g \<noteq> Current then render_work_order g else []) @ render_reassert_note g"

definition default_gap :: boot_gap where
  "default_gap = \<lparr>bg_state = Unstamped, bg_version = None, bg_missing = [], bg_by_kind = [], bg_self_healing = [],
     bg_needs_console = [], bg_reassert = None\<rparr>"

definition gap_at :: "boot_report \<Rightarrow> unit_record \<Rightarrow> boot_gap" where
  "gap_at boot u = (case map_of (br_by_host boot) (ur_host u) of None \<Rightarrow> default_gap | Some g \<Rightarrow> g)"

text \<open>\<open>repo_boot_v != cur\<close>, for a current version written as an integer.\<close>

definition same_int :: "int \<Rightarrow> json \<Rightarrow> bool" where
  "same_int v cur \<longleftrightarrow> is_int cur \<and> int_of cur = v"

definition render_bootstrap :: "unit_record list \<Rightarrow> boot_report \<Rightarrow> int option \<Rightarrow> string list" where
  "render_bootstrap units boot repo_boot_v =
     (let cur = br_current boot in
      ['''', ''=== Bootstrap (current version: '' @ (if cur = JNull then ''unknown'' else py_str cur) @ '') ==='']
      @ (case repo_boot_v of None \<Rightarrow> []
         | Some v \<Rightarrow> if cur \<noteq> JNull \<and> \<not> same_int v cur
             then [''  [WARN] client/bootstrap.ps1 $script:BootstrapVersion='' @ int_str v @ '' ''
                   @ ''!= bootstrap-elements.json current_version='' @ py_str cur @ '' -- bump them together.'']
             else [])
      @ concat (map (\<lambda>u. render_bootstrap_unit cur (ur_host u) (gap_at boot u)) units))"

section \<open>The result\<close>

definition module_problems :: "unit_record list \<Rightarrow> comparison \<Rightarrow> string list" where
  "module_problems units cmp = map ur_host (filter (\<lambda>u. verdict_at cmp u \<noteq> Some ''IN SYNC'') units)"

definition boot_problems :: "unit_record list \<Rightarrow> boot_report \<Rightarrow> string list" where
  "boot_problems units boot =
     map ur_host (filter (\<lambda>u. map_option bg_state (map_of (br_by_host boot) (ur_host u)) \<noteq> Some Current) units)"

definition repo_problems :: "repo_comparison \<Rightarrow> string list" where
  "repo_problems repos = (if rc_any_data repos then sort (rc_divergent repos) else [])"

definition tier2_unknown :: "unit_record list \<Rightarrow> string list" where
  "tier2_unknown units =
     sort (map ur_host (filter (\<lambda>u. list_ex (\<lambda>(m, v). lower v = VALIDATION_UNVERIFIABLE) (ur_validation u)) units))"

definition ALL_CLEAR :: string where "ALL_CLEAR = ''RESULT: all units in sync and bootstrap current''"

definition counted :: "string \<Rightarrow> string \<Rightarrow> string list \<Rightarrow> string" where
  "counted what unit_word xs = ''RESULT: '' @ what @ '' '' @ nat_str (length xs) @ '' '' @ unit_word @ ''(s): '' @ commas xs"

definition boot_result :: "boot_report \<Rightarrow> string list \<Rightarrow> string list" where
  "boot_result boot problems =
     (let visits = sort (filter (\<lambda>h. case map_of (br_by_host boot) h of None \<Rightarrow> False | Some g \<Rightarrow> bg_needs_console g \<noteq> []) problems)
      in [counted ''bootstrap outdated/unstamped on'' ''unit'' problems,
          if visits \<noteq> [] then ''RESULT: needs a console visit: '' @ commas visits
          else ''RESULT: every bootstrap gap self-heals on the next provisioning cycle''])"

definition render_result :: "unit_record list \<Rightarrow> comparison \<Rightarrow> boot_report \<Rightarrow> repo_comparison \<Rightarrow> string list" where
  "render_result units cmp boot repos =
     (let ms = module_problems units cmp; gaps = boot_problems units boot; rs = repo_problems repos; ts = tier2_unknown units in
      if ms = [] \<and> gaps = [] \<and> rs = [] \<and> ts = [] then ['''', ALL_CLEAR]
      else ['''']
        @ (if ms \<noteq> [] then [counted ''payload drift/gaps on'' ''unit'' ms] else [])
        @ (if gaps \<noteq> [] then boot_result boot gaps else [])
        @ (if rs \<noteq> [] then [counted ''upstream repo divergence on'' ''repo'' rs] else [])
        @ (if ts \<noteq> [] then [counted ''tier-2 could not verify'' ''unit'' ts
             @ '' -- checks passed but at least one could not be run (usually no route to origin); ''
             @ ''currency is UNKNOWN on these, not confirmed''] else []))"

section \<open>The report\<close>

definition render_lines ::
    "unit_record list \<Rightarrow> unit_record option \<Rightarrow> comparison \<Rightarrow> boot_report \<Rightarrow> int option \<Rightarrow> repo_comparison \<Rightarrow> fact_row list
      \<Rightarrow> (string, string + os_assessment) dict \<Rightarrow> string list res" where
  "render_lines units reference cmp boot repo_boot_v repos facts os_patch =
     (let ok_cols = filter is_ok ((case reference of None \<Rightarrow> [] | Some r \<Rightarrow> [r]) @ units) in
      bind_res (render_fleet_summary units reference cmp boot) (\<lambda>fleet.
      bind_res (render_repo_matrix repos ok_cols) (\<lambda>repo_lines.
      bind_res (render_pwi4_site units) (\<lambda>site.
      Inr (fleet @ render_repos_oneliner repos @ render_module_matrix cmp ok_cols @ render_tier2 cmp ok_cols
           @ render_drift_detail cmp @ repo_lines @ render_facts_matrix facts ok_cols @ render_bios_policy ok_cols
           @ render_nomachine ok_cols @ render_os_patch os_patch @ site @ render_bootstrap units boot repo_boot_v
           @ render_result units cmp boot repos)))))"

section \<open>The CSV form\<close>

definition csv_json :: "json \<Rightarrow> string" where
  "csv_json v = (if truthy v then py_str v else [])"

fun boot_text :: "boot_state \<Rightarrow> string" where
  "boot_text Unstamped = ''unstamped''"
| "boot_text Outdated = ''outdated''"
| "boot_text Current = ''current''"

definition csv_header :: "comparison \<Rightarrow> repo_comparison \<Rightarrow> fact_row list \<Rightarrow> string list" where
  "csv_header cmp repos facts =
     [''host'', ''status'', ''verdict'', ''payload_hash'', ''git_sha'', ''installed_at'', ''bootstrap_version'',
      ''bootstrap_state'', ''bootstrap_missing'']
     @ cmp_modules cmp @ map (\<lambda>d. ''repo:'' @ d) (rc_dirs repos)
     @ map (\<lambda>r. ''fact:'' @ fr_module r @ ''.'' @ fr_key r) facts"

text \<open>\<open>str(cell)\<close>: a module a unit does not have is the text \<open>None\<close> when versions are compared.\<close>

definition csv_cell :: "comparison \<Rightarrow> string \<Rightarrow> string \<Rightarrow> string" where
  "csv_cell cmp host m =
     (case map_of (mr_cells (row_at (cmp_matrix cmp) m)) host of None \<Rightarrow> [] | Some v \<Rightarrow> optional_text v)"

definition csv_repo :: "repo_comparison \<Rightarrow> string \<Rightarrow> string \<Rightarrow> string" where
  "csv_repo repos host d =
     (case find (\<lambda>r. rr_dir r = d) (rc_matrix repos) of None \<Rightarrow> []
      | Some r \<Rightarrow> csv_json (case map_of (rr_cells r) host of None \<Rightarrow> JNull | Some v \<Rightarrow> v))"

definition csv_unit :: "comparison \<Rightarrow> boot_report \<Rightarrow> repo_comparison \<Rightarrow> fact_row list \<Rightarrow> unit_record \<Rightarrow> string list" where
  "csv_unit cmp boot repos facts u =
     (let g = map_of (br_by_host boot) (ur_host u) in
      [ur_host u, ur_status u, or_question (verdict_at cmp u), csv_json (ur_payload_hash u), csv_json (ur_git_sha u),
       csv_json (ur_installed_at u), case ur_bootstrap_version u of None \<Rightarrow> [] | Some v \<Rightarrow> int_str v,
       case g of None \<Rightarrow> [] | Some g \<Rightarrow> boot_text (bg_state g), case g of None \<Rightarrow> [] | Some g \<Rightarrow> join '' '' (bg_missing g)]
      @ map (csv_cell cmp (ur_host u)) (cmp_modules cmp)
      @ map (csv_repo repos (ur_host u)) (rc_dirs repos)
      @ map (\<lambda>r. case fact_cell r (ur_host u) of None \<Rightarrow> [] | Some v \<Rightarrow> v) facts)"

definition csv_text :: "unit_record list \<Rightarrow> comparison \<Rightarrow> boot_report \<Rightarrow> repo_comparison \<Rightarrow> fact_row list \<Rightarrow> string" where
  "csv_text units cmp boot repos facts =
     concat (map csv_row (csv_header cmp repos facts # map (csv_unit cmp boot repos facts) units))"

end
