(* ===== verification/Fleet_Main.thy ===== *)
theory Fleet_Main
  imports Fleet_Gather_Props Fleet_Sections Json_Round_Trip
begin

text \<open>
  \<open>main\<close> of \<open>src/tools/fleet-drift-report.py\<close>: where the units come from, the records saved and
  read back, the comparisons, the report and the exit code. Files are a dictionary of paths
  relative to the repository; what goes to the error stream is left out.
\<close>

section \<open>Saved records\<close>

definition opt_str :: "string option \<Rightarrow> json" where
  "opt_str t = (case t of None \<Rightarrow> JNull | Some s \<Rightarrow> JStr s)"

definition str_dict :: "(string, string) dict \<Rightarrow> json" where
  "str_dict d = JObj (as_objects d)"

definition dict_dict :: "(string, (string, json) dict) dict \<Rightarrow> json" where
  "dict_dict d = JObj (map (\<lambda>(k, v). (k, JObj v)) d)"

text \<open>\<open>asdict(u)\<close>.\<close>

definition unit_fields :: "unit_record \<Rightarrow> (string, json) dict" where
  "unit_fields u =
     [(''host'', JStr (ur_host u)), (''status'', JStr (ur_status u)), (''payload_hash'', ur_payload_hash u),
      (''git_sha'', ur_git_sha u), (''built_at'', ur_built_at u), (''installed_at'', ur_installed_at u),
      (''module_versions'', str_dict (ur_module_versions u)), (''modules'', JObj (ur_modules u)),
      (''fully_provisioned'', ur_fully_provisioned u),
      (''bootstrap_version'', case ur_bootstrap_version u of None \<Rightarrow> JNull | Some v \<Rightarrow> JInt v),
      (''bootstrapped_at'', ur_bootstrapped_at u), (''repos'', dict_dict (ur_repos u)), (''facts'', dict_dict (ur_facts u)),
      (''validation'', str_dict (ur_validation u)), (''validated_at'', ur_validated_at u), (''os_probe'', ur_os_probe u),
      (''os_probe_error'', opt_str (ur_os_probe_error u)), (''site_probe'', ur_site_probe u),
      (''site_probe_error'', opt_str (ur_site_probe_error u)), (''error'', opt_str (ur_error u))]"

definition unit_json :: "unit_record \<Rightarrow> json" where
  "unit_json u = JObj (unit_fields u)"

text \<open>\<open>UnitRecord(**r)\<close>: a name that is not a field, or no host, is an error, and a field that is left
  out is its default. A value of another type than the field's is taken as an error too, which
  Python finds only where it is used.\<close>

definition field_names :: "string list" where
  "field_names = keys (unit_fields (blank_record [] []))"

fun to_str :: "json \<Rightarrow> string res" where
  "to_str (JStr s) = Inr s"
| "to_str _ = Inl TypeError"

fun to_opt_str :: "json \<Rightarrow> string option res" where
  "to_opt_str JNull = Inr None"
| "to_opt_str (JStr s) = Inr (Some s)"
| "to_opt_str _ = Inl TypeError"

fun to_opt_int :: "json \<Rightarrow> int option res" where
  "to_opt_int JNull = Inr None"
| "to_opt_int (JInt i) = Inr (Some i)"
| "to_opt_int _ = Inl TypeError"

fun to_dict :: "json \<Rightarrow> (string, json) dict res" where
  "to_dict (JObj d) = Inr d"
| "to_dict _ = Inl TypeError"

fun to_values :: "(json \<Rightarrow> 'a res) \<Rightarrow> (string, json) dict \<Rightarrow> (string, 'a) dict res" where
  "to_values f [] = Inr []"
| "to_values f ((k, v) # d) = bind_res (f v) (\<lambda>x. bind_res (to_values f d) (\<lambda>r. Inr ((k, x) # r)))"

definition field_or :: "(string, json) dict \<Rightarrow> string \<Rightarrow> json \<Rightarrow> json" where
  "field_or d k v0 = (case map_of d k of None \<Rightarrow> v0 | Some v \<Rightarrow> v)"

definition dict_field :: "(json \<Rightarrow> 'a res) \<Rightarrow> (string, json) dict \<Rightarrow> string \<Rightarrow> (string, 'a) dict res" where
  "dict_field f d k = bind_res (to_dict (field_or d k (JObj []))) (to_values f)"

definition unit_of_json :: "json \<Rightarrow> unit_record res" where
  "unit_of_json r =
     bind_res (to_dict r) (\<lambda>d.
     if \<not> set (keys d) \<subseteq> set field_names \<or> ''host'' \<notin> set (keys d) then Inl TypeError
     else
       bind_res (to_str (field d ''host'')) (\<lambda>host.
       bind_res (to_str (field_or d ''status'' (JStr ''unknown''))) (\<lambda>status.
       bind_res (dict_field to_str d ''module_versions'') (\<lambda>mv.
       bind_res (to_dict (field_or d ''modules'' (JObj []))) (\<lambda>modules.
       bind_res (to_opt_int (field d ''bootstrap_version'')) (\<lambda>version.
       bind_res (dict_field to_dict d ''repos'') (\<lambda>repos.
       bind_res (dict_field to_dict d ''facts'') (\<lambda>facts.
       bind_res (dict_field to_str d ''validation'') (\<lambda>validation.
       bind_res (to_opt_str (field d ''os_probe_error'')) (\<lambda>os_error.
       bind_res (to_opt_str (field d ''site_probe_error'')) (\<lambda>site_error.
       bind_res (to_opt_str (field d ''error'')) (\<lambda>error.
       Inr \<lparr>ur_host = host, ur_status = status, ur_payload_hash = field d ''payload_hash'', ur_git_sha = field d ''git_sha'',
            ur_built_at = field d ''built_at'', ur_installed_at = field d ''installed_at'', ur_module_versions = mv,
            ur_modules = modules, ur_fully_provisioned = field d ''fully_provisioned'', ur_bootstrap_version = version,
            ur_bootstrapped_at = field d ''bootstrapped_at'', ur_repos = repos, ur_facts = facts, ur_validation = validation,
            ur_validated_at = field d ''validated_at'', ur_os_probe = field d ''os_probe'', ur_os_probe_error = os_error,
            ur_site_probe = field d ''site_probe'', ur_site_probe_error = site_error, ur_error = error\<rparr>))))))))))))"

definition records_text :: "unit_record list \<Rightarrow> string" where
  "records_text us = dumps_indent 0 (JList (map unit_json us))"

definition records_of_text :: "string res \<Rightarrow> unit_record list res" where
  "records_of_text text = bind_res (load_json_file text) (\<lambda>raw. bind_res (jiter raw) (map_res unit_of_json))"

section \<open>The command\<close>

record fleet_args =
  fa_hosts :: "string option"
  fa_registry :: "string option"
  fa_build_manifest :: "string option"
  fa_role :: string
  fa_connect_timeout :: int
  fa_json_out :: "string option"
  fa_csv_out :: "string option"
  fa_from_json :: "string option"

record fleet_env =
  fe_gather :: gather_env
  fe_cred :: "string res"            \<comment> \<open>the account of \<open>load_creds()["unit"]\<close>\<close>
  fe_patch :: patch_env
  fe_floats :: floats

record fleet_world =
  fw_files :: "(string, string) dict"
  fw_wire :: wire
  fw_out :: "string list"

definition given :: "string option \<Rightarrow> string option" where
  "given a = (case a of None \<Rightarrow> None | Some t \<Rightarrow> if t = [] then None else Some t)"

definition file_text :: "(string, string) dict \<Rightarrow> string \<Rightarrow> string res" where
  "file_text files p = (case map_of files p of None \<Rightarrow> Inl OSError | Some t \<Rightarrow> Inr t)"

definition save_file :: "string \<Rightarrow> string \<Rightarrow> (fleet_world, unit) eff" where
  "save_file p t = modifyM (\<lambda>w. w\<lparr>fw_files := dict_set p t (fw_files w)\<rparr>)"

definition on_wire :: "'a net_eff \<Rightarrow> (fleet_world, 'a) eff" where
  "on_wire m = (\<lambda>w. case m (fw_wire w) of (r, s) \<Rightarrow> (r, w\<lparr>fw_wire := s\<rparr>))"

text \<open>\<open>except Exception: return 1\<close>, the exit code on the left.\<close>

definition or_exit :: "'a res \<Rightarrow> (fleet_world, int + 'a) eff" where
  "or_exit r = (case r of Inr a \<Rightarrow> ret (Inr a) | Inl e \<Rightarrow> if is_caught e then ret (Inl 1) else raise e)"

definition load_reference :: "(string, string) dict \<Rightarrow> fleet_args \<Rightarrow> (unit_record option \<times> (string, json) dict) res" where
  "load_reference files args =
     (case given (fa_build_manifest args) of
        None \<Rightarrow> Inr (None, [])
      | Some p \<Rightarrow>
          bind_res (load_json_file (file_text files p)) (\<lambda>doc.
          case doc of
            JObj d \<Rightarrow> bind_res (manifest_from_obj ''BUILD (reference)'' doc) (\<lambda>r. Inr (Some r, d))
          | _ \<Rightarrow> Inl TypeError))"

definition host_list :: "(string, string) dict \<Rightarrow> fleet_args \<Rightarrow> string list res" where
  "host_list files args =
     (case given (fa_hosts args) of
        Some hs \<Rightarrow> Inr (filter (\<lambda>h. h \<noteq> []) (map strip (split_on (CHR '','') hs)))
      | None \<Rightarrow> read_registry_hosts (file_text files
          (case given (fa_registry args) of None \<Rightarrow> ''server/unit-registry.json'' | Some p \<Rightarrow> p)))"

fun gather_all :: "nat \<Rightarrow> net \<Rightarrow> gather_env \<Rightarrow> int \<Rightarrow> string list \<Rightarrow> unit_record list option net_eff" where
  "gather_all fuel N G t [] = retD []"
| "gather_all fuel N G t (h # hs) =
     bindD (gather_unit fuel N G h t) (\<lambda>u. bindD (gather_all fuel N G t hs) (\<lambda>us. retD (u # us)))"

definition live_units :: "nat \<Rightarrow> net \<Rightarrow> fleet_env \<Rightarrow> fleet_args \<Rightarrow> (fleet_world, (int + unit_record list) option) eff" where
  "live_units fuel N E args =
     bindM (gets fw_files) (\<lambda>files.
     bindM (or_exit (host_list files args)) (\<lambda>h.
     case h of
       Inl status \<Rightarrow> retD (Inl status)
     | Inr hosts \<Rightarrow>
         bindM (or_exit (fe_cred E)) (\<lambda>c.
         case c of
           Inl status \<Rightarrow> retD (Inl status)
         | Inr user \<Rightarrow>
             seqM (on_wire (modifyM (\<lambda>s. s\<lparr>w_user := user\<rparr>)))
             (bindD (on_wire (gather_all fuel N ((fe_gather E)\<lparr>ge_read := file_text files\<rparr>) (fa_connect_timeout args) hosts))
                (\<lambda>us. retD (Inr us))))))"

definition get_units :: "nat \<Rightarrow> net \<Rightarrow> fleet_env \<Rightarrow> fleet_args \<Rightarrow> (fleet_world, (int + unit_record list) option) eff" where
  "get_units fuel N E args =
     (case given (fa_from_json args) of
        Some p \<Rightarrow> bindM (gets fw_files) (\<lambda>files. bindM (or_exit (records_of_text (file_text files p))) retD)
      | None \<Rightarrow> live_units fuel N E args)"

text \<open>The baseline files of the repository, sorted as paths are.\<close>

definition is_baseline_path :: "string \<Rightarrow> bool" where
  "is_baseline_path p \<longleftrightarrow>
     (case take_prefix (BASELINES_DIR @ ''/'') p of
        None \<Rightarrow> False
      | Some r \<Rightarrow> length (split_on (CHR ''/'') r) = 2 \<and> startswith (rev ''.json'') (rev r))"

definition baseline_files :: "(string, string) dict \<Rightarrow> (string \<times> string) list" where
  "baseline_files files = sort_key (\<lambda>f. split_on (CHR ''/'') (fst f)) (filter (\<lambda>f. is_baseline_path (fst f)) files)"

definition patch_of :: "fleet_env \<Rightarrow> (string, string) dict \<Rightarrow> patch_env" where
  "patch_of E files = (fe_patch E)\<lparr>pe_os_builds := map_of files OS_BUILDS, pe_baselines := baseline_files files\<rparr>"

definition compare_all :: "unit_record list \<Rightarrow> unit_record option \<Rightarrow> (string, json) dict \<Rightarrow> comparison res" where
  "compare_all units reference bdoc =
     (if truthy (field bdoc ''module_state'') then compare_to_build units (JObj bdoc) else compare_units units reference)"

definition exit_code :: "unit_record list \<Rightarrow> comparison \<Rightarrow> boot_report \<Rightarrow> int" where
  "exit_code units cmp boot =
     (if units = [] then 1
      else if list_all (\<lambda>u. verdict_at cmp u = Some ''IN SYNC'') units
            \<and> list_all (\<lambda>u. map_option bg_state (map_of (br_by_host boot) (ur_host u)) = Some Current) units then 0 else 2)"

definition fleet_report ::
    "fleet_env \<Rightarrow> fleet_args \<Rightarrow> unit_record option \<Rightarrow> (string, json) dict \<Rightarrow> unit_record list \<Rightarrow> (fleet_world, int) eff" where
  "fleet_report E args reference bdoc units =
     bindM (gets fw_files) (\<lambda>files.
     bindM (liftR (compare_all units reference bdoc)) (\<lambda>cmp.
     bindM (liftR (compare_repos units reference
                     (expected_repo_dirs (map_of files ''tools/mast-repos.tsv'') (fa_role args)))) (\<lambda>repos.
     bindM (liftR (load_bootstrap_elements (map_of files ''client/bootstrap-elements.json''))) (\<lambda>elements.
     bindM (liftR (bootstrap_gaps (fe_floats E) units elements)) (\<lambda>boot.
     seqM (case given (fa_csv_out args) of
             None \<Rightarrow> ret () | Some p \<Rightarrow> save_file p (csv_text units cmp boot repos (compare_facts units)))
    (bindM (gets fw_files) (\<lambda>files.
     bindM (liftR (assess_os_patch (patch_of E files) units)) (\<lambda>os_patch.
     bindM (liftR (render_lines units reference cmp boot (repo_bootstrap_version (map_of files ''client/bootstrap.ps1''))
                     repos (compare_facts units) os_patch)) (\<lambda>lines.
     seqM (modifyM (\<lambda>w. w\<lparr>fw_out := fw_out w @ [join [CHR 10] lines]\<rparr>))
          (ret (exit_code units cmp boot)))))))))))"

definition fleet_main :: "nat \<Rightarrow> net \<Rightarrow> fleet_env \<Rightarrow> fleet_args \<Rightarrow> (fleet_world, int option) eff" where
  "fleet_main fuel N E args =
     bindM (gets fw_files) (\<lambda>files.
     bindM (or_exit (load_reference files args)) (\<lambda>ref.
     case ref of
       Inl status \<Rightarrow> retD status
     | Inr (reference, bdoc) \<Rightarrow>
         bindD (get_units fuel N E args) (\<lambda>got.
         case got of
           Inl status \<Rightarrow> retD status
         | Inr units \<Rightarrow>
             seqM (case given (fa_json_out args) of None \<Rightarrow> ret () | Some p \<Rightarrow> save_file p (records_text units))
                  (bindM (fleet_report E args reference bdoc units) retD))))"

end
