(* ===== verification/Transport_Props.thy ===== *)
theory Transport_Props
  imports Transport_Held
begin

text \<open>
  What the transport guarantees: the output of a command survives transient failures unchanged, a
  script is sent a bounded number of times, every waiting loop ends, the watchdog fires exactly at
  its timeout and does not flood the log, and a connection is one that answered.
\<close>

section \<open>The output of a command\<close>

definition answered :: "wact list \<Rightarrow> received list" where
  "answered as = concat (map (\<lambda>a. case a of Receive x y r \<Rightarrow> [r] | _ \<Rightarrow> []) as)"

definition outs :: "received list \<Rightarrow> string list" where
  "outs rs = concat (map (\<lambda>r. case r of Inr (out, err, rc, d) \<Rightarrow> [out] | Inl e \<Rightarrow> []) rs)"

definition errs :: "received list \<Rightarrow> string list" where
  "errs rs = concat (map (\<lambda>r. case r of Inr (out, err, rc, d) \<Rightarrow> [err] | Inl e \<Rightarrow> []) rs)"

lemma answered_simps [simp]: "answered (as @ bs) = answered as @ answered bs" "answered [] = []"
  "answered (a # as) = (case a of Receive x y r \<Rightarrow> [r] | _ \<Rightarrow> []) @ answered as"
  by (simp_all add: answered_def)

lemma outs_simps [simp]: "outs (rs @ qs) = outs rs @ outs qs" "outs [] = []" "outs (Inl e # rs) = outs rs"
    "outs (Inr (out, err, rc, d) # rs) = out # outs rs"
  and errs_simps [simp]: "errs (rs @ qs) = errs rs @ errs qs" "errs [] = []" "errs (Inl e # rs) = errs rs"
    "errs (Inr (out, err, rc, d) # rs) = err # errs rs"
  by (simp_all add: outs_def errs_def)

text \<open>What one pass does: one answer, and the state it leaves, or the exception it raises.\<close>

definition pass_result :: "int \<Rightarrow> int \<Rightarrow> receive_state \<Rightarrow> received \<Rightarrow> (receive_state + receive_state) res \<Rightarrow> wire \<Rightarrow> bool" where
  "pass_result T budget_s st r x s' \<longleftrightarrow>
     (case x of
        Inr (Inl st') \<Rightarrow> stdout_chunks st' = stdout_chunks st @ outs [r] \<and> stderr_chunks st' = stderr_chunks st @ errs [r]
          \<and> (case transient_deadline st' of None \<Rightarrow> True | Some d \<Rightarrow> T + budget_s * ns \<le> d)
      | Inr (Inr st') \<Rightarrow> stdout_chunks st' = stdout_chunks st @ outs [r] \<and> stderr_chunks st' = stderr_chunks st @ errs [r]
          \<and> (\<exists>out err. r = Inr (out, err, return_code st', True))
      | Inl e \<Rightarrow> r = Inl e \<or> e = RuntimeError \<and> T + budget_s * ns \<le> w_now s')"

lemma receive_pass:
  assumes "T \<le> w_now s" and "case transient_deadline st of None \<Rightarrow> True | Some d \<Rightarrow> T + budget_s * ns \<le> d"
  shows "case receive_body N shell command label budget_s st s of (x, s') \<Rightarrow>
     answered (w_acts s') = answered (w_acts s) @ [n_receive N (w_tick s)] \<and> T \<le> w_now s'
     \<and> pass_result T budget_s st (n_receive N (w_tick s)) x s'"
proof (cases "n_receive N (w_tick s)")
  case (Inr a)
  obtain out err rc d where a: "a = (out, err, rc, d)" by (cases a)
  show ?thesis
    using assms Inr
    by (auto simp: a receive_body_def receive_once_def bindM_def query_def seqM_def emit_def whenM_def log_line_def
          pass_result_def got_output_def split: option.splits)
next
  case (Inl e)
  show ?thesis
    using assms Inl
    by (auto simp: receive_body_def receive_once_def bindM_def query_def seqM_def emit_def whenM_def log_line_def
          pass_result_def clock_def pause_def TRANSIENT_RETRY_BACKOFF_S_def ns_def split: option.splits)
qed

definition loop_result :: "int \<Rightarrow> int \<Rightarrow> receive_state \<Rightarrow> received list \<Rightarrow> receive_state option res \<Rightarrow> wire \<Rightarrow> bool" where
  "loop_result T budget_s st rs r s' \<longleftrightarrow>
     (case r of
        Inr (Some st') \<Rightarrow> stdout_chunks st' = stdout_chunks st @ outs rs \<and> stderr_chunks st' = stderr_chunks st @ errs rs
          \<and> (\<exists>rs0 out err. rs = rs0 @ [Inr (out, err, return_code st', True)])
      | Inr None \<Rightarrow> True
      | Inl e \<Rightarrow> (\<exists>rs0. rs = rs0 @ [Inl e]) \<or> e = RuntimeError \<and> T + budget_s * ns \<le> w_now s')"

lemma loop_result_Cons:
  assumes p: "pass_result T budget_s st q (Inr (Inl st')) u" and l: "loop_result T budget_s st' rs r s'"
  shows "loop_result T budget_s st (q # rs) r s'"
proof -
  have q: "stdout_chunks st' = stdout_chunks st @ outs [q]" "stderr_chunks st' = stderr_chunks st @ errs [q]"
    using p by (simp_all add: pass_result_def)
  have o: "outs (q # rs) = outs [q] @ outs rs" "errs (q # rs) = errs [q] @ errs rs" by (simp_all add: outs_def errs_def)
  have "\<exists>rs0. q # rs1 @ [x] = rs0 @ [x]" for rs1 and x :: received by (metis append_Cons)
  then show ?thesis
    using l q o by (auto simp: loop_result_def split: sum.splits option.splits)
qed

lemma receive_loop:
  assumes "T \<le> w_now s" and "case transient_deadline st of None \<Rightarrow> True | Some d \<Rightarrow> T + budget_s * ns \<le> d"
    and "loop_within fuel (receive_body N shell command label budget_s) st s = (r, s')"
  shows "\<exists>rs. answered (w_acts s') = answered (w_acts s) @ rs \<and> loop_result T budget_s st rs r s'"
  using assms
proof (induction fuel arbitrary: st s)
  case 0
  then show ?case by (auto simp: loop_result_def)
next
  case (Suc fuel)
  let ?body = "receive_body N shell command label budget_s" and ?q = "n_receive N (w_tick s)"
  obtain x u where x: "?body st s = (x, u)" by fastforce
  have a: "answered (w_acts u) = answered (w_acts s) @ [?q]" and T: "T \<le> w_now u" and p: "pass_result T budget_s st ?q x u"
    using receive_pass [OF Suc.prems(1,2), of N shell command label] x by auto
  consider (raised) e where "x = Inl e" | (again) st' where "x = Inr (Inl st')" | (over) st' where "x = Inr (Inr st')"
    by (metis sum.exhaust)
  then show ?case
  proof cases
    case raised
    then have "r = Inl e" "s' = u" using Suc.prems(3) x by (auto simp: bindM_def)
    then show ?thesis using a p raised by (auto simp: pass_result_def loop_result_def)
  next
    case again
    then have "loop_within fuel ?body st' u = (r, s')"
      using Suc.prems(3) x loop_within_again [of ?body st s st' u fuel] by simp
    moreover have "case transient_deadline st' of None \<Rightarrow> True | Some d \<Rightarrow> T + budget_s * ns \<le> d"
      using p again by (simp add: pass_result_def)
    ultimately obtain rs where "answered (w_acts s') = answered (w_acts u) @ rs" "loop_result T budget_s st' rs r s'"
      using Suc.IH [OF T] by blast
    then show ?thesis
      using a loop_result_Cons [OF p [unfolded again]] by (intro exI [of _ "?q # rs"]) simp
  next
    case over
    then have "r = Inr (Some st')" "s' = u" using Suc.prems(3) x by (auto simp: bindM_def)
    then show ?thesis using a p over by (intro exI [of _ "[?q]"]) (auto simp: pass_result_def loop_result_def)
  qed
qed


section \<open>An isolated failure after healthy polls\<close>

lemma empty_poll:
  assumes "n_receive N (w_tick s) = Inl e" "operation_timeout e"
  shows "\<exists>s'. receive_body N shell command label budget_s st s = (Inr (Inl st), s') \<and> w_tick s' = Suc (w_tick s)
    \<and> w_now s' = w_now s + int (n_elapsed N (w_tick s))"
  using assms by (simp add: receive_body_def receive_once_def bindM_def query_def seqM_def emit_def)

lemma empty_polls:
  assumes "\<And>i. i < k \<Longrightarrow> \<exists>e. n_receive N (w_tick s + i) = Inl e \<and> operation_timeout e"
  shows "\<exists>s'. loop_within (k + fuel) (receive_body N shell command label budget_s) st s
      = loop_within fuel (receive_body N shell command label budget_s) st s'
    \<and> w_tick s' = w_tick s + k \<and> w_now s' = w_now s + (\<Sum>i<k. int (n_elapsed N (w_tick s + i)))"
  using assms
proof (induction k arbitrary: s)
  case 0
  then show ?case by auto
next
  case (Suc k)
  let ?body = "receive_body N shell command label budget_s"
  obtain e where "n_receive N (w_tick s) = Inl e" "operation_timeout e" using Suc.prems [of 0] by auto
  from empty_poll [OF this] obtain u where u: "?body st s = (Inr (Inl st), u)" "w_tick u = Suc (w_tick s)"
    "w_now u = w_now s + int (n_elapsed N (w_tick s))" by blast
  have "\<exists>e. n_receive N (w_tick u + i) = Inl e \<and> operation_timeout e" if "i < k" for i
    using Suc.prems [of "Suc i"] that u(2) by simp
  from Suc.IH [of u, OF this] obtain s' where "loop_within (k + fuel) ?body st u = loop_within fuel ?body st s'"
    "w_tick s' = w_tick u + k" "w_now s' = w_now u + (\<Sum>i<k. int (n_elapsed N (w_tick u + i)))" by blast
  then show ?case
    using u loop_within_again [of ?body st s st u "k + fuel", OF u(1)]
    by (intro exI [of _ s']) (simp add: sum.lessThan_Suc_shift del: loop_within.simps sum.lessThan_Suc)
qed

text \<open>C13: An empty poll does not count as a successful Receive: after one glitch, polls that the unit
  answered for longer than the retry budget and one more glitch, the command is given up although
  its shell never went away.\<close>

theorem empty_polls_do_not_reset:
  assumes first: "n_receive N (w_tick s) = Inl e" "transient_receive e" "\<not> operation_timeout e"
    and polls: "\<And>i. i < k \<Longrightarrow> \<exists>e'. n_receive N (w_tick s + 2 + i) = Inl e' \<and> operation_timeout e'"
    and then_again: "n_receive N (w_tick s + 2 + k) = Inl glitch" "transient_receive glitch" "\<not> operation_timeout glitch"
    and long: "budget_s * ns \<le> (\<Sum>i<k. int (n_elapsed N (w_tick s + 2 + i)))"
  shows "fst (resilient_get_command_output (k + 2) N shell command label budget_s s) = Inl RuntimeError"
proof -
  let ?body = "receive_body N shell command label budget_s"
  obtain st1 s1 now where b1: "?body no_output s = (Inr (Inl st1), s1)" and d: "transient_deadline st1 = Some (now + budget_s * ns)"
    and t1: "w_tick s1 = w_tick s + 2" and n1: "now \<le> w_now s1"
    using first by (auto simp: receive_body_def receive_once_def bindM_def query_def seqM_def emit_def no_output_def clock_def
        pause_def log_line_def TRANSIENT_RETRY_BACKOFF_S_def ns_def)
  have "\<exists>e'. n_receive N (w_tick s1 + i) = Inl e' \<and> operation_timeout e'" if "i < k" for i
    using polls [OF that] t1 by simp
  from empty_polls [OF this, where fuel = 1 and shell = shell and command = command and label = label and budget_s = budget_s and st = st1] obtain s2
    where l2: "loop_within (k + 1) ?body st1 s1 = loop_within 1 ?body st1 s2" and t2: "w_tick s2 = w_tick s1 + k"
      and n2: "w_now s2 = w_now s1 + (\<Sum>i<k. int (n_elapsed N (w_tick s1 + i)))" by blast
  have "now + budget_s * ns \<le> w_now s2" using n1 n2 long t1 by simp
  then have "fst (?body st1 s2) = Inl RuntimeError"
    using then_again d t2 t1
    by (auto simp: receive_body_def receive_once_def bindM_def query_def seqM_def emit_def clock_def)
  then have "fst (loop_within 1 ?body st1 s2) = Inl RuntimeError"
    by (cases "?body st1 s2") (simp add: bindM_def)
  moreover have "loop_within (k + 2) ?body no_output s = loop_within (k + 1) ?body st1 s1"
    using loop_within_again [of ?body no_output s st1 s1 "k + 1", OF b1] by simp
  ultimately show ?thesis
    using l2 unfolding resilient_get_command_output_def
    by (cases "loop_within (k + 2) ?body no_output s") (auto simp: bindM_def)
qed

text \<open>A unit that answers one glitch, then eleven empty polls of a minute, then one glitch.\<close>

definition quiet_net :: net where
  "quiet_net = \<lparr>n_elapsed = \<lambda>n. 60000000000, n_connect = \<lambda>n h u t. Inr (), n_has_transport = \<lambda>n. True,
     n_open_channel = \<lambda>n. Inr (), n_exec = \<lambda>n c. Inr (), n_recv = \<lambda>n. Inr [], n_recv_stderr = \<lambda>n. Inr [],
     n_exit_ready = \<lambda>n. True, n_active = \<lambda>n. True, n_exit_status = \<lambda>n. 0, n_sftp_open = \<lambda>n. Inr (),
     n_sftp_put = \<lambda>n p. Inr (), n_tcp = \<lambda>n h p. True, n_ping = \<lambda>n h u. Inr 0, n_open_shell = \<lambda>n. Inr [],
     n_start_command = \<lambda>n c. Inr [],
     n_receive = \<lambda>n. Inl (UserError (if n = 0 \<or> n = 13 then ''ReadTimeout'' else ''WinRMOperationTimeoutError'') []),
     n_cleanup = \<lambda>n. Inr (), n_close_shell = \<lambda>n. Inr (), n_clean_error = \<lambda>t. t,
     n_winrm_run = \<lambda>n c. Inr \<lparr>status_code = 0, std_out = [], std_err = []\<rparr>, n_beats = \<lambda>n. []\<rparr>"

definition fresh_wire :: wire where
  "fresh_wire = \<lparr>w_tick = 0, w_now = 0, w_user = ''mast'', w_acts = []\<rparr>"

lemma empty_polls_do_not_reset_witness:
  "fst (resilient_get_command_output (11 + 2) quiet_net [] [] [] TRANSIENT_RETRY_BUDGET_S fresh_wire) = Inl RuntimeError"
  by (rule empty_polls_do_not_reset [where e = "UserError ''ReadTimeout'' []" and glitch = "UserError ''ReadTimeout'' []"])
     (auto simp: quiet_net_def fresh_wire_def transient_receive_def operation_timeout_def is_class_def
        TRANSIENT_RETRY_BUDGET_S_def ns_def)

section \<open>The loops end\<close>

lemma wait_fuel_enough:
  "deadline - (now :: int) \<le> t * ns \<Longrightarrow> deadline - now \<le> int (nat (t div 5 + 1)) * (5 * ns)"
proof -
  assume d: "deadline - now \<le> t * ns"
  have "t \<le> 5 * (t div 5 + 1)" by presburger
  also have "\<dots> \<le> 5 * int (nat (t div 5 + 1))" by simp
  finally have t: "t \<le> 5 * int (nat (t div 5 + 1))" .
  obtain m where m: "m = int (nat (t div 5 + 1))" by blast
  have "t * ns \<le> 5 * m * ns" using t unfolding m by (rule mult_right_mono) simp
  moreover have "m * (5 * ns) = 5 * m * ns" by simp
  ultimately show ?thesis using d unfolding m [symmetric] by linarith
qed

text \<open>C14: Every loop that waits on a unit ends within the fuel of the model, whatever the unit answers:
  the wait for an exit status, the reconnection, and the waits for SSH, for either transport and
  for WinRM.\<close>

theorem waiting_ends:
  "fst (loop_within (ssh_fuel t) (ssh_wait_body N (w_now s + t * ns)) r s) \<noteq> Inr None
   \<and> fst (loop_within RECONNECT_FUEL (reconnect_body N sess (w_now s + SSH_RECONNECT_MAX_WAIT_S * ns)) SSH_RECONNECT_INITIAL_DELAY s) \<noteq> Inr None
   \<and> fst (loop_within (wait_fuel t) (wait_for_ssh_body N host port (w_now s + t * ns)) l s) \<noteq> Inr None
   \<and> fst (loop_within (wait_fuel t) (connect_body N host users ssh_first fallback (w_now s + t * ns)) () s) \<noteq> Inr None
   \<and> fst (loop_within (wait_fuel t) (wait_for_winrm_body N host users (w_now s + t * ns)) d s) \<noteq> Inr None"
proof -
  have "w_now s + t * ns - w_now s \<le> int (nat (10 * t)) * (ns div 10)" by (auto simp: ns_def)
  note a = waiting.ends [OF TrueI this, of "ssh_fuel t" N r]
  have "w_now s + SSH_RECONNECT_MAX_WAIT_S * ns - w_now s \<le> int 180 * ns" by (simp add: SSH_RECONNECT_MAX_WAIT_S_def)
  note b = reconnecting.ends [OF _ this, of SSH_RECONNECT_INITIAL_DELAY RECONNECT_FUEL N sess]
  have w: "w_now s + t * ns - w_now s \<le> int (nat (t div 5 + 1)) * (5 * ns)" by (rule wait_fuel_enough) simp
  show ?thesis
    using a b booting.ends [OF TrueI w, of "wait_fuel t" N host port l]
      connecting.ends [OF TrueI w, of "wait_fuel t" N host users ssh_first fallback "()"]
      winrm_boot.ends [OF TrueI w, of "wait_fuel t" N host users d]
    by (simp add: ssh_fuel_def RECONNECT_FUEL_def wait_fuel_def SSH_RECONNECT_INITIAL_DELAY_def)
qed

section \<open>The watchdog\<close>

text \<open>Lines at least \<open>gap\<close> apart, the first that long after \<open>from\<close>.\<close>

fun spaced :: "int \<Rightarrow> int \<Rightarrow> int list \<Rightarrow> bool" where
  "spaced gap from [] = True"
| "spaced gap from (t # ts) = (gap \<le> t - from \<and> spaced gap t ts)"

lemma beats_spaced:
  "30 \<le> log_gap b \<Longrightarrow> spaced (30 * ns) (last_log b) (map fst (fst (beats label timeout_s start ws b)))"
proof (induction label timeout_s start ws b rule: beats.induct)
  case (2 label timeout_s start now step_start ws b)
  let ?e = "elapsed_s now start"
  have g: "30 \<le> next_gap ?e (log_gap b)"
    using 2(2) by (simp add: next_gap_def HEARTBEAT_ESCALATE_GAP_S_def HEARTBEAT_MAX_GAP_S_def)
  have ih: "\<not> timeout_s \<le> ?e \<Longrightarrow> 30 \<le> log_gap b' \<Longrightarrow>
      spaced (30 * ns) (last_log b') (map fst (fst (beats label timeout_s start ws b')))"
    if "b' = (if log_gap b * ns \<le> now - last_log b then \<lparr>last_log = now, log_gap = next_gap ?e (log_gap b)\<rparr> else b)" for b'
    using 2(1) that by (simp add: Let_def)
  have "30 * ns \<le> log_gap b * ns" using 2(2) by (intro mult_right_mono) simp_all
  then have far: "log_gap b * ns \<le> x \<Longrightarrow> 30 * ns \<le> x" for x by (rule order_trans)
  show ?case using ih [OF refl] g 2(2) by (auto simp: Let_def far split: prod.splits)
qed simp

lemma beats_timeout:
  "snd (beats label timeout_s start ws b) = list_ex (\<lambda>(now, t). timeout_s \<le> elapsed_s now start) ws"
  by (induction label timeout_s start ws b rule: beats.induct) (auto simp: Let_def split: prod.splits)

text \<open>C15: The watchdog gives a call up exactly when it wakes up with the timeout reached and the work
  still going on, and never writes two lines less than thirty seconds apart.\<close>

theorem watchdog_exact:
  "(case beats label timeout_s start ws \<lparr>last_log = start, log_gap = HEARTBEAT_INTERVAL_S\<rparr> of (ls, timed_out) \<Rightarrow>
      timed_out = list_ex (\<lambda>(now, t). timeout_s \<le> elapsed_s now start) ws
      \<and> spaced (30 * ns) start (map fst ls) \<and> length ls \<le> length ws)"
proof -
  have n: "length (fst (beats label timeout_s start ws b)) \<le> length ws" for b
  proof (induction ws arbitrary: b)
    case (Cons w ws)
    show ?case
      using Cons.IH [of b] Cons.IH [of "\<lparr>last_log = fst w, log_gap = next_gap (elapsed_s (fst w) start) (log_gap b)\<rparr>"]
      by (cases w) (auto simp: Let_def split: prod.split)
  qed simp
  show ?thesis
    using beats_spaced [where b = "\<lparr>last_log = start, log_gap = HEARTBEAT_INTERVAL_S\<rparr>" and start = start
        and label = label and timeout_s = timeout_s and ws = ws]
      beats_timeout [of label timeout_s start ws "\<lparr>last_log = start, log_gap = HEARTBEAT_INTERVAL_S\<rparr>"]
      n [of "\<lparr>last_log = start, log_gap = HEARTBEAT_INTERVAL_S\<rparr>"]
    by (auto simp: HEARTBEAT_INTERVAL_S_def split: prod.split)
qed

section \<open>How often a script is sent\<close>

definition sent :: "wact list \<Rightarrow> nat" where
  "sent as = length (filter (\<lambda>a. case a of Exec c \<Rightarrow> True | _ \<Rightarrow> False) as)"

lemma sent_simps [simp]: "sent (as @ bs) = sent as + sent bs" "sent [] = 0"
  by (simp_all add: sent_def)

definition sends :: "nat \<Rightarrow> 'a net_eff \<Rightarrow> bool" where
  "sends n m \<longleftrightarrow> (\<forall>s. sent (w_acts (snd (m s))) \<le> sent (w_acts s) + n)"

named_theorems sending \<open>programs that send nothing\<close>

lemma sends_basic [sending]: "sends 0 (ret a)" "sends 0 (raise e)" "sends 0 (gets f)" "sends 0 (liftR r)" "sends 0 (query N q)"
  by (simp_all add: sends_def query_def)

lemma sends_emit: "sends (sent [a]) (emit a)"
  by (simp add: sends_def emit_def)

lemma sends_emit0 [sending]: "sent [a] = 0 \<Longrightarrow> sends 0 (emit a)"
  using sends_emit [of a] by simp

lemma sends_time [sending]: "sends 0 (modifyM (\<lambda>s. s\<lparr>w_now := w_now s + d\<rparr>))"
  by (simp add: sends_def)

lemma sends_bind:
  assumes m: "sends i m" and f: "\<And>a. sends j (f a)"
  shows "sends (i + j) (bindM m f)"
  unfolding sends_def
proof
  fix s
  obtain r u where r: "m s = (r, u)" by fastforce
  have "sent (w_acts u) \<le> sent (w_acts s) + i" using m r by (auto simp: sends_def dest!: spec [where x = s])
  moreover have "sent (w_acts (snd (f a u))) \<le> sent (w_acts u) + j" for a using f [of a] by (simp add: sends_def)
  ultimately show "sent (w_acts (snd (bindM m f s))) \<le> sent (w_acts s) + (i + j)"
    using r by (cases r) (auto simp: bindM_def intro: le_trans [where j = "sent (w_acts u) + j"])
qed

lemma sends_catch:
  assumes m: "sends i m" and f: "\<And>e. sends j (h e)"
  shows "sends (i + j) (catchM m h)"
  unfolding sends_def
proof
  fix s
  obtain r u where r: "m s = (r, u)" by fastforce
  have "sent (w_acts u) \<le> sent (w_acts s) + i" using m r by (auto simp: sends_def dest!: spec [where x = s])
  moreover have "sent (w_acts (snd (h e u))) \<le> sent (w_acts u) + j" for e using f [of e] by (simp add: sends_def)
  ultimately show "sent (w_acts (snd (catchM m h s))) \<le> sent (w_acts s) + (i + j)"
    using r by (cases r) (auto simp: catchM_def intro: le_trans [where j = "sent (w_acts u) + j"])
qed

lemma sends_bind0 [sending]: "sends 0 m \<Longrightarrow> (\<And>a. sends j (f a)) \<Longrightarrow> sends j (bindM m f)"
  using sends_bind [of 0 m j f] by simp

lemma sends_seq0 [sending]: "sends 0 m \<Longrightarrow> sends j n \<Longrightarrow> sends j (seqM m n)"
  unfolding seqM_def by (rule sends_bind0)

lemma sends_catch0 [sending]: "sends 0 m \<Longrightarrow> (\<And>e. sends j (h e)) \<Longrightarrow> sends j (catchM m h)"
  using sends_catch [of 0 m j h] by simp

lemma sends_if [sending]: "sends j m \<Longrightarrow> sends j n \<Longrightarrow> sends j (if b then m else n)"
  by simp

lemma sends_less: "sends i m \<Longrightarrow> i \<le> j \<Longrightarrow> sends j m"
  unfolding sends_def by (meson add_left_mono le_trans)

lemma sends_when [sending]: "sends 0 m \<Longrightarrow> sends 0 (whenM b m)"
  by (simp add: whenM_def sends_basic)

lemma sends_option [sending]: "sends j m \<Longrightarrow> (\<And>y. sends j (f y)) \<Longrightarrow> sends j (case x of None \<Rightarrow> m | Some y \<Rightarrow> f y)"
  by (cases x) simp_all

lemma sends_prod [sending]: "(\<And>a b. sends j (f a b)) \<Longrightarrow> sends j (case p of (a, b) \<Rightarrow> f a b)"
  by (cases p) simp

lemma sends_sum [sending]: "(\<And>y. sends j (f y)) \<Longrightarrow> (\<And>y. sends j (g y)) \<Longrightarrow> sends j (case x of Inl y \<Rightarrow> f y | Inr y \<Rightarrow> g y)"
  by (cases x) simp_all

lemma sends_loop [sending]: "(\<And>a. sends 0 (body a)) \<Longrightarrow> sends 0 (loop_within fuel body a)"
  by (induction fuel arbitrary: a) (auto intro!: sending)

lemma sends_loop_for [sending]: "(\<And>a. sends 0 (body a)) \<Longrightarrow> sends 0 (loop_for fuel body a)"
  unfolding loop_for_def by (intro sending)

lemma sent_one [simp]: "sent [Exec c] = 1" "sent [OpenedChannel] = 0" "sent [CloseChannel] = 0" "sent [SshClose] = 0"
  "sent [SshConnect h u t] = 0" "sent [Keepalive k] = 0" "sent [Pause d] = 0" "sent [LogLine l] = 0"
  by (simp_all add: sent_def)

lemma sends_prims [sending]:
  "sends 0 (clock N)" "sends 0 (pause d)" "sends 0 (log_line l)" "sends 0 (drain N r)"
  "sends 0 (ssh_connect N sess t)" "sends 0 ssh_close"
  unfolding clock_def pause_def log_line_def drain_def ssh_connect_def ssh_close_def call_def Let_def
  by (intro sending; simp)+

lemma sends_reconnect: "sends 0 (reconnect N sess)"
  unfolding reconnect_def reconnect_body_def by (intro sending)

lemma sends_finally: "sends i m \<Longrightarrow> sends 0 fin \<Longrightarrow> sends i (finallyM m fin)"
  unfolding sends_def finallyM_def by (auto split: prod.splits sum.splits) (metis add.right_neutral le_trans snd_conv)+

lemma sends_run: "sends 1 (ssh_run_ps N script timeout_s)"
proof -
  have rest: "sends 0 (bindM (clock N) (\<lambda>now.
         bindM (loop_for (ssh_fuel timeout_s) (ssh_wait_body N (now + timeout_s * ns)) ([], [])) (\<lambda>(out, err).
         bindM (query N (n_exit_status N)) (\<lambda>rc.
         if rc = -1 then raise ConnectionError
         else ret \<lparr>status_code = rc, std_out = out, std_err = err\<rparr>))))"
    unfolding ssh_wait_body_def by (intro sending)
  have "sends 1 (call N (Exec (ssh_command script)) q)" for q :: "nat \<Rightarrow> unit res"
  proof -
    have "sends (1 + 0) (bindM (emit (Exec (ssh_command script))) (\<lambda>u. bindM (query N q) liftR))"
      by (rule sends_bind [OF sends_emit [of "Exec (ssh_command script)", unfolded sent_one]])
         (rule sends_bind0 [OF sends_basic(5) sends_basic(4)])
    then show ?thesis by (simp add: call_def seqM_def)
  qed
  then have "sends (1 + 0) (seqM (call N (Exec (ssh_command script)) (\<lambda>n. n_exec N n (ssh_command script))) (bindM (clock N) (\<lambda>now.
         bindM (loop_for (ssh_fuel timeout_s) (ssh_wait_body N (now + timeout_s * ns)) ([], [])) (\<lambda>(out, err).
         bindM (query N (n_exit_status N)) (\<lambda>rc.
         if rc = -1 then raise ConnectionError
         else ret \<lparr>status_code = rc, std_out = out, std_err = err\<rparr>)))))"
    unfolding seqM_def by (rule sends_bind) (rule rest)
  then have "sends 1 (finallyM (seqM (call N (Exec (ssh_command script)) (\<lambda>n. n_exec N n (ssh_command script))) (bindM (clock N) (\<lambda>now.
         bindM (loop_for (ssh_fuel timeout_s) (ssh_wait_body N (now + timeout_s * ns)) ([], [])) (\<lambda>(out, err).
         bindM (query N (n_exit_status N)) (\<lambda>rc.
         if rc = -1 then raise ConnectionError
         else ret \<lparr>status_code = rc, std_out = out, std_err = err\<rparr>))))) (emit CloseChannel))"
    by (intro sends_finally sends_emit0) simp_all
  moreover have "sends 0 (acquire N (\<lambda>u. OpenedChannel) (n_open_channel N))"
    unfolding acquire_def by (intro sending) simp
  ultimately show ?thesis
    unfolding ssh_run_ps_def
    by (rule_tac sends_bind0 [OF sends_basic(5)], rule_tac sends_if)
       (rule sends_less [OF sends_basic(2)], simp, rule sends_seq0)
qed

lemma sends_attempts: "sends (Suc left) (ssh_attempts left N sess script timeout_s label)"
proof (induction left)
  case 0
  have "sends (1 + 0) (ssh_attempts 0 N sess script timeout_s label)"
    by (subst ssh_attempts.simps, rule sends_catch [OF sends_run]) (auto intro!: sending)
  then show ?case by simp
next
  case (Suc left)
  have "sends (1 + Suc left) (ssh_attempts (Suc left) N sess script timeout_s label)"
    by (subst ssh_attempts.simps, rule sends_catch [OF sends_run])
       (auto intro!: sends_seq0 sends_prims sends_reconnect Suc.IH intro: sends_less [OF sends_basic(2)])
  then show ?case by simp
qed

text \<open>C16: Over SSH a script is sent at most three times, and only once when its first attempt returned or
  ran into its timeout: a command that may still be alive is never started again.\<close>

theorem script_sent_at_most_thrice:
  "sent (w_acts (snd (resilient_run_ps fuel N (Ssh sess) script label timeout_s s))) \<le> sent (w_acts s) + 3
   \<and> (case fst (ssh_run_ps N script timeout_s s) of
        Inr r \<Rightarrow> resilient_run_ps fuel N (Ssh sess) script label timeout_s s = (Inr (Some r), snd (ssh_run_ps N script timeout_s s))
      | Inl e \<Rightarrow> (if conn_error e \<and> e \<noteq> TimeoutError then True
                  else resilient_run_ps fuel N (Ssh sess) script label timeout_s s = (Inl e, snd (ssh_run_ps N script timeout_s s))))"
proof -
  have "sends 3 (bindM (ssh_attempts SSH_RECONNECT_ATTEMPTS N sess script timeout_s label) (\<lambda>r. ret (Some r)))"
    using sends_bind [OF sends_attempts [of 2 N sess script timeout_s label], of 0 "\<lambda>r. ret (Some r)"]
    by (simp add: SSH_RECONNECT_ATTEMPTS_def numeral_3_eq_3 sends_basic)
  then have "sent (w_acts (snd (resilient_run_ps fuel N (Ssh sess) script label timeout_s s))) \<le> sent (w_acts s) + 3"
    by (simp add: resilient_run_ps_def sends_def)
  moreover obtain r u where r: "ssh_run_ps N script timeout_s s = (r, u)" by fastforce
  have once: "ssh_attempts SSH_RECONNECT_ATTEMPTS N sess script timeout_s label s = (r, u)"
    if "case r of Inr x \<Rightarrow> True | Inl e \<Rightarrow> \<not> (conn_error e \<and> e \<noteq> TimeoutError)"
    using that r by (subst ssh_attempts.simps) (auto simp: catchM_def split: sum.splits)
  have "resilient_run_ps fuel N (Ssh sess) script label timeout_s s = (map_sum id Some r, u)"
    if "case r of Inr x \<Rightarrow> True | Inl e \<Rightarrow> \<not> (conn_error e \<and> e \<noteq> TimeoutError)"
    using once [OF that] by (cases r) (simp_all add: resilient_run_ps_def bindM_def)
  ultimately show ?thesis unfolding r by (cases r) auto
qed

section \<open>A connection is one that answered\<close>

text \<open>The session is for the host asked for, under the account the credential now holds; over WinRM
  that account is one of those that were to be tried.\<close>

definition good_session :: "string \<Rightarrow> string list \<Rightarrow> unit_session \<Rightarrow> string \<Rightarrow> bool" where
  "good_session host users sess user \<longleftrightarrow>
     (case sess of
        Ssh s \<Rightarrow> ss_host s = host \<and> ss_user s = ssh_username user
      | Winrm h u \<Rightarrow> h = host \<and> u = user \<and> u \<in> set users)"

text \<open>\<open>from P m Q\<close>: begun with an account that satisfies \<open>P\<close>, a result and the account left satisfy \<open>Q\<close>.\<close>

definition yields :: "(string \<Rightarrow> bool) \<Rightarrow> 'a net_eff \<Rightarrow> ('a \<Rightarrow> string \<Rightarrow> bool) \<Rightarrow> bool" where
  "yields P m Q \<longleftrightarrow> (\<forall>s r s'. P (w_user s) \<longrightarrow> m s = (Inr r, s') \<longrightarrow> Q r (w_user s'))"

definition same_user :: "'a net_eff \<Rightarrow> bool" where
  "same_user m \<longleftrightarrow> (\<forall>s. w_user (snd (m s)) = w_user s)"

named_theorems same \<open>programs that leave the account alone\<close>

lemma same_basic [same]: "same_user (ret x)" "same_user (raise e)" "same_user (liftR r)" "same_user (query N q)" "same_user (emit a)"
  "same_user (modifyM (\<lambda>s. s\<lparr>w_now := w_now s + d\<rparr>))" "same_user (gets f)"
  by (simp_all add: same_user_def query_def emit_def)

lemma same_bind [same]: "same_user m \<Longrightarrow> (\<And>a. same_user (f a)) \<Longrightarrow> same_user (bindM m f)"
  unfolding same_user_def bindM_def by (auto split: prod.splits sum.splits) (metis snd_conv)+

lemma same_seq [same]: "same_user m \<Longrightarrow> same_user n \<Longrightarrow> same_user (seqM m n)"
  unfolding seqM_def by (rule same_bind)

lemma same_catch [same]: "same_user m \<Longrightarrow> (\<And>e. same_user (h e)) \<Longrightarrow> same_user (catchM m h)"
  unfolding same_user_def catchM_def by (auto split: prod.splits sum.splits) (metis snd_conv)+

lemma same_if [same]: "same_user m \<Longrightarrow> same_user n \<Longrightarrow> same_user (if b then m else n)"
  by simp

lemma same_when [same]: "same_user m \<Longrightarrow> same_user (whenM b m)"
  by (simp add: whenM_def same_basic)

lemma same_prims [same]: "same_user (clock N)" "same_user (pause d)" "same_user (log_line l)" "same_user (call N a q)"
  "same_user (ssh_connect N sess t)"
  unfolding clock_def pause_def log_line_def call_def ssh_connect_def Let_def by (intro same)+

lemma yields_bind: "yields P m R \<Longrightarrow> (\<And>a. yields (R a) (f a) Q) \<Longrightarrow> yields P (bindM m f) Q"
  unfolding yields_def bindM_def by (fastforce split: prod.splits sum.splits)

lemma yields_skip: "same_user m \<Longrightarrow> (\<And>a. yields P (f a) Q) \<Longrightarrow> yields P (bindM m f) Q"
  by (rule yields_bind [where R = "\<lambda>_. P"]) (simp_all add: yields_def same_user_def, metis snd_conv)

lemma yields_skip_seq: "same_user m \<Longrightarrow> yields P n Q \<Longrightarrow> yields P (seqM m n) Q"
  unfolding seqM_def by (rule yields_skip)

lemma yields_any: "(\<And>a. yields (\<lambda>_. True) (f a) Q) \<Longrightarrow> yields P (bindM m f) Q"
  by (rule yields_bind [where R = "\<lambda>_ _. True"]) (simp_all add: yields_def)

lemma yields_ret: "(\<And>u. P u \<Longrightarrow> Q a u) \<Longrightarrow> yields P (ret a) Q"
  by (auto simp: yields_def)

lemma yields_cases:
  "(x = None \<Longrightarrow> yields P m Q) \<Longrightarrow> (\<And>y. x = Some y \<Longrightarrow> yields P (f y) Q) \<Longrightarrow> yields P (case x of None \<Rightarrow> m | Some y \<Rightarrow> f y) Q"
  by (cases x) simp_all

lemma yields_if: "yields P m Q \<Longrightarrow> yields P n Q \<Longrightarrow> yields P (if b then m else n) Q"
  by simp

lemma yields_raise: "yields P (raise e) Q"
  by (auto simp: yields_def)

lemma yields_user: "(\<And>u. P u \<Longrightarrow> yields (\<lambda>u'. u' = u) (f u) Q) \<Longrightarrow> yields P (bindM (gets w_user) f) Q"
  by (auto simp: yields_def bindM_def)

lemma yields_set:
  assumes "yields (\<lambda>u. u = v) n Q"
  shows "yields P (seqM (modifyM (\<lambda>s. s\<lparr>w_user := v\<rparr>)) n) Q"
  unfolding yields_def
proof (intro allI impI)
  fix s r s'
  assume "seqM (modifyM (\<lambda>s. s\<lparr>w_user := v\<rparr>)) n s = (Inr r, s')"
  then have "n (s\<lparr>w_user := v\<rparr>) = (Inr r, s')" by (simp add: seqM_def bindM_def)
  moreover have "w_user (s\<lparr>w_user := v\<rparr>) = v" by simp
  ultimately show "Q r (w_user s')" using assms unfolding yields_def by blast
qed

lemma yields_weaken: "yields (\<lambda>_. True) m Q \<Longrightarrow> yields P m Q"
  by (simp add: yields_def)

lemma yields_loop:
  assumes "\<And>a. yields P (body a) (\<lambda>r u. case r of Inl a' \<Rightarrow> P u | Inr b \<Rightarrow> Q b u)"
  shows "yields P (loop_for fuel body a) Q"
proof -
  have "yields P (loop_within fuel body a) (\<lambda>r u. case r of None \<Rightarrow> True | Some b \<Rightarrow> Q b u)"
  proof (induction fuel arbitrary: a)
    case (Suc fuel)
    show ?case
      unfolding loop_within.simps
    proof (rule yields_bind [OF assms])
      fix r
      show "yields (\<lambda>u. case r of Inl a' \<Rightarrow> P u | Inr b \<Rightarrow> Q b u) (case r of Inl a' \<Rightarrow> loop_within fuel body a' | Inr b \<Rightarrow> ret (Some b))
         (\<lambda>r u. case r of None \<Rightarrow> True | Some b \<Rightarrow> Q b u)"
        using Suc.IH by (cases r) (auto intro: yields_ret)
    qed
  qed (auto intro: yields_ret)
  then show ?thesis
    unfolding loop_for_def by (rule yields_bind) (auto split: option.split intro: yields_ret yields_raise)
qed

lemma ssh_session_good: "yields (\<lambda>_. True) (ssh_session N host port t) (\<lambda>s u. good_session host users (Ssh s) u)"
  unfolding ssh_session_def Let_def
  by (intro yields_user yields_skip_seq same yields_ret) (simp add: good_session_def)

lemma attempt_good: "yields (\<lambda>_. True) m Q \<Longrightarrow> yields (\<lambda>_. True) (attempt m) (\<lambda>r u. case r of Inl e \<Rightarrow> True | Inr a \<Rightarrow> Q a u)"
  by (auto simp: yields_def attempt_def catchM_def bindM_def split: prod.splits sum.splits if_splits)

lemma try_ssh_good: "yields (\<lambda>_. True) (try_ssh N host advice) (\<lambda>s u. case s of None \<Rightarrow> True | Some x \<Rightarrow> good_session host users x u)"
  unfolding try_ssh_def
proof (rule yields_bind [OF attempt_good [OF ssh_session_good [where users = users]]])
  fix r :: "ssh_session res"
  show "yields (\<lambda>u. case r of Inl e \<Rightarrow> True | Inr s \<Rightarrow> good_session host users (Ssh s) u)
     (case r of Inl e \<Rightarrow> seqM (log_line (''  SSH not ready yet ('' @ describe e @ '')'' @ advice)) (ret None)
      | Inr s \<Rightarrow> bindM (gets w_user) (\<lambda>u. seqM (log_line (''Connected to '' @ host @ '' over SSH '' @ user_note (ssh_username u) @ ''.''))
              (ret (Some (Ssh s))))) (\<lambda>s u. case s of None \<Rightarrow> True | Some x \<Rightarrow> good_session host users x u)"
    by (cases r) (auto intro!: yields_user yields_skip_seq same yields_ret)
qed

lemma probe_good:
  "set us \<subseteq> set users \<Longrightarrow> yields (\<lambda>_. True) (probe_users N host rejected us)
     (\<lambda>(s, state) u. case s of None \<Rightarrow> True | Some x \<Rightarrow> good_session host users x u)"
proof (induction us arbitrary: rejected)
  case (Cons user us)
  have step: "yields (\<lambda>_. True)
     (case r of Inr rc \<Rightarrow>
         if rc = 0 then seqM (modifyM (\<lambda>s. s\<lparr>w_user := user\<rparr>)) (ret (Some (Winrm host user), ProbeOk))
         else probe_users N host rejected us
      | Inl e \<Rightarrow> probe_users N host (rejected \<or> invalid_credentials e) us)
     (\<lambda>(s, state) u. case s of None \<Rightarrow> True | Some x \<Rightarrow> good_session host users x u)" for r :: "int res"
    using Cons by (cases r) (auto intro!: yields_set yields_ret simp: good_session_def)
  show ?case unfolding probe_users.simps by (rule yields_any) (rule step)
qed (simp add: yields_ret)

lemma try_winrm_good:
  "yields (\<lambda>_. True) (try_winrm N host users kind) (\<lambda>(s, state) u. case s of None \<Rightarrow> True | Some x \<Rightarrow> good_session host users x u)"
proof -
  have "yields (\<lambda>_. True) (winrm_probe_once N host users) (\<lambda>(s, state) u. case s of None \<Rightarrow> True | Some x \<Rightarrow> good_session host users x u)"
    unfolding winrm_probe_once_def by (rule yields_any) (auto intro: yields_ret probe_good)
  then show ?thesis
    unfolding try_winrm_def
    by (rule yields_bind) (auto intro!: yields_user yields_skip_seq same yields_ret split: prod.split option.split)
qed

lemma connect_pass_good:
  "yields (\<lambda>_. True) (connect_pass N host users ssh_first fallback) (\<lambda>s u. case s of None \<Rightarrow> True | Some x \<Rightarrow> good_session host users x u)"
proof (cases ssh_first)
  case True
  have second: "yields (\<lambda>u. True) (bindM (try_winrm N host users '' fallback'') (\<lambda>(sess, state). ret sess))
     (\<lambda>s u. case s of None \<Rightarrow> True | Some x \<Rightarrow> good_session host users x u)"
    by (rule yields_bind [OF try_winrm_good]) (auto intro!: yields_ret split: prod.split)
  show ?thesis
    unfolding connect_pass_def using True
    by simp (rule yields_bind [OF try_ssh_good [where users = users]], rule yields_cases, auto intro!: yields_ret intro: second)
next
  case False
  show ?thesis
    unfolding connect_pass_def using False
    by simp (rule yields_bind [OF try_winrm_good],
             auto intro!: yields_ret intro: yields_weaken [OF try_ssh_good] split: prod.split)
qed

lemma wait_for_ssh_good: "yields (\<lambda>_. True) (wait_for_ssh N host timeout_s port) (\<lambda>s u. good_session host users (Ssh s) u)"
proof -
  have body: "yields (\<lambda>_. True) (wait_for_ssh_body N host port deadline l)
      (\<lambda>r u. case r of Inl l' \<Rightarrow> True | Inr s \<Rightarrow> good_session host users (Ssh s) u)" for deadline l
  proof -
    have found: "yields (\<lambda>u. case r of Inl e \<Rightarrow> True | Inr s \<Rightarrow> good_session host users (Ssh s) u)
      (case r of Inl e \<Rightarrow> seqM (pause (5 * ns)) (ret (Inl (describe e)))
       | Inr s \<Rightarrow> bindM (gets w_user) (\<lambda>u. seqM (log_line (''SSH on '' @ host @ '' is ready '' @ user_note (ssh_username u) @ ''.''))
                   (ret (Inr s))))
      (\<lambda>r u. case r of Inl l' \<Rightarrow> True | Inr s \<Rightarrow> good_session host users (Ssh s) u)" for r :: "ssh_session res"
      by (cases r) (auto intro!: yields_user yields_skip_seq same yields_ret)
    show ?thesis
      unfolding wait_for_ssh_body_def
      by (rule yields_any, rule yields_if, rule yields_bind [OF attempt_good [OF ssh_session_good [where users = users]] found],
          rule yields_raise)
  qed
  show ?thesis
    unfolding wait_for_ssh_def
    by (rule yields_skip_seq [OF same_prims(3)], rule yields_any, rule yields_loop, rule body)
qed

text \<open>The session \<open>connect_unit\<close> returns is one to the host it was asked for, under the account the
  credential then holds; over WinRM that account is one of the candidates derived from the vault's.\<close>

theorem connected_session:
  "case connect_unit N host winrm_wait_s fallback kind s of
     (Inr sess, s') \<Rightarrow> good_session host (users_to_try host (w_user s)) sess (w_user s')
   | (Inl e, s') \<Rightarrow> True"
proof -
  let ?users = "users_to_try host (w_user s)"
  have body: "yields (\<lambda>_. True) (connect_body N host users ssh_first fallback deadline u)
      (\<lambda>r v. case r of Inl x \<Rightarrow> True | Inr o_sess \<Rightarrow> (case o_sess of None \<Rightarrow> True | Some sess \<Rightarrow> good_session host users sess v))"
    for users ssh_first deadline u
  proof -
    have found: "yields (\<lambda>v. case r of None \<Rightarrow> True | Some x \<Rightarrow> good_session host users x v)
      (case r of None \<Rightarrow> seqM (pause (5 * ns)) (ret (Inl ())) | Some sess \<Rightarrow> ret (Inr (Some sess)))
      (\<lambda>r v. case r of Inl x \<Rightarrow> True | Inr o_sess \<Rightarrow> (case o_sess of None \<Rightarrow> True | Some sess \<Rightarrow> good_session host users sess v))" for r
      by (cases r) (auto intro!: yields_skip_seq same yields_ret)
    show ?thesis
      unfolding connect_body_def
      by (rule yields_any, rule yields_if, rule yields_bind [OF connect_pass_good found], rule yields_ret) simp
  qed
  have last_try: "yields (\<lambda>v. case r of None \<Rightarrow> True | Some x \<Rightarrow> good_session host users x v)
      (case r of None \<Rightarrow> seqM (log_line m) (bindM (wait_for_ssh N host 60 SSH_PORT) (\<lambda>s. ret (Ssh s))) | Some sess \<Rightarrow> ret sess)
      (\<lambda>sess v. good_session host users sess v)" for r m users
    by (cases r) (auto intro!: yields_skip_seq same yields_ret yields_weaken [OF yields_bind [OF wait_for_ssh_good [where users = users]]])
  have "yields (\<lambda>v. v = w_user s) (connect_unit N host winrm_wait_s fallback kind) (\<lambda>sess v. good_session host ?users sess v)"
    unfolding connect_unit_def Let_def
    by (rule yields_skip_seq [OF same_prims(3)], rule yields_skip [OF same_prims(1)], rule yields_user)
       (hypsubst, rule yields_bind [OF yields_weaken [OF yields_loop [OF body]] last_try])
  then show ?thesis by (auto simp: yields_def split: prod.split sum.split)
qed

end
