(* ===== verification/Fleet_Props.thy ===== *)
theory Fleet_Props
  imports Fleet_Main Transport_Props
begin

text \<open>
  What the fleet report promises: the records it saves read back as they were and give the same
  report, the exit code and the result line agree, and its verdict on a unit is the driver's.
\<close>

section \<open>Saved records read back\<close>

lemma to_values_map: "(\<And>v. f (g v) = Inr v) \<Longrightarrow> to_values f (map (\<lambda>(k, v). (k, g v)) d) = Inr d"
  by (induction d) auto

lemma saved_fields:
  "field (unit_fields u) ''host'' = JStr (ur_host u)" "field (unit_fields u) ''payload_hash'' = ur_payload_hash u"
  "field (unit_fields u) ''git_sha'' = ur_git_sha u" "field (unit_fields u) ''built_at'' = ur_built_at u"
  "field (unit_fields u) ''installed_at'' = ur_installed_at u"
  "field (unit_fields u) ''fully_provisioned'' = ur_fully_provisioned u"
  "field (unit_fields u) ''bootstrap_version'' = (case ur_bootstrap_version u of None \<Rightarrow> JNull | Some v \<Rightarrow> JInt v)"
  "field (unit_fields u) ''bootstrapped_at'' = ur_bootstrapped_at u" "field (unit_fields u) ''validated_at'' = ur_validated_at u"
  "field (unit_fields u) ''os_probe'' = ur_os_probe u" "field (unit_fields u) ''os_probe_error'' = opt_str (ur_os_probe_error u)"
  "field (unit_fields u) ''site_probe'' = ur_site_probe u" "field (unit_fields u) ''site_probe_error'' = opt_str (ur_site_probe_error u)"
  "field (unit_fields u) ''error'' = opt_str (ur_error u)"
  "field_or (unit_fields u) ''status'' v = JStr (ur_status u)" "field_or (unit_fields u) ''modules'' v = JObj (ur_modules u)"
  "field_or (unit_fields u) ''module_versions'' v = str_dict (ur_module_versions u)"
  "field_or (unit_fields u) ''repos'' v = dict_dict (ur_repos u)" "field_or (unit_fields u) ''facts'' v = dict_dict (ur_facts u)"
  "field_or (unit_fields u) ''validation'' v = str_dict (ur_validation u)"
  by (simp_all add: unit_fields_def field_def field_or_def)

lemma saved_names: "keys (unit_fields u) = field_names"
  by (simp add: unit_fields_def keys_def field_names_def)

lemma host_is_field: "''host'' \<in> set field_names"
  by (simp add: field_names_def unit_fields_def keys_def)

lemma to_opts: "to_opt_str (opt_str t) = Inr t" "to_opt_int (case v of None \<Rightarrow> JNull | Some i \<Rightarrow> JInt i) = Inr v"
  by (simp_all add: opt_str_def split: option.split)

lemma to_dicts: "bind_res (to_dict (str_dict d)) (to_values to_str) = Inr d" "bind_res (to_dict (dict_dict e)) (to_values to_dict) = Inr e"
  by (simp_all add: str_dict_def dict_dict_def as_objects_def to_values_map)

lemma record_reads_back: "unit_of_json (unit_json u) = Inr u"
  unfolding unit_of_json_def unit_json_def dict_field_def to_dict.simps bind_res_simps saved_fields saved_names to_opts to_dicts to_str.simps
  by (simp add: host_is_field)

lemma records_text_reads_back:
  assumes "list_all (\<lambda>u. wf_json (unit_json u)) us"
  shows "records_of_text (Inr (records_text us)) = Inr us"
proof -
  have "json_loads (records_text us) = Inr (JList (map unit_json us))"
    unfolding records_text_def using assms by (intro json_indent_round_trip_bare) (simp add: list_all_iff)
  moreover have "map_res unit_of_json (map unit_json us) = Inr us"
    by (induction us) (simp_all add: record_reads_back)
  ultimately show ?thesis by (simp add: records_of_text_def load_json_file_def)
qed

section \<open>What is gathered can be saved\<close>

definition wf_dict :: "(string, json) dict \<Rightarrow> bool" where
  "wf_dict d \<longleftrightarrow> wf_json (JObj d)"

definition wf_unit :: "unit_record \<Rightarrow> bool" where
  "wf_unit u \<longleftrightarrow> wf_json (ur_payload_hash u) \<and> wf_json (ur_git_sha u) \<and> wf_json (ur_built_at u) \<and> wf_json (ur_installed_at u)
     \<and> distinct (keys (ur_module_versions u)) \<and> wf_dict (ur_modules u) \<and> wf_json (ur_fully_provisioned u)
     \<and> wf_json (ur_bootstrapped_at u) \<and> distinct (keys (ur_repos u)) \<and> list_all (\<lambda>(k, d). wf_dict d) (ur_repos u)
     \<and> distinct (keys (ur_facts u)) \<and> list_all (\<lambda>(k, d). wf_dict d) (ur_facts u) \<and> distinct (keys (ur_validation u))
     \<and> wf_json (ur_validated_at u) \<and> wf_json (ur_os_probe u) \<and> wf_json (ur_site_probe u)"

lemma wf_str_dict: "wf_json (str_dict d) \<longleftrightarrow> distinct (keys d)"
  by (auto simp: str_dict_def as_objects_def keys_def comp_def case_prod_beta list_all_iff)

lemma wf_dict_dict: "wf_json (dict_dict d) \<longleftrightarrow> distinct (keys d) \<and> list_all (\<lambda>(k, e). wf_dict e) d"
  by (auto simp: dict_dict_def keys_def comp_def case_prod_beta list_all_iff wf_dict_def)

lemma wf_opt [simp]: "wf_json (opt_str t)" "wf_json (case v of None \<Rightarrow> JNull | Some i \<Rightarrow> JInt i)"
  by (simp_all add: opt_str_def split: option.split)

lemma saved_distinct: "distinct (map fst (unit_fields u))"
proof -
  have "map fst (unit_fields u) = field_names" using saved_names [of u] by (simp add: keys_def)
  moreover have "distinct field_names" by (simp add: field_names_def unit_fields_def keys_def)
  ultimately show ?thesis by simp
qed

lemma wf_unit_json: "wf_json (unit_json u) \<longleftrightarrow> wf_unit u"
proof -
  have "wf_json (unit_json u) \<longleftrightarrow> list_all (\<lambda>(k, v). wf_json v) (unit_fields u)"
    using saved_distinct by (simp add: unit_json_def)
  also have "\<dots> \<longleftrightarrow> wf_unit u"
    by (simp add: unit_fields_def wf_unit_def wf_str_dict wf_dict_dict wf_dict_def [symmetric] del: wf_json.simps(3) cong: conj_cong)
  finally show ?thesis .
qed

lemma wf_field: "wf_dict d \<Longrightarrow> wf_json (field d k)"
  by (auto simp: wf_dict_def field_def list_all_iff split: option.split dest!: map_of_SomeD)

lemma kept_keys:
  assumes g: "\<And>e. g e = [] \<or> (\<exists>x. g e = [(fst e, x)])"
  shows "set (map fst (concat (map g es))) \<subseteq> set (map fst es)"
    and "distinct (map fst es) \<Longrightarrow> distinct (map fst (concat (map g es)))"
proof -
  show sub: "set (map fst (concat (map g es))) \<subseteq> set (map fst es)" for es
  proof (induction es)
    case (Cons e es)
    then show ?case using g [of e] by auto
  qed simp
  show "distinct (map fst es) \<Longrightarrow> distinct (map fst (concat (map g es)))"
  proof (induction es)
    case (Cons e es)
    have "fst e \<notin> set (map fst (concat (map g es)))"
      using subsetD [OF sub [of es], of "fst e"] Cons.prems by (metis distinct.simps(2) list.simps(9))
    moreover have "map fst (concat (map g (e # es))) \<in> {map fst (concat (map g es)), fst e # map fst (concat (map g es))}"
      using g [of e] by auto
    moreover have "distinct (map fst (concat (map g es)))" using Cons by simp
    ultimately show ?case by (metis distinct.simps(2) insertE singletonD)
  qed simp
qed

lemma kept_values:
  assumes "\<And>e. P (snd e) \<Longrightarrow> g e = [] \<or> (\<exists>x. g e = [(fst e, x)] \<and> Q x)" and "list_all (\<lambda>(k, v). P v) es"
  shows "list_all (\<lambda>(k, v). Q v) (concat (map g es))"
  using assms(2)
proof (induction es)
  case (Cons e es)
  then show ?case using assms(1) [of e] by auto
qed simp

lemma wf_entries:
  assumes "wf_dict d"
  shows "distinct (map fst (dict_entries d))" and "list_all (\<lambda>(k, e). wf_dict e) (dict_entries d)"
proof -
  let ?g = "\<lambda>(k, v). case v of JObj e \<Rightarrow> [(k, e)] | _ \<Rightarrow> []"
  have "?g e = [] \<or> (\<exists>x. ?g e = [(fst e, x)])" for e :: "string \<times> json"
    by (cases e) (auto split: json.split)
  from kept_keys(2) [OF this] assms show "distinct (map fst (dict_entries d))"
    by (simp add: dict_entries_def wf_dict_def)
  have "?g e = [] \<or> (\<exists>x. ?g e = [(fst e, x)] \<and> wf_dict x)" if "wf_json (snd e)" for e :: "string \<times> json"
    using that by (cases e) (auto simp: wf_dict_def split: json.splits)
  from kept_values [OF this] assms show "list_all (\<lambda>(k, e). wf_dict e) (dict_entries d)"
    by (simp add: dict_entries_def wf_dict_def)
qed

lemma wf_facts_of:
  assumes "wf_dict d"
  shows "distinct (keys (facts_of d))" and "list_all (\<lambda>(k, e). wf_dict e) (facts_of d)"
proof -
  let ?g = "\<lambda>(name, e). case field e ''facts'' of JObj b \<Rightarrow> (if b = [] then [] else [(name, b)]) | _ \<Rightarrow> []"
  have "?g e = [] \<or> (\<exists>x. ?g e = [(fst e, x)])" for e :: "string \<times> (string, json) dict"
    by (cases e) (auto split: json.split)
  from kept_keys(2) [OF this wf_entries(1) [OF assms]] show "distinct (keys (facts_of d))"
    by (simp add: facts_of_def keys_def)
  have "?g e = [] \<or> (\<exists>x. ?g e = [(fst e, x)] \<and> wf_dict x)" if "wf_dict (snd e)" for e :: "string \<times> (string, json) dict"
    using wf_field [OF that, of "''facts''"] by (cases e) (auto simp: wf_dict_def split: json.splits)
  from kept_values [OF this wf_entries(2) [OF assms]] show "list_all (\<lambda>(k, e). wf_dict e) (facts_of d)"
    by (simp add: facts_of_def)
qed

lemma wf_dict_set: "wf_dict d \<Longrightarrow> list_all (\<lambda>(k, e). wf_dict e) acc \<Longrightarrow> list_all (\<lambda>(k, e). wf_dict e) (dict_set k d acc)"
  by (induction k d acc rule: dict_set.induct) auto

lemma wf_repo_rows:
  "list_all wf_json rs \<Longrightarrow> distinct (keys acc) \<Longrightarrow> list_all (\<lambda>(k, e). wf_dict e) acc
    \<Longrightarrow> distinct (keys (repo_rows rs acc)) \<and> list_all (\<lambda>(k, e). wf_dict e) (repo_rows rs acc)"
proof (induction rs arbitrary: acc)
  case (Cons r rs)
  show ?case
  proof (cases r)
    case (JObj d)
    then have "wf_dict d" using Cons.prems(1) by (simp add: wf_dict_def)
    then show ?thesis
      using Cons.IH [of acc] Cons.IH [of "dict_set (py_str (field d ''dir'')) d acc"] Cons.prems
      by (simp add: JObj wf_dict_set)
  qed (use Cons in simp_all)
qed simp

lemma wf_mapped: "distinct (keys d) \<Longrightarrow> distinct (keys (map (\<lambda>(k, v). (k, f v)) d))"
  by (simp add: keys_def comp_def case_prod_beta)

lemma wf_versions:
  assumes "wf_dict modules" and "wf_json legacy" and "versions_of modules legacy = Inr mv"
  shows "distinct (keys mv)"
proof (cases "dict_entries modules = []")
  case False
  then have "mv = map (\<lambda>(k, e). (k, version_text e)) (dict_entries modules)"
    using assms(3) by (simp add: versions_of_def Let_def)
  then show ?thesis using wf_mapped [OF wf_entries(1) [OF assms(1), folded keys_def]] by simp
next
  case True
  then obtain d where "jor legacy (JObj []) = JObj d" "mv = map (\<lambda>(k, v). (k, py_str v)) d"
    using assms(3) by (auto simp: versions_of_def Let_def split: json.splits)
  moreover have "distinct (keys d)" using calculation(1) assms(2) by (auto simp: jor_def keys_def split: if_splits)
  ultimately show ?thesis by (simp add: wf_mapped)
qed

lemma wf_blank [simp]: "wf_unit (blank_record host st)" "wf_unit (failed_record G host st e)"
  by (simp_all add: wf_unit_def blank_record_def failed_record_def wf_dict_def keys_def)

lemma wf_manifest:
  assumes "wf_json obj" and "manifest_from_obj host obj = Inr r"
  shows "wf_unit r"
proof -
  from assms(2) obtain doc where obj: "obj = JObj doc" by (cases obj) (auto simp: manifest_from_obj_def)
  then have doc: "wf_dict doc" using assms(1) by (simp add: wf_dict_def)
  define modules where "modules = (case jor (field doc ''modules'') (JObj []) of JObj d \<Rightarrow> d | _ \<Rightarrow> [])"
  have m: "wf_dict modules"
    using wf_field [OF doc, of "''modules''"] by (auto simp: modules_def jor_def wf_dict_def split: json.splits if_splits)
  define repos where "repos = (case field doc ''repos'' of JList rs \<Rightarrow> repo_rows rs [] | _ \<Rightarrow> [])"
  have "distinct (keys repos) \<and> list_all (\<lambda>(k, d). wf_dict d) repos"
    using wf_field [OF doc, of "''repos''"] wf_repo_rows [of _ "[]"]
    by (auto simp: repos_def keys_def split: json.splits)
  moreover obtain mv where vs: "versions_of modules (field doc ''module_versions'') = Inr mv" and
    "r = (blank_record host ''ok'')\<lparr>ur_payload_hash := field doc ''payload_hash'', ur_git_sha := field doc ''git_sha'',
          ur_built_at := field doc ''built_at'', ur_installed_at := field doc ''installed_at'',
          ur_module_versions := mv, ur_modules := modules, ur_repos := repos,
          ur_facts := facts_of modules, ur_fully_provisioned := field doc ''fully_provisioned''\<rparr>"
    using assms(2) by (auto simp: manifest_from_obj_def obj bind_res_Inr_iff Let_def modules_def repos_def field_def)
  ultimately show ?thesis
    using m wf_facts_of [OF m] wf_field [OF doc] wf_versions [OF m wf_field [OF doc] vs]
    by (simp add: wf_unit_def blank_record_def keys_def)
qed

lemma wf_parts:
  "parse_validation part = Inr (v, c) \<Longrightarrow> distinct (keys v) \<and> wf_json c"
  "parse_bootstrap trunc part = Inr (b, at) \<Longrightarrow> wf_json at"
  "between_markers out m1 m2 what = Inr j \<Longrightarrow> wf_json j"
proof -
  have got: "wf_json x" if "json_loads s = Inr obj" "jget obj k = Inr x" for s obj k x
    using json_loads_wf [OF that(1)] that(2) by (cases obj) (auto simp: list_all_iff split: option.splits dest!: map_of_SomeD)
  show "distinct (keys v) \<and> wf_json c" if pv: "parse_validation part = Inr (v, c)"
  proof (cases "strip part = []")
    case True
    then show ?thesis using pv by (simp add: parse_validation_def keys_def)
  next
    case False
    show ?thesis
    proof (cases "json_loads (strip part)")
      case (Inl e)
      then show ?thesis using pv False by (auto simp: parse_validation_def keys_def split: if_splits)
    next
      case (Inr obj)
      then obtain m where m: "jget obj ''modules'' = Inr m"
        using pv False Inr by (cases "jget obj ''modules''") (auto simp: parse_validation_def)
      have "wf_json (jor m (JObj []))" using got [OF Inr m] by (simp add: jor_def)
      then show ?thesis
        using pv False Inr m got [OF Inr]
        by (auto simp: parse_validation_def bind_res_Inr_iff keys_def comp_def case_prod_beta split: json.splits)
    qed
  qed
  show "wf_json at" if "parse_bootstrap trunc part = Inr (b, at)"
    using that got by (auto simp: parse_bootstrap_def bind_res_Inr_iff split: if_splits sum.splits)
  show "wf_json j" if "between_markers out m1 m2 what = Inr j"
    using that json_loads_wf by (auto simp: between_markers_def split: prod.splits if_splits)
qed

lemma wf_read:
  assumes "read_output text trunc host out = Inr r"
  shows "wf_unit r"
proof -
  have "wf_unit q" if "installed_record text host part = Inr q" for part q
    using that wf_manifest [OF json_loads_wf]
    by (auto simp: installed_record_def bind_res_Inr_iff wf_unit_def blank_record_def wf_dict_def keys_def split: if_splits sum.splits)
  moreover obtain ip x rest bp y vp where "partition_str SPLIT out = (ip, x, rest)" "partition_str SPLIT rest = (bp, y, vp)"
    by (metis prod_cases3)
  with assms obtain b at v c q where "parse_bootstrap trunc bp = Inr (b, at)" "parse_validation vp = Inr (v, c)"
    "installed_record text host (strip ip) = Inr q"
    "r = q\<lparr>ur_bootstrap_version := b, ur_bootstrapped_at := at, ur_validation := v, ur_validated_at := c\<rparr>"
    by (auto simp: read_output_def bind_res_Inr_iff)
  ultimately show ?thesis using wf_parts(1,2) by (fastforce simp: wf_unit_def)
qed

lemma wf_probe:
  assumes "attemptD (bindD m (\<lambda>out. bindM (liftR (parse out)) retD)) s = (Inr (Some (Inr j)), s')"
    and "\<And>out j. parse out = Inr j \<Longrightarrow> wf_json j"
  shows "wf_json j"
proof (rule attemptD_cases [OF assms(1)])
  fix x
  assume "Inr j = (Inr x :: json res)" "bindD m (\<lambda>out. bindM (liftR (parse out)) retD) s = (Inr (Some x), s')"
  then show ?thesis using assms(2) by (auto elim!: bindD_gave split: sum.splits simp: retD_def)
qed simp

lemma wf_with_probes: "wf_unit r \<Longrightarrow> (\<And>j. p = Inr j \<Longrightarrow> wf_json j) \<Longrightarrow> wf_unit (with_os_probe T p r) \<and> wf_unit (with_site_probe T p r)"
  by (auto simp: with_os_probe_def with_site_probe_def wf_unit_def split: sum.split)

lemma wf_gathered:
  assumes "gather_unit fuel N G host t s = (Inr (Some u), s')"
  shows "wf_unit u"
proof -
  have body: "wf_unit x" if "gather_body fuel N G host s1 = (Inr (Some x), s2)" for x s1 s2
  proof -
    from that [unfolded gather_body_def] obtain resp s3 r o_p s4 s_p where
      "run_open fuel N gather_script s1 = (Inr (Some resp), s3)" and
      r: "read_output (ge_text G) (ge_trunc G) host (decode_sig (std_out resp)) = Inr r" and
      o_p: "attemptD (gather_os_probe fuel N (ge_read G) (ge_uid G)) s3 = (Inr (Some o_p), s4)" and
      s_p: "attemptD (gather_site_probe fuel N (ge_read G) (ge_uid G)) s4 = (Inr (Some s_p), s2)" and
      x: "x = with_site_probe (ge_text G) s_p (with_os_probe (ge_text G) o_p r)"
      by (auto elim!: bindD_gave split: sum.splits simp: retD_def)
    have "wf_json j" if "o_p = Inr j" for j
      by (rule wf_probe [OF o_p [unfolded gather_os_probe_def that]]) (auto simp: parse_os_probe_def wf_parts)
    moreover have "wf_json j" if "s_p = Inr j" for j
      by (rule wf_probe [OF s_p [unfolded gather_site_probe_def that]]) (auto simp: parse_site_probe_def wf_parts)
    ultimately show ?thesis using wf_read [OF r] wf_with_probes unfolding x by blast
  qed
  show ?thesis
    using assms body
    by (auto simp: gather_unit_def bindM_def finally_done_def finallyM_def catchM_def retD_def ret_def raise_def
        split: prod.splits sum.splits option.splits if_splits)
qed

lemma wf_gathered_all: "gather_all fuel N G t hosts s = (Inr (Some us), s') \<Longrightarrow> list_all wf_unit us"
proof (induction hosts arbitrary: s us s')
  case (Cons h hs)
  then show ?case by (auto elim!: bindD_gave dest: wf_gathered simp: retD_def ret_def)
qed (simp add: retD_def)

section \<open>A saved gather gives the same report\<close>

lemma report_result:
  assumes "fleet_report E args reference bdoc us w = (Inr c, w')" and "given (fa_csv_out args) = None"
  shows "\<exists>line. w' = w\<lparr>fw_out := fw_out w @ [line]\<rparr>
    \<and> (\<forall>v. fw_files v = fw_files w \<longrightarrow> fleet_report E args reference bdoc us v = (Inr c, v\<lparr>fw_out := fw_out v @ [line]\<rparr>))"
  using assms by (auto simp: fleet_report_def seqM_def split: sum.splits) (auto simp: bindM_def split: sum.splits)

lemma or_exit_bind [simp]:
  "bindM (or_exit r) f w = (case r of Inr a \<Rightarrow> f (Inr a) w | Inl e \<Rightarrow> if is_caught e then f (Inl 1) w else (Inl e, w))"
  by (simp add: or_exit_def bindM_def ret_def raise_def split: sum.split)

lemma retD_app [simp]: "retD x w = (Inr (Some x), w)"
  by (simp add: retD_def ret_def)

lemma live_units_result:
  assumes "live_units fuel N E args w = (Inr (Some (Inr us)), w')"
  shows "fw_files w' = fw_files w \<and> fw_out w' = fw_out w \<and> list_all wf_unit us"
proof -
  from assms obtain hosts user where "host_list (fw_files w) args = Inr hosts" and "fe_cred E = Inr user"
    and *: "seqM (on_wire (modifyM (\<lambda>s. s\<lparr>w_user := user\<rparr>)))
             (bindD (on_wire (gather_all fuel N ((fe_gather E)\<lparr>ge_read := file_text (fw_files w)\<rparr>) (fa_connect_timeout args) hosts))
                (\<lambda>us. retD (Inr us :: int + unit_record list))) w = (Inr (Some (Inr us)), w')"
    by (auto simp: live_units_def split: sum.splits if_splits)
  from * obtain s where s: "gather_all fuel N ((fe_gather E)\<lparr>ge_read := file_text (fw_files w)\<rparr>) (fa_connect_timeout args) hosts
      ((fw_wire w)\<lparr>w_user := user\<rparr>) = (Inr (Some us), s)" and w': "w' = w\<lparr>fw_wire := s\<rparr>"
    by (auto simp: seqM_def bindM_def on_wire_def retD_def ret_def elim!: bindD_gave split: sum.splits prod.splits)
  from wf_gathered_all [OF s] w' show ?thesis by simp
qed

lemma file_text_other [simp]: "file_text (dict_set p t files) q = (if q = p then Inr t else file_text files q)"
  by (simp add: file_text_def)

lemma load_reference_other:
  "given (fa_build_manifest args) \<noteq> Some p \<Longrightarrow> load_reference (dict_set p t files) args = load_reference files args"
  by (auto simp: load_reference_def split: option.split)

text \<open>C28: A saved gather stands for the fleet: when a live run that saves its records has printed a report,
  running the command again on the saved file, with no network and no unit, prints the same report and
  ends with the same exit code.\<close>

theorem saved_gather_same_report:
  assumes run: "fleet_main fuel N E args w = (Inr (Some c), w')"
    and live: "given (fa_from_json args) = None" and saved: "given (fa_json_out args) = Some p"
    and csv: "given (fa_csv_out args) = None" and ref: "given (fa_build_manifest args) \<noteq> Some p"
    and printed: "fw_out w' \<noteq> fw_out w"
  shows "\<exists>report. fw_out w' = fw_out w @ [report]
     \<and> fleet_main fuel' N' E (args\<lparr>fa_from_json := Some p, fa_json_out := None\<rparr>) w'
        = (Inr (Some c), w'\<lparr>fw_out := fw_out w' @ [report]\<rparr>)"
proof -
  let ?args = "args\<lparr>fa_from_json := Some p, fa_json_out := None\<rparr>"
  have p: "p \<noteq> []" using saved by (auto simp: given_def split: option.splits if_splits)
  obtain reference bdoc where lr: "load_reference (fw_files w) args = Inr (reference, bdoc)"
  proof (cases "load_reference (fw_files w) args")
    case (Inl e)
    then show ?thesis using run printed
      by (auto simp: fleet_main_def split: if_splits)
  qed auto
  with run have m: "bindD (get_units fuel N E args) (\<lambda>got. case got of Inl status \<Rightarrow> retD status
      | Inr units \<Rightarrow> seqM (save_file p (records_text units)) (bindM (fleet_report E args reference bdoc units) retD)) w = (Inr (Some c), w')"
    by (simp add: fleet_main_def saved)
  then obtain got w1 where got: "live_units fuel N E args w = (Inr (Some got), w1)"
    and rest: "(case got of Inl status \<Rightarrow> retD status
      | Inr units \<Rightarrow> seqM (save_file p (records_text units)) (bindM (fleet_report E args reference bdoc units) retD)) w1 = (Inr (Some c), w')"
    by (elim bindD_gave) (simp add: get_units_def live)
  show ?thesis
  proof (cases got)
    case (Inl status)
    have "fw_out w1 = fw_out w"
      using got Inl by (auto simp: live_units_def seqM_Inr_iff elim!: bindD_gave split: sum.splits if_splits)
    then show ?thesis using rest Inl printed by (simp add: retD_def)
  next
    case (Inr us)
    define files where "files = dict_set p (records_text us) (fw_files w)"
    have l: "fw_files w1 = fw_files w" "fw_out w1 = fw_out w" "list_all wf_unit us"
      using live_units_result got Inr by auto
    have "fleet_report E args reference bdoc us (w1\<lparr>fw_files := files\<rparr>) = (Inr c, w')"
      using rest Inr l by (auto simp: seqM_def bindM_def save_file_def files_def retD_def split: sum.splits prod.splits)
    from report_result [OF this csv] obtain line where w': "w' = w1\<lparr>fw_files := files, fw_out := fw_out w @ [line]\<rparr>"
      and again: "fleet_report E args reference bdoc us w' = (Inr c, w'\<lparr>fw_out := fw_out w' @ [line]\<rparr>)"
      using l by auto
    have "load_reference files ?args = Inr (reference, bdoc)"
      using lr load_reference_other [OF ref] by (simp add: files_def load_reference_def)
    moreover have "records_of_text (file_text files p) = Inr us"
      using records_text_reads_back [of us] l(3) by (simp add: files_def wf_unit_json)
    moreover have "fleet_report E ?args = fleet_report E args"
      by (simp add: fleet_report_def fun_eq_iff)
    ultimately have "fleet_main fuel' N' E ?args w' = (Inr (Some c), w'\<lparr>fw_out := fw_out w' @ [line]\<rparr>)"
      using again p w'
      by (simp add: fleet_main_def get_units_def given_def bindD_def) (simp add: bindM_def or_exit_def seqM_def)
    then show ?thesis using w' by auto
  qed
qed

section \<open>The exit code and the result line\<close>

definition last_result :: "unit_record list \<Rightarrow> comparison \<Rightarrow> boot_report \<Rightarrow> repo_comparison \<Rightarrow> string" where
  "last_result units cmp boot repos = last (render_result units cmp boot repos)"

lemma result_lines:
  "render_result units cmp boot repos \<noteq> []"
  "last_result units cmp boot repos = ALL_CLEAR \<longleftrightarrow> module_problems units cmp = [] \<and> boot_problems units boot = []
     \<and> repo_problems repos = [] \<and> tier2_unknown units = []"
proof -
  show "render_result units cmp boot repos \<noteq> []" by (simp add: render_result_def Let_def)
  have clear: "ALL_CLEAR = ''RESULT: a'' @ ''ll units in sync and bootstrap current''" by (simp add: ALL_CLEAR_def)
  have other: "x \<noteq> ALL_CLEAR" if "startswith ''RESULT: p'' x \<or> startswith ''RESULT: b'' x \<or> startswith ''RESULT: n'' x
      \<or> startswith ''RESULT: e'' x \<or> startswith ''RESULT: u'' x \<or> startswith ''RESULT: t'' x" for x
    using that by (auto simp: clear startswith_iff)
  show "last_result units cmp boot repos = ALL_CLEAR \<longleftrightarrow> module_problems units cmp = [] \<and> boot_problems units boot = []
     \<and> repo_problems repos = [] \<and> tier2_unknown units = []"
  proof
    assume "last_result units cmp boot repos = ALL_CLEAR"
    then show "module_problems units cmp = [] \<and> boot_problems units boot = [] \<and> repo_problems repos = [] \<and> tier2_unknown units = []"
      using other [of "counted a b c" for a b c]
      by (auto simp: last_result_def render_result_def Let_def boot_result_def split: if_splits) (auto simp: counted_def clear)
  qed (simp add: last_result_def render_result_def Let_def)
qed

lemma problems_none:
  "module_problems units cmp = [] \<longleftrightarrow> list_all (\<lambda>u. verdict_at cmp u = Some ''IN SYNC'') units"
  "boot_problems units boot = [] \<longleftrightarrow> list_all (\<lambda>u. map_option bg_state (map_of (br_by_host boot) (ur_host u)) = Some Current) units"
  by (auto simp: module_problems_def boot_problems_def filter_empty_conv list_all_iff)

lemma liftR_bind_Inr: "bindM (liftR r) f s = (Inr a, s') \<longleftrightarrow> (\<exists>x. r = Inr x \<and> f x s = (Inr a, s'))"
  by (cases r) simp_all

lemma optional_save:
  "(case q of None \<Rightarrow> ret () | Some p \<Rightarrow> save_file p t) w = (Inr x, v) \<Longrightarrow> fw_out v = fw_out w"
  by (auto simp: save_file_def split: option.splits)


section \<open>The report's verdict and the driver's\<close>

definition live_outcome :: "unit_record \<Rightarrow> string \<Rightarrow> string" where
  "live_outcome u name = (case map_of (ur_validation u) name of None \<Rightarrow> [] | Some t \<Rightarrow> t)"

text \<open>A module the driver holds for up to date although its last live check failed.\<close>

definition as_reported :: "unit_record \<Rightarrow> module_drift \<Rightarrow> module_drift" where
  "as_reported u d =
     (if md_state d = module_state.UpToDate \<and> lower (live_outcome u (md_name d)) = ''fail'' then d\<lparr>md_state := NeedsRepair\<rparr> else d)"

lemma map_of_as_objects: "map_of (as_objects d) k = map_option JStr (map_of d k)"
  by (induction d) (auto simp: as_objects_def)

lemma live_view_simps:
  "validation_view (live_view u) = Inr (JObj (as_objects (ur_validation u)), None)"
  by (simp add: validation_view_def live_view_def jor_def as_objects_def)

lemma verdict_reported:
  assumes "module_verdict live c name entry built = Inr st"
    and "\<And>v. jget_default live name (JStr []) = Inr v \<Longrightarrow> live_outcome u name = py_str v"
  shows "module_verdict (JObj (as_objects (ur_validation u))) None name entry built
     = Inr (if st = module_state.UpToDate \<and> lower (live_outcome u name) = ''fail'' then NeedsRepair else st)"
proof -
  have "jget_default (JObj (as_objects (ur_validation u))) name (JStr []) = Inr (JStr (live_outcome u name))"
    by (simp add: map_of_as_objects live_outcome_def split: option.split)
  then show ?thesis
    using assms by (auto simp: module_verdict_def Let_def bind_res_Inr_iff validation_is_stale_def simp del: jget_default.simps split: if_splits)
qed

lemma built_reported:
  assumes "classify_built d ms live c name = Inr m"
    and "\<And>v. jget_default live name (JStr []) = Inr v \<Longrightarrow> live_outcome u name = py_str v"
  shows "classify_built d ms (JObj (as_objects (ur_validation u))) None name = Inr (as_reported u m)"
  using assms verdict_reported [of live c name _ _ _ u]
  by (auto simp: classify_built_def Let_def bind_res_Inr_iff as_reported_def simp del: jget_default.simps split: if_splits)

lemma all_built_reported:
  assumes "map_res (classify_built d ms live c) bm = Inr out"
    and "\<And>name v. jget_default live name (JStr []) = Inr v \<Longrightarrow> live_outcome u name = py_str v"
  shows "map_res (classify_built d ms (JObj (as_objects (ur_validation u))) None) bm = Inr (map (as_reported u) out)"
  using assms(1)
proof (induction bm arbitrary: out)
  case (Cons name bm)
  then obtain m ms' where m: "classify_built d ms live c name = Inr m"
    and ms': "map_res (classify_built d ms live c) bm = Inr ms'" and out: "out = m # ms'"
    by (auto simp: bind_res_Inr_iff)
  show ?case using built_reported [OF m assms(2)] Cons.IH [OF ms'] by (simp add: out)
qed simp

lemma extras_reported [simp]: "as_reported u (extra_module d n) = extra_module d n"
  by (simp add: as_reported_def)

lemma installed_view_modules:
  assumes "manifest_from_obj host installed = Inr r"
  shows "recorded_modules installed = Inr (ur_modules r)" and "recorded_modules (installed_view r) = Inr (ur_modules r)"
proof -
  obtain d where d: "installed = JObj d" using assms by (cases installed) (auto simp: manifest_from_obj_def)
  have m: "ur_modules r = (case jor (field d ''modules'') (JObj []) of JObj m \<Rightarrow> m | _ \<Rightarrow> [])"
    using assms by (auto simp: manifest_from_obj_def d bind_res_Inr_iff Let_def field_def)
  show "recorded_modules installed = Inr (ur_modules r)"
    by (auto simp: recorded_modules_def m d jor_def field_def split: json.splits option.splits)
  show "recorded_modules (installed_view r) = Inr (ur_modules r)"
    by (simp add: recorded_modules_def installed_view_def)
qed

lemma validation_outcomes:
  assumes "json_loads (strip text) = Inr validation" and "strip text \<noteq> []" and "parse_validation text = Inr (outcomes, checked)"
    and "validation_view validation = Inr (live, c)" and "ur_validation u = outcomes"
    and "jget_default live name (JStr []) = Inr v"
  shows "live_outcome u name = py_str v"
proof -
  obtain d where d: "validation = JObj d" using assms(1,2,3) by (cases validation) (auto simp: parse_validation_def)
  have live: "live = jor (field d ''modules'') (JObj [])"
    using assms(4) by (auto simp: validation_view_def d bind_res_Inr_iff field_def jor_def split: if_splits)
  from assms(6) obtain ms where ms: "live = JObj ms" by (cases live) auto
  have "outcomes = map (\<lambda>(k, v). (k, py_str v)) ms"
    using assms(1-3) ms live by (auto simp: parse_validation_def d field_def)
  then have "map_of (ur_validation u) name = map_option py_str (map_of ms name)"
    using assms(5) by (simp add: map_of_map)
  then show ?thesis using assms(6) ms by (auto simp: live_outcome_def split: option.splits)
qed

text \<open>C27: The report judges a unit as the driver's next cycle does, but for one case: with the unit's own
  installed manifest and tier-2 report, it lists the same modules with the same states, except that a
  module the driver holds for up to date because its failed check is older than its installation is
  reported as one to repair, since the report hands the check's outcomes on without their time.\<close>

theorem report_judges_as_the_driver:
  assumes driver: "classify installed bdoc validation = Inr r"
    and manifest: "manifest_from_obj host installed = Inr u0"
    and report: "json_loads (strip text) = Inr validation" "strip text \<noteq> []" "parse_validation text = Inr (outcomes, checked)"
    and gathered: "u = u0\<lparr>ur_validation := outcomes, ur_validated_at := checked\<rparr>"
  shows "report_of bdoc u = Inr (r\<lparr>dr_modules := map (as_reported u) (dr_modules r)\<rparr>)
    \<and> (report_of bdoc u = classify installed bdoc validation \<or> (\<exists>d\<in>set (dr_modules r). as_reported u d \<noteq> d))"
proof -
  have mods: "recorded_modules installed = Inr (ur_modules u)" "recorded_modules (installed_view u) = Inr (ur_modules u)"
  proof -
    have "installed_view u = installed_view u0" "ur_modules u = ur_modules u0" by (simp_all add: gathered installed_view_def)
    then show "recorded_modules installed = Inr (ur_modules u)" "recorded_modules (installed_view u) = Inr (ur_modules u)"
      using installed_view_modules [OF manifest] by simp_all
  qed
  from driver obtain bm ms live c out al where
    "bind_res (jget bdoc ''modules'') str_list = Inr bm" "jget bdoc ''module_state'' = Inr ms"
    "bind_res (jget bdoc ''always_modules'') str_list = Inr al" "validation_view validation = Inr (live, c)"
    and out: "map_res (classify_built (ur_modules u) (jor ms (JObj [])) live c) bm = Inr out"
    and r: "r = \<lparr>dr_modules = out @ map (extra_module (ur_modules u)) (extras (ur_modules u) bm), dr_always = set al\<rparr>"
    using mods by (elim classify_cases) auto
  moreover have "map_res (classify_built (ur_modules u) (jor ms (JObj [])) (JObj (as_objects (ur_validation u))) None) bm
      = Inr (map (as_reported u) out)"
    using validation_outcomes [OF report calculation(4)] gathered by (intro all_built_reported [OF out]) simp
  ultimately have rep: "report_of bdoc u = Inr (r\<lparr>dr_modules := map (as_reported u) (dr_modules r)\<rparr>)"
    by (simp add: report_of_def classify_def live_view_simps mods extras_def)
  moreover have "map (as_reported u) (dr_modules r) = dr_modules r" if "\<forall>d\<in>set (dr_modules r). as_reported u d = d"
    using that by (simp add: map_idI)
  ultimately show ?thesis using driver by auto
qed

text \<open>A module that failed its check on the first and was installed again on the second of a month: the
  driver leaves it alone, the report wants it repaired.\<close>

definition ex_installed :: json where
  "ex_installed = JObj [(''modules'', JObj [(''git'', JObj [(''hash'', JStr ''h''), (''installed_at'', JStr ''2026-08-02T00:00:00Z'')])])]"

definition ex_bdoc :: json where
  "ex_bdoc = JObj [(''modules'', JList [JStr ''git'']), (''module_state'', JObj [(''git'', JObj [(''hash'', JStr ''h'')])])]"

definition ex_checked :: json where
  "ex_checked = JObj [(''modules'', JObj [(''git'', JStr ''fail'')]), (''checked_at'', JStr ''2026-08-01T00:00:00Z'')]"

definition ex_unit :: unit_record where
  "ex_unit = (blank_record ''mast01'' ''ok'')\<lparr>ur_module_versions := [(''git'', [])],
     ur_modules := [(''git'', JObj [(''hash'', JStr ''h''), (''installed_at'', JStr ''2026-08-02T00:00:00Z'')])],
     ur_validation := [(''git'', ''fail'')], ur_validated_at := JStr ''2026-08-01T00:00:00Z''\<rparr>"

lemma report_judges_as_the_driver_witness:
  "\<exists>r r'. classify ex_installed ex_bdoc ex_checked = Inr r \<and> report_of ex_bdoc ex_unit = Inr r'
     \<and> map md_state (dr_modules r) = [module_state.UpToDate] \<and> map md_state (dr_modules r') = [NeedsRepair]"
proof -
  let ?r = "\<lparr>dr_modules = [\<lparr>md_name = ''git'', md_state = module_state.UpToDate, installed_version = None, built_version = None,
      installed_hash = Some ''h'', built_hash = Some ''h'', md_provide = None, md_verify = None\<rparr>], dr_always = {}\<rparr>"
  have r: "classify ex_installed ex_bdoc ex_checked = Inr ?r" by code_simp
  have "report_of ex_bdoc ex_unit = Inr (?r\<lparr>dr_modules := map (as_reported ex_unit) (dr_modules ?r)\<rparr>)"
  proof (rule report_judges_as_the_driver [OF r, THEN conjunct1])
    show "manifest_from_obj ''mast01'' ex_installed = Inr (ex_unit\<lparr>ur_validation := [], ur_validated_at := JNull\<rparr>)"
      by code_simp
    show "json_loads (strip (json_dumps ex_checked)) = Inr ex_checked" by code_simp
    show "strip (json_dumps ex_checked) \<noteq> []" by code_simp
    show "parse_validation (json_dumps ex_checked) = Inr ([(''git'', ''fail'')], JStr ''2026-08-01T00:00:00Z'')" by code_simp
    show "ex_unit = ex_unit\<lparr>ur_validation := [], ur_validated_at := JNull\<rparr>
       \<lparr>ur_validation := [(''git'', ''fail'')], ur_validated_at := JStr ''2026-08-01T00:00:00Z''\<rparr>"
      by (simp add: ex_unit_def blank_record_def)
  qed
  moreover have "md_state (as_reported ex_unit (hd (dr_modules ?r))) = NeedsRepair" by code_simp
  ultimately show ?thesis using r by simp
qed

end
