(* ===== verification/Fleet_Example.thy ===== *)
theory Fleet_Example
  imports Fleet_Props
begin

text \<open>
  A fleet of one unit that cannot be reached, on which the claims about the report are applied.
\<close>

lemma unreachable_record:
  assumes "n_connect N (w_tick s) host (ssh_username (w_user s)) t = Inl e" and "is_caught e"
  shows "fst (gather_unit fuel N G host t s) = Inr (Some (failed_record G host ''unreachable'' e))"
  using assms
  by (simp add: gather_unit_def ssh_session_def ssh_connect_def call_def Let_def attempt_def catchM_def seqM_def query_def
      bindM_def gets_def emit_def retD_def ret_def raise_def modifyM_def)

lemma bindM_at: "bindM m f w = (case m w of (Inr a, v) \<Rightarrow> f a v | (Inl e, v) \<Rightarrow> (Inl e, v))"
  by (simp add: bindM_def)

definition dead_net :: net where
  "dead_net = quiet_net\<lparr>n_connect := \<lambda>n h u t. Inl TimeoutError\<rparr>"

definition ex_env :: fleet_env where
  "ex_env = \<lparr>fe_gather = \<lparr>ge_text = exc_name, ge_trunc = \<lambda>t. Inl ValueError, ge_read = \<lambda>p. Inl OSError, ge_uid = \<lambda>n. nat_str n\<rparr>,
     fe_cred = Inr ''mast'',
     fe_patch = \<lparr>pe_text = exc_name, pe_validators = ex_validators, pe_probe = \<lambda>j. Inl ValueError, pe_os_builds = None, pe_baselines = []\<rparr>,
     fe_floats = \<lparr>fl_trunc = \<lambda>t. Inl ValueError, fl_above = \<lambda>t v. False\<rparr>\<rparr>"

definition ex_args :: fleet_args where
  "ex_args = \<lparr>fa_hosts = Some ''mast01'', fa_registry = None, fa_build_manifest = None, fa_role = ''unit'', fa_connect_timeout = 15,
     fa_json_out = Some ''r.json'', fa_csv_out = None, fa_from_json = None\<rparr>"

definition ex_fleet :: fleet_world where
  "ex_fleet = \<lparr>fw_files = [], fw_wire = fresh_wire, fw_out = []\<rparr>"

definition lost :: unit_record where
  "lost = failed_record (fe_gather ex_env) ''mast01'' ''unreachable'' TimeoutError"

definition lost_report :: "(int \<times> string list) res" where
  "lost_report =
     bind_res (compare_units [lost] None) (\<lambda>cmp.
     bind_res (compare_repos [lost] None []) (\<lambda>repos.
     bind_res (bootstrap_gaps (fe_floats ex_env) [lost] (JObj [])) (\<lambda>boot.
     bind_res (render_lines [lost] None cmp boot None repos (compare_facts [lost]) []) (\<lambda>lines.
     Inr (exit_code [lost] cmp boot, lines)))))"

lemma lost_is_reported: "map_sum (\<lambda>_. ()) fst lost_report = Inr 2"
  by code_simp

lemma ex_parts:
  "load_reference [] ex_args = Inr (None, [])" "host_list [] ex_args = Inr [''mast01'']"
  "load_bootstrap_elements None = Inr (JObj [])" "assess_os_patch (patch_of ex_env [(''r.json'', [])]) [lost] = Inr []"
  "expected_repo_dirs None t = []" "repo_bootstrap_version None = None"
  "given (fa_from_json ex_args) = None" "given (fa_json_out ex_args) = Some ''r.json''" "given (fa_csv_out ex_args) = None"
  "given (fa_build_manifest ex_args) = None"
        apply code_simp apply code_simp apply code_simp apply code_simp apply code_simp apply code_simp
  by (simp_all add: ex_args_def given_def)

lemma no_baseline: "\<not> is_baseline_path ''r.json''"
  by code_simp

lemma patch_of_records: "patch_of E [(''r.json'', t)] = patch_of E [(''r.json'', [])]"
  by (simp add: patch_of_def OS_BUILDS_def baseline_files_def no_baseline)

lemma lost_run:
  assumes "fw_files w = [(''r.json'', t)]"
  shows "\<exists>line. fleet_report ex_env ex_args None [] [lost] w = (Inr 2, w\<lparr>fw_out := fw_out w @ [line]\<rparr>)"
proof -
  obtain cmp repos boot lines where "compare_units [lost] None = Inr cmp" "compare_repos [lost] None [] = Inr repos"
    "bootstrap_gaps (fe_floats ex_env) [lost] (JObj []) = Inr boot"
    "render_lines [lost] None cmp boot None repos (compare_facts [lost]) [] = Inr lines" "exit_code [lost] cmp boot = 2"
    using lost_is_reported by (cases lost_report) (auto simp: lost_report_def bind_res_Inr_iff)
  then show ?thesis
    using assms ex_parts
    by (simp add: fleet_report_def seqM_def compare_all_def field_def patch_of_records [of _ t] bindM_at ret_def) (rule exI, rule refl)
qed

lemma ex_run:
  "\<exists>w line. fleet_main 0 dead_net ex_env ex_args ex_fleet = (Inr (Some 2), w) \<and> fw_out w = [line]"
proof -
  let ?G = "(fe_gather ex_env)\<lparr>ge_read := file_text []\<rparr>"
  have "fst (gather_unit 0 dead_net ?G ''mast01'' 15 fresh_wire) = Inr (Some (failed_record ?G ''mast01'' ''unreachable'' TimeoutError))"
    by (rule unreachable_record) (simp_all add: dead_net_def is_caught_def)
  then have "fst (gather_unit 0 dead_net ?G ''mast01'' 15 fresh_wire) = Inr (Some lost)"
    by (simp add: lost_def failed_record_def)
  then obtain s where g: "gather_unit 0 dead_net ?G ''mast01'' 15 fresh_wire = (Inr (Some lost), s)"
    by (cases "gather_unit 0 dead_net ?G ''mast01'' 15 fresh_wire") simp
  have "fa_connect_timeout ex_args = 15" "fe_cred ex_env = Inr ''mast''" "fw_files ex_fleet = []" "fw_wire ex_fleet = fresh_wire"
    "fw_out ex_fleet = []" "fresh_wire\<lparr>w_user := ''mast''\<rparr> = fresh_wire"
    by (simp_all add: ex_args_def ex_env_def ex_fleet_def fresh_wire_def)
  moreover have "live_units 0 dead_net ex_env ex_args ex_fleet = (Inr (Some (Inr [lost])), ex_fleet\<lparr>fw_wire := s\<rparr>)"
    using g calculation
    by (simp add: live_units_def ex_parts seqM_def bindM_at on_wire_def bindD_def modifyM_def or_exit_def ret_def)
  moreover define w where "w = ex_fleet\<lparr>fw_wire := s, fw_files := [(''r.json'', records_text [lost])]\<rparr>"
  moreover obtain line where "fleet_report ex_env ex_args None [] [lost] w = (Inr 2, w\<lparr>fw_out := fw_out w @ [line]\<rparr>)"
    using lost_run [of w] by (auto simp: w_def)
  ultimately show ?thesis
    by (simp add: fleet_main_def get_units_def ex_parts seqM_def bindM_at bindD_def save_file_def modifyM_def or_exit_def ret_def)
qed

lemma saved_gather_same_report_witness:
  "\<exists>w report. fleet_main 0 dead_net ex_env (ex_args\<lparr>fa_from_json := Some ''r.json'', fa_json_out := None\<rparr>) w
     = (Inr (Some 2), w\<lparr>fw_out := [report, report]\<rparr>)"
proof -
  obtain w line where run: "fleet_main 0 dead_net ex_env ex_args ex_fleet = (Inr (Some 2), w)" and out: "fw_out w = [line]"
    using ex_run by blast
  have "fw_out w \<noteq> fw_out ex_fleet" by (simp add: out ex_fleet_def)
  from saved_gather_same_report [OF run ex_parts(7) ex_parts(8) ex_parts(9) _ this, of 0 dead_net] ex_parts(10)
  show ?thesis by (auto simp: out ex_fleet_def)
qed


end
