(* ===== verification/Focus_Check.thy ===== *)
theory Focus_Check
  imports Os_Feed Transport_Ssh
begin

text \<open>
  \<open>src/server/providers/mast-autofocus-validation/validate_autofocus_solve.py\<close>: the validation of the
  autofocus solver against focus sweeps. The analyser and the server process belong to other programs and
  are parameters, as is the arithmetic on Python's numbers. The lines that are printed are \<open>LogLine\<close> on the
  timeline, which also holds the server's start (\<open>Spawned\<close>) and end (\<open>Terminated\<close>).
\<close>

section \<open>The series\<close>

text \<open>A directory: the names of its files and its subdirectories with theirs. Names match without regard
  to case, as on Windows.\<close>

record focus_dir =
  fd_path :: string
  fd_name :: string
  fd_files :: "string list"
  fd_children :: "(string \<times> string list) list"

definition is_focus_file :: "string \<Rightarrow> bool" where
  "is_focus_file name =
     (case take_prefix ''focus'' (lower name) of
        None \<Rightarrow> False
      | Some r \<Rightarrow> (case partition_str ''.f'' r of (a, m, b) \<Rightarrow> m \<noteq> [] \<and> CHR ''t'' \<in> set b))"

definition find_focus_files :: "string \<Rightarrow> string list \<Rightarrow> string list" where
  "find_focus_files dir names = sort (map (\<lambda>n. dir @ [CHR 92] @ n) (filter is_focus_file names))"

definition child_series :: "string \<Rightarrow> string \<times> string list \<Rightarrow> (string \<times> string list) list" where
  "child_series root c =
     (let files = find_focus_files (root @ [CHR 92] @ fst c) (snd c) in if files = [] then [] else [(fst c, files)])"

definition discover_series :: "focus_dir \<Rightarrow> (string \<times> string list) list" where
  "discover_series d =
     (let own = find_focus_files (fd_path d) (fd_files d) in
      if own \<noteq> [] then [(fd_name d, own)]
      else concat (map (child_series (fd_path d)) (sort_key (\<lambda>c. lower (fst c)) (fd_children d))))"

section \<open>One series\<close>

record focus_result =
  fr_has_solution :: bool
  fr_best_position :: json
  fr_star_diameter :: json
  fr_tolerance :: json
  fr_errors :: json

text \<open>\<open>status\<close> of the analyser: its result and its last message.\<close>

record focus_status =
  fs_result :: "focus_result option"
  fs_message :: json

record focus_env =
  fv_import :: "unit res"                       \<comment> \<open>of the unit's \<open>focus_analysis\<close>\<close>
  fv_analyze :: "nat \<Rightarrow> string list \<Rightarrow> focus_status res"
  fv_phase :: "pyexc \<Rightarrow> string"               \<comment> \<open>of a \<open>FocusAnalysisError\<close>\<close>
  fv_text :: "pyexc \<Rightarrow> string"
  fv_above :: "json \<Rightarrow> json \<Rightarrow> bool res"         \<comment> \<open>\<open>x > y\<close> of numbers\<close>
  fv_distance :: "json \<Rightarrow> json \<Rightarrow> json res"      \<comment> \<open>\<open>abs(x - y)\<close>\<close>
  fv_ps3cli :: "string option res"
  fv_catalog :: "string option res"
  fv_launch :: "nat \<Rightarrow> unit res"
  fv_stops :: "nat \<Rightarrow> bool"                     \<comment> \<open>the server ends within ten seconds of being told to\<close>

definition judge_tolerance :: "focus_env \<Rightarrow> json \<Rightarrow> focus_result \<Rightarrow> string list res" where
  "judge_tolerance V e r =
     bind_res (jget e ''max_tolerance'') (\<lambda>max_tol.
     if max_tol = JNull then Inr []
     else
       bind_res (if fr_tolerance r = JNull then Inr True else fv_above V (fr_tolerance r) max_tol) (\<lambda>bad.
       Inr (if bad then [''  FAIL: tolerance '' @ py_str (fr_tolerance r) @ '' exceeds max_tolerance '' @ py_str max_tol] else [])))"

text \<open>Failed, and the line about the position.\<close>

definition judge_position :: "focus_env \<Rightarrow> json \<Rightarrow> focus_result \<Rightarrow> (bool \<times> string list) res" where
  "judge_position V e r =
     bind_res (jget e ''best_focus_position'') (\<lambda>want.
     bind_res (jget_default e ''position_slop'' (JInt 0)) (\<lambda>slop.
     if want = JNull \<or> fr_best_position r = JNull then Inr (False, [])
     else
       bind_res (fv_distance V (fr_best_position r) want) (\<lambda>delta.
       bind_res (fv_above V delta slop) (\<lambda>off.
       Inr (off,
         [if off then ''  FAIL: best position '' @ py_str (fr_best_position r) @ '' off from '' @ py_str want @ '' by ''
                        @ py_str delta @ '' (> '' @ py_str slop @ '')''
          else ''  position within '' @ py_str slop @ '' of expected '' @ py_str want @ '' (off by '' @ py_str delta @ '')''])))))"

definition expect_solution :: "json \<Rightarrow> bool res" where
  "expect_solution e = bind_res (jget_default e ''expect_solution'' (JBool True)) (\<lambda>v. Inr (truthy v))"

definition judge_solved :: "focus_env \<Rightarrow> json \<Rightarrow> focus_result \<Rightarrow> (bool \<times> string list) res" where
  "judge_solved V e r =
     (if \<not> truthy e then Inr (True, [''  (no expected.json entry for this series -- solution-only check)''])
      else
        bind_res (judge_tolerance V e r) (\<lambda>tol.
        bind_res (judge_position V e r) (\<lambda>(off, pos).
        Inr (tol = [] \<and> \<not> off, tol @ pos))))"

text \<open>The verdict on what the analyser returned, with its lines.\<close>

definition judge_result :: "focus_env \<Rightarrow> json \<Rightarrow> string \<Rightarrow> focus_result \<Rightarrow> (bool \<times> string list) res" where
  "judge_result V expected name r =
     bind_res (jget_default expected name (JObj [])) (\<lambda>e.
     bind_res (expect_solution e) (\<lambda>want.
     if \<not> want then
       Inr (if fr_has_solution r
            then (False, [''  FAIL: expected no solution but got best='' @ py_str (fr_best_position r)])
            else (True, [''  PASS (analyser ran and correctly found no solution)'']))
     else if \<not> fr_has_solution r then Inr (False, [''  FAIL: no solution (errors='' @ py_str (fr_errors r) @ '')''])
     else
       bind_res (judge_solved V e r) (\<lambda>(ok, ls).
       Inr (ok,
         [''  solved: best_focus_position='' @ py_str (fr_best_position r) @ '', best_focus_star_diameter=''
            @ py_str (fr_star_diameter r) @ '', tolerance='' @ py_str (fr_tolerance r)]
         @ ls @ [if ok then ''  PASS'' else ''  FAIL'']))))"

definition focus_analysis_error :: "pyexc \<Rightarrow> bool" where
  "focus_analysis_error e \<longleftrightarrow> is_class [''FocusAnalysisError''] e"

definition print_lines :: "string list \<Rightarrow> unit net_eff" where
  "print_lines ls = forM ls log_line"

definition validate_series :: "net \<Rightarrow> focus_env \<Rightarrow> json \<Rightarrow> string \<times> string list \<Rightarrow> bool net_eff" where
  "validate_series N V expected series =
     (case series of (name, files) \<Rightarrow>
      seqM (liftR (fv_import V))
     (seqM (print_lines ([ [CHR 10] @ ''=== series '' @ [CHR 39] @ name @ [CHR 39] @ '' ('' @ nat_str (length files) @ '' images) ===''] @ map (\<lambda>f. ''    '' @ f) files))
     (bindM (attempt (bindM (query N (\<lambda>n. fv_analyze V n files)) liftR)) (\<lambda>got.
      case got of
        Inl e \<Rightarrow>
          seqM (print_lines [if focus_analysis_error e
                  then ''  FAIL: analyser error (phase='' @ fv_phase V e @ ''): '' @ fv_text V e
                  else ''  FAIL: '' @ exc_name e @ '': '' @ fv_text V e]) (ret False)
      | Inr status \<Rightarrow>
          (case fs_result status of
             None \<Rightarrow> seqM (print_lines [''  FAIL: empty analysis_result (last_log_message='' @ py_repr (fs_message status) @ '')''])
                          (ret False)
           | Some r \<Rightarrow>
               bindM (liftR (judge_result V expected name r)) (\<lambda>(ok, ls). seqM (print_lines ls) (ret ok)))))))"

section \<open>The server\<close>

definition wait_port_body :: "net \<Rightarrow> string \<Rightarrow> nat \<Rightarrow> int \<Rightarrow> unit \<Rightarrow> (unit + bool) net_eff" where
  "wait_port_body N host port deadline u =
     bindM (clock N) (\<lambda>now.
     if now < deadline
     then bindM (query N (\<lambda>n. n_tcp N n host port)) (\<lambda>up.
          if up then ret (Inr True) else seqM (pause (ns div 4)) (ret (Inl ())))
     else ret (Inr False))"

definition port_fuel :: "int \<Rightarrow> nat" where
  "port_fuel timeout_ns = Suc (nat (timeout_ns div (ns div 4) + 1))"

definition wait_for_port :: "net \<Rightarrow> string \<Rightarrow> nat \<Rightarrow> int \<Rightarrow> bool net_eff" where
  "wait_for_port N host port timeout_ns =
     bindM (clock N) (\<lambda>now. loop_for (port_fuel timeout_ns) (wait_port_body N host port (now + timeout_ns)) ())"

lemma wait_port_body_goes_on:
  "going T (\<lambda>r s'. T + ns div 4 \<le> w_now s' \<and> T < deadline) (wait_port_body N host port deadline u)"
  unfolding wait_port_body_def by (intro going_clock going_if going_bind goings going_seq timely) auto

interpretation server_port: timed_loop "wait_port_body N host port deadline" w_now "ns div 4" deadline "\<lambda>_. True"
  for N host port deadline
  by unfold_locales (auto dest!: goingD [OF wait_port_body_goes_on] simp: ns_def)

definition server_command :: "nat \<Rightarrow> string \<Rightarrow> string \<Rightarrow> string list" where
  "server_command port ps3dir catalog =
     [ps3dir @ [CHR 92] @ ''ps3cli.exe'', ''--server'', ''--port='' @ nat_str port, ''--root-path='' @ catalog]"

definition start_ps3cli_server :: "net \<Rightarrow> focus_env \<Rightarrow> nat \<Rightarrow> unit net_eff" where
  "start_ps3cli_server N V port =
     bindM (liftR (fv_ps3cli V)) (\<lambda>dir.
     case dir of
       None \<Rightarrow> raise RuntimeError
     | Some ps3dir \<Rightarrow>
         bindM (liftR (fv_catalog V)) (\<lambda>cat.
         case cat of
           None \<Rightarrow> raise RuntimeError
         | Some catalog \<Rightarrow>
             (let cmd = join '' '' (server_command port ps3dir catalog) in
              seqM (print_lines [''  launching: '' @ cmd])
                   (acquire N (\<lambda>u. Spawned (server_command port ps3dir catalog)) (fv_launch V)))))"

text \<open>\<open>terminate\<close>, and \<open>kill\<close> after ten seconds; either way the server is gone.\<close>

definition stop_server :: "net \<Rightarrow> focus_env \<Rightarrow> unit net_eff" where
  "stop_server N V =
     seqM (print_lines [[CHR 10] @ ''terminating throwaway ps3cli --server''])
     (bindM (query N (fv_stops V)) (\<lambda>ended.
      seqM (whenM (\<not> ended) (pause (10 * ns))) (emit (Terminated ''ps3cli''))))"

section \<open>The command\<close>

record focus_args =
  fg_expected :: "string option"            \<comment> \<open>the text of the file, when there is one\<close>
  fg_host :: string
  fg_port :: nat
  fg_start_server :: bool
  fg_server_wait :: "int \<times> string"

definition load_expected :: "string option \<Rightarrow> json net_eff" where
  "load_expected t =
     (case t of
        None \<Rightarrow> ret (JObj [])
      | Some text \<Rightarrow>
          bindM (liftR (bind_res (json_loads text) (\<lambda>e. bind_res (jiter e) (\<lambda>ks. Inr (e, ks))))) (\<lambda>(e, ks).
          seqM (print_lines [''loaded expectations for: '' @ py_repr (JList (sort_key py_str ks))]) (ret e)))"

fun validate_all :: "net \<Rightarrow> focus_env \<Rightarrow> json \<Rightarrow> (string \<times> string list) list \<Rightarrow> bool list net_eff" where
  "validate_all N V expected [] = ret []"
| "validate_all N V expected (s # series) =
     bindM (validate_series N V expected s) (\<lambda>ok. bindM (validate_all N V expected series) (\<lambda>oks. ret (ok # oks)))"

definition run_series :: "net \<Rightarrow> focus_env \<Rightarrow> focus_args \<Rightarrow> json \<Rightarrow> (string \<times> string list) list \<Rightarrow> bool list option net_eff" where
  "run_series N V A expected series =
     bindM (wait_for_port N (fg_host A) (fg_port A) (fst (fg_server_wait A))) (\<lambda>up.
     if \<not> up
     then seqM (print_lines [''ERROR: ps3cli server not reachable at '' @ fg_host A @ '':'' @ nat_str (fg_port A)
                  @ '' within '' @ snd (fg_server_wait A) @ ''s (is the unit app or --start-server running?)'']) (ret None)
     else bindM (validate_all N V expected series) (\<lambda>oks. ret (Some oks)))"

text \<open>The \<open>try\<close> block with its \<open>finally\<close>: the server is stopped when it was started.\<close>

definition with_server :: "net \<Rightarrow> focus_env \<Rightarrow> focus_args \<Rightarrow> 'a net_eff \<Rightarrow> 'a net_eff" where
  "with_server N V A m =
     (if fg_start_server A
      then seqM (print_lines [''starting ps3cli --server ...''])
          (seqM (start_ps3cli_server N V (fg_port A)) (finallyM m (stop_server N V)))
      else m)"

definition focus_main :: "net \<Rightarrow> focus_env \<Rightarrow> focus_args \<Rightarrow> string \<Rightarrow> focus_dir option \<Rightarrow> int net_eff" where
  "focus_main N V A fits_dir d =
     (case d of
        None \<Rightarrow> seqM (print_lines [''ERROR: fits dir not found: '' @ fits_dir]) (ret 2)
      | Some root \<Rightarrow>
          (let series = discover_series root in
           if series = [] then seqM (print_lines [''ERROR: no FOCUS*.fits series found under '' @ fits_dir]) (ret 2)
           else
             bindM (load_expected (fg_expected A)) (\<lambda>expected.
             bindM (with_server N V A (run_series N V A expected series)) (\<lambda>results.
             case results of
               None \<Rightarrow> ret 2
             | Some oks \<Rightarrow>
                 (let passed = length (filter (\<lambda>ok. ok) oks) in
                  seqM (print_lines [[CHR 10] @ ''==== '' @ nat_str passed @ ''/'' @ nat_str (length oks) @ '' series passed ====''])
                       (ret (if passed = length oks then 0 else 1)))))))"

end
