(* ===== verification/Transport_Gives.thy ===== *)
theory Transport_Gives
  imports Transport_Net
begin

text \<open>
  What a program over the wire returns from every state: always the same value, always some value, always
  the same exception. Rules for a symbolic run of a program whose answers are known.
\<close>

text \<open>Programs that return the same value from every state.\<close>

definition gives :: "'a net_eff \<Rightarrow> 'a \<Rightarrow> bool" where
  "gives m x \<longleftrightarrow> (\<forall>s. fst (m s) = Inr x)"

named_theorems giving \<open>rules for what a program returns from every state\<close>

lemma gives_run: "gives m x \<Longrightarrow> \<exists>s'. m s = (Inr x, s')"
  by (metis gives_def prod.collapse)

lemma gives_bind [giving]: "gives m x \<Longrightarrow> gives (f x) y \<Longrightarrow> gives (bindM m f) y"
  by (simp add: gives_def bindM_def split: prod.splits sum.splits) (metis fst_conv sum.inject(2) sum.distinct(1))

lemma gives_seq [giving]: "gives m u \<Longrightarrow> gives k y \<Longrightarrow> gives (seqM m k) y"
  unfolding seqM_def by (rule gives_bind)

lemma gives_finally [giving]: "gives m x \<Longrightarrow> gives k u \<Longrightarrow> gives (finallyM m k) x"
  by (simp add: gives_def finallyM_def split: prod.splits sum.splits) (metis fst_conv sum.distinct(1))

lemma gives_attempt [giving]: "gives m x \<Longrightarrow> gives (attempt m) (Inr x)"
  unfolding attempt_def
  by (simp add: gives_def catchM_def bindM_def ret_def split: prod.splits sum.splits) (metis fst_conv sum.inject(2) sum.distinct(1))

lemma gives_query [giving]: "(\<And>n. q n = x) \<Longrightarrow> gives (query N q) x"
  by (simp add: gives_def query_def)

lemma gives_ret [giving]: "gives (ret x) x" and gives_lift [giving]: "r = Inr x \<Longrightarrow> gives (liftR r) x" and gives_emit [giving]: "gives (emit a) ()"
  by (simp_all add: gives_def ret_def liftR_def emit_def)

text \<open>Programs that always return, with a value of which something is known; and programs whose exceptions
  \<open>except Exception\<close> catches.\<close>

definition ends :: "('a \<Rightarrow> bool) \<Rightarrow> 'a net_eff \<Rightarrow> bool" where
  "ends Q m \<longleftrightarrow> (\<forall>s. \<exists>x s'. m s = (Inr x, s') \<and> Q x)"

definition civil :: "'a net_eff \<Rightarrow> bool" where
  "civil m \<longleftrightarrow> (\<forall>s e. fst (m s) = Inl e \<longrightarrow> is_caught e)"

lemma gives_ends: "gives m x \<Longrightarrow> Q x \<Longrightarrow> ends Q m"
  unfolding gives_def ends_def by (metis prod.collapse)

lemma ends_gives: "ends (\<lambda>y. y = x) m \<Longrightarrow> gives m x"
  unfolding gives_def ends_def by (metis fst_conv)

lemma ends_bind: "ends R m \<Longrightarrow> (\<And>a. R a \<Longrightarrow> ends Q (f a)) \<Longrightarrow> ends Q (bindM m f)"
  unfolding ends_def bindM_Inr_iff by blast

lemma ends_seq: "ends R m \<Longrightarrow> ends Q n \<Longrightarrow> ends Q (seqM m n)"
  unfolding seqM_def by (rule ends_bind)

lemma ends_ret: "Q x \<Longrightarrow> ends Q (ret x)" and ends_query: "(\<And>n. P (q n)) \<Longrightarrow> ends P (query N q)"
  by (simp_all add: ends_def ret_def query_def)

lemma ends_simple [intro]:
  "ends (\<lambda>_. True) (clock N)" "ends (\<lambda>_. True) (emit a)" "ends (\<lambda>_. True) (log_line l)" "ends (\<lambda>_. True) (query N q)"
  "ends (\<lambda>_. True) (modifyM g)" "ends (\<lambda>_. True) (ret x)"
  by (simp_all add: ends_def clock_def seqM_def bindM_def query_def gets_def emit_def log_line_def modifyM_def ret_def)

lemma ends_forM: "(\<And>x. ends (\<lambda>_. True) (f x)) \<Longrightarrow> ends (\<lambda>_. True) (forM xs f)"
  by (induction xs) (auto intro: ends_seq)

lemma civil_attempt: "civil m \<Longrightarrow> ends (\<lambda>_. True) (attempt m)"
proof -
  assume m: "civil m"
  have "\<exists>r s'. attempt m s = (Inr r, s')" for s
  proof (cases "m s")
    case (Pair r t)
    then show ?thesis using m
      by (cases r) (auto simp: civil_def attempt_def catchM_def bindM_def ret_def dest: spec [where x = s])
  qed
  then show ?thesis by (simp add: ends_def)
qed

lemma civil_bind: "civil m \<Longrightarrow> (\<And>a. civil (f a)) \<Longrightarrow> civil (bindM m f)"
  by (auto simp: civil_def bindM_def split: prod.splits sum.splits) (metis fst_conv)+

lemma civil_seq: "civil m \<Longrightarrow> civil n \<Longrightarrow> civil (seqM m n)"
  unfolding seqM_def by (rule civil_bind)

lemma civil_ends: "ends Q m \<Longrightarrow> civil m"
  unfolding civil_def ends_def by (metis fst_conv sum.distinct(1))

lemma civil_raise: "is_caught e \<Longrightarrow> civil (raise e)" and civil_lift: "(\<And>e. r = Inl e \<Longrightarrow> is_caught e) \<Longrightarrow> civil (liftR r)"
  by (auto simp: civil_def raise_def liftR_def split: sum.splits)

lemma civil_call: "(\<And>n e. q n = Inl e \<Longrightarrow> is_caught e) \<Longrightarrow> civil (call N a q)"
  unfolding call_def
  by (rule civil_seq [OF civil_ends [OF ends_simple(2)]])
     (auto simp: civil_def bindM_def query_def liftR_def split: sum.splits)

lemma civil_finally: "civil m \<Longrightarrow> civil k \<Longrightarrow> civil (finallyM m k)"
  by (auto simp: civil_def finallyM_def split: prod.splits sum.splits) (metis fst_conv)+

end
