(* ===== verification/Focus_Props.thy ===== *)
theory Focus_Props
  imports Focus_Check Fleet_Gather Transport_Props Transport_Gives
begin

text \<open>
  The autofocus validation passes only when every series does, its wait for the server ends, and a server
  that it started is always stopped.
\<close>

section \<open>The wait for the server\<close>

lemma port_answers: "wait_for_port N host port t s \<noteq> (Inl RuntimeError, s')"
proof -
  let ?body = "wait_port_body N host port (w_now (snd (clock N s)) + t)" and ?s = "snd (clock N s)"
  have run: "wait_for_port N host port t s = loop_for (port_fuel t) ?body () ?s"
    unfolding wait_for_port_def bindM_def [of "clock N"] by (subst clock_run) simp
  have "x \<le> (x div d + 1) * d" if "0 < d" for x d :: int
    using div_mult_mod_eq [of x d] pos_mod_bound [OF that, of x] by (simp only: distrib_right mult_1)
  from this [of "ns div 4" t] have "t \<le> (t div (ns div 4) + 1) * (ns div 4)" by (simp add: ns_def)
  then have "w_now ?s + t - w_now ?s \<le> int (nat (t div (ns div 4) + 1)) * (ns div 4)"
    by (cases "0 \<le> t div (ns div 4) + 1") (auto simp: ns_def)
  from server_port.ends [OF _ this, of "port_fuel t" N host port] have "fst (loop_within (port_fuel t) ?body () ?s) \<noteq> Inr None"
    by (simp add: port_fuel_def)
  moreover have "fst (loop_within n ?body u v) \<noteq> Inl e" for n u v e
    by (induction n arbitrary: u v)
       (auto simp: wait_port_body_def bindM_def clock_def seqM_def query_def pause_def emit_def split: sum.splits prod.splits)
  ultimately show ?thesis
    unfolding run loop_for_def by (cases "loop_within (port_fuel t) ?body () ?s") (auto simp: bindM_def split: sum.splits option.splits, metis fst_conv)
qed

section \<open>What a pass means\<close>

lemma print_lines_run: "\<exists>s'. print_lines ls s = (Inr (), s')"
  unfolding print_lines_def
  by (induction ls arbitrary: s) (simp_all add: seqM_def bindM_def log_line_def emit_def)

definition accepted :: "focus_env \<Rightarrow> json \<Rightarrow> string \<times> string list \<Rightarrow> bool" where
  "accepted V expected series \<longleftrightarrow>
     (\<exists>n status r ls. fv_analyze V n (snd series) = Inr status \<and> fs_result status = Some r
        \<and> judge_result V expected (fst series) r = Inr (True, ls))"

lemma series_passes:
  assumes "validate_series N V expected (name, files) s = (Inr True, s')"
  shows "accepted V expected (name, files)"
proof -
  from assms obtain got t t' where got: "attempt (bindM (query N (\<lambda>n. fv_analyze V n files)) liftR) t = (Inr got, t')"
    and rest: "(case got of Inl e \<Rightarrow>
          seqM (print_lines [if focus_analysis_error e
                  then ''  FAIL: analyser error (phase='' @ fv_phase V e @ ''): '' @ fv_text V e
                  else ''  FAIL: '' @ exc_name e @ '': '' @ fv_text V e]) (ret False)
      | Inr status \<Rightarrow>
          (case fs_result status of
             None \<Rightarrow> seqM (print_lines [''  FAIL: empty analysis_result (last_log_message='' @ py_repr (fs_message status) @ '')''])
                          (ret False)
           | Some r \<Rightarrow>
               bindM (liftR (judge_result V expected name r)) (\<lambda>(ok, ls). seqM (print_lines ls) (ret ok)))) t' = (Inr True, s')"
    unfolding validate_series_def prod.case seqM_Inr_iff bindM_Inr_iff by blast
  from rest obtain status r ls where s: "got = Inr status" "fs_result status = Some r" "judge_result V expected name r = Inr (True, ls)"
    by (auto simp: seqM_Inr_iff split: sum.splits option.splits prod.splits)
  then have "fv_analyze V (w_tick t) files = Inr status"
    using got by (auto simp: attempt_def catchM_def bindM_def query_def liftR_def split: sum.splits if_splits)
  then show ?thesis using s by (auto simp: accepted_def)
qed

lemma all_series: "validate_all N V expected series s = (Inr oks, s')
    \<Longrightarrow> length oks = length series \<and> (list_all (\<lambda>ok. ok) oks \<longrightarrow> list_all (accepted V expected) series)"
proof (induction series arbitrary: oks s)
  case (Cons x series)
  then show ?case by (cases x) (auto simp: bindM_Inr_iff dest!: series_passes)
qed simp

lemma finally_result: "finallyM m fin s = (Inr x, s') \<Longrightarrow> \<exists>t. m s = (Inr x, t)"
  by (cases "m s") (auto simp: finallyM_def split: prod.splits sum.splits)

lemma with_server_result: "with_server N V A m s = (Inr x, s') \<Longrightarrow> \<exists>t t'. m t = (Inr x, t')"
  by (auto simp: with_server_def seqM_Inr_iff dest!: finally_result split: if_splits)

lemma all_passed: "length (filter P xs) = length xs \<Longrightarrow> list_all P xs"
proof (induction xs)
  case (Cons x xs)
  have "length (filter P xs) \<le> length xs" by (rule length_filter_le)
  with Cons show ?case by (cases "P x") auto
qed simp

text \<open>The autofocus validation ends with code 0 only when there is at least one series and every series
  that was found was accepted: the analyser returned a result for its files and the verdict on it, with
  what the series is expected to give, was a pass.\<close>

theorem focus_passes:
  assumes "focus_main N V A p d s = (Inr 0, s')"
  shows "\<exists>root expected t t'. d = Some root \<and> discover_series root \<noteq> [] \<and> load_expected (fg_expected A) t = (Inr expected, t')
    \<and> list_all (accepted V expected) (discover_series root)"
proof -
  from assms obtain root where d: "d = Some root" and ne: "discover_series root \<noteq> []"
    by (auto simp: focus_main_def seqM_Inr_iff Let_def split: option.splits if_splits)
  from assms obtain expected t' u' found where e: "load_expected (fg_expected A) s = (Inr expected, t')"
    and r: "with_server N V A (run_series N V A expected (discover_series root)) t' = (Inr found, u')"
    and rest: "(case found of None \<Rightarrow> ret 2
       | Some oks \<Rightarrow>
            seqM (print_lines [[CHR 10] @ ''==== '' @ nat_str (length (filter (\<lambda>ok. ok) oks)) @ ''/'' @ nat_str (length oks) @ '' series passed ====''])
                 (ret (if length (filter (\<lambda>ok. ok) oks) = length oks then 0 else 1))) u' = (Inr (0 :: int), s')"
    unfolding focus_main_def d option.case Let_def if_not_P [OF ne] bindM_Inr_iff by blast
  from rest obtain results where found: "found = Some results" and "list_all (\<lambda>ok. ok) results"
    by (auto simp: Let_def seqM_Inr_iff intro!: all_passed split: option.splits if_splits)
  moreover obtain v v' where "validate_all N V expected (discover_series root) v = (Inr results, v')"
    using with_server_result [OF r] found by (auto simp: run_series_def bindM_Inr_iff seqM_Inr_iff split: if_splits)
  ultimately show ?thesis using d ne e all_series by blast
qed

definition ex_sweep :: focus_dir where
  "ex_sweep = \<lparr>fd_path = ''s'', fd_name = ''s'', fd_files = [''FOCUS1.fits'', ''notes.txt''], fd_children = []\<rparr>"

definition ex_found :: focus_result where
  "ex_found = \<lparr>fr_has_solution = True, fr_best_position = JInt 1200, fr_star_diameter = JInt 3, fr_tolerance = JInt 10,
     fr_errors = JList []\<rparr>"

definition ex_focus :: focus_env where
  "ex_focus = \<lparr>fv_import = Inr (), fv_analyze = (\<lambda>n fs. Inr \<lparr>fs_result = Some ex_found, fs_message = JNull\<rparr>),
     fv_phase = exc_name, fv_text = exc_name, fv_above = (\<lambda>x y. case (x, y) of (JInt a, JInt b) \<Rightarrow> Inr (a > b) | _ \<Rightarrow> Inl TypeError),
     fv_distance = (\<lambda>x y. case (x, y) of (JInt a, JInt b) \<Rightarrow> Inr (JInt \<bar>a - b\<bar>) | _ \<Rightarrow> Inl TypeError),
     fv_ps3cli = Inr (Some ''p''), fv_catalog = Inr (Some ''c''), fv_launch = (\<lambda>n. Inr ()), fv_stops = (\<lambda>n. True)\<rparr>"

definition ex_expected :: json where
  "ex_expected = JObj [(''s'', JObj [(''best_focus_position'', JInt 1195), (''position_slop'', JInt 20)])]"

definition ex_focus_args :: focus_args where
  "ex_focus_args = \<lparr>fg_expected = Some (json_dumps ex_expected),
     fg_host = ''127.0.0.1'', fg_port = 9, fg_start_server = True, fg_server_wait = (30 * ns, ''30'')\<rparr>"

definition quick_net :: net where
  "quick_net = quiet_net\<lparr>n_elapsed := \<lambda>n. 1\<rparr>"

lemma gives_print [giving]: "gives (print_lines ls) ()"
  using print_lines_run [of ls] by (auto simp: gives_def) (metis fst_conv)

lemma gives_port:
  assumes "\<And>n. int (n_elapsed N n) < t" and "\<And>n. n_tcp N n host port"
  shows "gives (wait_for_port N host port t) True"
  using assms
  by (simp add: gives_def wait_for_port_def wait_port_body_def loop_for_def port_fuel_def bindM_def clock_def query_def emit_def seqM_def ret_def)

lemma ex_series: "discover_series ex_sweep = [(''s'', [''s'' @ [CHR 92] @ ''FOCUS1.fits''])]"
  by code_simp

lemma ex_judged: "\<exists>ls. judge_result ex_focus ex_expected ''s'' ex_found = Inr (True, ls)"
  by (simp add: judge_result_def judge_solved_def judge_tolerance_def judge_position_def expect_solution_def
      ex_focus_def ex_expected_def ex_found_def field_def)

lemma ex_validated: "gives (validate_all N ex_focus ex_expected [(''s'', files)]) [True]"
proof -
  obtain ls where ls: "judge_result ex_focus ex_expected ''s'' ex_found = Inr (True, ls)"
    using ex_judged by blast
  have analyzed: "fv_analyze ex_focus n fs = Inr \<lparr>fs_result = Some ex_found, fs_message = JNull\<rparr>" for n fs
    by (simp add: ex_focus_def)
  have imported: "fv_import ex_focus = Inr ()" by (simp add: ex_focus_def)
  have "gives (validate_series N ex_focus ex_expected (''s'', files)) True"
    unfolding validate_series_def prod.case
    by (rule giving ls imported | simp add: analyzed | simp)+
  then show ?thesis by (auto intro!: giving)
qed

lemma ex_loaded: "gives (load_expected (fg_expected ex_focus_args)) ex_expected"
proof -
  have "json_loads (json_dumps ex_expected) = Inr ex_expected"
    by (rule json_round_trip) (simp add: ex_expected_def)
  then have "bind_res (json_loads (json_dumps ex_expected)) (\<lambda>e. bind_res (jiter e) (\<lambda>ks. Inr (e, ks)))
      = Inr (ex_expected, [JStr ''s''])"
    by (simp add: ex_expected_def)
  then show ?thesis
    unfolding load_expected_def ex_focus_args_def by (auto intro!: giving)
qed

lemma ex_server: "gives (start_ps3cli_server N ex_focus port) ()" "gives (stop_server N ex_focus) ()"
  by (auto simp: start_ps3cli_server_def stop_server_def ex_focus_def Let_def acquire_def whenM_def intro!: giving)

lemma ex_focus_run: "gives (focus_main quick_net ex_focus ex_focus_args ''s'' (Some ex_sweep)) 0"
proof -
  have "gives (wait_for_port quick_net (fg_host ex_focus_args) (fg_port ex_focus_args) (fst (fg_server_wait ex_focus_args))) True"
    by (rule gives_port) (simp_all add: quick_net_def quiet_net_def ex_focus_args_def ns_def)
  then have "gives (run_series quick_net ex_focus ex_focus_args ex_expected (discover_series ex_sweep)) (Some [True])"
    unfolding run_series_def ex_series by (rule gives_bind) (simp only: not_True_eq_False if_False, rule gives_bind [OF ex_validated gives_ret])
  then have "gives (with_server quick_net ex_focus ex_focus_args (run_series quick_net ex_focus ex_focus_args ex_expected (discover_series ex_sweep)))
      (Some [True])"
    unfolding with_server_def by (auto intro!: giving ex_server)
  then show ?thesis
    unfolding focus_main_def option.case Let_def
    by (auto simp: ex_series intro!: giving ex_loaded)
qed

lemma focus_passes_witness: "\<exists>expected. discover_series ex_sweep \<noteq> [] \<and> list_all (accepted ex_focus expected) (discover_series ex_sweep)"
proof -
  obtain w where "focus_main quick_net ex_focus ex_focus_args ''s'' (Some ex_sweep) fresh_wire = (Inr 0, w)"
    using gives_run [OF ex_focus_run] by blast
  from focus_passes [OF this] show ?thesis by auto
qed

section \<open>The server is stopped\<close>

text \<open>The servers that were started and not stopped.\<close>

fun running :: "wact list \<Rightarrow> int" where
  "running [] = 0"
| "running (a # as) = (case a of Spawned c \<Rightarrow> 1 | Terminated x \<Rightarrow> -1 | _ \<Rightarrow> 0) + running as"

lemma running_append [simp]: "running (xs @ ys) = running xs + running ys"
  by (induction xs) auto

abbreviation quiet_acts :: "wact set" where
  "quiet_acts \<equiv> {a. running [a] = 0}"

lemma running_same: "only_acts quiet_acts m \<Longrightarrow> m s = (r, s') \<Longrightarrow> running (w_acts s') = running (w_acts s)"
proof -
  assume "only_acts quiet_acts m" "m s = (r, s')"
  then obtain as where "w_acts s' = w_acts s @ as" "set as \<subseteq> quiet_acts"
    by (auto dest!: only_actsD simp: grown_def)
  moreover have "set as \<subseteq> quiet_acts \<Longrightarrow> running as = 0" for as by (induction as) auto
  ultimately show ?thesis by simp
qed

lemma quiet_parts [acts]: "only_acts quiet_acts (print_lines ls)" "only_acts quiet_acts (load_expected t)"
  "only_acts quiet_acts (wait_for_port N host port u)" "only_acts quiet_acts (validate_series N V e x)"
  unfolding print_lines_def load_expected_def wait_for_port_def wait_port_body_def validate_series_def clock_def log_line_def loop_for_def
  by (intro acts; simp)+

lemma quiet_validate [acts]: "only_acts quiet_acts (validate_all N V e series)"
  by (induction series; simp only: validate_all.simps; intro acts; simp)

lemma quiet_series [acts]: "only_acts quiet_acts (run_series N V A e series)"
  unfolding run_series_def by (intro acts)

lemma server_started:
  assumes "start_ps3cli_server N V port s = (r, s')"
  shows "running (w_acts s') = running (w_acts s) + (case r of Inr u \<Rightarrow> 1 | Inl e \<Rightarrow> 0)"
proof -
  have "running (w_acts t') = running (w_acts t) + (case q of Inr u \<Rightarrow> 1 | Inl e \<Rightarrow> 0)"
    if "acquire N (\<lambda>u. Spawned c) (fv_launch V) t = (q, t')" for t q t' c
    using that by (auto simp: acquire_def bindM_def query_def liftR_def seqM_def emit_def ret_def raise_def split: sum.splits)
  note start = this
  show ?thesis
  proof (cases "\<exists>d c. fv_ps3cli V = Inr (Some d) \<and> fv_catalog V = Inr (Some c)")
    case True
    then obtain d c where d: "fv_ps3cli V = Inr (Some d)" "fv_catalog V = Inr (Some c)" by blast
    let ?cmd = "join '' '' (server_command port d c)"
    obtain t where t: "print_lines [''  launching: '' @ ?cmd] s = (Inr (), t)" using print_lines_run by blast
    then have "acquire N (\<lambda>u. Spawned (server_command port d c)) (fv_launch V) t = (r, s')"
      using assms d by (simp add: start_ps3cli_server_def Let_def seqM_def bindM_def [of "print_lines ls" for ls])
    from start [OF this] show ?thesis using running_same [OF quiet_parts(1) t] by simp
  next
    case False
    then show ?thesis using assms by (auto simp: start_ps3cli_server_def raise_def split: sum.splits option.splits)
  qed
qed

lemma server_stopped: "\<exists>s'. stop_server N V s = (Inr (), s') \<and> running (w_acts s') = running (w_acts s) - 1"
proof -
  obtain t where t: "print_lines [[CHR 10] @ ''terminating throwaway ps3cli --server''] s = (Inr (), t)"
    using print_lines_run by blast
  then show ?thesis
    using running_same [OF quiet_parts(1) t]
    by (simp add: stop_server_def seqM_def bindM_def query_def whenM_def pause_def emit_def)
qed

lemma server_balanced:
  assumes m: "only_acts quiet_acts m" and run: "with_server N V A m s = (r, s')"
  shows "running (w_acts s') = running (w_acts s)"
proof (cases "fg_start_server A")
  case False
  then show ?thesis using run running_same [OF m] by (simp add: with_server_def)
next
  case True
  obtain t where t: "print_lines [''starting ps3cli --server ...''] s = (Inr (), t)"
    using print_lines_run by blast
  obtain q u where q: "start_ps3cli_server N V (fg_port A) t = (q, u)" by fastforce
  obtain x v where x: "m u = (x, v)" by fastforce
  obtain w where w: "stop_server N V v = (Inr (), w)" "running (w_acts w) = running (w_acts v) - 1"
    using server_stopped by blast
  have "s' = (case q of Inr y \<Rightarrow> w | Inl e \<Rightarrow> u)"
    using run True t q x w(1) by (auto simp: with_server_def seqM_def bindM_def finallyM_def split: sum.splits)
  then show ?thesis
    using running_same [OF quiet_parts(1) t] server_started [OF q] running_same [OF m x] w(2) by (auto split: sum.splits)
qed

text \<open>C31: Whatever the analyser, the port and the files do, the validation leaves no server behind: each one
  it started is stopped, when an exception ends the run as well.\<close>

theorem server_always_stopped:
  "running (w_acts (snd (focus_main N V A p d s))) = running (w_acts s)"
proof -
  define I where "I w \<longleftrightarrow> running (w_acts w) = running (w_acts s)" for w :: wire
  have quiet: "keeps I m" if "only_acts quiet_acts m" for m :: "'x net_eff"
    using running_same [OF that] by (auto simp: I_def intro!: keepsI)
  have server: "keeps I (with_server N V A (run_series N V A e series))" for e series
    using server_balanced [OF quiet_series] by (auto simp: I_def intro!: keepsI)
  have printed: "keeps I (print_lines ls)" "keeps I (load_expected t)" for ls t
    by (auto intro!: quiet acts)
  have "keeps I (focus_main N V A p d)"
    unfolding focus_main_def Let_def
    by (cases d) (auto intro!: keep server printed split: option.split)
  then show ?thesis by (simp add: keeps_def I_def)
qed

end
