(* ===== verification/Provision_Cli.thy ===== *)
theory Provision_Cli
  imports Driver_Run
begin

text \<open>
  \<open>src/server/check_and_provision.py\<close>: the command of the provisioning driver. \<open>argparse\<close>'s result is
  the record of arguments with its declared defaults; a path is its text, absolute once resolved. A
  stop signal is an answer to the loop's questions, and the pause between cycles ends early with it.
\<close>

record cli_args =
  ca_repo_top :: string
  ca_unit_registry :: "string option"
  ca_vault_creds :: "string option"
  ca_modules :: string
  ca_only_hosts :: string
  ca_proxy_mode :: string
  ca_dry_run :: bool
  ca_force :: bool
  ca_test_mode :: bool
  ca_maint_window_start :: int
  ca_maint_window_end :: int
  ca_retain_runs :: int
  ca_loop :: bool
  ca_interval_seconds :: int
  ca_max_cycles :: "int option"

text \<open>The defaults; \<open>repo_top\<close> is the repository the script is in.\<close>

definition default_args :: "string \<Rightarrow> cli_args" where
  "default_args repo_top_default =
     \<lparr>ca_repo_top = repo_top_default, ca_unit_registry = None, ca_vault_creds = None, ca_modules = [], ca_only_hosts = [],
      ca_proxy_mode = ''weizmann'', ca_dry_run = False, ca_force = False, ca_test_mode = False, ca_maint_window_start = -1,
      ca_maint_window_end = -1, ca_retain_runs = 60, ca_loop = False, ca_interval_seconds = 1800, ca_max_cycles = None\<rparr>"

definition PROXY_MODES :: "string list" where "PROXY_MODES = [''weizmann'', ''direct'']"

definition items_of :: "string \<Rightarrow> string list" where
  "items_of s = filter (\<lambda>m. m \<noteq> []) (split_on (CHR '','') s)"

definition build_config :: "(string \<Rightarrow> string) \<Rightarrow> cli_args \<Rightarrow> config" where
  "build_config resolve a =
     (let top = resolve (ca_repo_top a) in
      \<lparr>repo_top = top,
       cfg_unit_registry = (case ca_unit_registry a of None \<Rightarrow> top @ ''/server/unit-registry.json'' | Some p \<Rightarrow> p),
       cfg_vault_creds = (case ca_vault_creds a of None \<Rightarrow> top @ ''/vault/creds.json'' | Some p \<Rightarrow> p),
       cfg_modules = items_of (ca_modules a), cfg_only_hosts = items_of (ca_only_hosts a), cfg_proxy_mode = ca_proxy_mode a,
       cfg_dry_run = ca_dry_run a, cfg_force = ca_force a, cfg_test_mode = ca_test_mode a,
       maint_window_start = ca_maint_window_start a, maint_window_end = ca_maint_window_end a, retain_runs = ca_retain_runs a\<rparr>)"

text \<open>\<open>main\<close>: the exit code; \<open>one\<close> runs a fresh \<open>Driver(cfg)\<close>, whose number it is told, and \<open>sleep_fn\<close>
  waits for the interval or the stop event. None when \<open>fuel\<close> cycles of a loop were not enough.\<close>

definition cli_main :: "(string \<Rightarrow> string) \<Rightarrow> (nat \<Rightarrow> bool) \<Rightarrow> (config \<Rightarrow> nat \<Rightarrow> 's \<Rightarrow> int res \<times> 's)
    \<Rightarrow> (int \<Rightarrow> 's \<Rightarrow> unit res \<times> 's) \<Rightarrow> nat \<Rightarrow> cli_args \<Rightarrow> 's \<Rightarrow> (int res \<times> 's) option" where
  "cli_main resolve stop one sleep_fn fuel a s =
     (let cfg = build_config resolve a in
      if ca_loop a
      then map_option (\<lambda>(r, s'). (map_sum id (\<lambda>_. 0) r, s'))
             (run_loop stop (one cfg) (sleep_fn (ca_interval_seconds a)) (map_option nat (ca_max_cycles a)) fuel 0 0 s)
      else Some (one cfg 0 s))"

lemma items_of_plain: "m \<in> set (items_of s) \<Longrightarrow> m \<noteq> [] \<and> CHR '','' \<notin> set m"
  using split_on_parts [of m "CHR '',''" s] by (auto simp: items_of_def)

lemma split_commas: "set s \<subseteq> {CHR '',''} \<Longrightarrow> set (split_on (CHR '','') s) \<subseteq> {[]}"
  by (induction s) (auto split: list.splits)

text \<open>A restriction without a name in it, such as a single comma, restricts nothing.\<close>

lemma empty_restriction: "set s \<subseteq> {CHR '',''} \<Longrightarrow> items_of s = []"
  using split_commas [of s] by (auto simp: items_of_def filter_empty_conv)

end
