(* ===== verification/Relay_Sync.thy ===== *)
theory Relay_Sync
  imports Relay Blobstore_Props Json_Round_Trip
begin

text \<open>
  The two ends of \<open>prov.relay\<close> put together: the contract the driver's machine relies on
  from \<open>ssh\<close> and \<open>rsync\<close> (a locale over the runner), what a successful sync then
  means for the payload the relay serves, and a runner built on the model of
  \<open>tools/blobstore.py\<close> that fulfils the contract.
\<close>

section \<open>What reaches the relay\<close>

text \<open>One blob \<open>rsync\<close> writes into the store: a new file renamed over the name.\<close>

definition put_blob :: "path \<Rightarrow> string \<times> string \<Rightarrow> fs \<Rightarrow> fs option" where
  "put_blob root = (\<lambda>(digest, bytes) s.
     let p = blob_path root digest in
     if is_dir s p \<or> list_ex (is_file s) (parents (butlast p)) then None
     else Some (s\<lparr>dirs := dirs s @ filter (\<lambda>q. q \<notin> set (dirs s)) (parents (butlast p)),
                  names := filter (\<lambda>e. fst e \<noteq> p) (names s) @ [(p, next_inode s)],
                  contents := (contents s)(next_inode s := bytes),
                  next_inode := Suc (next_inode s)\<rparr>))"

fun put_blobs :: "path \<Rightarrow> (string, string) dict \<Rightarrow> fs \<Rightarrow> fs option" where
  "put_blobs root [] s = Some s"
| "put_blobs root (b # bs) s = Option.bind (put_blob root b s) (put_blobs root bs)"

lemma put_blob_inv:
  assumes inv: "blob_inv sha root s" and good: "sha bytes = d" and put: "put_blob root (d, bytes) s = Some s'"
  shows "blob_inv sha root s'"
proof -
  let ?p = "blob_path root d"
  have c: "\<not> is_dir s ?p" "\<forall>q\<in>set (parents (butlast ?p)). \<not> is_file s q"
    and s': "s' = s\<lparr>dirs := dirs s @ filter (\<lambda>q. q \<notin> set (dirs s)) (parents (butlast ?p)),
                  names := filter (\<lambda>e. fst e \<noteq> ?p) (names s) @ [(?p, next_inode s)],
                  contents := (contents s)(next_inode s := bytes),
                  next_inode := Suc (next_inode s)\<rparr>"
    using put by (auto simp: put_blob_def Let_def list_ex_iff split: if_splits)
  let ?s1 = "s\<lparr>dirs := dirs s @ filter (\<lambda>q. q \<notin> set (dirs s)) (parents (butlast ?p))\<rparr>"
  let ?s2 = "?s1\<lparr>names := filter (\<lambda>e. fst e \<noteq> ?p) (names ?s1)\<rparr>"
  have "mkdir_p (butlast ?p) s = (Inr (), ?s1)"
    using c(2) by (auto simp: mkdir_p_def list_ex_iff)
  from keepsD [OF inv_mkdir_p inv this] have inv1: "blob_inv sha root ?s1" .
  have ok2: "fs_ok ?s2" using inv1 by (intro fs_ok_filter_names) (simp add: blob_inv_def)
  have inv2: "blob_inv sha root ?s2"
    by (rule inv_mono [OF inv1 ok2]) auto
  have np: "?p \<notin> set (parents (butlast ?p))"
    by (auto simp: parents_mem blob_path_def butlast_append dest: prefix_length_le)
  have "butlast ?p \<in> set (parents (butlast ?p))"
    by (auto simp: parents_mem blob_path_def butlast_append)
  then have dir: "is_dir ?s2 (butlast ?p)" "\<not> path_exists ?s2 ?p"
    using c(1) np by (auto simp: is_dir_def path_exists_def is_file_mem)
  have "fs_ok (?s2\<lparr>names := names ?s2 @ [(?p, next_inode s)],
                   contents := (contents s)(next_inode s := bytes), next_inode := Suc (next_inode s)\<rparr>)"
    by (rule fs_ok_add_name [OF ok2 dir(2,1)]) simp_all
  then have "fs_ok s'" by (simp add: s')
  moreover have "content_inv sha root s'"
  proof (rule content_invI)
    have fresh: "j \<noteq> next_inode s" if "(q, j) \<in> set (names s)" for q j
      using fs_ok_name(4) [OF _ that] inv by (simp add: blob_inv_def)
    show "sha (contents s' i) = last q" if "(q, i) \<in> set (names s')" "under (store_dir root) q" for q i
      using that good fresh [of q i] content_addressedD [of sha root s q i] inv
      by (auto simp: s' blob_inv_def)
    show "q = p" if "(p, i) \<in> set (names s')" "(q, i) \<in> set (names s')" "is_record root p" for p q i
      using that fresh records_privateD [of root s p i q] inv by (auto simp: s' blob_inv_def)
  qed
  ultimately show ?thesis by (simp add: blob_inv_split)
qed

lemma put_blobs_inv:
  "put_blobs root bs s = Some s' \<Longrightarrow> blob_inv sha root s \<Longrightarrow> \<forall>(d, b)\<in>set bs. sha b = d \<Longrightarrow> blob_inv sha root s'"
  by (induction root bs s rule: put_blobs.induct)
     (auto dest: put_blob_inv split: Option.bind_splits)

section \<open>The contract of the link\<close>

text \<open>The sub-command the relay's script parses out of its arguments and standard input.\<close>

definition kind_of :: "string \<Rightarrow> snapshot_kind option" where
  "kind_of k = (if k = kind_value PROVISIONING_PAYLOAD then Some PROVISIONING_PAYLOAD
                else if k = kind_value BOOTSTRAP_PAYLOAD then Some BOOTSTRAP_PAYLOAD
                else if k = kind_value WINDOWS_OS_BASELINE then Some WINDOWS_OS_BASELINE else None)"

definition parse_args :: "string list \<Rightarrow> string \<Rightarrow> command option" where
  "parse_args args stdin =
     (case args of
        [c] \<Rightarrow> (if c = ''want'' then Some (Want stdin) else None)
      | [c, o1, h] \<Rightarrow> (if c = ''assemble'' \<and> o1 = ''--host'' then Some (Assemble h stdin) else None)
      | [c, o1, k, o2, i] \<Rightarrow>
          (if c = ''snapshot'' \<and> o1 = ''--kind'' \<and> o2 = ''--id''
           then map_option (\<lambda>k. Snapshot k i stdin) (kind_of k) else None)
      | _ \<Rightarrow> None)"

definition words_ok :: "string list \<Rightarrow> bool" where
  "words_ok args \<longleftrightarrow> list_all (\<lambda>w. w \<noteq> [] \<and> CHR 32 \<notin> set w) args"

definition printed :: "string list \<Rightarrow> string" where
  "printed ls = concat (map (\<lambda>l. l @ [CHR 10]) ls)"

locale relay_link =
  fixes runner :: "fs runner" and sha :: "string \<Rightarrow> string" and cfg :: relay_config and root :: path
  assumes ship: "runner (ssh_argv (rl_relay cfg) (rl_identity cfg) ship_cmd) inp w = (Inr p, w') \<Longrightarrow>
      local_files w' = local_files w \<and> farm w' = farm w \<and> remote w' = remote w"
    and store: "parse_args args text = Some c \<Longrightarrow> words_ok args \<Longrightarrow>
      runner (ssh_argv (rl_relay cfg) (rl_identity cfg) (store_cmd (rl_relay cfg) args)) (Some text) w
        = (Inr p, w') \<Longrightarrow>
      local_files w' = local_files w \<and> farm w' = farm w
      \<and> (returncode p = 0 \<longrightarrow> (\<exists>out. blobstore_main sha root c (remote w) = (Inr out, remote w')
            \<and> rc out = 0 \<and> p_stdout p = printed (stdout out)))"
    and rsync: "runner (rsync_argv (rl_relay cfg) (rl_identity cfg) (rl_tmp cfg)) None w = (Inr p, w') \<Longrightarrow>
      local_files w' = local_files w
      \<and> (returncode p = 0 \<longrightarrow> put_blobs root (farm w) (remote w) = Some (remote w'))"
begin

lemma farm_loop:
  "forM bs farm_blob w = (Inr (), w') \<Longrightarrow>
   \<forall>(d, src)\<in>set bs. \<forall>b. map_of (local_files w) src = Some b \<longrightarrow> sha b = d \<Longrightarrow>
   \<forall>(d, b)\<in>set (farm w). sha b = d \<Longrightarrow>
   local_files w' = local_files w \<and> remote w' = remote w \<and> (\<forall>(d, b)\<in>set (farm w'). sha b = d)"
proof (induction bs arbitrary: w)
  case (Cons e bs)
  obtain d src where e: "e = (d, src)" by fastforce
  from Cons.prems(1) obtain b where b: "map_of (local_files w) src = Some b"
    and rest: "forM bs farm_blob (w\<lparr>farm := dict_set d b (farm w)\<rparr>) = (Inr (), w')"
    by (auto simp: e farm_blob_def seqM_Inr_iff split: option.splits)
  have set_dict: "set (dict_set d b xs) \<subseteq> insert (d, b) (set xs)" for xs
    by (induction d b xs rule: dict_set.induct) auto
  have "sha b = d" using Cons.prems(2) b by (simp add: e)
  then have "\<forall>(d, b)\<in>set (farm (w\<lparr>farm := dict_set d b (farm w)\<rparr>)). sha b = d"
    using Cons.prems(3) set_dict [of "farm w"] by fastforce
  with Cons.IH [OF rest] Cons.prems(2) show ?case by simp
qed simp

lemma upload_inv:
  assumes up: "upload_blobs runner cfg missing sources w = (Inr r, w')" and ok: "sr_ok r"
    and inv: "blob_inv sha root (remote w)" and farm: "farm w = []"
    and good: "\<forall>(d, src)\<in>set sources. \<forall>b. map_of (local_files w) src = Some b \<longrightarrow> sha b = d"
  shows "local_files w' = local_files w \<and> farm w' = [] \<and> blob_inv sha root (remote w')"
proof -
  let ?bs = "filter (\<lambda>(d, src). d \<in> set missing) sources"
  let ?rs = "runner (rsync_argv (rl_relay cfg) (rl_identity cfg) (rl_tmp cfg)) None"
  have len: "length ?bs = length (remdups missing)"
    using up ok by (auto simp: upload_blobs_def Let_def failed_def split: if_splits)
  then obtain p where fin: "finallyM (seqM (forM ?bs farm_blob) ?rs) (modifyM (\<lambda>w. w\<lparr>farm := []\<rparr>)) w = (Inr p, w')"
    and rc: "returncode p = 0"
    using up ok by (auto simp: upload_blobs_def Let_def bindM_Inr_iff failed_def split: if_splits)
  then obtain w2 where run: "seqM (forM ?bs farm_blob) ?rs w = (Inr p, w2)" and w': "w' = w2\<lparr>farm := []\<rparr>"
    by (auto simp: finallyM_def split: prod.splits)
  then obtain w1 where f: "forM ?bs farm_blob w = (Inr (), w1)" and rs: "?rs w1 = (Inr p, w2)"
    by (auto simp: seqM_Inr_iff)
  have "local_files w1 = local_files w \<and> remote w1 = remote w \<and> (\<forall>(d, b)\<in>set (farm w1). sha b = d)"
    using good by (intro farm_loop [OF f]) (auto simp: farm)
  moreover from rsync [OF rs] rc
  have "local_files w2 = local_files w1" "put_blobs root (farm w1) (remote w1) = Some (remote w2)" by auto
  ultimately show ?thesis
    using put_blobs_inv [of root "farm w1" "remote w1" "remote w2" sha] inv by (simp add: w')
qed

text \<open>A sync that reports success has run its last command on a relay whose store is sound.\<close>

lemma sync_final:
  assumes run: "sync_blobs runner cfg doc sources final w = (Inr r, w')" and ok: "sr_ok r"
    and c: "parse_args final (json_dumps doc) = Some c" "words_ok final"
    and inv: "blob_inv sha root (remote w)" and farm: "farm w = []"
    and good: "\<forall>(d, src)\<in>set sources. \<forall>b. map_of (local_files w) src = Some b \<longrightarrow> sha b = d"
  shows "\<exists>s out. blob_inv sha root s \<and> blobstore_main sha root c s = (Inr out, remote w')"
proof -
  let ?ssh = "\<lambda>cmd inp. runner (ssh_argv (rl_relay cfg) (rl_identity cfg) cmd) (Some inp)"
  let ?want = "store_cmd (rl_relay cfg) [''want'']" and ?payload = "json_dumps doc"
  from run ok obtain p1 w1 where sent: "?ssh ship_cmd (rl_script cfg) w = (Inr p1, w1)" "returncode p1 = 0"
    by (auto simp: sync_blobs_def Let_def bindM_Inr_iff failed_def split: if_splits)
  with run ok obtain p2 w2 where want: "?ssh ?want ?payload w1 = (Inr p2, w2)" "returncode p2 = 0"
    by (auto simp: sync_blobs_def Let_def bindM_Inr_iff failed_def split: if_splits)
  let ?up = "if missing_of (p_stdout p2) = [] then ret \<lparr>sr_ok = True, sr_returncode = 0, sr_detail = []\<rparr>
             else upload_blobs runner cfg (missing_of (p_stdout p2)) sources"
  from run ok sent want obtain r3 w3 where up: "?up w2 = (Inr r3, w3)" "sr_ok r3"
    by (auto simp: sync_blobs_def Let_def bindM_Inr_iff failed_def split: if_splits)
  with run ok sent want obtain p4 where fin4: "?ssh (store_cmd (rl_relay cfg) final) ?payload w3 = (Inr p4, w')"
    "returncode p4 = 0"
    by (auto simp: sync_blobs_def Let_def bindM_Inr_iff failed_def simp del: split_paired_Ex split: if_splits)
  have w1: "local_files w1 = local_files w" "farm w1 = []" "remote w1 = remote w"
    using ship [OF sent(1)] farm by auto
  have pw: "parse_args [''want''] ?payload = Some (Want ?payload)" "words_ok [''want'']"
    by (simp_all add: parse_args_def words_ok_def)
  from store [OF pw want(1)] want(2) obtain out where
    w2: "local_files w2 = local_files w1" "farm w2 = []"
    and wm: "blobstore_main sha root (Want ?payload) (remote w1) = (Inr out, remote w2)"
    using w1 by auto
  have inv2: "blob_inv sha root (remote w2)"
    by (rule keepsD [OF blob_inv_kept _ wm]) (simp_all add: safe_command_def w1 inv)
  have "blob_inv sha root (remote w3)"
  proof (cases "missing_of (p_stdout p2) = []")
    case True
    with up inv2 show ?thesis by simp
  next
    case False
    with up(1) have "upload_blobs runner cfg (missing_of (p_stdout p2)) sources w2 = (Inr r3, w3)" by simp
    from upload_inv [OF this up(2) inv2 w2(2)] good show ?thesis by (simp add: w2 w1)
  qed
  with store [OF c fin4(1)] fin4(2) show ?thesis by blast
qed

text \<open>The payload a successful sync leaves on the relay is exactly the manifest's, bytes included.\<close>

lemma payload_served:
  assumes run: "sync_payload runner cfg manifest_path staging host w = (Inr r, w')" and ok: "sr_ok r"
    and man: "map_of (local_files w) manifest_path = Some text" "json_loads text = Inr (JObj m)"
    and src: "payload_sources staging (manifest_files m) = Inr sources"
      "\<forall>(d, src)\<in>set sources. \<forall>b. map_of (local_files w) src = Some b \<longrightarrow> sha b = d"
    and host: "host \<noteq> []" "CHR 32 \<notin> set host"
    and safe: "safe_command root (Assemble host (json_dumps (JObj m)))"
    and inv: "blob_inv sha root (remote w)" and farm: "farm w = []"
  shows "\<exists>links. map_res (entry_link (target_dir root host)) (manifest_files m) = Inr links
     \<and> (\<forall>p. under (target_dir root host) p \<longrightarrow>
          (case map_of (rev links) p of
             None \<Rightarrow> ino (remote w') p = None
           | Some d \<Rightarrow> \<exists>i. ino (remote w') p = Some i \<and> sha (contents (remote w') i) = d))"
proof -
  let ?final = "[''assemble'', ''--host'', host]"
  obtain e es where files: "field m ''files'' = JList (e # es)"
    and sb: "sync_blobs runner cfg (JObj m) sources ?final w = (Inr r, w')"
    using run ok man src
    by (auto simp: sync_payload_def read_text_def manifest_files_def failed_def bindM_Inr_iff
        split: json.splits list.splits sum.splits)
  have c: "parse_args ?final (json_dumps (JObj m)) = Some (Assemble host (json_dumps (JObj m)))"
    "words_ok ?final"
    using host by (simp_all add: parse_args_def words_ok_def del: json_dumps.simps)
  from sync_final [OF sb ok c inv farm src(2)] obtain s out where
    s: "blob_inv sha root s" and b: "blobstore_main sha root (Assemble host (json_dumps (JObj m))) s = (Inr out, remote w')"
    by blast
  from b obtain s1 where mk: "mkdir_p (store_dir root) s = (Inr (), s1)"
    and a: "cmd_assemble root host (json_dumps (JObj m)) s1 = (Inr out, remote w')"
    by (auto simp: blobstore_main_def dispatch_def seqM_Inr_iff simp del: json_dumps.simps split: if_splits)
  have s1: "blob_inv sha root s1" by (rule keepsD [OF inv_mkdir_p s mk])
  have inv': "blob_inv sha root (remote w')" by (rule keepsD [OF inv_assemble [OF safe] s1 a])
  have "read_manifest (json_dumps (JObj m)) = Inr m"
    using json_round_trip [OF json_loads_wf [OF man(2)]] files by (simp add: read_manifest_def del: json_dumps.simps)
  with assemble_tree [OF s1 safe a] obtain links where
    l: "map_res (entry_link (target_dir root host)) (manifest_files m) = Inr links"
      "\<And>p. under (target_dir root host) p \<Longrightarrow>
          (case map_of (rev links) p of
             None \<Rightarrow> ino (remote w') p = None
           | Some d \<Rightarrow> \<exists>i. ino (remote w') p = Some i \<and> ino (remote w') (blob_path root d) = Some i)"
    by auto
  have d: "sha (contents (remote w') i) = d" if "ino (remote w') (blob_path root d) = Some i" for d i
    using content_addressedD [OF _ ino_mem [OF that], of sha root] inv' by (simp add: blob_inv_def)
  have "case map_of (rev links) p of
             None \<Rightarrow> ino (remote w') p = None
           | Some d \<Rightarrow> \<exists>i. ino (remote w') p = Some i \<and> sha (contents (remote w') i) = d"
    if "under (target_dir root host) p" for p
    using l(2) [OF that] d by (cases "map_of (rev links) p") auto
  with l(1) show ?thesis by blast
qed

end

section \<open>The link over the model of the store\<close>

text \<open>What runs when every process does its job: the script of this repository on the relay, and
  \<open>rsync\<close> into its store.\<close>

definition proc_ok :: "string \<Rightarrow> proc" where
  "proc_ok t = \<lparr>returncode = 0, p_stdout = t, p_stderr = []\<rparr>"

definition store_runner :: "(string \<Rightarrow> string) \<Rightarrow> path \<Rightarrow> fs runner" where
  "store_runner sha root argv inp w =
     (if hd argv = SSH_EXE then
        (if last argv = ship_cmd then (Inr (proc_ok []), w)
         else
           (case parse_args (drop 4 (split_on (CHR 32) (last argv))) (case inp of None \<Rightarrow> [] | Some t \<Rightarrow> t) of
              None \<Rightarrow> (Inr \<lparr>returncode = 2, p_stdout = [], p_stderr = ''usage''\<rparr>, w)
            | Some c \<Rightarrow>
                (case blobstore_main sha root c (remote w) of
                   (Inr out, s') \<Rightarrow> (Inr \<lparr>returncode = rc out, p_stdout = printed (stdout out),
                                        p_stderr = printed (stderr out)\<rparr>, w\<lparr>remote := s'\<rparr>)
                 | (Inl e, s') \<Rightarrow> (Inr \<lparr>returncode = 1, p_stdout = [], p_stderr = exc_name e\<rparr>, w\<lparr>remote := s'\<rparr>))))
      else
        (case put_blobs root (farm w) (remote w) of
           None \<Rightarrow> (Inr \<lparr>returncode = 23, p_stdout = [], p_stderr = ''rsync error''\<rparr>, w)
         | Some s' \<Rightarrow> (Inr (proc_ok []), w\<lparr>remote := s'\<rparr>)))"

lemma store_cmd_args:
  assumes "CHR 32 \<notin> set (sh_root relay)" and "words_ok args"
  shows "drop 4 (split_on (CHR 32) (store_cmd relay args)) = args"
proof -
  have "split_on (CHR 32) (store_cmd relay args) = [''python3'', RELAY_STORE_REMOTE, ''--root'', sh_root relay] @ args"
    unfolding store_cmd_def using assms
    by (intro split_on_join) (auto simp: words_ok_def list_all_iff RELAY_STORE_REMOTE_def)
  then show ?thesis by simp
qed

lemma store_not_ship: "store_cmd relay args \<noteq> ship_cmd"
  by (cases args) (simp_all add: store_cmd_def ship_cmd_def RELAY_STORE_REMOTE_def)

text \<open>The relay \<open>server/data/staging-hosts.json\<close> declares.\<close>

definition ns_relay :: staging_host where
  "ns_relay = \<lparr>sh_address = ''10.23.1.181'', sh_share = ''mast-provisioning'',
     sh_ssh_target = ''mast@10.23.1.181'', sh_root = ''/Storage/mast-provisioning'', sh_creds_key = ''shared''\<rparr>"

definition relay_cfg :: "string \<Rightarrow> string \<Rightarrow> string \<Rightarrow> relay_config" where
  "relay_cfg identity tmp script =
     \<lparr>rl_relay = ns_relay, rl_identity = identity, rl_tmp = tmp, rl_script = script\<rparr>"

interpretation ns: relay_link "store_runner sha root" sha "relay_cfg identity tmp script" root
  for sha root identity tmp script
proof
  fix inp w p w'
  assume "store_runner sha root (ssh_argv (rl_relay (relay_cfg identity tmp script))
      (rl_identity (relay_cfg identity tmp script)) ship_cmd) inp w = (Inr p, w')"
  then show "local_files w' = local_files w \<and> farm w' = farm w \<and> remote w' = remote w"
    by (simp add: store_runner_def ssh_argv_def)
next
  fix args inp c w p w'
  assume c: "parse_args args inp = Some c" and words: "words_ok args"
    and run: "store_runner sha root (ssh_argv (rl_relay (relay_cfg identity tmp script))
      (rl_identity (relay_cfg identity tmp script)) (store_cmd (rl_relay (relay_cfg identity tmp script)) args))
      (Some inp) w = (Inr p, w')"
  have root: "CHR 32 \<notin> set (sh_root (rl_relay (relay_cfg identity tmp script)))"
    by (simp add: relay_cfg_def ns_relay_def)
  from run c store_cmd_args [OF root words] show "local_files w' = local_files w \<and> farm w' = farm w
      \<and> (returncode p = 0 \<longrightarrow> (\<exists>out. blobstore_main sha root c (remote w) = (Inr out, remote w')
            \<and> rc out = 0 \<and> p_stdout p = printed (stdout out)))"
    by (auto simp: store_runner_def ssh_argv_def store_not_ship split: prod.splits sum.splits)
next
  fix w p w'
  assume "store_runner sha root (rsync_argv (rl_relay (relay_cfg identity tmp script))
      (rl_identity (relay_cfg identity tmp script)) (rl_tmp (relay_cfg identity tmp script))) None w = (Inr p, w')"
  then show "local_files w' = local_files w
      \<and> (returncode p = 0 \<longrightarrow> put_blobs root (farm w) (remote w) = Some (remote w'))"
    by (auto simp: store_runner_def rsync_argv_def SSH_EXE_def RSYNC_EXE_def proc_ok_def split: option.splits)
qed

section \<open>Declared hosts\<close>

lemma load_sites_all:
  "load_sites es out = Inr hosts \<Longrightarrow> distinct (map fst es) \<Longrightarrow>
   (\<forall>(site, e)\<in>set es. \<exists>h. make_staging_host e = Inr h \<and> map_of hosts site = Some h)
   \<and> (\<forall>site. site \<notin> fst ` set es \<longrightarrow> map_of hosts site = map_of out site)"
proof (induction es out rule: load_sites.induct)
  case (2 site entry rest out)
  from "2.prems"(1) obtain h where h: "make_staging_host entry = Inr h"
    and rest: "load_sites rest (dict_set site h out) = Inr hosts"
    by (auto split: sum.splits if_splits)
  from "2.IH" [OF h rest] "2.prems"(2) h show ?case by auto
qed simp

lemma check_sources_none:
  "check_sources sha fs files = None \<Longrightarrow>
   \<forall>f\<in>set files. (case map_of fs (sf_source f) of None \<Rightarrow> ''absent'' | Some b \<Rightarrow> sha b) = sf_sha256 f"
  by (induction files) (simp_all add: Let_def split: if_splits)

lemma check_sources_some: "check_sources sha fs files = Some r \<Longrightarrow> \<not> sr_ok r"
  by (induction files) (auto simp: Let_def failed_def split: if_splits)

section \<open>Properties\<close>

text \<open>C2: When a sync to the declared relay reports success, the payload that relay serves for the host
  is exactly the manifest: a file for every path it names and for nothing else, and each file's bytes
  hash to the digest the manifest gives, provided the staged files did.\<close>

theorem sync_payload_served:
  assumes "sync_payload (store_runner sha root) (relay_cfg identity tmp script) manifest_path staging host w = (Inr r, w')"
    and "sr_ok r"
    and "map_of (local_files w) manifest_path = Some doc" and "json_loads doc = Inr (JObj m)"
    and "payload_sources staging (manifest_files m) = Inr sources"
    and "\<forall>(d, src)\<in>set sources. \<forall>b. map_of (local_files w) src = Some b \<longrightarrow> sha b = d"
    and "host \<noteq> []" and "CHR 32 \<notin> set host"
    and "safe_command root (Assemble host (json_dumps (JObj m)))"
    and "blob_inv sha root (remote w)" and "farm w = []"
  shows "\<exists>links. map_res (entry_link (target_dir root host)) (manifest_files m) = Inr links
     \<and> (\<forall>p. under (target_dir root host) p \<longrightarrow>
          (case map_of (rev links) p of
             None \<Rightarrow> ino (remote w') p = None
           | Some d \<Rightarrow> \<exists>i. ino (remote w') p = Some i \<and> sha (contents (remote w') i) = d))"
  using assms by (rule ns.payload_served)

text \<open>A snapshot never sends bytes under a digest they do not have: if any source is absent or
  hashes to something else the sync fails before it has run a single command.\<close>

theorem sync_snapshot_verified:
  assumes "f \<in> set files" and "\<forall>b. map_of (local_files w) (sf_source f) = Some b \<longrightarrow> sha b \<noteq> sf_sha256 f"
    and "sf_sha256 f \<noteq> ''absent''"
  shows "\<exists>r. sync_snapshot sha runner cfg kind snapshot_id files w = (Inr r, w) \<and> \<not> sr_ok r"
proof (cases "check_sources sha (local_files w) files")
  case None
  from check_sources_none [OF this] assms show ?thesis
    by (cases "map_of (local_files w) (sf_source f)") auto
next
  case (Some r)
  with check_sources_some [OF this] show ?thesis by (simp add: sync_snapshot_def)
qed

text \<open>The staging host a site is given is the one the file declares for it, and only a file whose
  every entry is well formed gives one: a malformed entry of any site is an error, never a silent
  fallback.\<close>

theorem staging_host_declared:
  assumes "staging_host_for declared site = Inr h"
  shows "\<exists>t data d. declared = Some t \<and> json_loads t = Inr data \<and> jget data ''sites'' = Inr (JObj d)
     \<and> (distinct (map fst d) \<longrightarrow>
          (\<exists>e. map_of d site = Some e \<and> make_staging_host e = Inr h)
          \<and> (\<forall>(s, e)\<in>set d. \<exists>h'. make_staging_host e = Inr h'))"
proof -
  from assms obtain hosts where hosts: "load_staging_hosts declared = Inr hosts" "map_of hosts site = Some h"
    by (auto simp: staging_host_for_def bind_res_Inr_iff Let_def split: option.splits)
  then obtain t where t: "declared = Some t" by (cases declared) (auto simp: load_staging_hosts_def)
  with hosts obtain data sites where j: "json_loads t = Inr data" "jget data ''sites'' = Inr sites"
    by (auto simp: load_staging_hosts_def bind_res_Inr_iff)
  with hosts t obtain d where d: "jor sites (JObj []) = JObj d" "load_sites d [] = Inr hosts"
    by (auto simp: load_staging_hosts_def split: json.splits)
  have "d \<noteq> []" using d(2) hosts(2) by auto
  then have sites: "sites = JObj d" using d(1) by (auto simp: jor_def split: if_splits)
  have "(\<exists>e. map_of d site = Some e \<and> make_staging_host e = Inr h)
          \<and> (\<forall>(s, e)\<in>set d. \<exists>h'. make_staging_host e = Inr h')" if "distinct (map fst d)"
  proof -
    note all = load_sites_all [OF d(2) that]
    have "site \<in> fst ` set d" using all hosts(2) by fastforce
    then obtain e where e: "(site, e) \<in> set d" by force
    then have "map_of d site = Some e" using that by simp
    moreover have "make_staging_host e = Inr h" using all e hosts(2) by fastforce
    ultimately show ?thesis using all by fastforce
  qed
  with t j sites show ?thesis by blast
qed

section \<open>Witnesses\<close>

definition ex_world :: "fs relay_world" where
  "ex_world = \<lparr>local_files = [(''stage/payload-manifest.json'', ex_manifest), (''stage/a/x'', ''AA''),
                 (''stage/build-manifest.json'', ''BB'')],
              farm = [], remote = ex_fs\<rparr>"

abbreviation ex_sync :: "(pyexc + sync_result) \<times> fs relay_world" where
  "ex_sync \<equiv> sync_payload (store_runner ex_sha [''r'']) (relay_cfg ''id'' ''/tmp/f'' ''script'')
     ''stage/payload-manifest.json'' ''stage'' ''m'' ex_world"

theorem sync_payload_served_witness:
  "\<exists>links. map_res (entry_link (target_dir [''r''] ''m'')) (manifest_files ex_doc) = Inr links
     \<and> (\<forall>p. under (target_dir [''r''] ''m'') p \<longrightarrow>
          (case map_of (rev links) p of
             None \<Rightarrow> ino (remote (snd ex_sync)) p = None
           | Some d \<Rightarrow> \<exists>i. ino (remote (snd ex_sync)) p = Some i \<and> ex_sha (contents (remote (snd ex_sync)) i) = d))"
proof (rule sync_payload_served)
  let ?r = "\<lparr>sr_ok = True, sr_returncode = 0,
     sr_detail = ''blobs_sent=2 ASSEMBLED host=m files=2 bytes=4 pruned=1 snapshot=created''\<rparr>"
  have "fst ex_sync = Inr ?r" by code_simp
  then show "ex_sync = (Inr ?r, snd ex_sync)" by (simp add: prod_eq_iff)
  show "sr_ok ?r" by simp
  show "map_of (local_files ex_world) ''stage/payload-manifest.json'' = Some ex_manifest"
    by (simp add: ex_world_def)
  show "json_loads ex_manifest = Inr (JObj ex_doc)" by code_simp
  show "payload_sources ''stage'' (manifest_files ex_doc)
      = Inr [(''hAA'', ''stage/a/x''), (''hBB'', ''stage/build-manifest.json'')]" by code_simp
  show "\<forall>(d, src)\<in>set [(''hAA'', ''stage/a/x''), (''hBB'', ''stage/build-manifest.json'')].
      \<forall>b. map_of (local_files ex_world) src = Some b \<longrightarrow> ex_sha b = d"
    by (simp add: ex_world_def ex_sha_def)
  show "safe_command [''r''] (Assemble ''m'' (json_dumps (JObj ex_doc)))"
    using ex_assemble_safe unfolding ex_manifest_def .
  show "blob_inv ex_sha [''r''] (remote ex_world)" by (simp add: ex_world_def ex_fs_inv)
qed (simp_all add: ex_world_def)

theorem sync_snapshot_verified_witness:
  "\<exists>r. sync_snapshot ex_sha (store_runner ex_sha [''r'']) (relay_cfg ''id'' ''/tmp/f'' ''script'')
        ''bootstrap-payload'' ''b1'' [\<lparr>sf_path = ''a'', sf_sha256 = ''hBB'', sf_size = 2, sf_source = ''stage/a/x''\<rparr>]
        ex_world = (Inr r, ex_world) \<and> \<not> sr_ok r"
  by (rule sync_snapshot_verified [where f = "\<lparr>sf_path = ''a'', sf_sha256 = ''hBB'', sf_size = 2, sf_source = ''stage/a/x''\<rparr>"])
     (simp_all add: ex_world_def ex_sha_def)

theorem staging_host_declared_witness:
  "\<exists>data d. json_loads (json_dumps (JObj [(''sites'', JObj [(''ns'', JObj [(''address'', JStr ''a''),
       (''share'', JStr ''s''), (''ssh_target'', JStr ''t''), (''root'', JStr ''r'')])])])) = Inr data
     \<and> jget data ''sites'' = Inr (JObj d)"
proof -
  have "staging_host_for (Some (json_dumps (JObj [(''sites'', JObj [(''ns'', JObj [(''address'', JStr ''a''),
       (''share'', JStr ''s''), (''ssh_target'', JStr ''t''), (''root'', JStr ''r'')])])]))) ''ns''
     = Inr \<lparr>sh_address = ''a'', sh_share = ''s'', sh_ssh_target = ''t'', sh_root = ''r'', sh_creds_key = ''shared''\<rparr>"
    by code_simp
  from staging_host_declared [OF this] show ?thesis by (simp only: option.inject) blast
qed

end
