(* ===== verification/Remote_Script.thy ===== *)
theory Remote_Script
  imports Driver_Scripts Transport_Connect
begin

text \<open>
  \<open>src/tools/run-remote-script-winrm.py\<close>: a local script uploaded to a unit over WinRM in base64
  chunks and run there. On the timeline, \<open>LogLine\<close> is a line on the error stream (without its time
  stamp) and \<open>LogRaw\<close> a text on the output. The operator's Ctrl-C is not modelled.
\<close>

definition CHUNK :: nat where "CHUNK = 800"

section \<open>What the unit prints\<close>

definition MARK :: string where "MARK = ''##MAST##''"

definition contains_text :: "string \<Rightarrow> string \<Rightarrow> bool" where
  "contains_text t s \<longleftrightarrow> (case partition_str t s of (a, m, b) \<Rightarrow> m \<noteq> [])"

text \<open>From the marker on, without what follows the first \<open><\<close>.\<close>

definition from_mark :: "string \<Rightarrow> string" where
  "from_mark ln = (case partition_str MARK ln of (a, m, b) \<Rightarrow> strip (m @ b))"

definition cut_markup :: "string \<Rightarrow> string" where
  "cut_markup msg =
     (let cut = takeWhile (\<lambda>c. c \<noteq> CHR ''<'') msg in if length cut < length msg \<and> cut \<noteq> [] then rstrip cut else msg)"

text \<open>\<open>emit_guest_mast_lines\<close>: both branches of the source, for a line in markup and for another, print
  the same.\<close>

definition guest_line :: "string \<Rightarrow> string list" where
  "guest_line ln =
     (if \<not> contains_text MARK ln then []
      else (let msg = cut_markup (from_mark ln) in if msg = [] then [] else [msg]))"

definition guest_lines :: "string \<Rightarrow> string \<Rightarrow> string list" where
  "guest_lines out err =
     concat (map guest_line (splitlines ((if out = [] then [] else out @ [CHR 10]) @ err)))"

definition lines_text :: "string list \<Rightarrow> string" where
  "lines_text ls = join [CHR 10] ls @ (if ls = [] then [] else [CHR 10])"

definition markup_line :: "string \<Rightarrow> bool" where
  "markup_line s \<longleftrightarrow> s = [] \<or> startswith ''<Objs '' s \<or> startswith ''<Obj '' s \<or> startswith ''</Objs>'' s"

definition strip_clixml :: "string \<Rightarrow> string" where
  "strip_clixml text =
     lines_text (filter (\<lambda>ln. \<not> markup_line (strip ln)) (splitlines (fst (partition_str ''#< CLIXML'' text))))"

definition drop_marker_lines :: "string \<Rightarrow> string" where
  "drop_marker_lines text = lines_text (filter (\<lambda>ln. \<not> contains_text MARK ln) (splitlines text))"

definition decode_and_clean :: "string \<Rightarrow> bool \<Rightarrow> string" where
  "decode_and_clean b drop_markers =
     (if b = [] then [] else if drop_markers then drop_marker_lines (strip_clixml b) else strip_clixml b)"

section \<open>What is sent\<close>

definition build_remote_invoke :: "string \<Rightarrow> string \<Rightarrow> string \<Rightarrow> bool \<Rightarrow> string" where
  "build_remote_invoke invoke_tail rid script_repo_rel transcript =
       ''$mastSkipTx = '' @ (if transcript then ''$false'' else ''$true'') @ ''; $env:MAST_RUN_ID = '' @ sq
       @ ps_escape rid @ sq @ ''; $env:MAST_REMOTE_INVOKER = '' @ sq @ ''run-remote-script-winrm.py'' @ sq
       @ ''; $env:MAST_REMOTE_SCRIPT_REPO = '' @ sq
       @ ps_escape (replace_char backslash [CHR 47] script_repo_rel) @ sq
       @ ''; $mastRunId = $env:MAST_RUN_ID; $mastStamp = Get-Date -Format '' @ sq @ ''yyyyMMdd-HHmmss'' @ sq
       @ ''; $mastLogRoot = Join-Path $env:SystemDrive ('' @ sq @ ''MAST'' @ bs @ ''logs'' @ bs
       @ ''remote-runs'' @ bs @ sq @ '' + $mastStamp + '' @ sq @ ''_'' @ sq
       @ '' + $mastRunId); $env:MAST_REMOTE_LOG_ROOT = $mastLogRoot; $null = New-Item -ItemType Directory -Force -Path $mastLogRoot; $mastLog = Join-Path $mastLogRoot (''
       @ sq @ ''remote-'' @ sq @ '' + $env:COMPUTERNAME + '' @ sq @ ''-'' @ sq @ '' + $mastRunId + '' @ sq
       @ ''.log'' @ sq @ ''); $mastMeta = Join-Path $mastLogRoot ('' @ sq @ ''remote-'' @ sq
       @ '' + $env:COMPUTERNAME + '' @ sq @ ''-'' @ sq @ '' + $mastRunId + '' @ sq @ ''.json'' @ sq
       @ ''); $b64 = Join-Path $env:TEMP '' @ sq @ ''mast-remote.b64'' @ sq @ ''; $ps1 = Join-Path $env:TEMP ''
       @ sq @ ''mast-remote.ps1'' @ sq
       @ ''; $t = [IO.File]::ReadAllText($b64); [IO.File]::WriteAllBytes($ps1, [Convert]::FromBase64String($t)); Remove-Item -LiteralPath $b64 -Force; $env:MAST_REMOTE_SCRIPT_PATH = $ps1; Write-Host (''
       @ sq @ ''##MAST## kind=remote_run_start run_id='' @ sq @ '' + $mastRunId + '' @ sq @ '' script_repo=''
       @ sq @ '' + $env:MAST_REMOTE_SCRIPT_REPO + '' @ sq @ '' transcript='' @ sq @ '' + $mastLog + '' @ sq
       @ '' meta_json='' @ sq
       @ '' + $mastMeta); $mastSw = [System.Diagnostics.Stopwatch]::StartNew(); $mastRc = 0; $mastErr = '' @ sq
       @ sq
       @ ''; try {   Set-ExecutionPolicy Bypass -Scope Process -Force;   if (-not $mastSkipTx) { Start-Transcript -Path $mastLog -Append -IncludeInvocationHeader -ErrorAction SilentlyContinue | Out-Null };   & $ps1''
       @ invoke_tail
       @ '';   if ($null -ne $LASTEXITCODE -and $LASTEXITCODE -ne 0) { $mastRc = [int]$LASTEXITCODE } } catch {   $mastRc = 1;   $mastErr = $_.Exception.Message;   Write-Host (''
       @ sq @ ''##MAST## kind=remote_error run_id='' @ sq @ '' + $mastRunId + '' @ sq @ '' message='' @ sq
       @ '' + $mastErr) } finally {   $mastSw.Stop();   $mastTxPath = $(if ($mastSkipTx) { '' @ sq @ sq
       @ '' } else { $mastLog });   $summary = @'' @ ''{     kind = '' @ sq @ ''mast_remote_run'' @ sq
       @ '';     run_id = $mastRunId;     computer = $env:COMPUTERNAME;     script_repo = $env:MAST_REMOTE_SCRIPT_REPO;     script_path = $env:MAST_REMOTE_SCRIPT_PATH;     exit_code = [int]$mastRc;     duration_ms = [int]$mastSw.ElapsedMilliseconds;     transcript = $mastTxPath;     error = $mastErr;     finished_utc = (Get-Date).ToUniversalTime().ToString(''
       @ sq @ ''yyyy-MM-ddTHH:mm:ssZ'' @ sq
       @ '')   };   ($summary | ConvertTo-Json -Compress) | Set-Content -LiteralPath $mastMeta -Encoding UTF8 -Force;   Write-Host (''
       @ sq @ ''##MAST## kind=remote_run_end run_id='' @ sq @ '' + $mastRunId + '' @ sq @ '' exit_code='' @ sq
       @ '' + [int]$mastRc + '' @ sq @ '' duration_ms='' @ sq @ '' + [int]$mastSw.ElapsedMilliseconds + '' @ sq
       @ '' meta_json='' @ sq @ '' + $mastMeta) }; exit $mastRc''"

definition listing_text :: string where
  "listing_text =
       ''$root = (Join-Path $env:SystemDrive '' @ sq @ ''MAST'' @ bs @ ''logs'' @ bs @ ''remote-runs'' @ sq
       @ ''); Write-Host ('' @ dq @ ''##MAST## kind=remote_runs_root root='' @ dq
       @ '' + $root); if (Test-Path -LiteralPath $root) {   $items = @(Get-ChildItem -LiteralPath $root -Recurse -File -Force -ErrorAction SilentlyContinue |             Sort-Object -Property LastWriteTime -Descending | Select-Object -First 20);   Write-Host (''
       @ dq @ ''##MAST## kind=remote_runs_list count='' @ dq
       @ '' + $items.Count);   foreach ($it in $items) {     Write-Host ('' @ dq
       @ ''##MAST## kind=remote_runs_item name='' @ dq @ '' + $it.FullName + '' @ dq @ '' bytes='' @ dq
       @ '' + $it.Length + '' @ dq @ '' mtime='' @ dq @ '' + ($it.LastWriteTime.ToUniversalTime().ToString(''
       @ sq @ ''yyyy-MM-ddTHH:mm:ssZ'' @ sq @ '')));   } } else {   Write-Host '' @ dq
       @ ''##MAST## kind=remote_runs_list count=0 missing=true'' @ dq @ ''; }''"

definition clear_text :: string where
  "clear_text =
       ''$p = Join-Path $env:TEMP '' @ sq @ ''mast-remote.b64'' @ sq
       @ ''; if (Test-Path $p) { Remove-Item $p -Force }; [IO.File]::WriteAllText($p, [string]::Empty)''"

definition append_text :: "string \<Rightarrow> string" where
  "append_text ch =
       ''$p = Join-Path $env:TEMP '' @ sq @ ''mast-remote.b64'' @ sq @ ''; [IO.File]::AppendAllText($p, '' @ sq
       @ ps_escape ch @ sq @ '')''"
section \<open>The session\<close>

text \<open>The arguments; \<open>ta_poll\<close> is the poll interval with its text.\<close>

record tool_args =
  ta_host :: string
  ta_script :: string
  ta_vault :: string
  ta_invoke_args :: string
  ta_quiet :: bool
  ta_run_id :: string
  ta_no_transcript :: bool
  ta_local_meta :: string
  ta_show_runs :: bool
  ta_wait_s :: int
  ta_poll :: "int \<times> string"

text \<open>Files by path, a fresh identifier, the text of an exception and of times.\<close>

record tool_env =
  te_disk :: "string \<Rightarrow> string option"
  te_uuid :: string
  te_repr :: "pyexc \<Rightarrow> string"
  te_text :: "pyexc \<Rightarrow> string"
  te_secs :: "int \<Rightarrow> string"         \<comment> \<open>seconds with one digit\<close>
  te_round3 :: "int \<Rightarrow> string"       \<comment> \<open>and as the number that JSON gets\<close>
  te_utc :: "nat \<Rightarrow> string"

definition shown :: "tool_env \<Rightarrow> pyexc \<Rightarrow> string" where
  "shown E e = (case e of UserError c m \<Rightarrow> m | _ \<Rightarrow> te_text E e)"

definition obs :: "bool \<Rightarrow> string \<Rightarrow> unit net_eff" where
  "obs quiet msg = whenM (\<not> quiet) (log_line msg)"

definition run_interruptible :: "net \<Rightarrow> string \<Rightarrow> response net_eff" where
  "run_interruptible N script = call N (WinrmRun script) (\<lambda>n. n_winrm_run N n script)"

definition bad_auth :: "string list \<Rightarrow> string \<Rightarrow> pyexc" where
  "bad_auth users last_err = UserError ''RuntimeError'' (''WinRM auth failed for '' @ py_repr (JList (map JStr users)) @ '': '' @ last_err)"

fun try_users :: "net \<Rightarrow> tool_env \<Rightarrow> bool \<Rightarrow> string \<Rightarrow> int \<Rightarrow> string list \<Rightarrow> string \<Rightarrow> string list \<Rightarrow> string net_eff" where
  "try_users N E quiet host t0 all last_err [] = raise (bad_auth all last_err)"
| "try_users N E quiet host t0 all last_err (usr # users) =
     seqM (obs quiet (''  attempt user '' @ repr_str usr @ '' ...''))
     (bindM (catchM (bindM (call N (Ping host usr) (\<lambda>n. n_ping N n host usr)) (\<lambda>_. ret None))
               (\<lambda>e. if invalid_credentials e then ret (Some e) else raise e)) (\<lambda>failed.
      case failed of
        Some e \<Rightarrow> seqM (obs quiet (''  auth rejected for '' @ repr_str usr))
                       (try_users N E quiet host t0 all (shown E e) users)
      | None \<Rightarrow> bindM (clock N) (\<lambda>now.
          seqM (obs quiet (''WinRM session OK ('' @ repr_str usr @ '') after '' @ te_secs E (now - t0) @ ''s''))
               (ret usr))))"

definition open_session :: "net \<Rightarrow> tool_env \<Rightarrow> bool \<Rightarrow> string \<Rightarrow> string \<Rightarrow> string net_eff" where
  "open_session N E quiet host raw_user =
     (let try_order = candidate_users host raw_user in
      bindM (clock N) (\<lambda>t0.
      seqM (obs quiet (''WinRM connect http://'' @ host @ '':5985/wsman (trying '' @ nat_str (length try_order) @ '' user form(s))...''))
           (try_users N E quiet host t0 try_order ''None'' try_order)))"

definition sleep_for :: "int \<Rightarrow> unit net_eff" where
  "sleep_for d = (if d < 0 then raise ValueError else pause d)"

definition secs_left :: "int \<Rightarrow> string" where
  "secs_left remaining = ''(~'' @ int_str (max 0 (remaining div ns)) @ ''s left): ''"

definition is_runtime :: "pyexc \<Rightarrow> bool" where
  "is_runtime e \<longleftrightarrow> e = RuntimeError \<or> is_class [''RuntimeError''] e"

definition is_timeout :: "pyexc \<Rightarrow> bool" where
  "is_timeout e \<longleftrightarrow> e = TimeoutError \<or> is_class [''TimeoutError''] e"

definition not_ready :: "string \<Rightarrow> int \<Rightarrow> pyexc" where
  "not_ready host timeout_s = UserError ''TimeoutError''
     (''WinRM on '' @ repr_str host @ '' did not become ready within '' @ int_str timeout_s @ ''s'')"

definition wait_ready_body ::
    "net \<Rightarrow> tool_env \<Rightarrow> bool \<Rightarrow> string \<Rightarrow> string \<Rightarrow> int \<Rightarrow> int \<Rightarrow> int \<Rightarrow> nat \<Rightarrow> (nat + string) net_eff" where
  "wait_ready_body N E quiet host raw_user timeout_s poll deadline n =
     bindM (clock N) (\<lambda>now.
     let remaining = deadline - now; attempt_no = ''  ['' @ nat_str (n + 1) @ ''] '';
         again = seqM (sleep_for (min poll (max (ns div 5) remaining))) (ret (Inl (n + 1))) in
     if remaining \<le> 0 then raise (not_ready host timeout_s)
     else
       bindM (query N (\<lambda>k. n_tcp N k host WINRM_PORT)) (\<lambda>up.
       if \<not> up
       then seqM (obs quiet (attempt_no @ ''TCP 5985 not open '' @ secs_left remaining @ te_repr E OSError)) again
       else
         bindM (attempt (open_session N E quiet host raw_user)) (\<lambda>r.
         case r of
           Inr usr \<Rightarrow> ret (Inr usr)
         | Inl e \<Rightarrow>
             seqM (obs quiet (if is_runtime e
                     then attempt_no @ ''WinRM auth not ready yet '' @ secs_left remaining @ shown E e
                     else attempt_no @ ''WinRM probe failed '' @ secs_left remaining @ te_repr E e)) again)))"

text \<open>The passes a wait can make: each takes the poll interval or a fifth of a second.\<close>

definition ready_fuel :: "int \<Rightarrow> int \<Rightarrow> nat" where
  "ready_fuel timeout_s poll = Suc (nat (timeout_s * ns div min poll (ns div 5) + 1))"

definition wait_ready :: "net \<Rightarrow> tool_env \<Rightarrow> bool \<Rightarrow> string \<Rightarrow> string \<Rightarrow> int \<Rightarrow> int \<times> string \<Rightarrow> string option net_eff" where
  "wait_ready N E quiet host raw_user timeout_s poll =
     (if timeout_s \<le> 0 then bindM (open_session N E quiet host raw_user) (\<lambda>usr. ret (Some usr))
      else
        bindM (clock N) (\<lambda>now.
        seqM (obs quiet (''Waiting up to '' @ int_str timeout_s @ ''s for WinRM on '' @ repr_str host
                @ '':5985 (poll every '' @ snd poll @ ''s; unit may still be booting)...''))
        (loop_within (ready_fuel timeout_s (fst poll))
           (wait_ready_body N E quiet host raw_user timeout_s (fst poll) (now + timeout_s * ns)) 0)))"

section \<open>The upload and the run\<close>

text \<open>The exit code of the first script that failed, if one did.\<close>

definition failed_rc :: "response \<Rightarrow> int option net_eff" where
  "failed_rc r =
     (if status_code r = 0 then ret None else seqM (log_line (std_err r)) (ret (Some (status_code r))))"

definition chunk_note :: "nat \<Rightarrow> nat \<Rightarrow> string" where
  "chunk_note i n =
     ''upload chunk '' @ nat_str (i + 1) @ ''/'' @ nat_str n @ '' ('' @ nat_str (100 * (i + 1) div max 1 n) @ ''%)...''"

fun upload_chunks :: "net \<Rightarrow> bool \<Rightarrow> nat \<Rightarrow> nat \<Rightarrow> string list \<Rightarrow> int option net_eff" where
  "upload_chunks N quiet n i [] = ret None"
| "upload_chunks N quiet n i (ch # chunks) =
     seqM (whenM (n \<le> 24 \<or> i = 0 \<or> (i + 1) mod max 1 (n div 12) = 0 \<or> i + 1 = n) (obs quiet (chunk_note i n)))
     (bindM (run_interruptible N (append_text ch)) (\<lambda>r.
      bindM (failed_rc r) (\<lambda>f.
      case f of Some rc \<Rightarrow> ret (Some rc) | None \<Rightarrow> upload_chunks N quiet n (i + 1) chunks)))"

text \<open>The marker lines on the error stream, then what is left of both outputs.\<close>

definition show_response :: "response \<Rightarrow> unit net_eff" where
  "show_response r =
     (let out = decode_and_clean (std_out r) True; err = decode_and_clean (std_err r) True in
      seqM (forM (guest_lines (std_out r) (std_err r)) (\<lambda>m. log_line (''[guest] '' @ m)))
     (seqM (whenM (out \<noteq> []) (emit (LogRaw out)))
           (whenM (err \<noteq> []) (log_line err))))"

definition list_guest_runs :: "net \<Rightarrow> tool_env \<Rightarrow> bool \<Rightarrow> unit net_eff" where
  "list_guest_runs N E quiet =
     bindM (attempt (bindM (run_interruptible N listing_text) show_response)) (\<lambda>r.
     case r of Inr u \<Rightarrow> ret () | Inl e \<Rightarrow> obs quiet (''warning: failed to list guest remote-runs: '' @ te_repr E e))"

definition local_meta :: "tool_env \<Rightarrow> tool_args \<Rightarrow> string \<Rightarrow> int \<Rightarrow> int \<Rightarrow> nat \<Rightarrow> json" where
  "local_meta E args rid rc exec_ns n =
     JObj [(''kind'', JStr ''mast_orchestrator_run''), (''run_id'', JStr rid), (''host'', JStr (ta_host args)),
       (''script'', JStr (ta_script args)), (''status_code'', JInt rc), (''duration_exec_s'', JFloat (te_round3 E exec_ns)),
       (''finished_local_utc'', JStr (te_utc E n)),
       (''remote_note'', JStr (''See unit <SystemDrive>'' @ bs @ ''MAST'' @ bs @ ''logs'' @ bs @ ''remote-runs'' @ bs
          @ ''<timestamp>_<run_id>'' @ bs @ ''remote-<host>-<run_id>.json''))]"

text \<open>After the upload: the exit code, and the file that was written.\<close>

definition run_uploaded :: "net \<Rightarrow> tool_env \<Rightarrow> tool_args \<Rightarrow> int \<Rightarrow> string \<Rightarrow> (int \<times> (string \<times> string) option) net_eff" where
  "run_uploaded N E args start rid =
     (let quiet = ta_quiet args; ia = strip (ta_invoke_args args); tail = (if ia = [] then [] else '' '' @ ia) in
      seqM (obs quiet (''decode base64 + run script on guest (transcript + JSON summary unless ''
              @ ''--no-remote-transcript; this step may take minutes)...''))
     (bindM (clock N) (\<lambda>exec_start.
      bindM (run_interruptible N (build_remote_invoke tail rid (ta_script args) (\<not> ta_no_transcript args))) (\<lambda>r.
      bindM (clock N) (\<lambda>exec_end.
      seqM (obs quiet (''guest script finished status_code='' @ int_str (status_code r) @ '' in ''
              @ te_secs E (exec_end - exec_start) @ ''s''))
     (seqM (show_response r)
     (seqM (whenM (ta_show_runs args) (list_guest_runs N E quiet))
     (bindM (gets w_tick) (\<lambda>n.
      let written = (if ta_local_meta args = [] then None
            else Some (ta_local_meta args, dumps_indent 0 (local_meta E args rid (status_code r) (exec_end - exec_start) n))) in
      seqM (case written of None \<Rightarrow> ret () | Some (p, t) \<Rightarrow> obs quiet (''wrote local meta '' @ p))
     (bindM (clock N) (\<lambda>now.
      seqM (obs quiet (''total wall time '' @ te_secs E (now - start) @ ''s''))
           (ret (status_code r, written)))))))))))))"

definition script_chunks :: "string \<Rightarrow> string list" where
  "script_chunks raw = chunks_of CHUNK (b64encode raw)"

definition send_script :: "net \<Rightarrow> tool_env \<Rightarrow> tool_args \<Rightarrow> int \<Rightarrow> string \<Rightarrow> string list \<Rightarrow> (int \<times> (string \<times> string) option) net_eff" where
  "send_script N E args start rid chunks =
     (let quiet = ta_quiet args in
      seqM (obs quiet ''Clear remote temp b64 file...'')
     (bindM (run_interruptible N clear_text) (\<lambda>r.
      bindM (failed_rc r) (\<lambda>f.
      case f of Some rc \<Rightarrow> ret (rc, None)
      | None \<Rightarrow>
          bindM (clock N) (\<lambda>upload_start.
          bindM (upload_chunks N quiet (length chunks) 0 chunks) (\<lambda>f.
          case f of Some rc \<Rightarrow> ret (rc, None)
          | None \<Rightarrow>
              bindM (clock N) (\<lambda>now.
              seqM (obs quiet (''upload done in '' @ te_secs E (now - upload_start) @ ''s''))
                   (run_uploaded N E args start rid))))))))"

definition load_vault :: "string \<Rightarrow> (string \<times> string) res" where
  "load_vault text =
     bind_res (json_loads text) (\<lambda>data.
     bind_res (jindex data ''unit'') (\<lambda>u. bind_res (entry_str u ''user'') (\<lambda>user.
     bind_res (entry_str u ''pass'') (\<lambda>pass. Inr (user, pass)))))"

definition wait_failed :: "tool_env \<Rightarrow> pyexc \<Rightarrow> int net_eff" where
  "wait_failed E e =
     (let code = (if is_timeout e then Some 124 else if is_runtime e then Some 1 else None) in
      case code of None \<Rightarrow> raise e | Some c \<Rightarrow> seqM (log_line (''ERROR: '' @ shown E e)) (ret c))"

text \<open>\<open>main\<close>; none when the wait for the unit runs out of the model's fuel.\<close>

definition remote_main :: "net \<Rightarrow> tool_env \<Rightarrow> tool_args \<Rightarrow> (int \<times> (string \<times> string) option) option net_eff" where
  "remote_main N E args =
     (case te_disk E (ta_script args) of
        None \<Rightarrow> seqM (log_line (''ERROR: script not found: '' @ ta_script args)) (ret (Some (2, None)))
      | Some raw \<Rightarrow>
     (case te_disk E (ta_vault args) of
        None \<Rightarrow> seqM (log_line (''ERROR: vault not found: '' @ ta_vault args)) (ret (Some (2, None)))
      | Some vault \<Rightarrow>
          bindM (liftR (load_vault vault)) (\<lambda>(raw_user, password).
          let rid = (let t = strip (ta_run_id args) in if t = [] then te_uuid E else t);
              chunks = script_chunks raw; quiet = ta_quiet args in
          seqM (obs quiet (''run-remote-script-winrm starting run_id='' @ rid @ '' host='' @ repr_str (ta_host args)
                  @ '' script='' @ repr_str (ta_script args) @ '' bytes='' @ nat_str (length raw)
                  @ '' chunks='' @ nat_str (length chunks) @ '' (~'' @ nat_str (length chunks)
                  @ '' WinRM round-trips for upload; remote logs under <SystemDrive>'' @ bs @ bs @ ''MAST'' @ bs @ bs @ ''logs''
                  @ bs @ bs @ ''remote-runs'' @ bs @ bs @ ''<timestamp>_<run_id>'' @ bs @ bs @ '')''))
         (bindM (clock N) (\<lambda>start.
          bindM (catchM (bindM (wait_ready N E quiet (ta_host args) raw_user (ta_wait_s args) (ta_poll args)) (\<lambda>u. ret (Inr u)))
                   (\<lambda>e. bindM (wait_failed E e) (\<lambda>c. ret (Inl c)))) (\<lambda>ready.
          case ready of
            Inl c \<Rightarrow> ret (Some (c, None))
          | Inr None \<Rightarrow> ret None
          | Inr (Some usr) \<Rightarrow>
              bindM (send_script N E args start rid chunks) (\<lambda>result. ret (Some result))))))))"

end
