(* ===== verification/Remote_Script_Props.thy ===== *)
theory Remote_Script_Props
  imports Remote_Script Fleet_Gather_Props Transport_Props
begin

text \<open>
  The remote-script tool sends its scripts in one order, an exit code of zero means that all of them
  were sent and each upload was answered with success, and its wait for the unit ends.
\<close>

section \<open>The order of the scripts\<close>

text \<open>A program sends a prefix of a plan, and all of it when its result is one of \<open>ok\<close>.\<close>

definition sends_of :: "string list \<Rightarrow> ('a \<Rightarrow> bool) \<Rightarrow> 'a net_eff \<Rightarrow> bool" where
  "sends_of plan ok m \<longleftrightarrow> (\<forall>s r s'. m s = (r, s') \<longrightarrow>
     (\<exists>k. commands (w_acts s') = commands (w_acts s) @ map WinrmRun (take k plan) \<and> (\<forall>x. r = Inr x \<longrightarrow> ok x \<longrightarrow> length plan \<le> k)))"

lemma sends_ofI:
  assumes "\<And>s r s'. m s = (r, s') \<Longrightarrow> \<exists>k. commands (w_acts s') = commands (w_acts s) @ map WinrmRun (take k plan)
     \<and> (\<forall>x. r = Inr x \<longrightarrow> ok x \<longrightarrow> length plan \<le> k)"
  shows "sends_of plan ok m"
  using assms by (simp add: sends_of_def)

lemma sends_ofD:
  assumes "sends_of plan ok m" and "m s = (r, s')"
  obtains k where "commands (w_acts s') = commands (w_acts s) @ map WinrmRun (take k plan)"
    and "\<And>x. r = Inr x \<Longrightarrow> ok x \<Longrightarrow> length plan \<le> k"
  using assms unfolding sends_of_def by blast

lemma plan_nothing: "only_acts silent m \<Longrightarrow> sends_of [] ok m"
  by (rule sends_ofI) (auto dest!: only_actsD grown_silent)

lemma plan_one: "sends_of [script] ok (run_interruptible N script)"
  by (rule sends_ofI, rule exI [of _ 1])
     (auto simp: run_interruptible_def call_def seqM_def bindM_def query_def emit_def is_command_def split: sum.splits prod.splits)

text \<open>What follows sends its own plan after a good result, and nothing else after another.\<close>

lemma plan_bind:
  assumes m: "sends_of p ok m" and good: "\<And>x. ok x \<Longrightarrow> sends_of q ok' (f x)"
    and bad: "\<And>s x s'. m s = (Inr x, s') \<Longrightarrow> \<not> ok x
      \<Longrightarrow> only_acts silent (f x) \<and> (\<forall>s y s'. f x s = (Inr y, s') \<longrightarrow> \<not> ok' y)"
  shows "sends_of (p @ q) ok' (bindM m f)"
proof (rule sends_ofI)
  fix s r s'
  assume r: "bindM m f s = (r, s')"
  obtain r1 s1 where m1: "m s = (r1, s1)" by fastforce
  from sends_ofD [OF m m1] obtain k where k: "commands (w_acts s1) = commands (w_acts s) @ map WinrmRun (take k p)"
    and full: "\<And>x. r1 = Inr x \<Longrightarrow> ok x \<Longrightarrow> length p \<le> k" by blast
  show "\<exists>k. commands (w_acts s') = commands (w_acts s) @ map WinrmRun (take k (p @ q))
     \<and> (\<forall>x. r = Inr x \<longrightarrow> ok' x \<longrightarrow> length (p @ q) \<le> k)"
  proof (cases r1)
    case (Inl e)
    then show ?thesis using r m1 k by (intro exI [of _ "min k (length p)"]) (auto simp: bindM_def min_def)
  next
    case (Inr x)
    then have fx: "f x s1 = (r, s')" using r m1 by (simp add: bindM_def)
    show ?thesis
    proof (cases "ok x")
      case True
      from sends_ofD [OF good [OF True] fx] obtain j where "commands (w_acts s') = commands (w_acts s1) @ map WinrmRun (take j q)"
        and "\<And>y. r = Inr y \<Longrightarrow> ok' y \<Longrightarrow> length q \<le> j" by blast
      then show ?thesis using k full [OF Inr True] by (intro exI [of _ "length p + j"]) auto
    next
      case False
      have b: "only_acts silent (f x) \<and> (\<forall>s y s'. f x s = (Inr y, s') \<longrightarrow> \<not> ok' y)"
        using bad [OF _ False, of s s1] m1 Inr by simp
      then have none: "only_acts silent (f x)" and "\<And>y. r = Inr y \<Longrightarrow> \<not> ok' y" using fx by blast+
      moreover from grown_silent [OF only_actsD [OF none fx]] have "commands (w_acts s') = commands (w_acts s1)" .
      ultimately show ?thesis using k by (intro exI [of _ "min k (length p)"]) (auto simp: min_def)
    qed
  qed
qed

lemma plan_after: "only_acts silent m \<Longrightarrow> (\<And>x. sends_of q ok (f x)) \<Longrightarrow> sends_of q ok (bindM m f)"
  using plan_bind [of "[]" "\<lambda>_. True" m q ok f] by (simp add: plan_nothing)

lemma plan_seq: "only_acts silent m \<Longrightarrow> sends_of q ok n \<Longrightarrow> sends_of q ok (seqM m n)"
  unfolding seqM_def by (rule plan_after)

lemma plan_prod: "(\<And>a b. sends_of q ok (f a b)) \<Longrightarrow> sends_of q ok (case p of (a, b) \<Rightarrow> f a b)"
  by (cases p) simp

lemma plan_then: "sends_of p (\<lambda>_. True) m \<Longrightarrow> (\<And>x. sends_of q ok (f x)) \<Longrightarrow> sends_of (p @ q) ok (bindM m f)"
  by (rule plan_bind) auto

lemma plan_more: "sends_of p (\<lambda>_. True) m \<Longrightarrow> sends_of p ok m"
  unfolding sends_of_def by blast

lemma silent_kinds [simp]: "\<not> is_command (Ping h u)" "\<not> is_command (LogLine t)" "\<not> is_command (LogRaw t)"
  by (simp_all add: is_command_def)

lemma silent_notes [acts]: "only_acts silent (obs q t)" "only_acts silent (failed_rc r)" "only_acts silent (show_response r)"
  "only_acts silent (clock N)" "only_acts silent (log_line t)" "only_acts silent (wait_failed E e)"
  unfolding obs_def failed_rc_def show_response_def clock_def log_line_def wait_failed_def Let_def
  by (intro acts; simp)+

lemma silent_try [acts]: "only_acts silent (try_users N E quiet host t0 all l us)"
  by (induction us arbitrary: l; simp; intro acts; simp)

lemma silent_wait [acts]: "only_acts silent (wait_ready N E quiet host raw t poll)"
  unfolding wait_ready_def wait_ready_body_def open_session_def sleep_for_def Let_def
  by (intro acts; simp)

lemma failed_rc_result: "failed_rc r s = (Inr f, s') \<Longrightarrow> f = None \<and> status_code r = 0 \<or> f = Some (status_code r) \<and> status_code r \<noteq> 0"
  by (auto simp: failed_rc_def seqM_def bindM_def split: if_splits prod.splits sum.splits)

lemma plan_none:
  assumes "only_acts silent m" and "\<And>s x s'. m s = (Inr x, s') \<Longrightarrow> \<not> ok x"
  shows "sends_of p ok m"
proof (rule sends_ofI)
  fix s r s'
  assume r: "m s = (r, s')"
  from grown_silent [OF only_actsD [OF assms(1) r]] assms(2) r
  show "\<exists>k. commands (w_acts s') = commands (w_acts s) @ map WinrmRun (take k p) \<and> (\<forall>x. r = Inr x \<longrightarrow> ok x \<longrightarrow> length p \<le> k)"
    by (intro exI [of _ 0]) auto
qed

lemma upload_failed: "upload_chunks N q n i chunks s = (Inr (Some rc), s') \<Longrightarrow> rc \<noteq> 0"
proof (induction chunks arbitrary: i s)
  case (Cons ch chunks)
  then obtain r f s1 s2 where f: "failed_rc r s1 = (Inr f, s2)"
    and rest: "(case f of Some rc \<Rightarrow> ret (Some rc) | None \<Rightarrow> upload_chunks N q n (Suc i) chunks) s2 = (Inr (Some rc), s')"
    by (simp add: seqM_Inr_iff bindM_Inr_iff) blast
  from failed_rc_result [OF f] rest Cons.IH show ?case by (auto split: option.splits)
qed simp

lemma plan_checked:
  assumes "sends_of q ok (f None)" and "\<And>rc s y s'. rc \<noteq> 0 \<Longrightarrow> f (Some rc) s = (Inr y, s') \<Longrightarrow> \<not> ok y"
    and "\<And>rc. only_acts silent (f (Some rc))"
  shows "sends_of q ok (bindM (failed_rc r) f)"
proof -
  have "sends_of ([] @ q) ok (bindM (failed_rc r) f)"
    using assms by (intro plan_bind [where ok = "\<lambda>x. x = None"]) (auto dest: failed_rc_result intro: plan_nothing silent_notes)
  then show ?thesis by simp
qed

lemma plan_upload: "sends_of (map append_text chunks) (\<lambda>f. f = None) (upload_chunks N q n i chunks)"
proof (induction chunks arbitrary: i)
  case (Cons ch chunks)
  have "sends_of ([append_text ch] @ map append_text chunks) (\<lambda>f. f = None) (upload_chunks N q n i (ch # chunks))"
    unfolding upload_chunks.simps
  proof (intro plan_seq plan_then plan_one plan_checked)
    show "sends_of (map append_text chunks) (\<lambda>f. f = None) (case None of None \<Rightarrow> upload_chunks N q n (i + 1) chunks | Some rc \<Rightarrow> ret (Some rc))"
      using Cons by simp
  qed (auto intro!: acts)
  then show ?case by simp
qed (simp add: plan_nothing acts)

lemma plan_listing: "sends_of [listing_text] ok (list_guest_runs N E q)"
proof (rule sends_ofI)
  fix s r s'
  assume r: "list_guest_runs N E q s = (r, s')"
  let ?m = "bindM (run_interruptible N listing_text) show_response"
  have m: "commands (w_acts (snd (?m s))) = commands (w_acts s) @ [WinrmRun listing_text]"
  proof (cases "run_interruptible N listing_text s")
    case (Pair a s1)
    then have "commands (w_acts s1) = commands (w_acts s) @ [WinrmRun listing_text]"
      by (auto simp: run_interruptible_def call_def seqM_def bindM_def query_def emit_def liftR_def is_command_def raise_def ret_def split: sum.splits)
    moreover have "commands (w_acts (snd (show_response x s1))) = commands (w_acts s1)" for x
      using silent_notes(3) [of x] by (metis grown_silent only_acts_def)
    ultimately show ?thesis using Pair by (cases a) (simp_all add: bindM_def)
  qed
  obtain a s1 where a: "attempt ?m s = (a, s1)" by fastforce
  have s1: "w_acts s1 = w_acts (snd (?m s))"
    using a by (cases "?m s") (auto simp: attempt_def catchM_def bindM_def [of ?m] split: sum.splits if_splits)
  define after where "after x = (case x of Inr u \<Rightarrow> ret ()
      | Inl e \<Rightarrow> obs q (''warning: failed to list guest remote-runs: '' @ te_repr E e))" for x :: "unit res"
  have silent: "only_acts silent (after x)" for x
    unfolding after_def by (intro acts)
  have "(case a of Inr x \<Rightarrow> after x s1 | Inl e \<Rightarrow> (Inl e, s1)) = (r, s')"
    using r a unfolding list_guest_runs_def after_def [symmetric] by (simp add: bindM_def [of "attempt ?m"])
  then have "commands (w_acts s') = commands (w_acts s1)"
    using grown_silent [OF only_actsD [OF silent]] by (cases a) auto
  then show "\<exists>k. commands (w_acts s') = commands (w_acts s) @ map WinrmRun (take k [listing_text]) \<and> (\<forall>x. r = Inr x \<longrightarrow> ok x \<longrightarrow> length [listing_text] \<le> k)"
    using m s1 by (intro exI [of _ 1]) simp
qed

section \<open>The whole run\<close>

definition effective_id :: "tool_env \<Rightarrow> tool_args \<Rightarrow> string" where
  "effective_id E args = (let t = strip (ta_run_id args) in if t = [] then te_uuid E else t)"

definition invocation :: "tool_env \<Rightarrow> tool_args \<Rightarrow> string" where
  "invocation E args =
     (let ia = strip (ta_invoke_args args) in
      build_remote_invoke (if ia = [] then [] else '' '' @ ia) (effective_id E args) (ta_script args) (\<not> ta_no_transcript args))"

definition script_plan :: "tool_env \<Rightarrow> tool_args \<Rightarrow> string list" where
  "script_plan E args =
     (case te_disk E (ta_script args) of
        None \<Rightarrow> []
      | Some raw \<Rightarrow> [clear_text] @ map append_text (script_chunks raw) @ [invocation E args]
                     @ (if ta_show_runs args then [listing_text] else []))"

lemma plan_run: "sends_of ([invocation E args] @ (if ta_show_runs args then [listing_text] else [])) ok
    (run_uploaded N E args start (effective_id E args))"
proof -
  have listing: "sends_of (if ta_show_runs args then [listing_text] else []) (\<lambda>_. True) (whenM (ta_show_runs args) (list_guest_runs N E q))" for q
    by (simp add: whenM_def plan_listing plan_nothing acts)
  have "sends_of ([invocation E args] @ (if ta_show_runs args then [listing_text] else []) @ []) ok
      (run_uploaded N E args start (effective_id E args))"
    unfolding run_uploaded_def invocation_def Let_def
    unfolding seqM_def [of "whenM (ta_show_runs args) m" for m]
    by (intro plan_seq plan_after plan_then plan_one listing plan_nothing) (intro acts)+
  then show ?thesis by simp
qed

definition code_zero :: "int \<times> 'f \<Rightarrow> bool" where
  "code_zero cf \<longleftrightarrow> fst cf = 0"

lemma plan_script:
  "sends_of ([clear_text] @ map append_text chunks @ [invocation E args] @ (if ta_show_runs args then [listing_text] else [])) code_zero
     (send_script N E args start (effective_id E args) chunks)"
proof -
  define tail where "tail = [invocation E args] @ (if ta_show_runs args then [listing_text] else [])"
  define run where "run = (\<lambda>u. bindM (clock N) (\<lambda>now.
      seqM (obs (ta_quiet args) (''upload done in '' @ te_secs E (now - u) @ ''s'')) (run_uploaded N E args start (effective_id E args))))"
  define up where "up = (\<lambda>u. bindM (upload_chunks N (ta_quiet args) (length chunks) 0 chunks)
      (\<lambda>f. case f of Some rc \<Rightarrow> ret (rc, None) | None \<Rightarrow> run u))"
  have "sends_of tail code_zero (run u)" for u
    unfolding run_def tail_def by (intro plan_after plan_seq plan_run acts)
  then have up: "sends_of (map append_text chunks @ tail) code_zero (up u)" for u
    unfolding up_def
    by (intro plan_bind [OF plan_upload]) (auto simp: code_zero_def only_basic dest: upload_failed)
  have rest: "sends_of (map append_text chunks @ tail) code_zero (case None of Some rc \<Rightarrow> ret (rc, None) | None \<Rightarrow> bindM (clock N) up)"
    using plan_after [OF silent_notes(4) up] by simp
  have "sends_of ([clear_text] @ map append_text chunks @ tail) code_zero
     (bindM (run_interruptible N clear_text) (\<lambda>r. bindM (failed_rc r)
        (\<lambda>f. case f of Some rc \<Rightarrow> ret (rc, None) | None \<Rightarrow> bindM (clock N) up)))"
    by (intro plan_then plan_one plan_checked rest) (auto simp: code_zero_def intro!: acts)
  from plan_seq [OF silent_notes(1) this] show ?thesis
    unfolding send_script_def Let_def up_def run_def tail_def .
qed

lemma wait_failed_code: "wait_failed E e s = (Inr c, s') \<Longrightarrow> c \<noteq> 0"
  by (auto simp: wait_failed_def Let_def seqM_Inr_iff split: if_splits)

lemma plan_main:
  "sends_of (script_plan E args) (\<lambda>r. case r of None \<Rightarrow> False | Some cf \<Rightarrow> code_zero cf \<and> te_disk E (ta_script args) \<noteq> None)
     (remote_main N E args)"
proof (cases "te_disk E (ta_script args)")
  case None
  then show ?thesis
    by (intro plan_none) (auto simp: remote_main_def seqM_Inr_iff intro!: acts)
next
  case (Some raw)
  show ?thesis
  proof (cases "te_disk E (ta_vault args)")
    case None
    then show ?thesis
      using Some by (intro plan_none) (auto simp: remote_main_def seqM_Inr_iff code_zero_def intro!: acts)
  next
    case vault: (Some vault)
    define ok where "ok = (\<lambda>r :: (int \<times> (string \<times> string) option) option. case r of None \<Rightarrow> False | Some cf \<Rightarrow> code_zero cf)"
    define sent where "sent start = bindM (send_script N E args start (effective_id E args) (script_chunks raw)) (\<lambda>result. ret (Some result))" for start
    have "sends_of (script_plan E args @ []) ok (sent start)" for start
      unfolding sent_def script_plan_def Some option.case
      by (rule plan_bind [OF plan_script]) (auto simp: ok_def intro!: acts plan_nothing)
    then have sent: "sends_of (script_plan E args) ok (sent start)" for start by simp
    define ready where "ready u = catchM (bindM (wait_ready N E (ta_quiet args) (ta_host args) u (ta_wait_s args) (ta_poll args)) (\<lambda>u. ret (Inr u)))
                   (\<lambda>e. bindM (wait_failed E e) (\<lambda>c. ret (Inl c)))" for u
    define whole where "whole u start = bindM (ready u) (\<lambda>ready.
          case ready of Inl c \<Rightarrow> ret (Some (c, None)) | Inr None \<Rightarrow> ret None | Inr (Some usr) \<Rightarrow> sent start)" for u start
    have "sends_of ([] @ script_plan E args) ok (whole u start)" for u start
      unfolding whole_def
    proof (rule plan_bind [where ok = "\<lambda>x. \<exists>usr. x = Inr (Some usr)"])
      show "sends_of [] (\<lambda>x. \<exists>usr. x = Inr (Some usr)) (ready u)"
        unfolding ready_def by (intro plan_nothing acts)
    next
      fix x s s'
      assume "ready u s = (Inr x, s')" "\<not> (\<exists>usr. x = Inr (Some usr))"
      then show "only_acts silent (case x of Inl c \<Rightarrow> ret (Some (c, None)) | Inr None \<Rightarrow> ret None | Inr (Some usr) \<Rightarrow> sent start)
         \<and> (\<forall>s y s'. (case x of Inl c \<Rightarrow> ret (Some (c, None)) | Inr None \<Rightarrow> ret None | Inr (Some usr) \<Rightarrow> sent start) s = (Inr y, s') \<longrightarrow> \<not> ok y)"
        by (cases x) (auto simp: ready_def ok_def code_zero_def catchM_def bindM_Inr_iff intro!: acts
             split: sum.splits prod.splits option.splits dest: wait_failed_code)
    qed (auto intro: sent)
    then have "sends_of (script_plan E args) ok (remote_main N E args)"
      unfolding remote_main_def Some vault option.case Let_def effective_id_def [symmetric, unfolded Let_def] sent_def [symmetric] ready_def [symmetric] whole_def [symmetric]
      by (intro plan_after plan_prod plan_seq acts) simp
    moreover have "ok = (\<lambda>r. case r of None \<Rightarrow> False | Some cf \<Rightarrow> code_zero cf \<and> te_disk E (ta_script args) \<noteq> None)"
      using Some by (simp add: ok_def fun_eq_iff split: option.split)
    ultimately show ?thesis by simp
  qed
qed

lemma zero_needs_script: "remote_main N E args s = (Inr (Some (0, f)), s') \<Longrightarrow> te_disk E (ta_script args) \<noteq> None"
  by (rule notI) (auto simp: remote_main_def seqM_Inr_iff)

lemma chunks_of_script:
  "b64decode (concat (script_chunks raw)) = Some raw"
  "list_all (\<lambda>ch. length ch \<le> CHUNK \<and> ps_escape ch = ch) (script_chunks raw)"
proof -
  have "ps_escape c = c" if "apostrophe \<notin> set c" for c
    using that by (induction c) (auto simp: ps_escape_def)
  then show "list_all (\<lambda>ch. length ch \<le> CHUNK \<and> ps_escape ch = ch) (script_chunks raw)"
    using chunks_of_size [of _ CHUNK "b64encode raw"] b64encode_plain [of raw] by (fastforce simp: script_chunks_def list_all_iff)
qed (simp add: script_chunks_def concat_chunks_of CHUNK_def b64_round_trip)

text \<open>C30: The tool sends the unit a prefix of one plan, whatever the network answers: the temporary file
  cleared, the chunks of the script appended in order, the script run, the listing if it was asked for.
  It ends with code 0 only when the whole plan was sent, and then the chunks the unit appended, none of
  which holds a quote, decode to the script on disk.\<close>

theorem remote_script_sent:
  "case remote_main N E args s of (r, s') \<Rightarrow>
     \<exists>k. commands (w_acts s') = commands (w_acts s) @ map WinrmRun (take k (script_plan E args)) \<and>
       (case r of
          Inr (Some (c, f)) \<Rightarrow>
            (if c = 0
             then length (script_plan E args) \<le> k
               \<and> (\<exists>raw. te_disk E (ta_script args) = Some raw \<and> b64decode (concat (script_chunks raw)) = Some raw
                    \<and> list_all (\<lambda>ch. length ch \<le> CHUNK \<and> ps_escape ch = ch) (script_chunks raw))
             else True)
        | _ \<Rightarrow> True)"
proof (cases "remote_main N E args s")
  case (Pair r s')
  from sends_ofD [OF plan_main Pair] obtain k
    where k: "commands (w_acts s') = commands (w_acts s) @ map WinrmRun (take k (script_plan E args))"
      and full: "\<And>x. r = Inr x \<Longrightarrow> (case x of None \<Rightarrow> False | Some cf \<Rightarrow> code_zero cf \<and> te_disk E (ta_script args) \<noteq> None)
         \<Longrightarrow> length (script_plan E args) \<le> k" by blast
  have "length (script_plan E args) \<le> k \<and> (\<exists>raw. te_disk E (ta_script args) = Some raw)" if "r = Inr (Some (0, f))" for f
    using full [OF that] zero_needs_script [of N E args s f s'] Pair that by (auto simp: code_zero_def)
  then show ?thesis
    using k chunks_of_script by (auto simp: Pair intro!: exI [of _ k] split: sum.split option.split)
qed

section \<open>The wait ends\<close>

lemma going_sleep:
  "step \<le> d \<Longrightarrow> T0 \<le> T \<Longrightarrow> T0 < deadline
    \<Longrightarrow> going T (\<lambda>a s'. T0 + step \<le> w_now s' \<and> T0 < deadline) (seqM (sleep_for d) (ret (Inl a)))"
  unfolding sleep_for_def
  by (auto simp: going_def pause_def seqM_def bindM_def emit_def)

lemma passes_notes [timely]: "passes (obs q t)" "passes (call N (Ping h u) r)"
  unfolding obs_def by (intro timely)+

lemma passes_try [timely]: "passes (try_users N E quiet host t0 all l us)"
  by (induction us arbitrary: l; simp; intro timely; simp)

lemma passes_open [timely]: "passes (open_session N E quiet host raw)"
  unfolding open_session_def Let_def by (intro timely)

lemma wait_ready_body_goes_on:
  "going T (\<lambda>n s'. T + min poll (ns div 5) \<le> w_now s' \<and> T < deadline) (wait_ready_body N E quiet host raw t poll deadline n)"
  unfolding wait_ready_body_def Let_def
  by (intro going_clock going_if going_bind goings going_sleep going_seq timely) auto

interpretation unit_ready: timed_loop "wait_ready_body N E quiet host raw t (int p + 1) deadline" w_now "min (int p + 1) (ns div 5)" deadline "\<lambda>_. True"
  for N E quiet host raw t p deadline
  by unfold_locales (auto dest!: goingD [OF wait_ready_body_goes_on] simp: ns_def)

lemma wait_ready_ends: "fst (wait_ready N E quiet host raw t (int p + 1, label) s) \<noteq> Inr None"
proof (cases "t \<le> 0")
  case True
  then show ?thesis
    by (auto simp: wait_ready_def bindM_def split: sum.splits prod.splits)
next
  case False
  let ?step = "min (int p + 1) (ns div 5)" and ?now = "w_now (snd (clock N s))"
  define s1 where "s1 = snd (obs quiet (''Waiting up to '' @ int_str t @ ''s for WinRM on '' @ repr_str host
                @ '':5985 (poll every '' @ label @ ''s; unit may still be booting)...'') (snd (clock N s)))"
  have obs: "obs q m u = (Inr (), snd (obs q m u)) \<and> w_now (snd (obs q m u)) = w_now u" for q m u
    by (simp add: obs_def whenM_def log_line_def emit_def)
  have run: "wait_ready N E quiet host raw t (int p + 1, label) s
      = loop_within (ready_fuel t (int p + 1)) (wait_ready_body N E quiet host raw t (int p + 1) (?now + t * ns)) 0 s1"
    unfolding wait_ready_def seqM_def bindM_def [of "clock N"] bindM_def [of "obs q m" for q m]
    using False by (subst clock_run) (simp, subst obs, simp add: s1_def)
  have "0 < ?step" by (simp add: ns_def)
  have "x \<le> (x div d + 1) * d" if "0 < d" for x d :: int
    using div_mult_mod_eq [of x d] pos_mod_bound [OF that, of x] by (simp only: distrib_right mult_1)
  with \<open>0 < ?step\<close> have "x \<le> (x div ?step + 1) * ?step" for x by blast
  moreover have "w_now s1 = ?now" using obs by (simp add: s1_def)
  moreover have "0 \<le> t * ns div ?step" using False \<open>0 < ?step\<close> by (simp add: ns_def pos_imp_zdiv_nonneg_iff)
  ultimately show ?thesis
    unfolding run
    by (intro unit_ready.ends [where k = "nat (t * ns div ?step + 1)", THEN conjunct1]) (auto simp: ready_fuel_def)
qed

text \<open>C32: With a positive poll interval the tool always ends: whatever the unit answers and however long
  its wait was asked to be, the wait is over within the passes the model allows.\<close>

theorem remote_script_ends:
  assumes "0 < fst (ta_poll args)"
  shows "fst (remote_main N E args s) \<noteq> Inr None"
proof -
  define p where "p = nat (fst (ta_poll args) - 1)"
  have poll: "ta_poll args = (int p + 1, snd (ta_poll args))"
    using assms by (simp add: p_def prod_eq_iff)
  have ready: "wait_ready N E q h u t (ta_poll args) v \<noteq> (Inr None, v')" for q h u t v v'
    using wait_ready_ends [of N E q h u t p "snd (ta_poll args)" v] unfolding poll [symmetric] by auto
  have "remote_main N E args s \<noteq> (Inr None, s')" for s'
    using ready
    by (auto simp: remote_main_def seqM_Inr_iff bindM_Inr_iff Let_def catchM_def bindM_def [of "wait_ready N E q h u t l" for q h u t l]
        split: option.splits sum.splits prod.splits)
  then show ?thesis by (metis prod.collapse)
qed

definition ex_tool_args :: tool_args where
  "ex_tool_args = \<lparr>ta_host = ''mast01'', ta_script = ''client/x.ps1'', ta_vault = ''vault/creds.json'', ta_invoke_args = [],
     ta_quiet = False, ta_run_id = [], ta_no_transcript = False, ta_local_meta = [], ta_show_runs = True, ta_wait_s = 900,
     ta_poll = (5 * ns, ''5.0'')\<rparr>"

definition ex_tool :: tool_env where
  "ex_tool = \<lparr>te_disk = \<lambda>p. Some (if p = ''vault/creds.json''
       then json_dumps (JObj [(''unit'', JObj [(''user'', JStr ''mast''), (''pass'', JStr ''p'')])]) else ''exit 0''),
     te_uuid = ''0'', te_repr = exc_name, te_text = exc_name, te_secs = (\<lambda>t. int_str (t div ns)),
     te_round3 = (\<lambda>t. int_str (t div ns) @ ''.0''), te_utc = nat_str\<rparr>"

lemma remote_script_ends_witness: "fst (remote_main quiet_net ex_tool ex_tool_args fresh_wire) \<noteq> Inr None"
  by (rule remote_script_ends) (simp add: ex_tool_args_def ns_def)

end
