(* ===== verification/Solve_Check.thy ===== *)
theory Solve_Check
  imports Os_Feed
begin

text \<open>
  \<open>src/server/providers/mast-validation/validate_mastrometry.py\<close>: the validation that a unit's own code
  solves a frame. The unit's modules, the drives and the files are parameters; what is printed is a list
  of lines without the tracebacks.
\<close>

section \<open>The unit\<close>

text \<open>\<open>result\<close> of the solver as \<open>getattr\<close> reads it: an attribute it lacks is none.\<close>

record solution =
  so_ra :: string
  so_dec :: string
  so_matched :: string

record solve_result =
  sr_succeeded :: "bool option"
  sr_errors :: "string list option"
  sr_solution :: "solution option"

record solve_env =
  sv_text :: "pyexc \<Rightarrow> string"
  sv_config_module :: "unit res"
  sv_config :: "(string \<times> string \<times> string) res"   \<comment> \<open>controller, site and database of the configuration\<close>
  sv_exists :: "string \<Rightarrow> bool"
  sv_drives :: "string list res"
  sv_index_files :: "string \<Rightarrow> string list"        \<comment> \<open>\<open>index-*.fits\<close> in a directory\<close>
  sv_modules :: "unit res"
  sv_solver :: "unit res"
  sv_solve :: "string \<Rightarrow> solve_result option res"

record solve_args =
  sg_fits :: string
  sg_smoke_file :: string
  sg_allow_missing_avx :: bool

text \<open>The exit code, the lines and the marker that was written.\<close>

record solve_run =
  rn_code :: int
  rn_lines :: "string list"
  rn_smoke :: "(string \<times> string) option"

definition failed_with :: "string list \<Rightarrow> solve_run" where
  "failed_with lines = \<lparr>rn_code = 1, rn_lines = lines, rn_smoke = None\<rparr>"

section \<open>Preconditions\<close>

definition resolve_controller :: "solve_env \<Rightarrow> bool \<times> string \<times> string" where
  "resolve_controller V =
     (case sv_config_module V of
        Inl e \<Rightarrow> (False, [], ''import_failed ('' @ sv_text V e @ '')'')
      | Inr u \<Rightarrow>
          (case sv_config V of
             Inl e \<Rightarrow> (False, [], exc_name e @ '' ('' @ sv_text V e @ '')'')
           | Inr (controller, site, uri) \<Rightarrow> (True, controller, ''site='' @ site @ '' mongo_uri='' @ uri)))"

definition index_dir :: "string list \<Rightarrow> string" where
  "index_dir drives = (if ''D:'' @ [CHR 92] \<in> set drives then ''D:'' else ''C:'') @ [CHR 92] @ ''mast-indexes''"

definition has_ramdisk_indexes :: "solve_env \<Rightarrow> bool \<times> string" where
  "has_ramdisk_indexes V =
     (case sv_drives V of
        Inl e \<Rightarrow> (False, ''no_pywin32 ('' @ sv_text V e @ '')'')
      | Inr drives \<Rightarrow>
          (let candidate = index_dir drives in
           if \<not> sv_exists V candidate then (False, ''no_index_dir ('' @ candidate @ '')'')
           else if sv_index_files V candidate = [] then (False, ''no_index_files ('' @ candidate @ '')'')
           else (True, ''using '' @ candidate)))"

section \<open>Corrupt index files\<close>

text \<open>\<open>Failed to add index\s+"([^"]+)"\<close> at the head of a text: the group and the rest.\<close>

definition match_add :: "string \<Rightarrow> (string \<times> string) option" where
  "match_add s =
     (case take_prefix ''Failed to add index'' s of
        None \<Rightarrow> None
      | Some r \<Rightarrow>
          (case dropWhile is_space r of
             [] \<Rightarrow> None
           | q # body \<Rightarrow>
               (let path = takeWhile (\<lambda>c. c \<noteq> CHR 34) body; rest = dropWhile (\<lambda>c. c \<noteq> CHR 34) body in
                if r = q # body \<or> q \<noteq> CHR 34 \<or> path = [] \<or> rest = [] then None else Some (path, tl rest))))"

text \<open>\<open>Failed to load index from path\s+(\S+)\<close>.\<close>

definition match_load :: "string \<Rightarrow> (string \<times> string) option" where
  "match_load s =
     (case take_prefix ''Failed to load index from path'' s of
        None \<Rightarrow> None
      | Some r \<Rightarrow>
          (let body = dropWhile is_space r in
           if r = body \<or> body = [] then None
           else Some (takeWhile (\<lambda>c. \<not> is_space c) body, dropWhile (\<lambda>c. \<not> is_space c) body)))"

text \<open>\<open>re.findall\<close>: every match that begins after the one before; \<open>fuel\<close> is the length of the text.\<close>

fun find_all :: "(string \<Rightarrow> (string \<times> string) option) \<Rightarrow> nat \<Rightarrow> string \<Rightarrow> string list" where
  "find_all m 0 s = []"
| "find_all m (Suc n) [] = []"
| "find_all m (Suc n) (c # s) =
     (case m (c # s) of None \<Rightarrow> find_all m n s | Some (g, rest) \<Rightarrow> g # find_all m n rest)"

definition corrupt_files :: "string \<Rightarrow> string list" where
  "corrupt_files t = sorted_set (find_all match_add (length t) t @ find_all match_load (length t) t)"

definition cpu_crash :: "string \<Rightarrow> bool" where
  "cpu_crash t \<longleftrightarrow> fst (snd (partition_str ''killed by signal 4'' t)) \<noteq> [] \<or> fst (snd (partition_str ''SIGILL'' t)) \<noteq> []"

section \<open>The verdict\<close>

definition none_or :: "string option \<Rightarrow> string" where
  "none_or t = (case t of None \<Rightarrow> ''None'' | Some s \<Rightarrow> s)"

definition errors_of :: "solve_result option \<Rightarrow> string list option" where
  "errors_of r = (case r of None \<Rightarrow> None | Some x \<Rightarrow> sr_errors x)"

definition error_text :: "solve_result option \<Rightarrow> string" where
  "error_text r = join '' '' (case errors_of r of None \<Rightarrow> [] | Some es \<Rightarrow> es)"

definition solved :: "solve_result option \<Rightarrow> bool" where
  "solved r \<longleftrightarrow> (case r of None \<Rightarrow> False | Some x \<Rightarrow> sr_succeeded x = Some True)"

definition skipped_body :: "string \<Rightarrow> string" where
  "skipped_body controller = ''mastrometry_ok solve=skipped reason=avx_missing controller='' @ controller"

definition solved_body :: "string \<Rightarrow> solve_result option \<Rightarrow> string" where
  "solved_body controller r =
     (let sol = (case r of None \<Rightarrow> None | Some x \<Rightarrow> sr_solution x) in
      ''mastrometry_ok solve=ok controller='' @ controller @ '' ra_hours='' @ none_or (map_option so_ra sol)
      @ '' dec_degs='' @ none_or (map_option so_dec sol) @ '' matched='' @ none_or (map_option so_matched sol))"

definition unsolved :: "solve_args \<Rightarrow> string \<Rightarrow> solve_result option \<Rightarrow> solve_run" where
  "unsolved A controller r =
     (let t = error_text r; corrupt = corrupt_files t in
      if corrupt \<noteq> [] then
        failed_with ([''FAIL: corrupt/unloadable astrometry index file(s) detected during the solve:'']
          @ map (\<lambda>p. ''  '' @ p) corrupt
          @ [''These files are corrupt (e.g. missing kdtree header) and must be rebuilt or ''
             @ ''replaced in the index image before re-running.''])
      else if sg_allow_missing_avx A \<and> cpu_crash t then
        \<lparr>rn_code = 0,
         rn_lines = [''WARN: solver crashed with signal 4 / SIGILL -- guest CPU lacks AVX/AVX2/FMA.'',
           ''WARN: --allow-missing-avx set (dev VM mode); treating mast-validation as SKIPPED.'',
           ''WARN: production runs on real MAST hardware MUST NOT pass --allow-missing-avx.'', skipped_body controller],
         rn_smoke = Some (sg_smoke_file A, skipped_body controller @ [CHR 10])\<rparr>
      else failed_with [''FAIL: solve did not converge. errors=''
             @ (case errors_of r of None \<Rightarrow> ''None'' | Some es \<Rightarrow> py_repr (JList (map JStr es)))])"

definition solve_frame :: "solve_env \<Rightarrow> solve_args \<Rightarrow> string \<Rightarrow> solve_run" where
  "solve_frame V A controller =
     (case sv_modules V of
        Inl e \<Rightarrow> failed_with [''FAIL: import error -- MAST_unit modules not loadable from venv'']
      | Inr u \<Rightarrow>
     (case sv_solver V of
        Inl e \<Rightarrow> failed_with [''FAIL: MastrometryDotNet() construction failed'']
      | Inr u \<Rightarrow>
     (case sv_solve V (sg_fits A) of
        Inl e \<Rightarrow> failed_with [''FAIL: solver.solve() raised'']
      | Inr r \<Rightarrow>
          if \<not> solved r then unsolved A controller r
          else \<lparr>rn_code = 0, rn_lines = [solved_body controller r],
                rn_smoke = Some (sg_smoke_file A, solved_body controller r @ [CHR 10])\<rparr>)))"

definition validate_main :: "solve_env \<Rightarrow> solve_args \<Rightarrow> solve_run" where
  "validate_main V A =
     (case resolve_controller V of
        (ctrl_ok, controller, detail) \<Rightarrow>
          if \<not> ctrl_ok then
            failed_with [''FAIL: could not resolve the controller from the unit'' @ [CHR 39] @ ''s config: '' @ detail
              @ ''. The solve reads the same config, so a run that cannot resolve it is not valid.'']
          else
            (let hello = ''controller='' @ controller @ '' ('' @ detail @ '')'';
                 run = (if \<not> sv_exists V (sg_fits A) then
                          failed_with [''FAIL: full-frame FITS not present at '' @ sg_fits A
                            @ ''. The smoke FITS must be staged to the unit; a run without a real solve is not valid.'']
                        else
                          (case has_ramdisk_indexes V of
                             (ok, reason) \<Rightarrow>
                               if \<not> ok then
                                 failed_with [''FAIL: astrometry indexes not available ('' @ reason
                                   @ ''). The index image must be staged and mounted (imdisk provider) before validation.'']
                               else solve_frame V A controller))
             in run\<lparr>rn_lines := hello # rn_lines run\<rparr>))"

section \<open>What a marker says\<close>

definition prerequisites :: "solve_env \<Rightarrow> solve_args \<Rightarrow> bool" where
  "prerequisites V A \<longleftrightarrow> fst (resolve_controller V) \<and> sv_exists V (sg_fits A) \<and> fst (has_ramdisk_indexes V)
     \<and> \<not> isl (sv_modules V) \<and> \<not> isl (sv_solver V)"

text \<open>The validation passes, and writes its marker, exactly when every precondition holds, the solver
  returned, and it either solved the frame or crashed for want of the processor's instructions where
  that is allowed and no index file was reported corrupt; the marker then says which.\<close>

lemma marker_exact:
  "(rn_code (validate_main V A) = 0) = (rn_smoke (validate_main V A) \<noteq> None)
   \<and> rn_smoke (validate_main V A) =
       (let controller = fst (snd (resolve_controller V)) in
        case sv_solve V (sg_fits A) of
          Inl e \<Rightarrow> None
        | Inr r \<Rightarrow>
            if \<not> prerequisites V A then None
            else if solved r then Some (sg_smoke_file A, solved_body controller r @ [CHR 10])
            else if sg_allow_missing_avx A \<and> cpu_crash (error_text r) \<and> corrupt_files (error_text r) = []
            then Some (sg_smoke_file A, skipped_body controller @ [CHR 10])
            else None)"
  by (auto simp: validate_main_def solve_frame_def unsolved_def failed_with_def prerequisites_def Let_def
      split: prod.splits sum.splits)

text \<open>An index file that the solver names first as one it could not load fails the validation, whatever
  escape was asked for.\<close>

lemma takeWhile_quote: "CHR 34 \<notin> set path \<Longrightarrow> takeWhile (\<lambda>c. c \<noteq> CHR 34) (path @ CHR 34 # rest) = path"
  and dropWhile_quote: "CHR 34 \<notin> set path \<Longrightarrow> dropWhile (\<lambda>c. c \<noteq> CHR 34) (path @ CHR 34 # rest) = CHR 34 # rest"
  by (induction path) auto

lemma match_add_named:
  "CHR 34 \<notin> set path \<Longrightarrow> path \<noteq> [] \<Longrightarrow> match_add (''Failed to add index'' @ CHR 32 # CHR 34 # path @ CHR 34 # rest) = Some (path, rest)"
  by (simp add: match_add_def take_prefix_def startswith_def is_space_def code_def takeWhile_quote dropWhile_quote)

lemma corrupt_index_fails:
  assumes "error_text r = ''Failed to add index'' @ CHR 32 # CHR 34 # path @ CHR 34 # rest" and "CHR 34 \<notin> set path" and "path \<noteq> []"
  shows "rn_code (unsolved A controller r) = 1 \<and> path \<in> set (corrupt_files (error_text r))"
proof -
  have "path \<in> set (find_all match_add (length (error_text r)) (error_text r))"
    using match_add_named [OF assms(2,3), of rest] unfolding assms(1) by simp
  then have "path \<in> set (corrupt_files (error_text r))" by (simp add: corrupt_files_def)
  then show ?thesis by (auto simp: unsolved_def failed_with_def Let_def)
qed

end
