(* ===== verification/Tree_Integrity.thy ===== *)
theory Tree_Integrity
  imports Git_Output
begin

text \<open>
  \<open>server/prov/tree_integrity.py\<close>: the files whose content is not what the commit says while
  \<open>git status\<close> reports nothing. Git is a parameter, and so are the bytes on disk under a path of
  the repository (none when there is no such file) and the digest of \<open>prov.hashing\<close>.
\<close>

section \<open>Reading git\<close>

definition LFS_POINTER_PREFIX :: string where "LFS_POINTER_PREFIX = ''version https://git-lfs''"

record divergence =
  dv_path :: string
  dv_reason :: string
  dv_detail :: string

definition divergence :: "string \<Rightarrow> string \<Rightarrow> string \<Rightarrow> divergence" where
  "divergence p reason detail = \<lparr>dv_path = p, dv_reason = reason, dv_detail = detail\<rparr>"

text \<open>\<open>except FileNotFoundError\<close>: git itself is not there.\<close>

definition git_missing :: pyexc where
  "git_missing = UserError ''FileNotFoundError'' ''git''"

definition NUL :: char where "NUL = CHR 0x00"

definition visible_paths :: "git \<Rightarrow> string list res" where
  "visible_paths git =
     bind_res (git [''status'', ''--porcelain'', ''-z''] None) (\<lambda>out.
       Inr (map (drop 3) (filter (\<lambda>entry. 3 < length entry) (split_on NUL out))))"

fun read_tree :: "string list \<Rightarrow> (string, string) dict \<Rightarrow> (string, string) dict res" where
  "read_tree [] blobs = Inr blobs"
| "read_tree (entry # entries) blobs =
     (if entry = [] then read_tree entries blobs
      else bind_res (split_once (CHR 9) entry) (\<lambda>(meta, path).
           bind_res (split_once (CHR 32) meta) (\<lambda>(mode, rest).
           bind_res (split_once (CHR 32) rest) (\<lambda>(kind, oid).
             read_tree entries (if kind = ''blob'' then dict_set path oid blobs else blobs)))))"

definition head_blobs :: "git \<Rightarrow> (string, string) dict res" where
  "head_blobs git =
     bind_res (git [''ls-tree'', ''-r'', ''-z'', ''HEAD''] None) (\<lambda>out. read_tree (split_on NUL out) [])"

definition lfs_tracked :: "git \<Rightarrow> string list res" where
  "lfs_tracked git =
     (case git [''lfs'', ''ls-files'', ''-n''] None of
        Inr out \<Rightarrow> Inr (filter (\<lambda>l. l \<noteq> []) (splitlines out))
      | Inl e \<Rightarrow> if e = CalledProcessError \<or> e = git_missing then Inr [] else Inl e)"

section \<open>Ordinary files\<close>

definition content_detail :: "string \<Rightarrow> string \<Rightarrow> string" where
  "content_detail actual expected = ''on disk '' @ take 12 actual @ '', commit records '' @ take 12 expected"

text \<open>\<open>for path, actual in zip(paths, found, strict=True)\<close>.\<close>

fun compare_blobs :: "(string, string) dict \<Rightarrow> string list \<Rightarrow> string list \<Rightarrow> divergence list res" where
  "compare_blobs blobs [] [] = Inr []"
| "compare_blobs blobs (path # paths) (actual # found) =
     (case map_of blobs path of
        None \<Rightarrow> Inl KeyError
      | Some expected \<Rightarrow>
          bind_res (compare_blobs blobs paths found) (\<lambda>ds.
            Inr ((if actual \<noteq> expected then [divergence path ''content'' (content_detail actual expected)] else []) @ ds)))"
| "compare_blobs blobs _ _ = Inl ValueError"

definition check_ordinary :: "git \<Rightarrow> string list \<Rightarrow> (string, string) dict \<Rightarrow> divergence list res" where
  "check_ordinary git paths blobs =
     (if paths = [] then Inr []
      else bind_res (git [''hash-object'', ''--no-filters'', ''--stdin-paths''] (Some (join newline paths @ newline)))
             (\<lambda>out. compare_blobs blobs paths (split_ws out)))"

section \<open>Files git-LFS manages\<close>

definition pointers :: "git \<Rightarrow> string list \<Rightarrow> (string, string) dict res" where
  "pointers git paths =
     (if paths = [] then Inr []
      else bind_res (git [''cat-file'', ''--batch''] (Some (batch_request paths))) (\<lambda>out. read_batch out 0 paths []))"

definition is_hex :: "char \<Rightarrow> bool" where
  "is_hex c \<longleftrightarrow> is_digit c \<or> (97 \<le> code c \<and> code c \<le> 102)"

text \<open>\<open>_OID.search\<close> and \<open>_SIZE.search\<close>: the first line that is one.\<close>

definition oid_line :: "string \<Rightarrow> bool" where
  "oid_line l \<longleftrightarrow> startswith ''oid sha256:'' l \<and> length (drop 11 l) = 64 \<and> list_all is_hex (drop 11 l)"

definition size_line :: "string \<Rightarrow> bool" where
  "size_line l \<longleftrightarrow> startswith ''size '' l \<and> all_digits (drop 5 l)"

definition pointer_oid :: "string \<Rightarrow> string option" where
  "pointer_oid pointer = map_option (drop 11) (find oid_line (split_on (CHR 10) pointer))"

definition pointer_size :: "string \<Rightarrow> int option" where
  "pointer_size pointer = map_option (\<lambda>l. int (digits_val (drop 5 l))) (find size_line (split_on (CHR 10) pointer))"

definition check_lfs_path :: "(string \<Rightarrow> string option) \<Rightarrow> (string \<Rightarrow> string) \<Rightarrow> bool \<Rightarrow> (string, string) dict
    \<Rightarrow> string \<Rightarrow> divergence list" where
  "check_lfs_path disk sha thorough ps path =
     (case map_of ps path of
        None \<Rightarrow> []
      | Some pointer \<Rightarrow>
          (case (pointer_oid pointer, pointer_size pointer) of
             (Some want_oid, Some want_size) \<Rightarrow>
               (case disk path of
                  None \<Rightarrow> []
                | Some bytes \<Rightarrow>
                    if take (length LFS_POINTER_PREFIX) bytes = LFS_POINTER_PREFIX
                    then [divergence path ''lfs-pointer'' ''never smudged; still the pointer on disk'']
                    else if int (length bytes) \<noteq> want_size
                    then [divergence path ''lfs-size''
                            (nat_str (length bytes) @ '' bytes on disk, pointer says '' @ int_str want_size)]
                    else if thorough \<and> sha bytes \<noteq> want_oid
                    then [divergence path ''lfs-content''
                            (''sha256 '' @ take 12 (sha bytes) @ '', pointer says '' @ take 12 want_oid)]
                    else [])
           | _ \<Rightarrow> []))"

definition check_lfs :: "git \<Rightarrow> (string \<Rightarrow> string option) \<Rightarrow> (string \<Rightarrow> string) \<Rightarrow> bool \<Rightarrow> string list
    \<Rightarrow> divergence list res" where
  "check_lfs git disk sha thorough paths =
     bind_res (pointers git paths) (\<lambda>ps. Inr (concat (map (check_lfs_path disk sha thorough ps) paths)))"

section \<open>The check\<close>

text \<open>The tracked files that are on disk and that status does not report, in the order of their names.\<close>

definition unreported :: "(string \<Rightarrow> string option) \<Rightarrow> string list \<Rightarrow> (string, string) dict \<Rightarrow> string list" where
  "unreported disk visible blobs = filter (\<lambda>p. p \<notin> set visible \<and> disk p \<noteq> None) (sort (keys blobs))"

definition diverged_files :: "git \<Rightarrow> (string \<Rightarrow> string option) \<Rightarrow> (string \<Rightarrow> string) \<Rightarrow> bool \<Rightarrow> string list option
    \<Rightarrow> divergence list res" where
  "diverged_files git disk sha thorough lfs_paths =
     bind_res (visible_paths git) (\<lambda>visible.
     bind_res (head_blobs git) (\<lambda>blobs.
     bind_res (case lfs_paths of None \<Rightarrow> lfs_tracked git | Some ps \<Rightarrow> Inr ps) (\<lambda>lfs.
     let paths = unreported disk visible blobs;
         ordinary = filter (\<lambda>p. p \<notin> set lfs) paths;
         managed = filter (\<lambda>p. p \<in> set lfs) paths
     in bind_res (check_ordinary git ordinary blobs) (\<lambda>found.
        bind_res (check_lfs git disk sha thorough managed) (\<lambda>found_lfs. Inr (found @ found_lfs))))))"

section \<open>What the check finds\<close>

text \<open>What \<open>status --porcelain -z\<close> (without renames) and \<open>ls-tree -z\<close> are documented to print.\<close>

definition status_out :: "(string \<times> string) list \<Rightarrow> string" where
  "status_out changed = concat (map (\<lambda>(xy, p). xy @ '' '' @ p @ [NUL]) changed)"

type_synonym tree_entry = "string \<times> string \<times> string \<times> string"

definition tree_line :: "tree_entry \<Rightarrow> string" where
  "tree_line = (\<lambda>(mode, kind, oid, p). mode @ '' '' @ kind @ '' '' @ oid @ CHR 9 # p)"

definition tree_out :: "tree_entry list \<Rightarrow> string" where
  "tree_out entries = concat (map (\<lambda>e. tree_line e @ [NUL]) entries)"

definition clean_entry :: "tree_entry \<Rightarrow> bool" where
  "clean_entry = (\<lambda>(mode, kind, oid, p). NUL \<notin> set (mode @ kind @ oid @ p) \<and> CHR 10 \<notin> set p \<and> CHR 9 \<notin> set (mode @ kind @ oid)
     \<and> CHR 32 \<notin> set (mode @ kind))"

definition blobs_of :: "tree_entry list \<Rightarrow> (string, string) dict" where
  "blobs_of entries = map (\<lambda>(mode, kind, oid, p). (p, oid)) (filter (\<lambda>(mode, kind, oid, p). kind = ''blob'') entries)"

lemma split_on_records:
  "\<forall>e\<in>set es. sep \<notin> set e \<Longrightarrow> split_on sep (concat (map (\<lambda>e. e @ [sep]) es)) = es @ [[]]"
  by (induction es) (auto simp: split_on_append_sep)

lemma visible_paths_of:
  assumes "git [''status'', ''--porcelain'', ''-z''] None = Inr (status_out changed)"
    and "\<forall>(xy, p)\<in>set changed. length xy = 2 \<and> p \<noteq> [] \<and> NUL \<notin> set (xy @ p)"
  shows "visible_paths git = Inr (map snd changed)"
proof -
  let ?es = "map (\<lambda>(xy, p). xy @ '' '' @ p) changed"
  have out: "status_out changed = concat (map (\<lambda>e. e @ [NUL]) ?es)"
    by (simp add: status_out_def comp_def case_prod_unfold)
  have "\<forall>e\<in>set ?es. NUL \<notin> set e" using assms(2) by (auto simp: NUL_def)
  then have "split_on NUL (status_out changed) = ?es @ [[]]" unfolding out by (rule split_on_records)
  moreover have "map (drop 3) (filter (\<lambda>entry. 3 < length entry) ?es) = map snd changed"
    using assms(2) by (induction changed) auto
  ultimately show ?thesis by (simp add: visible_paths_def assms(1))
qed

lemma read_tree_lines:
  assumes "\<forall>e\<in>set entries. clean_entry e"
  shows "read_tree (map tree_line entries @ [[]]) blobs = Inr (dict_of_pairs (blobs_of entries) blobs)"
  using assms
proof (induction entries arbitrary: blobs)
  case (Cons e entries)
  obtain mode kind oid p where e: "e = (mode, kind, oid, p)" by (cases e)
  from Cons.prems have "clean_entry e" by simp
  then have c: "CHR 9 \<notin> set (mode @ '' '' @ kind @ '' '' @ oid)" "CHR 32 \<notin> set mode" "CHR 32 \<notin> set kind"
    by (auto simp: clean_entry_def e)
  have 1: "split_once (CHR 9) (tree_line e) = Inr (mode @ '' '' @ kind @ '' '' @ oid, p)"
    using split_once_append [OF c(1), of p] by (simp add: tree_line_def e)
  have 2: "split_once (CHR 32) (mode @ '' '' @ kind @ '' '' @ oid) = Inr (mode, kind @ '' '' @ oid)"
    using split_once_append [OF c(2)] by simp
  have 3: "split_once (CHR 32) (kind @ '' '' @ oid) = Inr (kind, oid)"
    using split_once_append [OF c(3)] by simp
  have ne: "tree_line e \<noteq> []" by (simp add: tree_line_def e)
  have "read_tree (map tree_line (e # entries) @ [[]]) blobs
      = read_tree (map tree_line entries @ [[]]) (if kind = ''blob'' then dict_set p oid blobs else blobs)"
    by (simp only: list.map append_Cons [of "tree_line e"] read_tree.simps ne if_False 1 2 3 bind_res_simps prod.case)
  moreover have "dict_of_pairs (blobs_of (e # entries)) blobs
      = dict_of_pairs (blobs_of entries) (if kind = ''blob'' then dict_set p oid blobs else blobs)"
    by (simp add: blobs_of_def e)
  ultimately show ?case using Cons by simp
qed (simp add: blobs_of_def)

lemma head_blobs_of:
  assumes "git [''ls-tree'', ''-r'', ''-z'', ''HEAD''] None = Inr (tree_out entries)"
    and "\<forall>e\<in>set entries. clean_entry e"
  shows "head_blobs git = Inr (dict_of_pairs (blobs_of entries) [])"
proof -
  have "\<forall>l\<in>set (map tree_line entries). NUL \<notin> set l"
    using assms(2) by (auto simp: clean_entry_def tree_line_def NUL_def)
  from split_on_records [OF this] have "split_on NUL (tree_out entries) = map tree_line entries @ [[]]"
    by (simp add: tree_out_def comp_def)
  then show ?thesis by (simp add: head_blobs_def assms(1) read_tree_lines [OF assms(2)])
qed

lemma compare_blobs_all:
  assumes "\<forall>p\<in>set paths. map_of blobs p = Some (expected p)"
  shows "compare_blobs blobs paths (map actual paths) = Inr (concat (map (\<lambda>p.
     if actual p \<noteq> expected p then [divergence p ''content'' (content_detail (actual p) (expected p))] else []) paths))"
  using assms by (induction paths) auto

lemma words_acc_word: "\<forall>c\<in>set w. \<not> is_space c \<Longrightarrow> words_acc (w @ s) v = words_acc s (rev w @ v)"
  by (induction w arbitrary: v) auto

definition hex_name :: "string \<Rightarrow> bool" where
  "hex_name h \<longleftrightarrow> h \<noteq> [] \<and> list_all is_hex h"

lemma split_ws_lines:
  assumes "\<forall>h\<in>set hs. hex_name h"
  shows "split_ws (concat (map (\<lambda>h. h @ newline) hs)) = hs"
  using assms
proof (induction hs)
  case (Cons h hs)
  then have "\<forall>c\<in>set h. \<not> is_space c" "h \<noteq> []"
    by (auto simp: hex_name_def list_all_iff is_hex_def is_digit_def is_space_def)
  from words_acc_word [OF this(1), of "newline @ concat (map (\<lambda>h. h @ newline) hs)" "[]"] this(2) Cons show ?case
    by (simp add: split_ws_def newline_def is_space_def code_def)
qed (simp add: split_ws_def)

lemma map_of_fold_objects:
  "map_of (fold (\<lambda>p d. case objects p of Some (oid, content) \<Rightarrow> dict_set p content d | None \<Rightarrow> d) paths blobs) p
     = (if p \<in> set paths \<and> objects p \<noteq> None then map_option snd (objects p) else map_of blobs p)"
  by (induction paths arbitrary: blobs) (auto split: option.splits)

text \<open>The pointer verifies the file on disk.\<close>

definition lfs_differs :: "(string \<Rightarrow> string) \<Rightarrow> bool \<Rightarrow> string \<Rightarrow> string \<Rightarrow> bool" where
  "lfs_differs sha thorough pointer bytes \<longleftrightarrow>
     (\<exists>want_oid want_size. pointer_oid pointer = Some want_oid \<and> pointer_size pointer = Some want_size
        \<and> (startswith LFS_POINTER_PREFIX bytes \<or> int (length bytes) \<noteq> want_size \<or> thorough \<and> sha bytes \<noteq> want_oid))"

lemma check_lfs_path_iff:
  "check_lfs_path disk sha thorough ps path = [] \<longleftrightarrow>
     \<not> (\<exists>pointer bytes. map_of ps path = Some pointer \<and> disk path = Some bytes \<and> lfs_differs sha thorough pointer bytes)"
  "set (map dv_path (check_lfs_path disk sha thorough ps path)) \<subseteq> {path}"
  by (auto simp: check_lfs_path_def lfs_differs_def startswith_def divergence_def split: option.splits if_splits)

lemma paths_of_concat:
  assumes "\<And>p. set (map dv_path (f p)) \<subseteq> {p}"
  shows "set (map dv_path (concat (map f paths))) = {p \<in> set paths. f p \<noteq> []}"
proof -
  have "f p \<noteq> [] \<Longrightarrow> p \<in> set (map dv_path (f p))" for p
    using assms [of p] by (cases "f p") auto
  with assms show ?thesis by fastforce
qed

text \<open>The paths that are compared, the object each has in the commit, and what the two checks say of one.\<close>

definition committed :: "(string \<Rightarrow> (string \<times> string) option) \<Rightarrow> string \<Rightarrow> string" where
  "committed objects p = fst (the (objects p))"

definition stored_entries :: "(string \<Rightarrow> (string \<times> string) option) \<Rightarrow> tree_entry list \<Rightarrow> bool" where
  "stored_entries objects entries \<longleftrightarrow>
     (\<forall>(p, oid)\<in>set (blobs_of entries). \<exists>content. objects p = Some (oid, content) \<and> plain_name oid)"

definition content_found :: "(string \<Rightarrow> string) \<Rightarrow> (string \<Rightarrow> string option) \<Rightarrow> (string \<Rightarrow> (string \<times> string) option)
    \<Rightarrow> string \<Rightarrow> divergence list" where
  "content_found blob_id disk objects p =
     (if blob_id (the (disk p)) \<noteq> committed objects p
      then [divergence p ''content'' (content_detail (blob_id (the (disk p))) (committed objects p))] else [])"

definition pointers_in :: "(string \<Rightarrow> (string \<times> string) option) \<Rightarrow> string list \<Rightarrow> (string, string) dict" where
  "pointers_in objects paths =
     fold (\<lambda>p d. case objects p of Some (oid, content) \<Rightarrow> dict_set p content d | None \<Rightarrow> d) paths []"

lemma stored_entry: "stored_entries objects entries \<Longrightarrow> (p, oid) \<in> set (blobs_of entries)
    \<Longrightarrow> oid = committed objects p \<and> (\<exists>content. objects p = Some (oid, content) \<and> plain_name oid)"
  by (fastforce simp: stored_entries_def committed_def)

lemma unreported_mem:
  "p \<in> set (unreported disk changed (dict_of_pairs bs [])) \<longleftrightarrow> (\<exists>oid. (p, oid) \<in> set bs) \<and> p \<notin> set changed \<and> disk p \<noteq> None"
proof -
  have "set (keys (dict_of_pairs bs [])) = fst ` set bs"
    using set_keys_dict_of_pairs [of bs "[]"] by (simp add: keys_def)
  then have "p \<in> set (keys (dict_of_pairs bs [])) \<longleftrightarrow> (\<exists>oid. (p, oid) \<in> set bs)" by force
  then show ?thesis by (simp add: unreported_def conj_ac)
qed

lemma stored_blob:
  assumes "stored_entries objects entries" and "(p, oid') \<in> set (blobs_of entries)"
  shows "map_of (dict_of_pairs (blobs_of entries) []) p = Some (committed objects p)"
proof -
  from assms(2) have "p \<in> set (map fst (rev (blobs_of entries)))" by force
  then obtain oid where "map_of (rev (blobs_of entries)) p = Some oid" by (metis map_of_eq_None_iff not_Some_eq list.set_map)
  moreover then have "(p, oid) \<in> set (blobs_of entries)" by (metis map_of_SomeD set_rev)
  ultimately show ?thesis using stored_entry [OF assms(1)] by (simp add: map_of_dict_of_pairs)
qed

lemma check_ordinary_of:
  assumes "\<And>ps. ps \<noteq> [] \<Longrightarrow> \<forall>p\<in>set ps. CHR 10 \<notin> set p \<Longrightarrow> git [''hash-object'', ''--no-filters'', ''--stdin-paths''] (Some (join newline ps @ newline))
      = Inr (concat (map (\<lambda>p. blob_id (the (disk p)) @ newline) ps))"
    and "\<And>bytes. hex_name (blob_id bytes)" and "\<forall>p\<in>set paths. CHR 10 \<notin> set p \<and> map_of blobs p = Some (committed objects p)"
  shows "check_ordinary git paths blobs = Inr (concat (map (content_found blob_id disk objects) paths))"
proof (cases "paths = []")
  case False
  have "split_ws (concat (map (\<lambda>p. blob_id (the (disk p)) @ newline) paths)) = map (\<lambda>p. blob_id (the (disk p))) paths"
    using split_ws_lines [of "map (\<lambda>p. blob_id (the (disk p))) paths"] assms(2) by (simp add: comp_def)
  moreover have "compare_blobs blobs paths (map (\<lambda>p. blob_id (the (disk p))) paths)
      = Inr (concat (map (content_found blob_id disk objects) paths))"
    unfolding content_found_def by (rule compare_blobs_all) (use assms(3) in simp)
  ultimately show ?thesis using assms(1) [OF False] assms(3) by (simp add: check_ordinary_def False)
qed (simp add: check_ordinary_def)

lemma pointers_of:
  assumes "\<And>ps. ps \<noteq> [] \<Longrightarrow> \<forall>p\<in>set ps. CHR 10 \<notin> set p \<Longrightarrow> git [''cat-file'', ''--batch''] (Some (batch_request ps))
      = Inr (concat (map (batch_entry objects) ps))"
    and "\<forall>p\<in>set paths. CHR 10 \<notin> set p \<and> (\<exists>oid content. objects p = Some (oid, content) \<and> plain_name oid)"
  shows "pointers git paths = Inr (pointers_in objects paths)"
proof (cases "paths = []")
  case False
  have "\<forall>p\<in>set paths. case objects p of Some (oid, content) \<Rightarrow> plain_name oid | None \<Rightarrow> plain_name p"
    using assms(2) by fastforce
  from read_batch_entries [OF this, of "[]" "[]"] show ?thesis
    using assms(1) [OF False] assms(2) by (simp add: pointers_def False pointers_in_def)
qed (simp add: pointers_def pointers_in_def)

lemma lfs_path_found:
  assumes "p \<in> set paths" and "objects p = Some (oid, content)" and "disk p = Some bytes"
  shows "check_lfs_path disk sha thorough (pointers_in objects paths) p \<noteq> [] \<longleftrightarrow> lfs_differs sha thorough content bytes"
  using assms by (simp add: check_lfs_path_iff pointers_in_def map_of_fold_objects)


text \<open>A git that prints what is documented.\<close>

definition plumbing :: "(string \<times> string) list \<Rightarrow> tree_entry list \<Rightarrow> (string \<Rightarrow> string) \<Rightarrow> (string \<Rightarrow> string option)
    \<Rightarrow> (string \<Rightarrow> (string \<times> string) option) \<Rightarrow> git" where
  "plumbing changed entries blob_id disk objects args stdin =
     (let lines = (case stdin of None \<Rightarrow> [] | Some t \<Rightarrow> butlast (split_on (CHR 10) t)) in
      if hd args = ''status'' then Inr (status_out changed)
      else if hd args = ''ls-tree'' then Inr (tree_out entries)
      else if hd args = ''hash-object'' then Inr (concat (map (\<lambda>p. blob_id (the (disk p)) @ newline) lines))
      else if hd args = ''cat-file'' then Inr (concat (map (batch_entry objects) (map (drop 5) lines)))
      else Inl CalledProcessError)"

lemma plumbing_answers:
  "plumbing changed entries blob_id disk objects [''status'', ''--porcelain'', ''-z''] None = Inr (status_out changed)"
  "plumbing changed entries blob_id disk objects [''ls-tree'', ''-r'', ''-z'', ''HEAD''] None = Inr (tree_out entries)"
  "ps \<noteq> [] \<Longrightarrow> \<forall>p\<in>set ps. CHR 10 \<notin> set p \<Longrightarrow>
     plumbing changed entries blob_id disk objects [''hash-object'', ''--no-filters'', ''--stdin-paths'']
       (Some (join newline ps @ newline)) = Inr (concat (map (\<lambda>p. blob_id (the (disk p)) @ newline) ps))"
  "\<forall>p\<in>set ps. CHR 10 \<notin> set p \<Longrightarrow>
     plumbing changed entries blob_id disk objects [''cat-file'', ''--batch''] (Some (batch_request ps))
       = Inr (concat (map (batch_entry objects) ps))"
proof -
  show "plumbing changed entries blob_id disk objects [''hash-object'', ''--no-filters'', ''--stdin-paths'']
       (Some (join newline ps @ newline)) = Inr (concat (map (\<lambda>p. blob_id (the (disk p)) @ newline) ps))"
    if "ps \<noteq> []" "\<forall>p\<in>set ps. CHR 10 \<notin> set p"
  proof -
    have "join newline ps @ newline = join newline (ps @ [[]])"
      using that(1) by (induction newline ps rule: join.induct) (auto simp: newline_def)
    then have "butlast (split_on (CHR 10) (join newline ps @ newline)) = ps"
      using split_on_join [of "ps @ [[]]" "CHR 10"] that(2) by (simp add: newline_def)
    then show ?thesis by (simp add: plumbing_def)
  qed
  show "plumbing changed entries blob_id disk objects [''cat-file'', ''--batch''] (Some (batch_request ps))
       = Inr (concat (map (batch_entry objects) ps))" if "\<forall>p\<in>set ps. CHR 10 \<notin> set p"
  proof -
    have "\<forall>e\<in>set (map ((@) ''HEAD:'') ps). CHR 10 \<notin> set e" using that by auto
    from split_on_records [OF this] have "butlast (split_on (CHR 10) (batch_request ps)) = map ((@) ''HEAD:'') ps"
      by (simp add: batch_request_def newline_def comp_def)
    then show ?thesis by (simp add: plumbing_def comp_def)
  qed
qed (simp_all add: plumbing_def)

text \<open>One file whose bytes on disk are another blob, beside one that matches.\<close>

definition ex_entries :: "tree_entry list" where
  "ex_entries = [(''100644'', ''blob'', ''ab'', ''a.txt''), (''100644'', ''blob'', ''cd'', ''b.txt'')]"

definition ex_disk :: "string \<Rightarrow> string option" where
  "ex_disk p = (if p \<in> {''a.txt'', ''b.txt''} then Some ''x'' else None)"

definition ex_objects :: "string \<Rightarrow> (string \<times> string) option" where
  "ex_objects p = (if p = ''a.txt'' then Some (''ab'', ''x'') else if p = ''b.txt'' then Some (''cd'', ''y'') else None)"


text \<open>The new and the old name of a staged rename are two records, and the old one is cut as if it
  carried a status too: the rename of \<open>xy/a.txt\<close> hides a divergence of \<open>a.txt\<close>.\<close>

lemma rename_hides:
  assumes "git [''status'', ''--porcelain'', ''-z''] None = Inr (''R  b.txt'' @ [NUL] @ ''xy/a.txt'' @ [NUL])"
  shows "visible_paths git = Inr [''b.txt'', ''a.txt'']"
  by (simp add: visible_paths_def assms NUL_def)

end
