(* ===== verification/Vm_Lib.thy ===== *)
theory Vm_Lib
  imports Fleet_Gather
begin

text \<open>
  \<open>src/vm/vm_lib.py\<close>: the state of the test machine in VirtualBox, its snapshots and the recovery
  sequence. VBoxManage answers each question with its standard output or with the exception of
  \<open>subprocess.run(check=True)\<close>; a call of it is \<open>Spawned\<close> on the timeline.
\<close>

record vm_env =
  vb_exe :: string
  vb_run :: "nat \<Rightarrow> string list \<Rightarrow> string res"

definition VM_STOP_POLL_TIMEOUT_S :: nat where "VM_STOP_POLL_TIMEOUT_S = 30"

definition dquote :: "string \<Rightarrow> string" where
  "dquote s = CHR 34 # s @ [CHR 34]"

text \<open>\<open>s.strip\<close> of one character.\<close>

definition strip_of :: "char \<Rightarrow> string \<Rightarrow> string" where
  "strip_of c s = rev (dropWhile (\<lambda>x. x = c) (rev (dropWhile (\<lambda>x. x = c) s)))"

definition vbox :: "net \<Rightarrow> vm_env \<Rightarrow> string list \<Rightarrow> string net_eff" where
  "vbox N V args = call N (Spawned (vb_exe V # args)) (\<lambda>n. vb_run V n args)"

section \<open>State and snapshots\<close>

definition state_line :: "string \<Rightarrow> string" where
  "state_line line = strip_of (CHR 34) (strip (snd (snd (partition_str ''='' line))))"

definition state_of :: "string \<Rightarrow> string" where
  "state_of info =
     (case filter (startswith ''VMState='') (splitlines info) of
        [] \<Rightarrow> ''unknown''
      | line # _ \<Rightarrow> state_line line)"

definition vm_state :: "net \<Rightarrow> vm_env \<Rightarrow> string \<Rightarrow> string net_eff" where
  "vm_state N V vm =
     bindM (vbox N V [''showvminfo'', vm, ''--machinereadable'']) (\<lambda>info. ret (state_of info))"

definition vbox_missing :: "pyexc \<Rightarrow> bool" where
  "vbox_missing e \<longleftrightarrow> e = CalledProcessError \<or> is_class [''FileNotFoundError''] e"

definition vbox_snapshot_exists :: "net \<Rightarrow> vm_env \<Rightarrow> string \<Rightarrow> string \<Rightarrow> bool net_eff" where
  "vbox_snapshot_exists N V vm snapshot =
     catchM (bindM (vbox N V [''snapshot'', vm, ''list'', ''--machinereadable'']) (\<lambda>out. ret (contains (dquote snapshot) out)))
       (\<lambda>e. if vbox_missing e then ret False else raise e)"

section \<open>Power\<close>

text \<open>\<open>for _ in range(n)\<close>: whether the machine reported that it is off.\<close>

fun stop_polls :: "net \<Rightarrow> vm_env \<Rightarrow> string \<Rightarrow> nat \<Rightarrow> bool net_eff" where
  "stop_polls N V vm 0 = ret False"
| "stop_polls N V vm (Suc n) =
     bindM (vm_state N V vm) (\<lambda>st.
     if st = ''poweroff'' then ret True else seqM (pause ns) (stop_polls N V vm n))"

definition unit_stop :: "net \<Rightarrow> vm_env \<Rightarrow> string \<Rightarrow> nat \<Rightarrow> unit net_eff" where
  "unit_stop N V vm timeout_s =
     bindM (vm_state N V vm) (\<lambda>st.
     if st \<in> {''poweroff'', ''aborted'', ''saved''}
     then log_line (''VM '' @ quote vm @ '' already stopped (state='' @ st @ '').'')
     else
       seqM (log_line (''Stopping VM '' @ quote vm @ '' (state='' @ st @ '')...''))
      (seqM (bindM (vbox N V [''controlvm'', vm, ''poweroff'']) (\<lambda>_. ret ()))
      (bindM (stop_polls N V vm timeout_s) (\<lambda>off.
       whenM (\<not> off)
         (log_line (''WARNING: VM '' @ quote vm @ '' did not report poweroff within '' @ nat_str timeout_s @ ''s.''))))))"

definition unit_reset_to_snapshot :: "net \<Rightarrow> vm_env \<Rightarrow> string \<Rightarrow> string \<Rightarrow> unit net_eff" where
  "unit_reset_to_snapshot N V vm snapshot =
     seqM (log_line (''Restoring VM '' @ quote vm @ '' to snapshot '' @ quote snapshot @ ''...''))
          (bindM (vbox N V [''snapshot'', vm, ''restore'', snapshot]) (\<lambda>_. ret ()))"

definition unit_start :: "net \<Rightarrow> vm_env \<Rightarrow> string \<Rightarrow> bool \<Rightarrow> unit net_eff" where
  "unit_start N V vm gui =
     (let launch_type = (if gui then ''gui'' else ''headless'') in
      seqM (log_line (''Starting VM '' @ quote vm @ '' ('' @ launch_type @ '')...''))
           (bindM (vbox N V [''startvm'', vm, ''--type'', launch_type]) (\<lambda>_. ret ())))"

definition reset_to_clean_snapshot ::
    "net \<Rightarrow> vm_env \<Rightarrow> string \<Rightarrow> string \<Rightarrow> string \<Rightarrow> int \<Rightarrow> int \<Rightarrow> bool \<Rightarrow> unit net_eff" where
  "reset_to_clean_snapshot N V vm snapshot host_unit settle_s winrm_wait_s gui =
     seqM (unit_stop N V vm VM_STOP_POLL_TIMEOUT_S)
    (seqM (pause (settle_s * ns))
    (seqM (unit_reset_to_snapshot N V vm snapshot)
    (seqM (unit_start N V vm gui)
          (wait_for_winrm N host_unit winrm_wait_s))))"

end
