(* ===== verification/Vm_Harness.thy ===== *)
theory Vm_Harness
  imports Vm_Lib Driver_Scripts Driver_Deploy
begin

text \<open>
  \<open>src/vm/run-prov-test.py\<close>, first part: the guard on the target, the phases that build, transfer and
  execute, and the poller that streams the unit's log. The commands of the poller and of the
  diagnostics have no deadline; a run that did not end within the fuel is none.
\<close>

definition nl :: string where "nl = [CHR 10]"

section \<open>The world of the harness\<close>

text \<open>\<open>he_fixed d p q\<close> is Python's fixed-point text of \<open>p / q\<close> with \<open>d\<close> digits. A process answers with its
  exit code, standard output and error output. \<open>he_discovery\<close> is the answer of the module discovery,
  none without its script; it is asked once. \<open>he_polls\<close> is how often the poller wakes up.\<close>

record harness_env =
  he_vm :: vm_env
  he_repo :: string
  he_server :: string
  he_discovery :: "(int \<times> string \<times> string) option"
  he_build_script :: bool
  he_process :: "nat \<Rightarrow> string list \<Rightarrow> (int \<times> string \<times> string) res"
  he_staging :: "nat \<Rightarrow> string \<Rightarrow> (string \<times> dir_entry list) list option"
  he_lookup :: "nat \<Rightarrow> string \<Rightarrow> string res"
  he_routed :: "string \<Rightarrow> string res"
  he_read :: "string \<Rightarrow> string res"
  he_get :: "nat \<Rightarrow> string \<Rightarrow> string res"
  he_fixed :: "nat \<Rightarrow> int \<Rightarrow> int \<Rightarrow> string"
  he_text :: "pyexc \<Rightarrow> string"
  he_polls :: "nat \<Rightarrow> nat"
  he_stamp :: "nat \<Rightarrow> string"
  he_awake :: "unit res option"             \<comment> \<open>none off Windows\<close>
  he_creds :: "(string, json) dict res"

definition EXECUTE_POLL_INTERVAL :: int where "EXECUTE_POLL_INTERVAL = 20"
definition WINRM_TIMEOUT :: int where "WINRM_TIMEOUT = 90 * 60"
definition VERIFY_ONLY_TIMEOUT :: int where "VERIFY_ONLY_TIMEOUT = 30 * 60"
definition CALL_TIMEOUT :: int where "CALL_TIMEOUT = 60 * 60"
definition POLLER_TIMEOUT :: int where "POLLER_TIMEOUT = 45"
definition MAST_LOGS_BASE :: string where "MAST_LOGS_BASE = ''C:'' @ bs @ ''MAST'' @ bs @ ''logs''"
definition SMOKE_LOG_DIR :: string where "SMOKE_LOG_DIR = MAST_LOGS_BASE @ bs @ ''smoke''"
definition VERIFY_LOG_DIR :: string where "VERIFY_LOG_DIR = MAST_LOGS_BASE @ bs @ ''verify''"

section \<open>The target\<close>

text \<open>One part of an IPv4 address as \<open>ipaddress\<close> reads it.\<close>

definition octet :: "string \<Rightarrow> nat option" where
  "octet s =
     (if all_digits s \<and> length s \<le> 3 \<and> (length s = 1 \<or> hd s \<noteq> CHR ''0'') \<and> digits_val s \<le> 255
      then Some (digits_val s) else None)"

definition is_dev_vm_address :: "string \<Rightarrow> bool" where
  "is_dev_vm_address addr =
     (case map octet (split_on (CHR ''.'') addr) of
        [a, b, c, d] \<Rightarrow> a = Some 192 \<and> b = Some 168 \<and> c = Some 56 \<and> d \<noteq> None
      | _ \<Rightarrow> False)"

definition resolve_target_address :: "net \<Rightarrow> harness_env \<Rightarrow> string \<Rightarrow> string net_eff" where
  "resolve_target_address N E host_unit =
     bindM (query N (\<lambda>n. he_lookup E n host_unit)) (\<lambda>r.
     case r of
       Inr a \<Rightarrow> ret a
     | Inl e \<Rightarrow> if is_os_error e then ret [] else raise e)"

section \<open>The modules\<close>

definition discover_all_modules :: "harness_env \<Rightarrow> string list res" where
  "discover_all_modules E =
     (case he_discovery E of
        None \<Rightarrow> Inl (SystemExit ''ERROR: mast-modules.psm1 not found'')
      | Some (rc, out, err) \<Rightarrow>
          if rc \<noteq> 0 then Inl (SystemExit (''ERROR: Get-AllProviderModules failed (exit '' @ int_str rc @ '').''))
          else Inr (filter (\<lambda>l. l \<noteq> []) (map strip (splitlines out))))"

definition all_modules :: "harness_env \<Rightarrow> string list res" where
  "all_modules E =
     bind_res (discover_all_modules E) (\<lambda>mods.
     if mods = [] then Inl (SystemExit ''ERROR: no providers discovered'') else Inr mods)"

definition is_subset :: "harness_env \<Rightarrow> string list \<Rightarrow> bool res" where
  "is_subset E modules = bind_res (all_modules E) (\<lambda>all. Inr (sort modules \<noteq> sort all))"

section \<open>Time\<close>

definition format_elapsed :: "harness_env \<Rightarrow> int \<Rightarrow> string" where
  "format_elapsed E t =
     (if 3600 * ns \<le> t then
        int_str (t div (3600 * ns)) @ ''h '' @ int_str (t div ns mod 3600 div 60) @ ''m ''
        @ he_fixed E 1 (t mod (60 * ns)) ns @ ''s''
      else if 60 * ns \<le> t then he_fixed E 2 t (60 * ns) @ '' min ('' @ he_fixed E 1 t ns @ ''s)''
      else he_fixed E 2 t ns @ ''s'')"

definition phase_start :: "net \<Rightarrow> string \<Rightarrow> int net_eff" where
  "phase_start N label = seqM (log_line (nl @ ''=== '' @ label @ '' ==='')) (clock N)"

definition phase_end :: "net \<Rightarrow> harness_env \<Rightarrow> string \<Rightarrow> int \<Rightarrow> unit net_eff" where
  "phase_end N E label t0 =
     bindM (clock N) (\<lambda>t1. log_line (''=== '' @ label @ '' done in '' @ format_elapsed E (t1 - t0) @ '' ===''))"

definition timed :: "net \<Rightarrow> harness_env \<Rightarrow> string \<Rightarrow> 'a net_eff \<Rightarrow> 'a net_eff" where
  "timed N E label m = bindM (phase_start N label) (\<lambda>t0. finallyM m (phase_end N E label t0))"

definition timedD :: "net \<Rightarrow> harness_env \<Rightarrow> string \<Rightarrow> 'a option net_eff \<Rightarrow> 'a option net_eff" where
  "timedD N E label m = bindM (phase_start N label) (\<lambda>t0. finally_done m (phase_end N E label t0))"

section \<open>Scripts on the unit\<close>

definition unit_ps :: "net \<Rightarrow> ssh_session \<Rightarrow> string \<Rightarrow> string \<Rightarrow> int \<Rightarrow> bool \<Rightarrow> bool \<Rightarrow> response net_eff" where
  "unit_ps N sess script label timeout_s echo has_timer = run_ps 0 N (Ssh sess) script label timeout_s echo True has_timer"

definition find_log_text :: "string \<Rightarrow> string" where
  "find_log_text log_filename =
       ''$b = Join-Path $env:SystemDrive '' @ sq @ ''MAST'' @ bs @ ''logs'' @ bs @ ''sessions'' @ sq
       @ ''; $p = '' @ sq @ sq
       @ ''; if (Test-Path $b) {   $d = Get-ChildItem -LiteralPath $b -Directory     -ErrorAction SilentlyContinue | Sort-Object Name -Descending |     Select-Object -First 1;   if ($d) { $p = Join-Path $d.FullName ''
       @ sq @ log_filename @ sq @ '' } }; $p''"

definition find_unit_log_path :: "nat \<Rightarrow> net \<Rightarrow> string \<Rightarrow> string option net_eff" where
  "find_unit_log_path fuel N log_filename =
     bindD (run_open fuel N (find_log_text log_filename)) (\<lambda>r. retD (strip (std_out r)))"

definition dispose :: "ssh_session option \<Rightarrow> unit net_eff" where
  "dispose sess = (case sess of None \<Rightarrow> ret () | Some x \<Rightarrow> ssh_close)"

section \<open>The poller\<close>

record poller =
  po_session :: "ssh_session option"
  po_seen :: nat
  po_errors :: nat

definition poll_text :: "string \<Rightarrow> nat \<Rightarrow> string" where
  "poll_text path seen =
       ''$lines = Get-Content -LiteralPath '' @ sq @ path @ sq
       @ '' -ErrorAction SilentlyContinue; if ($lines) { $lines | Select-Object -Skip '' @ nat_str seen @ '' }''"

text \<open>The lines that are new, streamed; and how many lines were seen then.\<close>

definition poll_read :: "nat \<Rightarrow> net \<Rightarrow> string \<Rightarrow> nat \<Rightarrow> nat option net_eff" where
  "poll_read fuel N log_filename seen =
     bindD (find_unit_log_path fuel N log_filename) (\<lambda>path.
     if path = [] then retD seen
     else
       bindD (run_open fuel N (poll_text path seen)) (\<lambda>r.
       if status_code r = 0 \<and> std_out r \<noteq> []
       then (let new_lines = splitlines (strip (std_out r)) in
             seqM (forM new_lines (\<lambda>l. emit (LogRaw (''  [unit] '' @ l)))) (retD (seen + length new_lines)))
       else retD seen))"

definition new_session :: "net \<Rightarrow> string \<Rightarrow> ssh_session net_eff" where
  "new_session N host = ssh_session N host SSH_PORT POLLER_TIMEOUT"

definition poll_recover :: "net \<Rightarrow> harness_env \<Rightarrow> string \<Rightarrow> pyexc \<Rightarrow> poller \<Rightarrow> poller net_eff" where
  "poll_recover N E host e p =
     seqM (log_line (''  [poller] warning ('' @ nat_str (po_errors p + 1) @ ''): '' @ he_text E e))
    (seqM (dispose (po_session p))
    (bindM (attempt (bindM (new_session N host) (\<lambda>s. seqM (log_line ''  [poller] reconnected.'') (ret s)))) (\<lambda>again.
     case again of
       Inr s \<Rightarrow> ret (p\<lparr>po_session := Some s, po_errors := po_errors p + 1\<rparr>)
     | Inl e' \<Rightarrow>
         seqM (log_line (''  [poller] reconnect failed: '' @ he_text E e'))
        (bindM (new_session N host) (\<lambda>s. ret (p\<lparr>po_session := Some s, po_errors := po_errors p + 1\<rparr>))))))"

fun poll_passes :: "nat \<Rightarrow> net \<Rightarrow> harness_env \<Rightarrow> string \<Rightarrow> string \<Rightarrow> nat \<Rightarrow> poller \<Rightarrow> poller option net_eff" where
  "poll_passes fuel N E host log_filename 0 p = retD p"
| "poll_passes fuel N E host log_filename (Suc k) p =
     bindD (attemptD (poll_read fuel N log_filename (po_seen p))) (\<lambda>r.
     case r of
       Inr seen \<Rightarrow> poll_passes fuel N E host log_filename k (p\<lparr>po_seen := seen, po_errors := 0\<rparr>)
     | Inl e \<Rightarrow> bindM (poll_recover N E host e p) (poll_passes fuel N E host log_filename k))"

text \<open>The thread: an exception out of a pass ends it, and then it has no session; \<open>stop\<close> gives up on
  a thread that is still in a command.\<close>

definition poller_thread :: "nat \<Rightarrow> net \<Rightarrow> harness_env \<Rightarrow> string \<Rightarrow> string \<Rightarrow> ssh_session \<Rightarrow> poller option net_eff" where
  "poller_thread fuel N E host log_filename s =
     bindM (query N (he_polls E)) (\<lambda>k.
     catchM (poll_passes fuel N E host log_filename k \<lparr>po_session = Some s, po_seen = 0, po_errors = 0\<rparr>)
       (\<lambda>e. retD \<lparr>po_session = None, po_seen = 0, po_errors = 0\<rparr>))"

definition stop_poller :: "poller option \<Rightarrow> unit net_eff" where
  "stop_poller p =
     (case p of
        None \<Rightarrow> log_line ''WARNING: ExecuteLogPoller did not stop in time; leaving poller WinRM session open to avoid races.''
      | Some q \<Rightarrow> dispose (po_session q))"

text \<open>A run on the unit while the poller streams; the passes of the poller are put after it.\<close>

definition streamed :: "nat \<Rightarrow> net \<Rightarrow> harness_env \<Rightarrow> string \<Rightarrow> string \<Rightarrow> 'a net_eff \<Rightarrow> 'a net_eff" where
  "streamed fuel N E host log_filename work =
     bindM (new_session N host) (\<lambda>s.
     finallyM work (bindM (poller_thread fuel N E host log_filename s) stop_poller))"

section \<open>Build\<close>

definition build_command :: "harness_env \<Rightarrow> string \<Rightarrow> string list \<Rightarrow> string \<Rightarrow> string list res" where
  "build_command E hostname modules proxy_mode =
     bind_res (is_subset E modules) (\<lambda>subset.
     Inr ([''powershell.exe'', ''-NoProfile'', ''-ExecutionPolicy'', ''Bypass'', ''-File'', he_repo E @ bs @ ''build'' @ bs @ ''build-mast.ps1'',
           ''-Top'', he_repo E, ''-HostName'', hostname, ''-TestMode'', ''-AllowMissingNoMachineLicense'',
           ''-AllowMissingNetFx3Sxs'', ''-ProxyMode'', proxy_mode, ''-ImdiskMountType'', ''file'']
          @ (if subset then [''-Modules'', join '','' modules] else [])))"

definition phase_build :: "net \<Rightarrow> harness_env \<Rightarrow> string \<Rightarrow> string list \<Rightarrow> string \<Rightarrow> unit net_eff" where
  "phase_build N E hostname modules proxy_mode =
     timed N E ''BUILD PHASE''
       (if \<not> he_build_script E then raise (UserError ''FileNotFoundError'' ''Build script not found'')
        else
          bindM (liftR (build_command E hostname modules proxy_mode)) (\<lambda>cmd.
          seqM (log_line (''>>> '' @ join '' '' cmd))
         (bindM (call N (Spawned cmd) (\<lambda>n. he_process E n cmd)) (\<lambda>(rc, out, err).
          seqM (whenM (out \<noteq> []) (emit (LogRaw (rstrip out))))
         (seqM (whenM (err \<noteq> []) (emit (LogRaw (''[stderr] '' @ rstrip err))))
               (if rc \<noteq> 0 then raise RuntimeError else ret ()))))))"

section \<open>Transfer\<close>

definition REMOTE_PS :: string where "REMOTE_PS = ''C:'' @ bs @ ''mast-staging'' @ bs @ ''mast-pull-staging.ps1''"
definition REMOTE_B64 :: string where "REMOTE_B64 = ''C:'' @ bs @ ''mast-staging'' @ bs @ ''mast-pull-staging.b64''"

definition sink_text :: string where
  "sink_text =
       ''$d='' @ sq @ ''C:'' @ bs @ ''mast-staging'' @ sq
       @ ''; if(-not(Test-Path $d)){New-Item -ItemType Directory -Force -Path $d|Out-Null}; Set-Content -LiteralPath ''
       @ sq @ REMOTE_B64 @ sq @ '' -Value '' @ sq @ sq @ '' -NoNewline -Encoding ascii''"

definition append_text :: "string \<Rightarrow> string" where
  "append_text chunk = ''Add-Content -LiteralPath '' @ sq @ REMOTE_B64 @ sq @ '' -Value '' @ sq @ chunk @ sq
       @ '' -NoNewline -Encoding ascii''"

definition decode_text :: string where
  "decode_text =
       ''[System.IO.File]::WriteAllBytes('' @ sq @ REMOTE_PS @ sq
       @ '', [Convert]::FromBase64String((Get-Content -LiteralPath '' @ sq @ REMOTE_B64 @ sq @ '' -Raw)))''"

definition transfer_text :: "pull_args \<Rightarrow> string" where
  "transfer_text a =
       ''$sb = [scriptblock]::Create((Get-Content -LiteralPath '' @ sq @ REMOTE_PS @ sq @ '' -Raw))'' @ nl
       @ ''$r = & $sb '' @ pull_staging_args a @ nl @ ''if(-not $r){Write-Error '' @ sq
       @ ''Transfer: null result from pull script'' @ sq @ '';exit 1}'' @ nl @ ''if($r.outcome -ne '' @ sq
       @ ''OK'' @ sq @ ''){'' @ nl @ ''    Write-Error '' @ dq
       @ ''Transfer failed outcome=$($r.outcome) rc=$($r.rc) $($r.detail)'' @ dq @ nl @ ''    exit 1'' @ nl
       @ ''}'' @ nl @ ''Write-Host '' @ sq @ ''UNIT_STAGE='' @ pa_unit_stage a @ sq @ nl"

definition CHUNK_SIZE :: nat where "CHUNK_SIZE = 1500"

text \<open>The pull script goes to the unit in chunks of base64, then is decoded there.\<close>

definition send_pull_script :: "net \<Rightarrow> ssh_session \<Rightarrow> string \<Rightarrow> unit net_eff" where
  "send_pull_script N sess script_text =
     seqM (bindM (unit_ps N sess sink_text ''xfer-prep'' 60 False False) (\<lambda>_. ret ()))
    (seqM (forM (chunks_of CHUNK_SIZE (b64encode (utf8 script_text)))
             (\<lambda>c. bindM (unit_ps N sess (append_text c) ''xfer-chunk'' 60 False False) (\<lambda>_. ret ())))
          (bindM (unit_ps N sess decode_text ''xfer-decode'' 60 False False) (\<lambda>_. ret ())))"

definition prov_address :: "net \<Rightarrow> harness_env \<Rightarrow> string \<Rightarrow> string net_eff" where
  "prov_address N E host_unit =
     bindM (resolve_target_address N E host_unit) (\<lambda>resolved.
     bindM (liftR (local_address_for (he_routed E) resolved)) (\<lambda>a. ret (if a = [] then he_server E else a)))"

definition transfer_args :: "string \<Rightarrow> string \<Rightarrow> string \<Rightarrow> string \<Rightarrow> string \<Rightarrow> staging_size \<Rightarrow> pull_args" where
  "transfer_args address hostname rid user password sz =
     \<lparr>pa_prov_address = address, pa_unit_hostname = hostname, pa_smb_user = user, pa_smb_pass = password,
      pa_unit_stage = ''C:'' @ bs @ ''mast-staging'' @ bs @ rid,
      pa_src_unc = bs @ bs @ address @ bs @ ''mast-staging'' @ bs @ hostname @ bs @ ''01-provisioning'',
      pa_payload_bytes = int (ss_bytes sz), pa_exclude_files = [], pa_exclude_dirs = []\<rparr>"

definition transfer_payload :: "net \<Rightarrow> ssh_session \<Rightarrow> pull_args \<Rightarrow> string net_eff" where
  "transfer_payload N sess a =
     seqM (log_line (''[transfer] mast-pull-staging.ps1 (file-dispatch) -ProvAddress '' @ sq @ pa_prov_address a @ sq
       @ '' -UnitStage '' @ sq @ pa_unit_stage a @ sq))
    (bindM (unit_ps N sess (transfer_text a) ''transfer'' (60 * 60) False False) (\<lambda>r.
     if status_code r \<noteq> 0 then raise RuntimeError else ret (pa_unit_stage a)))"

definition phase_transfer ::
    "net \<Rightarrow> harness_env \<Rightarrow> ssh_session \<Rightarrow> string \<Rightarrow> string \<Rightarrow> string \<Rightarrow> string \<Rightarrow> string \<Rightarrow> string net_eff" where
  "phase_transfer N E sess hostname rid user password host_unit =
     timed N E ''TRANSFER PHASE''
       (let dir = he_repo E @ bs @ ''staging'' @ bs @ hostname @ bs @ ''01-provisioning'' in
        bindM (query N (\<lambda>n. he_staging E n dir)) (\<lambda>files.
        case files of
          None \<Rightarrow> raise RuntimeError
        | Some d \<Rightarrow>
            (let sz = measured d dir \<lparr>ex_files = [], ex_dirs = []\<rparr> in
             bindM (prov_address N E host_unit) (\<lambda>address.
             let a = transfer_args address hostname rid user password sz in
             seqM (log_line (nat_str (ss_files sz) @ '' files, '' @ he_fixed E 1 (int (ss_bytes sz)) 1048576
                      @ '' MB  via SMB pull from '' @ pa_src_unc a))
            (bindM (liftR (he_read E ''client/mast-pull-staging.ps1'')) (\<lambda>script_text.
             seqM (send_pull_script N sess script_text) (transfer_payload N sess a)))))))"

section \<open>Logs of a failed run\<close>

definition tail_text :: "string \<Rightarrow> nat \<Rightarrow> string" where
  "tail_text path lines =
       ''Get-Content -LiteralPath '' @ sq @ path @ sq
       @ '' -ErrorAction SilentlyContinue | Select-Object -Last '' @ nat_str lines"

definition log_tail :: "nat \<Rightarrow> net \<Rightarrow> string \<Rightarrow> nat \<Rightarrow> unit option net_eff" where
  "log_tail fuel N log_filename lines =
     bindD (find_unit_log_path fuel N log_filename) (\<lambda>path.
     if path = [] then seqM (log_line (''--- '' @ log_filename @ '' not found under sessions ---'')) (retD ())
     else
       bindD (run_open fuel N (tail_text path lines)) (\<lambda>r.
       seqM (whenM (std_out r \<noteq> [])
         (seqM (log_line (''--- Last '' @ nat_str lines @ '' lines of '' @ log_filename @ '' ---''))
         (seqM (emit (LogRaw (rstrip (std_out r)))) (log_line ''--- end ---'')))) (retD ())))"

definition fetch_session_log_tail :: "nat \<Rightarrow> net \<Rightarrow> harness_env \<Rightarrow> string \<Rightarrow> nat \<Rightarrow> unit option net_eff" where
  "fetch_session_log_tail fuel N E log_filename lines =
     bindD (attemptD (log_tail fuel N log_filename lines)) (\<lambda>r.
     case r of
       Inr u \<Rightarrow> retD ()
     | Inl e \<Rightarrow> seqM (log_line (''Could not fetch '' @ log_filename @ '': '' @ he_text E e)) (retD ()))"

definition fetch_execute_log_tail :: "nat \<Rightarrow> net \<Rightarrow> harness_env \<Rightarrow> unit option net_eff" where
  "fetch_execute_log_tail fuel N E = fetch_session_log_tail fuel N E ''provisioning-execute.log'' 40"

definition smoke_files_text :: string where
  "smoke_files_text =
       ''Get-ChildItem '' @ sq @ SMOKE_LOG_DIR @ sq @ '' -Filter '' @ sq @ ''*-smoke.txt'' @ sq
       @ '' -ErrorAction SilentlyContinue | ForEach-Object { '' @ dq
       @ ''$($_.Name): $(Get-Content $_.FullName -Raw)'' @ dq @ '' }''"

definition verify_logs_text :: string where
  "verify_logs_text =
       ''Get-ChildItem '' @ sq @ VERIFY_LOG_DIR @ sq @ '' -Filter '' @ sq @ ''*-verify.log'' @ sq
       @ '' -ErrorAction SilentlyContinue | Select-Object Name, Length, LastWriteTime | Format-Table -AutoSize''"

definition show_output :: "nat \<Rightarrow> net \<Rightarrow> string \<Rightarrow> string \<Rightarrow> unit option net_eff" where
  "show_output fuel N script title =
     bindD (run_open fuel N script) (\<lambda>r.
     seqM (whenM (std_out r \<noteq> []) (seqM (log_line title) (emit (LogRaw (rstrip (std_out r)))))) (retD ()))"

definition fetch_diagnostics :: "nat \<Rightarrow> net \<Rightarrow> harness_env \<Rightarrow> unit option net_eff" where
  "fetch_diagnostics fuel N E =
     seqM (log_line ''--- Diagnostics ---'')
    (bindD (attemptD (bindD (show_output fuel N smoke_files_text ''Smoke files on unit:'') (\<lambda>_.
                      show_output fuel N verify_logs_text ''Verify logs on unit:''))) (\<lambda>r.
     seqM (case r of Inr u \<Rightarrow> ret () | Inl e \<Rightarrow> log_line (''Diagnostics failed: '' @ he_text E e))
    (seqM (log_line ''--- end diagnostics ---'') (retD ()))))"

section \<open>Execute\<close>

definition run_text :: "harness_env \<Rightarrow> string \<Rightarrow> string \<Rightarrow> string list \<Rightarrow> string res" where
  "run_text E script staging_path modules =
     bind_res (if modules = [] then Inr False else is_subset E modules) (\<lambda>subset.
     Inr (''Set-ExecutionPolicy Bypass -Scope Process -Force; & '' @ sq @ staging_path @ bs @ script @ sq
       @ '' -StagingPath '' @ sq @ staging_path @ sq
          @ (if subset then '' -Modules '' @ sq @ join '','' modules @ sq else [])))"

definition phase_execute ::
    "nat \<Rightarrow> net \<Rightarrow> harness_env \<Rightarrow> int \<Rightarrow> ssh_session \<Rightarrow> string \<Rightarrow> string \<Rightarrow> string list \<Rightarrow> response option net_eff" where
  "phase_execute fuel N E timeout_s sess host_unit staging_path modules =
     timedD N E ''EXECUTE PHASE''
       (seqM (log_line ''Starting execute-mast-provisioning.ps1 on unit (up to 90 min)...'')
       (seqM (log_line (''Streaming latest provisioning-execute.log under '' @ MAST_LOGS_BASE @ bs @ ''sessions from unit every ''
                @ int_str EXECUTE_POLL_INTERVAL @ ''s...''))
       (bindM (streamed fuel N E host_unit ''provisioning-execute.log''
                 (bindM (liftR (run_text E ''execute-mast-provisioning.ps1'' staging_path modules)) (\<lambda>cmd.
                  unit_ps N sess cmd ''execute'' timeout_s True True))) (\<lambda>r.
        bindD (if status_code r = 0 then retD ()
               else seqM (log_line (''Execute exited with code '' @ int_str (status_code r) @ '' - fetching tail of execute log...''))
                         (fetch_execute_log_tail fuel N E)) (\<lambda>_.
        retD r)))))"

definition phase_run_verify_only ::
    "nat \<Rightarrow> net \<Rightarrow> harness_env \<Rightarrow> ssh_session \<Rightarrow> string \<Rightarrow> string \<Rightarrow> string list \<Rightarrow> response option net_eff" where
  "phase_run_verify_only fuel N E sess host_unit staging_path modules =
     timedD N E ''VERIFY-RUN PHASE''
       (seqM (log_line ''Starting run-verify-only.ps1 on unit (no execute-mast-provisioning.ps1)...'')
       (seqM (log_line (''Streaming provisioning-verify-only.log under '' @ MAST_LOGS_BASE @ bs @ ''sessions from unit every ''
                @ int_str EXECUTE_POLL_INTERVAL @ ''s...''))
       (bindM (streamed fuel N E host_unit ''provisioning-verify-only.log''
                 (bindM (liftR (run_text E ''run-verify-only.ps1'' staging_path modules)) (\<lambda>cmd.
                  unit_ps N sess cmd ''verify-only'' VERIFY_ONLY_TIMEOUT True True))) (\<lambda>r.
        bindD (if status_code r = 0 then retD ()
               else seqM (log_line (''run-verify-only exited with code '' @ int_str (status_code r) @ '' - fetching log tail...''))
                         (fetch_session_log_tail fuel N E ''provisioning-verify-only.log'' 40)) (\<lambda>_.
        retD r)))))"

end
