(* ===== verification/Vm_Cycle.thy ===== *)
theory Vm_Cycle
  imports Vm_Harness Fleet_Render
begin

text \<open>
  \<open>src/vm/run-prov-test.py\<close>, second part: the verdict on a unit, the phases around it, the options of
  the command line and which phases are run.
\<close>

section \<open>The unit's own service\<close>

definition MAST_UNIT_SVC_LOG_DIR :: string where "MAST_UNIT_SVC_LOG_DIR = ''C:'' @ bs @ ''MAST'' @ bs @ ''logs'' @ bs @ ''mast-unit''"
definition MAST_UNIT_PORT :: nat where "MAST_UNIT_PORT = 8000"
definition MAST_UNIT_STATUS_PATH :: string where "MAST_UNIT_STATUS_PATH = ''/mast/api/v1/unit/status''"
definition MAST_UNIT_BOOT_TIMEOUT :: int where "MAST_UNIT_BOOT_TIMEOUT = 120"

definition status_url :: "string \<Rightarrow> string" where
  "status_url host = ''http://'' @ host @ '':'' @ nat_str MAST_UNIT_PORT @ MAST_UNIT_STATUS_PATH"

text \<open>\<open>k in v\<close>.\<close>

fun jmember :: "string \<Rightarrow> json \<Rightarrow> bool res" where
  "jmember k (JObj d) = Inr (map_of d k \<noteq> None)"
| "jmember k (JList xs) = Inr (JStr k \<in> set xs)"
| "jmember k (JStr s) = Inr (contains k s)"
| "jmember k _ = Inl TypeError"

text \<open>The version in an answer that is a good one.\<close>

definition check_health :: "json \<Rightarrow> json res" where
  "check_health body =
     bind_res (jmember ''api_version'' body) (\<lambda>there.
     if \<not> there then Inl (UserError ''ValueError'' (''missing api_version in response: '' @ py_str body))
     else
       bind_res (jget body ''errors'') (\<lambda>errors.
       if truthy errors then Inl (UserError ''ValueError'' (''unit reported errors: '' @ py_str errors))
       else jget body ''api_version''))"

definition ask_health :: "net \<Rightarrow> harness_env \<Rightarrow> string \<Rightarrow> json net_eff" where
  "ask_health N E url =
     call N (WebGet url) (\<lambda>n. bind_res (he_get E n url) (\<lambda>t. bind_res (json_loads t) check_health))"

definition service_text :: string where
  "service_text =
       ''$s = Get-Service -Name '' @ sq @ ''mast-unit'' @ sq
       @ '' -ErrorAction SilentlyContinue; $m = (Get-CimInstance Win32_Service -Filter '' @ dq @ ''Name='' @ sq
       @ ''mast-unit'' @ sq @ dq
       @ '' -ErrorAction SilentlyContinue).StartMode; if ($null -ne $s -and ($s.Status -eq '' @ sq @ ''Running''
       @ sq @ '' -or $m -eq '' @ sq @ ''Auto'' @ sq @ '')) { '' @ sq @ ''expected'' @ sq @ '' } else { '' @ sq
       @ ''inert'' @ sq @ '' }''"

definition unit_expected_to_serve :: "net \<Rightarrow> harness_env \<Rightarrow> ssh_session \<Rightarrow> bool net_eff" where
  "unit_expected_to_serve N E sess =
     bindM (attempt (unit_ps N sess service_text ''unit-service-probe'' 60 False False)) (\<lambda>r.
     case r of
       Inr x \<Rightarrow> ret (strip (std_out x) \<noteq> ''inert'')
     | Inl e \<Rightarrow> seqM (log_line (''  [unit-health] service probe failed ('' @ he_text E e
                        @ ''); treating the unit as expected to serve'')) (ret True))"

definition health_error :: "pyexc \<Rightarrow> bool" where
  "health_error e \<longleftrightarrow> is_os_error e \<or> e = ValueError \<or> e = JSONDecodeError \<or> is_class [''ValueError'', ''UnicodeDecodeError''] e"

definition wait_health_body :: "net \<Rightarrow> harness_env \<Rightarrow> string \<Rightarrow> int \<Rightarrow> string \<Rightarrow> (string + unit) net_eff" where
  "wait_health_body N E url deadline last_err =
     bindM (clock N) (\<lambda>now.
     if now < deadline
     then bindM (attempt (ask_health N E url)) (\<lambda>r.
          case r of
            Inr v \<Rightarrow> seqM (log_line (''[unit-health] OK -- api_version='' @ py_repr v)) (ret (Inr ()))
          | Inl e \<Rightarrow> if health_error e then seqM (pause (5 * ns)) (ret (Inl (he_text E e))) else raise e)
     else raise RuntimeError)"

definition phase_wait_for_unit_health :: "net \<Rightarrow> harness_env \<Rightarrow> string \<Rightarrow> int \<Rightarrow> unit net_eff" where
  "phase_wait_for_unit_health N E host timeout_s =
     timed N E ''UNIT HEALTH CHECK PHASE''
       (seqM (log_line (''[unit-health] Waiting for '' @ status_url host @ '' (up to '' @ int_str timeout_s @ ''s)...''))
       (bindM (clock N) (\<lambda>now.
        loop_for (wait_fuel timeout_s) (wait_health_body N E (status_url host) (now + timeout_s * ns)) [])))"

lemma wait_health_body_goes_on:
  "going T (\<lambda>r s'. T + 5 * ns \<le> w_now s' \<and> T < deadline) (wait_health_body N E url deadline l)"
  unfolding wait_health_body_def ask_health_def by (intro going_clock going_if going_bind goings going_seq timely) auto

interpretation serving: timed_loop "wait_health_body N E url deadline" w_now "5 * ns" deadline "\<lambda>_. True"
  for N E url deadline
  by unfold_locales (auto dest!: goingD [OF wait_health_body_goes_on] simp: ns_def)

section \<open>The verdict\<close>

record verify_results =
  vr_verify_only :: bool
  vr_exit_code :: int
  vr_execute_ok :: bool
  vr_python_ok :: bool
  vr_python_version :: string
  vr_repos_ok :: bool
  vr_repos_checked :: bool
  vr_health_ok :: bool
  vr_health_detail :: string
  vr_smoke :: "(string, string option) dict"

definition opt_json :: "string option \<Rightarrow> json" where
  "opt_json t = (case t of None \<Rightarrow> JNull | Some s \<Rightarrow> JStr s)"

definition results_json :: "verify_results \<Rightarrow> json" where
  "results_json r = JObj
     [(''verify_only'', JBool (vr_verify_only r)), (''execute_exit_code'', JInt (vr_exit_code r)),
      (''execute_ok'', JBool (vr_execute_ok r)), (''python_ok'', JBool (vr_python_ok r)),
      (''python_version'', JStr (vr_python_version r)), (''repos_root_ok'', JBool (vr_repos_ok r)),
      (''repos_root_checked'', JBool (vr_repos_checked r)), (''unit_health_ok'', JBool (vr_health_ok r)),
      (''unit_health_detail'', JStr (vr_health_detail r)),
      (''smoke'', JObj (map (\<lambda>(m, c). (m, opt_json c)) (vr_smoke r)))]"

definition blank_results :: "int \<Rightarrow> verify_results" where
  "blank_results run_rc =
     \<lparr>vr_verify_only = True, vr_exit_code = run_rc, vr_execute_ok = (run_rc = 0), vr_python_ok = True,
      vr_python_version = ''(skipped in verify-only mode)'', vr_repos_ok = True, vr_repos_checked = False,
      vr_health_ok = True, vr_health_detail = ''(skipped in verify-only mode)'', vr_smoke = []\<rparr>"

definition python_text :: string where "python_text = ''& '' @ dq @ ''C:'' @ bs @ ''Python312'' @ bs @ ''python.exe'' @ dq @ '' --version''"
definition src_text :: string where "src_text = ''Test-Path '' @ dq @ ''C:'' @ bs @ ''MAST'' @ bs @ ''src'' @ dq"
definition read_smoke_text :: "string \<Rightarrow> string" where
  "read_smoke_text m = ''Get-Content '' @ dq @ SMOKE_LOG_DIR @ bs @ m @ ''-smoke.txt'' @ dq @ '' -ErrorAction SilentlyContinue''"

definition check_python :: "net \<Rightarrow> ssh_session \<Rightarrow> string list \<Rightarrow> (bool \<times> string) net_eff" where
  "check_python N sess modules =
     (if ''python'' \<in> set modules
      then bindM (unit_ps N sess python_text ''python-check'' CALL_TIMEOUT True False) (\<lambda>r.
           ret (status_code r = 0, if strip (std_out r) \<noteq> [] then strip (std_out r) else strip (std_err r)))
      else ret (True, ''(not tested - python module not selected)''))"

definition check_repos :: "net \<Rightarrow> ssh_session \<Rightarrow> string list \<Rightarrow> (bool \<times> bool) net_eff" where
  "check_repos N sess modules =
     (if ''mast'' \<in> set modules
      then bindM (unit_ps N sess src_text ''src-root'' CALL_TIMEOUT True False) (\<lambda>r. ret (contains ''True'' (std_out r), True))
      else ret (True, False))"

text \<open>Silence only counts when the unit was expected to serve.\<close>

definition check_unit_health :: "net \<Rightarrow> harness_env \<Rightarrow> ssh_session \<Rightarrow> string list \<Rightarrow> string \<Rightarrow> (bool \<times> string) net_eff" where
  "check_unit_health N E sess modules host =
     (if ''mast'' \<in> set modules \<and> host \<noteq> []
      then
        seqM (log_line (''[unit-health] GET '' @ status_url host))
       (bindM (attempt (ask_health N E (status_url host))) (\<lambda>r.
        case r of
          Inr v \<Rightarrow> ret (True, ''api_version='' @ py_repr v)
        | Inl e \<Rightarrow>
            bindM (unit_expected_to_serve N E sess) (\<lambda>expected.
            ret (if expected then (False, he_text E e)
                 else (True, ''inert, mast-unit at rest ('' @ he_text E e @ '')'')))))
      else ret (True, ''(not checked)''))"

fun read_smoke :: "net \<Rightarrow> ssh_session \<Rightarrow> string list \<Rightarrow> (string, string option) dict \<Rightarrow> (string, string option) dict net_eff" where
  "read_smoke N sess [] d = ret d"
| "read_smoke N sess (m # ms) d =
     bindM (unit_ps N sess (read_smoke_text m) [] CALL_TIMEOUT False False) (\<lambda>r.
     let content = strip (std_out r) in
     read_smoke N sess ms (dict_set m (if content = [] then None else Some content) d))"

definition phase_verify ::
    "net \<Rightarrow> harness_env \<Rightarrow> ssh_session \<Rightarrow> string list \<Rightarrow> int \<Rightarrow> bool \<Rightarrow> string \<Rightarrow> verify_results net_eff" where
  "phase_verify N E sess modules run_rc verify_only host =
     timed N E ''VERIFY PHASE''
       (if verify_only then ret (blank_results run_rc)
        else
          bindM (check_python N sess modules) (\<lambda>(python_ok, version).
          bindM (check_repos N sess modules) (\<lambda>(repos_ok, checked).
          bindM (check_unit_health N E sess modules host) (\<lambda>(health_ok, detail).
          bindM (read_smoke N sess modules []) (\<lambda>smoke.
          ret \<lparr>vr_verify_only = False, vr_exit_code = run_rc, vr_execute_ok = (run_rc = 0), vr_python_ok = python_ok,
               vr_python_version = version, vr_repos_ok = repos_ok, vr_repos_checked = checked,
               vr_health_ok = health_ok, vr_health_detail = detail, vr_smoke = smoke\<rparr>)))))"

definition ok_or_fail :: "bool \<Rightarrow> string" where
  "ok_or_fail b = (if b then ''OK'' else ''FAIL'')"

definition smoke_line :: "string \<times> string option \<Rightarrow> string" where
  "smoke_line e =
     (case e of (m, c) \<Rightarrow> ''    '' @ ljust 20 m @ '' '' @ ok_or_fail (c \<noteq> None)
        @ (case c of Some t \<Rightarrow> '' ('' @ t @ '')'' | None \<Rightarrow> '' (file missing)''))"

definition all_passed :: "verify_results \<Rightarrow> bool" where
  "all_passed r \<longleftrightarrow>
     vr_execute_ok r \<and> (vr_verify_only r \<or>
       vr_python_ok r \<and> vr_repos_ok r \<and> vr_health_ok r \<and> list_all (\<lambda>(m, c). c \<noteq> None) (vr_smoke r))"

definition verdict_line :: "nat \<Rightarrow> bool \<Rightarrow> string" where
  "verdict_line cycle ok = nl @ ''  Cycle '' @ nat_str cycle @ '': '' @ (if ok then ''PASS'' else ''FAIL'')"

definition result_lines :: "verify_results \<Rightarrow> nat \<Rightarrow> string list" where
  "result_lines r cycle =
     [nl @ ''--- Cycle '' @ nat_str cycle @ '' Results ---'']
     @ (if vr_verify_only r
        then [''  mode              : BUILD + TRANSFER + VERIFY-RUN (run-verify-only.ps1)'',
              ''  verify-only exit  : '' @ int_str (vr_exit_code r),
              ''  verify-only OK    : '' @ ok_or_fail (vr_execute_ok r)]
        else
          [''  execute exit code : '' @ int_str (vr_exit_code r)]
          @ (if contains ''(not tested'' (vr_python_version r) then []
             else [''  python check      : '' @ ok_or_fail (vr_python_ok r) @ '' ('' @ vr_python_version r @ '')''])
          @ (if vr_repos_checked r then [''  src root          : '' @ ok_or_fail (vr_repos_ok r)] else [])
          @ (if contains ''(not checked)'' (vr_health_detail r) \<or> contains ''(skipped'' (vr_health_detail r) then []
             else [''  unit heartbeat    : '' @ ok_or_fail (vr_health_ok r) @ '' ('' @ vr_health_detail r @ '')''])
          @ [''  smoke tests:''] @ map smoke_line (vr_smoke r))
     @ [verdict_line cycle (all_passed r)]"

definition print_results :: "verify_results \<Rightarrow> nat \<Rightarrow> bool net_eff" where
  "print_results r cycle = seqM (forM (result_lines r cycle) log_line) (ret (all_passed r))"

text \<open>A unit is verified, the results are written and shown, and a failure is looked into.\<close>

definition judge_unit ::
    "nat \<Rightarrow> net \<Rightarrow> harness_env \<Rightarrow> ssh_session \<Rightarrow> string list \<Rightarrow> int \<Rightarrow> bool \<Rightarrow> string \<Rightarrow> string \<Rightarrow> nat \<Rightarrow> bool option net_eff" where
  "judge_unit fuel N E sess modules run_rc verify_only host log_dir cycle =
     bindM (phase_verify N E sess modules run_rc verify_only host) (\<lambda>r.
     seqM (emit (WroteFile (log_dir @ ''/results.json'') (dumps_indent 0 (results_json r))))
    (bindM (print_results r cycle) (\<lambda>passed.
     bindD (if passed then retD () else fetch_diagnostics fuel N E) (\<lambda>_. retD passed))))"

section \<open>Other phases\<close>

definition phase_reset :: "net \<Rightarrow> harness_env \<Rightarrow> string \<Rightarrow> string \<Rightarrow> string \<Rightarrow> int \<Rightarrow> ssh_session net_eff" where
  "phase_reset N E vm snapshot host_unit winrm_wait_s =
     timed N E ''RESET PHASE''
       (seqM (reset_to_clean_snapshot N (he_vm E) vm snapshot host_unit 3 winrm_wait_s True)
             (wait_for_ssh N host_unit winrm_wait_s SSH_PORT))"

definition phase_pull_repos :: "net \<Rightarrow> harness_env \<Rightarrow> ssh_session \<Rightarrow> unit net_eff" where
  "phase_pull_repos N E sess =
     timed N E ''PULL-REPOS PHASE''
       (bindM (liftR (he_read E ''server/providers/mast/pull-mast-repos.ps1'')) (\<lambda>raw.
        let ps = ''&{'' @ nl @ minify_ps raw @ nl @ ''} -CloneRoot '' @ sq @ ''C:'' @ bs @ ''MAST'' @ bs @ ''src'' @ sq
       @ nl in
        seqM (log_line (''[pull-repos] Pulling repos under C:'' @ bs @ ''MAST'' @ bs @ ''src on unit...''))
       (bindM (unit_ps N sess ps ''pull-repos'' (30 * 60) False False) (\<lambda>r.
        if status_code r \<noteq> 0 then raise RuntimeError else ret ()))))"

definition clear_logs_text :: string where
  "clear_logs_text =
       ''Stop-Service -Name '' @ sq @ ''mast-unit'' @ sq @ '' -Force -ErrorAction SilentlyContinue'' @ nl
       @ ''$d = '' @ sq @ MAST_UNIT_SVC_LOG_DIR @ sq @ nl @ ''foreach ($f in @('' @ sq @ ''stdout.log'' @ sq
       @ '', '' @ sq @ ''stderr.log'' @ sq @ '')) {'' @ nl @ ''    $p = Join-Path $d $f'' @ nl
       @ ''    if (Test-Path -LiteralPath $p) {'' @ nl
       @ ''        Remove-Item -LiteralPath $p -Force -ErrorAction SilentlyContinue'' @ nl
       @ ''        Write-Host '' @ dq @ ''[clear-unit-logs] deleted $p'' @ dq @ nl @ ''    } else {'' @ nl
       @ ''        Write-Host '' @ dq @ ''[clear-unit-logs] not found (skipping): $p'' @ dq @ nl @ ''    }''
       @ nl @ ''}'' @ nl @ ''Write-Host '' @ sq @ ''[clear-unit-logs] done'' @ sq @ nl"

definition phase_clear_unit_logs :: "net \<Rightarrow> harness_env \<Rightarrow> ssh_session \<Rightarrow> unit net_eff" where
  "phase_clear_unit_logs N E sess =
     timed N E ''CLEAR UNIT LOGS PHASE''
       (bindM (unit_ps N sess clear_logs_text ''clear-unit-logs'' 60 False False) (\<lambda>r.
        whenM (status_code r \<noteq> 0)
          (log_line (''WARNING: clear-unit-logs returned exit code '' @ int_str (status_code r)))))"

definition start_unit_text :: string where
  "start_unit_text =
       ''Start-Service -Name '' @ sq @ ''mast-unit'' @ sq @ '' -ErrorAction SilentlyContinue; Write-Host '' @ sq
       @ ''[start-mast-unit] done'' @ sq"

definition phase_start_mast_unit :: "net \<Rightarrow> ssh_session \<Rightarrow> unit net_eff" where
  "phase_start_mast_unit N sess =
     seqM (log_line ''[start-mast-unit] Starting MAST_unit service...'')
    (bindM (unit_ps N sess start_unit_text ''start-mast-unit'' 60 False False) (\<lambda>r.
     whenM (status_code r \<noteq> 0)
       (log_line (''WARNING: start-mast-unit returned exit code '' @ int_str (status_code r)))))"

definition rebuild_text :: "string \<Rightarrow> string" where
  "rebuild_text staging_path =
       ''Set-ExecutionPolicy Bypass -Scope Process -Force; & '' @ sq @ staging_path @ bs @ ''provide-mast.ps1''
       @ sq @ '' -Force -CloneRoot '' @ sq @ ''C:'' @ bs @ ''MAST'' @ bs @ ''src'' @ sq @ '' -AssetsRoot '' @ sq
       @ staging_path @ sq"

definition phase_run_rebuild_repos :: "net \<Rightarrow> harness_env \<Rightarrow> int \<Rightarrow> ssh_session \<Rightarrow> string \<Rightarrow> unit net_eff" where
  "phase_run_rebuild_repos N E timeout_s sess staging_path =
     timed N E ''REBUILD-REPOS PHASE''
       (seqM (log_line (''[rebuild-repos] Running provide-mast.ps1 -Force -CloneRoot ''
                @ repr_str (''C:'' @ bs @ ''MAST'' @ bs @ ''src'') @ '' from '' @ staging_path @ ''...''))
       (bindM (unit_ps N sess (rebuild_text staging_path) ''rebuild-repos'' timeout_s True False) (\<lambda>r.
        if status_code r \<noteq> 0 then raise RuntimeError else ret ())))"

section \<open>Which phases\<close>

record harness_args =
  ha_host_unit :: string
  ha_hostname :: string
  ha_modules :: "string option"
  ha_repeat :: nat
  ha_rebuild :: bool
  ha_build_only :: bool
  ha_execute_only :: bool
  ha_build_transfer_verify :: bool
  ha_pull_repos :: bool
  ha_rebuild_repos :: bool
  ha_phases :: "string option"
  ha_proxy_mode :: string
  ha_vbox_vm :: string
  ha_snapshot :: string
  ha_no_reset :: bool
  ha_wait_s :: int
  ha_call_timeout :: "int option"
  ha_allow_physical :: bool

text \<open>\<open>parse_args\<close>: the defaults, the flags and the options with a value, as \<open>argparse\<close> reads options that are
  written out; none is a usage error.\<close>

definition default_args :: harness_args where
  "default_args = \<lparr>ha_host_unit = [], ha_hostname = ''mast-wis-01'', ha_modules = None, ha_repeat = 1, ha_rebuild = False,
     ha_build_only = False, ha_execute_only = False, ha_build_transfer_verify = False, ha_pull_repos = False,
     ha_rebuild_repos = False, ha_phases = None, ha_proxy_mode = ''weizmann'', ha_vbox_vm = ''mast-unit'',
     ha_snapshot = ''post-prepare'', ha_no_reset = False, ha_wait_s = WINRM_BOOT_TIMEOUT_S, ha_call_timeout = None,
     ha_allow_physical = False\<rparr>"

definition set_flag :: "string \<Rightarrow> harness_args \<Rightarrow> harness_args option" where
  "set_flag opt A =
     (if opt = ''--rebuild'' then Some (A\<lparr>ha_rebuild := True\<rparr>)
      else if opt = ''--build-only'' then Some (A\<lparr>ha_build_only := True\<rparr>)
      else if opt = ''--execute-only'' then Some (A\<lparr>ha_execute_only := True\<rparr>)
      else if opt = ''--build-transfer-verify'' then Some (A\<lparr>ha_build_transfer_verify := True\<rparr>)
      else if opt = ''--pull-repos'' then Some (A\<lparr>ha_pull_repos := True\<rparr>)
      else if opt = ''--rebuild-repos'' then Some (A\<lparr>ha_rebuild_repos := True\<rparr>)
      else if opt = ''--allow-physical-unit'' then Some (A\<lparr>ha_allow_physical := True\<rparr>)
      else if opt = ''--no-reset'' then Some (A\<lparr>ha_no_reset := True\<rparr>)
      else None)"

definition int_arg :: "string \<Rightarrow> (int \<Rightarrow> harness_args) \<Rightarrow> harness_args option" where
  "int_arg v f = (case py_int v of Inr i \<Rightarrow> Some (f i) | Inl e \<Rightarrow> None)"

definition set_option :: "string \<Rightarrow> string \<Rightarrow> harness_args \<Rightarrow> harness_args option" where
  "set_option opt v A =
     (if opt = ''--host-unit'' then Some (A\<lparr>ha_host_unit := v\<rparr>)
      else if opt = ''--hostname'' then Some (A\<lparr>ha_hostname := v\<rparr>)
      else if opt = ''--modules'' then Some (A\<lparr>ha_modules := Some v\<rparr>)
      else if opt = ''--repeat'' then int_arg v (\<lambda>i. A\<lparr>ha_repeat := nat i\<rparr>)
      else if opt = ''--phases'' then Some (A\<lparr>ha_phases := Some v\<rparr>)
      else if opt = ''--proxy-mode'' then (if v = ''weizmann'' \<or> v = ''direct'' then Some (A\<lparr>ha_proxy_mode := v\<rparr>) else None)
      else if opt = ''--vbox-vm'' then Some (A\<lparr>ha_vbox_vm := v\<rparr>)
      else if opt = ''--snapshot'' then Some (A\<lparr>ha_snapshot := v\<rparr>)
      else if opt = ''--winrm-wait-seconds'' then int_arg v (\<lambda>i. A\<lparr>ha_wait_s := i\<rparr>)
      else if opt = ''--winrm-call-timeout-s'' then int_arg v (\<lambda>i. A\<lparr>ha_call_timeout := Some i\<rparr>)
      else None)"

text \<open>What is not taken for an option.\<close>

definition is_value :: "string \<Rightarrow> bool" where
  "is_value v \<longleftrightarrow> (case v of
      [] \<Rightarrow> True
    | c # r \<Rightarrow> c \<noteq> CHR ''-'' \<or> r = [] \<or> all_digits r \<or> CHR '' '' \<in> set r)"

fun parse_options :: "harness_args \<Rightarrow> string list \<Rightarrow> harness_args option" where
  "parse_options A [] = Some A"
| "parse_options A (opt # rest) =
     (case set_flag opt A of
        Some A' \<Rightarrow> parse_options A' rest
      | None \<Rightarrow>
          (case rest of
             [] \<Rightarrow> None
           | v # rest' \<Rightarrow>
               if is_value v
               then (case set_option opt v A of None \<Rightarrow> None | Some A' \<Rightarrow> parse_options A' rest')
               else None))"

definition parse_args :: "string list \<Rightarrow> harness_args option" where
  "parse_args argv = (if ''--host-unit'' \<in> set argv then parse_options default_args argv else None)"

definition VALID_PHASES :: "string list" where
  "VALID_PHASES = [''build'', ''transfer'', ''execute'', ''verify-run'', ''verify'', ''reset'']"

definition DEFAULT_PHASES :: "string list" where
  "DEFAULT_PHASES = [''build'', ''transfer'', ''execute'', ''verify'', ''reset'']"

definition legacy_flags :: "harness_args \<Rightarrow> bool list" where
  "legacy_flags A = [ha_build_only A, ha_execute_only A, ha_build_transfer_verify A, ha_pull_repos A, ha_rebuild_repos A]"

definition requested_phases :: "string \<Rightarrow> string list" where
  "requested_phases t = sorted_set (filter (\<lambda>p. p \<noteq> []) (map strip (split_on (CHR '','') t)))"

text \<open>None is one of the two modes without cycles.\<close>

definition resolve_phases :: "harness_args \<Rightarrow> string list option res" where
  "resolve_phases A =
     (let legacy = length (filter (\<lambda>b. b) (legacy_flags A)) in
      if 1 < legacy then Inl (SystemExit ''ERROR: use at most one of the mode flags.'')
      else if 1 \<le> legacy \<and> ha_phases A \<noteq> None then Inl (SystemExit ''ERROR: --phases cannot be combined with legacy mode flags'')
      else if ha_build_only A then Inr (Some [''build''])
      else if ha_execute_only A then Inr (Some [''execute'', ''verify''])
      else if ha_build_transfer_verify A then Inr (Some [''build'', ''transfer'', ''verify-run'', ''verify''])
      else if ha_pull_repos A \<or> ha_rebuild_repos A then Inr None
      else
        (case ha_phases A of
           None \<Rightarrow> Inr (Some DEFAULT_PHASES)
         | Some t \<Rightarrow>
             (let requested = requested_phases t; unknown = filter (\<lambda>p. p \<notin> set VALID_PHASES) requested in
              if unknown \<noteq> [] then Inl (SystemExit (''ERROR: unknown phase(s): '' @ join '', '' unknown))
              else if ''execute'' \<in> set requested \<and> ''verify-run'' \<in> set requested
              then Inl (SystemExit ''ERROR: execute and verify-run are mutually exclusive in --phases.'')
              else Inr (Some requested))))"

end
