(* ===== verification/Vm_Run.thy ===== *)
theory Vm_Run
  imports Vm_Cycle
begin

text \<open>
  \<open>src/vm/run-prov-test.py\<close>, third part: the cycles and the command. The exit code is none when a command
  without a deadline has not ended within the fuel.
\<close>

text \<open>\<open>finally\<close> of a block at the part that raises out of it.\<close>

definition on_raise :: "('s, 'a) eff \<Rightarrow> ('s, unit) eff \<Rightarrow> ('s, 'a) eff" where
  "on_raise m fin = catchM m (\<lambda>e. seqM fin (raise e))"

section \<open>One cycle\<close>

text \<open>\<open>built\<close>, \<open>unit_session\<close> and \<open>cycle_results\<close>.\<close>

record cycle_state =
  cs_built :: bool
  cs_session :: "ssh_session option"
  cs_results :: "bool list"

record plan =
  pl_phases :: "string list"
  pl_modules :: "string list"
  pl_timeout :: int
  pl_smb :: json
  pl_run_log :: string

definition has_phase :: "plan \<Rightarrow> string \<Rightarrow> bool" where
  "has_phase P p \<longleftrightarrow> p \<in> set (pl_phases P)"

definition passed_cycle :: "bool \<Rightarrow> cycle_state \<Rightarrow> cycle_state" where
  "passed_cycle ok st = st\<lparr>cs_results := cs_results st @ [ok]\<rparr>"

definition needs_build :: "harness_args \<Rightarrow> plan \<Rightarrow> cycle_state \<Rightarrow> bool" where
  "needs_build A P st \<longleftrightarrow> has_phase P ''build'' \<and> (\<not> cs_built st \<or> ha_rebuild A)"

definition build_part :: "net \<Rightarrow> harness_env \<Rightarrow> harness_args \<Rightarrow> plan \<Rightarrow> cycle_state \<Rightarrow> unit net_eff" where
  "build_part N E A P st =
     whenM (needs_build A P st) (phase_build N E (ha_hostname A) (pl_modules P) (ha_proxy_mode A))"

definition only_builds :: "plan \<Rightarrow> bool" where
  "only_builds P \<longleftrightarrow> list_all (\<lambda>p. p = ''build'') (pl_phases P)"

definition connect_part :: "net \<Rightarrow> harness_env \<Rightarrow> harness_args \<Rightarrow> plan \<Rightarrow> ssh_session option \<Rightarrow> ssh_session option net_eff" where
  "connect_part N E A P sess =
     (if \<not> only_builds P \<and> sess = None
      then timed N E ''CONNECT UNIT''
             (bindM (wait_for_ssh N (ha_host_unit A) (ha_wait_s A) SSH_PORT) (\<lambda>s. ret (Some s)))
      else ret sess)"

definition find_staging_text :: string where
  "find_staging_text =
       ''Get-ChildItem '' @ sq @ ''C:'' @ bs @ ''mast-staging'' @ sq
       @ '' -Directory -ErrorAction SilentlyContinue | Sort-Object LastWriteTime -Descending | Select-Object -First 1 -ExpandProperty FullName''"

definition find_staging :: "net \<Rightarrow> ssh_session \<Rightarrow> string net_eff" where
  "find_staging N sess =
     bindM (unit_ps N sess find_staging_text ''find-staging'' 30 True False) (\<lambda>r.
     let staged = strip (std_out r) in
     if staged = []
     then raise (SystemExit (''ERROR: transfer not in phases but no run directory found under C:'' @ bs @ ''mast-staging on unit.''))
     else seqM (log_line (''Using existing staging dir: '' @ staged)) (ret staged))"

definition stage_part :: "net \<Rightarrow> harness_env \<Rightarrow> harness_args \<Rightarrow> plan \<Rightarrow> ssh_session \<Rightarrow> string \<Rightarrow> string net_eff" where
  "stage_part N E A P sess rid =
     (if has_phase P ''transfer'' then
        bindM (liftR (entry_str (pl_smb P) ''user'')) (\<lambda>user.
        bindM (liftR (entry_str (pl_smb P) ''pass'')) (\<lambda>password.
        phase_transfer N E sess (ha_hostname A) rid user password (ha_host_unit A)))
      else if has_phase P ''execute'' \<or> has_phase P ''verify-run'' then find_staging N sess
      else ret [])"

definition execute_part ::
    "nat \<Rightarrow> net \<Rightarrow> harness_env \<Rightarrow> harness_args \<Rightarrow> plan \<Rightarrow> ssh_session \<Rightarrow> string \<Rightarrow> int option net_eff" where
  "execute_part fuel N E A P sess staged =
     (if has_phase P ''execute'' then
        bindD (phase_execute fuel N E (pl_timeout P) sess (ha_host_unit A) staged (pl_modules P)) (\<lambda>r. retD (status_code r))
      else if has_phase P ''verify-run'' then
        bindD (phase_run_verify_only fuel N E sess (ha_host_unit A) staged (pl_modules P)) (\<lambda>r. retD (status_code r))
      else retD 0)"

definition verify_part ::
    "nat \<Rightarrow> net \<Rightarrow> harness_env \<Rightarrow> harness_args \<Rightarrow> plan \<Rightarrow> ssh_session \<Rightarrow> int \<Rightarrow> string \<Rightarrow> nat \<Rightarrow> bool option net_eff" where
  "verify_part fuel N E A P sess run_rc log_dir cycle =
     (if has_phase P ''verify''
      then judge_unit fuel N E sess (pl_modules P) run_rc (has_phase P ''verify-run'' \<and> \<not> has_phase P ''execute'')
             (ha_host_unit A) log_dir cycle
      else retD True)"

text \<open>What a cycle does with the unit: whether it passed.\<close>

definition unit_part ::
    "nat \<Rightarrow> net \<Rightarrow> harness_env \<Rightarrow> harness_args \<Rightarrow> plan \<Rightarrow> ssh_session \<Rightarrow> string \<Rightarrow> string \<Rightarrow> nat \<Rightarrow> bool option net_eff" where
  "unit_part fuel N E A P sess rid log_dir cycle =
     bindM (stage_part N E A P sess rid) (\<lambda>staged.
     bindD (execute_part fuel N E A P sess staged) (\<lambda>run_rc.
     verify_part fuel N E A P sess run_rc log_dir cycle))"

definition cycle_failed :: "nat \<Rightarrow> net \<Rightarrow> harness_env \<Rightarrow> nat \<Rightarrow> pyexc \<Rightarrow> cycle_state \<Rightarrow> (bool \<times> cycle_state) option net_eff" where
  "cycle_failed fuel N E cycle e st =
     seqM (log_line (nl @ ''Cycle '' @ nat_str cycle @ '' ERROR: '' @ he_text E e))
    (bindD (if cs_session st = None then retD ()
            else bindD (on_raise (attemptD (bindD (fetch_execute_log_tail fuel N E) (\<lambda>_. fetch_diagnostics fuel N E)))
                          (dispose (cs_session st))) (\<lambda>_. retD ()))
       (\<lambda>_. retD (False, passed_cycle False st)))"

text \<open>Whether the loop stops, and the state; \<open>except Exception\<close> keeps what was set before it.\<close>

definition cycle_body ::
    "nat \<Rightarrow> net \<Rightarrow> harness_env \<Rightarrow> harness_args \<Rightarrow> plan \<Rightarrow> nat \<Rightarrow> string \<Rightarrow> cycle_state \<Rightarrow> (bool \<times> cycle_state) option net_eff" where
  "cycle_body fuel N E A P cycle log_dir st =
     bindM (query N (he_stamp E)) (\<lambda>stamp.
     bindM (on_raise (attempt (build_part N E A P st)) (dispose (cs_session st))) (\<lambda>b.
     case b of
       Inl e \<Rightarrow> cycle_failed fuel N E cycle e st
     | Inr u \<Rightarrow>
         (let st = st\<lparr>cs_built := cs_built st \<or> needs_build A P st\<rparr> in
          bindM (on_raise (attempt (connect_part N E A P (cs_session st))) (dispose (cs_session st))) (\<lambda>c.
          case c of
            Inl e \<Rightarrow> cycle_failed fuel N E cycle e st
          | Inr sess \<Rightarrow>
              (let st = st\<lparr>cs_session := sess\<rparr> in
               if only_builds P
               then seqM (log_line ''No non-build phases selected; stopping after build.'') (retD (True, st))
               else
                 (case sess of
                    None \<Rightarrow> retD (True, st)
                  | Some s \<Rightarrow>
                      bindD (on_raise (attemptD (unit_part fuel N E A P s (''run-'' @ stamp) log_dir cycle)) (ssh_close)) (\<lambda>r.
                      case r of
                        Inl e \<Rightarrow> cycle_failed fuel N E cycle e st
                      | Inr ok \<Rightarrow> retD (False, passed_cycle ok st))))))))"

text \<open>The machine is reset between cycles.\<close>

definition reset_part :: "net \<Rightarrow> harness_env \<Rightarrow> harness_args \<Rightarrow> plan \<Rightarrow> nat \<Rightarrow> cycle_state \<Rightarrow> cycle_state net_eff" where
  "reset_part N E A P cycle st =
     (if cycle < ha_repeat A \<and> \<not> ha_no_reset A \<and> has_phase P ''reset''
      then bindM (phase_reset N E (ha_vbox_vm A) (ha_snapshot A) (ha_host_unit A) (ha_wait_s A)) (\<lambda>s.
           seqM (dispose (cs_session st)) (ret (st\<lparr>cs_session := Some s\<rparr>)))
      else ret st)"

definition rule60 :: string where "rule60 = replicate 60 (CHR ''='')"

fun run_cycles ::
    "nat \<Rightarrow> net \<Rightarrow> harness_env \<Rightarrow> harness_args \<Rightarrow> plan \<Rightarrow> nat \<Rightarrow> nat \<Rightarrow> cycle_state \<Rightarrow> cycle_state option net_eff" where
  "run_cycles fuel N E A P 0 cycle st = retD st"
| "run_cycles fuel N E A P (Suc k) cycle st =
     seqM (forM [nl @ rule60, ''CYCLE '' @ nat_str cycle @ ''/'' @ nat_str (ha_repeat A), rule60] log_line)
    (bindM (query N (he_stamp E)) (\<lambda>stamp.
     bindD (cycle_body fuel N E A P cycle (stamp @ ''-cycle'' @ nat_str cycle) st) (\<lambda>(stop, st').
     if stop then retD st'
     else bindM (on_raise (reset_part N E A P cycle st') (dispose (cs_session st'))) (run_cycles fuel N E A P k (cycle + 1)))))"

section \<open>The end of a run\<close>

definition count_true :: "bool list \<Rightarrow> nat" where
  "count_true oks = length (filter (\<lambda>ok. ok) oks)"

definition summary :: "plan \<Rightarrow> bool list \<Rightarrow> int net_eff" where
  "summary P results =
     (let total = length results; passed = count_true results in
      seqM (forM [nl @ rule60, ''SUMMARY: '' @ nat_str passed @ ''/'' @ nat_str total @ '' cycles passed'',
              ''Run log saved to: '' @ pl_run_log P, rule60] log_line)
           (ret (if passed = total then 0 else 1)))"

definition total_line :: "net \<Rightarrow> harness_env \<Rightarrow> int \<Rightarrow> unit net_eff" where
  "total_line N E started =
     bindM (clock N) (\<lambda>now. log_line (''[TIMING] Total run (run-prov-test.py): '' @ format_elapsed E (now - started)))"

definition standard_run :: "nat \<Rightarrow> net \<Rightarrow> harness_env \<Rightarrow> harness_args \<Rightarrow> plan \<Rightarrow> int \<Rightarrow> int option net_eff" where
  "standard_run fuel N E A P started =
     bindD (run_cycles fuel N E A P (ha_repeat A) 1 \<lparr>cs_built = False, cs_session = None, cs_results = []\<rparr>) (\<lambda>st.
     seqM (dispose (cs_session st))
    (seqM (total_line N E started)
     (bindM (if has_phase P ''verify'' then summary P (cs_results st) else ret 0) retD)))"

section \<open>The two modes without cycles\<close>

definition pull_mode :: "nat \<Rightarrow> net \<Rightarrow> harness_env \<Rightarrow> harness_args \<Rightarrow> plan \<Rightarrow> ssh_session \<Rightarrow> string \<Rightarrow> bool option net_eff" where
  "pull_mode fuel N E A P sess log_dir =
     seqM (phase_clear_unit_logs N E sess)
    (seqM (phase_pull_repos N E sess)
    (seqM (phase_start_mast_unit N sess)
    (seqM (phase_wait_for_unit_health N E (ha_host_unit A) MAST_UNIT_BOOT_TIMEOUT)
          (judge_unit fuel N E sess (pl_modules P) 0 False (ha_host_unit A) log_dir 1))))"

definition rebuild_mode ::
    "nat \<Rightarrow> net \<Rightarrow> harness_env \<Rightarrow> harness_args \<Rightarrow> plan \<Rightarrow> ssh_session \<Rightarrow> string \<Rightarrow> string \<Rightarrow> bool option net_eff" where
  "rebuild_mode fuel N E A P sess rid log_dir =
     seqM (phase_build N E (ha_hostname A) [''mast''] (ha_proxy_mode A))
    (bindM (liftR (entry_str (pl_smb P) ''user'')) (\<lambda>user.
     bindM (liftR (entry_str (pl_smb P) ''pass'')) (\<lambda>password.
     bindM (phase_transfer N E sess (ha_hostname A) rid user password (ha_host_unit A)) (\<lambda>staged.
     seqM (phase_clear_unit_logs N E sess)
    (seqM (phase_run_rebuild_repos N E (pl_timeout P) sess staged)
    (seqM (phase_wait_for_unit_health N E (ha_host_unit A) MAST_UNIT_BOOT_TIMEOUT)
          (judge_unit fuel N E sess (pl_modules P) 0 False (ha_host_unit A) log_dir 1)))))))"

definition special_run :: "nat \<Rightarrow> net \<Rightarrow> harness_env \<Rightarrow> harness_args \<Rightarrow> plan \<Rightarrow> int \<Rightarrow> int option net_eff" where
  "special_run fuel N E A P started =
     bindM (timed N E ''CONNECT UNIT'' (wait_for_ssh N (ha_host_unit A) (ha_wait_s A) SSH_PORT)) (\<lambda>sess.
     bindD (finally_done
       (bindM (query N (he_stamp E)) (\<lambda>rstamp.
        bindM (query N (he_stamp E)) (\<lambda>dstamp.
        if ha_pull_repos A then pull_mode fuel N E A P sess (dstamp @ ''-cycle1'')
        else rebuild_mode fuel N E A P sess (''run-'' @ rstamp) (dstamp @ ''-cycle1''))))
       ssh_close) (\<lambda>passed.
     seqM (total_line N E started) (bindM (summary P [passed]) retD)))"

section \<open>The command\<close>

definition DEV_VM_SUBNET :: string where "DEV_VM_SUBNET = ''192.168.56.0/24''"

definition refusal :: "harness_args \<Rightarrow> string \<Rightarrow> string" where
  "refusal A addr =
     ''REFUSING: --host-unit '' @ quote (ha_host_unit A) @ '' resolves to '' @ quote (if addr = [] then ''nothing'' else addr)
     @ '', which is not on the dev VM'' @ sq @ ''s host-only network ('' @ DEV_VM_SUBNET @ '').''"

text \<open>The target must be the test machine, or a real one must be allowed.\<close>

definition guard_target :: "net \<Rightarrow> harness_env \<Rightarrow> harness_args \<Rightarrow> unit net_eff" where
  "guard_target N E A =
     bindM (resolve_target_address N E (ha_host_unit A)) (\<lambda>addr.
     if \<not> is_dev_vm_address addr \<and> \<not> ha_allow_physical A then raise (SystemExit (refusal A addr))
     else
       seqM (forM (if is_dev_vm_address addr then [''VM:      '' @ ha_vbox_vm A @ ''  (snapshot: '' @ ha_snapshot A @ '')'']
                   else [''VM:      not used -- target '' @ ha_host_unit A @ '' is NOT the dev VM'',
                         ''[WARN]   PHYSICAL UNIT: this installs software on real hardware'']) log_line)
      (seqM (log_line (''Unit SSH target: '' @ ha_host_unit A @ (if addr = [] then '' (UNRESOLVED)'' else '' ('' @ addr @ '')'')))
            (log_line (''SSH wait: '' @ int_str (ha_wait_s A) @ ''s''))))"

definition modules_of :: "harness_env \<Rightarrow> harness_args \<Rightarrow> string list res" where
  "modules_of E A =
     (case ha_modules A of
        Some t \<Rightarrow> if t = [] then all_modules E else Inr (split_on (CHR '','') t)
      | None \<Rightarrow> all_modules E)"

definition banner :: "harness_args \<Rightarrow> string list" where
  "banner A =
     [replicate 67 (CHR ''=''),
      ''[run-prov-test] '' @ (if ha_proxy_mode A = ''weizmann'' then ''*** WEIZMANN-PROXY MODE ***'' else ''*** NO-WEIZMANN-PROXY (DIRECT) MODE ***''),
      ''[run-prov-test] --proxy-mode '' @ ha_proxy_mode A,
      replicate 67 (CHR ''='')]"

definition unit_account :: "json \<Rightarrow> string" where
  "unit_account c = (case c of JObj d \<Rightarrow> (case field d ''user'' of JStr u \<Rightarrow> u | _ \<Rightarrow> []) | _ \<Rightarrow> [])"

text \<open>The blocks of the credentials for the unit and the share.\<close>

definition harness_creds :: "harness_env \<Rightarrow> (json \<times> json) res" where
  "harness_creds E =
     bind_res (he_creds E) (\<lambda>creds.
     case map_of creds ''unit'' of
       None \<Rightarrow> Inl (SystemExit (''ERROR: vault/creds.json must contain a '' @ quote ''unit'' @ '' block.''))
     | Some u \<Rightarrow>
         (case map_of creds ''smb'' of
            None \<Rightarrow> Inl (SystemExit (''ERROR: vault/creds.json must contain an '' @ quote ''smb'' @ '' block (see creds.json.template).''))
          | Some b \<Rightarrow> Inr (u, b)))"

definition run_timeout :: "harness_args \<Rightarrow> int" where
  "run_timeout A = (case ha_call_timeout A of None \<Rightarrow> WINRM_TIMEOUT | Some t \<Rightarrow> max WINRM_TIMEOUT t)"

text \<open>\<open>_keep_awake\<close> around a run: what it logs; that the request is given up leaves no trace.\<close>

definition keep_awake :: "harness_env \<Rightarrow> unit net_eff" where
  "keep_awake E =
     (case he_awake E of
        None \<Rightarrow> ret ()
      | Some (Inr u) \<Rightarrow> log_line ''[keep-awake] holding the host awake (no-sleep) for the run''
      | Some (Inl e) \<Rightarrow> log_line (''[keep-awake] could not set no-sleep (continuing): '' @ he_text E e))"

definition harness_main :: "nat \<Rightarrow> net \<Rightarrow> harness_env \<Rightarrow> harness_args \<Rightarrow> int option net_eff" where
  "harness_main fuel N E A =
     bindM (liftR (modules_of E A)) (\<lambda>modules.
     seqM (forM (banner A) log_line)
    (bindM (liftR (harness_creds E)) (\<lambda>(account, smb).
     seqM (modifyM (\<lambda>s. s\<lparr>w_user := unit_account account\<rparr>))
    (bindM (liftR (resolve_phases A)) (\<lambda>phases.
     bindM (query N (he_stamp E)) (\<lambda>run_ts.
     bindM (clock N) (\<lambda>started.
     seqM (keep_awake E)
    (seqM (forM ([''Run log: '' @ run_ts @ ''-run.log'', ''Modules: '' @ join '', '' modules]
             @ (case phases of None \<Rightarrow> [] | Some ps \<Rightarrow> [''Phases:  '' @ join '', '' (sort ps)])
             @ [''Cycles:  '' @ nat_str (ha_repeat A)]) log_line)
    (seqM (guard_target N E A)
     (let P = \<lparr>pl_phases = (case phases of None \<Rightarrow> [] | Some ps \<Rightarrow> ps), pl_modules = modules,
               pl_timeout = run_timeout A, pl_smb = smb, pl_run_log = run_ts @ ''-run.log''\<rparr> in
      case phases of
        None \<Rightarrow> special_run fuel N E A P started
      | Some ps \<Rightarrow> standard_run fuel N E A P started))))))))))"

text \<open>The exit status of the process: a message or a traceback is 1.\<close>

definition exit_status :: "int option res \<Rightarrow> int option" where
  "exit_status r = (case r of Inr c \<Rightarrow> c | Inl e \<Rightarrow> Some 1)"

end
