(* ===== verification/Vm_Guard.thy ===== *)
theory Vm_Guard
  imports Vm_Run Transport_Gives
begin

text \<open>
  The guard of the harness: which addresses are the test machine's, and that nothing is done to any other
  target that was not allowed.
\<close>

section \<open>The addresses of the test machines\<close>

lemma digit_char_val: "is_digit c \<Longrightarrow> digit_char (digit_val c) = c"
  by (auto simp: is_digit_def digit_val_def digit_char_def code_def)

lemma nat_str_known: "nat_str 0 = ''0''" "nat_str 192 = ''192''" "nat_str 168 = ''168''" "nat_str 56 = ''56''"
  by code_simp+

lemma nat_str_val:
  "all_digits s \<Longrightarrow> length s = 1 \<or> hd s \<noteq> CHR ''0'' \<Longrightarrow> nat_str (digits_val s) = s"
proof (induction s rule: rev_induct)
  case (snoc c t)
  then have c: "is_digit c" by (simp add: all_digits_def)
  have d: "digit_val c < 10" using c by (auto simp: is_digit_def digit_val_def)
  show ?case
  proof (cases "t = []")
    case True
    then show ?thesis using c d by (subst nat_str.simps) (simp add: digits_val_def digit_char_val)
  next
    case False
    then have t: "nat_str (digits_val t) = t"
      using snoc by (auto simp: all_digits_def)
    have "digits_val t \<noteq> 0"
    proof
      assume "digits_val t = 0"
      then have "t = ''0''" using t nat_str_known(1) by simp
      then show False using snoc.prems False by simp
    qed
    then have "\<not> digits_val (t @ [c]) < 10" by (simp add: digits_val_snoc)
    then show ?thesis
      using d t c by (subst nat_str.simps) (simp add: digits_val_snoc digit_char_val)
  qed
qed (simp add: all_digits_def)

lemma octet_iff: "octet s = Some n \<longleftrightarrow> n < 256 \<and> s = nat_str n"
proof
  assume "octet s = Some n"
  then show "n < 256 \<and> s = nat_str n"
    using nat_str_val [of s] by (auto simp: octet_def split: if_splits)
next
  assume n: "n < 256 \<and> s = nat_str n"
  have three: "length (nat_str n) \<le> 3"
  proof -
    have "length (nat_str m) \<le> 1" if "m < 10" for m using that by (subst nat_str.simps) simp
    then have "length (nat_str m) \<le> 2" if "m < 100" for m using that by (subst nat_str.simps) simp
    then have "length (nat_str m) \<le> 3" if "m < 1000" for m using that by (subst nat_str.simps) simp
    then show ?thesis using n by simp
  qed
  have "length (nat_str m) = 1 \<or> hd (nat_str m) \<noteq> CHR ''0''" for m
  proof (induction m rule: nat_str.induct)
    case (1 m)
    have "nat_str (m div 10) \<noteq> ''0''" if "\<not> m < 10"
      using that digits_val_nat_str [of "m div 10"] by (auto simp: digits_val_def digit_val_def code_def)
    with 1 show ?case
      using nat_str_digits [of "m div 10"]
      by (subst (1 2) nat_str.simps) (auto simp: all_digits_def hd_append length_Suc_conv)
  qed
  with three n show "octet s = Some n" by (simp add: octet_def nat_str_digits)
qed

lemma octet_known: "octet s = Some 192 \<longleftrightarrow> s = ''192''" "octet s = Some 168 \<longleftrightarrow> s = ''168''" "octet s = Some 56 \<longleftrightarrow> s = ''56''"
  by (simp_all add: octet_iff nat_str_known)

lemma dev_vm_iff: "is_dev_vm_address addr \<longleftrightarrow> (\<exists>k<256. addr = ''192.168.56.'' @ nat_str k)"
proof
  assume "is_dev_vm_address addr"
  then obtain a b c d k where "split_on (CHR ''.'') addr = [a, b, c, d]"
    and o: "octet a = Some 192" "octet b = Some 168" "octet c = Some 56" "octet d = Some k"
    by (auto simp: is_dev_vm_address_def map_eq_Cons_conv split: list.splits)
  then have "addr = join ''.'' [a, b, c, d]" using join_split_on [of "CHR ''.''" addr] by simp
  then show "\<exists>k<256. addr = ''192.168.56.'' @ nat_str k"
    using o by (auto simp: octet_known octet_iff nat_str_known intro!: exI [of _ k])
next
  assume "\<exists>k<256. addr = ''192.168.56.'' @ nat_str k"
  then obtain k where k: "k < 256" "addr = ''192.168.56.'' @ nat_str k" by blast
  have "CHR ''.'' \<notin> set (nat_str k)"
    using nat_str_digits [of k] by (auto simp: all_digits_def list_all_iff is_digit_def code_def)
  then have "split_on (CHR ''.'') (nat_str k) = [nat_str k]" by (rule split_on_no_sep)
  then have "split_on (CHR ''.'') addr = [''192'', ''168'', ''56'', nat_str k]" using k by simp
  moreover have "octet (nat_str k) = Some k" using k by (simp add: octet_iff)
  ultimately show "is_dev_vm_address addr" by (simp add: is_dev_vm_address_def octet_known)
qed

section \<open>A refused target\<close>

abbreviation lines :: "wact set" where
  "lines \<equiv> range LogLine"

text \<open>Programs that end with an exception and do nothing but print lines.\<close>

definition stops :: "'a net_eff \<Rightarrow> bool" where
  "stops m \<longleftrightarrow> (\<forall>s. isl (fst (m s)) \<and> grown lines s (snd (m s)))"

lemma stops_first:
  assumes "stops m"
  shows "stops (bindM m f)"
  unfolding stops_def
proof (intro allI)
  fix s
  from assms have "isl (fst (m s))" and "grown lines s (snd (m s))" by (auto simp: stops_def)
  then show "isl (fst (bindM m f s)) \<and> grown lines s (snd (bindM m f s))"
    by (cases "m s") (auto simp: bindM_def split: sum.splits)
qed

lemma stops_later:
  assumes "only_acts lines m" and "\<And>a. stops (f a)"
  shows "stops (bindM m f)"
  unfolding stops_def
proof (intro allI)
  fix s
  obtain r t where r: "m s = (r, t)" by fastforce
  with assms(1) have t: "grown lines s t" by (auto dest: only_actsD)
  show "isl (fst (bindM m f s)) \<and> grown lines s (snd (bindM m f s))"
    using assms(2) t by (auto simp: bindM_def r stops_def split: sum.splits intro: acts_grown_trans)
qed

lemma stops_seq_first: "stops m \<Longrightarrow> stops (seqM m n)"
  and stops_seq_later: "only_acts lines m \<Longrightarrow> stops n \<Longrightarrow> stops (seqM m n)"
  unfolding seqM_def by (auto intro: stops_first stops_later)

lemma only_lines [acts]: "only_acts lines (clock N)" "only_acts lines (log_line l)" "only_acts lines (keep_awake E)"
  unfolding clock_def log_line_def keep_awake_def by (intro acts only_option only_sum; simp add: log_line_def only_emit)+

lemma guard_stops:
  assumes "\<And>n a. he_lookup E n (ha_host_unit A) = Inr a \<Longrightarrow> \<not> is_dev_vm_address a" and "\<not> ha_allow_physical A"
  shows "stops (guard_target N E A)"
proof -
  have "\<not> is_dev_vm_address []" by (simp add: dev_vm_iff)
  with assms show ?thesis
    by (auto simp: stops_def guard_target_def resolve_target_address_def bindM_def query_def split: sum.splits)
qed

text \<open>C36: A target that is not on the test machines' network, as the resolver answers, and that was not
  allowed is refused: the harness ends with an exception, and has done nothing but print lines. In
  particular it has not built, connected, sent a script or touched the virtual machine.\<close>

theorem other_target_untouched:
  assumes "\<And>n k. k < 256 \<Longrightarrow> he_lookup E n (ha_host_unit A) \<noteq> Inr (''192.168.56.'' @ nat_str k)"
    and "\<not> ha_allow_physical A"
  shows "exit_status (fst (harness_main fuel N E A s)) = Some 1
    \<and> (\<exists>ls. w_acts (snd (harness_main fuel N E A s)) = w_acts s @ map LogLine ls)"
proof -
  have guard: "stops (guard_target N E A)"
    by (rule guard_stops [OF _ assms(2)]) (auto simp: dev_vm_iff dest: assms(1))
  have user: "only_acts lines (modifyM (\<lambda>s. s\<lparr>w_user := u\<rparr>))" for u
    by (simp add: only_acts_def)
  have "stops (harness_main fuel N E A)"
    unfolding harness_main_def
    by (intro stops_later stops_seq_later acts user; (split prod.split)?; (intro allI impI)?;
        intro stops_later stops_seq_later stops_seq_first guard acts user)
  then have "isl (fst (harness_main fuel N E A s))" and "grown lines s (snd (harness_main fuel N E A s))"
    by (auto simp: stops_def)
  moreover have "set as \<subseteq> lines \<Longrightarrow> \<exists>ls. as = map LogLine ls" for as
    by (induction as) (auto, metis list.simps(9))
  ultimately show ?thesis by (auto simp: grown_def exit_status_def split: sum.splits)
qed

end
