(* ===== verification/Vm_Once.thy ===== *)
theory Vm_Once
  imports Vm_Guard
begin

text \<open>
  Every call of VirtualBox, and when there is none: which processes a run of the harness starts.
\<close>

section \<open>Acts that are no process of one program\<close>

definition others :: "string \<Rightarrow> wact set" where
  "others exe = {a. \<forall>args. a \<noteq> Spawned (exe # args)}"

lemma other_acts [simp]:
  "LogLine l \<in> others x" "LogRaw l \<in> others x" "Pause d \<in> others x" "Exec c \<in> others x" "OpenedChannel \<in> others x"
  "CloseChannel \<in> others x" "WebGet u \<in> others x" "WroteFile f t \<in> others x"
  "OpenedShell sh \<in> others x" "StartedCommand sh c \<in> others x" "CleanupCommand sh c \<in> others x" "CloseShell sh \<in> others x"
  "Ping host u \<in> others x" "DisposeWinrm \<in> others x"
  "Spawned (y # args) \<in> others x \<longleftrightarrow> y \<noteq> x"
  by (auto simp: others_def)

lemma other_log [acts]: "only_acts (others x) (clock N)" "only_acts (others x) (log_line l)"
  unfolding clock_def log_line_def by (intro acts; simp add: log_line_def only_emit)+

lemma only_loop_for [acts]: "(\<And>a. only_acts A (body a)) \<Longrightarrow> only_acts A (loop_for fuel body a)"
  unfolding loop_for_def by (intro acts)

lemma other_connect [acts]:
  "only_acts (others x) ssh_close" "only_acts (others x) (ssh_session N h p t)" "only_acts (others x) (ssh_connect N ses ti)"
  "only_acts (others x) (wait_for_ssh N h t p)"
  by (unfold wait_for_ssh_def wait_for_ssh_body_def ssh_session_def ssh_connect_def ssh_close_def Let_def; intro acts; simp add: others_def)+

lemma other_reconnect [acts]: "only_acts (others x) (Transport_Ssh.reconnect N ses)"
  unfolding Transport_Ssh.reconnect_def reconnect_body_def by (intro acts) simp_all

lemma other_ssh_run [acts]: "only_acts (others x) (ssh_run_ps N script t)" "only_acts (others x) (run_open fuel N script)"
  by (unfold ssh_run_ps_def ssh_wait_body_def run_open_def open_wait_body_def drain_def; intro acts; simp)+

lemma other_attempts [acts]: "only_acts (others x) (ssh_attempts k N ses script t l)"
proof (induction k)
  case 0
  show ?case by (subst ssh_attempts.simps) (auto intro!: acts)
next
  case (Suc k)
  then show ?case by (subst ssh_attempts.simps) (auto intro!: acts)
qed

lemma only_heartbeat [acts]:
  assumes "only_acts A work" and "\<And>l. only_acts A (log_line l)" and "only_acts A (clock N)"
  shows "only_acts A (run_with_heartbeat N work label t has_timer)"
proof -
  have after: "only_acts A (\<lambda>s. case work s of (r, s1) \<Rightarrow> g r s1)" if "\<And>r. only_acts A (g r)" for g
    using assms(1) that by (intro only_actsI) (auto split: prod.splits intro: acts_grown_trans dest!: only_actsD)
  then show ?thesis unfolding run_with_heartbeat_def by (intro only_bindM assms(3) after; intro acts assms)
qed

lemma other_unit_ps [acts]: "only_acts (others x) (unit_ps N sess script l t e h)"
  unfolding unit_ps_def run_ps_def resilient_run_ps_def unit_session.case Let_def by (intro acts) simp_all

section \<open>The phases\<close>

lemma only_timed [acts]:
  assumes "only_acts A m" and "\<And>l. only_acts A (log_line l)" and "only_acts A (clock N)"
  shows "only_acts A (timed N E label m)"
  unfolding timed_def phase_start_def phase_end_def by (intro acts assms)

lemma only_timedD [acts]:
  assumes "only_acts A m" and "\<And>l. only_acts A (log_line l)" and "only_acts A (clock N)"
  shows "only_acts A (timedD N E label m)"
  unfolding timedD_def phase_start_def phase_end_def by (intro acts assms)

lemma other_build [acts]:
  assumes "x \<noteq> ''powershell.exe''"
  shows "only_acts (others x) (phase_build N E host ms proxy)"
proof -
  have "only_acts (others x) (bindM (liftR (build_command E host ms proxy)) f)"
    if "\<And>args. only_acts (others x) (f (''powershell.exe'' # args))" for f :: "string list \<Rightarrow> unit net_eff"
    using that by (cases "build_command E host ms proxy") (auto simp: build_command_def bind_res_def only_acts_def bindM_def liftR_def split: sum.splits)
  note made = this
  show ?thesis
    unfolding phase_build_def using assms by (intro only_timed only_if made; intro acts; simp)
qed

lemma other_transfer [acts]: "only_acts (others x) (phase_transfer N E sess host rid u p h)"
  unfolding phase_transfer_def send_pull_script_def transfer_payload_def prov_address_def resolve_target_address_def Let_def
  by (intro acts)

lemma other_tail [acts]: "only_acts (others x) (fetch_session_log_tail fuel N E l k)" "only_acts (others x) (fetch_diagnostics fuel N E)"
  "only_acts (others x) (fetch_execute_log_tail fuel N E)" "only_acts (others x) (dispose s)"
  by (unfold fetch_execute_log_tail_def fetch_session_log_tail_def log_tail_def find_unit_log_path_def fetch_diagnostics_def show_output_def dispose_def;
      intro acts; simp)+

lemma other_polls [acts]: "only_acts (others x) (poll_passes fuel N E h l k p)"
proof (induction k arbitrary: p)
  case (Suc k)
  show ?case
    unfolding poll_passes.simps poll_read_def find_unit_log_path_def poll_recover_def new_session_def Let_def
    by (intro acts Suc.IH) simp
qed (simp add: only_basic)

lemma other_streamed [acts]: "only_acts (others x) m \<Longrightarrow> only_acts (others x) (streamed fuel N E h l m)"
  unfolding streamed_def poller_thread_def stop_poller_def new_session_def by (intro acts)

lemma other_execute [acts]: "only_acts (others x) (phase_execute fuel N E t sess h st ms)"
  "only_acts (others x) (phase_run_verify_only fuel N E sess h st ms)"
  unfolding phase_execute_def phase_run_verify_only_def by (intro acts)+

lemma other_smoke [acts]: "only_acts (others x) (read_smoke N sess ms d)"
  by (induction ms arbitrary: d) (auto intro!: acts simp: Let_def)

lemma other_judge [acts]: "only_acts (others x) (judge_unit fuel N E sess ms rc v h l c)"
  unfolding judge_unit_def phase_verify_def check_python_def check_repos_def check_unit_health_def unit_expected_to_serve_def ask_health_def
    print_results_def
  by (intro acts; simp)

lemma other_modes [acts]: "only_acts (others x) (phase_clear_unit_logs N E sess)" "only_acts (others x) (phase_pull_repos N E sess)"
  "only_acts (others x) (phase_start_mast_unit N sess)" "only_acts (others x) (phase_run_rebuild_repos N E t sess st)"
  "only_acts (others x) (phase_wait_for_unit_health N E h t)"
  by (unfold phase_clear_unit_logs_def phase_pull_repos_def phase_start_mast_unit_def phase_run_rebuild_repos_def
        phase_wait_for_unit_health_def wait_health_body_def ask_health_def Let_def; intro acts; simp)+

section \<open>The cycles\<close>

lemma only_on_raise [acts]: "only_acts A m \<Longrightarrow> only_acts A fin \<Longrightarrow> only_acts A (on_raise m fin)"
  unfolding on_raise_def by (intro acts)

lemma other_failed [acts]: "only_acts (others x) (cycle_failed fuel N E c e st)"
  unfolding cycle_failed_def by (intro acts)

lemma other_cycle [acts]:
  assumes "x \<noteq> ''powershell.exe''"
  shows "only_acts (others x) (cycle_body fuel N E A P c d st)"
  unfolding cycle_body_def build_part_def connect_part_def unit_part_def stage_part_def execute_part_def verify_part_def find_staging_def Let_def
  by (intro acts assms)

text \<open>The cycle after which the machine is reset is not the last one.\<close>

lemma other_cycles:
  assumes "x \<noteq> ''powershell.exe''"
  shows "c + k = Suc (ha_repeat A) \<Longrightarrow> ha_repeat A \<le> c \<Longrightarrow> only_acts (others x) (run_cycles fuel N E A P k c st)"
proof (induction k arbitrary: c st)
  case (Suc k)
  have last: "only_acts (others x) (run_cycles fuel N E A P k d u)" for d u
    using Suc.prems by (cases k) (simp_all add: only_basic)
  have "reset_part N E A P c u = ret u" for u using Suc.prems by (simp add: reset_part_def)
  then show ?case by (simp only: run_cycles.simps, intro acts last assms)
qed (simp add: only_basic)

lemma other_standard:
  assumes "x \<noteq> ''powershell.exe''" and "ha_repeat A \<le> 1"
  shows "only_acts (others x) (standard_run fuel N E A P t)"
proof -
  have "only_acts (others x) (run_cycles fuel N E A P (ha_repeat A) 1 st)" for st
    using assms by (intro other_cycles) simp_all
  then show ?thesis unfolding standard_run_def total_line_def summary_def Let_def by (intro acts)
qed

lemma other_special:
  assumes "x \<noteq> ''powershell.exe''"
  shows "only_acts (others x) (special_run fuel N E A P t)"
  unfolding special_run_def pull_mode_def rebuild_mode_def total_line_def summary_def Let_def by (intro acts assms) 

lemma only_user [acts]: "only_acts A (modifyM (w_user_update g))"
  by (simp add: only_acts_def)

lemma other_harness:
  assumes "x \<noteq> ''powershell.exe''" and "ha_repeat A \<le> 1"
  shows "only_acts (others x) (harness_main fuel N E A)"
  unfolding harness_main_def guard_target_def resolve_target_address_def keep_awake_def Let_def
  by (intro acts other_standard other_special assms)

text \<open>A run with one cycle never calls VirtualBox, whatever the phases: the machine is only reset
  between cycles, so a \<open>reset\<close> among the phases of such a run does nothing.\<close>

theorem one_cycle_never_resets:
  assumes "ha_repeat A \<le> 1" and "vb_exe (he_vm E) \<noteq> ''powershell.exe''"
    and "harness_main fuel N E A s = (r, s')" and "a \<in> set (drop (length (w_acts s)) (w_acts s'))"
  shows "a \<noteq> Spawned (vb_exe (he_vm E) # args)"
proof -
  from assms(3) have "grown (others (vb_exe (he_vm E))) s s'"
    by (rule only_actsD [OF other_harness [OF assms(2,1)]])
  with assms(4) show ?thesis by (auto simp: grown_def others_def)
qed

end
