(* ===== verification/Vm_Suite.thy ===== *)
theory Vm_Suite
  imports Vm_Run
begin

text \<open>
  \<open>src/vm/test-suite.py\<close>: the named scenarios, each a sequence of runs of the harness with changes of the
  staged payload and of the unit between them, and the verdict on them. A run of the harness is a process
  of its own: \<open>Spawned\<close> on the timeline, answered with its exit code and its output. What is printed and
  what the preflight logs are the lines of the timeline; the heartbeat of a running
  sub-run and the tail of the log of a preflight that failed are left out.
\<close>

section \<open>Scenarios\<close>

record scenario =
  sc_name :: string
  sc_description :: string
  sc_phases :: string
  sc_modules :: string
  sc_repeat :: nat
  sc_expected_rc :: int
  sc_status :: string

record scenario_result =
  rs_name :: string
  rs_status :: string
  rs_outcome :: string
  rs_duration :: int
  rs_detail :: string
  rs_sub_runs :: "json list"

text \<open>A scenario over all modules that runs once and expects success, as all of the registry.\<close>

definition scenario :: "string \<Rightarrow> string \<Rightarrow> string \<Rightarrow> string \<Rightarrow> scenario" where
  "scenario name status phases description =
     \<lparr>sc_name = name, sc_description = description, sc_phases = phases, sc_modules = [], sc_repeat = 1,
      sc_expected_rc = 0, sc_status = status\<rparr>"

definition SCENARIOS :: "scenario list" where
  "SCENARIOS = [
     scenario (''full-provision'') (''ACTIVE'') (''build,transfer,execute,verify,reset'')
       (''All modules, full phase cycle, verify all smoke markers.''),
     scenario (''interrupted-inject-fail'') (''ACTIVE'') []
       (
       ''Inject deterministic bomb at order=1250, expect non-zero on first attempt; after snapshot reset, clean re-run must pass.''),
     scenario (''failure-recover-no-reset'') (''ACTIVE'') []
       (
       ''Inject sporadic (marker-gated) bomb. Attempt 1 fails; second attempt against the same partially-provisioned unit succeeds. No snapshot reset between attempts.''),
     scenario (''idempotent-after-manifest-wipe'') (''ACTIVE'') []
       (''Full provision; delete C:'' @ bs @ ''MAST'' @ bs
       @ ''installed-manifest.json on the unit; full provision again. Both runs PASS and the rewritten manifest has the same payload_hash.''),
     scenario (''interrupted-vbox-poweroff'') (''STUB'') []
       (''Abruptly poweroff the VM mid-execute via VBoxManage.''),
     scenario (''interrupted-network-drop'') (''STUB'') []
       (''Disable the VBox NIC during the transfer phase.''),
     scenario (''idempotent-reprovision'') (''STUB'') []
       (
       ''Two full provisions; second should be UNIT_SKIP. Requires the server/prov driver, not run-prov-test.py.''),
     scenario (''upgrade'') (''STUB'') []
       (''Provision N then N+1; verify only delta modules re-ran.''),
     scenario (''rollback'') (''STUB'') []
       (''Provision N+1 then roll back to N.''),
     scenario (''uninstall'') (''STUB'') []
       (''Provision all, uninstall one module, verify removal.''),
     scenario (''proxy-weizmann-on-campus'') (''STUB'') []
       (
       ''Full provision with --proxy-mode weizmann against a unit that can reach bcproxy.weizmann.ac.il:8080. Asserts that all three proxy surfaces (env vars, WinINet, WinHTTP) are configured.''),
     scenario (''reboot-occurs-and-unit-recovers'') (''STUB'') []
       (
       ''End-to-end reboot: provision a unit that ends with the pending-reboot flag set, drive the reboot through to actual Restart-Computer, wait for WinRM to return, re-verify all smoke markers, and assert the flag is cleared. Prerequisite for declaring Windows Update + reboot orchestration safe.''),
     scenario (''reboot-deferred-outside-maintenance-window'') (''STUB'') []
       (
       ''Out-of-window pending reboot must be DEFERRED, not executed. Asserts the driver honors maintenance_window before issuing Restart-Computer and that the deferred state is recoverable on the next in-window run.'')]"

definition scenario_named :: "string \<Rightarrow> scenario option" where
  "scenario_named name = find (\<lambda>s. sc_name s = name) SCENARIOS"

section \<open>The world of the suite\<close>

text \<open>\<open>su_prov\<close> answers with the exit code and the lines of the output. \<open>su_commands\<close> is the staged
  \<open>commands.json\<close>, none when it is not there. \<open>su_float\<close> is the text of a duration in JSON.\<close>

record suite_env =
  su_vm :: vm_env
  su_python :: string
  su_script :: string
  su_vbox_there :: bool
  su_script_there :: bool
  su_prov :: "nat \<Rightarrow> string list \<Rightarrow> (int \<times> string list) res"
  su_commands :: "nat \<Rightarrow> string \<Rightarrow> string res option"
  su_staging_root :: string
  su_creds :: "(string, json) dict res"
  su_text :: "pyexc \<Rightarrow> string"
  su_fixed :: "nat \<Rightarrow> int \<Rightarrow> int \<Rightarrow> string"
  su_float :: "int \<Rightarrow> string"
  su_trunc :: "string \<Rightarrow> int res"
  su_stamp :: "nat \<Rightarrow> string"

text \<open>The arguments of a scenario, and \<open>_RUN_CTX\<close>.\<close>

record suite_run =
  sx_host_unit :: string
  sx_hostname :: string
  sx_vbox_vm :: string
  sx_snapshot :: string
  sx_modules :: "string option"
  sx_log_dir :: "string option"
  sx_verbose :: bool
  sx_tail :: int

section \<open>Prerequisites\<close>

definition check_creds :: "suite_env \<Rightarrow> string list res" where
  "check_creds S =
     (case su_creds S of
        Inr c \<Rightarrow> Inr []
      | Inl e \<Rightarrow> if e = RuntimeError then Inr [su_text S e]
                 else if e = JSONDecodeError then Inr [''vault/creds.json is not valid JSON: '' @ su_text S e]
                 else Inl e)"

definition vm_known :: "net \<Rightarrow> suite_env \<Rightarrow> string \<Rightarrow> bool net_eff" where
  "vm_known N S vm =
     catchM (bindM (vm_state N (su_vm S) vm) (\<lambda>_. ret True)) (\<lambda>e. if e = CalledProcessError then ret False else raise e)"

definition check_prerequisites :: "net \<Rightarrow> suite_env \<Rightarrow> string \<Rightarrow> string \<Rightarrow> string list net_eff" where
  "check_prerequisites N S vm snapshot =
     bindM (liftR (check_creds S)) (\<lambda>creds.
     let missing = (if su_vbox_there S then [] else [''VBoxManage.exe not found at: '' @ vb_exe (su_vm S)])
                   @ (if su_script_there S then [] else [''run-prov-test.py not found at: '' @ su_script S]) in
     if \<not> su_vbox_there S then ret (creds @ missing)
     else
       bindM (vm_known N S vm) (\<lambda>known.
       bindM (vbox_snapshot_exists N (su_vm S) vm snapshot) (\<lambda>there.
       ret (creds @ missing
            @ (if known then [] else [''VBox VM '' @ repr_str vm @ '' not found. Use VBoxManage list vms to inspect.''])
            @ (if there then [] else [''VBox snapshot '' @ repr_str snapshot @ '' not found on VM '' @ repr_str vm @ ''. ''
                 @ ''Use VBoxManage snapshot '' @ vm @ '' list --machinereadable to inspect.''])))))"

section \<open>Command lines\<close>

definition or_else :: "string option \<Rightarrow> string \<Rightarrow> string" where
  "or_else t d = (case t of Some s \<Rightarrow> s | None \<Rightarrow> d)"

text \<open>No scenario has a timeout of its own: \<open>SCENARIO_WINRM_CALL_TIMEOUT_S\<close> is empty.\<close>

definition build_prov_args :: "suite_env \<Rightarrow> suite_run \<Rightarrow> scenario \<Rightarrow> string list" where
  "build_prov_args S X sc =
     [su_python S, su_script S, ''--host-unit'', sx_host_unit X, ''--hostname'', sx_hostname X,
      ''--vbox-vm'', sx_vbox_vm X, ''--snapshot'', sx_snapshot X]
     @ (if sc_phases sc = [] then [] else [''--phases'', sc_phases sc])
     @ (let modules = or_else (sx_modules X) (sc_modules sc) in if modules = [] then [] else [''--modules'', modules])
     @ (if sc_repeat sc = 0 \<or> sc_repeat sc = 1 then [] else [''--repeat'', nat_str (sc_repeat sc)])"

definition replace_phases :: "string list \<Rightarrow> string \<Rightarrow> string list res" where
  "replace_phases args new_phases =
     (if ''--phases'' \<in> set args
      then (let i = length (takeWhile (\<lambda>a. a \<noteq> ''--phases'') args) in
            if i + 1 < length args then Inr (args[i + 1 := new_phases]) else Inl IndexError)
      else Inr (args @ [''--phases'', new_phases]))"

section \<open>Sub-runs\<close>

definition label_safe :: "char \<Rightarrow> bool" where
  "label_safe c \<longleftrightarrow> (65 \<le> code c \<and> code c \<le> 90) \<or> (97 \<le> code c \<and> code c \<le> 122) \<or> is_digit c
     \<or> c = CHR ''.'' \<or> c = CHR ''_'' \<or> c = CHR ''-''"

text \<open>A run of other characters becomes one dash.\<close>

fun dash_runs :: "bool \<Rightarrow> string \<Rightarrow> string" where
  "dash_runs in_run [] = []"
| "dash_runs in_run (c # s) =
     (if label_safe c then c # dash_runs False s
      else if in_run then dash_runs True s else CHR ''-'' # dash_runs True s)"

definition safe_label :: "string \<Rightarrow> string" where
  "safe_label label = (let s = strip_of (CHR ''-'') (dash_runs False label) in if s = [] then ''sub'' else s)"

definition pad2 :: "nat \<Rightarrow> string" where
  "pad2 n = (if n < 10 then CHR ''0'' # nat_str n else nat_str n)"

definition sub_log_name :: "nat \<Rightarrow> string \<Rightarrow> string" where
  "sub_log_name n label = pad2 n @ ''-'' @ safe_label label @ ''.log''"

definition last_n :: "nat \<Rightarrow> 'a list \<Rightarrow> 'a list" where
  "last_n n xs = drop (length xs - n) xs"

definition tail_lines :: "string \<Rightarrow> string list \<Rightarrow> int \<Rightarrow> string list" where
  "tail_lines name content n =
     (if n \<le> 0 then []
      else
        (let ls = last_n (nat n) content in
         [''  --- tail (last '' @ nat_str (length ls) @ '' lines) of '' @ name @ '' ---'']
         @ map (\<lambda>l. ''  '' @ l) ls @ [''  --- end tail ---'']))"

definition print_all :: "string list \<Rightarrow> unit net_eff" where
  "print_all ls = forM ls log_line"

definition seconds_text :: "suite_env \<Rightarrow> int \<Rightarrow> string" where
  "seconds_text S t = su_fixed S 1 t ns @ ''s''"

text \<open>The exit code and the time of sub-run \<open>n\<close>; its log begins with the arguments.\<close>

definition run_prov_subprocess ::
    "net \<Rightarrow> suite_env \<Rightarrow> suite_run \<Rightarrow> nat \<Rightarrow> string list \<Rightarrow> string \<Rightarrow> (int \<times> int) net_eff" where
  "run_prov_subprocess N S X n args label =
     (let name = sub_log_name n label; start = ''  > '' @ ljust 60 label; done = ''  < '' @ ljust 60 label in
      case sx_log_dir X of
        None \<Rightarrow>
          seqM (log_line (start @ '' log: <stdout only>''))
         (bindM (clock N) (\<lambda>t0.
          bindM (call N (Spawned args) (\<lambda>k. su_prov S k args)) (\<lambda>(rc, out).
          bindM (clock N) (\<lambda>t1.
          seqM (log_line (done @ '' rc='' @ int_str rc @ ''  '' @ seconds_text S (t1 - t0))) (ret (rc, t1 - t0))))))
      | Some d \<Rightarrow>
          seqM (log_line (start @ '' log: '' @ name))
         (bindM (clock N) (\<lambda>t0.
          bindM (catchM (bindM (call N (Spawned args) (\<lambda>k. su_prov S k args)) (\<lambda>r. ret (Inr r)))
                   (\<lambda>e. if is_os_error e then ret (Inl e) else raise e)) (\<lambda>r.
          case r of
            Inl e \<Rightarrow>
              bindM (clock N) (\<lambda>t1.
              seqM (log_line (done @ '' ERROR  '' @ seconds_text S (t1 - t0) @ ''  ('' @ su_text S e @ '')'')) (ret (2, t1 - t0)))
          | Inr (rc, out) \<Rightarrow>
              seqM (whenM (sx_verbose X) (forM out (\<lambda>l. emit (LogRaw l))))
             (bindM (clock N) (\<lambda>t1.
              seqM (log_line (done @ '' rc='' @ int_str rc @ ''  '' @ seconds_text S (t1 - t0) @ ''  lines='' @ nat_str (length out)))
             (seqM (whenM (rc \<noteq> 0) (print_all (tail_lines name ((''# argv: '' @ join '' '' (tl args)) # out) (sx_tail X))))
                   (ret (rc, t1 - t0)))))))))"

section \<open>The staged commands\<close>

definition BOMB_ORDER :: int where "BOMB_ORDER = 1250"
definition BOMB_MODULE :: string where "BOMB_MODULE = ''test-bomb''"
definition SPORADIC_BOMB_MODULE :: string where "SPORADIC_BOMB_MODULE = ''test-sporadic-bomb''"

text \<open>\<open>int(e["order"])\<close>.\<close>

definition order_of :: "suite_env \<Rightarrow> json \<Rightarrow> int res" where
  "order_of S e =
     bind_res (jindex e ''order'') (\<lambda>v.
     case v of
       JInt i \<Rightarrow> Inr i
     | JBool b \<Rightarrow> Inr (if b then 1 else 0)
     | JStr t \<Rightarrow> py_int t
     | JFloat t \<Rightarrow> su_trunc S t
     | _ \<Rightarrow> Inl TypeError)"

definition other_module :: "json \<Rightarrow> json \<Rightarrow> bool res" where
  "other_module entry e =
     bind_res (jget e ''module'') (\<lambda>m. bind_res (jget entry ''module'') (\<lambda>m'. Inr (m \<noteq> m')))"

definition ordered :: "suite_env \<Rightarrow> json list \<Rightarrow> json list res" where
  "ordered S es =
     bind_res (map_res (\<lambda>e. bind_res (order_of S e) (\<lambda>k. Inr (k, e))) es) (\<lambda>ks. Inr (map snd (sort_key fst ks)))"

definition injected :: "suite_env \<Rightarrow> json \<Rightarrow> json \<Rightarrow> json list res" where
  "injected S entry data =
     (case data of
        JList es \<Rightarrow>
          bind_res (map_res (\<lambda>e. bind_res (other_module entry e) (\<lambda>b. Inr (b, e))) es) (\<lambda>marked.
          ordered S (map snd (filter fst marked) @ [entry]))
      | _ \<Rightarrow> Inl RuntimeError)"

text \<open>\<open>json.dumps\<close> with an indentation of \<open>w\<close> characters.\<close>

fun dumps_wide :: "nat \<Rightarrow> nat \<Rightarrow> json \<Rightarrow> string" where
  "dumps_wide w n (JList (v # vs)) =
     ''['' @ [CHR 10] @ join ('','' @ [CHR 10])
        (map (\<lambda>x. replicate (w * (n + 1)) CHR 32 @ dumps_wide w (n + 1) x) (v # vs))
      @ [CHR 10] @ replicate (w * n) CHR 32 @ '']''"
| "dumps_wide w n (JObj (f # fs)) =
     ''{'' @ [CHR 10] @ join ('','' @ [CHR 10])
        (map (\<lambda>(k, x). replicate (w * (n + 1)) CHR 32 @ dumps_str k @ '': '' @ dumps_wide w (n + 1) x) (f # fs))
      @ [CHR 10] @ replicate (w * n) CHR 32 @ ''}''"
| "dumps_wide w n v = json_dumps v"

definition staging_commands_json :: "suite_env \<Rightarrow> string \<Rightarrow> string" where
  "staging_commands_json S hostname = su_staging_root S @ bs @ hostname @ bs @ ''01-provisioning'' @ bs @ ''commands.json''"

definition inject_entry :: "net \<Rightarrow> suite_env \<Rightarrow> string \<Rightarrow> json \<Rightarrow> unit net_eff" where
  "inject_entry N S hostname entry =
     (let path = staging_commands_json S hostname in
      bindM (query N (\<lambda>n. su_commands S n path)) (\<lambda>text.
      case text of
        None \<Rightarrow> raise (UserError ''FileNotFoundError'' (''staged commands.json not found: '' @ path))
      | Some t \<Rightarrow>
          bindM (liftR (bind_res (load_json_file t) (injected S entry))) (\<lambda>es.
          emit (WroteFile path (dumps_wide 4 0 (JList es))))))"

definition bomb :: json where
  "bomb = JObj
     [(''order'', JInt BOMB_ORDER),
      (''desc'', JStr ''[TEST BOMB] synthetic deterministic failure injected by test-suite.py''),
      (''cmd'', JStr (''powershell.exe -NoProfile -Command '' @ dq @ ''Write-Host '' @ sq @ ''[BOMB] synthetic failure'' @ sq
       @ ''; exit 1'' @ dq)),
      (''module'', JStr BOMB_MODULE)]"

definition sporadic_bomb :: json where
  "sporadic_bomb = JObj
     [(''order'', JInt BOMB_ORDER),
      (''desc'', JStr ''[TEST SPORADIC BOMB] fails once per unit, then self-clears''),
      (''cmd'', JStr (
       ''powershell.exe -NoProfile -Command '' @ dq @ ''$m = '' @ sq @ ''C:'' @ bs @ ''MAST'' @ bs @ ''state''
       @ bs @ ''sporadic-bomb.marker'' @ sq @ ''; if (Test-Path $m) { Write-Host '' @ sq
       @ ''[SPORADIC] marker present, passing'' @ sq
       @ ''; exit 0 } else { New-Item -ItemType Directory -Force -Path (Split-Path $m) | Out-Null;        New-Item -ItemType File -Force -Path $m | Out-Null;        Write-Host ''
       @ sq @ ''[SPORADIC] first hit, failing'' @ sq @ ''; exit 1 }'' @ dq)),
      (''module'', JStr SPORADIC_BOMB_MODULE)]"

section \<open>The manifest on the unit\<close>

definition MANIFEST_REMOTE_PATH :: string where "MANIFEST_REMOTE_PATH = ''C:'' @ bs @ ''MAST'' @ bs @ ''installed-manifest.json''"

definition read_manifest_text :: string where
  "read_manifest_text =
       ''$p = '' @ sq @ MANIFEST_REMOTE_PATH @ sq
       @ ''; if (Test-Path -LiteralPath $p) { Get-Content -LiteralPath $p -Raw } else { '' @ sq @ sq @ '' }''"

definition delete_manifest_text :: string where
  "delete_manifest_text =
       ''$p = '' @ sq @ MANIFEST_REMOTE_PATH @ sq
       @ ''; if (Test-Path -LiteralPath $p) {     Remove-Item -LiteralPath $p -Force -ErrorAction Stop;     Write-Host ''
       @ sq @ ''[suite] deleted installed-manifest.json'' @ sq @ '' } else { Write-Host '' @ sq
       @ ''[suite] installed-manifest.json not present (already gone)'' @ sq @ '' }''"

text \<open>\<open>creds["unit"]\<close>: the block is there.\<close>

definition unit_block :: "suite_env \<Rightarrow> unit res" where
  "unit_block S = bind_res (su_creds S) (\<lambda>c. if map_of c ''unit'' = None then Inl KeyError else Inr ())"

text \<open>A script over a WinRM session of the account.\<close>

definition winrm_ps :: "nat \<Rightarrow> net \<Rightarrow> string \<Rightarrow> string \<Rightarrow> string \<Rightarrow> bool \<Rightarrow> response net_eff" where
  "winrm_ps fuel N host script label echo =
     bindM (gets w_user) (\<lambda>u. run_ps fuel N (Winrm host u) script label CALL_TIMEOUT echo True False)"

definition parse_manifest :: "string \<Rightarrow> (string, json) dict option res" where
  "parse_manifest text =
     (if text = [] then Inr None
      else
        (case parse_json_text text of
           Inl e \<Rightarrow> Inl (if e = JSONDecodeError then RuntimeError else e)
         | Inr (JObj d) \<Rightarrow> Inr (Some d)
         | Inr v \<Rightarrow> Inl RuntimeError))"

definition unit_read_installed_manifest :: "nat \<Rightarrow> net \<Rightarrow> suite_env \<Rightarrow> string \<Rightarrow> (string, json) dict option net_eff" where
  "unit_read_installed_manifest fuel N S host =
     seqM (liftR (unit_block S))
    (bindM (winrm_ps fuel N host read_manifest_text ''read-manifest'' False) (\<lambda>r.
     seqM (liftR (check_rc r ''read-manifest'')) (liftR (parse_manifest (strip (std_out r))))))"

definition unit_delete_installed_manifest :: "nat \<Rightarrow> net \<Rightarrow> suite_env \<Rightarrow> string \<Rightarrow> unit net_eff" where
  "unit_delete_installed_manifest fuel N S host =
     seqM (liftR (unit_block S))
          (bindM (winrm_ps fuel N host delete_manifest_text ''del-manifest'' True) (\<lambda>r. liftR (check_rc r ''del-manifest'')))"

section \<open>Runners\<close>

definition finished :: "net \<Rightarrow> scenario \<Rightarrow> int \<Rightarrow> string \<Rightarrow> string \<Rightarrow> json list \<Rightarrow> scenario_result net_eff" where
  "finished N sc t0 outcome detail subs =
     bindM (clock N) (\<lambda>t.
     ret \<lparr>rs_name = sc_name sc, rs_status = sc_status sc, rs_outcome = outcome, rs_duration = t - t0,
          rs_detail = detail, rs_sub_runs = subs\<rparr>)"

definition sub_row :: "suite_env \<Rightarrow> string \<Rightarrow> int \<times> int \<Rightarrow> (string, json) dict" where
  "sub_row S label r =
     [(''label'', JStr label), (''rc'', JInt (fst r)), (''duration_s'', JFloat (su_float S (snd r)))]"

text \<open>A sub-run of other phases.\<close>

definition sub_run ::
    "net \<Rightarrow> suite_env \<Rightarrow> suite_run \<Rightarrow> nat \<Rightarrow> string list \<Rightarrow> string \<Rightarrow> string \<Rightarrow> (int \<times> int) net_eff" where
  "sub_run N S X n base phases label =
     bindM (liftR (replace_phases base phases)) (\<lambda>args. run_prov_subprocess N S X n args label)"

definition run_simple_scenario :: "net \<Rightarrow> suite_env \<Rightarrow> suite_run \<Rightarrow> scenario \<Rightarrow> scenario_result net_eff" where
  "run_simple_scenario N S X sc =
     bindM (clock N) (\<lambda>t0.
     bindM (run_prov_subprocess N S X 1 (build_prov_args S X sc) (sc_name sc @ '' (full)'')) (\<lambda>r.
     let ok = (fst r = sc_expected_rc sc) in
     finished N sc t0 (if ok then ''PASS'' else ''FAIL'')
       (if ok then [] else ''rc='' @ int_str (fst r) @ '', expected='' @ int_str (sc_expected_rc sc))
       [JObj (sub_row S ''full'' r)]))"

definition failed_sub :: "string \<Rightarrow> int \<Rightarrow> string" where
  "failed_sub what rc = ''sub-run '' @ what @ '' failed: rc='' @ int_str rc"

definition inject_fail_verdict :: "int \<Rightarrow> int \<Rightarrow> string \<times> string" where
  "inject_fail_verdict rc_b rc_d =
     (if rc_b \<noteq> 0 \<and> rc_d = 0 then (''PASS'', [])
      else if rc_b = 0 \<and> rc_d = 0 then (''ERROR'', ''bomb not reached in sub-run B (expected non-zero exit)'')
      else (''FAIL'', ''sub-run B rc='' @ int_str rc_b @ '', sub-run D rc='' @ int_str rc_d))"

definition run_interrupted_inject_fail :: "net \<Rightarrow> suite_env \<Rightarrow> suite_run \<Rightarrow> scenario \<Rightarrow> scenario_result net_eff" where
  "run_interrupted_inject_fail N S X sc =
     (let base = build_prov_args S X sc in
      bindM (clock N) (\<lambda>t0.
      bindM (sub_run N S X 1 base ''build'' ''A: build (clean)'') (\<lambda>a.
      if fst a \<noteq> 0 then finished N sc t0 ''ERROR'' (failed_sub ''A (build)'' (fst a)) [JObj (sub_row S ''A:build'' a)]
      else
        seqM (inject_entry N S (sx_hostname X) bomb)
       (bindM (sub_run N S X 2 base ''transfer,execute,verify'' ''B: transfer,execute,verify (bomb present)'') (\<lambda>b.
        bindM (sub_run N S X 3 base ''reset'' ''C: reset'') (\<lambda>c.
        bindM (sub_run N S X 4 base ''build,transfer,execute,verify,reset'' ''D: clean rebuild + full cycle'') (\<lambda>d.
        case inject_fail_verdict (fst b) (fst d) of
          (outcome, detail) \<Rightarrow>
            finished N sc t0 outcome detail
              [JObj (sub_row S ''A:build'' a),
               JObj (sub_row S ''B:tev-bombed'' b
                 @ (if fst b = 0 then [(''warning'', JStr ''bomb not reached: sub-run B unexpectedly succeeded'')] else [])),
               JObj (sub_row S ''C:reset'' c), JObj (sub_row S ''D:clean'' d)])))))))"

definition recover_verdict :: "int \<Rightarrow> int \<Rightarrow> string \<times> string" where
  "recover_verdict rc_b rc_c =
     (if rc_b \<noteq> 0 \<and> rc_c = 0 then (''PASS'', [])
      else if rc_b = 0
      then (''ERROR'', ''sporadic bomb not reached in sub-run B (rc=0); marker may have leaked from a previous run'')
      else (''FAIL'', ''sub-run B rc='' @ int_str rc_b @ '', sub-run C rc='' @ int_str rc_c))"

definition run_failure_recover_no_reset :: "net \<Rightarrow> suite_env \<Rightarrow> suite_run \<Rightarrow> scenario \<Rightarrow> scenario_result net_eff" where
  "run_failure_recover_no_reset N S X sc =
     (let base = build_prov_args S X sc in
      bindM (clock N) (\<lambda>t0.
      bindM (sub_run N S X 1 base ''build'' ''A: build (clean)'') (\<lambda>a.
      if fst a \<noteq> 0 then finished N sc t0 ''ERROR'' (failed_sub ''A (build)'' (fst a)) [JObj (sub_row S ''A:build'' a)]
      else
        seqM (inject_entry N S (sx_hostname X) sporadic_bomb)
       (bindM (sub_run N S X 2 base ''transfer,execute,verify'' ''B: transfer,execute,verify (sporadic bomb, first hit)'') (\<lambda>b.
        bindM (sub_run N S X 3 base ''transfer,execute,verify''
                 ''C: transfer,execute,verify (sporadic bomb, second hit, no reset)'') (\<lambda>c.
        bindM (sub_run N S X 4 base ''reset'' ''D: reset (wipe marker)'') (\<lambda>d.
        case recover_verdict (fst b) (fst c) of
          (outcome, detail) \<Rightarrow>
            finished N sc t0 outcome detail
              [JObj (sub_row S ''A:build'' a), JObj (sub_row S ''B:tev-first'' b), JObj (sub_row S ''C:tev-second'' c),
               JObj (sub_row S ''D:reset'' d)])))))))"

definition hash_row :: "string \<Rightarrow> json \<Rightarrow> json" where
  "hash_row label h = JObj [(''label'', JStr label), (''payload_hash'', h)]"

text \<open>The hash of the manifest on the unit after a sub-run, or the outcome and detail that end the scenario.\<close>

definition manifest_hash :: "nat \<Rightarrow> net \<Rightarrow> suite_env \<Rightarrow> string \<Rightarrow> string \<Rightarrow> unit net_eff \<Rightarrow> ((string \<times> string) + json) net_eff" where
  "manifest_hash fuel N S host which before =
     bindM (attempt (seqM before (unit_read_installed_manifest fuel N S host))) (\<lambda>m.
     case m of
       Inl e \<Rightarrow> ret (Inl (''ERROR'', ''reading manifest after '' @ which @ '' failed: '' @ su_text S e))
     | Inr None \<Rightarrow> ret (Inl (''FAIL'', ''installed-manifest.json missing after sub-run '' @ which))
     | Inr (Some d) \<Rightarrow> ret (Inr (field d ''payload_hash'')))"

definition wipe_verdict :: "json \<Rightarrow> json \<Rightarrow> string \<times> string" where
  "wipe_verdict hash_a hash_c =
     (if hash_a = JNull \<or> hash_c = JNull
      then (''FAIL'', ''payload_hash missing: a='' @ py_repr hash_a @ '', c='' @ py_repr hash_c)
      else if hash_a \<noteq> hash_c
      then (''FAIL'', ''payload_hash mismatch: a='' @ py_repr hash_a @ '', c='' @ py_repr hash_c)
      else (''PASS'', []))"

definition delete_row :: json where
  "delete_row = JObj [(''label'', JStr ''B:delete-manifest''), (''rc'', JInt 0)]"

definition wipe_second ::
    "nat \<Rightarrow> net \<Rightarrow> suite_env \<Rightarrow> suite_run \<Rightarrow> scenario \<Rightarrow> int \<Rightarrow> string list \<Rightarrow> json \<Rightarrow> json list \<Rightarrow> scenario_result net_eff" where
  "wipe_second fuel N S X sc t0 base hash_a subs =
     bindM (sub_run N S X 2 base ''build,transfer,execute,verify'' ''C: full provision (after manifest wipe)'') (\<lambda>c.
     let subs = subs @ [JObj (sub_row S ''C:full'' c)] in
     if fst c \<noteq> 0 then finished N sc t0 ''FAIL'' (failed_sub ''C'' (fst c)) subs
     else
       bindM (manifest_hash fuel N S (sx_host_unit X) ''C'' (ret ())) (\<lambda>h.
       case h of
         Inl (outcome, detail) \<Rightarrow> finished N sc t0 outcome detail subs
       | Inr hash_c \<Rightarrow>
           bindM (sub_run N S X 3 base ''reset'' ''D: reset'') (\<lambda>d.
           case wipe_verdict hash_a hash_c of
             (outcome, detail) \<Rightarrow>
               finished N sc t0 outcome detail (subs @ [hash_row ''manifest-c'' hash_c, JObj (sub_row S ''D:reset'' d)]))))"

definition run_idempotent_after_manifest_wipe ::
    "nat \<Rightarrow> net \<Rightarrow> suite_env \<Rightarrow> suite_run \<Rightarrow> scenario \<Rightarrow> scenario_result net_eff" where
  "run_idempotent_after_manifest_wipe fuel N S X sc =
     (let base = build_prov_args S X sc in
      bindM (clock N) (\<lambda>t0.
      bindM (liftR (su_creds S)) (\<lambda>creds.
      bindM (sub_run N S X 1 base ''build,transfer,execute,verify'' ''A: full provision (first)'') (\<lambda>a.
      let subs = [JObj (sub_row S ''A:full'' a)] in
      if fst a \<noteq> 0 then finished N sc t0 ''FAIL'' (failed_sub ''A'' (fst a)) subs
      else
        bindM (manifest_hash fuel N S (sx_host_unit X) ''A''
                 (seqM (liftR (unit_block S)) (wait_for_winrm N (sx_host_unit X) WINRM_BOOT_TIMEOUT_S))) (\<lambda>h.
        case h of
          Inl (outcome, detail) \<Rightarrow> finished N sc t0 outcome detail subs
        | Inr hash_a \<Rightarrow>
            (let subs = subs @ [hash_row ''manifest-a'' hash_a] in
             bindM (attempt (unit_delete_installed_manifest fuel N S (sx_host_unit X))) (\<lambda>gone.
             case gone of
               Inl e \<Rightarrow> finished N sc t0 ''ERROR'' (''deleting manifest failed: '' @ su_text S e) subs
             | Inr u \<Rightarrow> wipe_second fuel N S X sc t0 base hash_a (subs @ [delete_row]))))))))"

definition run_stub :: "scenario \<Rightarrow> scenario_result net_eff" where
  "run_stub sc =
     seqM (log_line (''[suite] SKIP: '' @ quote (sc_name sc) @ '' not yet implemented. '' @ sc_description sc))
          (ret \<lparr>rs_name = sc_name sc, rs_status = sc_status sc, rs_outcome = ''SKIP'', rs_duration = 0, rs_detail = ''stub'',
                rs_sub_runs = []\<rparr>)"

definition runner_of :: "nat \<Rightarrow> net \<Rightarrow> suite_env \<Rightarrow> suite_run \<Rightarrow> scenario \<Rightarrow> scenario_result net_eff option" where
  "runner_of fuel N S X sc =
     (if sc_name sc = ''full-provision'' then Some (run_simple_scenario N S X sc)
      else if sc_name sc = ''interrupted-inject-fail'' then Some (run_interrupted_inject_fail N S X sc)
      else if sc_name sc = ''failure-recover-no-reset'' then Some (run_failure_recover_no_reset N S X sc)
      else if sc_name sc = ''idempotent-after-manifest-wipe'' then Some (run_idempotent_after_manifest_wipe fuel N S X sc)
      else None)"

definition error_result :: "scenario \<Rightarrow> int \<Rightarrow> string \<Rightarrow> scenario_result" where
  "error_result sc t detail =
     \<lparr>rs_name = sc_name sc, rs_status = sc_status sc, rs_outcome = ''ERROR'', rs_duration = t, rs_detail = detail, rs_sub_runs = []\<rparr>"

definition run_scenario :: "nat \<Rightarrow> net \<Rightarrow> suite_env \<Rightarrow> suite_run \<Rightarrow> scenario \<Rightarrow> scenario_result net_eff" where
  "run_scenario fuel N S X sc =
     (if sc_status sc = ''STUB'' then run_stub sc
      else
        (case runner_of fuel N S X sc of
           None \<Rightarrow> ret (error_result sc 0 (''no ACTIVE runner registered for scenario '' @ repr_str (sc_name sc)))
         | Some run \<Rightarrow>
             bindM (attempt run) (\<lambda>r.
             ret (case r of
                    Inr x \<Rightarrow> x
                  | Inl e \<Rightarrow> error_result sc 0 (''unhandled exception: '' @ exc_name e @ '': '' @ su_text S e)))))"

end
