(* ===== verification/Vm_Report.thy ===== *)
theory Vm_Report
  imports Vm_Suite
begin

text \<open>
  \<open>src/vm/test-suite.py\<close>, the report over the scenarios and the command: the banners, the table, the file of
  results, and the run over the chosen scenarios, each active one after a reset of the machine.
\<close>

section \<open>Text\<close>

definition BANNER_WIDTH :: nat where "BANNER_WIDTH = 80"

definition rjust :: "nat \<Rightarrow> string \<Rightarrow> string" where
  "rjust n s = replicate (n - length s) (CHR '' '') @ s"

definition outcomes :: "string \<Rightarrow> scenario_result list \<Rightarrow> nat" where
  "outcomes k rs = length (filter (\<lambda>r. rs_outcome r = k) rs)"

definition tally_line :: "string \<Rightarrow> scenario_result list \<Rightarrow> string" where
  "tally_line sep rs =
     join sep (map (\<lambda>k. k @ ''='' @ nat_str (outcomes k rs)) [''PASS'', ''FAIL'', ''SKIP'', ''ERROR''])"

text \<open>\<open>cur\<close> is the line that is being filled, without its indent.\<close>

fun wrap_words :: "nat \<Rightarrow> string list \<Rightarrow> string \<Rightarrow> string list" where
  "wrap_words avail [] cur = (if strip cur = [] then [] else [cur])"
| "wrap_words avail (w # ws) cur =
     (if cur = [] then wrap_words avail ws w
      else if length cur + 1 + length w \<le> avail then wrap_words avail ws (cur @ '' '' @ w)
      else cur # wrap_words avail ws w)"

definition wrap_indent :: "string \<Rightarrow> string \<Rightarrow> nat \<Rightarrow> string list" where
  "wrap_indent text indent width = map (\<lambda>l. indent @ l) (wrap_words (width - length indent) (split_ws text) [])"

definition fmt_duration :: "suite_env \<Rightarrow> int \<Rightarrow> string" where
  "fmt_duration S t = (if t < 60 * ns then su_fixed S 1 t ns @ ''s'' else su_fixed S 1 t (60 * ns) @ ''m'')"

definition scenario_banner :: "nat \<Rightarrow> nat \<Rightarrow> scenario \<Rightarrow> string \<Rightarrow> scenario_result list \<Rightarrow> string list" where
  "scenario_banner idx tot sc log_dir so_far =
     (let bar = replicate BANNER_WIDTH (CHR ''='') in
      [[], bar, ''['' @ nat_str idx @ ''/'' @ nat_str tot @ ''] Scenario: '' @ sc_name sc @ ''  ('' @ sc_status sc @ '')'']
      @ wrap_indent (sc_description sc) ''      '' BANNER_WIDTH
      @ [''      Progress: '' @ tally_line '' '' so_far @ ''  |  '' @ int_str (int tot - int idx) @ '' remaining'',
         ''      Log dir: '' @ log_dir, bar])"

definition scenario_footer :: "suite_env \<Rightarrow> nat \<Rightarrow> nat \<Rightarrow> scenario_result \<Rightarrow> string list" where
  "scenario_footer S idx tot r =
     (let dash = replicate BANNER_WIDTH (CHR ''-'') in
      [dash,
       ''['' @ nat_str idx @ ''/'' @ nat_str tot @ ''] '' @ rs_name r @ '': '' @ rs_outcome r
         @ (if rs_detail r = [] then [] else '': '' @ rs_detail r) @ ''  in '' @ fmt_duration S (rs_duration r),
       dash])"

definition summary_row :: "suite_env \<Rightarrow> nat \<Rightarrow> scenario_result \<Rightarrow> string list" where
  "summary_row S name_w r =
     [ljust name_w (rs_name r) @ ''  '' @ ljust 7 (rs_status r) @ '' '' @ ljust 7 (rs_outcome r) @ '' ''
        @ rjust 9 (fmt_duration S (rs_duration r))]
     @ (if rs_detail r = [] then [] else [replicate name_w (CHR '' '') @ ''    detail: '' @ rs_detail r])"

definition summary_table :: "suite_env \<Rightarrow> scenario_result list \<Rightarrow> string list" where
  "summary_table S rs =
     (let name_w = (if rs = [] then 8 else widest (map (\<lambda>r. length (rs_name r)) rs) 8);
          bar = replicate 78 (CHR ''=''); dash = replicate 78 (CHR ''-'') in
      [[], bar, ''SUITE RESULTS'', bar,
       ljust name_w ''Scenario'' @ ''  '' @ ljust 7 ''Status'' @ '' '' @ ljust 7 ''Outcome'' @ '' '' @ rjust 9 ''Duration'', dash]
      @ concat (map (summary_row S name_w) rs)
      @ [dash, tally_line ''  '' rs])"

definition result_json :: "suite_env \<Rightarrow> scenario_result \<Rightarrow> json" where
  "result_json S r = JObj
     [(''name'', JStr (rs_name r)), (''status'', JStr (rs_status r)), (''outcome'', JStr (rs_outcome r)),
      (''duration_s'', JFloat (su_float S (rs_duration r))), (''detail'', JStr (rs_detail r)),
      (''sub_runs'', JList (rs_sub_runs r))]"

definition suite_results_text :: "suite_env \<Rightarrow> string \<Rightarrow> scenario_result list \<Rightarrow> string" where
  "suite_results_text S stamp rs =
     dumps_indent 0 (JObj [(''generated_at'', JStr stamp), (''results'', JList (map (result_json S) rs))])"

definition list_lines :: "string list" where
  "list_lines =
     [ljust 34 ''Name'' @ ''  '' @ ljust 7 ''Status'' @ ''  Description'', replicate 78 (CHR ''-'')]
     @ map (\<lambda>s. ljust 34 (sc_name s) @ ''  '' @ ljust 7 (sc_status s) @ ''  '' @ sc_description s) SCENARIOS"

section \<open>The command\<close>

record suite_args =
  sa_list :: bool
  sa_scenario :: "string option"
  sa_host_unit :: "string option"
  sa_hostname :: string
  sa_vbox_vm :: string
  sa_snapshot :: string
  sa_modules :: "string option"
  sa_skip_prereq :: bool
  sa_verbose :: bool
  sa_tail :: int

definition suite_defaults :: suite_args where
  "suite_defaults = \<lparr>sa_list = False, sa_scenario = None, sa_host_unit = None, sa_hostname = ''mast-wis-01'', sa_vbox_vm = ''mast-unit'',
     sa_snapshot = ''post-prepare'', sa_modules = None, sa_skip_prereq = False, sa_verbose = False, sa_tail = 30\<rparr>"

definition run_of :: "suite_args \<Rightarrow> string \<Rightarrow> string \<Rightarrow> suite_run" where
  "run_of G host log_dir =
     \<lparr>sx_host_unit = host, sx_hostname = sa_hostname G, sx_vbox_vm = sa_vbox_vm G, sx_snapshot = sa_snapshot G,
      sx_modules = sa_modules G, sx_log_dir = Some log_dir, sx_verbose = sa_verbose G, sx_tail = sa_tail G\<rparr>"

text \<open>The machine is reset before an active scenario; an exception is the result of the scenario.\<close>

definition preflight :: "net \<Rightarrow> suite_env \<Rightarrow> suite_run \<Rightarrow> scenario \<Rightarrow> scenario_result option net_eff" where
  "preflight N S X sc =
     (if sc_status sc \<noteq> ''ACTIVE'' then ret None
      else
        seqM (log_line (''[suite] pre-flight: resetting VM '' @ repr_str (sx_vbox_vm X) @ '' to snapshot ''
                 @ repr_str (sx_snapshot X) @ ''  (-> preflight.log)''))
       (bindM (clock N) (\<lambda>t0.
        bindM (attempt (seqM (liftR (unit_block S))
                 (reset_to_clean_snapshot N (su_vm S) (sx_vbox_vm X) (sx_snapshot X) (sx_host_unit X) 3 WINRM_BOOT_TIMEOUT_S True))) (\<lambda>r.
        bindM (clock N) (\<lambda>t1.
        case r of
          Inr u \<Rightarrow> seqM (log_line (''[suite] pre-flight done in '' @ seconds_text S (t1 - t0))) (ret None)
        | Inl e \<Rightarrow>
            (let detail = ''pre-flight reset failed: '' @ exc_name e @ '': '' @ su_text S e in
             seqM (log_line (''[suite] '' @ detail @ ''  (see preflight.log)''))
                  (ret (Some (error_result sc (t1 - t0) detail)))))))))"

definition suite_scenario ::
    "nat \<Rightarrow> net \<Rightarrow> suite_env \<Rightarrow> suite_args \<Rightarrow> string \<Rightarrow> string \<Rightarrow> nat \<Rightarrow> nat \<Rightarrow> scenario \<Rightarrow> scenario_result list
     \<Rightarrow> scenario_result net_eff" where
  "suite_scenario fuel N S G host suite_dir idx tot sc so_far =
     (let log_dir = suite_dir @ bs @ sc_name sc; X = run_of G host log_dir in
      seqM (print_all (scenario_banner idx tot sc log_dir so_far))
     (bindM (preflight N S X sc) (\<lambda>p.
      bindM (case p of Some r \<Rightarrow> ret r | None \<Rightarrow> run_scenario fuel N S X sc) (\<lambda>r.
      seqM (print_all (scenario_footer S idx tot r)) (ret r)))))"

fun run_suite ::
    "nat \<Rightarrow> net \<Rightarrow> suite_env \<Rightarrow> suite_args \<Rightarrow> string \<Rightarrow> string \<Rightarrow> nat \<Rightarrow> nat \<Rightarrow> scenario list \<Rightarrow> scenario_result list
     \<Rightarrow> scenario_result list net_eff" where
  "run_suite fuel N S G host suite_dir idx tot [] rs = ret rs"
| "run_suite fuel N S G host suite_dir idx tot (sc # scs) rs =
     bindM (suite_scenario fuel N S G host suite_dir idx tot sc rs) (\<lambda>r.
     run_suite fuel N S G host suite_dir (idx + 1) tot scs (rs @ [r]))"

definition bad_result :: "scenario_result \<Rightarrow> bool" where
  "bad_result r \<longleftrightarrow> rs_status r = ''ACTIVE'' \<and> rs_outcome r \<notin> {''PASS'', ''SKIP''}"

definition suite_exit :: "scenario_result list \<Rightarrow> int" where
  "suite_exit rs = (if filter bad_result rs = [] then 0 else 1)"

definition run_targets ::
    "nat \<Rightarrow> net \<Rightarrow> suite_env \<Rightarrow> suite_args \<Rightarrow> string \<Rightarrow> scenario list \<Rightarrow> int net_eff" where
  "run_targets fuel N S G host chosen =
     bindM (query N (su_stamp S)) (\<lambda>stamp.
     let suite_dir = ''C:'' @ bs @ ''MAST'' @ bs @ ''logs'' @ bs @ ''dev'' @ bs @ ''tests'' @ bs @ stamp in
     seqM (print_all [''[suite] log dir: '' @ suite_dir,
             ''[suite] running '' @ nat_str (length chosen) @ '' scenario(s); verbose='' @ (if sa_verbose G then ''True'' else ''False'')
               @ '', tail_on_fail='' @ int_str (sa_tail G)])
    (bindM (liftR (su_creds S)) (\<lambda>creds.
     seqM (modifyM (\<lambda>s. s\<lparr>w_user := unit_account (field creds ''unit'')\<rparr>))
    (bindM (run_suite fuel N S G host suite_dir 1 (length chosen) chosen []) (\<lambda>rs.
     seqM (print_all (summary_table S rs))
    (bindM (query N (su_stamp S)) (\<lambda>generated.
     seqM (emit (WroteFile (suite_dir @ bs @ ''suite-results.json'') (suite_results_text S generated rs)))
    (seqM (log_line (''[suite] wrote '' @ suite_dir @ bs @ ''suite-results.json''))
          (ret (suite_exit rs))))))))))"

text \<open>\<open>parser.error\<close>: the usage and the message, and exit code 2.\<close>

definition usage_error :: "string \<Rightarrow> int net_eff" where
  "usage_error message = seqM (log_line (''error: '' @ message)) (ret 2)"

definition targets_of :: "suite_args \<Rightarrow> scenario list option" where
  "targets_of G =
     (case sa_scenario G of
        None \<Rightarrow> Some SCENARIOS
      | Some name \<Rightarrow> map_option (\<lambda>s. [s]) (scenario_named name))"

definition suite_main :: "nat \<Rightarrow> net \<Rightarrow> suite_env \<Rightarrow> suite_args \<Rightarrow> int net_eff" where
  "suite_main fuel N S G =
     (if sa_list G then seqM (print_all list_lines) (ret 0)
      else
        (case sa_host_unit G of
           None \<Rightarrow> usage_error ''--host-unit is required unless --list''
         | Some host \<Rightarrow>
             if host = [] then usage_error ''--host-unit is required unless --list''
             else
               (case targets_of G of
                  None \<Rightarrow> usage_error (''unknown scenario: '' @ repr_str (or_else (sa_scenario G) []) @ ''. Use --list to see all.'')
                | Some chosen \<Rightarrow>
                    bindM (if sa_skip_prereq G then ret [] else check_prerequisites N S (sa_vbox_vm G) (sa_snapshot G)) (\<lambda>errs.
                    if errs \<noteq> []
                    then seqM (print_all (''[suite] Prerequisite checks failed:'' # map (\<lambda>e. ''  - '' @ e) errs)) (ret 2)
                    else run_targets fuel N S G host chosen))))"

end
