(* ===== verification/Vm_Compose.thy ===== *)
theory Vm_Compose
  imports Vm_Once Vm_Report
begin

text \<open>
  The suite and the harness together: the command line of a sub-run, as the harness reads it.
\<close>

lemma values_apart [simp]: "\<not> is_value ''--phases''"
  by code_simp

lemma all_phases: "is_value ''build,transfer,execute,verify,reset''"
  by code_simp

lemma in_registry:
  assumes "sc \<in> set SCENARIOS"
  shows "sc_repeat sc = 1" and "sc_modules sc = []" and "sc_phases sc = [] \<or> sc_phases sc = ''build,transfer,execute,verify,reset''"
  using assms by (auto simp: SCENARIOS_def scenario_def)

text \<open>The values that a sub-run passes on.\<close>

definition passed_values :: "suite_env \<Rightarrow> suite_run \<Rightarrow> string list" where
  "passed_values S X = [su_python S, su_script S, sx_host_unit X, sx_hostname X, sx_vbox_vm X, sx_snapshot X, or_else (sx_modules X) []]"

definition read_args :: "suite_run \<Rightarrow> string option \<Rightarrow> harness_args" where
  "read_args X phases = default_args\<lparr>ha_host_unit := sx_host_unit X, ha_hostname := sx_hostname X, ha_vbox_vm := sx_vbox_vm X,
     ha_snapshot := sx_snapshot X, ha_modules := (if or_else (sx_modules X) [] = [] then None else sx_modules X), ha_phases := phases\<rparr>"

lemma no_flags [simp]:
  "set_flag ''--host-unit'' A = None" "set_flag ''--hostname'' A = None" "set_flag ''--vbox-vm'' A = None"
  "set_flag ''--snapshot'' A = None" "set_flag ''--phases'' A = None" "set_flag ''--modules'' A = None"
  by (simp_all add: set_flag_def)

lemma options_set [simp]:
  "set_option ''--host-unit'' v A = Some (A\<lparr>ha_host_unit := v\<rparr>)" "set_option ''--hostname'' v A = Some (A\<lparr>ha_hostname := v\<rparr>)"
  "set_option ''--vbox-vm'' v A = Some (A\<lparr>ha_vbox_vm := v\<rparr>)" "set_option ''--snapshot'' v A = Some (A\<lparr>ha_snapshot := v\<rparr>)"
  "set_option ''--phases'' v A = Some (A\<lparr>ha_phases := Some v\<rparr>)" "set_option ''--modules'' v A = Some (A\<lparr>ha_modules := Some v\<rparr>)"
  by (simp_all add: set_option_def)

text \<open>The parts of the command line after the interpreter and the script.\<close>

definition target_part :: "suite_run \<Rightarrow> string list" where
  "target_part X = [''--host-unit'', sx_host_unit X, ''--hostname'', sx_hostname X, ''--vbox-vm'', sx_vbox_vm X, ''--snapshot'', sx_snapshot X]"

definition option_part :: "string \<Rightarrow> string \<Rightarrow> string list" where
  "option_part opt v = (if v = [] then [] else [opt, v])"

lemma args_parts:
  assumes "sc \<in> set SCENARIOS"
  shows "build_prov_args S X sc =
    [su_python S, su_script S] @ target_part X @ option_part ''--phases'' (sc_phases sc) @ option_part ''--modules'' (or_else (sx_modules X) [])"
  using in_registry [OF assms] by (simp add: build_prov_args_def target_part_def option_part_def Let_def)

definition phases_part :: "string option \<Rightarrow> string list" where
  "phases_part ph = (case ph of None \<Rightarrow> [] | Some p \<Rightarrow> [''--phases'', p])"

lemma parse_parts:
  assumes "list_all is_value (passed_values S X)" and "\<And>p. ph = Some p \<Longrightarrow> is_value p"
  shows "parse_args (target_part X @ phases_part ph @ option_part ''--modules'' (or_else (sx_modules X) [])) = Some (read_args X ph)"
    "parse_args (target_part X @ option_part ''--modules'' (or_else (sx_modules X) []) @ phases_part ph) = Some (read_args X ph)"
  using assms
  by (auto simp: parse_args_def target_part_def option_part_def phases_part_def passed_values_def read_args_def default_args_def
      or_else_def split: option.splits)

lemma full_args_read:
  assumes "sc \<in> set SCENARIOS" and "list_all is_value (passed_values S X)"
  shows "parse_args (drop 2 (build_prov_args S X sc)) = Some (read_args X (if sc_phases sc = [] then None else Some (sc_phases sc)))"
    (is "_ = Some (read_args X ?ph)")
proof -
  have "is_value p" if "?ph = Some p" for p
    using in_registry(3) [OF assms(1)] that all_phases by (metis option.sel option.discI)
  from parse_parts(1) [where ph = ?ph, OF assms(2) this] show ?thesis
    by (simp add: args_parts [OF assms(1)] option_part_def phases_part_def split: if_splits)
qed

lemma apart [simp]: "is_value v \<Longrightarrow> v \<noteq> ''--phases''" "is_value v \<Longrightarrow> ''--phases'' \<noteq> v"
  using values_apart by blast+

lemma sub_args_read:
  assumes "sc \<in> set SCENARIOS" and "list_all is_value (passed_values S X)" and "is_value phases"
  shows "\<exists>args. replace_phases (build_prov_args S X sc) phases = Inr args \<and> parse_args (drop 2 args) = Some (read_args X (Some phases))"
proof (cases "sc_phases sc = []")
  case True
  let ?args = "build_prov_args S X sc @ [''--phases'', phases]"
  have "replace_phases (build_prov_args S X sc) phases = Inr ?args"
    using assms(2) by (auto simp: replace_phases_def args_parts [OF assms(1)] True option_part_def target_part_def passed_values_def)
  moreover have "parse_args (drop 2 ?args) = Some (read_args X (Some phases))"
    using parse_parts(2) [OF assms(2), of "Some phases"] assms(3) by (simp add: args_parts [OF assms(1)] True option_part_def phases_part_def)
  ultimately show ?thesis by blast
next
  case False
  let ?args = "[su_python S, su_script S] @ target_part X @ phases_part (Some phases) @ option_part ''--modules'' (or_else (sx_modules X) [])"
  have "replace_phases (build_prov_args S X sc) phases = Inr ?args"
    using assms(2) False
    by (simp add: replace_phases_def args_parts [OF assms(1)] option_part_def target_part_def passed_values_def phases_part_def)
  moreover have "parse_args (drop 2 ?args) = Some (read_args X (Some phases))"
    using parse_parts(1) [OF assms(2), of "Some phases"] assms(3) by simp
  ultimately show ?thesis by blast
qed

text \<open>C37: A sub-run of the suite is read by the harness as the suite means it: the unit, the host name, the
  machine, the snapshot, the modules and the phases. Whatever the phases, it never calls VirtualBox, so the
  sub-runs of the phase \<open>reset\<close> leave the machine as it is.\<close>

theorem sub_run_never_resets:
  assumes "sc \<in> set SCENARIOS" and "list_all is_value (passed_values S X)" and "is_value phases"
    and "vb_exe (he_vm E) \<noteq> ''powershell.exe''"
  shows "\<exists>args A. replace_phases (build_prov_args S X sc) phases = Inr args \<and> parse_args (drop 2 args) = Some A
    \<and> ha_host_unit A = sx_host_unit X \<and> ha_hostname A = sx_hostname X \<and> ha_vbox_vm A = sx_vbox_vm X
    \<and> ha_snapshot A = sx_snapshot X \<and> or_else (ha_modules A) [] = or_else (sx_modules X) [] \<and> ha_phases A = Some phases
    \<and> Spawned (vb_exe (he_vm E) # vargs) \<notin> set (drop (length (w_acts s)) (w_acts (snd (harness_main fuel N E A s))))"
proof -
  obtain args where "replace_phases (build_prov_args S X sc) phases = Inr args"
    and "parse_args (drop 2 args) = Some (read_args X (Some phases))"
    using sub_args_read [OF assms(1-3)] by blast
  moreover have "grown (others (vb_exe (he_vm E))) s (snd (harness_main fuel N E (read_args X (Some phases)) s))"
    by (rule only_actsD [OF other_harness [OF assms(4)] surjective_pairing]) (simp add: read_args_def default_args_def)
  then have "Spawned (vb_exe (he_vm E) # vargs) \<notin> set (drop (length (w_acts s)) (w_acts (snd (harness_main fuel N E (read_args X (Some phases)) s))))"
    by (auto simp: grown_def others_def)
  ultimately show ?thesis
    by (intro exI conjI) (auto simp: read_args_def or_else_def split: option.splits)
qed

end
