(* ===== verification/Vm_Reset.thy ===== *)
theory Vm_Reset
  imports Vm_Once
begin

text \<open>
  The recovery sequence of the test machine: which calls of VirtualBox it makes, in which order.
\<close>

section \<open>The calls of VirtualBox on a timeline\<close>

fun vbox_calls :: "string \<Rightarrow> wact list \<Rightarrow> string list list" where
  "vbox_calls x [] = []"
| "vbox_calls x (a # as) =
     (case a of Spawned (y # args) \<Rightarrow> if y = x then [args] else [] | _ \<Rightarrow> []) @ vbox_calls x as"

lemma vbox_calls_append [simp]: "vbox_calls x (as @ as') = vbox_calls x as @ vbox_calls x as'"
  by (induction as) auto

lemma vbox_calls_none: "set as \<subseteq> others x \<Longrightarrow> vbox_calls x as = []"
  by (induction as) (auto simp: others_def split: wact.split list.split)

definition new_calls :: "string \<Rightarrow> wire \<Rightarrow> wire \<Rightarrow> string list list" where
  "new_calls x s s' = vbox_calls x (drop (length (w_acts s)) (w_acts s'))"

definition longer :: "wire \<Rightarrow> wire \<Rightarrow> bool" where
  "longer s s' \<longleftrightarrow> (\<exists>as. w_acts s' = w_acts s @ as)"

lemma new_calls_trans: "longer s t \<Longrightarrow> longer t u \<Longrightarrow> longer s u \<and> new_calls x s u = new_calls x s t @ new_calls x t u"
  by (auto simp: longer_def new_calls_def)

text \<open>The calls of a program are those of one of some plans when it returns, with a value that belongs to the
  plan, and a prefix of one of them when it raises.\<close>

type_synonym 'a plan_set = "(string list list \<times> 'a option) set"

definition plans :: "string \<Rightarrow> 'a plan_set \<Rightarrow> 'a net_eff \<Rightarrow> bool" where
  "plans x P m \<longleftrightarrow> (\<forall>s r s'. m s = (r, s') \<longrightarrow> longer s s' \<and>
     (case r of Inr a \<Rightarrow> (new_calls x s s', Some a) \<in> P
      | Inl e \<Rightarrow> \<exists>(p, b) \<in> P. Sublist.prefix (new_calls x s s') p))"

definition and_then :: "'a plan_set \<Rightarrow> ('a \<Rightarrow> 'b plan_set) \<Rightarrow> 'b plan_set" where
  "and_then P Q = {(p, None) |p b. (p, b) \<in> P} \<union> {(p @ q, c) |p a q c. (p, Some a) \<in> P \<and> (q, c) \<in> Q a}"

lemma and_thenE:
  assumes "z \<in> and_then P Q"
  obtains (cut) p b where "z = (p, None)" "(p, b) \<in> P"
  | (both) p a q c where "z = (p @ q, c)" "(p, Some a) \<in> P" "(q, c) \<in> Q a"
  using assms by (auto simp: and_then_def)

lemma plans_bind:
  assumes "plans x P m" and "\<And>a. plans x (Q a) (f a)"
  shows "plans x (and_then P Q) (bindM m f)"
  unfolding plans_def
proof (intro allI impI)
  fix s r s'
  assume run: "bindM m f s = (r, s')"
  obtain y t where m: "m s = (y, t)" by fastforce
  with assms(1) have st: "longer s t"
      "case y of Inr a \<Rightarrow> (new_calls x s t, Some a) \<in> P | Inl e \<Rightarrow> \<exists>(p, b) \<in> P. Sublist.prefix (new_calls x s t) p"
    by (auto simp: plans_def)
  show "longer s s' \<and> (case r of Inr a \<Rightarrow> (new_calls x s s', Some a) \<in> and_then P Q
      | Inl e \<Rightarrow> \<exists>(p, b) \<in> and_then P Q. Sublist.prefix (new_calls x s s') p)"
  proof (cases y)
    case (Inl e)
    with run m st show ?thesis by (force simp: bindM_def and_then_def)
  next
    case (Inr a)
    with run m have f: "f a t = (r, s')" by (simp add: bindM_def)
    with assms(2) have ts: "longer t s'"
        "case r of Inr b \<Rightarrow> (new_calls x t s', Some b) \<in> Q a | Inl e \<Rightarrow> \<exists>(p, b) \<in> Q a. Sublist.prefix (new_calls x t s') p"
      by (auto simp: plans_def)
    note calls = new_calls_trans [OF st(1) ts(1), of x]
    show ?thesis
    proof (cases r)
      case (Inl e)
      with ts(2) obtain p b where "(p, b) \<in> Q a" "Sublist.prefix (new_calls x t s') p" by auto
      with st(2) \<open>y = Inr a\<close> have "(new_calls x s t @ p, b) \<in> and_then P Q"
        and "Sublist.prefix (new_calls x s s') (new_calls x s t @ p)"
        by (auto simp: and_then_def calls)
      then have "\<exists>(p, b) \<in> and_then P Q. Sublist.prefix (new_calls x s s') p" by blast
      with calls Inl show ?thesis by simp
    next
      case (Inr b)
      with st(2) ts(2) \<open>y = Inr a\<close> calls show ?thesis by (auto simp: and_then_def)
    qed
  qed
qed

lemma plans_seq: "plans x P m \<Longrightarrow> plans x Q n \<Longrightarrow> plans x (and_then P (\<lambda>u. Q)) (seqM m n)"
  unfolding seqM_def by (rule plans_bind)

lemma plans_mono: "plans x P m \<Longrightarrow> P \<subseteq> Q \<Longrightarrow> plans x Q m"
  unfolding plans_def by (fastforce split: sum.splits)

lemma plans_none: "only_acts (others x) m \<Longrightarrow> plans x ({[]} \<times> UNIV) m"
  by (auto simp: plans_def grown_def longer_def new_calls_def vbox_calls_none split: sum.split dest!: only_actsD)

lemma plans_ret: "plans x {([], Some a)} (ret a)"
  by (simp add: plans_def ret_def longer_def new_calls_def)

lemma plans_after: "only_acts (others x) m \<Longrightarrow> (\<And>a. plans x Q (f a)) \<Longrightarrow> ([], None) \<in> Q \<Longrightarrow> plans x Q (bindM m f)"
  by (rule plans_mono [OF plans_bind [OF plans_none]]) (auto simp: and_then_def)

section \<open>The calls of the recovery\<close>

definition show_call :: "string \<Rightarrow> string list" where
  "show_call vm = [''showvminfo'', vm, ''--machinereadable'']"

definition reports :: "vm_env \<Rightarrow> string \<Rightarrow> string \<Rightarrow> bool" where
  "reports V vm st \<longleftrightarrow> (\<exists>n info. vb_run V n (show_call vm) = Inr info \<and> state_of info = st)"

definition is_stopped :: "string \<Rightarrow> bool" where
  "is_stopped st \<longleftrightarrow> st \<in> {''poweroff'', ''aborted'', ''saved''}"

text \<open>How the machine comes to be off: it says so, or it is switched off and asked until it says so, at most
  thirty times.\<close>

inductive comes_off :: "vm_env \<Rightarrow> string \<Rightarrow> string list list \<Rightarrow> bool" for V vm where
  already_off: "reports V vm st \<Longrightarrow> is_stopped st \<Longrightarrow> comes_off V vm [show_call vm]"
| said_off: "reports V vm ''poweroff'' \<Longrightarrow> k < VM_STOP_POLL_TIMEOUT_S
    \<Longrightarrow> comes_off V vm ([show_call vm, [''controlvm'', vm, ''poweroff'']] @ replicate (Suc k) (show_call vm))"
| gave_up: "comes_off V vm ([show_call vm, [''controlvm'', vm, ''poweroff'']] @ replicate VM_STOP_POLL_TIMEOUT_S (show_call vm))"

lemma vbox_plans:
  "plans (vb_exe V) ({([args], None)} \<union> {([args], Some out) |n out. vb_run V n args = Inr out}) (vbox N V args)"
  by (auto simp: plans_def vbox_def call_def seqM_def bindM_def emit_def query_def liftR_def longer_def new_calls_def split: sum.splits)

lemma state_plans:
  "plans (vb_exe V) ({([show_call vm], None)} \<union> {([show_call vm], Some st) |st. reports V vm st}) (vm_state N V vm)"
  unfolding vm_state_def show_call_def [symmetric]
  by (rule plans_mono [OF plans_bind [OF vbox_plans plans_ret]]) (auto simp: and_then_def reports_def)

text \<open>The polls that were not cut short.\<close>

definition polled :: "vm_env \<Rightarrow> string \<Rightarrow> nat \<Rightarrow> bool plan_set" where
  "polled V vm n = {(replicate j (show_call vm), None) |j. j \<le> n} \<union> {(replicate n (show_call vm), Some False)}
     \<union> {(replicate (Suc k) (show_call vm), Some True) |k. k < n \<and> reports V vm ''poweroff''}"

lemma polled_Suc: "(p, b) \<in> polled V vm n \<Longrightarrow> (show_call vm # p, b) \<in> polled V vm (Suc n)"
  and polled_first: "([show_call vm], None) \<in> polled V vm (Suc n)"
    "reports V vm ''poweroff'' \<Longrightarrow> ([show_call vm], Some True) \<in> polled V vm (Suc n)"
  unfolding polled_def
  by (auto intro: exI [where x = "Suc k" for k] exI [where x = "Suc 0"] exI [where x = 0])

lemma polls_plans: "plans (vb_exe V) (polled V vm n) (stop_polls N V vm n)"
proof (induction n)
  case 0
  show ?case
    unfolding stop_polls.simps by (rule plans_mono [OF plans_ret]) (simp add: polled_def)
next
  case (Suc n)
  have "plans (vb_exe V) (if st = ''poweroff'' then {([], Some True)} else polled V vm n)
      (if st = ''poweroff'' then ret True else seqM (pause ns) (stop_polls N V vm n))" for st
    using Suc.IH by (auto simp: seqM_def polled_def intro!: plans_ret plans_after only_pause)
  from plans_bind [OF state_plans, of _ "\<lambda>st. if st = ''poweroff'' then {([], Some True)} else polled V vm n", OF this]
  show ?case
    unfolding stop_polls.simps
    by (rule plans_mono) (auto simp: and_then_def polled_Suc polled_first split: if_splits)
qed

lemma other_winrm [acts]: "only_acts (others x) (wait_for_winrm N host t)"
proof -
  have round: "only_acts (others x) (ping_round N host errs us)" for errs us
    by (induction us arbitrary: errs) (auto intro!: acts simp: ping_def Let_def)
  show ?thesis
    unfolding wait_for_winrm_def wait_for_winrm_body_def Let_def by (intro acts round) simp
qed

definition stop_plan :: "vm_env \<Rightarrow> string \<Rightarrow> unit plan_set" where
  "stop_plan V vm = {(p, None) |p q. comes_off V vm (p @ q)} \<union> {(p, Some ()) |p. comes_off V vm p}"

definition one_call :: "string list \<Rightarrow> unit plan_set" where
  "one_call args = {([args], None), ([args], Some ())}"

lemma one_call_plans: "plans (vb_exe V) (one_call args) (bindM (vbox N V args) (\<lambda>_. ret ()))"
  by (rule plans_mono [OF plans_bind [OF vbox_plans plans_ret]]) (auto simp: and_then_def one_call_def)

lemma polls_come_off:
  "(p, b) \<in> polled V vm VM_STOP_POLL_TIMEOUT_S \<Longrightarrow> \<exists>q. comes_off V vm ([show_call vm, [''controlvm'', vm, ''poweroff'']] @ p @ q)"
  "(p, Some off) \<in> polled V vm VM_STOP_POLL_TIMEOUT_S \<Longrightarrow> comes_off V vm ([show_call vm, [''controlvm'', vm, ''poweroff'']] @ p)"
proof -
  assume p: "(p, b) \<in> polled V vm VM_STOP_POLL_TIMEOUT_S"
  then obtain j where "p = replicate j (show_call vm)" "j \<le> VM_STOP_POLL_TIMEOUT_S"
    unfolding polled_def by (auto simp del: replicate_Suc simp: Suc_le_eq)
  then have "p @ replicate (VM_STOP_POLL_TIMEOUT_S - j) (show_call vm) = replicate VM_STOP_POLL_TIMEOUT_S (show_call vm)"
    by (simp add: replicate_add [symmetric])
  then show "\<exists>q. comes_off V vm ([show_call vm, [''controlvm'', vm, ''poweroff'']] @ p @ q)"
    using gave_up [of V vm] by metis
next
  assume "(p, Some off) \<in> polled V vm VM_STOP_POLL_TIMEOUT_S"
  then show "comes_off V vm ([show_call vm, [''controlvm'', vm, ''poweroff'']] @ p)"
    using gave_up [of V vm] said_off [of V vm] by (auto simp: polled_def)
qed

lemma in_stop_plan:
  "comes_off V vm (p @ q) \<Longrightarrow> (p, None) \<in> stop_plan V vm" "comes_off V vm p' \<Longrightarrow> (p', c) \<in> stop_plan V vm"
proof -
  show cut: "(p, None) \<in> stop_plan V vm" if "comes_off V vm (p @ q)" for p q
    using that by (auto simp: stop_plan_def)
  show "(p', c) \<in> stop_plan V vm" if "comes_off V vm p'"
    using that cut [of p' "[]"] by (cases c) (auto simp: stop_plan_def)
qed

lemma stop_plan_calls [simp]:
  "([show_call vm], None) \<in> stop_plan V vm"
  "([show_call vm, [''controlvm'', vm, ''poweroff'']], None) \<in> stop_plan V vm"
  "(p, b) \<in> polled V vm VM_STOP_POLL_TIMEOUT_S \<Longrightarrow> (show_call vm # [''controlvm'', vm, ''poweroff''] # p, None) \<in> stop_plan V vm"
  "(p, Some off) \<in> polled V vm VM_STOP_POLL_TIMEOUT_S \<Longrightarrow> (show_call vm # [''controlvm'', vm, ''poweroff''] # p, c) \<in> stop_plan V vm"
  "reports V vm st \<Longrightarrow> is_stopped st \<Longrightarrow> ([show_call vm], c) \<in> stop_plan V vm"
proof -
  show "([show_call vm], None) \<in> stop_plan V vm" "([show_call vm, [''controlvm'', vm, ''poweroff'']], None) \<in> stop_plan V vm"
    using gave_up [of V vm] by (auto intro: in_stop_plan(1))
  show "(show_call vm # [''controlvm'', vm, ''poweroff''] # p, None) \<in> stop_plan V vm"
    if "(p, b) \<in> polled V vm VM_STOP_POLL_TIMEOUT_S"
  proof -
    from polls_come_off(1) [OF that] obtain q where
      "comes_off V vm ((show_call vm # [''controlvm'', vm, ''poweroff''] # p) @ q)" by auto
    then show ?thesis by (rule in_stop_plan(1))
  qed
  show "(show_call vm # [''controlvm'', vm, ''poweroff''] # p, c) \<in> stop_plan V vm"
    if "(p, Some off) \<in> polled V vm VM_STOP_POLL_TIMEOUT_S"
    using polls_come_off(2) [OF that] by (auto intro: in_stop_plan(2))
  show "([show_call vm], c) \<in> stop_plan V vm" if "reports V vm st" "is_stopped st"
    by (rule in_stop_plan(2)) (rule already_off [OF that])
qed

lemma stop_plans: "plans (vb_exe V) (stop_plan V vm) (unit_stop N V vm VM_STOP_POLL_TIMEOUT_S)"
proof -
  let ?off = "[''controlvm'', vm, ''poweroff'']"
  let ?R = "and_then (one_call ?off) (\<lambda>_. and_then (polled V vm VM_STOP_POLL_TIMEOUT_S) (\<lambda>off. {[]} \<times> UNIV))"
  have rest: "plans (vb_exe V) ({([], None)} \<union> ?R) (seqM (log_line l) (seqM (bindM (vbox N V ?off) (\<lambda>_. ret ()))
      (bindM (stop_polls N V vm VM_STOP_POLL_TIMEOUT_S) (\<lambda>off. whenM (\<not> off) (log_line (l' off))))))" for l l'
    unfolding seqM_def
    by (rule plans_after, rule acts, rule plans_mono [OF plans_bind [OF one_call_plans plans_bind [OF polls_plans plans_none]]])
       (auto intro: acts)
  have "plans (vb_exe V) (if is_stopped st then {[]} \<times> UNIV else {([], None)} \<union> ?R)
      (if st \<in> {''poweroff'', ''aborted'', ''saved''} then log_line (m st)
       else seqM (log_line (l st)) (seqM (bindM (vbox N V ?off) (\<lambda>_. ret ()))
         (bindM (stop_polls N V vm VM_STOP_POLL_TIMEOUT_S) (\<lambda>off. whenM (\<not> off) (log_line (l' st off))))))" for st m l l'
    using rest by (auto simp: is_stopped_def intro!: plans_none acts)
  note next_call = this
  show ?thesis
    unfolding unit_stop_def
    by (rule plans_mono [OF plans_bind [OF state_plans next_call]])
       (auto simp: and_then_def one_call_def split: if_splits)
qed

text \<open>The whole sequence.\<close>

definition last_calls :: "string \<Rightarrow> string \<Rightarrow> bool \<Rightarrow> string list list" where
  "last_calls vm snapshot gui =
     [[''snapshot'', vm, ''restore'', snapshot], [''startvm'', vm, ''--type'', if gui then ''gui'' else ''headless'']]"

definition recovery_plan :: "vm_env \<Rightarrow> string \<Rightarrow> string \<Rightarrow> bool \<Rightarrow> unit plan_set" where
  "recovery_plan V vm snapshot gui =
     {(p, None) |p q c. comes_off V vm c \<and> p @ q = c @ last_calls vm snapshot gui}
     \<union> {(c @ last_calls vm snapshot gui, Some ()) |c. comes_off V vm c}"

lemma logged_call_plans: "plans (vb_exe V) ({([], None)} \<union> one_call args) (seqM (log_line l) (bindM (vbox N V args) (\<lambda>_. ret ())))"
  unfolding seqM_def by (rule plans_after, rule acts) (auto intro: plans_mono [OF one_call_plans])

lemma recovery_plans:
  "plans (vb_exe V) (recovery_plan V vm snapshot gui) (reset_to_clean_snapshot N V vm snapshot host settle wait gui)"
proof -
  let ?Q = "and_then ({([], None)} \<union> one_call [''snapshot'', vm, ''restore'', snapshot])
     (\<lambda>_. and_then ({([], None)} \<union> one_call [''startvm'', vm, ''--type'', if gui then ''gui'' else ''headless'']) (\<lambda>_. {[]} \<times> UNIV)) :: unit plan_set"
  have restore: "plans (vb_exe V) ({([], None)} \<union> one_call [''snapshot'', vm, ''restore'', snapshot]) (unit_reset_to_snapshot N V vm snapshot)"
    unfolding unit_reset_to_snapshot_def by (rule logged_call_plans)
  have start: "plans (vb_exe V) ({([], None)} \<union> one_call [''startvm'', vm, ''--type'', if gui then ''gui'' else ''headless'']) (unit_start N V vm gui)"
    unfolding unit_start_def Let_def by (rule logged_call_plans)
  have "plans (vb_exe V) ?Q
     (seqM (pause t) (seqM (unit_reset_to_snapshot N V vm snapshot) (seqM (unit_start N V vm gui) (wait_for_winrm N host wait))))" for t
    unfolding seqM_def [where m = "pause t"]
    by (rule plans_after, rule only_pause, simp, rule plans_seq [OF restore plans_seq [OF start plans_none]], rule acts)
       (auto simp: and_then_def)
  note later = this
  have tail: "\<exists>q. t @ q = last_calls vm snapshot gui \<and> (c = None \<or> q = [])" if "(t, c) \<in> ?Q" for t c
    using that by (auto simp: and_then_def one_call_def last_calls_def)
  have "and_then (stop_plan V vm) (\<lambda>u. ?Q) \<subseteq> recovery_plan V vm snapshot gui"
  proof
    fix pc
    assume "pc \<in> and_then (stop_plan V vm) (\<lambda>u. ?Q)"
    then show "pc \<in> recovery_plan V vm snapshot gui"
    proof (cases rule: and_thenE)
      case (cut p b)
      then obtain q where "comes_off V vm (p @ q)" by (auto simp: stop_plan_def intro: that [of "[]"])
      moreover have "p @ (q @ last_calls vm snapshot gui) = (p @ q) @ last_calls vm snapshot gui" by simp
      ultimately show ?thesis using cut unfolding recovery_plan_def by blast
    next
      case (both p u t c)
      then have "comes_off V vm p" by (auto simp: stop_plan_def)
      moreover obtain q where "t @ q = last_calls vm snapshot gui" "c = None \<or> q = []" using tail [OF both(3)] by blast
      moreover from this have "(p @ t) @ q = p @ last_calls vm snapshot gui" by simp
      ultimately show ?thesis using both(1) unfolding recovery_plan_def by (cases c) auto
    qed
  qed
  then show ?thesis
    unfolding reset_to_clean_snapshot_def by (rule plans_mono [OF plans_seq [OF stop_plans later]])
qed


end
