(* ===== verification/Vm_Props.thy ===== *)
theory Vm_Props
  imports Vm_Guard Vm_Report
begin

text \<open>
  What the exit code of the harness counts, and the failed build that it does not see.
\<close>

section \<open>What a program returns\<close>

text \<open>When it returns; and when a run that may still be going has a result.\<close>

definition posts :: "('a \<Rightarrow> bool) \<Rightarrow> 'a net_eff \<Rightarrow> bool" where
  "posts Q m \<longleftrightarrow> (\<forall>s x s'. m s = (Inr x, s') \<longrightarrow> Q x)"

definition postsD :: "('a \<Rightarrow> bool) \<Rightarrow> 'a option net_eff \<Rightarrow> bool" where
  "postsD Q m \<longleftrightarrow> (\<forall>s x s'. m s = (Inr (Some x), s') \<longrightarrow> Q x)"

lemma posts_true: "posts (\<lambda>_. True) m" and postsD_true: "postsD (\<lambda>_. True) m'"
  by (simp_all add: posts_def postsD_def)

lemma posts_ret: "Q x \<Longrightarrow> posts Q (ret x)" and postsD_retD: "P y \<Longrightarrow> postsD P (retD y)"
  by (simp_all add: posts_def postsD_def retD_def ret_def)

lemma posts_bind: "posts R m \<Longrightarrow> (\<And>a. R a \<Longrightarrow> posts Q (f a)) \<Longrightarrow> posts Q (bindM m f)"
  unfolding posts_def bindM_Inr_iff by blast

lemma postsD_bindM: "posts R m \<Longrightarrow> (\<And>a. R a \<Longrightarrow> postsD Q (f a)) \<Longrightarrow> postsD Q (bindM m f)"
  unfolding posts_def postsD_def bindM_Inr_iff by blast

lemma posts_after: "(\<And>a. posts Q (f a)) \<Longrightarrow> posts Q (bindM m f)"
  and postsD_afterM: "(\<And>a. postsD R (g a)) \<Longrightarrow> postsD R (bindM m g)"
  by (auto intro: posts_bind [OF posts_true] postsD_bindM [OF posts_true])

lemma posts_seq: "posts Q n \<Longrightarrow> posts Q (seqM m n)" and postsD_seq: "postsD R k \<Longrightarrow> postsD R (seqM m k)"
  unfolding seqM_def by (auto intro: posts_after postsD_afterM)

lemma postsD_bind: "postsD R m \<Longrightarrow> (\<And>a. R a \<Longrightarrow> postsD Q (f a)) \<Longrightarrow> postsD Q (bindD m f)"
  unfolding postsD_def bindD_def bindM_Inr_iff by (force simp: ret_def split: option.splits)

lemma postsD_after: "(\<And>a. postsD Q (f a)) \<Longrightarrow> postsD Q (bindD m f)"
  by (rule postsD_bind [OF postsD_true])

lemma posts_on_raise: "posts Q m \<Longrightarrow> posts Q (on_raise m fin)" and postsD_on_raise: "postsD R k \<Longrightarrow> postsD R (on_raise k fin)"
  by (auto simp: posts_def postsD_def on_raise_def catchM_def seqM_def bindM_def raise_def split: prod.splits sum.splits)

lemma posts_attempt: "posts Q m \<Longrightarrow> posts (case_sum (\<lambda>_. True) Q) (attempt m)"
  by (auto simp: posts_def attempt_def catchM_def bindM_def ret_def raise_def split: prod.splits sum.splits if_splits)

lemma posts_timed: "posts Q m \<Longrightarrow> posts Q (timed N E l m)"
  unfolding timed_def by (rule posts_after) (auto simp: posts_def finallyM_def split: prod.splits sum.splits)

lemma posts_raise: "posts Q (raise e)"
  by (simp add: posts_def raise_def)

lemma bindD_Some_iff: "bindD m f s = (Inr (Some b), s') \<longleftrightarrow> (\<exists>a t. m s = (Inr (Some a), t) \<and> f a t = (Inr (Some b), s'))"
  unfolding bindD_def bindM_Inr_iff by (force simp: ret_def split: option.splits)

lemma retD_Some_iff [simp]: "retD a s = (Inr (Some b), s') \<longleftrightarrow> b = a \<and> s' = s"
  by (auto simp: retD_def ret_def)

lemma bindD_retD [simp]: "bindD (retD x) f = f x"
  by (rule ext) (simp add: bindD_def bindM_def retD_def ret_def)

lemma ends_retD: "Q (Some x) \<Longrightarrow> ends Q (retD x)"
  unfolding retD_def by (rule ends_ret)

lemma bind_known [simp]: "bindM (liftR (Inr x)) f = f x"
  by (rule ext) simp

lemma gives_on_raise: "gives m x \<Longrightarrow> gives (on_raise m fin) x"
  unfolding gives_def on_raise_def catchM_def
  by (simp split: prod.splits sum.splits) (metis fst_conv sum.inject(2) sum.distinct(1))

lemma ends_on_raise: "ends Q m \<Longrightarrow> ends Q (on_raise m fin)"
  unfolding ends_def on_raise_def catchM_def by (auto split: prod.splits sum.splits) (metis prod.inject sum.distinct(1), metis prod.inject sum.inject(2))

section \<open>Every cycle has a result\<close>

definition went_on :: "cycle_state \<Rightarrow> bool \<times> cycle_state \<Rightarrow> bool" where
  "went_on st r \<longleftrightarrow> \<not> fst r \<and> (\<exists>ok. cs_results (snd r) = cs_results st @ [ok])"

lemma went_on_passed: "cs_results st' = cs_results st \<Longrightarrow> went_on st (False, passed_cycle ok st')"
  by (simp add: went_on_def passed_cycle_def)

lemma cycle_failed_posts: "cs_results st' = cs_results st \<Longrightarrow> postsD (went_on st) (cycle_failed fuel N E cycle e st')"
  unfolding cycle_failed_def by (intro postsD_seq postsD_after postsD_retD went_on_passed)

lemma connected: "\<not> only_builds P \<Longrightarrow> posts (\<lambda>sess. sess \<noteq> None) (connect_part N E A P sess)"
  unfolding connect_part_def by (auto intro!: posts_timed posts_after posts_ret)

lemma cycle_body_posts:
  assumes "\<not> only_builds P"
  shows "postsD (went_on st) (cycle_body fuel N E A P cycle d st)"
  unfolding cycle_body_def Let_def
  by (intro postsD_afterM)
     (auto simp: assms intro!: cycle_failed_posts postsD_bindM [OF posts_on_raise [OF posts_attempt [OF connected [OF assms]]]]
        postsD_after postsD_retD went_on_passed split: sum.split option.split)

lemma reset_posts: "posts (\<lambda>st'. cs_results st' = cs_results st) (reset_part N E A P cycle st)"
  unfolding reset_part_def by (auto intro!: posts_after posts_seq posts_ret)

lemma cycles_posts:
  assumes "\<not> only_builds P"
  shows "postsD (\<lambda>st'. length (cs_results st') = length (cs_results st) + k) (run_cycles fuel N E A P k cycle st)"
proof (induction k arbitrary: cycle st)
  case (Suc k)
  have later: "postsD (\<lambda>st'. length (cs_results st') = Suc (length (cs_results st) + k)) (run_cycles fuel N E A P k c u)"
    if "\<exists>ok. cs_results u = cs_results st @ [ok]" for c u
    using Suc.IH [of u c] that by auto
  show ?case
    by (auto intro!: postsD_seq postsD_afterM postsD_bind [OF cycle_body_posts [OF assms, of st]]
        postsD_bindM [OF posts_on_raise [OF reset_posts]] later simp: went_on_def)
qed (simp add: postsD_retD)

text \<open>When a run over cycles returns, its exit code is 1 exactly when the verification was among the
  phases and one of the cycles did not pass, each cycle having a result; without the verification the
  code is 0 whatever failed.\<close>

theorem exit_counts_cycles:
  assumes "standard_run fuel N E A P t s = (Inr (Some c), s')"
  shows "\<exists>st u. run_cycles fuel N E A P (ha_repeat A) 1 \<lparr>cs_built = False, cs_session = None, cs_results = []\<rparr> s = (Inr (Some st), u)
    \<and> (has_phase P ''verify'' \<longrightarrow> length (cs_results st) = ha_repeat A)
    \<and> c = (if has_phase P ''verify'' \<and> \<not> list_all (\<lambda>ok. ok) (cs_results st) then 1 else 0)"
proof -
  let ?st = "\<lparr>cs_built = False, cs_session = None, cs_results = []\<rparr>"
  from assms obtain st u where run: "run_cycles fuel N E A P (ha_repeat A) 1 ?st s = (Inr (Some st), u)"
    and rest: "seqM (dispose (cs_session st)) (seqM (total_line N E t)
       (bindM (if has_phase P ''verify'' then summary P (cs_results st) else ret 0) retD)) u = (Inr (Some c), s')"
    by (auto simp: standard_run_def bindD_Some_iff)
  have n: "length (cs_results st) = ha_repeat A" if "has_phase P ''verify''"
  proof -
    have "\<not> only_builds P" using that by (auto simp: only_builds_def has_phase_def list_all_iff intro!: bexI [of _ "''verify''"])
    from cycles_posts [OF this, of ?st "ha_repeat A" fuel N E A 1] run show ?thesis unfolding postsD_def by fastforce
  qed
  have "(count_true oks = length oks) = list_all (\<lambda>ok. ok) oks" for oks
    using length_filter_le [of "\<lambda>ok. ok" oks] by (induction oks) (auto simp: count_true_def le_imp_less_Suc [THEN less_imp_neq])
  then have "c = (if has_phase P ''verify'' \<and> \<not> list_all (\<lambda>ok. ok) (cs_results st) then 1 else 0)"
    using rest by (auto simp: seqM_Inr_iff bindM_Inr_iff summary_def Let_def split: if_splits)
  with run n show ?thesis by blast
qed

section \<open>A build that fails\<close>

definition no_session :: "(bool \<times> cycle_state) option \<Rightarrow> bool" where
  "no_session r \<longleftrightarrow> (\<exists>stop st. r = Some (stop, st) \<and> cs_session st = None)"

lemma ends_lines: "ends (\<lambda>_. True) (forM ls log_line)"
  by (intro ends_forM ends_simple)

lemma build_civil:
  assumes "build_command E hostname ms proxy = Inr cmd" and "\<And>n e. he_process E n cmd = Inl e \<Longrightarrow> is_caught e"
  shows "civil (phase_build N E hostname ms proxy)"
proof -
  have call: "civil (call N (Spawned cmd) (\<lambda>n. he_process E n cmd))" by (rule civil_call) (rule assms(2))
  have report: "civil (seqM (whenM b (emit x)) (seqM (whenM b' (emit x')) (if c then raise RuntimeError else ret ())))" for b b' c x x'
    by (auto simp: whenM_def is_caught_def intro!: civil_seq civil_raise civil_ends [OF ends_simple(2)] civil_ends [OF ends_simple(6)])
  have line: "civil (log_line l)" "civil (clock N)" for l by (rule civil_ends [OF ends_simple(3)], rule civil_ends [OF ends_simple(1)])
  show ?thesis
    unfolding phase_build_def timed_def phase_start_def phase_end_def assms(1) bind_known
    by (auto intro!: civil_bind civil_seq civil_finally line call report civil_raise simp: is_caught_def)
qed

text \<open>What is needed of the world for a run of the build alone: the command line can be made, and what the
  process raises is an ordinary exception.\<close>

definition can_build :: "harness_env \<Rightarrow> harness_args \<Rightarrow> string list \<Rightarrow> bool" where
  "can_build E A ms \<longleftrightarrow>
     (\<exists>cmd. build_command E (ha_hostname A) ms (ha_proxy_mode A) = Inr cmd
        \<and> (\<forall>n e. he_process E n cmd = Inl e \<longrightarrow> is_caught e))"

lemma build_cycle:
  assumes "can_build E A (pl_modules P)" and "pl_phases P = [''build'']" and "cs_session st = None"
  shows "ends no_session (cycle_body fuel N E A P cycle d st)"
proof -
  have failed: "ends no_session (cycle_failed fuel N E cycle e st)" for e
    using assms(3) by (auto simp: cycle_failed_def passed_cycle_def no_session_def intro!: ends_seq [OF ends_simple(3)] ends_retD)
  have b: "only_builds P" by (simp add: only_builds_def assms(2))
  have connect: "gives (on_raise (attempt (connect_part N E A P None)) m) (Inr None)" for m
    using b by (simp add: connect_part_def gives_on_raise gives_attempt gives_ret)
  have "civil (build_part N E A P st)"
    using assms(1) by (auto simp: build_part_def whenM_def can_build_def intro!: build_civil civil_ends [OF ends_simple(6)])
  then have build: "ends (\<lambda>_. True) (on_raise (attempt (build_part N E A P st)) m)" for m
    by (intro ends_on_raise civil_attempt)
  have stop: "ends no_session (seqM (log_line l) (retD (True, st')))" if "cs_session st' = None" for l st'
    using that by (auto simp: no_session_def intro!: ends_seq [OF ends_simple(3)] ends_retD)
  show ?thesis
    unfolding cycle_body_def Let_def
    apply (rule ends_bind [OF ends_simple(4)])
    apply (rule ends_bind [OF build])
    apply (auto split: sum.split intro!: failed)
    apply (simp add: assms(3))
    apply (rule ends_bind [OF gives_ends [OF connect, of "\<lambda>r. r = Inr None"]])
    by (auto simp: b intro!: stop)
qed

lemma build_cycles:
  assumes "can_build E A (pl_modules P)" and "pl_phases P = [''build'']"
  shows "cs_session st = None
    \<Longrightarrow> ends (\<lambda>r. \<exists>st'. r = Some st' \<and> cs_session st' = None) (run_cycles fuel N E A P k cycle st)"
proof (induction k arbitrary: cycle st)
  case (Suc k)
  have no_reset: "reset_part N E A P c u = ret u" for c u
    by (simp add: reset_part_def has_phase_def assms(2))
  have again: "ends (\<lambda>r. \<exists>st'. r = Some st' \<and> cs_session st' = None)
       (case r of None \<Rightarrow> ret None | Some (stop, st') \<Rightarrow> if stop then retD st'
          else bindM (on_raise (reset_part N E A P cycle st') (dispose (cs_session st'))) (run_cycles fuel N E A P k (cycle + 1)))"
    if "no_session r" for r
    using that Suc.IH [of _ "cycle + 1"]
    by (auto simp: no_session_def no_reset on_raise_def catchM_def ret_def bindM_def intro!: ends_retD)
  show ?case
    unfolding run_cycles.simps bindD_def
    by (intro ends_seq [OF ends_lines] ends_bind [OF ends_simple(4)] ends_bind [OF build_cycle [OF assms Suc.prems]])
       (use again in \<open>auto simp: no_session_def\<close>)
qed (simp add: ends_retD)

lemma build_run:
  assumes "can_build E A (pl_modules P)" and "pl_phases P = [''build'']"
  shows "gives (standard_run fuel N E A P t) (Some 0)"
proof -
  have total: "ends (\<lambda>_. True) (total_line N E t)"
    unfolding total_line_def by (rule ends_bind [OF ends_simple(1)]) (rule ends_simple(3))
  have silent: "\<not> has_phase P ''verify''" using assms(2) by (simp add: has_phase_def)
  have "ends (\<lambda>y. y = Some 0) (seqM (dispose None) (seqM (total_line N E t) (bindM (ret 0) retD)))"
    by (auto simp: dispose_def intro!: ends_seq [OF ends_simple(6)] ends_seq [OF total] ends_bind [OF ends_ret [of "\<lambda>x. x = 0"]] ends_retD)
  then show ?thesis
    unfolding standard_run_def bindD_def
    by (intro ends_gives ends_bind [OF build_cycles [OF assms]]) (auto simp: silent)
qed

text \<open>C39: A run of the build phase alone ends with exit code 0 whatever the build does: the exception of a
  build that failed is recorded as a failed cycle, and cycles only count when the unit is verified.\<close>

theorem failed_build_unnoticed:
  assumes "resolve_phases A = Inr (Some [''build''])" and "modules_of E A = Inr ms" and "can_build E A ms"
    and "harness_creds E = Inr (account, smb)" and "\<And>n. he_lookup E n (ha_host_unit A) = Inr addr" and "is_dev_vm_address addr"
  shows "exit_status (fst (harness_main fuel N E A s)) = Some 0"
proof -
  have lookup: "gives (resolve_target_address N E (ha_host_unit A)) addr"
    unfolding resolve_target_address_def
    by (rule gives_bind [OF gives_query [where x = "Inr addr"]]) (simp_all add: assms(5) gives_ret)
  have guard: "ends (\<lambda>_. True) (guard_target N E A)"
    unfolding guard_target_def
    by (rule ends_bind [OF gives_ends [OF lookup, of "\<lambda>a. a = addr"]], rule refl)
       (simp only: assms(6) not_True_eq_False simp_thms if_False, intro ends_seq [OF ends_lines] ends_seq [OF ends_simple(3)] ends_simple(3))
  have awake: "ends (\<lambda>_. True) (keep_awake E)"
    by (auto simp: keep_awake_def split: option.split sum.split)
  have "ends (\<lambda>y. y = Some 0) (standard_run fuel N E A P t)" if "pl_modules P = ms" "pl_phases P = [''build'']" for P t
    by (rule gives_ends [OF build_run]) (simp_all add: that assms(3))
  then have "ends (\<lambda>y. y = Some 0) (harness_main fuel N E A)"
    unfolding harness_main_def assms(1,2,4) bind_known prod.case option.case Let_def
    by (intro ends_seq [OF ends_lines] ends_seq [OF ends_simple(5)] ends_bind [OF ends_simple(4)] ends_bind [OF ends_simple(1)]
        ends_seq [OF awake] ends_seq [OF guard]) simp
  then obtain s' where "harness_main fuel N E A s = (Inr (Some 0), s')" by (auto simp: ends_def)
  then show ?thesis by (simp add: exit_status_def)
qed

end
