(* ===== verification/Vm_Verdict.thy ===== *)
theory Vm_Verdict
  imports Vm_Props
begin

text \<open>
  What the exit code of the suite says of its scenarios.
\<close>

text \<open>A result of a scenario: it names it, and only a stub is skipped.\<close>

definition verdict_on :: "scenario \<Rightarrow> scenario_result \<Rightarrow> bool" where
  "verdict_on sc r \<longleftrightarrow> rs_name r = sc_name sc \<and> rs_status r = sc_status sc
     \<and> (rs_outcome r = ''SKIP'' \<longrightarrow> sc_status sc = ''STUB'')"

lemma finished_posts: "outcome \<noteq> ''SKIP'' \<Longrightarrow> posts (verdict_on sc) (finished N sc t0 outcome detail subs)"
  unfolding finished_def by (rule posts_after, rule posts_ret) (simp add: verdict_on_def)

lemma posts_case: "(\<And>a b. p = (a, b) \<Longrightarrow> posts Q (f a b)) \<Longrightarrow> posts Q (case p of (a, b) \<Rightarrow> f a b)"
  by (cases p) simp

lemma never_skips [simp]:
  "inject_fail_verdict rb rd \<noteq> (''SKIP'', d)" "recover_verdict rb rc \<noteq> (''SKIP'', d)" "wipe_verdict ha hc \<noteq> (''SKIP'', d)"
  by (auto simp: inject_fail_verdict_def recover_verdict_def wipe_verdict_def)

lemma manifest_hash_posts:
  "posts (\<lambda>h. \<forall>out d. h = Inl (out, d) \<longrightarrow> out \<noteq> ''SKIP'') (manifest_hash fuel N S host which before)"
  unfolding manifest_hash_def by (rule posts_after) (auto intro!: posts_ret split: sum.split option.split)

lemma runner_posts:
  assumes "runner_of fuel N S X sc = Some run"
  shows "posts (verdict_on sc) run"
proof -
  have wipe: "posts (verdict_on sc) (wipe_second fuel N S X sc t0 base h subs)" for t0 base h subs
    unfolding wipe_second_def Let_def
    by (auto intro!: posts_after finished_posts posts_bind [OF manifest_hash_posts] posts_case split: sum.split)
  have "posts (verdict_on sc) (run_simple_scenario N S X sc)" "posts (verdict_on sc) (run_interrupted_inject_fail N S X sc)"
    "posts (verdict_on sc) (run_failure_recover_no_reset N S X sc)"
    "posts (verdict_on sc) (run_idempotent_after_manifest_wipe fuel N S X sc)"
    unfolding run_simple_scenario_def run_interrupted_inject_fail_def run_failure_recover_no_reset_def
      run_idempotent_after_manifest_wipe_def Let_def
    by (auto intro!: posts_after posts_seq finished_posts posts_case wipe posts_bind [OF manifest_hash_posts] split: sum.split if_splits)
  with assms show ?thesis by (auto simp: runner_of_def split: if_splits)
qed

lemma scenario_posts: "posts (verdict_on sc) (run_scenario fuel N S X sc)"
proof (cases "sc_status sc = ''STUB''")
  case True
  then show ?thesis
    by (auto simp: run_scenario_def run_stub_def verdict_on_def intro!: posts_seq posts_ret)
next
  case False
  then show ?thesis
    by (auto simp: run_scenario_def verdict_on_def error_result_def intro!: posts_ret
        posts_bind [OF posts_attempt [OF runner_posts]] split: option.split sum.splits)
qed

lemma preflight_posts: "posts (\<lambda>p. \<forall>r. p = Some r \<longrightarrow> verdict_on sc r) (preflight N S X sc)"
  unfolding preflight_def Let_def
  by (auto simp: verdict_on_def error_result_def intro!: posts_ret posts_seq posts_after split: sum.split)

lemma suite_scenario_posts: "posts (verdict_on sc) (suite_scenario fuel N S G host dir idx tot sc so_far)"
  unfolding suite_scenario_def Let_def
  by (auto intro!: posts_seq posts_bind [OF preflight_posts] posts_bind [of "verdict_on sc"] posts_ret scenario_posts split: option.split)

text \<open>The suite has one result for each scenario, in their order.\<close>

lemma run_suite_posts:
  "posts (\<lambda>rs'. \<exists>new. rs' = rs @ new \<and> list_all2 verdict_on scs new) (run_suite fuel N S G host dir idx tot scs rs)"
proof (induction scs arbitrary: idx rs)
  case (Cons sc scs)
  have "posts (\<lambda>rs'. \<exists>new. rs' = rs @ new \<and> list_all2 verdict_on (sc # scs) new)
      (run_suite fuel N S G host dir (idx + 1) tot scs (rs @ [r]))" if "verdict_on sc r" for r
    using Cons.IH [of "rs @ [r]" "idx + 1"] that unfolding posts_def by fastforce
  then show ?case by (auto intro: posts_bind [OF suite_scenario_posts])
qed (simp add: posts_ret)

lemma bad_results:
  assumes "list_all2 verdict_on scs rs"
  shows "suite_exit rs = (if list_all (\<lambda>r. rs_status r = ''ACTIVE'' \<longrightarrow> rs_outcome r = ''PASS'') rs then 0 else 1)"
  using assms by (induction rule: list_all2_induct) (auto simp: suite_exit_def bad_result_def verdict_on_def split: if_splits)

lemma run_suiteD: "run_suite fuel N S G host dir idx tot scs [] t = (Inr rs, u) \<Longrightarrow> list_all2 verdict_on scs rs"
  using run_suite_posts [where scs = scs and rs = "[]"] unfolding posts_def by fastforce

lemma wroteD:
  "emit (WroteFile p x) t = (Inr y, u) \<Longrightarrow> log_line l u = (Inr z, v) \<Longrightarrow> ret e v = (Inr c, s')
    \<Longrightarrow> c = e \<and> WroteFile p x \<in> set (w_acts s')"
  by (auto simp: emit_def log_line_def ret_def)

lemma run_targets_result:
  assumes "run_targets fuel N S G host chosen s = (Inr c, s')"
  shows "\<exists>rs stamp path. list_all2 verdict_on chosen rs \<and> c = suite_exit rs
    \<and> WroteFile path (suite_results_text S stamp rs) \<in> set (w_acts s')"
  using assms unfolding run_targets_def Let_def bindM_Inr_iff seqM_Inr_iff
  apply -
  apply (elim exE conjE)
  apply (drule run_suiteD)
  apply (drule (2) wroteD)
  apply (elim conjE)
  apply (intro exI conjI)
  apply assumption
  apply assumption
  apply assumption
  done

text \<open>C40: When the suite ends, either it has refused to start with code 2, or each chosen scenario has one result,
  in order, these results are what is written to \<open>suite-results.json\<close>, and the exit code is 0 exactly when
  every active scenario passed: an active scenario is never skipped.\<close>

theorem suite_exit_honest:
  assumes "suite_main fuel N S G s = (Inr c, s')" and "\<not> sa_list G"
  shows "c = 2 \<or> (\<exists>chosen rs stamp path. targets_of G = Some chosen
    \<and> map rs_name rs = map sc_name chosen \<and> map rs_status rs = map sc_status chosen
    \<and> WroteFile path (suite_results_text S stamp rs) \<in> set (w_acts s')
    \<and> c = (if list_all (\<lambda>r. rs_status r = ''ACTIVE'' \<longrightarrow> rs_outcome r = ''PASS'') rs then 0 else 1))"
proof (cases "c = 2")
  case False
  with assms obtain host chosen t where "targets_of G = Some chosen" and "run_targets fuel N S G host chosen t = (Inr c, s')"
    by (auto simp: suite_main_def usage_error_def seqM_Inr_iff bindM_Inr_iff ret_def split: option.splits if_splits)
  moreover from run_targets_result [OF this(2)] obtain rs stamp path where "list_all2 verdict_on chosen rs" and "c = suite_exit rs"
    and "WroteFile path (suite_results_text S stamp rs) \<in> set (w_acts s')" by blast
  moreover from this(1) have "map rs_name rs = map sc_name chosen" and "map rs_status rs = map sc_status chosen"
    by (induction rule: list_all2_induct) (auto simp: verdict_on_def)
  ultimately show ?thesis using bad_results by blast
qed simp

end
