(* ===== verification/Vm_Example.thy ===== *)
theory Vm_Example
  imports Vm_Reset Vm_Verdict Vm_Compose Focus_Props
begin

text \<open>
  A test machine, a harness and a suite at which the properties of the harness and the suite are evaluated.
\<close>

section \<open>A machine that is off and comes up\<close>

definition ex_vm :: vm_env where
  "ex_vm = \<lparr>vb_exe = ''VBoxManage.exe'', vb_run = \<lambda>n args. Inr (''name='' @ dquote ''mast00'' @ [CHR 10] @ ''VMState='' @ dquote ''poweroff'')\<rparr>"

lemma ex_vm_off: "vb_run ex_vm n args = Inr info \<Longrightarrow> state_of info = ''poweroff''"
proof -
  have "state_of (''name='' @ dquote ''mast00'' @ [CHR 10] @ ''VMState='' @ dquote ''poweroff'') = ''poweroff''" by code_simp
  then show "vb_run ex_vm n args = Inr info \<Longrightarrow> state_of info = ''poweroff''" by (simp add: ex_vm_def)
qed

lemma users_some: "users_to_try host raw \<noteq> []"
  by (simp add: users_to_try_def Let_def)

lemma gives_log [giving]: "gives (log_line l) ()" and gives_user [giving]: "gives (modifyM g) ()"
  and gives_pause [giving]: "gives (pause d) ()"
  by (simp_all add: gives_def log_line_def emit_def modifyM_def pause_def seqM_def bindM_def)

lemma gives_round: "(\<And>n h u. n_ping N n h u = Inr 0) \<Longrightarrow> us \<noteq> [] \<Longrightarrow> gives (ping_round N host [] us) (True, [])"
  by (cases us) (auto simp: ping_def call_def intro!: giving)

lemma bind_clock:
  "bindM (clock N) f s = f (w_now s + int (n_elapsed N (w_tick s)))
     (s\<lparr>w_tick := w_tick s + 1, w_now := w_now s + int (n_elapsed N (w_tick s))\<rparr>)"
  by (simp add: clock_def seqM_def bindM_def query_def gets_def)

lemma gives_winrm:
  assumes "\<And>n h p. n_tcp N n h p" and "\<And>n h u. n_ping N n h u = Inr 0" and "\<And>n. int (n_elapsed N n) < t * ns"
  shows "gives (wait_for_winrm N host t) ()"
proof -
  have body: "\<exists>s'. wait_for_winrm_body N host users deadline l s = (Inr (Inr ()), s')"
    if "w_now s + int (n_elapsed N (w_tick s)) < deadline" and "users \<noteq> []" for users deadline l s
  proof -
    have "gives (bindM (query N (\<lambda>n. n_tcp N n host WINRM_PORT)) (\<lambda>tcp_ok.
       bindM (if tcp_ok then ping_round N host [] users else ret (False, [])) (\<lambda>(ready, errs).
       if ready then ret (Inr ())
       else bindM (clock N) (\<lambda>now. let due = 60 * ns \<le> now - l in
         seqM (whenM due (log_line (winrm_diagnosis host tcp_ok errs))) (seqM (pause (5 * ns)) (ret (Inl (if due then now else l)))))))) (Inr ())"
      by (rule gives_bind [OF gives_query [where x = True]]) (auto simp: assms(1) intro!: gives_bind [OF gives_round] gives_ret assms(2) that(2))
    from gives_run [OF this] that(1) show ?thesis
      unfolding wait_for_winrm_body_def bind_clock by simp
  qed
  have loop: "\<exists>s'. loop_for (wait_fuel t) (wait_for_winrm_body N host users deadline) l s = (Inr (), s')"
    if "w_now s + int (n_elapsed N (w_tick s)) < deadline" and "users \<noteq> []" for users deadline l s
    using body [OF that, of l] by (auto simp: loop_for_def wait_fuel_def bindM_def ret_def)
  show ?thesis
    unfolding gives_def
  proof
    fix s :: wire
    let ?u = "s\<lparr>w_acts := w_acts s @ [LogLine (''Waiting for WinRM on '' @ host @ '' (up to '' @ int_str t @ ''s)...'')],
       w_tick := w_tick s + 1, w_now := w_now s + int (n_elapsed N (w_tick s))\<rparr>"
    from loop [of ?u "w_now ?u + t * ns" "users_to_try host (w_user s)" 0] users_some assms(3)
    obtain s' where "loop_for (wait_fuel t) (wait_for_winrm_body N host (users_to_try host (w_user s)) (w_now ?u + t * ns)) 0 ?u = (Inr (), s')"
      by auto
    then show "fst (wait_for_winrm N host t s) = Inr ()"
      by (simp add: wait_for_winrm_def seqM_def bindM_def log_line_def emit_def clock_def query_def gets_def)
  qed
qed

lemma gives_vbox: "vb_run V = (\<lambda>n args. Inr out) \<Longrightarrow> gives (vbox N V args) out"
  unfolding vbox_def call_def by (intro giving) (auto intro!: giving)

lemma gives_reset:
  assumes "\<And>n h p. n_tcp N n h p" and "\<And>n h u. n_ping N n h u = Inr 0" and "\<And>n. int (n_elapsed N n) < t * ns"
  shows "gives (reset_to_clean_snapshot N ex_vm vm snapshot host 3 t gui) ()"
proof -
  obtain out where out: "vb_run ex_vm = (\<lambda>n args. Inr out)" "state_of out = ''poweroff''"
    using ex_vm_off by (auto simp: ex_vm_def)
  have "gives (vm_state N ex_vm vm) ''poweroff''"
    unfolding vm_state_def using gives_bind [OF gives_vbox [OF out(1)] gives_ret] out(2) by metis
  then have "gives (unit_stop N ex_vm vm k) ()" for k
    unfolding unit_stop_def by (rule gives_bind) (simp add: gives_log)
  then show ?thesis
    unfolding reset_to_clean_snapshot_def unit_reset_to_snapshot_def unit_start_def Let_def
    by (auto intro!: giving gives_vbox [OF out(1)] gives_winrm assms)
qed

lemma ex_reset: "\<exists>s'. reset_to_clean_snapshot quick_net ex_vm ''mast00'' ''clean'' ''192.168.56.20'' 3 900 True fresh_wire = (Inr (), s')"
  by (rule gives_run, rule gives_reset) (simp_all add: quick_net_def quiet_net_def ns_def)


section \<open>A run of the harness\<close>

definition ex_harness :: "string \<Rightarrow> int \<Rightarrow> harness_env" where
  "ex_harness addr rc = \<lparr>he_vm = ex_vm, he_repo = ''C:'', he_server = ''10.0.0.1'', he_discovery = Some (0, ''python'', []),
     he_build_script = True, he_process = \<lambda>n c. Inr (rc, [], []), he_staging = \<lambda>n d. None, he_lookup = \<lambda>n h. Inr addr,
     he_routed = \<lambda>h. Inr [], he_read = \<lambda>f. Inr [], he_get = \<lambda>n u. Inr [], he_fixed = \<lambda>d p q. int_str p, he_text = exc_name,
     he_polls = \<lambda>n. 0, he_stamp = \<lambda>n. ''20260701'', he_awake = None,
     he_creds = Inr [(''unit'', JObj [(''user'', JStr ''mast'')]), (''smb'', JObj [])]\<rparr>"

definition ex_harness_args :: "string option \<Rightarrow> harness_args" where
  "ex_harness_args phases = default_args\<lparr>ha_host_unit := ''mast00'', ha_phases := phases\<rparr>"

lemma ex_vm_exe [simp]: "vb_exe (he_vm (ex_harness addr rc)) = ''VBoxManage.exe''"
  by (simp add: ex_harness_def ex_vm_def)

lemma other_target_untouched_witness:
  "exit_status (fst (harness_main 0 quick_net (ex_harness ''10.0.0.5'' 0) (ex_harness_args None) fresh_wire)) = Some 1
   \<and> (\<exists>ls. w_acts (snd (harness_main 0 quick_net (ex_harness ''10.0.0.5'' 0) (ex_harness_args None) fresh_wire)) = w_acts fresh_wire @ map LogLine ls)"
  by (rule other_target_untouched) (simp_all add: ex_harness_def ex_harness_args_def default_args_def)

lemma failed_build_unnoticed_witness:
  "exit_status (fst (harness_main 0 quick_net (ex_harness ''192.168.56.20'' 1) (ex_harness_args (Some ''build'')) fresh_wire)) = Some 0"
proof (rule failed_build_unnoticed [where ms = "[''python'']" and account = "JObj [(''user'', JStr ''mast'')]" and smb = "JObj []"
    and addr = "''192.168.56.20''"])
  let ?E = "ex_harness ''192.168.56.20'' 1"
  let ?A = "ex_harness_args (Some ''build'')"
  show "resolve_phases ?A = Inr (Some [''build''])" by code_simp
  show "modules_of ?E ?A = Inr [''python'']" by code_simp
  show "can_build ?E ?A [''python'']"
  proof -
    have "all_modules ?E = Inr [''python'']" by code_simp
    then show ?thesis by (simp add: can_build_def build_command_def is_subset_def bind_res_def) (simp add: ex_harness_def)
  qed
  show "harness_creds ?E = Inr (JObj [(''user'', JStr ''mast'')], JObj [])"
    by (simp add: harness_creds_def ex_harness_def bind_res_def)
  show "he_lookup ?E n (ha_host_unit ?A) = Inr ''192.168.56.20''" for n by (simp add: ex_harness_def)
  show "is_dev_vm_address ''192.168.56.20''" by code_simp
qed

lemma one_cycle_never_resets_witness:
  "\<forall>args. Spawned (''VBoxManage.exe'' # args) \<notin> set (w_acts (snd (harness_main 0 quick_net (ex_harness ''192.168.56.20'' 1)
     (ex_harness_args (Some ''reset'')) fresh_wire)))"
proof (intro allI notI)
  fix args
  let ?E = "ex_harness ''192.168.56.20'' 1"
  assume "Spawned (''VBoxManage.exe'' # args)
    \<in> set (w_acts (snd (harness_main 0 quick_net ?E (ex_harness_args (Some ''reset'')) fresh_wire)))"
  then have "Spawned (''VBoxManage.exe'' # args) \<noteq> Spawned (vb_exe (he_vm ?E) # args)"
    using one_cycle_never_resets [where A = "ex_harness_args (Some ''reset'')" and E = ?E and s = fresh_wire, OF _ _ surjective_pairing]
    by (simp add: ex_harness_args_def default_args_def fresh_wire_def) blast
  then show False by simp
qed

section \<open>A run of the suite\<close>

definition ex_suite :: suite_env where
  "ex_suite = \<lparr>su_vm = ex_vm, su_python = ''python.exe'', su_script = ''run-prov-test.py'', su_vbox_there = True,
     su_script_there = True, su_prov = \<lambda>n args. Inr (0, []), su_commands = \<lambda>n h. None, su_staging_root = ''C:'',
     su_creds = Inr [(''unit'', JObj [(''user'', JStr ''mast'')])], su_text = exc_name, su_fixed = \<lambda>d p q. int_str p,
     su_float = int_str, su_trunc = \<lambda>t. Inl ValueError, su_stamp = \<lambda>n. ''20260701''\<rparr>"

definition ex_suite_args :: suite_args where
  "ex_suite_args = suite_defaults\<lparr>sa_scenario := Some ''full-provision'', sa_host_unit := Some ''192.168.56.20'', sa_skip_prereq := True\<rparr>"

definition full_provision :: scenario where
  "full_provision = hd SCENARIOS"

lemma full_provision [simp]: "sc_name full_provision = ''full-provision''" "sc_status full_provision = ''ACTIVE''"
    "sc_expected_rc full_provision = 0"
  by (simp_all add: full_provision_def SCENARIOS_def scenario_def)

lemma ex_chosen: "targets_of ex_suite_args = Some [full_provision]"
  by (simp add: targets_of_def ex_suite_args_def suite_defaults_def scenario_named_def full_provision_def SCENARIOS_def scenario_def)

lemma ends_attempt: "ends Q m \<Longrightarrow> ends (\<lambda>r. \<exists>x. r = Inr x \<and> Q x) (attempt m)"
  by (auto simp: ends_def attempt_def catchM_def bindM_def ret_def split: prod.splits sum.splits) (metis sum.inject(2) sum.distinct(1) prod.inject)+

lemma gives_catch: "gives m x \<Longrightarrow> gives (catchM m h) x"
  by (simp add: gives_def catchM_def split: prod.splits sum.splits) (metis fst_conv sum.inject(2) sum.distinct(1))

lemma ends_print [intro]: "ends (\<lambda>_. True) (print_all ls)"
  unfolding print_all_def by (rule ends_lines)

lemma ends_whenM: "ends (\<lambda>_. True) m \<Longrightarrow> ends (\<lambda>_. True) (whenM b m)"
  by (simp add: whenM_def ends_simple)

lemma ex_sub_run: "ends (\<lambda>r. fst r = 0) (run_prov_subprocess N ex_suite (run_of G host d) n args label)"
proof -
  have called: "gives (bindM (call N (Spawned args) (\<lambda>k. su_prov ex_suite k args)) (\<lambda>r. ret (Inr r))) (Inr (0, []))"
    unfolding call_def by (rule gives_bind [where x = "(0, [])"]) (auto simp: ex_suite_def intro!: giving)
  have lines: "ends (\<lambda>_. True) (whenM v (forM ls (\<lambda>l. emit (LogRaw l))))" for v ls
    by (intro ends_whenM ends_forM ends_simple)
  have log: "sx_log_dir (run_of G host d) = Some d" by (simp add: run_of_def)
  show ?thesis
    unfolding run_prov_subprocess_def Let_def log option.case
    by (rule ends_seq [OF ends_simple(3)], rule ends_bind [OF ends_simple(1)],
        rule ends_bind [OF gives_ends [OF gives_catch [OF called], of "\<lambda>r. r = Inr (0, [])"]], rule refl,
        simp only: sum.case prod.case, rule ends_seq [OF lines], rule ends_bind [OF ends_simple(1)],
        rule ends_seq [OF ends_simple(3)], rule ends_seq [OF ends_whenM [OF ends_print]], rule ends_ret) simp
qed

lemma ex_preflight: "ends (\<lambda>p. p = None) (preflight quick_net ex_suite X full_provision)"
proof -
  have block: "unit_block ex_suite = Inr ()" by (simp add: unit_block_def ex_suite_def bind_res_def)
  have "gives (attempt (seqM (liftR (unit_block ex_suite))
      (reset_to_clean_snapshot quick_net (su_vm ex_suite) vm sn host 3 WINRM_BOOT_TIMEOUT_S True))) (Inr ())" for vm sn host
    unfolding block unfolding ex_suite_def suite_env.simps
    by (rule gives_attempt, rule gives_seq [OF gives_lift [OF refl]], rule gives_reset) (simp_all add: quick_net_def quiet_net_def ns_def WINRM_BOOT_TIMEOUT_S_def)
  note reset = gives_ends [OF this, of "\<lambda>r. r = Inr ()"]
  show ?thesis
    unfolding preflight_def full_provision
    by (simp, rule ends_seq [OF ends_simple(3)], rule ends_bind [OF ends_simple(1)], rule ends_bind [OF reset], rule refl,
        rule ends_bind [OF ends_simple(1)]) (auto intro!: ends_seq [OF ends_simple(3)] ends_ret)
qed

lemma ex_scenario:
  "ends (\<lambda>r. rs_outcome r = ''PASS'') (suite_scenario fuel quick_net ex_suite G host dir i n full_provision rs)"
proof -
  have "ends (\<lambda>r. rs_outcome r = ''PASS'') (run_simple_scenario quick_net ex_suite (run_of G host d) full_provision)" for d
    unfolding run_simple_scenario_def Let_def finished_def
    by (rule ends_bind [OF ends_simple(1)], rule ends_bind [OF ex_sub_run], rule ends_bind [OF ends_simple(1)], rule ends_ret) simp
  note simple = ends_attempt [OF this]
  have runner: "runner_of fuel quick_net ex_suite X full_provision = Some (run_simple_scenario quick_net ex_suite X full_provision)" for X
    by (simp add: runner_of_def)
  have "ends (\<lambda>r. rs_outcome r = ''PASS'') (run_scenario fuel quick_net ex_suite (run_of G host d) full_provision)" for d
    unfolding run_scenario_def runner option.case
    by (simp, rule ends_bind [OF simple], rule ends_ret) auto
  then show ?thesis
    unfolding suite_scenario_def Let_def
    by (intro ends_seq [OF ends_print] ends_bind [OF ex_preflight]) (auto intro!: ends_bind [where R = "\<lambda>r. rs_outcome r = ''PASS''"] ends_seq [OF ends_print] ends_ret)
qed

lemma ex_suite_run: "\<exists>s'. suite_main 0 quick_net ex_suite ex_suite_args fresh_wire = (Inr 0, s')"
proof -
  have "ends (\<lambda>rs. \<exists>r. rs = [r] \<and> rs_outcome r = ''PASS'') (run_suite fuel quick_net ex_suite G host dir i n [full_provision] [])" for fuel G host dir i n
    by (auto intro!: ends_bind [OF ex_scenario] ends_ret)
  note suite = this
  have creds: "su_creds ex_suite = Inr [(''unit'', JObj [(''user'', JStr ''mast'')])]" by (simp add: ex_suite_def)
  have "ends (\<lambda>c. c = 0) (run_targets 0 quick_net ex_suite G host [full_provision])" for G host
    unfolding run_targets_def Let_def creds bind_known
    by (intro ends_bind [OF ends_simple(4)] ends_seq [OF ends_print] ends_seq [OF ends_simple(5)] ends_bind [OF suite]
        ends_seq [OF ends_simple(2)] ends_seq [OF ends_simple(3)] ends_ret) (auto simp: suite_exit_def bad_result_def)
  then have "ends (\<lambda>c. c = 0) (suite_main 0 quick_net ex_suite ex_suite_args)"
    unfolding suite_main_def ex_chosen by (auto simp: ex_suite_args_def suite_defaults_def intro!: ends_bind [OF ends_ret [of "\<lambda>e. e = []"]])
  then show ?thesis by (auto simp: ends_def)
qed

lemma suite_exit_honest_witness:
  "\<exists>r stamp path (s' :: wire). rs_name r = ''full-provision'' \<and> rs_outcome r = ''PASS''
     \<and> WroteFile path (suite_results_text ex_suite stamp [r]) \<in> set (w_acts s')"
proof -
  obtain s' where run: "suite_main 0 quick_net ex_suite ex_suite_args fresh_wire = (Inr 0, s')" using ex_suite_run by blast
  have live: "\<not> sa_list ex_suite_args" by (simp add: ex_suite_args_def suite_defaults_def)
  from suite_exit_honest [OF run live] obtain chosen rs stamp path where "targets_of ex_suite_args = Some chosen"
    and names: "map rs_name rs = map sc_name chosen" and active: "map rs_status rs = map sc_status chosen"
    and wrote: "WroteFile path (suite_results_text ex_suite stamp rs) \<in> set (w_acts s')"
    and code: "0 = (if list_all (\<lambda>r. rs_status r = ''ACTIVE'' \<longrightarrow> rs_outcome r = ''PASS'') rs then 0 else (1 :: int))"
    by - (elim disjE exE conjE, simp, rule that)
  then have one: "chosen = [full_provision]" by (simp add: ex_chosen)
  then obtain r where "rs = [r]" using names by (cases rs) auto
  then show ?thesis using names active wrote code one by (intro exI [of _ r] exI conjI) (simp_all split: if_splits)
qed

lemma sub_run_never_resets_witness:
  "\<exists>args A. replace_phases (build_prov_args ex_suite (run_of ex_suite_args ''192.168.56.20'' []) full_provision) ''reset'' = Inr args
    \<and> parse_args (drop 2 args) = Some A \<and> ha_phases A = Some ''reset''
    \<and> Spawned [''VBoxManage.exe'', ''snapshot''] \<notin> set (w_acts (snd (harness_main 0 quick_net (ex_harness ''192.168.56.20'' 0) A fresh_wire)))"
proof -
  let ?X = "run_of ex_suite_args ''192.168.56.20'' []"
  have "full_provision \<in> set SCENARIOS" by (simp add: full_provision_def SCENARIOS_def)
  moreover have "list_all is_value (passed_values ex_suite ?X)" and "is_value ''reset''"
    by (simp_all add: passed_values_def run_of_def ex_suite_def ex_suite_args_def suite_defaults_def is_value_def or_else_def)
  ultimately show ?thesis
    using sub_run_never_resets [of full_provision ex_suite ?X "''reset''" "ex_harness ''192.168.56.20'' 0" "[''snapshot'']" fresh_wire 0 quick_net]
    by (auto simp: fresh_wire_def)
qed

end
