(* ===== verification/Winrm_Flap.thy ===== *)
theory Winrm_Flap
  imports Prov_Prelude
begin

text \<open>
  \<open>server/prov/winrm_flap.py\<close>: the counts behind the one WINRM_LINK_FLAP line of a phase.
\<close>

record winrm_flap =
  interrupted :: nat
  restored :: nat
  other :: nat
  other_sample :: string
  total :: nat

definition is_interrupt :: "string \<Rightarrow> bool" where
  "is_interrupt m \<longleftrightarrow> contains ''interrupt'' (lower m)"

definition is_restore :: "string \<Rightarrow> bool" where
  "is_restore m \<longleftrightarrow> contains ''restore'' (lower m)"

text \<open>The loop, over the three counters and the sample.\<close>

fun flap_loop :: "string list \<Rightarrow> nat \<Rightarrow> nat \<Rightarrow> nat \<Rightarrow> string \<Rightarrow> winrm_flap" where
  "flap_loop [] i r ot sample =
     \<lparr>interrupted = i, restored = r, other = ot, other_sample = sample, total = i + r + ot\<rparr>"
| "flap_loop (m # ms) i r ot sample =
     (if strip m = [] then flap_loop ms i r ot sample
      else if is_interrupt m then flap_loop ms (i + 1) r ot sample
      else if is_restore m then flap_loop ms i (r + 1) ot sample
      else flap_loop ms i r (ot + 1) (if sample = [] then strip m else sample))"

definition measure_winrm_flap :: "string list \<Rightarrow> winrm_flap" where
  "measure_winrm_flap messages = flap_loop messages 0 0 0 []"

section \<open>Properties\<close>

definition unrecognised :: "string list \<Rightarrow> string list" where
  "unrecognised ms = filter (\<lambda>m. strip m \<noteq> [] \<and> \<not> is_interrupt m \<and> \<not> is_restore m) ms"

lemma flap_loop_counts:
  "flap_loop ms i r ot sample =
     (let i' = i + length (filter (\<lambda>m. strip m \<noteq> [] \<and> is_interrupt m) ms);
          r' = r + length (filter (\<lambda>m. strip m \<noteq> [] \<and> \<not> is_interrupt m \<and> is_restore m) ms);
          o' = ot + length (unrecognised ms)
      in \<lparr>interrupted = i', restored = r', other = o',
          other_sample = (if sample \<noteq> [] then sample
                          else case unrecognised ms of [] \<Rightarrow> [] | m # _ \<Rightarrow> strip m),
          total = i' + r' + o'\<rparr>)"
  by (induction ms arbitrary: i r ot sample)
     (auto simp: Let_def unrecognised_def split: list.splits)

lemma length_filter_split:
  "length (filter P xs) = length (filter (\<lambda>x. P x \<and> Q x) xs) + length (filter (\<lambda>x. P x \<and> \<not> Q x) xs)"
  by (induction xs) auto

text \<open>Every non-blank warning is counted exactly once, under interrupt first and restore next,
  and the sample is the first warning that is neither.\<close>

theorem flap_partition:
  "total (measure_winrm_flap ms) = length (filter (\<lambda>m. strip m \<noteq> []) ms)
   \<and> interrupted (measure_winrm_flap ms) = length (filter (\<lambda>m. strip m \<noteq> [] \<and> is_interrupt m) ms)
   \<and> other (measure_winrm_flap ms) = length (unrecognised ms)
   \<and> other_sample (measure_winrm_flap ms)
       = (case unrecognised ms of [] \<Rightarrow> [] | m # _ \<Rightarrow> strip m)"
proof -
  have "length (filter (\<lambda>m. strip m \<noteq> []) ms)
      = length (filter (\<lambda>m. strip m \<noteq> [] \<and> is_interrupt m) ms)
      + length (filter (\<lambda>m. strip m \<noteq> [] \<and> \<not> is_interrupt m \<and> is_restore m) ms)
      + length (unrecognised ms)"
    using length_filter_split [where P = "\<lambda>m. strip m \<noteq> []" and Q = is_interrupt and xs = ms]
      length_filter_split [where P = "\<lambda>m. strip m \<noteq> [] \<and> \<not> is_interrupt m" and Q = is_restore and xs = ms]
    by (simp add: unrecognised_def)
  then show ?thesis
    by (simp add: measure_winrm_flap_def flap_loop_counts Let_def)
qed

end
