(* ===== verification/Spec2Isabelle.thy ===== *)
theory Spec2Isabelle
  imports Asset_Manifest Blobstore Blobstore_Inv Blobstore_Props Bootstrap_Payload Drift Driver Driver_Deploy
    Driver_Example Driver_Guards Driver_Lease Driver_Order Driver_Phases Driver_Props Driver_Run
    Driver_Scripts Driver_Trace Driver_Wire Driver_World Effects Fleet_Bootstrap Fleet_Compare Fleet_Example
    Fleet_Gather Fleet_Gather_Props Fleet_Main Fleet_Props Fleet_Record Fleet_Render Fleet_Sections
    Focus_Check Focus_Props Git_Output
    Json_Round_Trip Local_Files Maintenance Os_Drift Os_Feed Os_Updates Payload Prov_Prelude Provision_Cli
    Py_Json Registry Relay Relay_Sync Remote_Script Remote_Script_Props Retention Run_Log Solve_Check Staging
    Transport_Answers Transport_Connect Transport_Encode Transport_Gives Transport_Held Transport_Net
    Transport_Props Transport_Ssh Transport_Text Transport_Winrm Tree_Integrity Vm_Compose Vm_Cycle Vm_Example
    Vm_Guard Vm_Harness Vm_Lib Vm_Once Vm_Props Vm_Report Vm_Reset Vm_Run Vm_Suite Vm_Verdict Winrm_Flap
begin

text \<open>
  The provisioning server of the MAST telescope units (\<open>src/server/prov\<close>), with the tools beside it
  (\<open>src/tools\<close>) and its test harness on a virtual machine (\<open>src/vm\<close>), modelled from the Python source and proved correct component by component.

  \<^bold>\<open>The program.\<close> One machine per site keeps the telescope units provisioned. A run of the driver
  (\<open>driver.py\<close>) goes over the registered units: it connects to one (\<open>transport.py\<close>, over SSH or
  WinRM), reads the manifest the unit recorded, compares it with the build (\<open>drift.py\<close>), and, when
  something is to be done and the maintenance window allows it, builds the payload, takes the lease of
  the unit, lets the unit pull the payload and verifies the transfer, starts the run on the unit and
  polls it, checks its traces and gives the lease back. At a site with a relay the payload goes to a
  content-addressed store there first (\<open>relay.py\<close> drives \<open>tools/blobstore.py\<close> on the relay). Before
  a run the working tree is checked against its commit (\<open>tree_integrity.py\<close>). Beside that stand the
  manifest of the vendored assets, the bootstrap payload, the Windows update baselines and their
  assessment, the report over the fleet (\<open>tools/fleet-drift-report.py\<close>) and a tool that runs one
  script on a unit (\<open>tools/run-remote-script-winrm.py\<close>). The provisioning of a unit is tried out on a
  VirtualBox machine: \<open>vm/run-prov-test.py\<close> builds, transfers, runs and verifies in cycles over the same
  transport, and \<open>vm/test-suite.py\<close> strings runs of it together into scenarios.

  \<^bold>\<open>Foundations.\<close> \<^theory_text>\<open>Prov_Prelude\<close>: strings, dictionaries, sorting, exceptions as values of \<open>pyexc\<close> and
  results as a sum. \<^theory_text>\<open>Py_Json\<close> and \<^theory_text>\<open>Json_Round_Trip\<close>: JSON values, Python's operations on them, the
  printer and the parser, and that what is printed reads back and what is read is well formed.
  \<^theory_text>\<open>Effects\<close>: the state and exception monad of all stateful code, with triples, invariants that programs
  keep, and inversion rules. \<^theory_text>\<open>Local_Files\<close>, \<^theory_text>\<open>Git_Output\<close>: files of the server, bytes that git prints.

  \<^bold>\<open>Components, theories and source files.\<close>
  \<^item> \<^theory_text>\<open>Drift\<close> (\<open>drift.py\<close>): \<open>classify\<close> and the verdict on each module. When a unit is current; what a run
    that repairs its targets achieves; on which manifests nothing is raised.
  \<^item> \<^theory_text>\<open>Payload\<close>, \<^theory_text>\<open>Staging\<close>, \<^theory_text>\<open>Retention\<close>, \<^theory_text>\<open>Maintenance\<close>, \<^theory_text>\<open>Winrm_Flap\<close>, \<^theory_text>\<open>Registry\<close> (the files of these
    names): what a targeted run leaves out, the size of the staging tree as a graph with junctions, the
    runs that are removed, the window with its wrap around midnight, and the registry of the units.
  \<^item> \<^theory_text>\<open>Blobstore\<close> (\<open>tools/blobstore.py\<close>) over a file system of inodes, with its invariant in
    \<^theory_text>\<open>Blobstore_Inv\<close> and the commands' exact effects in \<^theory_text>\<open>Blobstore_Props\<close>: content addressing is kept,
    assembling gives exactly the manifest, snapshots never change, collection drops only what nothing
    links.
  \<^item> \<^theory_text>\<open>Relay\<close>, \<^theory_text>\<open>Relay_Sync\<close> (\<open>relay.py\<close>): the sites, the commands and the sync; the relay serves the
    manifest when the sync reports success, by running the blobstore model at the other end.
  \<^item> \<^theory_text>\<open>Driver_World\<close>, \<^theory_text>\<open>Driver_Phases\<close>, \<^theory_text>\<open>Driver_Deploy\<close>, \<^theory_text>\<open>Driver\<close> (\<open>driver.py\<close>): the state of a run, the
    answers of the world as functions of a question's number, each phase, a unit and the run; the
    scripts it sends in \<^theory_text>\<open>Driver_Scripts\<close> and what survives their quoting in \<^theory_text>\<open>Driver_Wire\<close>. The theorems
    rest on traces of what was done (\<^theory_text>\<open>Driver_Trace\<close>, \<^theory_text>\<open>Driver_Guards\<close>, \<^theory_text>\<open>Driver_Order\<close>, \<^theory_text>\<open>Driver_Lease\<close>) and
    are stated in \<^theory_text>\<open>Driver_Props\<close> and \<^theory_text>\<open>Driver_Run\<close>: order and guards of the changes, the lease, the exit
    code, the supervised loop. \<^theory_text>\<open>Driver_Example\<close> is a concrete world for the witnesses. \<^theory_text>\<open>Provision_Cli\<close>
    (\<open>check_and_provision.py\<close>) is the command around it.
  \<^item> \<^theory_text>\<open>Transport_Text\<close>, \<^theory_text>\<open>Transport_Encode\<close>, \<^theory_text>\<open>Transport_Answers\<close>, \<^theory_text>\<open>Transport_Net\<close>, \<^theory_text>\<open>Transport_Ssh\<close>,
    \<^theory_text>\<open>Transport_Winrm\<close>, \<^theory_text>\<open>Transport_Connect\<close> (\<open>transport.py\<close>): literals and encodings, the cleaning of
    answers, the network as a state with a clock and a timeline, sessions, runs, uploads, retries, the
    watchdog, and reaching a unit. \<^theory_text>\<open>Transport_Gives\<close>: rules for what a program always returns. \<^theory_text>\<open>Transport_Held\<close>: nothing stays open. \<^theory_text>\<open>Transport_Props\<close>: what the
    receive loop returns, how often a script is sent, that every wait ends.
  \<^item> \<^theory_text>\<open>Tree_Integrity\<close> (\<open>tree_integrity.py\<close>), \<^theory_text>\<open>Asset_Manifest\<close> (\<open>asset_manifest.py\<close>),
    \<^theory_text>\<open>Bootstrap_Payload\<close> (\<open>bootstrap_payload.py\<close>), \<^theory_text>\<open>Os_Feed\<close> and \<^theory_text>\<open>Os_Updates\<close> (\<open>os_updates.py\<close>),
    \<^theory_text>\<open>Os_Drift\<close> (\<open>os_drift.py\<close>), \<^theory_text>\<open>Run_Log\<close> (\<open>logevents.py\<close>): which files are reported, the shape of the
    manifest, verified bytes, baselines that load back, the baseline a unit is measured against, the
    activity table that reads back.
  \<^item> \<^theory_text>\<open>Fleet_Record\<close>, \<^theory_text>\<open>Fleet_Gather\<close>, \<^theory_text>\<open>Fleet_Compare\<close>, \<^theory_text>\<open>Fleet_Bootstrap\<close>, \<^theory_text>\<open>Fleet_Render\<close>,
    \<^theory_text>\<open>Fleet_Sections\<close>, \<^theory_text>\<open>Fleet_Main\<close> (\<open>tools/fleet-drift-report.py\<close>): what a unit is asked and how its
    answer is read, the comparisons, every section of the text, the command. \<^theory_text>\<open>Fleet_Gather_Props\<close>: a gather
    sends nothing else. \<^theory_text>\<open>Fleet_Props\<close>, \<^theory_text>\<open>Fleet_Example\<close>: saved records give the same report, the exit code
    and the last line agree, and where the report's verdict is the driver's.
  \<^item> \<^theory_text>\<open>Remote_Script\<close>, \<^theory_text>\<open>Remote_Script_Props\<close> (\<open>tools/run-remote-script-winrm.py\<close>): the order of what is
    sent, and that the wait for the unit ends.
  \<^item> \<^theory_text>\<open>Solve_Check\<close> (\<open>providers/mast-validation/validate_mastrometry.py\<close>) and \<^theory_text>\<open>Focus_Check\<close>
    (\<open>providers/mast-autofocus-validation/validate_autofocus_solve.py\<close>): the two validations of a unit's
    own software. When the marker is written; \<^theory_text>\<open>Focus_Props\<close>: what a pass means, and that the server that
    was started is stopped.
  \<^item> \<^theory_text>\<open>Vm_Lib\<close> (\<open>vm/vm_lib.py\<close>), \<^theory_text>\<open>Vm_Harness\<close>, \<^theory_text>\<open>Vm_Cycle\<close>, \<^theory_text>\<open>Vm_Run\<close> (\<open>vm/run-prov-test.py\<close>: the phases,
    the verdict, the cycles and the command), \<^theory_text>\<open>Vm_Suite\<close>, \<^theory_text>\<open>Vm_Report\<close> (\<open>vm/test-suite.py\<close>: the scenarios,
    the reporter and the command). \<^theory_text>\<open>Vm_Guard\<close>: a target that is not the test machine is left alone.
    \<^theory_text>\<open>Vm_Once\<close>, \<^theory_text>\<open>Vm_Reset\<close>: when VirtualBox is called at all, and in which order a recovery calls it.
    \<^theory_text>\<open>Vm_Compose\<close>: the command line of a sub-run of the suite as the harness reads it, and what follows.
    \<^theory_text>\<open>Vm_Props\<close>: what the exit code counts, and the failed build it does not see. \<^theory_text>\<open>Vm_Verdict\<close>: what the
    exit code of the suite says. \<^theory_text>\<open>Vm_Example\<close>: a concrete machine, harness and suite for the witnesses.

  \<^bold>\<open>Interfaces.\<close> The locale \<open>timed_loop\<close> (\<^theory_text>\<open>Transport_Net\<close>) is the contract of a loop that watches a
  deadline; it is interpreted on every such loop of the source, and the termination theorems rest on
  those instances. \<open>step_logic\<close>, \<open>phase_logic\<close> and \<open>unit_logic\<close> (\<^theory_text>\<open>Driver_Trace\<close>) carry a relation on the
  driver's states from its primitive acts to phases and to a whole unit; they are interpreted once for
  each relation the claims are about. \<open>relay_link\<close> (\<^theory_text>\<open>Relay_Sync\<close>) is what the server relies on of the
  relay's shell, interpreted on the blobstore commands.

  \<^bold>\<open>Fuel.\<close> A loop that ends by its deadline gets as many passes as the deadline holds of its shortest
  pass: \<open>ssh_fuel\<close> ten a second (a tenth of a second each), \<open>wait_fuel\<close> one for each five seconds,
  \<open>RECONNECT_FUEL\<close> one a second, \<open>POLL_FUEL\<close> one for each poll interval, \<open>ready_fuel\<close> one for each poll
  or fifth of a second; the theorems show that they are enough. A wait for a command without a deadline
  (the gather of the report, a WinRM receive, the log poller and the diagnostics of the test harness) may
  never end in the source either: there the fuel is an argument, none is the result of a run that is still going, and the theorems hold for every fuel.

  \<^bold>\<open>What is a parameter.\<close> paramiko, pywinrm, sockets, git, the clock, file access on other machines,
  VBoxManage and other local processes, the validation library of the configuration files, HTTP, rsync
  and the texts of library exceptions: functions of a question's number, so that a theorem holds for all of their behaviours. Documented
  behaviour that a theorem needs is a hypothesis of it (what git prints, in \<^theory_text>\<open>Tree_Integrity\<close>).

  \<^bold>\<open>Simplifications.\<close> A character is one of the first 256 code points, and a byte string is the text of
  its bytes. A floating-point number is kept as its text; durations are in nanoseconds, rounded where
  the source rounds. Writing a local log or status file succeeds. The server's files are a flat
  dictionary of paths. The lines of the watchdog are put after the effects of the call it watches, and
  one reading of a channel until it is empty is one answer. In the driver the transport is a function
  of its environment; the two are connected by the texts of the scripts. What the commands print on the
  terminal is left out, save for the report of the fleet, whose text is its result, and the lines of the
  remote-script tool; Ctrl-C is left out. Records of a saved gather with ill-typed fields are errors at
  once, where Python finds them when they are used. What the harness and the suite print is their
  timeline; the passes of the harness's log poller are put after the call they stream, the heartbeat of a
  sub-run of the suite is left out, and the modules of the repository are asked for once. The command line
  of the harness is read as far as options are written out (no abbreviations, no \<open>--option=value\<close>).

  \<^bold>\<open>Not modelled.\<close> The PowerShell that runs on the units and builds the payload. The Python side's only
  view of it is its output.
\<close>

end
